(* ===== verification/Prelude.thy ===== *)
theory Prelude
  imports Main "HOL-Library.Char_ord" "HOL-Library.List_Lexorder" "HOL-Library.Product_Lexorder"
begin

text \<open>
  Shared ground of the PeridotID development: the error type of the NestJS services, the
  JavaScript primitives the TypeScript sources use (BigInt division, decimal printing and
  parsing, \<^verbatim>\<open>trim\<close>, \<^verbatim>\<open>toLowerCase\<close>, \<^verbatim>\<open>join\<close>, insertion-ordered \<^verbatim>\<open>Map\<close>), the interface of a
  state machine whose operations keep an invariant, and the lemma collection
  \<open>js_simps\<close> (string and number primitives).
  Strings are lists of 8-bit characters: the identifiers, keys and amounts the modelled code
  handles are ASCII.
\<close>

named_theorems js_simps

section \<open>Errors of the services\<close>

text \<open>The exceptions the services raise, by HTTP status; \<open>JsError\<close> is a plain \<^verbatim>\<open>Error\<close> and
  \<open>UniqueViolation\<close> the Prisma error P2002.\<close>

datatype http_error =
    BadRequest string
  | Forbidden string
  | NotFound string
  | Conflict string
  | Unprocessable string
  | ServiceUnavailable string
  | ProviderError nat string
  | JsError string
  | UniqueViolation

type_synonym 'a result = "http_error + 'a"

fun bind_result :: "'e + 'a \<Rightarrow> ('a \<Rightarrow> 'e + 'b) \<Rightarrow> 'e + 'b" where
  "bind_result (Inl e) f = Inl e"
| "bind_result (Inr a) f = f a"

definition guard_result :: "bool \<Rightarrow> 'e \<Rightarrow> 'e + unit" where
  "guard_result ok e = (if ok then Inr () else Inl e)"

lemma bind_result_Inr [simp]:
  "bind_result m f = Inr b \<longleftrightarrow> (\<exists>a. m = Inr a \<and> f a = Inr b)"
  by (cases m) auto

lemma bind_result_Inl:
  "bind_result m f = Inl e \<longleftrightarrow> m = Inl e \<or> (\<exists>a. m = Inr a \<and> f a = Inl e)"
  by (cases m) auto

lemma guard_result_Inr [simp]: "guard_result ok e = Inr u \<longleftrightarrow> ok"
  by (simp add: guard_result_def)

lemma guard_result_Inl [simp]: "guard_result ok e = Inl e' \<longleftrightarrow> \<not> ok \<and> e' = e"
  by (auto simp: guard_result_def)

definition is_ok :: "'e + 'a \<Rightarrow> bool" where
  "is_ok r = (case r of Inl _ \<Rightarrow> False | Inr _ \<Rightarrow> True)"

lemma is_ok_simps [simp]: "is_ok (Inr a)" "\<not> is_ok (Inl e)"
  by (simp_all add: is_ok_def)

text \<open>\<^verbatim>\<open>x ?? d\<close>: the nullish default.\<close>

definition nullish :: "'a option \<Rightarrow> 'a \<Rightarrow> 'a" where
  "nullish x d = (case x of None \<Rightarrow> d | Some v \<Rightarrow> v)"

lemma nullish_simps [simp]: "nullish None d = d" "nullish (Some v) d = v"
  by (simp_all add: nullish_def)

text \<open>\<^verbatim>\<open>x ?? y\<close> where the right side is itself nullable.\<close>

definition or_else :: "'a option \<Rightarrow> 'a option \<Rightarrow> 'a option" where
  "or_else x y = (case x of None \<Rightarrow> y | Some v \<Rightarrow> Some v)"

lemma or_else_simps [simp]: "or_else None y = y" "or_else (Some v) y = Some v"
  by (simp_all add: or_else_def)

section \<open>Numbers\<close>

text \<open>BigInt division truncates towards zero.\<close>

definition bigdiv :: "int \<Rightarrow> int \<Rightarrow> int" where
  "bigdiv a b = sgn a * sgn b * (\<bar>a\<bar> div \<bar>b\<bar>)"

lemma bigdiv_nonneg [js_simps]: "0 \<le> a \<Longrightarrow> 0 < b \<Longrightarrow> bigdiv a b = a div b"
  by (cases "a = 0") (auto simp: bigdiv_def sgn_if)

lemma bigdiv_ge_0: "0 \<le> a \<Longrightarrow> 0 < b \<Longrightarrow> 0 \<le> bigdiv a b"
  by (simp add: bigdiv_nonneg pos_imp_zdiv_nonneg_iff)

text \<open>\<^verbatim>\<open>Number.MAX_SAFE_INTEGER\<close>.\<close>

definition max_safe_integer :: int where
  "max_safe_integer = 9007199254740991"

section \<open>Decimal digits\<close>

definition digit_char :: "nat \<Rightarrow> char" where
  "digit_char d = char_of (48 + d)"

definition digit_val :: "char \<Rightarrow> nat" where
  "digit_val c = of_char c - 48"

definition is_digit :: "char \<Rightarrow> bool" where
  "is_digit c \<longleftrightarrow> 48 \<le> (of_char c :: nat) \<and> (of_char c :: nat) \<le> 57"

text \<open>\<^verbatim>\<open>/^\\d+$/\<close>.\<close>

definition all_digits :: "string \<Rightarrow> bool" where
  "all_digits s \<longleftrightarrow> s \<noteq> [] \<and> list_all is_digit s"

definition nat_of_digits :: "string \<Rightarrow> nat" where
  "nat_of_digits s = foldl (\<lambda>acc c. acc * 10 + digit_val c) 0 s"

fun show_nat :: "nat \<Rightarrow> string" where
  "show_nat n = (if n < 10 then [digit_char n] else show_nat (n div 10) @ [digit_char (n mod 10)])"

declare show_nat.simps [simp del]

text \<open>\<^verbatim>\<open>BigInt.prototype.toString\<close>.\<close>

definition show_int :: "int \<Rightarrow> string" where
  "show_int i = (if i < 0 then CHR ''-'' # show_nat (nat (- i)) else show_nat (nat i))"

lemma digit_val_char: "d < 10 \<Longrightarrow> digit_val (digit_char d) = d"
  by (simp add: digit_val_def digit_char_def)

lemma is_digit_char: "d < 10 \<Longrightarrow> is_digit (digit_char d)"
  by (simp add: is_digit_def digit_char_def)

lemma digit_char_eval [js_simps]:
  "digit_char 0 = CHR ''0''" "digit_char (Suc 0) = CHR ''1''" "digit_char 1 = CHR ''1''"
  "digit_char 2 = CHR ''2''" "digit_char 3 = CHR ''3''" "digit_char 4 = CHR ''4''"
  "digit_char 5 = CHR ''5''" "digit_char 6 = CHR ''6''" "digit_char 7 = CHR ''7''"
  "digit_char 8 = CHR ''8''" "digit_char 9 = CHR ''9''"
  by (simp_all add: digit_char_def char_of_def bit_0)

lemma all_digits_show_nat [simp]: "all_digits (show_nat n)"
proof (induction n rule: show_nat.induct)
  case (1 n)
  then show ?case
    by (cases "n < 10") (auto simp: all_digits_def is_digit_char show_nat.simps [of n])
qed

lemma nat_of_digits_snoc: "nat_of_digits (s @ [c]) = nat_of_digits s * 10 + digit_val c"
  by (simp add: nat_of_digits_def)

lemma nat_of_digits_show_nat [simp]: "nat_of_digits (show_nat n) = n"
proof (induction n rule: show_nat.induct)
  case (1 n)
  show ?case
  proof (cases "n < 10")
    case True
    then show ?thesis
      by (simp add: show_nat.simps [of n] nat_of_digits_def digit_val_char)
  next
    case False
    with 1 have "nat_of_digits (show_nat (n div 10)) = n div 10" by simp
    with False show ?thesis
      by (simp add: show_nat.simps [of n] nat_of_digits_snoc digit_val_char)
  qed
qed

lemma show_nat_inject [simp]: "show_nat a = show_nat b \<longleftrightarrow> a = b"
  by (metis nat_of_digits_show_nat)

lemma show_int_nonneg [simp]: "0 \<le> i \<Longrightarrow> show_int i = show_nat (nat i)"
  by (simp add: show_int_def)

lemma all_digits_not_minus: "all_digits s \<Longrightarrow> hd s \<noteq> CHR ''-''"
  by (cases s) (auto simp: all_digits_def is_digit_def)

lemma show_int_inject [simp]: "show_int a = show_int b \<longleftrightarrow> a = b"
proof
  assume eq: "show_int a = show_int b"
  have h: "hd (show_nat n) \<noteq> CHR ''-''" for n
    by (rule all_digits_not_minus) simp
  then have h2: "show_nat n \<noteq> CHR ''-'' # s" for n s
    by (metis list.sel(1))
  show "a = b"
    using eq h2 h2 [symmetric] by (auto simp: show_int_def split: if_splits)
qed simp

lemma show_nat_chars: "c \<in> set (show_nat n) \<Longrightarrow> is_digit c"
  using all_digits_show_nat [of n] by (auto simp: all_digits_def list_all_iff)

section \<open>Strings\<close>

definition to_lower_char :: "char \<Rightarrow> char" where
  "to_lower_char c =
     (if 65 \<le> (of_char c :: nat) \<and> (of_char c :: nat) \<le> 90 then char_of ((of_char c :: nat) + 32) else c)"

definition to_upper_char :: "char \<Rightarrow> char" where
  "to_upper_char c =
     (if 97 \<le> (of_char c :: nat) \<and> (of_char c :: nat) \<le> 122 then char_of ((of_char c :: nat) - 32) else c)"

definition to_lower :: "string \<Rightarrow> string" where
  "to_lower s = map to_lower_char s"

definition to_upper :: "string \<Rightarrow> string" where
  "to_upper s = map to_upper_char s"

definition is_space :: "char \<Rightarrow> bool" where
  "is_space c \<longleftrightarrow> (9 \<le> (of_char c :: nat) \<and> (of_char c :: nat) \<le> 13) \<or> of_char c = (32 :: nat) \<or> of_char c = (160 :: nat)"

definition trim :: "string \<Rightarrow> string" where
  "trim s = rev (dropWhile is_space (rev (dropWhile is_space s)))"

lemma is_digit_not_space: "is_digit c \<Longrightarrow> \<not> is_space c"
  by (auto simp: is_digit_def is_space_def)

lemma trim_no_space:
  assumes "s \<noteq> []" "\<not> is_space (hd s)" "\<not> is_space (last s)"
  shows "trim s = s"
proof -
  have "dropWhile is_space s = s" using assms(1,2) by (cases s) auto
  moreover have "dropWhile is_space (rev s) = rev s"
    using assms(1,3) by (cases "rev s") (auto simp: last_rev hd_rev [symmetric])
  ultimately show ?thesis by (simp add: trim_def)
qed

lemma to_lower_char_idem [simp]: "to_lower_char (to_lower_char c) = to_lower_char c"
  by (auto simp: to_lower_char_def)

lemma to_lower_idem [simp]: "to_lower (to_lower s) = to_lower s"
  by (simp add: to_lower_def)

lemma dropWhile_rev_dropWhile:
  "dropWhile P (rev (dropWhile P (rev (dropWhile P s)))) = rev (dropWhile P (rev (dropWhile P s)))"
proof (cases "dropWhile P s")
  case (Cons x xs)
  then have nP: "\<not> P x" by (metis hd_dropWhile list.distinct(1) list.sel(1))
  have "dropWhile P (rev (x # xs)) = dropWhile P (rev xs) @ [x]"
    using nP by (simp add: dropWhile_append dropWhile_eq_Nil_conv)
  then show ?thesis using Cons nP by simp
next
  case Nil
  show ?thesis unfolding Nil by simp
qed

lemma dropWhile_idem: "dropWhile P (dropWhile P s) = dropWhile P s"
  by (induction s) auto

lemma trim_idem [simp]: "trim (trim s) = trim s"
  unfolding trim_def by (simp add: dropWhile_rev_dropWhile dropWhile_idem)

lemma is_space_to_lower [simp]: "is_space (to_lower_char c) = is_space c"
  by (auto simp: is_space_def to_lower_char_def)

lemma trim_to_lower: "trim (to_lower s) = to_lower (trim s)"
  by (simp add: trim_def to_lower_def dropWhile_map rev_map comp_def)

text \<open>The canonical form of an identity id, \<^verbatim>\<open>x.trim().toLowerCase()\<close>, is a fixed point.\<close>

lemma canon_idem [js_simps]: "to_lower (trim (to_lower (trim s))) = to_lower (trim s)"
  by (simp add: trim_to_lower)

section \<open>Array join\<close>

fun join :: "string \<Rightarrow> string list \<Rightarrow> string" where
  "join sep [] = []"
| "join sep [x] = x"
| "join sep (x # y # xs) = x @ sep @ join sep (y # xs)"

section \<open>String split\<close>

fun split_on :: "char \<Rightarrow> string \<Rightarrow> string list" where
  "split_on c [] = [[]]"
| "split_on c (x # xs) =
     (if x = c then [] # split_on c xs
      else case split_on c xs of [] \<Rightarrow> [[x]] | w # ws \<Rightarrow> (x # w) # ws)"

lemma split_on_not_Nil [simp]: "split_on c s \<noteq> []"
  by (induction s) (auto split: list.splits)

lemma split_on_none: "c \<notin> set s \<Longrightarrow> split_on c s = [s]"
  by (induction s) auto

lemma split_on_append: "c \<notin> set s \<Longrightarrow> split_on c (s @ c # r) = s # split_on c r"
  by (induction s) auto

lemma split_on_join: "xs \<noteq> [] \<Longrightarrow> (\<And>x. x \<in> set xs \<Longrightarrow> c \<notin> set x) \<Longrightarrow> split_on c (join [c] xs) = xs"
proof (induction xs rule: induct_list012)
  case (3 x y zs)
  then show ?case using split_on_append [of c x "join [c] (y # zs)"] by simp
qed (simp_all add: split_on_none)

text \<open>Two lists of the same length whose parts avoid the separator are equal when they join
  to the same string.\<close>

lemma append_sep_inject:
  assumes "c \<notin> set xs" "c \<notin> set ys" "xs @ c # us = ys @ c # vs"
  shows "xs = ys \<and> us = vs"
  using assms
proof (induction xs arbitrary: ys)
  case Nil
  then show ?case by (cases ys) auto
next
  case (Cons a xs)
  then show ?case by (cases ys) auto
qed

lemma join_inject:
  assumes "length xs = length ys"
    and "\<forall>x \<in> set xs. c \<notin> set x" "\<forall>y \<in> set ys. c \<notin> set y"
    and "join [c] xs = join [c] ys"
  shows "xs = ys"
  using assms
proof (induction xs ys rule: list_induct2)
  case Nil
  then show ?case by simp
next
  case (Cons x xs y ys)
  note hyps = Cons.hyps and IH = Cons.IH and prems = Cons.prems
  show ?case
  proof (cases xs)
    case Nil
    then have "ys = []" using hyps by simp
    with Nil prems show ?thesis by simp
  next
    case (Cons x2 xs2)
    with hyps obtain y2 ys2 where ys: "ys = y2 # ys2" by (cases ys) auto
    have "x @ c # join [c] xs = y @ c # join [c] ys"
      using prems(3) Cons ys by simp
    moreover have "c \<notin> set x" "c \<notin> set y" using prems by auto
    ultimately have "x = y \<and> join [c] xs = join [c] ys"
      by (metis append_sep_inject)
    then have xy: "x = y" and tl: "join [c] xs = join [c] ys"
      by blast+
    have "xs = ys"
      using prems(1,2) tl by (intro IH) auto
    with xy show ?thesis by simp
  qed
qed

section \<open>Insertion-ordered maps\<close>

text \<open>A JavaScript \<^verbatim>\<open>Map\<close> iterates in insertion order and \<^verbatim>\<open>set\<close> on a present key keeps its place:
  an association list with distinct keys.\<close>

type_synonym ('k, 'v) jsmap = "('k \<times> 'v) list"

fun jsmap_set :: "'k \<Rightarrow> 'v \<Rightarrow> ('k, 'v) jsmap \<Rightarrow> ('k, 'v) jsmap" where
  "jsmap_set k v [] = [(k, v)]"
| "jsmap_set k v ((k', v') # m) = (if k = k' then (k, v) # m else (k', v') # jsmap_set k v m)"

abbreviation jsmap_get :: "('k, 'v) jsmap \<Rightarrow> 'k \<Rightarrow> 'v option" where
  "jsmap_get \<equiv> map_of"

definition jsmap_delete :: "'k \<Rightarrow> ('k, 'v) jsmap \<Rightarrow> ('k, 'v) jsmap" where
  "jsmap_delete k m = filter (\<lambda>(k', _). k' \<noteq> k) m"

text \<open>What the clients of a map rely on.\<close>

locale keyed_store =
  fixes get :: "'m \<Rightarrow> 'k \<Rightarrow> 'v option"
    and put :: "'k \<Rightarrow> 'v \<Rightarrow> 'm \<Rightarrow> 'm"
    and drop_key :: "'k \<Rightarrow> 'm \<Rightarrow> 'm"
    and empty :: 'm
    and valid :: "'m \<Rightarrow> bool"
  assumes get_empty: "get empty k = None"
    and get_put: "valid m \<Longrightarrow> get (put k v m) k' = (if k' = k then Some v else get m k')"
    and get_drop: "valid m \<Longrightarrow> get (drop_key k m) k' = (if k' = k then None else get m k')"
    and valid_empty: "valid empty"
    and valid_put: "valid m \<Longrightarrow> valid (put k v m)"
    and valid_drop: "valid m \<Longrightarrow> valid (drop_key k m)"
begin

lemma put_put: "valid m \<Longrightarrow> get (put k v (put k w m)) k' = get (put k v m) k'"
  by (simp add: get_put valid_put)

lemma put_commute:
  "valid m \<Longrightarrow> k \<noteq> j \<Longrightarrow> get (put k v (put j w m)) x = get (put j w (put k v m)) x"
  by (simp add: get_put valid_put)

lemma drop_put: "valid m \<Longrightarrow> get (drop_key k (put k v m)) x = get (drop_key k m) x"
  by (simp add: get_put get_drop valid_put)

end

lemma jsmap_get_set: "jsmap_get (jsmap_set k v m) k' = (if k' = k then Some v else jsmap_get m k')"
  by (induction m) auto

lemma jsmap_set_keys: "fst ` set (jsmap_set k v m) = insert k (fst ` set m)"
  by (induction m) force+

lemma distinct_jsmap_set: "distinct (map fst m) \<Longrightarrow> distinct (map fst (jsmap_set k v m))"
proof (induction m)
  case (Cons p m)
  then show ?case by (cases p) (use jsmap_set_keys [of k v m] in auto)
qed simp

lemma jsmap_get_delete:
  "jsmap_get (jsmap_delete k m) k' = (if k' = k then None else jsmap_get m k')"
  by (induction m) (auto simp: jsmap_delete_def)

lemma distinct_jsmap_delete: "distinct (map fst m) \<Longrightarrow> distinct (map fst (jsmap_delete k m))"
  by (induction m) (auto simp: jsmap_delete_def)

interpretation jsmap: keyed_store map_of jsmap_set jsmap_delete "[]" "\<lambda>m. distinct (map fst m)"
  by unfold_locales
    (auto simp: jsmap_get_set jsmap_get_delete distinct_jsmap_set distinct_jsmap_delete)

lemma sum_list_jsmap_set:
  fixes f :: "'v \<Rightarrow> int"
  shows "distinct (map fst m) \<Longrightarrow>
    sum_list (map (\<lambda>(_, w). f w) (jsmap_set k v m))
    = sum_list (map (\<lambda>(_, w). f w) m) + f v - (case jsmap_get m k of None \<Rightarrow> 0 | Some w \<Rightarrow> f w)"
proof (induction m)
  case (Cons p m)
  then show ?case by (cases p) auto
qed simp

section \<open>JSON columns\<close>

text \<open>The value of a \<^verbatim>\<open>Json\<close> column; an object keeps the order of its keys.\<close>

datatype json = JNull | JBool bool | JNum int | JStr string | JArr "json list" | JObj "(string \<times> json) list"

text \<open>\<^verbatim>\<open>((v ?? {}) as Record<string, unknown>)[k]\<close>: anything but an object has no key.\<close>

fun json_get :: "json option \<Rightarrow> string \<Rightarrow> json option" where
  "json_get (Some (JObj kvs)) k = jsmap_get kvs k"
| "json_get _ k = None"

text \<open>\<^verbatim>\<open>{ ...v, k: x }\<close>.\<close>

fun json_with :: "json option \<Rightarrow> string \<Rightarrow> json \<Rightarrow> json" where
  "json_with (Some (JObj kvs)) k x = JObj (jsmap_set k x kvs)"
| "json_with _ k x = JObj [(k, x)]"

definition json_string :: "json option \<Rightarrow> string option" where
  "json_string v = (case v of Some (JStr x) \<Rightarrow> Some x | _ \<Rightarrow> None)"

definition json_number :: "json option \<Rightarrow> int option" where
  "json_number v = (case v of Some (JNum x) \<Rightarrow> Some x | _ \<Rightarrow> None)"

definition json_opt_string :: "string option \<Rightarrow> json" where
  "json_opt_string v = (case v of None \<Rightarrow> JNull | Some x \<Rightarrow> JStr x)"

section \<open>Services as machines that keep an invariant\<close>

text \<open>Every stateful service is a step function over its operations. What its operations keep
  one by one, every sequence of them keeps.\<close>

locale service_machine =
  fixes step :: "'op \<Rightarrow> 's \<Rightarrow> 's"
    and inv :: "'s \<Rightarrow> bool"
  assumes step_inv: "inv s \<Longrightarrow> inv (step op s)"
begin

lemma run_inv: "inv s \<Longrightarrow> inv (fold step ops s)"
  by (induction ops arbitrary: s) (auto simp: step_inv)

lemma run_prefix_inv: "inv s \<Longrightarrow> inv (fold step (take n ops) s)"
  by (rule run_inv)

end

text \<open>A machine in which a relation between the state before and the state after holds of every
  step, and is a preorder, relates the two ends of every run.\<close>

locale monotone_machine = service_machine +
  fixes grows :: "'s \<Rightarrow> 's \<Rightarrow> bool"
  assumes grows_refl: "grows s s"
    and grows_trans: "grows s t \<Longrightarrow> grows t u \<Longrightarrow> grows s u"
    and step_grows: "inv s \<Longrightarrow> grows s (step op s)"
begin

lemma run_grows: "inv s \<Longrightarrow> grows s (fold step ops s)"
proof (induction ops arbitrary: s)
  case Nil
  show ?case by (simp add: grows_refl)
next
  case (Cons op ops)
  then have "grows (step op s) (fold step ops (step op s))"
    by (simp add: step_inv)
  with Cons.prems show ?case
    using grows_trans step_grows by fastforce
qed

end

section \<open>Lists\<close>

lemma find_SomeD: "find P xs = Some x \<Longrightarrow> x \<in> set xs \<and> P x"
  by (auto simp: find_Some_iff)

lemma filter_cong_list: "(\<And>x. x \<in> set xs \<Longrightarrow> P x = Q x) \<Longrightarrow> filter P xs = filter Q xs"
  by (rule filter_cong) auto

lemma sum_list_map_add:
  fixes f g :: "'a \<Rightarrow> int"
  shows "sum_list (map (\<lambda>x. f x + g x) xs) = sum_list (map f xs) + sum_list (map g xs)"
  by (induction xs) auto

lemma sum_list_filter_le:
  fixes f :: "'a \<Rightarrow> int"
  shows "(\<And>x. x \<in> set xs \<Longrightarrow> 0 \<le> f x) \<Longrightarrow> sum_list (map f (filter P xs)) \<le> sum_list (map f xs)"
  by (induction xs) (auto intro: add_increasing)

end
