(* ===== verification/Payments.thy ===== *)
theory Payments
  imports Complex_Main Prelude
begin

text \<open>
  The money arithmetic of \<^verbatim>\<open>packages/payments\<close> (strict IDR parsing, the service fee, the tax on it,
  the gateway fee, the payment-method catalogue) and the fee resolution of
  \<^verbatim>\<open>apps/api/src/fiat/payment-fee.service.ts\<close>. Amounts are whole rupiah as BigInt, hence \<open>int\<close>;
  basis points come from \<^verbatim>\<open>Int\<close> columns, hence \<open>int\<close> too.
\<close>

section \<open>Strict IDR parsing (\<^verbatim>\<open>money.ts\<close>)\<close>

text \<open>What a provider field can hold: a BigInt, a JavaScript number, a string, anything else.
  A finite double is a rational.\<close>

datatype js_number = JNaN | JInf bool | JFin rat

datatype raw_amount = RBig int | RNum js_number | RStr string | ROther

text \<open>\<^verbatim>\<open>!Number.isFinite(raw) || raw < 0 || !Number.isInteger(raw)\<close>.\<close>

fun whole_nonneg :: "js_number \<Rightarrow> bool" where
  "whole_nonneg JNaN = False"
| "whole_nonneg (JInf _) = False"
| "whole_nonneg (JFin q) = (0 \<le> q \<and> of_int \<lfloor>q\<rfloor> = q)"

text \<open>\<^verbatim>\<open>/^(\\d+)(?:\\.(\\d+))?$/\<close>: the integer part and, when there is one, the fraction.\<close>

definition match_decimal :: "string \<Rightarrow> (string \<times> string option) option" where
  "match_decimal s =
     (let m1 = takeWhile is_digit s; rest = dropWhile is_digit s
      in if m1 = [] then None
         else case rest of
             [] \<Rightarrow> Some (m1, None)
           | c # f \<Rightarrow> if c = CHR ''.'' \<and> all_digits f then Some (m1, Some f) else None)"

fun parseIdrStrict :: "raw_amount \<Rightarrow> string \<Rightarrow> int result" where
  "parseIdrStrict (RBig raw) what =
     (if raw < 0 then Inl (ProviderError 502 (''DOKU '' @ what @ '' is negative'')) else Inr raw)"
| "parseIdrStrict (RNum raw) what =
     (if \<not> whole_nonneg raw then Inl (ProviderError 502 (''DOKU '' @ what @ '' is not whole IDR''))
      else case raw of JFin q \<Rightarrow> Inr \<lfloor>q\<rfloor>
           | _ \<Rightarrow> Inl (ProviderError 502 (''DOKU '' @ what @ '' is not whole IDR'')))"
| "parseIdrStrict (RStr raw) what =
     (case match_decimal (trim raw) of
        None \<Rightarrow> Inl (ProviderError 502 (''DOKU '' @ what @ '' is not whole IDR''))
      | Some (m1, m2) \<Rightarrow>
          (if (case m2 of None \<Rightarrow> False | Some f \<Rightarrow> list_ex (\<lambda>c. c \<noteq> CHR ''0'') f)
           then Inl (ProviderError 502 (''DOKU '' @ what @ '' has non-zero fraction''))
           else Inr (int (nat_of_digits m1))))"
| "parseIdrStrict ROther what = Inl (ProviderError 502 (''DOKU '' @ what @ '' missing''))"

definition idrToDecimalString :: "int \<Rightarrow> string result" where
  "idrToDecimalString idr =
     (if idr < 0 then Inl (ProviderError 502 ''negative IDR amount'')
      else Inr (show_int idr @ ''.00''))"

section \<open>Service fee and tax (\<^verbatim>\<open>subaccount.ts\<close>)\<close>

record fee_policy =
  fp_version :: int
  fp_percentBps :: int
  fp_minIdr :: int
  fp_maxIdr :: int
  fp_taxBps :: int

definition DEFAULT_FEE_POLICY :: fee_policy where
  "DEFAULT_FEE_POLICY =
     \<lparr>fp_version = 5, fp_percentBps = 10, fp_minIdr = 100, fp_maxIdr = 0, fp_taxBps = 1100\<rparr>"

definition calcServiceFee :: "int \<Rightarrow> fee_policy \<Rightarrow> int" where
  "calcServiceFee amountIdr policy =
     (let fee = bigdiv (amountIdr * fp_percentBps policy + 5000) 10000
      in if fp_minIdr policy > 0 \<and> fee < fp_minIdr policy then fp_minIdr policy
         else if fp_maxIdr policy > 0 \<and> fee > fp_maxIdr policy then fp_maxIdr policy
         else fee)"

definition calcTaxAmount :: "int \<Rightarrow> int \<Rightarrow> int" where
  "calcTaxAmount feeIdr taxBps =
     (if feeIdr \<le> 0 \<or> taxBps \<le> 0 then 0 else bigdiv (feeIdr * taxBps + 5000) 10000)"

text \<open>Movement state of a V2 \<^verbatim>\<open>latestTransactionStatus\<close>.\<close>

definition mapSacStatus :: "string option \<Rightarrow> string" where
  "mapSacStatus code =
     (let c = trim (nullish code [])
      in if c = ''00'' then ''settled'' else if c = ''06'' then ''failed''
         else if c = ''04'' then ''refunded'' else if c = ''05'' then ''cancelled''
         else ''processing'')"

section \<open>Payment methods and the gateway fee (\<^verbatim>\<open>payment-methods.ts\<close>)\<close>

definition DEFAULT_GATEWAY_RATE_KEY :: string where
  "DEFAULT_GATEWAY_RATE_KEY = ''*''"

record payment_method =
  pm_code :: string
  pm_label :: string
  pm_category :: string

definition PAYMENT_METHODS :: "payment_method list" where
  "PAYMENT_METHODS = map (\<lambda>(c, l, k). \<lparr>pm_code = c, pm_label = l, pm_category = k\<rparr>)
    [(''VIRTUAL_ACCOUNT_BCA'', ''BCA Virtual Account'', ''VIRTUAL_ACCOUNT''),
     (''VIRTUAL_ACCOUNT_BRI'', ''BRI Virtual Account'', ''VIRTUAL_ACCOUNT''),
     (''VIRTUAL_ACCOUNT_BNI'', ''BNI Virtual Account'', ''VIRTUAL_ACCOUNT''),
     (''VIRTUAL_ACCOUNT_BANK_MANDIRI'', ''Mandiri Virtual Account'', ''VIRTUAL_ACCOUNT''),
     (''VIRTUAL_ACCOUNT_BANK_PERMATA'', ''Permata Virtual Account'', ''VIRTUAL_ACCOUNT''),
     (''VIRTUAL_ACCOUNT_BANK_CIMB'', ''CIMB Virtual Account'', ''VIRTUAL_ACCOUNT''),
     (''VIRTUAL_ACCOUNT_BANK_DANAMON'', ''Danamon Virtual Account'', ''VIRTUAL_ACCOUNT''),
     (''VIRTUAL_ACCOUNT_BANK_SYARIAH_MANDIRI'', ''BSI Virtual Account'', ''VIRTUAL_ACCOUNT''),
     (''VIRTUAL_ACCOUNT_DOKU'', ''DOKU Virtual Account'', ''VIRTUAL_ACCOUNT''),
     (''VIRTUAL_ACCOUNT_BTN'', ''BTN Virtual Account'', ''VIRTUAL_ACCOUNT''),
     (''VIRTUAL_ACCOUNT_BNC'', ''BNC Virtual Account'', ''VIRTUAL_ACCOUNT''),
     (''VIRTUAL_ACCOUNT_BJB'', ''BJB Virtual Account'', ''VIRTUAL_ACCOUNT''),
     (''VIRTUAL_ACCOUNT_SINARMAS'', ''Sinarmas Virtual Account'', ''VIRTUAL_ACCOUNT''),
     (''EMONEY_OVO'', ''OVO'', ''EWALLET''),
     (''EMONEY_DANA'', ''DANA'', ''EWALLET''),
     (''EMONEY_SHOPEE_PAY'', ''ShopeePay'', ''EWALLET''),
     (''EMONEY_LINKAJA'', ''LinkAja'', ''EWALLET''),
     (''EMONEY_DOKU'', ''DOKU e-Wallet'', ''EWALLET''),
     (''CREDIT_CARD'', ''Credit / Debit Card'', ''CARD''),
     (''GOOGLE_PAY'', ''Google Pay'', ''CARD''),
     (''QRIS'', ''QRIS'', ''QRIS'')]"

definition PAYMENT_CATEGORIES :: "string list" where
  "PAYMENT_CATEGORIES = [''VIRTUAL_ACCOUNT'', ''EWALLET'', ''CARD'', ''QRIS'', ''OTHER'']"

definition categoryLabel :: "string \<Rightarrow> string option" where
  "categoryLabel category = map_of
     [(''VIRTUAL_ACCOUNT'', ''Virtual Account''), (''EWALLET'', ''e-Wallet''), (''CARD'', ''Card''),
      (''QRIS'', ''QRIS''), (''OTHER'', ''Other'')] category"

definition codesForCategory :: "string \<Rightarrow> string list" where
  "codesForCategory category =
     (let key = to_upper (trim category)
      in map pm_code (filter (\<lambda>m. pm_category m = key) PAYMENT_METHODS))"

definition isPaymentMethodCategory :: "string \<Rightarrow> bool" where
  "isPaymentMethodCategory token \<longleftrightarrow> List.member PAYMENT_CATEGORIES (to_upper (trim token))"

definition paymentMethod :: "string \<Rightarrow> payment_method option" where
  "paymentMethod code = map_of (map (\<lambda>m. (pm_code m, m)) PAYMENT_METHODS) code"

definition paymentMethodCategory :: "string \<Rightarrow> string" where
  "paymentMethodCategory code = nullish (map_option pm_category (paymentMethod code)) ''OTHER''"

record gateway_rate =
  gr_percentBps :: int
  gr_flatIdr :: int
  gr_minIdr :: int
  gr_maxIdr :: int

definition calcGatewayFee :: "int \<Rightarrow> gateway_rate \<Rightarrow> int" where
  "calcGatewayFee amountIdr rate =
     (if amountIdr < 0 then 0
      else let fee0 = bigdiv (amountIdr * gr_percentBps rate + 5000) 10000 + gr_flatIdr rate;
               fee = (if fee0 < 0 then 0 else fee0)
           in if gr_minIdr rate > 0 \<and> fee < gr_minIdr rate then gr_minIdr rate
              else if gr_maxIdr rate > 0 \<and> fee > gr_maxIdr rate then gr_maxIdr rate
              else fee)"

section \<open>Gateway fee resolution (\<^verbatim>\<open>payment-fee.service.ts\<close>)\<close>

definition rateKeys :: "string \<Rightarrow> string list" where
  "rateKeys methodKey =
     (let key = to_upper (trim methodKey)
      in if key = [] then [DEFAULT_GATEWAY_RATE_KEY]
         else if isPaymentMethodCategory key then [key, DEFAULT_GATEWAY_RATE_KEY]
         else [key, paymentMethodCategory key, DEFAULT_GATEWAY_RATE_KEY])"

record rate_row =
  rr_methodKey :: string
  rr_rate :: gateway_rate
  rr_enabled :: bool

text \<open>The state the service keeps: the rate table (unique on \<^verbatim>\<open>methodKey\<close>), the tax singleton and
  the flag of the live fee API. \<open>pf_live\<close> is what the DOKU client answers (\<open>None\<close>: it threw).\<close>

record payment_fee_state =
  pf_rates :: "rate_row list"
  pf_dokuTaxBps :: "int option"
  pf_feeApiEnabled :: bool

record fee_quote =
  fq_feeIdr :: int
  fq_taxIdr :: int
  fq_enabled :: bool
  fq_source :: string
  fq_rateKey :: string

definition dokuTaxBps :: "payment_fee_state \<Rightarrow> int" where
  "dokuTaxBps s = nullish (pf_dokuTaxBps s) 1100"

definition byKey :: "rate_row list \<Rightarrow> (string, rate_row) jsmap" where
  "byKey rows = foldl (\<lambda>m r. jsmap_set (rr_methodKey r) r m) [] rows"

fun firstRate :: "(string, rate_row) jsmap \<Rightarrow> string list \<Rightarrow> rate_row option" where
  "firstRate m [] = None"
| "firstRate m (key # keys) =
     (case jsmap_get m key of Some row \<Rightarrow> Some row | None \<Rightarrow> firstRate m keys)"

definition resolveRate :: "payment_fee_state \<Rightarrow> string \<Rightarrow> rate_row option" where
  "resolveRate s methodCode =
     (let keys = rateKeys methodCode;
          rows = filter (\<lambda>r. List.member keys (rr_methodKey r)) (pf_rates s)
      in firstRate (byKey rows) keys)"

definition gatewayFee ::
  "(string \<Rightarrow> int \<Rightarrow> int option option) \<Rightarrow> payment_fee_state \<Rightarrow> string \<Rightarrow> int \<Rightarrow> fee_quote" where
  "gatewayFee live s methodCode amountIdr =
     (let taxBps = dokuTaxBps s;
          config = (case resolveRate s methodCode of
              None \<Rightarrow> \<lparr>fq_feeIdr = 0, fq_taxIdr = 0, fq_enabled = False, fq_source = ''config'', fq_rateKey = ''unset''\<rparr>
            | Some row \<Rightarrow>
                if \<not> rr_enabled row
                then \<lparr>fq_feeIdr = 0, fq_taxIdr = 0, fq_enabled = False, fq_source = ''config'', fq_rateKey = rr_methodKey row\<rparr>
                else let fee = calcGatewayFee amountIdr (rr_rate row)
                     in \<lparr>fq_feeIdr = fee, fq_taxIdr = calcTaxAmount fee taxBps, fq_enabled = True,
                         fq_source = ''config'', fq_rateKey = rr_methodKey row\<rparr>)
      in if pf_feeApiEnabled s
         then (case live methodCode amountIdr of
                 Some (Some fee) \<Rightarrow>
                   if 0 \<le> fee
                   then \<lparr>fq_feeIdr = fee, fq_taxIdr = calcTaxAmount fee taxBps, fq_enabled = True,
                         fq_source = ''doku'', fq_rateKey = ''doku-api''\<rparr>
                   else config
               | _ \<Rightarrow> config)
         else config)"

record method_option =
  mo_key :: string
  mo_label :: "string option"
  mo_category :: string
  mo_enabled :: bool
  mo_gatewayFeeIdr :: string
  mo_gatewayTaxIdr :: string
  mo_rateKey :: string
  mo_source :: string

definition pickableCategories :: "string list" where
  "pickableCategories = filter (\<lambda>c. codesForCategory c \<noteq> []) PAYMENT_CATEGORIES"

definition methodsFor ::
  "(string \<Rightarrow> int \<Rightarrow> int option option) \<Rightarrow> payment_fee_state \<Rightarrow> int \<Rightarrow> method_option list" where
  "methodsFor live s amountIdr =
     filter mo_enabled
       (map (\<lambda>category. let q = gatewayFee live s category amountIdr
          in \<lparr>mo_key = category, mo_label = categoryLabel category, mo_category = category,
              mo_enabled = fq_enabled q, mo_gatewayFeeIdr = show_int (fq_feeIdr q),
              mo_gatewayTaxIdr = show_int (fq_taxIdr q), mo_rateKey = fq_rateKey q,
              mo_source = fq_source q\<rparr>)
          pickableCategories)"

definition getDokuTax :: "payment_fee_state \<Rightarrow> int" where
  "getDokuTax s = dokuTaxBps s"

definition setDokuTax :: "int \<Rightarrow> payment_fee_state \<Rightarrow> payment_fee_state" where
  "setDokuTax taxBps s = s\<lparr>pf_dokuTaxBps := Some taxBps\<rparr>"

text \<open>The admin's listing: the pickable categories first (disabled at 0 when no row is stored),
  then the stored rows of any other key, ordered by key. The \<^verbatim>\<open>updatedAt\<close> column is not modelled.\<close>

record rate_view =
  rv_methodKey :: string
  rv_label :: "string option"
  rv_category :: "string option"
  rv_isCategory :: bool
  rv_percentBps :: int
  rv_flatIdr :: string
  rv_minIdr :: string
  rv_maxIdr :: string
  rv_enabled :: bool

definition category_view :: "(string, rate_row) jsmap \<Rightarrow> string \<Rightarrow> rate_view" where
  "category_view m category =
     (let r = jsmap_get m category; rate = (\<lambda>f. nullish (map_option (f \<circ> rr_rate) r) 0)
      in \<lparr>rv_methodKey = category, rv_label = categoryLabel category, rv_category = Some category,
          rv_isCategory = True, rv_percentBps = rate gr_percentBps, rv_flatIdr = show_int (rate gr_flatIdr),
          rv_minIdr = show_int (rate gr_minIdr), rv_maxIdr = show_int (rate gr_maxIdr),
          rv_enabled = nullish (map_option rr_enabled r) False\<rparr>)"

definition extra_view :: "rate_row \<Rightarrow> rate_view" where
  "extra_view r =
     \<lparr>rv_methodKey = rr_methodKey r, rv_label = Some (rr_methodKey r), rv_category = None,
      rv_isCategory = False, rv_percentBps = gr_percentBps (rr_rate r), rv_flatIdr = show_int (gr_flatIdr (rr_rate r)),
      rv_minIdr = show_int (gr_minIdr (rr_rate r)), rv_maxIdr = show_int (gr_maxIdr (rr_rate r)),
      rv_enabled = rr_enabled r\<rparr>"

definition listRates :: "payment_fee_state \<Rightarrow> rate_view list" where
  "listRates s =
     (let m = byKey (sort_key rr_methodKey (pf_rates s))
      in map (category_view m) pickableCategories
         @ map extra_view (map snd (fold jsmap_delete pickableCategories m)))"

text \<open>Prisma's \<^verbatim>\<open>upsert\<close> on the unique \<^verbatim>\<open>methodKey\<close>: update the row in place, or insert one. The rate
  arrives with its decimal strings already read as BigInts.\<close>

fun upsert_rate :: "rate_row \<Rightarrow> rate_row list \<Rightarrow> rate_row list" where
  "upsert_rate r [] = [r]"
| "upsert_rate r (x # xs) =
     (if rr_methodKey x = rr_methodKey r then r # xs else x # upsert_rate r xs)"

definition upsertRate :: "string \<Rightarrow> gateway_rate \<Rightarrow> bool \<Rightarrow> payment_fee_state \<Rightarrow> payment_fee_state" where
  "upsertRate methodKey rate enabled s =
     (let key = to_upper (trim methodKey)
      in s\<lparr>pf_rates := upsert_rate \<lparr>rr_methodKey = key, rr_rate = rate, rr_enabled = enabled\<rparr> (pf_rates s)\<rparr>)"

section \<open>Fees: rounding, clamping, monotonicity\<close>

text \<open>The reference: basis points of an amount, rounded half up, plus a flat part, clamped to
  bounds of which 0 means unbounded.\<close>

definition half_up :: "int \<Rightarrow> int \<Rightarrow> int" where
  "half_up a bps = (a * bps + 5000) div 10000"

definition clamp_fee :: "int \<Rightarrow> int \<Rightarrow> int \<Rightarrow> int" where
  "clamp_fee lo hi f = (if 0 < lo \<and> f < lo then lo else if 0 < hi \<and> hi < f then hi else f)"

lemma half_up_nonneg: "0 \<le> a \<Longrightarrow> 0 \<le> b \<Longrightarrow> 0 \<le> half_up a b"
  by (simp add: half_up_def pos_imp_zdiv_nonneg_iff)

lemma half_up_mono: "a \<le> a' \<Longrightarrow> 0 \<le> b \<Longrightarrow> half_up a b \<le> half_up a' b"
  by (simp add: half_up_def zdiv_mono1 mult_right_mono)

lemma half_up_error: "\<bar>10000 * half_up a b - a * b\<bar> \<le> 5000"
proof -
  have "10000 * half_up a b = a * b + 5000 - (a * b + 5000) mod 10000"
    by (simp add: half_up_def minus_mod_eq_mult_div)
  moreover have "0 \<le> (a * b + 5000) mod 10000" "(a * b + 5000) mod 10000 < 10000"
    by simp_all
  ultimately show ?thesis by linarith
qed

lemma clamp_fee_mono: "f \<le> g \<Longrightarrow> lo \<le> hi \<or> hi \<le> 0 \<Longrightarrow> clamp_fee lo hi f \<le> clamp_fee lo hi g"
  by (auto simp: clamp_fee_def)

text \<open>What every fee rule of the platform promises, and what follows from it.\<close>

locale clamped_fee =
  fixes fee :: "int \<Rightarrow> 'p \<Rightarrow> int"
    and pct flat lo hi :: "'p \<Rightarrow> int"
  assumes fee_eq: "0 \<le> a \<Longrightarrow> 0 \<le> pct p \<Longrightarrow> 0 \<le> flat p \<Longrightarrow>
    fee a p = clamp_fee (lo p) (hi p) (half_up a (pct p) + flat p)"
begin

lemma fee_nonneg: "0 \<le> a \<Longrightarrow> 0 \<le> pct p \<Longrightarrow> 0 \<le> flat p \<Longrightarrow> 0 \<le> fee a p"
  using half_up_nonneg [of a "pct p"] by (auto simp: fee_eq clamp_fee_def)

lemma fee_mono:
  assumes "0 \<le> a" "a \<le> a'" "0 \<le> pct p" "0 \<le> flat p" "lo p \<le> hi p \<or> hi p \<le> 0"
  shows "fee a p \<le> fee a' p"
proof -
  have "half_up a (pct p) \<le> half_up a' (pct p)"
    using assms by (intro half_up_mono)
  with assms show ?thesis
    by (simp add: fee_eq clamp_fee_mono)
qed

lemma fee_floor: "0 \<le> a \<Longrightarrow> 0 \<le> pct p \<Longrightarrow> 0 \<le> flat p \<Longrightarrow> lo p \<le> hi p \<or> hi p \<le> 0 \<Longrightarrow> lo p \<le> fee a p"
  using half_up_nonneg [of a "pct p"] by (auto simp: fee_eq clamp_fee_def)

lemma fee_cap: "0 \<le> a \<Longrightarrow> 0 \<le> pct p \<Longrightarrow> 0 \<le> flat p \<Longrightarrow> lo p \<le> hi p \<Longrightarrow> 0 < hi p \<Longrightarrow> fee a p \<le> hi p"
  by (auto simp: fee_eq clamp_fee_def)

lemma fee_rounding:
  assumes "0 \<le> a" "0 \<le> pct p" "0 \<le> flat p"
    and "fee a p \<noteq> lo p" "fee a p \<noteq> hi p"
  shows "\<bar>10000 * (fee a p - flat p) - a * pct p\<bar> \<le> 5000"
  using assms half_up_error [of a "pct p"] by (auto simp: fee_eq clamp_fee_def split: if_splits)

end

lemma calcServiceFee_eq:
  "0 \<le> a \<Longrightarrow> 0 \<le> fp_percentBps p \<Longrightarrow>
   calcServiceFee a p = clamp_fee (fp_minIdr p) (fp_maxIdr p) (half_up a (fp_percentBps p))"
  by (simp add: calcServiceFee_def clamp_fee_def half_up_def bigdiv_nonneg Let_def)

lemma calcGatewayFee_eq:
  assumes "0 \<le> a" "0 \<le> gr_percentBps r" "0 \<le> gr_flatIdr r"
  shows "calcGatewayFee a r
    = clamp_fee (gr_minIdr r) (gr_maxIdr r) (half_up a (gr_percentBps r) + gr_flatIdr r)"
proof -
  have "0 \<le> half_up a (gr_percentBps r)" using assms by (simp add: half_up_nonneg)
  with assms show ?thesis
    by (simp add: calcGatewayFee_def clamp_fee_def half_up_def bigdiv_nonneg Let_def)
qed

interpretation service_fee: clamped_fee calcServiceFee fp_percentBps "\<lambda>_. 0" fp_minIdr fp_maxIdr
  by unfold_locales (simp add: calcServiceFee_eq)

interpretation gateway_fee: clamped_fee calcGatewayFee gr_percentBps gr_flatIdr gr_minIdr gr_maxIdr
  by unfold_locales (rule calcGatewayFee_eq)

lemma calcTaxAmount_nonneg: "0 \<le> calcTaxAmount f b"
  by (auto simp: calcTaxAmount_def intro!: bigdiv_ge_0)

lemma calcTaxAmount_eq: "0 \<le> f \<Longrightarrow> 0 \<le> b \<Longrightarrow> calcTaxAmount f b = half_up f b"
  by (auto simp: calcTaxAmount_def half_up_def bigdiv_nonneg)

text \<open>The PeridotID service fee is the percentage of the amount rounded half up and clamped: it
  is never negative, never below the floor, never above the cap, off the exact percentage by at
  most half a rupiah when no bound applies, and never decreases when the amount grows.\<close>

lemma service_fee_correct:
  assumes "0 \<le> a" "a \<le> a'" "0 \<le> fp_percentBps p" "fp_minIdr p \<le> fp_maxIdr p \<or> fp_maxIdr p = 0"
  shows "0 \<le> calcServiceFee a p \<and> fp_minIdr p \<le> calcServiceFee a p
    \<and> (0 < fp_maxIdr p \<longrightarrow> calcServiceFee a p \<le> fp_maxIdr p)
    \<and> (calcServiceFee a p \<notin> {fp_minIdr p, fp_maxIdr p} \<longrightarrow>
         \<bar>10000 * calcServiceFee a p - a * fp_percentBps p\<bar> \<le> 5000)
    \<and> calcServiceFee a p \<le> calcServiceFee a' p"
proof -
  have bounds: "fp_minIdr p \<le> fp_maxIdr p \<or> fp_maxIdr p \<le> 0" using assms(4) by auto
  have "fp_minIdr p \<le> calcServiceFee a p"
    using assms bounds by (intro service_fee.fee_floor) auto
  moreover have "0 < fp_maxIdr p \<longrightarrow> calcServiceFee a p \<le> fp_maxIdr p"
    using assms service_fee.fee_cap [of a p] by auto
  moreover have "calcServiceFee a p \<le> calcServiceFee a' p"
    using assms bounds by (intro service_fee.fee_mono) auto
  ultimately show ?thesis
    using assms service_fee.fee_nonneg [of a p] service_fee.fee_rounding [of a p] by auto
qed

text \<open>The gateway fee keeps the same promises for every rate with non-negative parts, and a
  negative amount costs nothing.\<close>

lemma gateway_fee_correct:
  assumes "0 \<le> gr_percentBps r" "0 \<le> gr_flatIdr r" "gr_minIdr r \<le> gr_maxIdr r \<or> gr_maxIdr r = 0"
  shows "0 \<le> calcGatewayFee a r
    \<and> (0 \<le> a \<longrightarrow> gr_minIdr r \<le> calcGatewayFee a r)
    \<and> (0 < gr_maxIdr r \<longrightarrow> calcGatewayFee a r \<le> gr_maxIdr r)
    \<and> (a < 0 \<longrightarrow> calcGatewayFee a r = 0)
    \<and> (0 \<le> a \<longrightarrow> a \<le> a' \<longrightarrow> calcGatewayFee a r \<le> calcGatewayFee a' r)"
proof (cases "0 \<le> a")
  case True
  have bounds: "gr_minIdr r \<le> gr_maxIdr r \<or> gr_maxIdr r \<le> 0" using assms(3) by auto
  have "gr_minIdr r \<le> calcGatewayFee a r"
    using assms bounds True by (intro gateway_fee.fee_floor) auto
  moreover have "a \<le> a' \<longrightarrow> calcGatewayFee a r \<le> calcGatewayFee a' r"
    using assms bounds True gateway_fee.fee_mono [of a a' r] by auto
  ultimately show ?thesis
    using assms True gateway_fee.fee_nonneg [of a r] gateway_fee.fee_cap [of a r] by auto
next
  case False
  then show ?thesis by (simp add: calcGatewayFee_def)
qed

section \<open>Parsing and printing amounts\<close>

lemma takeWhile_digits_sep:
  "list_all is_digit s \<Longrightarrow> \<not> is_digit c \<Longrightarrow> takeWhile is_digit (s @ c # t) = s"
  "list_all is_digit s \<Longrightarrow> \<not> is_digit c \<Longrightarrow> dropWhile is_digit (s @ c # t) = c # t"
  by (induction s) auto

lemma match_decimal_whole:
  "all_digits s \<Longrightarrow> match_decimal (s @ ''.00'') = Some (s, Some ''00'')"
  by (simp add: match_decimal_def all_digits_def takeWhile_digits_sep is_digit_def)

lemma trim_decimal:
  assumes "all_digits s"
  shows "trim (s @ ''.00'') = s @ ''.00''"
proof (rule trim_no_space)
  show "\<not> is_space (hd (s @ ''.00''))"
    using assms by (cases s) (simp_all add: all_digits_def is_digit_not_space)
  show "\<not> is_space (last (s @ ''.00''))" by (simp add: is_space_def)
qed simp

lemma parseIdrStrict_nonneg: "parseIdrStrict raw what = Inr v \<Longrightarrow> 0 \<le> v"
  by (cases raw) (auto split: if_splits js_number.splits option.splits)

text \<open>The decimal form sent to the provider parses back to the amount it was printed from, and
  a successful parse is never negative.\<close>

lemma idr_round_trip:
  assumes "idrToDecimalString v = Inr s"
  shows "parseIdrStrict (RStr s) what = Inr v \<and> 0 \<le> v"
proof -
  from assms have v: "0 \<le> v" and s: "s = show_nat (nat v) @ ''.00''"
    by (auto simp: idrToDecimalString_def split: if_splits)
  then show ?thesis by (simp add: trim_decimal match_decimal_whole)
qed

section \<open>Resolution of the gateway rate\<close>

definition rates_ok :: "payment_fee_state \<Rightarrow> bool" where
  "rates_ok s \<longleftrightarrow> distinct (map rr_methodKey (pf_rates s))"

lemma upsert_rate_keys:
  "rr_methodKey ` set (upsert_rate r xs) = insert (rr_methodKey r) (rr_methodKey ` set xs)"
  by (induction xs) auto

lemma distinct_upsert_rate:
  "distinct (map rr_methodKey xs) \<Longrightarrow> distinct (map rr_methodKey (upsert_rate r xs))"
proof (induction xs)
  case (Cons x xs)
  then show ?case using upsert_rate_keys [of r xs] by auto
qed simp

lemma filter_upsert_rate:
  "distinct (map rr_methodKey xs) \<Longrightarrow> rr_methodKey r = k \<Longrightarrow>
   filter (\<lambda>x. rr_methodKey x = k) (upsert_rate r xs) = [r]"
proof (induction xs)
  case (Cons x xs)
  then have "rr_methodKey x = k \<Longrightarrow> filter (\<lambda>y. rr_methodKey y = k) xs = []"
    by (auto simp: filter_empty_conv image_iff)
  with Cons show ?case by auto
qed simp

lemma byKey_fold:
  "jsmap_get (foldl (\<lambda>m r. jsmap_set (rr_methodKey r) r m) m0 rows) k =
   (case rev (filter (\<lambda>r. rr_methodKey r = k) rows) of [] \<Rightarrow> jsmap_get m0 k | r # _ \<Rightarrow> Some r)"
  by (induction rows arbitrary: m0) (auto simp: jsmap_get_set split: list.splits)

lemma byKey_get:
  "jsmap_get (byKey rows) k = (case rev (filter (\<lambda>r. rr_methodKey r = k) rows) of [] \<Rightarrow> None | r # _ \<Rightarrow> Some r)"
  by (simp add: byKey_def byKey_fold split: list.splits)

lemma rateKeys_hd: "to_upper (trim m) = k \<Longrightarrow> k \<noteq> [] \<Longrightarrow> \<exists>ks. rateKeys m = k # ks"
  by (simp add: rateKeys_def Let_def)

lemma firstRate_hd: "jsmap_get m k = Some r \<Longrightarrow> firstRate m (k # ks) = Some r"
  by simp

lemma resolveRate_exact:
  assumes "to_upper (trim m) = k" "k \<noteq> []" "filter (\<lambda>r. rr_methodKey r = k) (pf_rates s) = [row]"
  shows "resolveRate s m = Some row"
proof -
  obtain ks where ks: "rateKeys m = k # ks" using rateKeys_hd [OF assms(1,2)] by blast
  have "filter (\<lambda>r. rr_methodKey r = k) (filter (\<lambda>r. List.member (k # ks) (rr_methodKey r)) (pf_rates s)) = [row]"
    using assms(3) by (simp add: filter_filter) (metis (mono_tags, lifting) filter_cong)
  then show ?thesis
    by (simp add: resolveRate_def ks Let_def byKey_get)
qed

datatype payment_fee_op = SetDokuTax int | UpsertRate string gateway_rate bool

fun payment_fee_step :: "payment_fee_op \<Rightarrow> payment_fee_state \<Rightarrow> payment_fee_state" where
  "payment_fee_step (SetDokuTax bps) s = setDokuTax bps s"
| "payment_fee_step (UpsertRate m r e) s = upsertRate m r e s"

interpretation payment_fees: service_machine payment_fee_step rates_ok
proof
  fix s op
  assume "rates_ok s"
  then show "rates_ok (payment_fee_step op s)"
    by (cases op) (auto simp: rates_ok_def setDokuTax_def upsertRate_def Let_def distinct_upsert_rate)
qed

text \<open>After any sequence of admin writes, an admin write for a method governs the next quote for
  that method: an enabled row charges its own rate and the tax on it, and a disabled row is a real
  off switch that the category and default rows cannot override.\<close>

lemma rate_upsert_governs:
  assumes "to_upper (trim m) \<noteq> []" "rates_ok s0" "\<not> pf_feeApiEnabled s0"
    and s_def: "s = upsertRate m rate enabled (fold payment_fee_step ops s0)"
  shows "gatewayFee live s m amount =
    (if enabled
     then \<lparr>fq_feeIdr = calcGatewayFee amount rate,
           fq_taxIdr = calcTaxAmount (calcGatewayFee amount rate) (dokuTaxBps s),
           fq_enabled = True, fq_source = ''config'', fq_rateKey = to_upper (trim m)\<rparr>
     else \<lparr>fq_feeIdr = 0, fq_taxIdr = 0, fq_enabled = False, fq_source = ''config'',
           fq_rateKey = to_upper (trim m)\<rparr>)"
proof -
  let ?s1 = "fold payment_fee_step ops s0"
  let ?row = "\<lparr>rr_methodKey = to_upper (trim m), rr_rate = rate, rr_enabled = enabled\<rparr>"
  have api: "pf_feeApiEnabled (fold payment_fee_step ops t) = pf_feeApiEnabled t" for t
  proof (induction ops arbitrary: t)
    case (Cons op ops)
    then show ?case by (cases op) (auto simp: setDokuTax_def upsertRate_def Let_def)
  qed simp
  have "rates_ok ?s1" using assms(2) by (rule payment_fees.run_inv)
  then have "filter (\<lambda>r. rr_methodKey r = to_upper (trim m)) (pf_rates s) = [?row]"
    by (simp add: s_def upsertRate_def rates_ok_def Let_def filter_upsert_rate)
  then have "resolveRate s m = Some ?row"
    using assms(1) resolveRate_exact by blast
  moreover have "\<not> pf_feeApiEnabled s"
    using assms(3) api by (simp add: s_def upsertRate_def Let_def)
  ultimately show ?thesis by (simp add: gatewayFee_def Let_def)
qed

end
