(* ===== verification/Ledger_Hash.thy ===== *)
theory Ledger_Hash
  imports Prelude
begin

text \<open>
  The tamper-evident hash chain of the fiat ledger, \<^verbatim>\<open>apps/api/src/fiat/fiat-ledger-hash.ts\<close>.
  The SHA-256 hex digest of \<^verbatim>\<open>node:crypto\<close> is the parameter \<open>sha\<close>. Nothing is assumed about
  collisions: where two chains with the same head differ, the main theorem names the two strings
  of the chains that collide.
\<close>

section \<open>Entries and their canonical form\<close>

definition GENESIS_HASH :: string where
  "GENESIS_HASH = replicate 64 CHR ''0''"

record entry_core =
  ec_entryGroup :: string
  ec_kind :: string
  ec_pid :: string
  ec_counterpartyPid :: "string option"
  ec_amountIdr :: int
  ec_direction :: string
  ec_idempotencyKey :: string
  ec_parentRef :: "string option"
  ec_status :: string
  ec_feePolicyVersion :: "int option"

record chainable = entry_core +
  ce_prevHash :: string

record verifiable = entry_core +
  ve_prevHash :: "string option"
  ve_hash :: "string option"

definition canonicalEntry :: "chainable \<Rightarrow> string" where
  "canonicalEntry e = join ''|''
     [ce_prevHash e,
      ec_entryGroup e,
      ec_kind e,
      ec_pid e,
      nullish (ec_counterpartyPid e) [],
      show_int (ec_amountIdr e),
      ec_direction e,
      ec_idempotencyKey e,
      nullish (ec_parentRef e) [],
      ec_status e,
      (case ec_feePolicyVersion e of None \<Rightarrow> [] | Some v \<Rightarrow> show_int v)]"

definition entryHash :: "(string \<Rightarrow> string) \<Rightarrow> chainable \<Rightarrow> string" where
  "entryHash sha e = sha (canonicalEntry e)"

text \<open>\<^verbatim>\<open>{ ...e, prevHash: prev }\<close>.\<close>

definition with_prev :: "'a entry_core_scheme \<Rightarrow> string \<Rightarrow> chainable" where
  "with_prev e prev = entry_core.extend (entry_core.truncate e) \<lparr>ce_prevHash = prev\<rparr>"

section \<open>Verification\<close>

record chain_verification =
  cv_ok :: bool
  cv_checked :: nat
  cv_headHash :: string
  cv_firstBadIdempotencyKey :: "string option"
  cv_error :: "string option"

fun verify_from :: "(string \<Rightarrow> string) \<Rightarrow> nat \<Rightarrow> string \<Rightarrow> verifiable list \<Rightarrow> chain_verification" where
  "verify_from sha i prev [] =
     \<lparr>cv_ok = True, cv_checked = i, cv_headHash = prev, cv_firstBadIdempotencyKey = None, cv_error = None\<rparr>"
| "verify_from sha i prev (e # es) =
     (if nullish (ve_hash e) [] = [] then
        \<lparr>cv_ok = False, cv_checked = i, cv_headHash = prev, cv_firstBadIdempotencyKey = Some (ec_idempotencyKey e),
         cv_error = Some (''missing hash at seq '' @ show_nat i)\<rparr>
      else if ve_prevHash e \<noteq> Some prev then
        \<lparr>cv_ok = False, cv_checked = i, cv_headHash = prev, cv_firstBadIdempotencyKey = Some (ec_idempotencyKey e),
         cv_error = Some (''prevHash mismatch at seq '' @ show_nat i)\<rparr>
      else if Some (entryHash sha (with_prev e prev)) \<noteq> ve_hash e then
        \<lparr>cv_ok = False, cv_checked = i, cv_headHash = prev, cv_firstBadIdempotencyKey = Some (ec_idempotencyKey e),
         cv_error = Some (''hash mismatch at seq '' @ show_nat i)\<rparr>
      else verify_from sha (Suc i) (nullish (ve_hash e) []) es)"

definition verifyChain :: "(string \<Rightarrow> string) \<Rightarrow> verifiable list \<Rightarrow> chain_verification" where
  "verifyChain sha entries = verify_from sha 0 GENESIS_HASH entries"

section \<open>The chain as a predicate\<close>

text \<open>\<open>linked sha prev es h\<close>: the entries link from the head \<open>prev\<close> to the head \<open>h\<close>.\<close>

fun linked :: "(string \<Rightarrow> string) \<Rightarrow> string \<Rightarrow> verifiable list \<Rightarrow> string \<Rightarrow> bool" where
  "linked sha prev [] h \<longleftrightarrow> h = prev"
| "linked sha prev (e # es) h \<longleftrightarrow>
     ve_prevHash e = Some prev
     \<and> (\<exists>x. ve_hash e = Some x \<and> x \<noteq> [] \<and> x = entryHash sha (with_prev e prev) \<and> linked sha x es h)"

lemma verify_from_linked:
  "cv_ok (verify_from sha i prev es) \<and> cv_headHash (verify_from sha i prev es) = h \<longleftrightarrow> linked sha prev es h"
  by (induction es arbitrary: i prev) (auto simp: nullish_def split: option.splits)

lemma verifyChain_linked:
  "cv_ok (verifyChain sha es) \<longleftrightarrow> linked sha GENESIS_HASH es (cv_headHash (verifyChain sha es))"
  using verify_from_linked [of sha 0 GENESIS_HASH es] by (auto simp: verifyChain_def)

lemma linked_append: "linked sha p (xs @ ys) h \<longleftrightarrow> (\<exists>m. linked sha p xs m \<and> linked sha m ys h)"
  by (induction xs arbitrary: p) auto

lemma linked_snoc:
  "linked sha p (xs @ [e]) h \<longleftrightarrow>
   (\<exists>m. linked sha p xs m \<and> ve_prevHash e = Some m \<and> ve_hash e = Some h \<and> h \<noteq> []
        \<and> h = entryHash sha (with_prev e m))"
  by (auto simp: linked_append)

lemma linked_head_unique: "linked sha p xs h \<Longrightarrow> linked sha p xs h' \<Longrightarrow> h = h'"
  by (induction xs arbitrary: p) auto

lemma verify_ok_checked: "cv_ok (verify_from sha i prev es) \<Longrightarrow> cv_checked (verify_from sha i prev es) = i + length es"
  by (induction es arbitrary: i prev) (auto split: if_splits)

section \<open>Injectivity of the canonical form\<close>

text \<open>Fields are URL-safe tokens: no \<^verbatim>\<open>|\<close> in them, and a present optional token is not empty.\<close>

definition token :: "string \<Rightarrow> bool" where
  "token s \<longleftrightarrow> CHR ''|'' \<notin> set s"

definition clean_entry :: "'a entry_core_scheme \<Rightarrow> bool" where
  "clean_entry e \<longleftrightarrow>
     token (ec_entryGroup e) \<and> token (ec_kind e) \<and> token (ec_pid e) \<and> token (ec_direction e)
     \<and> token (ec_idempotencyKey e) \<and> token (ec_status e)
     \<and> token (nullish (ec_counterpartyPid e) []) \<and> ec_counterpartyPid e \<noteq> Some []
     \<and> token (nullish (ec_parentRef e) []) \<and> ec_parentRef e \<noteq> Some []"

lemma token_show_int [simp]: "token (show_int i)"
  using show_nat_chars [of "CHR ''|''"] by (auto simp: token_def show_int_def is_digit_def)

lemma show_int_nonempty [simp]: "show_int i \<noteq> []"
  using all_digits_show_nat by (auto simp: show_int_def all_digits_def)

lemma token_nil [simp]: "token []"
  by (simp add: token_def)

lemma token_version [simp]: "token (case v of None \<Rightarrow> [] | Some x \<Rightarrow> show_int x)"
  by (cases v) auto

lemma opt_token_inject:
  "a \<noteq> Some [] \<Longrightarrow> b \<noteq> Some [] \<Longrightarrow> nullish a [] = nullish b [] \<Longrightarrow> a = b"
  by (cases a; cases b) auto

lemma opt_version_inject:
  "(case a of None \<Rightarrow> [] | Some x \<Rightarrow> show_int x) = (case b of None \<Rightarrow> [] | Some x \<Rightarrow> show_int x) \<Longrightarrow> a = b"
  by (cases a; cases b) (auto dest: sym)

lemma canonicalEntry_inject:
  assumes "clean_entry e" "clean_entry e'" "token (ce_prevHash e)" "token (ce_prevHash e')"
    and "canonicalEntry e = canonicalEntry e'"
  shows "e = e'"
proof -
  let ?fields = "\<lambda>e :: chainable. [ce_prevHash e, ec_entryGroup e, ec_kind e, ec_pid e,
      nullish (ec_counterpartyPid e) [], show_int (ec_amountIdr e), ec_direction e, ec_idempotencyKey e,
      nullish (ec_parentRef e) [], ec_status e,
      (case ec_feePolicyVersion e of None \<Rightarrow> [] | Some v \<Rightarrow> show_int v)]"
  have bar: "\<forall>x \<in> set (?fields d). CHR ''|'' \<notin> set x" if "clean_entry d" "token (ce_prevHash d)" for d
  proof -
    have "list_all token (?fields d)" using that by (simp add: clean_entry_def)
    then show ?thesis unfolding list_all_iff token_def .
  qed
  have eq: "?fields e = ?fields e'"
    by (rule join_inject [where c = "CHR ''|''"])
      (use assms bar in \<open>auto simp only: length_Cons list.size canonicalEntry_def\<close>)
  have "ec_counterpartyPid e = ec_counterpartyPid e'" "ec_parentRef e = ec_parentRef e'"
    using eq assms(1,2) opt_token_inject by (auto simp: clean_entry_def)
  moreover have "ec_feePolicyVersion e = ec_feePolicyVersion e'"
    using eq opt_version_inject by auto
  ultimately show ?thesis using eq by (intro chainable.equality) auto
qed

section \<open>Tamper evidence\<close>

text \<open>The strings a chain feeds to the digest.\<close>

fun chain_preimages :: "string \<Rightarrow> verifiable list \<Rightarrow> string list" where
  "chain_preimages prev [] = []"
| "chain_preimages prev (e # es) =
     canonicalEntry (with_prev e prev) # chain_preimages (nullish (ve_hash e) []) es"

lemma chain_preimages_snoc:
  "linked sha p xs m \<Longrightarrow> chain_preimages p (xs @ [e]) = chain_preimages p xs @ [canonicalEntry (with_prev e m)]"
  by (induction xs arbitrary: p) auto

lemma linked_head_token:
  "linked sha p xs h \<Longrightarrow> token p \<Longrightarrow> (\<And>s. token (sha s)) \<Longrightarrow> token h"
  by (induction xs arbitrary: p) (auto simp: entryHash_def)

lemma token_genesis [simp]: "token GENESIS_HASH"
  by (simp add: token_def GENESIS_HASH_def)

lemma with_prev_sel [simp]:
  "ce_prevHash (with_prev e p) = p" "clean_entry (with_prev e p) = clean_entry e"
  by (simp_all add: with_prev_def entry_core.defs clean_entry_def)

lemma with_prev_inject: "with_prev e p = with_prev e' p' \<longleftrightarrow> entry_core.truncate e = entry_core.truncate e' \<and> p = p'"
  by (auto simp: with_prev_def entry_core.defs)

lemma linked_nonempty_head:
  assumes "linked sha p xs h" "xs \<noteq> []"
  shows "\<exists>s \<in> set (chain_preimages p xs). sha s = h"
proof -
  obtain ys e where xs: "xs = ys @ [e]" using assms(2) by (metis append_butlast_last_id)
  then obtain m where m: "linked sha p ys m" and h: "h = entryHash sha (with_prev e m)"
    using assms(1) by (auto simp: linked_snoc)
  have "canonicalEntry (with_prev e m) \<in> set (chain_preimages p xs)"
    using chain_preimages_snoc [OF m] by (simp add: xs)
  with h show ?thesis by (auto simp: entryHash_def)
qed

text \<open>C14: the head hash commits to the whole history. Two verifying chains with the same head have
  the same entries in the same order (nothing edited, dropped, reordered or inserted), unless two
  different strings hashed by the chains collide or a hashed string is a preimage of the genesis
  value.\<close>

theorem chain_tamper_evident:
  assumes "cv_ok (verifyChain sha xs)" "cv_ok (verifyChain sha ys)"
    and "cv_headHash (verifyChain sha xs) = cv_headHash (verifyChain sha ys)"
    and "list_all clean_entry xs" "list_all clean_entry ys" "\<forall>s. token (sha s)"
  shows "map entry_core.truncate xs = map entry_core.truncate ys
    \<or> (\<exists>a \<in> set (chain_preimages GENESIS_HASH xs). \<exists>b \<in> set (chain_preimages GENESIS_HASH ys).
          a \<noteq> b \<and> sha a = sha b)
    \<or> (\<exists>a \<in> set (chain_preimages GENESIS_HASH xs) \<union> set (chain_preimages GENESIS_HASH ys).
          sha a = GENESIS_HASH)"
proof -
  have main: "map entry_core.truncate xs = map entry_core.truncate ys
      \<or> (\<exists>a \<in> set (chain_preimages GENESIS_HASH xs). \<exists>b \<in> set (chain_preimages GENESIS_HASH ys).
            a \<noteq> b \<and> sha a = sha b)
      \<or> (\<exists>a \<in> set (chain_preimages GENESIS_HASH xs) \<union> set (chain_preimages GENESIS_HASH ys).
            sha a = GENESIS_HASH)"
    if "linked sha GENESIS_HASH xs h" "linked sha GENESIS_HASH ys h"
      "list_all clean_entry xs" "list_all clean_entry ys" for h xs ys
    using that
  proof (induction xs arbitrary: ys h rule: rev_induct)
    case Nil
    then show ?case
      using linked_nonempty_head [of sha GENESIS_HASH ys h] by (cases "ys = []") auto
  next
    case (snoc e xs)
    then obtain m where m: "linked sha GENESIS_HASH xs m" and h: "h = entryHash sha (with_prev e m)"
      by (auto simp: linked_snoc)
    note pre = chain_preimages_snoc [OF m, of e]
    show ?case
    proof (cases ys rule: rev_cases)
      case Nil
      with snoc.prems(2) h pre show ?thesis by (auto simp: entryHash_def)
    next
      case (snoc ys' e')
      then obtain m' where m': "linked sha GENESIS_HASH ys' m'" and h': "h = entryHash sha (with_prev e' m')"
        using snoc.prems(2) by (auto simp: linked_snoc)
      note pre' = chain_preimages_snoc [OF m', of e']
      show ?thesis
      proof (cases "canonicalEntry (with_prev e m) = canonicalEntry (with_prev e' m')")
        case True
        have "token m" "token m'"
          using linked_head_token m m' assms(6) token_genesis by blast+
        with True snoc.prems(3,4) have "with_prev e m = with_prev e' m'"
          by (intro canonicalEntry_inject) (auto simp: \<open>ys = ys' @ [e']\<close>)
        then have same: "entry_core.truncate e = entry_core.truncate e'" "m' = m"
          by (auto simp: with_prev_inject)
        with m' have "linked sha GENESIS_HASH ys' m" by simp
        from snoc.IH [OF m this] snoc.prems(3,4) same pre pre' \<open>ys = ys' @ [e']\<close>
        show ?thesis by auto
      next
        case False
        with h h' pre pre' show ?thesis by (auto simp: entryHash_def \<open>ys = ys' @ [e']\<close>)
      qed
    qed
  qed
  show ?thesis
    using main [of xs "cv_headHash (verifyChain sha xs)" ys] assms
    by (metis verifyChain_linked)
qed

text \<open>A concrete digest and a one-entry chain for the witnesses.\<close>

definition demo_sha :: "string \<Rightarrow> string" where
  "demo_sha s = CHR ''h'' # filter (\<lambda>c. c \<noteq> CHR ''|'') s"

definition demo_entry :: verifiable where
  "demo_entry = \<lparr>ec_entryGroup = ''g'', ec_kind = ''fiat_issue'', ec_pid = ''a@pid'', ec_counterpartyPid = None,
     ec_amountIdr = 7, ec_direction = ''in'', ec_idempotencyKey = ''IC-1'', ec_parentRef = None,
     ec_status = ''posted'', ec_feePolicyVersion = None, ve_prevHash = Some GENESIS_HASH,
     ve_hash = Some (demo_sha (canonicalEntry \<lparr>ec_entryGroup = ''g'', ec_kind = ''fiat_issue'', ec_pid = ''a@pid'',
       ec_counterpartyPid = None, ec_amountIdr = 7, ec_direction = ''in'', ec_idempotencyKey = ''IC-1'',
       ec_parentRef = None, ec_status = ''posted'', ec_feePolicyVersion = None, ce_prevHash = GENESIS_HASH\<rparr>))\<rparr>"

lemma demo_entry_ok: "cv_ok (verifyChain demo_sha [demo_entry])" "clean_entry demo_entry"
  by (simp_all add: verifyChain_def demo_entry_def entryHash_def with_prev_def entry_core.defs demo_sha_def
      clean_entry_def token_def)

theorem chain_tamper_evident_witness:
  "map entry_core.truncate [demo_entry] = map entry_core.truncate [demo_entry]
   \<or> (\<exists>a \<in> set (chain_preimages GENESIS_HASH [demo_entry]).
        \<exists>b \<in> set (chain_preimages GENESIS_HASH [demo_entry]). a \<noteq> b \<and> demo_sha a = demo_sha b)
   \<or> (\<exists>a \<in> set (chain_preimages GENESIS_HASH [demo_entry]) \<union> set (chain_preimages GENESIS_HASH [demo_entry]).
        demo_sha a = GENESIS_HASH)"
proof -
  have "\<forall>s. token (demo_sha s)" by (simp add: token_def demo_sha_def)
  with demo_entry_ok show ?thesis
    by (intro chain_tamper_evident) auto
qed



end
