(* ===== verification/Ledger_Replay.thy ===== *)
theory Ledger_Replay
  imports Prelude "HOL-Library.Multiset"
begin

text \<open>
  Replay of the double-entry journals: \<^verbatim>\<open>apps/api/src/fiat/fiat-ledger-replay.ts\<close> (the internal
  fiat ledger, whose replay is the balance). A row is folded into a state of owner balances, the
  treasury and tax buckets, the groups' in and out totals and the list of errors; the specification
  is the sum of the rows' effects on an account.
\<close>

section \<open>Rows and state\<close>

record fiat_row =
  r_kind :: string
  r_pid :: string
  r_idempotencyKey :: string
  r_entryGroup :: "string option"
  r_amountIdr :: int
  r_direction :: "string option"
  r_status :: string
  r_replaySeq :: "int option"

record replay_state =
  rs_balances :: "(string, int) jsmap"
  rs_treasury :: int
  rs_tax :: int
  rs_inFlight :: "string list"
  rs_errors :: "string list"
  rs_groups :: "(string, int \<times> int) jsmap"

definition CREDIT_IN :: "string list" where
  "CREDIT_IN = [''fiat_payment_in'', ''fiat_issue'', ''fiat_transfer_in'', ''fiat_app_fee'']"

definition CREDIT_OUT :: "string list" where
  "CREDIT_OUT = [''fiat_transfer_out'']"

text \<open>Unsequenced rows sort last.\<close>

definition seqOf :: "fiat_row \<Rightarrow> int" where
  "seqOf r = nullish (r_replaySeq r) (2 ^ 62)"

definition init_replay :: replay_state where
  "init_replay = \<lparr>rs_balances = [], rs_treasury = 0, rs_tax = 0, rs_inFlight = [], rs_errors = [], rs_groups = []\<rparr>"

section \<open>One row\<close>

definition credit :: "string \<Rightarrow> int \<Rightarrow> replay_state \<Rightarrow> replay_state" where
  "credit owner amount s =
     s\<lparr>rs_balances := jsmap_set owner (nullish (jsmap_get (rs_balances s) owner) 0 + amount) (rs_balances s)\<rparr>"

definition push_error :: "string \<Rightarrow> replay_state \<Rightarrow> replay_state" where
  "push_error e s = s\<lparr>rs_errors := rs_errors s @ [e]\<rparr>"

text \<open>\<^verbatim>\<open>bump\<close>: add the row's amount to one side of its group; a null or empty group is not tracked.\<close>

definition bump_out :: "fiat_row \<Rightarrow> replay_state \<Rightarrow> replay_state" where
  "bump_out r s =
     (case r_entryGroup r of None \<Rightarrow> s
      | Some gr \<Rightarrow> if gr = [] then s
          else let (o', i') = nullish (jsmap_get (rs_groups s) gr) (0, 0)
               in s\<lparr>rs_groups := jsmap_set gr (o' + r_amountIdr r, i') (rs_groups s)\<rparr>)"

definition bump_in :: "fiat_row \<Rightarrow> replay_state \<Rightarrow> replay_state" where
  "bump_in r s =
     (case r_entryGroup r of None \<Rightarrow> s
      | Some gr \<Rightarrow> if gr = [] then s
          else let (o', i') = nullish (jsmap_get (rs_groups s) gr) (0, 0)
               in s\<lparr>rs_groups := jsmap_set gr (o', i' + r_amountIdr r) (rs_groups s)\<rparr>)"

definition checkDirection :: "string \<Rightarrow> fiat_row \<Rightarrow> replay_state \<Rightarrow> replay_state" where
  "checkDirection expected r s =
     (case r_direction r of None \<Rightarrow> s
      | Some d \<Rightarrow> if d \<noteq> expected
          then push_error (r_idempotencyKey r @ '': direction '' @ d @ '' != '' @ expected @ '' for kind '' @ r_kind r) s
          else s)"

definition replay_row :: "fiat_row \<Rightarrow> replay_state \<Rightarrow> replay_state" where
  "replay_row r s =
     (if r_status r \<noteq> ''posted'' then
        (if List.member CREDIT_IN (r_kind r) \<or> List.member CREDIT_OUT (r_kind r) \<or> r_kind r = ''fiat_fee''
            \<or> r_kind r = ''fiat_tax'' \<or> r_kind r = ''fiat_adjust''
         then s\<lparr>rs_inFlight := rs_inFlight s @ [r_idempotencyKey r]\<rparr> else s)
      else if r_amountIdr r \<le> 0 then
        push_error (r_idempotencyKey r @ '': non-positive amount '' @ show_int (r_amountIdr r)) s
      else if r_kind r = ''fiat_issue'' \<or> r_kind r = ''fiat_payment_in'' then
        bump_in r (credit (r_pid r) (r_amountIdr r) (checkDirection ''in'' r s))
      else if r_kind r = ''fiat_fee'' then
        bump_in r ((checkDirection ''out'' r s)\<lparr>rs_treasury := rs_treasury s + r_amountIdr r\<rparr>)
      else if r_kind r = ''fiat_tax'' then
        bump_in r ((checkDirection ''out'' r s)\<lparr>rs_tax := rs_tax s + r_amountIdr r\<rparr>)
      else if r_kind r = ''fiat_app_fee'' then
        bump_in r (credit (r_pid r) (r_amountIdr r) (checkDirection ''in'' r s))
      else if r_kind r = ''fiat_transfer_in'' then
        bump_in r (credit (r_pid r) (r_amountIdr r) (checkDirection ''in'' r s))
      else if r_kind r = ''fiat_transfer_out'' then
        bump_out r (credit (r_pid r) (- r_amountIdr r) (checkDirection ''out'' r s))
      else if r_kind r = ''fiat_adjust'' then
        (if r_direction r = Some ''in'' then bump_in r (credit (r_pid r) (r_amountIdr r) s)
         else if r_direction r = Some ''out'' then bump_out r (credit (r_pid r) (- r_amountIdr r) s)
         else push_error (r_idempotencyKey r @ '': adjust without direction in|out'') s)
      else push_error (r_idempotencyKey r @ '': unknown journal kind '' @ r_kind r) s)"

section \<open>The whole replay\<close>

definition group_errors :: "(string, int \<times> int) jsmap \<Rightarrow> string list" where
  "group_errors groups =
     map (\<lambda>(gr, o', i'). ''group '' @ gr @ '' imbalanced: out '' @ show_int o' @ '' != in '' @ show_int i')
       (filter (\<lambda>(_, o', i'). o' \<noteq> 0 \<and> o' \<noteq> i') groups)"

definition owner_errors :: "(string, int) jsmap \<Rightarrow> string list" where
  "owner_errors balances =
     map (\<lambda>(owner, bal). ''owner '' @ owner @ '' negative outstanding '' @ show_int bal)
       (filter (\<lambda>(_, bal). bal < 0) balances)"

definition finish_replay :: "replay_state \<Rightarrow> replay_state" where
  "finish_replay s =
     s\<lparr>rs_errors := rs_errors s @ group_errors (rs_groups s) @ owner_errors (rs_balances s)
        @ (if rs_treasury s < 0 then [''treasury negative outstanding '' @ show_int (rs_treasury s)] else [])
        @ (if rs_tax s < 0 then [''tax negative outstanding '' @ show_int (rs_tax s)] else [])\<rparr>"

text \<open>\<^verbatim>\<open>[...rows].sort\<close>: by sequence, then by idempotency key (a unique column).\<close>

definition order_rows :: "fiat_row list \<Rightarrow> fiat_row list" where
  "order_rows rows = sort_key (\<lambda>r. (seqOf r, r_idempotencyKey r)) rows"

definition replayFiatLedger :: "fiat_row list \<Rightarrow> replay_state" where
  "replayFiatLedger rows = finish_replay (fold replay_row (order_rows rows) init_replay)"

definition totalFiatOutstanding :: "replay_state \<Rightarrow> int" where
  "totalFiatOutstanding s =
     rs_treasury s + rs_tax s + sum_list (map (\<lambda>(_, bal). bal) (rs_balances s))"

section \<open>The specification: sums of effects\<close>

definition counted :: "fiat_row \<Rightarrow> bool" where
  "counted r \<longleftrightarrow> r_status r = ''posted'' \<and> 0 < r_amountIdr r"

definition owner_in :: "fiat_row \<Rightarrow> bool" where
  "owner_in r \<longleftrightarrow> counted r \<and> (r_kind r \<in> {''fiat_issue'', ''fiat_payment_in'', ''fiat_app_fee'', ''fiat_transfer_in''}
     \<or> r_kind r = ''fiat_adjust'' \<and> r_direction r = Some ''in'')"

definition owner_out :: "fiat_row \<Rightarrow> bool" where
  "owner_out r \<longleftrightarrow> counted r \<and> (r_kind r = ''fiat_transfer_out''
     \<or> r_kind r = ''fiat_adjust'' \<and> r_direction r = Some ''out'')"

definition treasury_in :: "fiat_row \<Rightarrow> bool" where
  "treasury_in r \<longleftrightarrow> counted r \<and> r_kind r = ''fiat_fee''"

definition tax_in :: "fiat_row \<Rightarrow> bool" where
  "tax_in r \<longleftrightarrow> counted r \<and> r_kind r = ''fiat_tax''"

definition owner_effect :: "fiat_row \<Rightarrow> int" where
  "owner_effect r = (if owner_in r then r_amountIdr r else if owner_out r then - r_amountIdr r else 0)"

definition balance_of :: "replay_state \<Rightarrow> string \<Rightarrow> int" where
  "balance_of s p = nullish (jsmap_get (rs_balances s) p) 0"

definition owner_total :: "string \<Rightarrow> fiat_row list \<Rightarrow> int" where
  "owner_total p rows = sum_list (map owner_effect (filter (\<lambda>r. r_pid r = p) rows))"

section \<open>The helpers, field by field\<close>

named_theorems replay_simps

lemma balance_of_credit [replay_simps]:
  "balance_of (credit w a s) p = balance_of s p + (if p = w then a else 0)"
  by (simp add: balance_of_def credit_def jsmap_get_set)

lemma credit_sel [replay_simps]:
  "rs_treasury (credit w a s) = rs_treasury s" "rs_tax (credit w a s) = rs_tax s"
  "rs_groups (credit w a s) = rs_groups s" "rs_errors (credit w a s) = rs_errors s"
  "rs_inFlight (credit w a s) = rs_inFlight s"
  by (simp_all add: credit_def)

lemma push_error_sel [replay_simps]:
  "rs_treasury (push_error e s) = rs_treasury s" "rs_tax (push_error e s) = rs_tax s"
  "rs_groups (push_error e s) = rs_groups s" "rs_balances (push_error e s) = rs_balances s"
  "rs_errors (push_error e s) = rs_errors s @ [e]"
  by (simp_all add: push_error_def)

lemma checkDirection_sel [replay_simps]:
  "rs_treasury (checkDirection d r s) = rs_treasury s" "rs_tax (checkDirection d r s) = rs_tax s"
  "rs_groups (checkDirection d r s) = rs_groups s" "rs_balances (checkDirection d r s) = rs_balances s"
  by (simp_all add: checkDirection_def replay_simps split: option.splits)

lemma bump_sel [replay_simps]:
  "rs_treasury (bump_in r s) = rs_treasury s" "rs_tax (bump_in r s) = rs_tax s"
  "rs_balances (bump_in r s) = rs_balances s" "rs_errors (bump_in r s) = rs_errors s"
  "rs_treasury (bump_out r s) = rs_treasury s" "rs_tax (bump_out r s) = rs_tax s"
  "rs_balances (bump_out r s) = rs_balances s" "rs_errors (bump_out r s) = rs_errors s"
  by (simp_all add: bump_in_def bump_out_def Let_def split: option.splits prod.splits)

lemma balance_of_cong [replay_simps]:
  "balance_of (bump_in r s) p = balance_of s p" "balance_of (bump_out r s) p = balance_of s p"
  "balance_of (push_error e s) p = balance_of s p" "balance_of (checkDirection d r s) p = balance_of s p"
  "balance_of (s\<lparr>rs_treasury := t\<rparr>) p = balance_of s p" "balance_of (s\<lparr>rs_tax := t\<rparr>) p = balance_of s p"
  "balance_of (s\<lparr>rs_inFlight := l\<rparr>) p = balance_of s p"
  by (simp_all add: balance_of_def replay_simps)

lemmas effect_defs = owner_effect_def owner_in_def owner_out_def treasury_in_def tax_in_def counted_def

lemma replay_row_balance:
  "balance_of (replay_row r s) p = balance_of s p + (if r_pid r = p then owner_effect r else 0)"
  by (auto simp: replay_row_def effect_defs replay_simps)

lemma replay_row_treasury:
  "rs_treasury (replay_row r s) = rs_treasury s + (if treasury_in r then r_amountIdr r else 0)"
  by (auto simp: replay_row_def effect_defs replay_simps)

lemma replay_row_tax:
  "rs_tax (replay_row r s) = rs_tax s + (if tax_in r then r_amountIdr r else 0)"
  by (auto simp: replay_row_def effect_defs replay_simps)

section \<open>Folds\<close>

lemma owner_total_simps [simp]:
  "owner_total p [] = 0"
  "owner_total p (r # rows) = (if r_pid r = p then owner_effect r else 0) + owner_total p rows"
  "owner_total p (rows @ rows') = owner_total p rows + owner_total p rows'"
  by (simp_all add: owner_total_def)

lemma fold_balance: "balance_of (fold replay_row rows s) p = balance_of s p + owner_total p rows"
  by (induction rows arbitrary: s) (auto simp: replay_row_balance)

lemma fold_treasury:
  "rs_treasury (fold replay_row rows s) = rs_treasury s + sum_list (map r_amountIdr (filter treasury_in rows))"
  by (induction rows arbitrary: s) (auto simp: replay_row_treasury)

lemma fold_tax:
  "rs_tax (fold replay_row rows s) = rs_tax s + sum_list (map r_amountIdr (filter tax_in rows))"
  by (induction rows arbitrary: s) (auto simp: replay_row_tax)

lemma mset_order_rows [simp]: "mset (order_rows rows) = mset rows"
  by (simp add: order_rows_def)

lemma sum_list_filter_mset:
  fixes f :: "'a \<Rightarrow> int"
  assumes "mset xs = mset ys"
  shows "sum_list (map f (filter P xs)) = sum_list (map f (filter P ys))"
proof -
  have "mset (map f (filter P xs)) = mset (map f (filter P ys))"
    using assms by (simp add: mset_map mset_filter)
  then show ?thesis by (metis sum_mset_sum_list)
qed

lemma owner_total_mset: "mset xs = mset ys \<Longrightarrow> owner_total p xs = owner_total p ys"
  unfolding owner_total_def by (rule sum_list_filter_mset)

lemma finish_sel [simp]:
  "rs_balances (finish_replay s) = rs_balances s" "rs_treasury (finish_replay s) = rs_treasury s"
  "rs_tax (finish_replay s) = rs_tax s" "rs_groups (finish_replay s) = rs_groups s"
  "balance_of (finish_replay s) p = balance_of s p"
  by (simp_all add: finish_replay_def balance_of_def)

lemma init_sel [simp]:
  "balance_of init_replay p = 0" "rs_treasury init_replay = 0" "rs_tax init_replay = 0"
  "rs_balances init_replay = []" "rs_groups init_replay = []" "rs_errors init_replay = []"
  by (simp_all add: init_replay_def balance_of_def)

lemma replay_balance: "balance_of (replayFiatLedger rows) p = owner_total p rows"
  by (simp add: replayFiatLedger_def fold_balance owner_total_mset [OF mset_order_rows])

text \<open>C27: the replayed ledger is the sum of its posted rows. Each owner's balance is the sum of the
  rows' effects on that owner, the treasury holds the posted fees and the tax bucket the posted
  taxes; so the result does not depend on the order in which rows are read.\<close>

theorem replay_is_sum_of_rows:
  "balance_of (replayFiatLedger rows) p = owner_total p rows
   \<and> rs_treasury (replayFiatLedger rows) = sum_list (map r_amountIdr (filter treasury_in rows))
   \<and> rs_tax (replayFiatLedger rows) = sum_list (map r_amountIdr (filter tax_in rows))
   \<and> (mset rows' = mset rows \<longrightarrow>
        balance_of (replayFiatLedger rows') p = balance_of (replayFiatLedger rows) p)"
proof (intro conjI impI)
  show "balance_of (replayFiatLedger rows) p = owner_total p rows" by (rule replay_balance)
  show "rs_treasury (replayFiatLedger rows) = sum_list (map r_amountIdr (filter treasury_in rows))"
    by (simp add: replayFiatLedger_def fold_treasury sum_list_filter_mset [OF mset_order_rows])
  show "rs_tax (replayFiatLedger rows) = sum_list (map r_amountIdr (filter tax_in rows))"
    by (simp add: replayFiatLedger_def fold_tax sum_list_filter_mset [OF mset_order_rows])
  assume "mset rows' = mset rows"
  then show "balance_of (replayFiatLedger rows') p = balance_of (replayFiatLedger rows) p"
    unfolding replay_balance by (rule owner_total_mset)
qed

theorem replay_is_sum_of_rows_witness:
  "balance_of (replayFiatLedger
     [\<lparr>r_kind = ''fiat_fee'', r_pid = ''a@pid'', r_idempotencyKey = ''k2'', r_entryGroup = Some ''g'', r_amountIdr = 100,
       r_direction = Some ''out'', r_status = ''posted'', r_replaySeq = Some 2\<rparr>,
      \<lparr>r_kind = ''fiat_issue'', r_pid = ''a@pid'', r_idempotencyKey = ''k1'', r_entryGroup = Some ''g'', r_amountIdr = 9900,
       r_direction = Some ''in'', r_status = ''posted'', r_replaySeq = Some 1\<rparr>]) ''a@pid'' = 9900"
  (is "balance_of (replayFiatLedger [?f, ?i]) _ = _")
proof -
  have "mset [?f, ?i] = mset [?i, ?f]" by simp
  with replay_is_sum_of_rows [of "[?i, ?f]" "''a@pid''" "[?f, ?i]"] show ?thesis
    by (simp add: effect_defs)
qed

section \<open>Conservation\<close>

definition replay_wf :: "replay_state \<Rightarrow> bool" where
  "replay_wf s \<longleftrightarrow> distinct (map fst (rs_balances s)) \<and> distinct (map fst (rs_groups s))"

definition money_in :: "fiat_row \<Rightarrow> bool" where
  "money_in r \<longleftrightarrow> owner_in r \<or> treasury_in r \<or> tax_in r"

definition flow :: "fiat_row \<Rightarrow> int" where
  "flow r = (if money_in r then r_amountIdr r else if owner_out r then - r_amountIdr r else 0)"

definition in_sum :: "fiat_row list \<Rightarrow> int" where
  "in_sum rows = sum_list (map r_amountIdr (filter money_in rows))"

definition out_sum :: "fiat_row list \<Rightarrow> int" where
  "out_sum rows = sum_list (map r_amountIdr (filter owner_out rows))"

definition of_group :: "string \<Rightarrow> fiat_row list \<Rightarrow> fiat_row list" where
  "of_group g rows = filter (\<lambda>r. r_entryGroup r = Some g) rows"

definition grouped :: "fiat_row \<Rightarrow> bool" where
  "grouped r \<longleftrightarrow> r_entryGroup r \<noteq> None \<and> r_entryGroup r \<noteq> Some []"

lemmas flow_defs = flow_def money_in_def effect_defs

lemma wf_init [simp]: "replay_wf init_replay"
  by (simp add: replay_wf_def)

lemma wf_helpers:
  "replay_wf s \<Longrightarrow> replay_wf (credit w a s)" "replay_wf s \<Longrightarrow> replay_wf (push_error e s)"
  "replay_wf s \<Longrightarrow> replay_wf (checkDirection d r s)"
  "replay_wf s \<Longrightarrow> replay_wf (bump_in r s)" "replay_wf s \<Longrightarrow> replay_wf (bump_out r s)"
  "replay_wf (s\<lparr>rs_treasury := t\<rparr>) = replay_wf s" "replay_wf (s\<lparr>rs_tax := t\<rparr>) = replay_wf s"
  "replay_wf (s\<lparr>rs_inFlight := l\<rparr>) = replay_wf s"
  by (auto simp: replay_wf_def credit_def push_error_def checkDirection_def bump_in_def bump_out_def
      distinct_jsmap_set Let_def split: option.splits prod.splits)

lemma wf_replay_row: "replay_wf s \<Longrightarrow> replay_wf (replay_row r s)"
  by (auto simp: replay_row_def wf_helpers)

interpretation replay_rows: service_machine replay_row replay_wf
  by unfold_locales (rule wf_replay_row)

lemma total_credit: "replay_wf s \<Longrightarrow> totalFiatOutstanding (credit w a s) = totalFiatOutstanding s + a"
  using sum_list_jsmap_set [of "rs_balances s" "\<lambda>x. x" w "nullish (jsmap_get (rs_balances s) w) 0 + a"]
  by (simp add: totalFiatOutstanding_def credit_def replay_wf_def split: option.splits)

lemma total_helpers [replay_simps]:
  "totalFiatOutstanding (bump_in r s) = totalFiatOutstanding s"
  "totalFiatOutstanding (bump_out r s) = totalFiatOutstanding s"
  "totalFiatOutstanding (push_error e s) = totalFiatOutstanding s"
  "totalFiatOutstanding (checkDirection d r s) = totalFiatOutstanding s"
  "totalFiatOutstanding (s\<lparr>rs_inFlight := l\<rparr>) = totalFiatOutstanding s"
  "totalFiatOutstanding (s\<lparr>rs_treasury := t\<rparr>) = totalFiatOutstanding s - rs_treasury s + t"
  "totalFiatOutstanding (s\<lparr>rs_tax := t\<rparr>) = totalFiatOutstanding s - rs_tax s + t"
  by (simp_all add: totalFiatOutstanding_def replay_simps)

lemma replay_row_total:
  "replay_wf s \<Longrightarrow> totalFiatOutstanding (replay_row r s) = totalFiatOutstanding s + flow r"
  by (auto simp: replay_row_def flow_defs replay_simps total_credit wf_helpers)

lemma fold_total:
  "replay_wf s \<Longrightarrow> totalFiatOutstanding (fold replay_row rows s) = totalFiatOutstanding s + sum_list (map flow rows)"
  by (induction rows arbitrary: s) (auto simp: replay_row_total wf_replay_row)

text \<open>The two sides of a group.\<close>

definition group_sides :: "replay_state \<Rightarrow> string \<Rightarrow> int \<times> int" where
  "group_sides s g = nullish (jsmap_get (rs_groups s) g) (0, 0)"

lemma group_sides_bump [replay_simps]:
  "group_sides (bump_in r s) g = (fst (group_sides s g),
     snd (group_sides s g) + (if r_entryGroup r = Some g \<and> g \<noteq> [] then r_amountIdr r else 0))"
  "group_sides (bump_out r s) g = (fst (group_sides s g)
     + (if r_entryGroup r = Some g \<and> g \<noteq> [] then r_amountIdr r else 0), snd (group_sides s g))"
  by (auto simp: group_sides_def bump_in_def bump_out_def jsmap_get_set Let_def split: option.splits prod.splits)

lemma group_sides_other [replay_simps]:
  "group_sides (credit w a s) g = group_sides s g" "group_sides (push_error e s) g = group_sides s g"
  "group_sides (checkDirection d r s) g = group_sides s g"
  "group_sides (s\<lparr>rs_treasury := t\<rparr>) g = group_sides s g" "group_sides (s\<lparr>rs_tax := t\<rparr>) g = group_sides s g"
  "group_sides (s\<lparr>rs_inFlight := l\<rparr>) g = group_sides s g"
  by (simp_all add: group_sides_def replay_simps)

lemma replay_row_sides:
  "g \<noteq> [] \<Longrightarrow> group_sides (replay_row r s) g =
     (fst (group_sides s g) + (if owner_out r \<and> r_entryGroup r = Some g then r_amountIdr r else 0),
      snd (group_sides s g) + (if money_in r \<and> r_entryGroup r = Some g then r_amountIdr r else 0))"
  by (auto simp: replay_row_def flow_defs replay_simps)

lemma fold_sides:
  "g \<noteq> [] \<Longrightarrow> group_sides (fold replay_row rows s) g =
     (fst (group_sides s g) + out_sum (of_group g rows), snd (group_sides s g) + in_sum (of_group g rows))"
  by (induction rows arbitrary: s)
    (auto simp: replay_row_sides in_sum_def out_sum_def of_group_def)

lemma sum_list_by_key:
  fixes f :: "'a \<Rightarrow> int"
  assumes "finite G" "\<forall>r \<in> set rows. key r \<in> G"
  shows "sum_list (map f rows) = (\<Sum>g \<in> G. sum_list (map f (filter (\<lambda>r. key r = g) rows)))"
  using assms(2)
proof (induction rows)
  case (Cons r rows)
  have "(\<Sum>g \<in> G. sum_list (map f (filter (\<lambda>r. key r = g) (r # rows))))
      = (\<Sum>g \<in> G. (if key r = g then f r else 0) + sum_list (map f (filter (\<lambda>r. key r = g) rows)))"
    by (rule sum.cong) auto
  also have "\<dots> = f r + sum_list (map f rows)"
    using Cons assms(1) by (simp add: sum.distrib sum.delta)
  finally show ?case by simp
qed simp

text \<open>A row mints when it puts money in and no row of its group takes money out.\<close>

definition minting :: "fiat_row list \<Rightarrow> fiat_row \<Rightarrow> bool" where
  "minting rows r \<longleftrightarrow> money_in r \<and> \<not> list_ex (\<lambda>q. owner_out q \<and> r_entryGroup q = r_entryGroup r) rows"

lemma flow_sum: "sum_list (map flow rows) = in_sum rows - out_sum rows"
  by (induction rows) (auto simp: flow_defs in_sum_def out_sum_def)

lemma out_sum_pos: "list_ex owner_out rows \<Longrightarrow> 0 < out_sum rows"
proof (induction rows)
  case (Cons r rows)
  have "0 \<le> out_sum rows" unfolding out_sum_def
    by (rule sum_list_nonneg) (auto simp: owner_out_def counted_def)
  with Cons show ?case
    by (cases "list_ex owner_out rows") (auto simp: out_sum_def owner_out_def counted_def)
qed simp

lemma minting_group_sum:
  assumes bal: "out_sum (of_group g rows) = 0 \<or> out_sum (of_group g rows) = in_sum (of_group g rows)"
  shows "sum_list (map flow (of_group g rows))
    = sum_list (map r_amountIdr (filter (minting rows) (of_group g rows)))"
proof (cases "list_ex owner_out (of_group g rows)")
  case True
  then have "filter (minting rows) (of_group g rows) = []"
    by (auto simp: filter_empty_conv minting_def of_group_def list_ex_iff)
  with True bal out_sum_pos [OF True] show ?thesis by (simp add: flow_sum)
next
  case False
  then have "filter owner_out (of_group g rows) = []" by (auto simp: filter_empty_conv list_ex_iff)
  moreover have "filter (minting rows) (of_group g rows) = filter money_in (of_group g rows)"
    using False by (intro filter_cong) (auto simp: minting_def of_group_def list_ex_iff)
  ultimately show ?thesis by (simp add: flow_sum in_sum_def out_sum_def)
qed

lemma no_group_errors:
  assumes "group_errors m = []"
  shows "fst (nullish (jsmap_get m g) (0, 0)) = 0 \<or> fst (nullish (jsmap_get m g) (0, 0)) = snd (nullish (jsmap_get m g) (0, 0))"
proof (cases "jsmap_get m g")
  case (Some p)
  then have "(g, p) \<in> set m" by (rule map_of_SomeD)
  with assms Some show ?thesis by (auto simp: group_errors_def filter_empty_conv)
qed simp

text \<open>C29: a replay that reports no error conserves money: every transfer or adjustment group puts in
  exactly what it takes out, so the credit outstanding over all owners, the treasury and the tax
  bucket is the sum of the rows of minting groups (issues and payments in), and nobody's balance
  is negative.\<close>

theorem replay_conserves_money:
  assumes "rs_errors (replayFiatLedger rows) = []" "list_all grouped rows"
  shows "totalFiatOutstanding (replayFiatLedger rows) = sum_list (map r_amountIdr (filter (minting rows) rows))
    \<and> 0 \<le> balance_of (replayFiatLedger rows) p"
proof
  let ?s = "fold replay_row (order_rows rows) init_replay"
  let ?G = "set (map r_entryGroup rows)"
  have balanced: "out_sum (of_group g rows) = 0 \<or> out_sum (of_group g rows) = in_sum (of_group g rows)"
    if "g \<noteq> []" for g
  proof -
    have "group_errors (rs_groups ?s) = []"
      using assms(1) by (simp add: replayFiatLedger_def finish_replay_def)
    then have "fst (group_sides ?s g) = 0 \<or> fst (group_sides ?s g) = snd (group_sides ?s g)"
      unfolding group_sides_def by (rule no_group_errors)
    moreover have "out_sum (of_group g (order_rows rows)) = out_sum (of_group g rows)"
      "in_sum (of_group g (order_rows rows)) = in_sum (of_group g rows)"
      unfolding out_sum_def in_sum_def of_group_def filter_filter
      by (rule sum_list_filter_mset, simp)+
    moreover have "group_sides init_replay g = (0, 0)" by (simp add: group_sides_def)
    ultimately show ?thesis using that by (simp add: fold_sides)
  qed
  have split: "sum_list (map f (filter P rows)) = (\<Sum>k \<in> ?G. sum_list (map f (filter (\<lambda>r. r_entryGroup r = k) (filter P rows))))"
    for f :: "fiat_row \<Rightarrow> int" and P
    by (rule sum_list_by_key) auto
  have "totalFiatOutstanding ?s = sum_list (map flow (order_rows rows))"
    by (simp add: fold_total) (simp add: totalFiatOutstanding_def)
  also have "\<dots> = sum_list (map flow rows)"
    using sum_list_filter_mset [OF mset_order_rows, of flow "\<lambda>_. True"] by simp
  also have "\<dots> = (\<Sum>k \<in> ?G. sum_list (map flow (filter (\<lambda>r. r_entryGroup r = k) rows)))"
    using split [of flow "\<lambda>_. True"] by simp
  also have "\<dots> = (\<Sum>k \<in> ?G. sum_list (map r_amountIdr (filter (\<lambda>r. r_entryGroup r = k) (filter (minting rows) rows))))"
  proof (rule sum.cong)
    fix k assume "k \<in> ?G"
    then obtain g where "k = Some g" "g \<noteq> []"
      using assms(2) by (auto simp: list_all_iff grouped_def)
    with minting_group_sum [OF balanced, of g] show
      "sum_list (map flow (filter (\<lambda>r. r_entryGroup r = k) rows)) =
       sum_list (map r_amountIdr (filter (\<lambda>r. r_entryGroup r = k) (filter (minting rows) rows)))"
      by (simp add: of_group_def conj_commute)
  qed simp
  also have "\<dots> = sum_list (map r_amountIdr (filter (minting rows) rows))"
    using split [of r_amountIdr "minting rows"] by simp
  finally show "totalFiatOutstanding (replayFiatLedger rows) = sum_list (map r_amountIdr (filter (minting rows) rows))"
    by (simp add: replayFiatLedger_def totalFiatOutstanding_def)
next
  have "owner_errors (rs_balances (replayFiatLedger rows)) = []"
    using assms(1) by (simp add: replayFiatLedger_def finish_replay_def)
  then show "0 \<le> balance_of (replayFiatLedger rows) p"
    by (cases "jsmap_get (rs_balances (replayFiatLedger rows)) p")
      (auto simp: balance_of_def owner_errors_def filter_empty_conv dest!: map_of_SomeD)
qed

text \<open>A deposit of 10000 with its fee, and a transfer of 4000 that pays a fee of 100.\<close>

definition demo_rows :: "fiat_row list" where
  "demo_rows =
    [\<lparr>r_kind = ''fiat_issue'', r_pid = ''a@pid'', r_idempotencyKey = ''k1'', r_entryGroup = Some ''g'', r_amountIdr = 10000,
       r_direction = Some ''in'', r_status = ''posted'', r_replaySeq = Some 1\<rparr>,
     \<lparr>r_kind = ''fiat_transfer_out'', r_pid = ''a@pid'', r_idempotencyKey = ''k2'', r_entryGroup = Some ''t'', r_amountIdr = 4100,
       r_direction = Some ''out'', r_status = ''posted'', r_replaySeq = Some 2\<rparr>,
     \<lparr>r_kind = ''fiat_transfer_in'', r_pid = ''b@pid'', r_idempotencyKey = ''k3'', r_entryGroup = Some ''t'', r_amountIdr = 4000,
       r_direction = Some ''in'', r_status = ''posted'', r_replaySeq = Some 3\<rparr>,
     \<lparr>r_kind = ''fiat_fee'', r_pid = ''a@pid'', r_idempotencyKey = ''k4'', r_entryGroup = Some ''t'', r_amountIdr = 100,
       r_direction = Some ''out'', r_status = ''posted'', r_replaySeq = Some 4\<rparr>]"

theorem replay_conserves_money_witness:
  "totalFiatOutstanding (replayFiatLedger demo_rows) = 10000
   \<and> 0 \<le> balance_of (replayFiatLedger demo_rows) ''b@pid''"
proof -
  have ord: "order_rows demo_rows = demo_rows"
    by (simp add: order_rows_def demo_rows_def seqOf_def)
  have "rs_errors (replayFiatLedger demo_rows) = []"
    unfolding replayFiatLedger_def ord
    by (simp add: demo_rows_def replay_row_def init_replay_def finish_replay_def group_errors_def owner_errors_def
        bump_in_def bump_out_def credit_def checkDirection_def CREDIT_IN_def CREDIT_OUT_def)
  moreover have "list_all grouped demo_rows" by (simp add: demo_rows_def grouped_def)
  ultimately have "totalFiatOutstanding (replayFiatLedger demo_rows)
      = sum_list (map r_amountIdr (filter (minting demo_rows) demo_rows))
    \<and> 0 \<le> balance_of (replayFiatLedger demo_rows) ''b@pid''"
    by (rule replay_conserves_money)
  then show ?thesis
    by (simp add: demo_rows_def minting_def flow_defs)
qed

end
