(* ===== verification/Fiat_Store.thy ===== *)
theory Fiat_Store
  imports Payments Ledger_Hash Ledger_Replay
begin

text \<open>
  The database the fiat services share and the one writer of posted rows: the \<^verbatim>\<open>FiatLedgerEntry\<close>
  table with its unique, foreign-key and autoincrement columns (\<^verbatim>\<open>schema.prisma\<close>), \<^verbatim>\<open>appendChained\<close>
  of \<^verbatim>\<open>fiat-ledger.service.ts\<close>, and \<^verbatim>\<open>fiat-ledger-chain.service.ts\<close> (verify, head, backfill).
  A \<^verbatim>\<open>$transaction\<close> is atomic: its model returns the new database or an error, and the caller keeps
  the old database on an error. SHA-256, the uuid supply, \<^verbatim>\<open>toISOString\<close> and the configuration are parameters
  (\<open>fiat_env\<close>); times are milliseconds.
\<close>

section \<open>Tables\<close>

record ledger_row = entry_core +
  lr_id :: string
  lr_counterparty :: "json option"
  lr_source :: "string option"
  lr_replaySeq :: int
  lr_prevHash :: "string option"
  lr_hash :: "string option"
  lr_hashSeq :: "int option"
  lr_createdAt :: int

record pid_app =
  pa_id :: string
  pa_clientId :: string
  pa_ownerPid :: string
  pa_isActive :: bool
  pa_isVerified :: bool
  pa_verificationExpiresAt :: "int option"
  pa_webhookUrl :: "string option"

record app_fee =
  af_appId :: string
  af_operation :: string
  af_percentBps :: int
  af_minIdr :: int
  af_maxIdr :: int
  af_enabled :: bool

record policy_row =
  pol_params :: fee_policy
  pol_active :: bool

record provider_tx =
  pt_id :: string
  pt_pid :: string
  pt_kind :: string
  pt_providerRef :: string
  pt_providerStatus :: string
  pt_providerPaymentStatus :: "string option"
  pt_amountIdr :: int
  pt_feeIdr :: "int option"
  pt_netIdr :: "int option"
  pt_feePolicyVersion :: "int option"
  pt_counterparty :: "json option"
  pt_ledgerStatus :: "string option"

record ledger_event =
  ev_id :: string
  ev_eventType :: string
  ev_idempotencyKey :: string
  ev_targetPid :: string
  ev_targetUrl :: string
  ev_payload :: "(string \<times> json) list"
  ev_status :: string
  ev_attempts :: nat
  ev_nextAttemptAt :: int

record fiat_payment =
  fp_id :: string
  fp_appClientId :: string
  fp_payerPid :: "string option"
  fp_beneficiaryPid :: string
  fp_externalId :: string
  fp_amountIdr :: int
  fp_feeIdr :: int
  fp_totalIdr :: int
  fp_quote :: "(string \<times> string) list"
  fp_providerRef :: string
  fp_paymentUrl :: "string option"
  fp_status :: string
  fp_expiresAt :: int
  fp_paidAt :: "int option"
  fp_createdAt :: int
  fp_refundedIdr :: int
  fp_nextCheckAt :: int

text \<open>\<open>db_nextSeq\<close> is the autoincrement of \<^verbatim>\<open>replaySeq\<close>; \<open>db_audit\<close> the sink of \<^verbatim>\<open>SecurityEventService.log\<close>;
  \<open>db_frozenOverride\<close> the in-process freeze switch.\<close>

record fiat_db =
  db_entries :: "ledger_row list"
  db_identities :: "string list"
  db_apps :: "pid_app list"
  db_appFees :: "app_fee list"
  db_policies :: "policy_row list"
  db_deposits :: "provider_tx list"
  db_payments :: "fiat_payment list"
  db_events :: "ledger_event list"
  db_audit :: "(string \<times> string \<times> (string \<times> json) list) list"
  db_nextSeq :: nat
  db_frozenOverride :: "bool option"

record fiat_env =
  env_sha :: "string \<Rightarrow> string"
  env_uuid :: "nat \<Rightarrow> string"
  env_iso :: "int \<Rightarrow> string"
  env_config :: "(string, string) jsmap"

section \<open>Row writes\<close>

text \<open>The \<^verbatim>\<open>data\<close> of a create or update; \<open>None\<close> is an absent key, which a create stores as NULL and an
  update leaves unchanged.\<close>

record entry_data =
  ed_entryGroup :: string
  ed_kind :: string
  ed_pid :: string
  ed_counterpartyPid :: "string option"
  ed_amountIdr :: int
  ed_direction :: string
  ed_idempotencyKey :: string
  ed_parentRef :: "string option"
  ed_feePolicyVersion :: "int option"
  ed_counterparty :: "json option"
  ed_source :: "string option"

definition log_audit :: "string \<Rightarrow> string \<Rightarrow> (string \<times> json) list \<Rightarrow> fiat_db \<Rightarrow> fiat_db" where
  "log_audit pid event detail db = db\<lparr>db_audit := db_audit db @ [(pid, event, detail)]\<rparr>"

text \<open>A row of the given status, hash fields and creation time.\<close>

definition new_row :: "fiat_env \<Rightarrow> int \<Rightarrow> string \<Rightarrow> (string \<times> string \<times> int) option \<Rightarrow> entry_data \<Rightarrow> nat \<Rightarrow> ledger_row" where
  "new_row env now status link d n =
     \<lparr>ec_entryGroup = ed_entryGroup d, ec_kind = ed_kind d, ec_pid = ed_pid d,
      ec_counterpartyPid = ed_counterpartyPid d, ec_amountIdr = ed_amountIdr d, ec_direction = ed_direction d,
      ec_idempotencyKey = ed_idempotencyKey d, ec_parentRef = ed_parentRef d, ec_status = status,
      ec_feePolicyVersion = ed_feePolicyVersion d,
      lr_id = env_uuid env n, lr_counterparty = ed_counterparty d, lr_source = ed_source d,
      lr_replaySeq = int n, lr_prevHash = map_option fst link, lr_hash = map_option (fst \<circ> snd) link,
      lr_hashSeq = map_option (snd \<circ> snd) link, lr_createdAt = now\<rparr>"

definition create_entry ::
  "fiat_env \<Rightarrow> int \<Rightarrow> string \<Rightarrow> (string \<times> string \<times> int) option \<Rightarrow> entry_data \<Rightarrow> fiat_db \<Rightarrow> fiat_db result" where
  "create_entry env now status link d db =
     (if list_ex (\<lambda>r. ec_idempotencyKey r = ed_idempotencyKey d) (db_entries db) then Inl UniqueViolation
      else if \<not> List.member (db_identities db) (ed_pid d) then Inl (JsError ''P2003'')
      else Inr (db\<lparr>db_entries := db_entries db @ [new_row env now status link d (db_nextSeq db)],
                   db_nextSeq := Suc (db_nextSeq db)\<rparr>))"

definition post_row :: "(string \<times> string \<times> int) \<Rightarrow> entry_data \<Rightarrow> ledger_row \<Rightarrow> ledger_row" where
  "post_row link d r =
     r\<lparr>ec_entryGroup := ed_entryGroup d, ec_kind := ed_kind d, ec_pid := ed_pid d,
       ec_counterpartyPid := or_else (ed_counterpartyPid d) (ec_counterpartyPid r),
       ec_amountIdr := ed_amountIdr d, ec_direction := ed_direction d, ec_idempotencyKey := ed_idempotencyKey d,
       ec_parentRef := or_else (ed_parentRef d) (ec_parentRef r), ec_status := ''posted'',
       ec_feePolicyVersion := or_else (ed_feePolicyVersion d) (ec_feePolicyVersion r),
       lr_counterparty := or_else (ed_counterparty d) (lr_counterparty r),
       lr_source := or_else (ed_source d) (lr_source r),
       lr_prevHash := Some (fst link), lr_hash := Some (fst (snd link)), lr_hashSeq := Some (snd (snd link))\<rparr>"

definition update_entry ::
  "string \<Rightarrow> (string \<times> string \<times> int) \<Rightarrow> entry_data \<Rightarrow> fiat_db \<Rightarrow> fiat_db result" where
  "update_entry i link d db =
     (if \<not> list_ex (\<lambda>r. lr_id r = i) (db_entries db) then Inl (JsError ''P2025'')
      else if list_ex (\<lambda>r. lr_id r \<noteq> i \<and> ec_idempotencyKey r = ed_idempotencyKey d) (db_entries db) then Inl UniqueViolation
      else if \<not> List.member (db_identities db) (ed_pid d) then Inl (JsError ''P2003'')
      else Inr (db\<lparr>db_entries := map (\<lambda>r. if lr_id r = i then post_row link d r else r) (db_entries db)\<rparr>))"

section \<open>The chained writer\<close>

text \<open>\<^verbatim>\<open>orderBy hashSeq\<close>: PostgreSQL takes NULL as the greatest value.\<close>

definition hseq :: "ledger_row \<Rightarrow> bool \<times> int" where
  "hseq r = (lr_hashSeq r = None, nullish (lr_hashSeq r) 0)"

definition hashed :: "ledger_row \<Rightarrow> bool" where
  "hashed r \<longleftrightarrow> lr_hash r \<noteq> None"

definition chained :: "ledger_row list \<Rightarrow> ledger_row list" where
  "chained rows = sort_key hseq (filter hashed rows)"

text \<open>\<^verbatim>\<open>last?.hash ?? GENESIS_HASH\<close> and \<^verbatim>\<open>last?.hashSeq ?? 0n\<close>.\<close>

definition chain_tip :: "ledger_row list \<Rightarrow> string \<times> int" where
  "chain_tip rows =
     (case rev (chained rows) of
        [] \<Rightarrow> (GENESIS_HASH, 0)
      | r # _ \<Rightarrow> (nullish (lr_hash r) GENESIS_HASH, nullish (lr_hashSeq r) 0))"

record chain_op =
  co_id :: "string option"
  co_data :: entry_data

text \<open>The entry that is hashed: absent optional fields are null, the status is posted.\<close>

definition hashed_core :: "entry_data \<Rightarrow> entry_core" where
  "hashed_core d =
     \<lparr>ec_entryGroup = ed_entryGroup d, ec_kind = ed_kind d, ec_pid = ed_pid d,
      ec_counterpartyPid = ed_counterpartyPid d, ec_amountIdr = ed_amountIdr d, ec_direction = ed_direction d,
      ec_idempotencyKey = ed_idempotencyKey d, ec_parentRef = ed_parentRef d, ec_status = ''posted'',
      ec_feePolicyVersion = ed_feePolicyVersion d\<rparr>"

fun append_ops :: "fiat_env \<Rightarrow> int \<Rightarrow> string \<Rightarrow> int \<Rightarrow> chain_op list \<Rightarrow> fiat_db \<Rightarrow> fiat_db result" where
  "append_ops env now prevHash seq [] db = Inr db"
| "append_ops env now prevHash seq (op # ops) db =
     (let seq' = seq + 1;
          h = entryHash (env_sha env) (with_prev (hashed_core (co_data op)) prevHash);
          link = (prevHash, h, seq');
          written = (case co_id op of
              Some i \<Rightarrow> update_entry i link (co_data op) db
            | None \<Rightarrow> create_entry env now ''posted'' (Some link) (co_data op) db)
      in bind_result written (append_ops env now h seq' ops))"

definition appendChained :: "fiat_env \<Rightarrow> int \<Rightarrow> chain_op list \<Rightarrow> fiat_db \<Rightarrow> fiat_db result" where
  "appendChained env now ops db =
     (let (prevHash, seq) = chain_tip (db_entries db) in append_ops env now prevHash seq ops db)"

section \<open>Chain service (\<^verbatim>\<open>fiat-ledger-chain.service.ts\<close>)\<close>

definition to_verifiable :: "ledger_row \<Rightarrow> verifiable" where
  "to_verifiable r =
     entry_core.extend (entry_core.truncate r) \<lparr>ve_prevHash = lr_prevHash r, ve_hash = lr_hash r\<rparr>"

definition verifyLedger :: "fiat_env \<Rightarrow> fiat_db \<Rightarrow> chain_verification \<times> nat" where
  "verifyLedger env db =
     (let unchained = length (filter (\<lambda>r. ec_status r = ''posted'' \<and> lr_hash r = None) (db_entries db));
          rows = take 100000 (sort_key hseq (filter (\<lambda>r. ec_status r = ''posted'' \<and> lr_hash r \<noteq> None) (db_entries db)));
          v = verifyChain (env_sha env) (map to_verifiable rows)
      in if unchained > 0
         then (v\<lparr>cv_ok := False,
                  cv_error := Some (case cv_error v of
                      Some e \<Rightarrow> e @ ''; '' @ show_nat unchained @ '' posted row(s) unchained''
                    | None \<Rightarrow> show_nat unchained @ '' posted row(s) unchained -- run chain backfill'')\<rparr>, unchained)
         else (v, 0))"

definition chainHead :: "fiat_db \<Rightarrow> string \<times> string option" where
  "chainHead db =
     (case rev (chained (db_entries db)) of
        [] \<Rightarrow> (GENESIS_HASH, None)
      | r # _ \<Rightarrow> (nullish (lr_hash r) GENESIS_HASH, map_option show_int (lr_hashSeq r)))"

text \<open>The repair fills the three hash columns of one row, found by its id.\<close>

definition fill_hash :: "string \<Rightarrow> (string \<times> string \<times> int) \<Rightarrow> ledger_row \<Rightarrow> ledger_row" where
  "fill_hash i link r =
     (if lr_id r = i then r\<lparr>lr_prevHash := Some (fst link), lr_hash := Some (fst (snd link)), lr_hashSeq := Some (snd (snd link))\<rparr>
      else r)"

fun backfill_rows :: "fiat_env \<Rightarrow> string \<Rightarrow> int \<Rightarrow> ledger_row list \<Rightarrow> ledger_row list \<Rightarrow> ledger_row list" where
  "backfill_rows env prevHash seq [] rows = rows"
| "backfill_rows env prevHash seq (r # rs) rows =
     (let seq' = seq + 1; h = entryHash (env_sha env) (with_prev r prevHash)
      in backfill_rows env h seq' rs (map (fill_hash (lr_id r) (prevHash, h, seq')) rows))"

definition backfillChain :: "fiat_env \<Rightarrow> fiat_db \<Rightarrow> nat \<times> fiat_db" where
  "backfillChain env db =
     (let unchained = take 100000 (sort_key lr_replaySeq
            (filter (\<lambda>r. ec_status r = ''posted'' \<and> lr_hash r = None) (db_entries db)));
          (prevHash, seq) = chain_tip (db_entries db)
      in (length unchained, db\<lparr>db_entries := backfill_rows env prevHash seq unchained (db_entries db)\<rparr>))"

section \<open>The chain invariant\<close>

text \<open>SHA-256 hex digests are never empty; the uuid supply never repeats.\<close>

definition env_ok :: "fiat_env \<Rightarrow> bool" where
  "env_ok env \<longleftrightarrow> (\<forall>x. env_sha env x \<noteq> []) \<and> inj (env_uuid env)"

definition rows_ok :: "fiat_env \<Rightarrow> fiat_db \<Rightarrow> bool" where
  "rows_ok env db \<longleftrightarrow>
     distinct (map lr_id (db_entries db)) \<and> distinct (map ec_idempotencyKey (db_entries db))
     \<and> distinct (map lr_replaySeq (db_entries db))
     \<and> (\<forall>r \<in> set (db_entries db). (\<exists>n < db_nextSeq db. lr_id r = env_uuid env n \<and> lr_replaySeq r = int n)
          \<and> List.member (db_identities db) (ec_pid r))"

definition chain_inv :: "fiat_env \<Rightarrow> ledger_row list \<Rightarrow> bool" where
  "chain_inv env rows \<longleftrightarrow>
     linked (env_sha env) GENESIS_HASH (map to_verifiable (chained rows)) (fst (chain_tip rows))
     \<and> map lr_hashSeq (chained rows) = map (\<lambda>i. Some (int (Suc i))) [0..<length (chained rows)]
     \<and> (\<forall>r \<in> set rows. hashed r \<longrightarrow> ec_status r = ''posted'')"

lemma set_chained [simp]: "set (chained rows) = {r \<in> set rows. hashed r}"
  by (auto simp: chained_def)

lemma chain_tip_seq:
  "map lr_hashSeq (chained rows) = map (\<lambda>i. Some (int (Suc i))) [0..<length (chained rows)]
   \<Longrightarrow> snd (chain_tip rows) = int (length (chained rows))"
proof (cases "chained rows" rule: rev_cases)
  case (snoc xs r)
  assume "map lr_hashSeq (chained rows) = map (\<lambda>i. Some (int (Suc i))) [0..<length (chained rows)]"
  with snoc show ?thesis by (simp add: chain_tip_def)
qed (simp add: chain_tip_def)

lemma chain_inv_tip: "chain_inv env rows \<Longrightarrow> snd (chain_tip rows) = int (length (chained rows))"
  by (simp add: chain_inv_def chain_tip_seq)

lemma chained_key:
  assumes "map lr_hashSeq (chained rows) = map (\<lambda>i. Some (int (Suc i))) [0..<length (chained rows)]"
    and "i < length (chained rows)"
  shows "hseq (chained rows ! i) = (False, int (Suc i))"
proof -
  have "map lr_hashSeq (chained rows) ! i = Some (int (Suc i))"
    unfolding assms(1) using assms(2) by simp
  with assms(2) show ?thesis by (simp add: hseq_def)
qed

text \<open>A row hashed next, with the next sequence number, becomes the last of the chain.\<close>

lemma chained_extend:
  assumes seqs: "map lr_hashSeq (chained rows) = map (\<lambda>i. Some (int (Suc i))) [0..<length (chained rows)]"
    and new: "lr_hashSeq r = Some (int (length (chained rows)) + 1)"
    and mset: "mset (filter hashed rows') = add_mset r (mset (filter hashed rows))"
  shows "chained rows' = chained rows @ [r]"
proof -
  let ?cs = "chained rows"
  have keys: "map hseq (?cs @ [r]) = map (\<lambda>i. (False, int (Suc i))) [0..<Suc (length ?cs)]"
    using chained_key [OF seqs] new by (auto simp: hseq_def intro!: nth_equalityI simp: nth_append)
  have "mset (?cs @ [r]) = mset (filter hashed rows')"
    unfolding mset chained_def by simp
  moreover have "inj_on hseq (set (?cs @ [r]))"
  proof -
    have "distinct (map hseq (?cs @ [r]))" unfolding keys by (auto simp: distinct_map inj_on_def)
    then show ?thesis by (simp only: distinct_map)
  qed
  moreover have "sorted (map hseq (?cs @ [r]))"
    unfolding keys by (auto simp: sorted_iff_nth_mono nth_append)
  ultimately have "sort_key hseq (filter hashed rows') = ?cs @ [r]"
    by (metis mset_eq_setD sort_key_inj_key_eq)
  then show ?thesis by (simp add: chained_def)
qed

lemma chain_inv_extend:
  assumes inv: "chain_inv env rows" and env: "env_ok env"
    and link: "lr_prevHash r = Some (fst (chain_tip rows))"
      "lr_hash r = Some (entryHash (env_sha env) (with_prev r (fst (chain_tip rows))))"
      "lr_hashSeq r = Some (snd (chain_tip rows) + 1)"
    and mset: "mset (filter hashed rows') = add_mset r (mset (filter hashed rows))"
    and posted: "ec_status r = ''posted''"
  shows "chain_inv env rows'"
    and "chain_tip rows' = (entryHash (env_sha env) (with_prev r (fst (chain_tip rows))), snd (chain_tip rows) + 1)"
proof -
  have seqs: "map lr_hashSeq (chained rows) = map (\<lambda>i. Some (int (Suc i))) [0..<length (chained rows)]"
    using inv by (simp add: chain_inv_def)
  have ch: "chained rows' = chained rows @ [r]"
    using chained_extend [OF seqs _ mset] link(3) chain_inv_tip [OF inv] by simp
  show tip: "chain_tip rows' = (entryHash (env_sha env) (with_prev r (fst (chain_tip rows))), snd (chain_tip rows) + 1)"
    using link by (simp add: chain_tip_def ch)
  have wp: "with_prev (to_verifiable r) p = with_prev r p" for p
    by (simp add: with_prev_def to_verifiable_def entry_core.defs)
  have "linked (env_sha env) GENESIS_HASH (map to_verifiable (chained rows')) (fst (chain_tip rows'))"
    using inv env link unfolding tip ch chain_inv_def
    by (auto simp: linked_snoc wp [unfolded with_prev_def] wp entryHash_def env_ok_def to_verifiable_def entry_core.defs with_prev_def)
  moreover have "set (filter hashed rows') = insert r (set (filter hashed rows))"
    using mset by (metis set_mset_add_mset_insert set_mset_mset)
  ultimately show "chain_inv env rows'"
    using inv posted seqs link(3) chain_inv_tip [OF inv] by (auto simp: chain_inv_def ch)
qed

section \<open>What the writer does to the table\<close>

text \<open>The rows a list of inserts adds.\<close>

fun legs_of :: "fiat_env \<Rightarrow> int \<Rightarrow> string \<Rightarrow> int \<Rightarrow> chain_op list \<Rightarrow> nat \<Rightarrow> ledger_row list" where
  "legs_of env now prevHash seq [] n = []"
| "legs_of env now prevHash seq (op # ops) n =
     (let h = entryHash (env_sha env) (with_prev (hashed_core (co_data op)) prevHash)
      in new_row env now ''posted'' (Some (prevHash, h, seq + 1)) (co_data op) n
         # legs_of env now h (seq + 1) ops (Suc n))"

definition insert_op :: "entry_data \<Rightarrow> chain_op" where
  "insert_op d = \<lparr>co_id = None, co_data = d\<rparr>"

definition is_insert :: "chain_op \<Rightarrow> bool" where
  "is_insert op \<longleftrightarrow> co_id op = None"

lemma insert_op_simps [simp]: "is_insert (insert_op d)" "co_data (insert_op d) = d" "co_id (insert_op d) = None"
  by (simp_all add: is_insert_def insert_op_def)

lemma truncate_new_row [simp]: "entry_core.truncate (new_row env now ''posted'' link d n) = hashed_core d"
  by (simp add: new_row_def hashed_core_def entry_core.defs)

lemma truncate_legs_of [simp]:
  "map entry_core.truncate (legs_of env now p q ops n) = map (hashed_core \<circ> co_data) ops"
  by (induction ops arbitrary: p q n) (auto simp: Let_def)

lemma length_legs_of [simp]: "length (legs_of env now p q ops n) = length ops"
  by (induction ops arbitrary: p q n) (auto simp: Let_def)

lemma append_inserts:
  assumes "list_all is_insert ops" "append_ops env now p q ops db = Inr db'"
  shows "db' = db\<lparr>db_entries := db_entries db @ legs_of env now p q ops (db_nextSeq db),
                  db_nextSeq := db_nextSeq db + length ops\<rparr>"
  using assms
proof (induction ops arbitrary: p q db)
  case (Cons op ops)
  let ?h = "entryHash (env_sha env) (with_prev (hashed_core (co_data op)) p)"
  let ?r = "new_row env now ''posted'' (Some (p, ?h, q + 1)) (co_data op) (db_nextSeq db)"
  let ?db1 = "db\<lparr>db_entries := db_entries db @ [?r], db_nextSeq := Suc (db_nextSeq db)\<rparr>"
  have "append_ops env now ?h (q + 1) ops ?db1 = Inr db'"
    using Cons.prems by (auto simp: is_insert_def Let_def create_entry_def split: if_splits)
  from Cons.IH [OF _ this] Cons.prems show ?case by (simp add: Let_def)
qed simp

definition core_fields :: "ledger_row \<Rightarrow> bool" where
  "core_fields r \<longleftrightarrow> ec_counterpartyPid r \<noteq> None \<and> ec_parentRef r \<noteq> None \<and> ec_feePolicyVersion r \<noteq> None"

lemma rows_ok_create:
  assumes "rows_ok env db" "env_ok env" "create_entry env now st link d db = Inr db'"
  shows "rows_ok env db'"
proof -
  let ?n = "db_nextSeq db"
  have db': "db' = db\<lparr>db_entries := db_entries db @ [new_row env now st link d ?n], db_nextSeq := Suc ?n\<rparr>"
    and fresh: "ed_idempotencyKey d \<notin> ec_idempotencyKey ` set (db_entries db)"
    and fk: "List.member (db_identities db) (ed_pid d)"
    using assms(3) by (auto simp: create_entry_def list_ex_iff split: if_splits)
  have old: "\<exists>n < ?n. lr_id r = env_uuid env n \<and> lr_replaySeq r = int n" if "r \<in> set (db_entries db)" for r
    using assms(1) that by (auto simp: rows_ok_def)
  have "env_uuid env ?n \<notin> lr_id ` set (db_entries db)" "int ?n \<notin> lr_replaySeq ` set (db_entries db)"
    using old assms(2) by (force simp: env_ok_def inj_eq)+
  then show ?thesis
    using assms(1) fresh fk by (auto simp: rows_ok_def db' new_row_def less_Suc_eq)
qed

lemma rows_ok_update:
  assumes "rows_ok env db" "update_entry i link d db = Inr db'"
  shows "rows_ok env db'"
proof -
  let ?f = "\<lambda>r. if lr_id r = i then post_row link d r else r"
  have db': "db' = db\<lparr>db_entries := map ?f (db_entries db)\<rparr>"
    and other: "\<And>r. r \<in> set (db_entries db) \<Longrightarrow> lr_id r \<noteq> i \<Longrightarrow> ec_idempotencyKey r \<noteq> ed_idempotencyKey d"
    and fk: "List.member (db_identities db) (ed_pid d)"
    using assms(2) by (auto simp: update_entry_def list_ex_iff split: if_splits)
  have ids: "lr_id (?f r) = lr_id r" "lr_replaySeq (?f r) = lr_replaySeq r" for r by (auto simp: post_row_def)
  have rid: "inj_on lr_id (set (db_entries db))" "distinct (db_entries db)"
    "inj_on ec_idempotencyKey (set (db_entries db))"
    using assms(1) by (auto simp: rows_ok_def distinct_map)
  have "inj_on (\<lambda>r. ec_idempotencyKey (?f r)) (set (db_entries db))"
  proof (rule inj_onI)
    fix r q assume rq: "r \<in> set (db_entries db)" "q \<in> set (db_entries db)"
      "ec_idempotencyKey (?f r) = ec_idempotencyKey (?f q)"
    show "r = q"
    proof (cases "lr_id r = i \<longleftrightarrow> lr_id q = i")
      case True
      with rq rid show ?thesis by (auto simp: inj_on_def split: if_splits)
    next
      case False
      with rq other show ?thesis by (auto simp: post_row_def split: if_splits)
    qed
  qed
  then have "distinct (map ec_idempotencyKey (map ?f (db_entries db)))"
    using rid by (simp add: distinct_map comp_def)
  moreover have "map lr_id (map ?f (db_entries db)) = map lr_id (db_entries db)"
    "map lr_replaySeq (map ?f (db_entries db)) = map lr_replaySeq (db_entries db)"
    by (auto simp: ids)
  moreover have "\<forall>r \<in> set (map ?f (db_entries db)).
      (\<exists>n < db_nextSeq db. lr_id r = env_uuid env n \<and> lr_replaySeq r = int n) \<and> List.member (db_identities db) (ec_pid r)"
    using assms(1) fk by (auto simp: rows_ok_def post_row_def)
  moreover have "db_entries db' = map ?f (db_entries db)" "db_identities db' = db_identities db" "db_nextSeq db' = db_nextSeq db"
    by (simp_all add: db')
  ultimately show ?thesis
    using assms(1) unfolding rows_ok_def by presburger
qed

lemma chain_inv_create_posted:
  assumes "chain_inv env (db_entries db)" "env_ok env" "chain_tip (db_entries db) = (p, q)"
    and h: "h = entryHash (env_sha env) (with_prev (hashed_core d) p)"
    and "create_entry env now ''posted'' (Some (p, h, q + 1)) d db = Inr db'"
  shows "chain_inv env (db_entries db') \<and> chain_tip (db_entries db') = (h, q + 1)"
proof -
  let ?r = "new_row env now ''posted'' (Some (p, h, q + 1)) d (db_nextSeq db)"
  have e: "db_entries db' = db_entries db @ [?r]"
    using assms(5) by (auto simp: create_entry_def split: if_splits)
  have wp: "with_prev ?r p = with_prev (hashed_core d) p"
    by (simp add: with_prev_inject) (simp add: hashed_core_def entry_core.defs)
  have "hashed ?r" by (simp add: hashed_def new_row_def)
  then have m: "mset (filter hashed (db_entries db')) = add_mset ?r (mset (filter hashed (db_entries db)))"
    by (simp add: e)
  have l: "lr_prevHash ?r = Some (fst (chain_tip (db_entries db)))"
    "lr_hash ?r = Some (entryHash (env_sha env) (with_prev ?r (fst (chain_tip (db_entries db)))))"
    "lr_hashSeq ?r = Some (snd (chain_tip (db_entries db)) + 1)" "ec_status ?r = ''posted''"
    using wp h by (simp_all add: assms(3)) (simp_all add: new_row_def)
  show ?thesis
    using chain_inv_extend [OF assms(1,2) l(1,2,3) m l(4)] h wp by (simp add: assms(3))
qed

text \<open>An insert of an unhashed row does not touch the chain.\<close>

lemma chain_inv_create_unhashed:
  assumes "chain_inv env (db_entries db)" "create_entry env now st None d db = Inr db'"
  shows "chain_inv env (db_entries db')"
proof -
  let ?r = "new_row env now st None d (db_nextSeq db)"
  have "db_entries db' = db_entries db @ [?r]"
    using assms(2) by (auto simp: create_entry_def split: if_splits)
  moreover have "\<not> hashed ?r" by (simp add: hashed_def new_row_def)
  ultimately show ?thesis
    using assms(1) by (auto simp: chain_inv_def chained_def chain_tip_def)
qed

text \<open>Hashing one unhashed row in place adds exactly that row to the hashed ones.\<close>

lemma mset_hash_in_place:
  assumes "distinct (map lr_id rows)" "r \<in> set rows" "\<not> hashed r" "hashed (f r)"
  shows "mset (filter hashed (map (\<lambda>x. if lr_id x = lr_id r then f x else x) rows))
    = add_mset (f r) (mset (filter hashed rows))"
  using assms
proof (induction rows)
  case (Cons x xs)
  show ?case
  proof (cases "x = r")
    case True
    with Cons.prems have "lr_id r \<notin> lr_id ` set xs" by auto
    then have "map (\<lambda>x. if lr_id x = lr_id r then f x else x) xs = xs"
      by (intro map_idI) (auto simp: image_iff)
    with True Cons.prems show ?thesis by simp
  next
    case False
    with Cons.prems have "r \<in> set xs" "lr_id x \<noteq> lr_id r" by auto
    with Cons show ?thesis by simp
  qed
qed simp

lemma chain_inv_update:
  assumes inv: "chain_inv env (db_entries db)" and env: "env_ok env" and tip: "chain_tip (db_entries db) = (p, q)"
    and rows: "distinct (map lr_id (db_entries db))" "r \<in> set (db_entries db)" "\<not> hashed r"
    and full: "ed_counterpartyPid d \<noteq> None" "ed_parentRef d \<noteq> None" "ed_feePolicyVersion d \<noteq> None"
    and h: "h = entryHash (env_sha env) (with_prev (hashed_core d) p)"
    and upd: "update_entry (lr_id r) (p, h, q + 1) d db = Inr db'"
  shows "chain_inv env (db_entries db') \<and> chain_tip (db_entries db') = (h, q + 1)"
proof -
  let ?r = "post_row (p, h, q + 1) d r"
  have e: "db_entries db' = map (\<lambda>x. if lr_id x = lr_id r then post_row (p, h, q + 1) d x else x) (db_entries db)"
    using upd by (auto simp: update_entry_def split: if_splits)
  have wp: "with_prev ?r p = with_prev (hashed_core d) p"
    using full by (auto simp: with_prev_inject post_row_def hashed_core_def entry_core.defs)
  have "hashed ?r" by (simp add: hashed_def post_row_def)
  with rows have m: "mset (filter hashed (db_entries db')) = add_mset ?r (mset (filter hashed (db_entries db)))"
    unfolding e by (rule mset_hash_in_place)
  have l: "lr_prevHash ?r = Some (fst (chain_tip (db_entries db)))"
    "lr_hash ?r = Some (entryHash (env_sha env) (with_prev ?r (fst (chain_tip (db_entries db)))))"
    "lr_hashSeq ?r = Some (snd (chain_tip (db_entries db)) + 1)" "ec_status ?r = ''posted''"
    using wp h by (simp_all add: tip) (simp_all add: post_row_def)
  show ?thesis
    using chain_inv_extend [OF inv env l(1,2,3) m l(4)] h wp by (simp add: tip)
qed

lemma append_inserts_inv:
  assumes "list_all is_insert ops" "append_ops env now p q ops db = Inr db'"
    and "rows_ok env db" "chain_inv env (db_entries db)" "env_ok env" "chain_tip (db_entries db) = (p, q)"
  shows "rows_ok env db' \<and> chain_inv env (db_entries db')"
  using assms
proof (induction ops arbitrary: p q db)
  case (Cons op ops)
  let ?h = "entryHash (env_sha env) (with_prev (hashed_core (co_data op)) p)"
  obtain db1 where c: "create_entry env now ''posted'' (Some (p, ?h, q + 1)) (co_data op) db = Inr db1"
    and rest: "append_ops env now ?h (q + 1) ops db1 = Inr db'"
    using Cons.prems(1,2) by (auto simp: Let_def is_insert_def)
  have "rows_ok env db1" using rows_ok_create [OF Cons.prems(3,5) c] .
  moreover have "chain_inv env (db_entries db1) \<and> chain_tip (db_entries db1) = (?h, q + 1)"
    using chain_inv_create_posted [OF Cons.prems(4,5,6) refl c] .
  ultimately show ?case
    using Cons.IH [OF _ rest] Cons.prems(1,5) by simp
qed simp

lemma appendChained_inserts:
  assumes "appendChained env now ops db = Inr db'" "list_all is_insert ops"
    and "rows_ok env db" "chain_inv env (db_entries db)" "env_ok env"
  shows "rows_ok env db' \<and> chain_inv env (db_entries db')"
    and "\<exists>rows. db_entries db' = db_entries db @ rows
           \<and> map entry_core.truncate rows = map (hashed_core \<circ> co_data) ops
           \<and> list_all hashed rows
           \<and> db' = db\<lparr>db_entries := db_entries db', db_nextSeq := db_nextSeq db'\<rparr>"
proof -
  obtain p q where tip: "chain_tip (db_entries db) = (p, q)" by fastforce
  then have run: "append_ops env now p q ops db = Inr db'"
    using assms(1) by (simp add: appendChained_def)
  show "rows_ok env db' \<and> chain_inv env (db_entries db')"
    using append_inserts_inv [OF assms(2) run assms(3-5) tip] .
  have "list_all hashed (legs_of env now p q ops n)" for n
    by (induction ops arbitrary: p q n) (auto simp: Let_def hashed_def new_row_def)
  with append_inserts [OF assms(2) run]
  show "\<exists>rows. db_entries db' = db_entries db @ rows
      \<and> map entry_core.truncate rows = map (hashed_core \<circ> co_data) ops \<and> list_all hashed rows
      \<and> db' = db\<lparr>db_entries := db_entries db', db_nextSeq := db_nextSeq db'\<rparr>"
    by (intro exI [of _ "legs_of env now p q ops (db_nextSeq db)"]) simp
qed

section \<open>Verification of the stored chain\<close>

lemma linked_take: "linked sha p es h \<Longrightarrow> \<exists>m. linked sha p (take n es) m"
  by (metis append_take_drop_id linked_append)

lemma linked_verifies: "linked sha GENESIS_HASH es h \<Longrightarrow> cv_ok (verifyChain sha es)"
  using verify_from_linked [of sha 0 GENESIS_HASH es h] by (simp add: verifyChain_def)

lemma chained_posted:
  assumes "\<forall>r \<in> set rows. hashed r \<longrightarrow> ec_status r = ''posted''"
  shows "sort_key hseq (filter (\<lambda>r. ec_status r = ''posted'' \<and> lr_hash r \<noteq> None) rows) = chained rows"
proof -
  have "filter (\<lambda>r. ec_status r = ''posted'' \<and> lr_hash r \<noteq> None) rows = filter hashed rows"
    using assms by (intro filter_cong) (auto simp: hashed_def)
  then show ?thesis by (simp add: chained_def)
qed

definition fully_chained :: "ledger_row list \<Rightarrow> bool" where
  "fully_chained rows \<longleftrightarrow> (\<forall>r \<in> set rows. ec_status r = ''posted'' \<longrightarrow> hashed r)"

lemma verifyLedger_ok:
  assumes "chain_inv env (db_entries db)" "fully_chained (db_entries db)"
  shows "cv_ok (fst (verifyLedger env db)) \<and> snd (verifyLedger env db) = 0"
proof -
  have "filter (\<lambda>r. ec_status r = ''posted'' \<and> lr_hash r = None) (db_entries db) = []"
    using assms(2) by (auto simp: filter_empty_conv fully_chained_def hashed_def)
  moreover obtain m where "linked (env_sha env) GENESIS_HASH (take 100000 (map to_verifiable (chained (db_entries db)))) m"
    using assms(1) linked_take unfolding chain_inv_def by blast
  then have "cv_ok (verifyChain (env_sha env) (map to_verifiable (take 100000 (chained (db_entries db)))))"
    by (simp only: take_map) (rule linked_verifies)
  moreover have "sort_key hseq (filter (\<lambda>r. ec_status r = ''posted'' \<and> lr_hash r \<noteq> None) (db_entries db)) = chained (db_entries db)"
    using assms(1) by (intro chained_posted) (simp add: chain_inv_def)
  ultimately show ?thesis
    by (simp add: verifyLedger_def Let_def)
qed

section \<open>Backfill\<close>

lemma backfill_rows_inv:
  assumes "env_ok env" "distinct (map lr_id rows)" "set rs \<subseteq> set rows" "distinct (map lr_id rs)"
    and "\<forall>r \<in> set rs. \<not> hashed r \<and> ec_status r = ''posted''"
    and "chain_inv env rows" "chain_tip rows = (p, q)"
  shows "chain_inv env (backfill_rows env p q rs rows)
    \<and> (\<exists>new. chained (backfill_rows env p q rs rows) = chained rows @ new)
    \<and> map entry_core.truncate (backfill_rows env p q rs rows) = map entry_core.truncate rows
    \<and> map lr_id (backfill_rows env p q rs rows) = map lr_id rows
    \<and> (\<forall>x \<in> set (backfill_rows env p q rs rows). \<not> hashed x \<longrightarrow> x \<in> set rows - set rs)"
  using assms
proof (induction rs arbitrary: p q rows)
  case (Cons r rs)
  let ?h = "entryHash (env_sha env) (with_prev r p)"
  let ?f = "\<lambda>x. x\<lparr>lr_prevHash := Some p, lr_hash := Some ?h, lr_hashSeq := Some (q + 1)\<rparr>"
  let ?rows = "map (fill_hash (lr_id r) (p, ?h, q + 1)) rows"
  have fill: "fill_hash (lr_id r) (p, ?h, q + 1) = (\<lambda>x. if lr_id x = lr_id r then ?f x else x)"
    by (simp add: fun_eq_iff fill_hash_def)
  have r: "r \<in> set rows" "\<not> hashed r" "ec_status r = ''posted''" using Cons.prems by auto
  have wp: "with_prev (?f r) p = with_prev r p" by (simp add: with_prev_def entry_core.defs)
  have m: "mset (filter hashed ?rows) = add_mset (?f r) (mset (filter hashed rows))"
    unfolding fill using Cons.prems(2) r by (intro mset_hash_in_place) (auto simp: hashed_def)
  have inv: "chain_inv env ?rows" and tip: "chain_tip ?rows = (?h, q + 1)"
    using chain_inv_extend [OF Cons.prems(6,1), of "?f r" ?rows] m wp r(3) Cons.prems(7) by simp_all
  have seqs: "map lr_hashSeq (chained rows) = map (\<lambda>i. Some (int (Suc i))) [0..<length (chained rows)]"
    using Cons.prems(6) by (simp add: chain_inv_def)
  have ch: "chained ?rows = chained rows @ [?f r]"
    using chained_extend [OF seqs _ m] chain_inv_tip [OF Cons.prems(6)] Cons.prems(7) by simp
  have ids: "map lr_id ?rows = map lr_id rows"
    and core: "map entry_core.truncate ?rows = map entry_core.truncate rows"
    by (auto simp: fill_hash_def entry_core.defs)
  have other: "x \<in> set ?rows" if "x \<in> set rs" for x
  proof -
    have "lr_id x \<noteq> lr_id r" "x \<in> set rows" using that Cons.prems(3,4) by (auto simp: image_iff)
    then show ?thesis by (auto simp: fill_hash_def image_iff intro!: bexI [of _ x])
  qed
  have rest: "x \<in> set rows \<and> x \<noteq> r" if x: "x \<in> set ?rows" "\<not> hashed x" for x
  proof -
    obtain y where y: "y \<in> set rows" "x = fill_hash (lr_id r) (p, ?h, q + 1) y" using x(1) by auto
    with x(2) have "lr_id y \<noteq> lr_id r" by (auto simp: fill_hash_def hashed_def)
    with y show ?thesis by (auto simp: fill_hash_def)
  qed
  have "distinct (map lr_id ?rows)" unfolding ids by (rule Cons.prems(2))
  moreover have "set rs \<subseteq> set ?rows" using other by blast
  ultimately have IH: "chain_inv env (backfill_rows env ?h (q + 1) rs ?rows)
    \<and> (\<exists>new. chained (backfill_rows env ?h (q + 1) rs ?rows) = chained ?rows @ new)
    \<and> map entry_core.truncate (backfill_rows env ?h (q + 1) rs ?rows) = map entry_core.truncate ?rows
    \<and> map lr_id (backfill_rows env ?h (q + 1) rs ?rows) = map lr_id ?rows
    \<and> (\<forall>x \<in> set (backfill_rows env ?h (q + 1) rs ?rows). \<not> hashed x \<longrightarrow> x \<in> set ?rows - set rs)"
    using Cons.IH [OF Cons.prems(1) _ _ _ _ inv tip] Cons.prems(4,5) by simp
  define B where "B = backfill_rows env ?h (q + 1) rs ?rows"
  have eq: "backfill_rows env p q (r # rs) rows = B"
    by (simp add: Let_def B_def)
  note IH = IH [folded B_def, unfolded ids core]
  obtain new where "chained B = chained rows @ (?f r # new)"
    using IH ch by auto
  moreover have "x \<in> set rows - set (r # rs)" if x: "x \<in> set B" "\<not> hashed x" for x
    using IH x rest [OF _ x(2)] by auto
  ultimately show ?case unfolding eq using IH by blast
qed simp


text \<open>A ledger with one posted row that predates the chain.\<close>

definition demo_env :: fiat_env where
  "demo_env = \<lparr>env_sha = (\<lambda>_. ''h''), env_uuid = (\<lambda>n. replicate n CHR ''u''), env_iso = (\<lambda>_. ''T''), env_config = []\<rparr>"

definition demo_data :: entry_data where
  "demo_data = \<lparr>ed_entryGroup = ''IC-DP1'', ed_kind = ''fiat_issue'', ed_pid = ''ana@pid'', ed_counterpartyPid = None,
     ed_amountIdr = 20000, ed_direction = ''in'', ed_idempotencyKey = ''IC-DP1'', ed_parentRef = Some ''DP1'',
     ed_feePolicyVersion = Some 5, ed_counterparty = None, ed_source = Some ''webhook''\<rparr>"

definition empty_db :: fiat_db where
  "empty_db = \<lparr>db_entries = [], db_identities = [''ana@pid'', ''bob@pid'', ''dev@pid''], db_apps = [], db_appFees = [],
     db_policies = [], db_deposits = [], db_payments = [], db_events = [], db_audit = [], db_nextSeq = 0,
     db_frozenOverride = None\<rparr>"

definition legacy_db :: fiat_db where
  "legacy_db = empty_db\<lparr>db_entries := [new_row demo_env 0 ''posted'' None demo_data 0], db_nextSeq := 1\<rparr>"

lemma demo_env_ok [simp]: "env_ok demo_env"
  by (auto simp: env_ok_def demo_env_def inj_def dest: arg_cong [of _ _ length])


end
