(* ===== verification/Fiat_Ledger.thy ===== *)
theory Fiat_Ledger
  imports Fiat_Store
begin

text \<open>
  The operations of \<^verbatim>\<open>apps/api/src/fiat/fiat-ledger.service.ts\<close>: switches, fee quotes, issue for a
  paid deposit, sandbox faucet, transfer inquiry, confirm and cancel, admin adjustment and the
  reads. An operation that reads outside its transaction takes two databases: \<open>seen\<close>, the one its
  reads saw, and \<open>db\<close>, the one its transaction runs on; other operations may have committed in
  between. Row locks and the advisory chain lock make each transaction atomic. Log lines are not
  modelled; audit events are. Messages are in ASCII: a dash is written \<^verbatim>\<open>--\<close>.
\<close>

section \<open>Switches\<close>

definition config_get :: "fiat_env \<Rightarrow> string \<Rightarrow> string \<Rightarrow> string" where
  "config_get env key dflt = nullish (jsmap_get (env_config env) key) dflt"

definition ledgerEnabled :: "fiat_env \<Rightarrow> bool" where
  "ledgerEnabled env \<longleftrightarrow> config_get env ''PID_FIAT_LEDGER_ENABLED'' ''true'' = ''true''"

definition ledgerFrozen :: "fiat_env \<Rightarrow> fiat_db \<Rightarrow> bool" where
  "ledgerFrozen env db =
     (case db_frozenOverride db of Some b \<Rightarrow> b
      | None \<Rightarrow> config_get env ''PID_FIAT_LEDGER_FROZEN'' ''false'' = ''true'')"

definition setFrozenOverride :: "bool option \<Rightarrow> fiat_db \<Rightarrow> fiat_db" where
  "setFrozenOverride frozen db = db\<lparr>db_frozenOverride := frozen\<rparr>"

definition treasuryPid :: "fiat_env \<Rightarrow> string option" where
  "treasuryPid env =
     (let raw = to_lower (trim (config_get env ''PID_FIAT_LEDGER_TREASURY_PID'' []))
      in if raw = [] then None else Some raw)"

text \<open>\<^verbatim>\<open>[...new Set(xs)]\<close>: the first occurrence of each element.\<close>

definition dedupe :: "'a list \<Rightarrow> 'a list" where
  "dedupe xs = rev (remdups (rev xs))"

definition fiatAllowlist :: "fiat_env \<Rightarrow> string list" where
  "fiatAllowlist env =
     dedupe (filter (\<lambda>w. w \<noteq> []) (map (\<lambda>w. to_lower (trim w))
       (split_on CHR '','' (config_get env ''PID_FIAT_LEDGER_APP_ALLOWLIST'' []))))"

definition requireEligibleSide :: "fiat_env \<Rightarrow> fiat_db \<Rightarrow> string \<Rightarrow> string \<Rightarrow> unit result" where
  "requireEligibleSide env db pid beneficiaryPid =
     guard_result
       (List.member (fiatAllowlist env) pid \<or> List.member (fiatAllowlist env) beneficiaryPid
        \<or> list_ex (\<lambda>a. pa_isActive a \<and> (pa_ownerPid a = pid \<or> pa_ownerPid a = beneficiaryPid)) (db_apps db))
       (Forbidden ''Transfers are limited to app owners'')"

definition requireUsable :: "fiat_env \<Rightarrow> fiat_db \<Rightarrow> unit result" where
  "requireUsable env db =
     (if \<not> ledgerEnabled env then Inl (ServiceUnavailable ''Internal credit is disabled'')
      else if ledgerFrozen env db then Inl (ServiceUnavailable ''Internal credit is frozen for migration'')
      else Inr ())"

section \<open>Fee quotes\<close>

record app_context =
  ac_id :: string
  ac_ownerPid :: string
  ac_isVerified :: bool

definition resolveAppContext :: "int \<Rightarrow> fiat_db \<Rightarrow> string option \<Rightarrow> app_context option" where
  "resolveAppContext now db clientId =
     (if nullish clientId [] = [] then None
      else case find (\<lambda>a. Some (pa_clientId a) = clientId) (db_apps db) of
          None \<Rightarrow> None
        | Some a \<Rightarrow>
            if \<not> pa_isActive a then None
            else Some \<lparr>ac_id = pa_id a, ac_ownerPid = pa_ownerPid a,
                       ac_isVerified = (pa_isVerified a \<and>
                         (case pa_verificationExpiresAt a of None \<Rightarrow> True | Some t \<Rightarrow> t > now))\<rparr>)"

definition appFeeFor :: "fiat_db \<Rightarrow> string option \<Rightarrow> string \<Rightarrow> int \<Rightarrow> int" where
  "appFeeFor db appId operation amount =
     (if nullish appId [] = [] then 0
      else case find (\<lambda>f. Some (af_appId f) = appId \<and> af_operation f = operation) (db_appFees db) of
          None \<Rightarrow> 0
        | Some f \<Rightarrow>
            if \<not> af_enabled f \<or> af_percentBps f \<le> 0 then 0
            else calcServiceFee amount
              \<lparr>fp_version = 0, fp_percentBps = af_percentBps f, fp_minIdr = af_minIdr f, fp_maxIdr = af_maxIdr f, fp_taxBps = 0\<rparr>)"

definition activeFeePolicy :: "fiat_db \<Rightarrow> fee_policy" where
  "activeFeePolicy db =
     (case sort_key (\<lambda>p. - fp_version (pol_params p)) (filter pol_active (db_policies db)) of
        [] \<Rightarrow> DEFAULT_FEE_POLICY
      | p # _ \<Rightarrow> pol_params p)"

definition feePolicyByVersion :: "fiat_db \<Rightarrow> int \<Rightarrow> fee_policy" where
  "feePolicyByVersion db version =
     (if version > 0
      then (case find (\<lambda>p. fp_version (pol_params p) = version) (db_policies db) of
              Some p \<Rightarrow> pol_params p | None \<Rightarrow> activeFeePolicy db)
      else activeFeePolicy db)"

record fee_breakdown =
  fb_globalFee :: int
  fb_peridotTaxIdr :: int
  fb_appFee :: int
  fb_appId :: "string option"
  fb_appOwnerPid :: "string option"
  fb_policyVersion :: int
  fb_isVerified :: bool

definition quoteFees :: "int \<Rightarrow> fiat_db \<Rightarrow> string option \<Rightarrow> string \<Rightarrow> int \<Rightarrow> fee_breakdown" where
  "quoteFees now db clientId operation amount =
     (let policy = activeFeePolicy db;
          app = resolveAppContext now db clientId;
          globalFee = (if nullish (map_option ac_isVerified app) False then 0 else calcServiceFee amount policy)
      in \<lparr>fb_globalFee = globalFee, fb_peridotTaxIdr = calcTaxAmount globalFee (fp_taxBps policy),
          fb_appFee = appFeeFor db (map_option ac_id app) operation amount,
          fb_appId = map_option ac_id app, fb_appOwnerPid = map_option ac_ownerPid app,
          fb_policyVersion = fp_version policy, fb_isVerified = nullish (map_option ac_isVerified app) False\<rparr>)"

section \<open>Parsing helpers\<close>

definition isPaymentConfirmedRow :: "provider_tx \<Rightarrow> bool" where
  "isPaymentConfirmedRow row =
     (case pt_providerPaymentStatus row of
        Some payment \<Rightarrow> payment = ''success''
      | None \<Rightarrow> pt_providerStatus row = ''success'' \<or> pt_providerStatus row = ''settled'')"

definition quotedBigint :: "json option \<Rightarrow> int option" where
  "quotedBigint v =
     (case v of Some (JStr x) \<Rightarrow> if all_digits x then Some (int (nat_of_digits x)) else None | _ \<Rightarrow> None)"

definition parseAmount :: "string \<Rightarrow> int result" where
  "parseAmount raw =
     (if \<not> all_digits raw then Inl (BadRequest ''Amount must be whole IDR (positive integer)'')
      else if int (nat_of_digits raw) \<le> 0 then Inl (BadRequest ''Amount must be positive'')
      else Inr (int (nat_of_digits raw)))"

definition FAUCET_PER_CALL_MAX_IDR :: int where "FAUCET_PER_CALL_MAX_IDR = 50000"

definition FAUCET_DAILY_CAP_IDR :: int where "FAUCET_DAILY_CAP_IDR = 100000"

definition FAUCET_DAILY_MAX_CALLS :: nat where "FAUCET_DAILY_MAX_CALLS = 10"

definition MIN_CHECKOUT_NET_IDR :: int where "MIN_CHECKOUT_NET_IDR = 10000"

definition faucetEnabled :: "fiat_env \<Rightarrow> bool" where
  "faucetEnabled env \<longleftrightarrow> config_get env ''PID_FAUCET_ENABLED'' ''false'' = ''true''"

definition parseFaucetAmount :: "raw_amount \<Rightarrow> int result" where
  "parseFaucetAmount raw =
     (let v = (case raw of
             RNum (JFin x) \<Rightarrow> if of_int \<lfloor>x\<rfloor> = x then Some \<lfloor>x\<rfloor> else None
           | RStr x \<Rightarrow> if all_digits x then Some (int (nat_of_digits x)) else None
           | _ \<Rightarrow> None)
      in case v of
           None \<Rightarrow> Inl (Unprocessable ''faucet_invalid_amount'')
         | Some a \<Rightarrow> if a \<le> 0 \<or> a > FAUCET_PER_CALL_MAX_IDR then Inl (Unprocessable ''faucet_invalid_amount'') else Inr a)"

section \<open>The in-transaction balance\<close>

definition row_delta :: "'a entry_core_scheme \<Rightarrow> int" where
  "row_delta r =
     (if ec_kind r = ''fiat_payment_in'' \<or> ec_kind r = ''fiat_issue'' \<or> ec_kind r = ''fiat_transfer_in'' \<or> ec_kind r = ''fiat_app_fee''
      then (if ec_direction r = ''in'' then ec_amountIdr r else 0)
      else if ec_kind r = ''fiat_transfer_out'' then (if ec_direction r = ''out'' then - ec_amountIdr r else 0)
      else if ec_kind r = ''fiat_adjust''
      then (if ec_direction r = ''in'' then ec_amountIdr r else if ec_direction r = ''out'' then - ec_amountIdr r else 0)
      else 0)"

definition sumPosted :: "ledger_row list \<Rightarrow> int" where
  "sumPosted rows = foldl (\<lambda>bal r. bal + row_delta r) 0 rows"

definition postedBalanceTx :: "fiat_db \<Rightarrow> string \<Rightarrow> int" where
  "postedBalanceTx db pid = sumPosted (filter (\<lambda>r. ec_pid r = pid \<and> ec_status r = ''posted'') (db_entries db))"

section \<open>Views\<close>

record tx_view =
  tv_id :: string
  tv_kind :: string
  tv_entryGroup :: string
  tv_counterpartyPid :: "string option"
  tv_amountIdr :: string
  tv_direction :: string
  tv_status :: string
  tv_createdAt :: int

definition toTxView :: "ledger_row \<Rightarrow> tx_view" where
  "toTxView r =
     \<lparr>tv_id = lr_id r, tv_kind = ec_kind r, tv_entryGroup = ec_entryGroup r,
      tv_counterpartyPid = ec_counterpartyPid r, tv_amountIdr = show_int (ec_amountIdr r),
      tv_direction = ec_direction r, tv_status = ec_status r, tv_createdAt = lr_createdAt r\<rparr>"

definition find_row :: "fiat_db \<Rightarrow> string \<Rightarrow> string \<Rightarrow> ledger_row option" where
  "find_row db i pid = find (\<lambda>r. lr_id r = i \<and> ec_pid r = pid) (db_entries db)"

definition find_key :: "fiat_db \<Rightarrow> string \<Rightarrow> ledger_row option" where
  "find_key db key = find (\<lambda>r. ec_idempotencyKey r = key) (db_entries db)"

text \<open>\<^verbatim>\<open>row?.status === "posted"\<close>.\<close>

definition is_posted :: "ledger_row option \<Rightarrow> bool" where
  "is_posted r = (case r of None \<Rightarrow> False | Some x \<Rightarrow> ec_status x = ''posted'')"

section \<open>Outbox events\<close>

definition create_event :: "fiat_env \<Rightarrow> int \<Rightarrow> string \<Rightarrow> string \<Rightarrow> string \<Rightarrow> string \<Rightarrow> (string \<times> json) list \<Rightarrow> fiat_db \<Rightarrow> fiat_db result" where
  "create_event env now ty key targetPid url payload db =
     (if list_ex (\<lambda>e. ev_idempotencyKey e = key) (db_events db) then Inl UniqueViolation
      else Inr (db\<lparr>db_events := db_events db @
        [\<lparr>ev_id = env_uuid env (length (db_events db)), ev_eventType = ty, ev_idempotencyKey = key,
          ev_targetPid = targetPid, ev_targetUrl = url, ev_payload = payload, ev_status = ''pending'',
          ev_attempts = 0, ev_nextAttemptAt = now\<rparr>]\<rparr>))"

definition transfer_payload ::
  "fiat_env \<Rightarrow> int \<Rightarrow> string \<Rightarrow> string \<Rightarrow> string \<Rightarrow> int \<Rightarrow> int \<Rightarrow> int \<Rightarrow> string \<Rightarrow> (string \<times> json) list" where
  "transfer_payload env now grp fromPid toPid gross fee net clientId =
     [(''event'', JStr ''fiat.transfer.posted''), (''entryGroup'', JStr grp), (''from'', JStr fromPid), (''to'', JStr toPid),
      (''grossIdr'', JStr (show_int gross)), (''feeIdr'', JStr (show_int fee)), (''netIdr'', JStr (show_int net)),
      (''at'', JStr (env_iso env now)), (''appClientId'', JStr clientId), (''externalId'', JNull), (''transferId'', JStr grp),
      (''amountIdr'', JStr (show_int gross)), (''payerPid'', JStr fromPid)]"

fun enqueue_each :: "fiat_env \<Rightarrow> int \<Rightarrow> (string \<Rightarrow> (string \<times> json) list) \<Rightarrow> string \<Rightarrow> pid_app list \<Rightarrow> fiat_db \<Rightarrow> fiat_db result" where
  "enqueue_each env now payload grp [] db = Inr db"
| "enqueue_each env now payload grp (a # apps) db =
     (let key = grp @ '':'' @ pa_clientId a; url = nullish (pa_webhookUrl a) []
      in if url = [] \<or> list_ex (\<lambda>e. ev_idempotencyKey e = key) (db_events db)
         then enqueue_each env now payload grp apps db
         else bind_result
           (create_event env now ''fiat.transfer.posted'' key (pa_ownerPid a) url (payload (pa_clientId a)) db)
           (enqueue_each env now payload grp apps))"

definition enqueueTransferEventsTx ::
  "fiat_env \<Rightarrow> int \<Rightarrow> string \<Rightarrow> string \<Rightarrow> string \<Rightarrow> int \<Rightarrow> int \<Rightarrow> int \<Rightarrow> fiat_db \<Rightarrow> fiat_db result" where
  "enqueueTransferEventsTx env now grp fromPid toPid gross fee net db =
     (let apps = filter (\<lambda>a. (pa_ownerPid a = fromPid \<or> pa_ownerPid a = toPid) \<and> pa_isActive a \<and> pa_webhookUrl a \<noteq> None) (db_apps db)
      in enqueue_each env now (transfer_payload env now grp fromPid toPid gross fee net) grp apps db)"

section \<open>Issue for a paid deposit\<close>

text \<open>One leg; \<open>cp\<close> is its counterparty column.\<close>

definition leg :: "string \<Rightarrow> string \<Rightarrow> string \<Rightarrow> string option \<Rightarrow> int \<Rightarrow> string \<Rightarrow> string \<Rightarrow> string option \<Rightarrow> int option \<Rightarrow> (string \<times> json) list option \<Rightarrow> string \<Rightarrow> entry_data" where
  "leg grp kind pid other amount dir key parent version cp source =
     \<lparr>ed_entryGroup = grp, ed_kind = kind, ed_pid = pid, ed_counterpartyPid = other, ed_amountIdr = amount,
      ed_direction = dir, ed_idempotencyKey = key, ed_parentRef = parent, ed_feePolicyVersion = version,
      ed_counterparty = map_option JObj cp, ed_source = Some source\<rparr>"

definition issue_legs ::
  "fiat_env \<Rightarrow> provider_tx \<Rightarrow> string \<Rightarrow> string \<Rightarrow> int \<Rightarrow> int \<Rightarrow> int \<Rightarrow> int \<Rightarrow> string option \<Rightarrow> int option \<Rightarrow> entry_data list" where
  "issue_legs env row source issueKey net fee tax appFee appOwnerPid version =
     (let ref = pt_providerRef row; treasury = json_opt_string (treasuryPid env)
      in [leg issueKey ''fiat_issue'' (pt_pid row) None net ''in'' issueKey (Some ref) version
            (Some [(''parentRef'', JStr ref), (''netQuote'', JStr (show_int net)), (''feeQuote'', JStr (show_int fee)), (''treasury'', treasury)]) source]
       @ (if fee > 0 then [leg issueKey ''fiat_fee'' (pt_pid row) None fee ''out'' (issueKey @ ''-FEE'') (Some ref) version
            (Some [(''parentRef'', JStr ref), (''destination'', JStr ''treasury''), (''treasury'', treasury)]) source] else [])
       @ (if tax > 0 then [leg issueKey ''fiat_tax'' (pt_pid row) None tax ''out'' (issueKey @ ''-TAX'') (Some ref) version
            (Some [(''parentRef'', JStr ref), (''destination'', JStr ''tax'')]) source] else [])
       @ (if appFee > 0 \<and> nullish appOwnerPid [] \<noteq> [] then [leg issueKey ''fiat_app_fee'' (nullish appOwnerPid []) None appFee ''in'' (issueKey @ ''-APPFEE'') (Some ref) version
            (Some [(''parentRef'', JStr ref), (''destination'', JStr ''app''), (''payerPid'', JStr (pt_pid row))]) source] else []))"

definition deposit_event :: "fiat_env \<Rightarrow> int \<Rightarrow> provider_tx \<Rightarrow> string \<Rightarrow> int \<Rightarrow> int \<Rightarrow> fiat_db \<Rightarrow> fiat_db result" where
  "deposit_event env now row issueKey net fee db =
     (case json_string (json_get (pt_counterparty row) ''appId'') of
        None \<Rightarrow> Inr db
      | Some appId \<Rightarrow>
          (case find (\<lambda>a. pa_id a = appId) (db_apps db) of
             None \<Rightarrow> Inr db
           | Some a \<Rightarrow>
               if \<not> pa_isActive a \<or> nullish (pa_webhookUrl a) [] = [] then Inr db
               else create_event env now ''fiat.deposit.paid'' (issueKey @ '':deposit'') (pa_ownerPid a) (nullish (pa_webhookUrl a) [])
                 [(''type'', JStr ''fiat.deposit.paid''), (''occurredAt'', JStr (env_iso env now)), (''appClientId'', JStr (pa_clientId a)),
                  (''externalId'', JNull), (''depositId'', JStr (pt_id row)), (''amountIdr'', JStr (show_int net)),
                  (''feeIdr'', JStr (show_int fee)), (''payerPid'', JStr (pt_pid row))] db))"

definition block_deposit :: "string \<Rightarrow> int option \<Rightarrow> provider_tx \<Rightarrow> provider_tx" where
  "block_deposit i paid d =
     (if pt_id d = i
      then d\<lparr>pt_ledgerStatus := Some ''blocked'',
             pt_counterparty := Some (json_with (pt_counterparty d) ''amountMismatch''
               (JStr (case paid of None \<Rightarrow> ''unparseable'' | Some a \<Rightarrow> show_int a)))\<rparr>
      else d)"

text \<open>The provider answers with the payment state and the paid amount, or throws (\<open>None\<close>).\<close>

type_synonym order_status = "(bool \<times> int option) option"

text \<open>The early returns before the provider is asked.\<close>

definition issue_gate :: "fiat_env \<Rightarrow> fiat_db \<Rightarrow> provider_tx \<Rightarrow> bool" where
  "issue_gate env db row \<longleftrightarrow>
     pt_kind row = ''deposit'' \<and> isPaymentConfirmedRow row \<and> pt_ledgerStatus row \<noteq> Some ''blocked''
     \<and> json_get (pt_counterparty row) ''channel'' = Some (JStr ''checkout'') \<and> ledgerEnabled env \<and> \<not> ledgerFrozen env db
     \<and> \<not> is_posted (find_key db (''IC-'' @ pt_providerRef row))"

text \<open>The snapshot the deposit row carries, with its fallbacks.\<close>

record issue_quote =
  iq_net :: "int option"
  iq_fee :: int
  iq_tax :: int
  iq_appFee :: int
  iq_appOwnerPid :: "string option"
  iq_minimum :: int
  iq_version :: "int option"

definition read_quote :: "provider_tx \<Rightarrow> issue_quote" where
  "read_quote row =
     (let cp = pt_counterparty row
      in \<lparr>iq_net = or_else (quotedBigint (json_get cp ''netQuote'')) (pt_netIdr row),
          iq_fee = nullish (or_else (quotedBigint (json_get cp ''feeQuote'')) (pt_feeIdr row)) 0,
          iq_tax = nullish (quotedBigint (json_get cp ''taxQuote'')) 0,
          iq_appFee = nullish (quotedBigint (json_get cp ''appFeeQuote'')) 0,
          iq_appOwnerPid = json_string (json_get cp ''appOwnerPid''),
          iq_minimum = nullish (quotedBigint (json_get cp ''minimumIdr'')) MIN_CHECKOUT_NET_IDR,
          iq_version = or_else (json_number (json_get cp ''feePolicyVersion'')) (pt_feePolicyVersion row)\<rparr>)"

definition issue_txn :: "fiat_env \<Rightarrow> int \<Rightarrow> provider_tx \<Rightarrow> string \<Rightarrow> int \<Rightarrow> issue_quote \<Rightarrow> fiat_db \<Rightarrow> fiat_db result" where
  "issue_txn env now row source net q db =
     (let issueKey = ''IC-'' @ pt_providerRef row
      in bind_result
           (appendChained env now (map insert_op (issue_legs env row source issueKey net (iq_fee q) (iq_tax q) (iq_appFee q) (iq_appOwnerPid q) (iq_version q))) db)
           (deposit_event env now row issueKey net (iq_fee q)))"

definition issue_commit :: "fiat_env \<Rightarrow> int \<Rightarrow> provider_tx \<Rightarrow> string \<Rightarrow> int \<Rightarrow> issue_quote \<Rightarrow> fiat_db \<Rightarrow> unit result \<times> fiat_db" where
  "issue_commit env now row source net q db =
     (case issue_txn env now row source net q db of
        Inr db' \<Rightarrow> (Inr (), log_audit (pt_pid row) ''fiat.issued''
          [(''parentRef'', JStr (pt_providerRef row)), (''net'', JStr (show_int net)), (''fee'', JStr (show_int (iq_fee q)))] db')
      | Inl err \<Rightarrow> (if is_posted (find_key db (''IC-'' @ pt_providerRef row)) then Inr () else Inl err, db))"

definition issueForDepositInner ::
  "fiat_env \<Rightarrow> int \<Rightarrow> (string \<Rightarrow> order_status) \<Rightarrow> string \<Rightarrow> string \<Rightarrow> fiat_db \<Rightarrow> fiat_db \<Rightarrow> unit result \<times> fiat_db" where
  "issueForDepositInner env now checkOrderStatus depositRowId source seen db =
     (case find (\<lambda>d. pt_id d = depositRowId) (db_deposits seen) of
        None \<Rightarrow> (Inr (), db)
      | Some row \<Rightarrow>
          if \<not> issue_gate env seen row then (Inr (), db)
          else case checkOrderStatus (pt_providerRef row) of
              None \<Rightarrow> (Inr (), db)
            | Some (paid, paidAmount) \<Rightarrow>
                if \<not> paid then (Inr (), db)
                else if paidAmount \<noteq> Some (pt_amountIdr row)
                then (Inr (), db\<lparr>db_deposits := map (block_deposit (pt_id row) paidAmount) (db_deposits db)\<rparr>)
                else let q = read_quote row
                  in case iq_net q of
                       None \<Rightarrow> (Inr (), db)
                     | Some net \<Rightarrow> if net < iq_minimum q then (Inr (), db) else issue_commit env now row source net q db)"

definition issueForDeposit ::
  "fiat_env \<Rightarrow> int \<Rightarrow> (string \<Rightarrow> order_status) \<Rightarrow> string \<Rightarrow> string \<Rightarrow> fiat_db \<Rightarrow> fiat_db \<Rightarrow> fiat_db" where
  "issueForDeposit env now checkOrderStatus depositRowId source seen db =
     snd (issueForDepositInner env now checkOrderStatus depositRowId source seen db)"

section \<open>Sandbox faucet\<close>

record mint_view =
  mv_creditId :: string
  mv_amountMinor :: string
  mv_dailyRemainingMinor :: string

text \<open>\<^verbatim>\<open>setUTCHours(0, 0, 0, 0)\<close>.\<close>

definition dayStart :: "int \<Rightarrow> int" where
  "dayStart now = now - now mod 86400000"

definition todays_mints :: "fiat_db \<Rightarrow> string \<Rightarrow> int \<Rightarrow> ledger_row list" where
  "todays_mints db pid since =
     filter (\<lambda>r. ec_pid r = pid \<and> ec_kind r = ''fiat_issue'' \<and> lr_source r = Some ''faucet'' \<and> ec_status r = ''posted'' \<and> lr_createdAt r \<ge> since)
       (db_entries db)"

definition mintTestCredit ::
  "fiat_env \<Rightarrow> int \<Rightarrow> string \<Rightarrow> string \<Rightarrow> raw_amount \<Rightarrow> fiat_db \<Rightarrow> mint_view result \<times> fiat_db" where
  "mintTestCredit env now creditId pid amountMinor db =
     (case requireUsable env db of Inl e \<Rightarrow> (Inl e, db) | Inr _ \<Rightarrow>
      if \<not> faucetEnabled env then (Inl (NotFound ''Not found''), db)
      else case parseFaucetAmount amountMinor of Inl e \<Rightarrow> (Inl e, db) | Inr amount \<Rightarrow>
        let todays = todays_mints db pid (dayStart now);
            spent = foldl (\<lambda>acc r. acc + ec_amountIdr r) 0 todays
        in if length todays \<ge> FAUCET_DAILY_MAX_CALLS \<or> spent + amount > FAUCET_DAILY_CAP_IDR
           then (Inl (Unprocessable (''faucet_cap_exceeded '' @ show_int (max (FAUCET_DAILY_CAP_IDR - spent) 0))), db)
           else case appendChained env now
                  [insert_op (leg creditId ''fiat_issue'' pid None amount ''in'' (''FAUCET-'' @ creditId) None None
                     (Some [(''faucet'', JBool True), (''creditId'', JStr creditId)]) ''faucet'')] db of
                Inl e \<Rightarrow> (Inl e, db)
              | Inr db' \<Rightarrow>
                  (Inr \<lparr>mv_creditId = creditId, mv_amountMinor = show_int amount,
                        mv_dailyRemainingMinor = show_int (FAUCET_DAILY_CAP_IDR - spent - amount)\<rparr>,
                   log_audit pid ''fiat.faucet_minted'' [(''creditId'', JStr creditId), (''amountMinor'', JStr (show_int amount))] db'))"

section \<open>Transfer inquiry\<close>

record auth_ctx =
  au_app :: "string option"
  au_scope :: "string option"

definition requireTransferScope :: "auth_ctx \<Rightarrow> unit result" where
  "requireTransferScope auth =
     guard_result (nullish (au_app auth) [] = [] \<or> au_scope auth = Some ''fiat:transfer'')
       (Forbidden ''Machine token scope not authorized for transfers'')"

record inquiry_input =
  ii_amountIdr :: string
  ii_beneficiaryPid :: string
  ii_remark :: "string option"
  ii_operation :: "string option"

record inquiry_view =
  iv_id :: string
  iv_entryGroup :: string
  iv_grossIdr :: string
  iv_feeIdr :: string
  iv_peridotFeeIdr :: string
  iv_peridotTaxIdr :: string
  iv_appFeeIdr :: string
  iv_netIdr :: string
  iv_feePolicyVersion :: int
  iv_beneficiaryPid :: string

definition log_app_token :: "auth_ctx \<Rightarrow> string \<Rightarrow> string \<Rightarrow> string \<Rightarrow> fiat_db \<Rightarrow> fiat_db" where
  "log_app_token auth pid grp phase db =
     (if nullish (au_app auth) [] = [] then db
      else log_audit pid ''fiat.transfer.app_token''
        [(''app'', JStr (nullish (au_app auth) [])), (''scope'', json_opt_string (au_scope auth)), (''entryGroup'', JStr grp), (''phase'', JStr phase)] db)"

definition intent_json :: "string \<Rightarrow> fee_breakdown \<Rightarrow> int \<Rightarrow> string option \<Rightarrow> (string \<times> json) list" where
  "intent_json beneficiaryPid q net remark =
     [(''beneficiaryPid'', JStr beneficiaryPid), (''feeQuote'', JStr (show_int (fb_globalFee q))),
      (''taxQuote'', JStr (show_int (fb_peridotTaxIdr q))), (''netQuote'', JStr (show_int net)),
      (''feePolicyVersion'', JNum (fb_policyVersion q))]
     @ (if nullish (fb_appId q) [] \<noteq> [] \<and> nullish (fb_appOwnerPid q) [] \<noteq> []
        then [(''appId'', JStr (nullish (fb_appId q) [])), (''appOwnerPid'', JStr (nullish (fb_appOwnerPid q) [])),
              (''appFeeQuote'', JStr (show_int (fb_appFee q)))] else [])
     @ (if nullish remark [] \<noteq> [] then [(''remark'', JStr (nullish remark []))] else [])"

definition transferInquiry ::
  "fiat_env \<Rightarrow> int \<Rightarrow> string \<Rightarrow> string \<Rightarrow> inquiry_input \<Rightarrow> string option \<Rightarrow> auth_ctx \<Rightarrow> fiat_db \<Rightarrow> inquiry_view result \<times> fiat_db" where
  "transferInquiry env now entryGroup pid input appClientId auth db =
     (case requireTransferScope auth of Inl e \<Rightarrow> (Inl e, db) | Inr _ \<Rightarrow>
      case requireUsable env db of Inl e \<Rightarrow> (Inl e, db) | Inr _ \<Rightarrow>
      case parseAmount (ii_amountIdr input) of Inl e \<Rightarrow> (Inl e, db) | Inr gross \<Rightarrow>
      let beneficiaryPid = to_lower (trim (ii_beneficiaryPid input))
      in if beneficiaryPid = pid then (Inl (BadRequest ''Cannot transfer to yourself''), db)
         else if \<not> List.member (db_identities db) beneficiaryPid then (Inl (NotFound ''Recipient has no PeridotID account yet''), db)
         else case requireEligibleSide env db pid beneficiaryPid of Inl e \<Rightarrow> (Inl e, db) | Inr _ \<Rightarrow>
           let q = quoteFees now db appClientId (nullish (ii_operation input) ''transaction'') gross;
               totalFee = fb_globalFee q + fb_peridotTaxIdr q + fb_appFee q;
               net = gross - totalFee
           in if net \<le> 0 then (Inl (BadRequest ''Amount too small -- net must be positive''), db)
              else case create_entry env now ''created'' None
                  (leg entryGroup ''fiat_transfer_out'' pid (Some beneficiaryPid) gross ''out'' entryGroup None (Some (fb_policyVersion q))
                     (Some (intent_json beneficiaryPid q net (ii_remark input))) ''transfer-inquiry'') db of
                Inl e \<Rightarrow> (Inl e, db)
              | Inr db' \<Rightarrow>
                  (Inr \<lparr>iv_id = env_uuid env (db_nextSeq db), iv_entryGroup = entryGroup, iv_grossIdr = show_int gross,
                        iv_feeIdr = show_int totalFee, iv_peridotFeeIdr = show_int (fb_globalFee q),
                        iv_peridotTaxIdr = show_int (fb_peridotTaxIdr q), iv_appFeeIdr = show_int (fb_appFee q),
                        iv_netIdr = show_int net, iv_feePolicyVersion = fb_policyVersion q, iv_beneficiaryPid = beneficiaryPid\<rparr>,
                   log_app_token auth pid entryGroup ''inquiry''
                     (log_audit pid ''fiat.transfer_inquiry'' [(''entryGroup'', JStr entryGroup), (''gross'', JStr (show_int gross))] db')))"

section \<open>Transfer confirm\<close>

text \<open>What the confirm reads before its transaction.\<close>

record confirm_plan =
  cp_intent :: ledger_row
  cp_beneficiaryPid :: string
  cp_version :: int
  cp_gross :: int
  cp_fee :: int
  cp_tax :: int
  cp_appFee :: int
  cp_appOwnerPid :: "string option"
  cp_net :: int
  cp_remark :: "string option"

datatype confirm_read = AlreadyPosted tx_view | Plan confirm_plan

definition confirm_begin :: "fiat_env \<Rightarrow> string \<Rightarrow> string \<Rightarrow> auth_ctx \<Rightarrow> fiat_db \<Rightarrow> confirm_read result" where
  "confirm_begin env pid i auth db =
     (case requireTransferScope auth of Inl e \<Rightarrow> Inl e | Inr _ \<Rightarrow>
      case requireUsable env db of Inl e \<Rightarrow> Inl e | Inr _ \<Rightarrow>
      case find_row db i pid of
        None \<Rightarrow> Inl (NotFound ''Transfer not found'')
      | Some intent \<Rightarrow>
          if ec_kind intent \<noteq> ''fiat_transfer_out'' then Inl (BadRequest ''Not a transfer intent'')
          else if ec_status intent = ''posted'' then Inr (AlreadyPosted (toTxView intent))
          else if ec_status intent \<noteq> ''created'' then Inl (BadRequest ''Transfer is closed -- start a new inquiry'')
          else if nullish (ec_counterpartyPid intent) [] = []
          then Inl (ServiceUnavailable ''Inquiry handshake incomplete -- start a new inquiry'')
          else
            let cp = lr_counterparty intent;
                policy = feePolicyByVersion db (nullish (ec_feePolicyVersion intent) 0);
                gross = ec_amountIdr intent;
                fee = nullish (quotedBigint (json_get cp ''feeQuote'')) (calcServiceFee gross policy);
                tax = nullish (quotedBigint (json_get cp ''taxQuote'')) (calcTaxAmount fee (fp_taxBps policy));
                appFee = nullish (quotedBigint (json_get cp ''appFeeQuote'')) 0
            in Inr (Plan \<lparr>cp_intent = intent, cp_beneficiaryPid = nullish (ec_counterpartyPid intent) [],
                 cp_version = fp_version policy, cp_gross = gross, cp_fee = fee, cp_tax = tax, cp_appFee = appFee,
                 cp_appOwnerPid = json_string (json_get cp ''appOwnerPid''),
                 cp_net = nullish (quotedBigint (json_get cp ''netQuote'')) (gross - fee - tax - appFee),
                 cp_remark = json_string (json_get cp ''remark'')\<rparr>))"

definition confirm_legs :: "fiat_env \<Rightarrow> string \<Rightarrow> confirm_plan \<Rightarrow> entry_data list" where
  "confirm_legs env pid pl =
     (let grp = ec_entryGroup (cp_intent pl); v = Some (cp_version pl); src = ''transfer-confirm''; ben = cp_beneficiaryPid pl
      in [leg grp ''fiat_transfer_in'' ben (Some pid) (cp_net pl) ''in'' (grp @ ''-IN'') (Some grp) v
            (Some ([(''parentRef'', JStr grp), (''senderPid'', JStr pid)]
              @ (if nullish (cp_remark pl) [] \<noteq> [] then [(''remark'', JStr (nullish (cp_remark pl) []))] else []))) src]
       @ (if cp_fee pl > 0 then [leg grp ''fiat_fee'' pid None (cp_fee pl) ''out'' (grp @ ''-FEE'') (Some grp) v
            (Some [(''parentRef'', JStr grp), (''destination'', JStr ''treasury''), (''treasury'', json_opt_string (treasuryPid env))]) src] else [])
       @ (if cp_tax pl > 0 then [leg grp ''fiat_tax'' pid None (cp_tax pl) ''out'' (grp @ ''-TAX'') (Some grp) v
            (Some [(''parentRef'', JStr grp), (''destination'', JStr ''tax'')]) src] else [])
       @ (if cp_appFee pl > 0 \<and> nullish (cp_appOwnerPid pl) [] \<noteq> [] then [leg grp ''fiat_app_fee'' (nullish (cp_appOwnerPid pl) []) None (cp_appFee pl) ''in'' (grp @ ''-APPFEE'') (Some grp) v
            (Some [(''parentRef'', JStr grp), (''destination'', JStr ''app''), (''payerPid'', JStr pid)]) src] else []))"

text \<open>The sender's leg updates the intent row in place; it gives neither the counterparty nor the source column.\<close>

definition sender_op :: "string \<Rightarrow> confirm_plan \<Rightarrow> chain_op" where
  "sender_op pid pl =
     \<lparr>co_id = Some (lr_id (cp_intent pl)),
      co_data = \<lparr>ed_entryGroup = ec_entryGroup (cp_intent pl), ed_kind = ''fiat_transfer_out'', ed_pid = pid,
        ed_counterpartyPid = Some (cp_beneficiaryPid pl), ed_amountIdr = cp_gross pl, ed_direction = ''out'',
        ed_idempotencyKey = ec_idempotencyKey (cp_intent pl), ed_parentRef = Some (ec_entryGroup (cp_intent pl)),
        ed_feePolicyVersion = Some (cp_version pl), ed_counterparty = None, ed_source = None\<rparr>\<rparr>"

definition confirm_txn :: "fiat_env \<Rightarrow> int \<Rightarrow> string \<Rightarrow> confirm_plan \<Rightarrow> fiat_db \<Rightarrow> fiat_db result" where
  "confirm_txn env now pid pl db =
     (case find_row db (lr_id (cp_intent pl)) pid of
        None \<Rightarrow> Inl (BadRequest ''Transfer is closed -- start a new inquiry'')
      | Some fresh \<Rightarrow>
          if ec_status fresh \<noteq> ''created'' then Inl (BadRequest ''Transfer is closed -- start a new inquiry'')
          else bind_result (requireEligibleSide env db pid (cp_beneficiaryPid pl)) (\<lambda>_.
            if postedBalanceTx db pid < cp_gross pl then Inl (BadRequest ''Insufficient internal credit'')
            else bind_result
              (appendChained env now (sender_op pid pl # map insert_op (confirm_legs env pid pl)) db)
              (enqueueTransferEventsTx env now (ec_entryGroup (cp_intent pl)) pid (cp_beneficiaryPid pl)
                 (cp_gross pl) (cp_fee pl + cp_tax pl + cp_appFee pl) (cp_net pl))))"

definition is_bad_request :: "http_error \<Rightarrow> bool" where
  "is_bad_request e = (case e of BadRequest _ \<Rightarrow> True | _ \<Rightarrow> False)"

definition transferConfirm ::
  "fiat_env \<Rightarrow> int \<Rightarrow> string \<Rightarrow> string \<Rightarrow> auth_ctx \<Rightarrow> fiat_db \<Rightarrow> fiat_db \<Rightarrow> tx_view result \<times> fiat_db" where
  "transferConfirm env now pid i auth seen db =
     (case confirm_begin env pid i auth seen of
        Inl e \<Rightarrow> (Inl e, db)
      | Inr (AlreadyPosted v) \<Rightarrow> (Inr v, db)
      | Inr (Plan pl) \<Rightarrow>
          (case confirm_txn env now pid pl db of
             Inl e \<Rightarrow>
               (if is_bad_request e then Inl e
                else case find_row db i pid of
                    Some r \<Rightarrow> if ec_status r = ''posted'' then Inr (toTxView r) else Inl e
                  | None \<Rightarrow> Inl e, db)
           | Inr db' \<Rightarrow>
               let db'' = log_app_token auth pid (ec_entryGroup (cp_intent pl)) ''confirm''
                     (log_audit pid ''fiat.transfer'' [(''entryGroup'', JStr (ec_entryGroup (cp_intent pl))), (''gross'', JStr (show_int (cp_gross pl)))] db')
               in (case find_row db'' i pid of
                     None \<Rightarrow> Inl (NotFound ''Transfer not found'')
                   | Some r \<Rightarrow> Inr (toTxView r), db'')))"

section \<open>Cancel\<close>

text \<open>\<^verbatim>\<open>updateMany where { id, status: "created" }\<close>.\<close>

definition cancel_row :: "string \<Rightarrow> ledger_row \<Rightarrow> ledger_row" where
  "cancel_row i r = (if lr_id r = i \<and> ec_status r = ''created'' then r\<lparr>ec_status := ''cancelled''\<rparr> else r)"

definition cancelIntent :: "string \<Rightarrow> string \<Rightarrow> fiat_db \<Rightarrow> tx_view result \<times> fiat_db" where
  "cancelIntent pid i db =
     (case find_row db i pid of
        None \<Rightarrow> (Inl (NotFound ''Transfer not found''), db)
      | Some row \<Rightarrow>
          if ec_status row \<noteq> ''created'' then (Inr (toTxView row), db)
          else let db' = db\<lparr>db_entries := map (cancel_row (lr_id row)) (db_entries db)\<rparr>
               in (case find_row db' (lr_id row) pid of
                     None \<Rightarrow> (Inl (NotFound ''Transfer not found''), db)
                   | Some final \<Rightarrow> (Inr (toTxView final), db')))"

section \<open>Admin adjustment\<close>

record adjust_input =
  ai_fromPid :: string
  ai_toPid :: string
  ai_amountIdr :: string
  ai_reason :: string
  ai_requestId :: "string option"

definition request_id_char :: "char \<Rightarrow> bool" where
  "request_id_char c \<longleftrightarrow> (let n = of_char c :: nat in (48 \<le> n \<and> n \<le> 57) \<or> (65 \<le> n \<and> n \<le> 90) \<or> (97 \<le> n \<and> n \<le> 122) \<or> n = 95 \<or> n = 45)"

definition valid_request_id :: "string \<Rightarrow> bool" where
  "valid_request_id s \<longleftrightarrow> 1 \<le> length s \<and> length s \<le> 64 \<and> list_all request_id_char s"

definition assertAdjustMatches :: "ledger_row \<Rightarrow> string \<Rightarrow> string \<Rightarrow> int \<Rightarrow> unit result" where
  "assertAdjustMatches row fromPid toPid amount =
     guard_result (\<not> (ec_pid row \<noteq> fromPid \<or> ec_counterpartyPid row \<noteq> Some toPid \<or> ec_amountIdr row \<noteq> amount \<or> ec_direction row \<noteq> ''out''))
       (Conflict ''requestId already used for a different adjustment -- use a fresh key'')"

definition adjust_legs :: "string \<Rightarrow> string \<Rightarrow> string \<Rightarrow> int \<Rightarrow> string \<Rightarrow> string option \<Rightarrow> entry_data list" where
  "adjust_legs grp fromPid toPid amount reason requestId =
     (let cp = [(''parentRef'', JStr grp), (''adjustFrom'', JStr fromPid), (''adjustTo'', JStr toPid), (''reason'', JStr reason)]
            @ (case requestId of None \<Rightarrow> [] | Some r \<Rightarrow> [(''requestId'', JStr r)])
      in [leg grp ''fiat_adjust'' fromPid (Some toPid) amount ''out'' (grp @ ''-OUT'') (Some grp) None (Some cp) ''admin-adjust'',
          leg grp ''fiat_adjust'' toPid (Some fromPid) amount ''in'' (grp @ ''-IN'') (Some grp) None (Some cp) ''admin-adjust''])"

definition adjust_txn :: "fiat_env \<Rightarrow> int \<Rightarrow> string \<Rightarrow> int \<Rightarrow> entry_data list \<Rightarrow> fiat_db \<Rightarrow> fiat_db result" where
  "adjust_txn env now fromPid amount legs db =
     (if postedBalanceTx db fromPid < amount then Inl (BadRequest ''Insufficient internal credit'')
      else appendChained env now (map insert_op legs) db)"

text \<open>The keys of the legs are \<^verbatim>\<open><entryGroup>-OUT\<close> and \<^verbatim>\<open><entryGroup>-IN\<close> in both cases, because a keyed request's
  group is \<^verbatim>\<open>ADJ-<requestId>\<close>. \<open>nonce\<close> is the generated invoice number of an unkeyed request.\<close>

definition adminAdjust ::
  "fiat_env \<Rightarrow> int \<Rightarrow> string \<Rightarrow> string \<Rightarrow> adjust_input \<Rightarrow> fiat_db \<Rightarrow> fiat_db \<Rightarrow> string result \<times> fiat_db" where
  "adminAdjust env now nonce adminPid input seen db =
     (case requireUsable env seen of Inl e \<Rightarrow> (Inl e, db) | Inr _ \<Rightarrow>
      let fromPid = to_lower (trim (ai_fromPid input)); toPid = to_lower (trim (ai_toPid input));
          reason = trim (ai_reason input)
      in if fromPid = [] \<or> toPid = [] then (Inl (BadRequest ''fromPid and toPid are required''), db)
         else if fromPid = toPid then (Inl (BadRequest ''fromPid and toPid must differ''), db)
         else if length reason < 8 then (Inl (BadRequest ''reason is required (min 8 chars) -- adjustments are audited''), db)
         else case parseAmount (ai_amountIdr input) of Inl e \<Rightarrow> (Inl e, db) | Inr amount \<Rightarrow>
           let rid = trim (nullish (ai_requestId input) []); requestId = (if rid = [] then None else Some rid)
           in if requestId \<noteq> None \<and> \<not> valid_request_id rid then (Inl (BadRequest ''requestId must be 1-64 chars of [A-Za-z0-9_-]''), db)
              else if \<not> (List.member (db_identities seen) fromPid \<and> List.member (db_identities seen) toPid)
              then (Inl (NotFound ''Identity not found''), db)
              else
                let grp = (case requestId of Some r \<Rightarrow> ''ADJ-'' @ r | None \<Rightarrow> nonce);
                    replayed = (\<lambda>prior. bind_result (assertAdjustMatches prior fromPid toPid amount) (\<lambda>_. Inr (ec_entryGroup prior)));
                    prior = (case requestId of None \<Rightarrow> None | Some _ \<Rightarrow> find_key seen (grp @ ''-OUT''))
                in if is_posted prior then (replayed (the prior), db)
                   else
                       (case adjust_txn env now fromPid amount (adjust_legs grp fromPid toPid amount reason requestId) db of
                          Inr db' \<Rightarrow> (Inr grp, log_audit adminPid ''fiat.adjust''
                            [(''entryGroup'', JStr grp), (''fromPid'', JStr fromPid), (''toPid'', JStr toPid),
                             (''amount'', JStr (show_int amount)), (''reason'', JStr (take 160 reason))] db')
                        | Inl e \<Rightarrow>
                            (if e = UniqueViolation \<and> requestId \<noteq> None \<and> is_posted (find_key db (grp @ ''-OUT''))
                             then replayed (the (find_key db (grp @ ''-OUT'')))
                             else Inl e, db)))"

section \<open>Reads\<close>

definition to_fiat_row :: "ledger_row \<Rightarrow> fiat_row" where
  "to_fiat_row r =
     \<lparr>r_kind = ec_kind r, r_pid = ec_pid r, r_idempotencyKey = ec_idempotencyKey r, r_entryGroup = Some (ec_entryGroup r),
      r_amountIdr = ec_amountIdr r, r_direction = Some (ec_direction r), r_status = ec_status r, r_replaySeq = Some (lr_replaySeq r)\<rparr>"

record pid_replay =
  pr_mine :: "ledger_row list"
  pr_replayed :: replay_state
  pr_truncated :: bool

definition starts_with :: "string \<Rightarrow> string \<Rightarrow> bool" where
  "starts_with p s \<longleftrightarrow> take (length p) s = p"

definition replayForPid :: "fiat_db \<Rightarrow> string \<Rightarrow> pid_replay" where
  "replayForPid db pid =
     (let mine = take 5000 (sort_key lr_replaySeq (filter (\<lambda>r. ec_pid r = pid) (db_entries db)));
          groups = dedupe (map ec_entryGroup mine);
          legs = (if groups = [] then [] else take 10000 (sort_key lr_replaySeq
                    (filter (\<lambda>r. List.member groups (ec_entryGroup r)) (db_entries db))));
          replayed = replayFiatLedger (map to_fiat_row legs)
      in \<lparr>pr_mine = mine,
          pr_replayed = replayed\<lparr>rs_errors := filter (\<lambda>e. \<not> starts_with ''owner '' e \<or> starts_with (''owner '' @ pid @ '' '') e) (rs_errors replayed)\<rparr>,
          pr_truncated = (length mine \<ge> 5000 \<or> length legs \<ge> 10000)\<rparr>)"

record balance_view =
  bv_balanceIdr :: string
  bv_replayErrors :: "string list"
  bv_truncated :: bool

definition balance :: "fiat_db \<Rightarrow> string \<Rightarrow> balance_view" where
  "balance db pid =
     (let p = replayForPid db pid
      in \<lparr>bv_balanceIdr = show_int (nullish (jsmap_get (rs_balances (pr_replayed p)) pid) 0),
          bv_replayErrors = rs_errors (pr_replayed p), bv_truncated = pr_truncated p\<rparr>)"

record journal_view =
  jv_pid :: string
  jv_balanceIdr :: string
  jv_truncated :: bool
  jv_treasuryCreditedIdr :: string
  jv_taxCreditedIdr :: string
  jv_inFlight :: "string list"
  jv_errors :: "string list"
  jv_rows :: "ledger_row list"

definition journal :: "fiat_db \<Rightarrow> string \<Rightarrow> journal_view" where
  "journal db pid =
     (let p = replayForPid db pid; replayed = pr_replayed p
      in \<lparr>jv_pid = pid, jv_balanceIdr = show_int (nullish (jsmap_get (rs_balances replayed) pid) 0),
          jv_truncated = pr_truncated p, jv_treasuryCreditedIdr = show_int (rs_treasury replayed),
          jv_taxCreditedIdr = show_int (rs_tax replayed), jv_inFlight = rs_inFlight replayed,
          jv_errors = rs_errors replayed, jv_rows = pr_mine p\<rparr>)"

record admin_replay_view =
  arv_enabled :: bool
  arv_frozen :: bool
  arv_treasuryPid :: "string option"
  arv_rows :: nat
  arv_truncated :: bool
  arv_outstandingIdr :: string
  arv_treasuryIdr :: string
  arv_taxIdr :: string
  arv_balances :: "(string \<times> string) list"
  arv_inFlight :: nat
  arv_errors :: "string list"

definition adminReplay :: "fiat_env \<Rightarrow> fiat_db \<Rightarrow> admin_replay_view" where
  "adminReplay env db =
     (let rows = take 5000 (sort_key lr_replaySeq (db_entries db));
          replayed = replayFiatLedger (map to_fiat_row rows)
      in \<lparr>arv_enabled = ledgerEnabled env, arv_frozen = ledgerFrozen env db, arv_treasuryPid = treasuryPid env,
          arv_rows = length rows, arv_truncated = (length rows \<ge> 5000),
          arv_outstandingIdr = show_int (foldl (\<lambda>t (_, bal). t + bal) (rs_treasury replayed + rs_tax replayed) (rs_balances replayed)),
          arv_treasuryIdr = show_int (rs_treasury replayed), arv_taxIdr = show_int (rs_tax replayed),
          arv_balances = map (\<lambda>(owner, bal). (owner, show_int bal)) (rs_balances replayed),
          arv_inFlight = length (rs_inFlight replayed), arv_errors = rs_errors replayed\<rparr>)"

end
