(* ===== verification/Fiat_Safety.thy ===== *)
theory Fiat_Safety
  imports Fiat_Ledger
begin

text \<open>
  Safety of the fiat ledger. The invariant \<open>ledger_inv\<close> says that ids, keys and sequence numbers are
  unique, the hash chain verifies and covers every posted row, every row has the direction of its
  kind, an open or cancelled intent carries a quote that adds up to its gross amount, and nobody's
  posted balance is negative. Every operation keeps it, also when its reads saw an older database
  than its transaction; the machine at the end runs operations over the history of databases.
\<close>

section \<open>Accounts\<close>

definition acct :: "string \<Rightarrow> 'a entry_core_scheme \<Rightarrow> int" where
  "acct p c = (if ec_pid c = p \<and> ec_status c = ''posted'' then row_delta c else 0)"

definition posted_balance :: "string \<Rightarrow> 'a entry_core_scheme list \<Rightarrow> int" where
  "posted_balance p rows = sum_list (map (acct p) rows)"

definition leg_ok :: "'a entry_core_scheme \<Rightarrow> bool" where
  "leg_ok c \<longleftrightarrow> 0 \<le> ec_amountIdr c \<and>
     (ec_direction c = ''in'' \<and> ec_kind c \<in> {''fiat_payment_in'', ''fiat_issue'', ''fiat_transfer_in'', ''fiat_app_fee'', ''fiat_adjust''}
      \<or> ec_direction c = ''out'' \<and> ec_kind c \<in> {''fiat_fee'', ''fiat_tax'', ''fiat_transfer_out'', ''fiat_adjust''})"

text \<open>The effect of a row on the sum of all owners, the treasury and the tax bucket.\<close>

definition core_flow :: "'a entry_core_scheme \<Rightarrow> int" where
  "core_flow c = (if ec_status c \<noteq> ''posted'' then 0
     else if ec_kind c = ''fiat_fee'' \<or> ec_kind c = ''fiat_tax'' then ec_amountIdr c else row_delta c)"

definition ledger_total :: "'a entry_core_scheme list \<Rightarrow> int" where
  "ledger_total rows = sum_list (map core_flow rows)"

lemma posted_balance_simps [simp]:
  "posted_balance p [] = 0" "posted_balance p (c # cs) = acct p c + posted_balance p cs"
  "posted_balance p (cs @ ds) = posted_balance p cs + posted_balance p ds"
  by (simp_all add: posted_balance_def)

lemma ledger_total_simps [simp]:
  "ledger_total [] = 0" "ledger_total (c # cs) = core_flow c + ledger_total cs"
  "ledger_total (cs @ ds) = ledger_total cs + ledger_total ds"
  by (simp_all add: ledger_total_def)

lemma truncate_sel [simp]:
  "ec_pid (entry_core.truncate r) = ec_pid r" "ec_kind (entry_core.truncate r) = ec_kind r"
  "ec_status (entry_core.truncate r) = ec_status r" "ec_direction (entry_core.truncate r) = ec_direction r"
  "ec_amountIdr (entry_core.truncate r) = ec_amountIdr r"
  "ec_entryGroup (entry_core.truncate r) = ec_entryGroup r" "ec_idempotencyKey (entry_core.truncate r) = ec_idempotencyKey r"
  by (simp_all add: entry_core.defs)

lemma truncate_effects [simp]:
  "acct p (entry_core.truncate r) = acct p r" "core_flow (entry_core.truncate r) = core_flow r"
  "leg_ok (entry_core.truncate r) = leg_ok r"
  by (simp_all add: acct_def row_delta_def core_flow_def leg_ok_def)

lemma truncate_lists:
  "posted_balance p (map entry_core.truncate rows) = posted_balance p rows"
  "ledger_total (map entry_core.truncate rows) = ledger_total rows"
  by (simp_all add: posted_balance_def ledger_total_def comp_def)

text \<open>The in-transaction guard computes the posted balance.\<close>

lemma foldl_plus: "foldl (\<lambda>b r. b + f r) (a :: int) xs = a + sum_list (map f xs)"
  by (induction xs arbitrary: a) auto

lemma posted_filter:
  "sum_list (map row_delta (filter (\<lambda>r. ec_pid r = p \<and> ec_status r = ''posted'') rows)) = posted_balance p rows"
  by (induction rows) (auto simp: acct_def)

lemma postedBalanceTx_eq: "postedBalanceTx db p = posted_balance p (db_entries db)"
  by (simp add: postedBalanceTx_def sumPosted_def foldl_plus posted_filter)

text \<open>The posted balance is the balance the replay shows.\<close>

lemma to_fiat_row_sel [simp]:
  "r_kind (to_fiat_row r) = ec_kind r" "r_pid (to_fiat_row r) = ec_pid r" "r_status (to_fiat_row r) = ec_status r"
  "r_amountIdr (to_fiat_row r) = ec_amountIdr r" "r_direction (to_fiat_row r) = Some (ec_direction r)"
  "r_entryGroup (to_fiat_row r) = Some (ec_entryGroup r)" "r_idempotencyKey (to_fiat_row r) = ec_idempotencyKey r"
  "r_replaySeq (to_fiat_row r) = Some (lr_replaySeq r)"
  by (simp_all add: to_fiat_row_def)

lemma acct_effect: "leg_ok r \<Longrightarrow> (if ec_pid r = p then owner_effect (to_fiat_row r) else 0) = acct p r"
  by (auto simp: acct_def row_delta_def effect_defs leg_ok_def)

lemma flow_effect: "leg_ok r \<Longrightarrow> flow (to_fiat_row r) = core_flow r"
  by (auto simp: core_flow_def row_delta_def flow_defs leg_ok_def)

lemma owner_total_posted: "list_all leg_ok rows \<Longrightarrow> owner_total p (map to_fiat_row rows) = posted_balance p rows"
  by (induction rows) (auto simp: acct_effect [symmetric])

lemma replay_total_posted:
  assumes "list_all leg_ok rows"
  shows "totalFiatOutstanding (replayFiatLedger (map to_fiat_row rows)) = ledger_total rows"
proof -
  have "totalFiatOutstanding (replayFiatLedger (map to_fiat_row rows))
      = sum_list (map flow (order_rows (map to_fiat_row rows)))"
    by (simp add: replayFiatLedger_def totalFiatOutstanding_def)
      (simp add: fold_total [of init_replay, simplified, unfolded totalFiatOutstanding_def, simplified])
  also have "\<dots> = sum_list (map flow (map to_fiat_row rows))"
    using sum_list_filter_mset [OF mset_order_rows, of flow "\<lambda>_. True"] by simp
  also have "\<dots> = ledger_total rows"
    using assms by (induction rows) (auto simp: flow_effect)
  finally show ?thesis .
qed

section \<open>The invariant\<close>

text \<open>The quote an intent carries: what the confirm will read from its JSON column.\<close>

definition intent_ok :: "ledger_row \<Rightarrow> bool" where
  "intent_ok r \<longleftrightarrow> ec_kind r = ''fiat_transfer_out'' \<and> ec_parentRef r = None \<and>
     (\<exists>fee tax net. quotedBigint (json_get (lr_counterparty r) ''feeQuote'') = Some fee
        \<and> quotedBigint (json_get (lr_counterparty r) ''taxQuote'') = Some tax
        \<and> quotedBigint (json_get (lr_counterparty r) ''netQuote'') = Some net
        \<and> ec_amountIdr r = net + fee + tax + nullish (quotedBigint (json_get (lr_counterparty r) ''appFeeQuote'')) 0)
     \<and> (0 < nullish (quotedBigint (json_get (lr_counterparty r) ''appFeeQuote'')) 0 \<longrightarrow>
          nullish (json_string (json_get (lr_counterparty r) ''appOwnerPid'')) [] \<noteq> [])"

definition row_ok :: "ledger_row \<Rightarrow> bool" where
  "row_ok r \<longleftrightarrow> leg_ok r \<and> ec_status r \<in> {''created'', ''posted'', ''cancelled''}
     \<and> (ec_status r \<noteq> ''posted'' \<longrightarrow> intent_ok r)"

text \<open>What the other writers of the tables promise: fee percentages are not negative, registered
  apps and their owners have non-empty ids.\<close>

definition tables_ok :: "fiat_db \<Rightarrow> bool" where
  "tables_ok db \<longleftrightarrow> (\<forall>p \<in> set (db_policies db). 0 \<le> fp_percentBps (pol_params p))
     \<and> (\<forall>a \<in> set (db_apps db). pa_id a \<noteq> [] \<and> pa_ownerPid a \<noteq> [])"

definition ledger_inv :: "fiat_env \<Rightarrow> fiat_db \<Rightarrow> bool" where
  "ledger_inv env db \<longleftrightarrow> rows_ok env db \<and> chain_inv env (db_entries db) \<and> fully_chained (db_entries db) \<and> tables_ok db
     \<and> list_all row_ok (db_entries db) \<and> (\<forall>p. 0 \<le> posted_balance p (db_entries db))"

text \<open>How the database may change: identities stay, a row keeps its identity and value, and a row
  that left the state \<^verbatim>\<open>created\<close> never changes again.\<close>

definition same_intent :: "ledger_row \<Rightarrow> ledger_row \<Rightarrow> bool" where
  "same_intent r r' \<longleftrightarrow> lr_id r' = lr_id r \<and> ec_pid r' = ec_pid r \<and> ec_kind r' = ec_kind r
     \<and> ec_entryGroup r' = ec_entryGroup r \<and> ec_idempotencyKey r' = ec_idempotencyKey r \<and> ec_amountIdr r' = ec_amountIdr r
     \<and> lr_counterparty r' = lr_counterparty r \<and> (ec_status r \<noteq> ''created'' \<longrightarrow> r' = r)"

definition evolves :: "fiat_db \<Rightarrow> fiat_db \<Rightarrow> bool" where
  "evolves s t \<longleftrightarrow> set (db_identities s) \<subseteq> set (db_identities t)
     \<and> (\<forall>r \<in> set (db_entries s). \<exists>r' \<in> set (db_entries t). same_intent r r')"

lemma same_intent_refl [simp]: "same_intent r r"
  by (simp add: same_intent_def)

lemma same_intent_trans: "same_intent r s \<Longrightarrow> same_intent s t \<Longrightarrow> same_intent r t"
  by (auto simp: same_intent_def)

lemma evolves_refl [simp]: "evolves db db"
  unfolding evolves_def using same_intent_refl by blast

lemma evolves_trans: "evolves s t \<Longrightarrow> evolves t u \<Longrightarrow> evolves s u"
  unfolding evolves_def by (meson same_intent_trans subset_trans)

lemma evolves_extend:
  "set (db_identities db) \<subseteq> set (db_identities db') \<Longrightarrow> db_entries db' = db_entries db @ rows \<Longrightarrow> evolves db db'"
  unfolding evolves_def using same_intent_refl by (metis Un_iff set_append)

text \<open>Tables the ledger does not read do not matter.\<close>

definition same_ledger :: "fiat_db \<Rightarrow> fiat_db \<Rightarrow> bool" where
  "same_ledger s t \<longleftrightarrow> db_entries t = db_entries s \<and> db_identities t = db_identities s \<and> db_nextSeq t = db_nextSeq s
     \<and> db_policies t = db_policies s \<and> db_apps t = db_apps s"

lemma same_ledger_refl [simp]: "same_ledger s s"
  by (simp add: same_ledger_def)

lemma same_ledger_trans: "same_ledger s t \<Longrightarrow> same_ledger t u \<Longrightarrow> same_ledger s u"
  by (simp add: same_ledger_def)

lemma ledger_inv_same: "same_ledger s t \<Longrightarrow> ledger_inv env t = ledger_inv env s"
  by (simp add: same_ledger_def ledger_inv_def rows_ok_def tables_ok_def)

lemma evolves_same: "same_ledger s t \<Longrightarrow> evolves r t = evolves r s"
  by (simp add: same_ledger_def evolves_def)

lemma log_same [simp]: "same_ledger db (log_audit p e d db)" "same_ledger db (log_app_token a p g ph db)"
  by (simp_all add: same_ledger_def log_audit_def log_app_token_def)

lemma log_both_same [simp]: "same_ledger db (log_app_token a p g ph (log_audit p' e d db))"
  by (rule same_ledger_trans [OF log_same(1) log_same(2)])

lemma create_event_same: "create_event env now ty k t u pl db = Inr db' \<Longrightarrow> same_ledger db db'"
  by (auto simp: create_event_def same_ledger_def split: if_splits)

lemma enqueue_each_same: "enqueue_each env now payload grp apps db = Inr db' \<Longrightarrow> same_ledger db db'"
proof (induction apps arbitrary: db)
  case (Cons a apps)
  then show ?case
    by (auto simp: Let_def split: if_splits dest: create_event_same intro: same_ledger_trans)
qed simp

lemma enqueue_same: "enqueueTransferEventsTx env now grp f t g fe n db = Inr db' \<Longrightarrow> same_ledger db db'"
  by (simp add: enqueueTransferEventsTx_def Let_def enqueue_each_same)

lemma deposit_event_same: "deposit_event env now row k n f db = Inr db' \<Longrightarrow> same_ledger db db'"
  by (auto simp: deposit_event_def split: option.splits if_splits dest: create_event_same)

section \<open>Posting\<close>

lemma leg_core [simp]:
  "hashed_core (leg g k p ot a d key par v cp src) =
     \<lparr>ec_entryGroup = g, ec_kind = k, ec_pid = p, ec_counterpartyPid = ot, ec_amountIdr = a, ec_direction = d,
      ec_idempotencyKey = key, ec_parentRef = par, ec_status = ''posted'', ec_feePolicyVersion = v\<rparr>"
  by (simp add: hashed_core_def leg_def)

lemma map_insert_op [simp]: "list_all is_insert (map insert_op ds)" "map (hashed_core \<circ> co_data) (map insert_op ds) = map hashed_core ds"
  by (induction ds) auto

text \<open>Posting legs that are well formed and overdraw nobody keeps the invariant.\<close>

lemma post_inserts:
  assumes inv: "ledger_inv env db" and env: "env_ok env"
    and app: "appendChained env now (map insert_op ds) db = Inr db'"
    and legs: "\<forall>d \<in> set ds. leg_ok (hashed_core d)"
    and bal: "\<And>p. 0 \<le> posted_balance p (db_entries db) + posted_balance p (map hashed_core ds)"
  shows "ledger_inv env db'" "evolves db db'"
    "posted_balance p (db_entries db') = posted_balance p (db_entries db) + posted_balance p (map hashed_core ds)"
    "ledger_total (db_entries db') = ledger_total (db_entries db) + ledger_total (map hashed_core ds)"
proof -
  have inv': "rows_ok env db" "chain_inv env (db_entries db)" using inv by (simp_all add: ledger_inv_def)
  obtain rows where rows: "db_entries db' = db_entries db @ rows" "map entry_core.truncate rows = map hashed_core ds"
      "list_all hashed rows" "db' = db\<lparr>db_entries := db_entries db', db_nextSeq := db_nextSeq db'\<rparr>"
    using appendChained_inserts(2) [OF app map_insert_op(1) inv' env] unfolding map_insert_op by blast
  have new: "posted_balance p rows = posted_balance p (map hashed_core ds)" for p
    using truncate_lists(1) [of p rows] rows(2) by simp
  have tot: "ledger_total rows = ledger_total (map hashed_core ds)"
    using truncate_lists(2) [of rows] rows(2) by simp
  have "\<exists>d \<in> set ds. entry_core.truncate r = hashed_core d" if "r \<in> set rows" for r
    using that rows(2) by (metis (mono_tags, lifting) imageE image_eqI list.set_map)
  then have "leg_ok r \<and> ec_status r = ''posted''" if "r \<in> set rows" for r
    using that legs truncate_effects(3) [of r] truncate_sel(3) [of r] by (metis (no_types, lifting) hashed_core_def entry_core.select_convs(9))
  then have "list_all row_ok rows" by (auto simp: list_all_iff row_ok_def)
  moreover have "fully_chained (db_entries db')"
    using inv rows by (auto simp: ledger_inv_def fully_chained_def list_all_iff)
  moreover have "tables_ok db'" using inv by (subst rows(4)) (simp add: ledger_inv_def tables_ok_def)
  moreover have "rows_ok env db' \<and> chain_inv env (db_entries db')"
    by (rule appendChained_inserts(1) [OF app map_insert_op(1) inv' env])
  ultimately show "ledger_inv env db'"
    using inv bal new by (simp add: ledger_inv_def rows(1))
  have "db_identities db' = db_identities db" by (subst rows(4)) simp
  then show "evolves db db'" using rows(1) by (intro evolves_extend) auto
  show "posted_balance p (db_entries db') = posted_balance p (db_entries db) + posted_balance p (map hashed_core ds)"
    by (simp add: rows(1) new)
  show "ledger_total (db_entries db') = ledger_total (db_entries db) + ledger_total (map hashed_core ds)"
    by (simp add: rows(1) tot)
qed

section \<open>Quotes\<close>

lemma quotedBigint_show [simp]:
  "0 \<le> n \<Longrightarrow> quotedBigint (Some (JStr (show_int n))) = Some n"
  "quotedBigint (Some (JStr (show_nat m))) = Some (int m)" "quotedBigint None = None"
  by (simp_all add: quotedBigint_def)

lemma quotedBigint_nonneg: "quotedBigint v = Some n \<Longrightarrow> 0 \<le> n"
  by (auto simp: quotedBigint_def split: option.splits json.splits if_splits)

lemma quoted_default_nonneg: "0 \<le> nullish (quotedBigint v) 0"
  by (cases "quotedBigint v") (auto dest: quotedBigint_nonneg)

lemma parseAmount_pos: "parseAmount raw = Inr a \<Longrightarrow> 0 < a"
  by (auto simp: parseAmount_def split: if_splits)

lemma activeFeePolicy_nonneg: "tables_ok db \<Longrightarrow> 0 \<le> fp_percentBps (activeFeePolicy db)"
proof -
  assume ok: "tables_ok db"
  let ?l = "sort_key (\<lambda>p. - fp_version (pol_params p)) (filter pol_active (db_policies db))"
  have "set ?l \<subseteq> set (db_policies db)" by auto
  with ok show ?thesis
    by (cases ?l) (auto simp: activeFeePolicy_def tables_ok_def DEFAULT_FEE_POLICY_def)
qed

lemma appFeeFor_nonneg: "0 \<le> a \<Longrightarrow> 0 \<le> appFeeFor db appId op a"
  by (auto simp: appFeeFor_def split: option.splits intro!: service_fee.fee_nonneg)

lemma quoteFees_nonneg:
  assumes "tables_ok db" "0 \<le> a" "q = quoteFees now db cid op a"
  shows "0 \<le> fb_globalFee q" "0 \<le> fb_peridotTaxIdr q" "0 \<le> fb_appFee q"
  using assms activeFeePolicy_nonneg [OF assms(1)]
  by (auto simp: quoteFees_def Let_def calcTaxAmount_nonneg appFeeFor_nonneg intro!: service_fee.fee_nonneg)

text \<open>A quote with an app fee names the app and its owner.\<close>

lemma quoteFees_app:
  assumes "tables_ok db" "q = quoteFees now db cid op a" "fb_appFee q \<noteq> 0"
  shows "nullish (fb_appId q) [] \<noteq> []" "nullish (fb_appOwnerPid q) [] \<noteq> []"
proof -
  let ?app = "resolveAppContext now db cid"
  from assms(2,3) obtain c where c: "?app = Some c"
    by (cases ?app) (auto simp: quoteFees_def Let_def appFeeFor_def)
  then obtain x where "x \<in> set (db_apps db)" "ac_id c = pa_id x" "ac_ownerPid c = pa_ownerPid x"
    by (auto simp: resolveAppContext_def split: if_splits option.splits dest!: find_SomeD)
  with assms(1) have "ac_id c \<noteq> []" "ac_ownerPid c \<noteq> []" by (auto simp: tables_ok_def)
  with assms(2) c show "nullish (fb_appId q) [] \<noteq> []" "nullish (fb_appOwnerPid q) [] \<noteq> []"
    by (auto simp: quoteFees_def Let_def)
qed

lemma intent_json_get:
  "jsmap_get (intent_json b q net rem) ''feeQuote'' = Some (JStr (show_int (fb_globalFee q)))"
  "jsmap_get (intent_json b q net rem) ''taxQuote'' = Some (JStr (show_int (fb_peridotTaxIdr q)))"
  "jsmap_get (intent_json b q net rem) ''netQuote'' = Some (JStr (show_int net))"
  "jsmap_get (intent_json b q net rem) ''appFeeQuote'' =
     (if nullish (fb_appId q) [] \<noteq> [] \<and> nullish (fb_appOwnerPid q) [] \<noteq> [] then Some (JStr (show_int (fb_appFee q))) else None)"
  "jsmap_get (intent_json b q net rem) ''appOwnerPid'' =
     (if nullish (fb_appId q) [] \<noteq> [] \<and> nullish (fb_appOwnerPid q) [] \<noteq> [] then Some (JStr (nullish (fb_appOwnerPid q) [])) else None)"
  by (simp_all add: intent_json_def)

section \<open>Operations keep the invariant\<close>

lemma inquiry_row_ok:
  assumes "tables_ok db" "0 < gross" "q = quoteFees now db cid op gross"
    and "net = gross - (fb_globalFee q + fb_peridotTaxIdr q + fb_appFee q)" "0 < net"
  shows "row_ok (new_row env t ''created'' None
    (leg grp ''fiat_transfer_out'' pid (Some b) gross ''out'' grp None v (Some (intent_json b q net rem)) src) n)"
proof -
  note nn = quoteFees_nonneg [OF assms(1) less_imp_le [OF assms(2)] assms(3)]
  note app = quoteFees_app [OF assms(1,3)]
  show ?thesis
    using nn app assms(2,4,5)
    by (cases "fb_appFee q = 0")
      (auto simp: row_ok_def leg_ok_def intent_ok_def new_row_def leg_def intent_json_get json_string_def)
qed

lemma transferInquiry_inv:
  assumes inv: "ledger_inv env db" and env: "env_ok env" and run: "transferInquiry env now grp pid input cid auth db = (r, db')"
  shows "ledger_inv env db' \<and> evolves db db' \<and> (\<forall>p. posted_balance p (db_entries db') = posted_balance p (db_entries db))
    \<and> ledger_total (db_entries db') = ledger_total (db_entries db)"
proof (cases "db' = db")
  case False
  let ?b = "to_lower (trim (ii_beneficiaryPid input))"
  let ?q = "\<lambda>g. quoteFees now db cid (nullish (ii_operation input) ''transaction'') g"
  let ?net = "\<lambda>g. g - (fb_globalFee (?q g) + fb_peridotTaxIdr (?q g) + fb_appFee (?q g))"
  let ?d = "\<lambda>g. leg grp ''fiat_transfer_out'' pid (Some ?b) g ''out'' grp None (Some (fb_policyVersion (?q g)))
        (Some (intent_json ?b (?q g) (?net g) (ii_remark input))) ''transfer-inquiry''"
  obtain gross db1 where g: "0 < gross" and n: "0 < ?net gross"
    and c: "create_entry env now ''created'' None (?d gross) db = Inr db1" and same: "same_ledger db1 db'"
    using run False
    by (fastforce simp: transferInquiry_def Let_def not_le split: sum.splits if_splits dest!: parseAmount_pos)
  let ?r = "new_row env now ''created'' None (?d gross) (db_nextSeq db)"
  have tab: "tables_ok db" using inv by (simp add: ledger_inv_def)
  have ok: "row_ok ?r" by (rule inquiry_row_ok [OF tab g refl refl n])
  have e: "db_entries db1 = db_entries db @ [?r]" "db_identities db1 = db_identities db" "db_policies db1 = db_policies db" "db_apps db1 = db_apps db"
    using c by (auto simp: create_entry_def split: if_splits)
  have nc: "ec_status ?r = ''created''" "acct p ?r = 0" "core_flow ?r = 0" for p by (simp_all add: new_row_def acct_def core_flow_def)
  have "rows_ok env db1" "chain_inv env (db_entries db1)"
    using inv rows_ok_create [OF _ env c] chain_inv_create_unhashed [OF _ c] by (auto simp: ledger_inv_def)
  then have "ledger_inv env db1"
    using inv ok nc e by (auto simp: ledger_inv_def fully_chained_def tables_ok_def)
  moreover have "evolves db db1" using e by (intro evolves_extend) auto
  moreover have "db_entries db' = db_entries db1" using same by (simp add: same_ledger_def)
  ultimately show ?thesis
    using ledger_inv_same [OF same] evolves_same [OF same] e nc by simp
qed (use inv in simp)

lemma mint_inv:
  assumes inv: "ledger_inv env db" and env: "env_ok env" and run: "mintTestCredit env now cid pid raw db = (r, db')"
  shows "ledger_inv env db' \<and> evolves db db'"
proof (cases "db' = db")
  case False
  obtain a cp db1 where a: "0 < a"
    and c: "appendChained env now [insert_op (leg cid ''fiat_issue'' pid None a ''in'' (''FAUCET-'' @ cid) None None (Some cp) ''faucet'')] db = Inr db1"
    and same: "same_ledger db1 db'"
    using run False
    by (auto simp: mintTestCredit_def parseFaucetAmount_def Let_def not_le split: sum.splits if_splits option.splits)
  let ?d = "leg cid ''fiat_issue'' pid None a ''in'' (''FAUCET-'' @ cid) None None (Some cp) ''faucet''"
  have "0 \<le> posted_balance p (db_entries db)" for p using inv by (simp add: ledger_inv_def)
  then have "ledger_inv env db1" "evolves db db1"
    using post_inserts [OF inv env, of now "[?d]" db1] c a by (auto simp: leg_ok_def acct_def row_delta_def)
  then show ?thesis using ledger_inv_same [OF same] evolves_same [OF same] by simp
qed (use inv in simp)

lemma cancel_row_sel [simp]:
  "lr_id (cancel_row j x) = lr_id x" "ec_idempotencyKey (cancel_row j x) = ec_idempotencyKey x"
  "lr_replaySeq (cancel_row j x) = lr_replaySeq x" "ec_pid (cancel_row j x) = ec_pid x"
  "hashed (cancel_row j x) = hashed x" "acct p (cancel_row j x) = acct p x" "core_flow (cancel_row j x) = core_flow x"
  "(ec_status (cancel_row j x) = ''posted'') = (ec_status x = ''posted'')" "same_intent x (cancel_row j x)"
  by (auto simp: cancel_row_def hashed_def acct_def core_flow_def same_intent_def)

lemma cancel_row_ok: "row_ok x \<Longrightarrow> row_ok (cancel_row j x)"
  by (auto simp: cancel_row_def row_ok_def leg_ok_def intent_ok_def)

lemma cancel_rows [simp]:
  "map lr_id (map (cancel_row j) rs) = map lr_id rs" "map ec_idempotencyKey (map (cancel_row j) rs) = map ec_idempotencyKey rs"
  "map lr_replaySeq (map (cancel_row j) rs) = map lr_replaySeq rs" "posted_balance p (map (cancel_row j) rs) = posted_balance p rs"
  "ledger_total (map (cancel_row j) rs) = ledger_total rs"
  by (induction rs) simp_all

lemma cancel_chain_inv:
  assumes "chain_inv env rows"
  shows "chain_inv env (map (cancel_row j) rows)"
proof -
  have "filter hashed (map (cancel_row j) rs) = filter hashed rs" if "\<forall>r \<in> set rs. hashed r \<longrightarrow> ec_status r = ''posted''" for rs
    using that by (induction rs) (auto simp: cancel_row_def hashed_def)
  then have "filter hashed (map (cancel_row j) rows) = filter hashed rows" using assms by (auto simp: chain_inv_def)
  with assms show ?thesis unfolding chain_inv_def chained_def chain_tip_def by auto
qed

lemma cancel_inv:
  assumes inv: "ledger_inv env db" and run: "cancelIntent pid i db = (r, db')"
  shows "ledger_inv env db' \<and> evolves db db' \<and> (\<forall>p. posted_balance p (db_entries db') = posted_balance p (db_entries db))
    \<and> ledger_total (db_entries db') = ledger_total (db_entries db)"
proof (cases "db' = db")
  case False
  obtain j where db': "db' = db\<lparr>db_entries := map (cancel_row j) (db_entries db)\<rparr>"
    using run False by (auto simp: cancelIntent_def Let_def split: option.splits if_splits)
  have "rows_ok env db'"
    using inv unfolding ledger_inv_def rows_ok_def db' by (auto simp del: map_map)
  moreover have "list_all row_ok (db_entries db')" "fully_chained (db_entries db')"
    using inv cancel_row_ok by (auto simp: ledger_inv_def list_all_iff fully_chained_def db')
  moreover have "chain_inv env (db_entries db')" using inv cancel_chain_inv by (simp add: ledger_inv_def db')
  ultimately have "ledger_inv env db'"
    using inv by (simp add: ledger_inv_def db' tables_ok_def)
  moreover have "evolves db db'" unfolding evolves_def db' using cancel_row_sel(9) by fastforce
  ultimately show ?thesis by (simp add: db')
qed (use inv in simp)

section \<open>Posting an intent\<close>

lemma sum_list_replace:
  fixes f :: "ledger_row \<Rightarrow> int"
  assumes "distinct (map lr_id rows)" "r \<in> set rows"
  shows "sum_list (map f (map (\<lambda>x. if lr_id x = lr_id r then g x else x) rows)) = sum_list (map f rows) + f (g r) - f r"
  using assms
proof (induction rows)
  case (Cons x xs)
  show ?case
  proof (cases "x = r")
    case True
    with Cons.prems have "lr_id r \<notin> lr_id ` set xs" by auto
    then have "map (\<lambda>x. if lr_id x = lr_id r then g x else x) xs = xs"
      by (intro map_idI) (auto simp: image_iff)
    with True show ?thesis by simp
  next
    case False
    with Cons.prems have "r \<in> set xs" "lr_id x \<noteq> lr_id r" by auto
    with Cons show ?thesis by simp
  qed
qed simp

lemma find_row_SomeD: "find_row db i pid = Some r \<Longrightarrow> r \<in> set (db_entries db) \<and> lr_id r = i \<and> ec_pid r = pid"
  by (auto simp: find_row_def dest: find_SomeD)

lemma rows_ok_id: "rows_ok env db \<Longrightarrow> r \<in> set (db_entries db) \<Longrightarrow> q \<in> set (db_entries db) \<Longrightarrow> lr_id r = lr_id q \<Longrightarrow> r = q"
  by (auto simp: rows_ok_def distinct_map inj_on_def)

lemma rows_ok_key:
  "rows_ok env db \<Longrightarrow> r \<in> set (db_entries db) \<Longrightarrow> q \<in> set (db_entries db) \<Longrightarrow> ec_idempotencyKey r = ec_idempotencyKey q \<Longrightarrow> r = q"
  by (auto simp: rows_ok_def distinct_map inj_on_def)

text \<open>The data of a sender's leg, for a row that holds an open intent.\<close>

definition posts_intent :: "entry_data \<Rightarrow> ledger_row \<Rightarrow> bool" where
  "posts_intent d r \<longleftrightarrow> ed_entryGroup d = ec_entryGroup r \<and> ed_kind d = ec_kind r \<and> ed_pid d = ec_pid r
     \<and> ed_amountIdr d = ec_amountIdr r \<and> ed_idempotencyKey d = ec_idempotencyKey r \<and> ed_counterparty d = None
     \<and> ed_counterpartyPid d \<noteq> None \<and> ed_parentRef d \<noteq> None \<and> ed_feePolicyVersion d \<noteq> None"

lemma post_row_core: "posts_intent d r \<Longrightarrow> entry_core.truncate (post_row link d r) = hashed_core d"
  by (auto simp: posts_intent_def post_row_def hashed_core_def entry_core.defs)

lemma post_row_same: "posts_intent d r \<Longrightarrow> ec_status r = ''created'' \<Longrightarrow> same_intent r (post_row link d r)"
  by (auto simp: posts_intent_def post_row_def same_intent_def)

lemma post_update:
  assumes inv: "ledger_inv env db" and env: "env_ok env" and tip: "chain_tip (db_entries db) = (p, q)"
    and r: "r \<in> set (db_entries db)" "ec_status r = ''created''" and d: "posts_intent d r" "leg_ok (hashed_core d)"
    and bal: "\<And>x. 0 \<le> posted_balance x (db_entries db) + acct x (hashed_core d)"
    and h: "h = entryHash (env_sha env) (with_prev (hashed_core d) p)"
    and upd: "update_entry (lr_id r) (p, h, q + 1) d db = Inr db1"
  shows "ledger_inv env db1" "evolves db db1" "chain_tip (db_entries db1) = (h, q + 1)"
    "posted_balance x (db_entries db1) = posted_balance x (db_entries db) + acct x (hashed_core d)"
    "ledger_total (db_entries db1) = ledger_total (db_entries db) + core_flow (hashed_core d)"
proof -
  let ?g = "post_row (p, h, q + 1) d"
  have rok: "rows_ok env db" "chain_inv env (db_entries db)" "distinct (map lr_id (db_entries db))"
    using inv by (auto simp: ledger_inv_def rows_ok_def)
  have nh: "\<not> hashed r" using rok(2) r by (auto simp: chain_inv_def)
  have db1: "db1 = db\<lparr>db_entries := map (\<lambda>x. if lr_id x = lr_id r then ?g x else x) (db_entries db)\<rparr>"
    using upd by (auto simp: update_entry_def split: if_splits)
  have posted: "acct x (?g r) = acct x (hashed_core d)" "core_flow (?g r) = core_flow (hashed_core d)"
    "leg_ok (?g r)" "acct x r = 0" "core_flow r = 0" for x
    using truncate_effects(1) [of x "?g r"] truncate_effects(2,3) [of "?g r"] post_row_core [OF d(1)] d(2) r(2)
    by (simp_all add: acct_def [of x r] core_flow_def [of r])
  show pb: "posted_balance x (db_entries db1) = posted_balance x (db_entries db) + acct x (hashed_core d)" for x
    using sum_list_replace [OF rok(3) r(1), of "acct x" ?g] posted by (simp add: posted_balance_def db1)
  show "ledger_total (db_entries db1) = ledger_total (db_entries db) + core_flow (hashed_core d)"
    using sum_list_replace [OF rok(3) r(1), of core_flow ?g] posted by (simp add: ledger_total_def db1)
  have ch: "chain_inv env (db_entries db1) \<and> chain_tip (db_entries db1) = (h, q + 1)"
    using chain_inv_update [OF rok(2) env tip rok(3) r(1) nh _ _ _ h upd] d(1) by (simp add: posts_intent_def)
  then show "chain_tip (db_entries db1) = (h, q + 1)" by simp
  have only: "x = r" if "x \<in> set (db_entries db)" "lr_id x = lr_id r" for x
    using rows_ok_id [OF rok(1) that(1) r(1) that(2)] .
  have sts: "ec_status (?g r) = ''posted''" "hashed (?g r)" by (simp_all add: post_row_def hashed_def)
  have "list_all row_ok (db_entries db1)" "fully_chained (db_entries db1)"
    using inv only posted(3) sts by (auto simp: ledger_inv_def list_all_iff fully_chained_def row_ok_def db1)
  then show "ledger_inv env db1"
    using inv ch rows_ok_update [OF rok(1) upd] bal pb by (simp add: ledger_inv_def) (simp add: tables_ok_def db1)
  have "\<exists>y \<in> set (db_entries db1). same_intent x y" if "x \<in> set (db_entries db)" for x
  proof (cases "lr_id x = lr_id r")
    case True
    with that only have "x = r" by simp
    then show ?thesis using post_row_same [OF d(1) r(2)] r(1) by (intro bexI [of _ "?g r"]) (auto simp: db1)
  next
    case False
    then show ?thesis using that by (auto simp: db1 intro!: bexI [of _ x])
  qed
  then show "evolves db db1" by (simp add: evolves_def db1)
qed

lemma post_intent:
  assumes inv: "ledger_inv env db" and env: "env_ok env"
    and r: "r \<in> set (db_entries db)" "ec_status r = ''created''" and d: "posts_intent d r" "leg_ok (hashed_core d)"
    and legs: "\<forall>e \<in> set ds. leg_ok (hashed_core e)"
    and bal: "\<And>x. 0 \<le> posted_balance x (db_entries db) + acct x (hashed_core d)"
    and ins: "\<And>x. 0 \<le> posted_balance x (map hashed_core ds)"
    and app: "appendChained env now (\<lparr>co_id = Some (lr_id r), co_data = d\<rparr> # map insert_op ds) db = Inr db'"
  shows "ledger_inv env db'" "evolves db db'"
    "posted_balance x (db_entries db') = posted_balance x (db_entries db) + acct x (hashed_core d) + posted_balance x (map hashed_core ds)"
    "ledger_total (db_entries db') = ledger_total (db_entries db) + core_flow (hashed_core d) + ledger_total (map hashed_core ds)"
proof -
  obtain p q where tip: "chain_tip (db_entries db) = (p, q)" by fastforce
  let ?h = "entryHash (env_sha env) (with_prev (hashed_core d) p)"
  obtain db1 where u: "update_entry (lr_id r) (p, ?h, q + 1) d db = Inr db1"
    and rest: "append_ops env now ?h (q + 1) (map insert_op ds) db1 = Inr db'"
    using app by (auto simp: appendChained_def tip Let_def)
  note U = post_update [OF inv env tip r d bal refl u]
  have app1: "appendChained env now (map insert_op ds) db1 = Inr db'"
    using rest by (simp add: appendChained_def U(3))
  have "0 \<le> posted_balance x (db_entries db1) + posted_balance x (map hashed_core ds)" for x
    using bal [of x] ins [of x] by (simp add: U(4))
  note I = post_inserts [OF U(1) env app1 legs this]
  show "ledger_inv env db'" by (rule I(1))
  show "evolves db db'" using evolves_trans [OF U(2) I(2)] .
  show "posted_balance x (db_entries db') = posted_balance x (db_entries db) + acct x (hashed_core d) + posted_balance x (map hashed_core ds)"
    using I(3) U(4) by simp
  show "ledger_total (db_entries db') = ledger_total (db_entries db) + core_flow (hashed_core d) + ledger_total (map hashed_core ds)"
    using I(4) U(5) by simp
qed

section \<open>Confirm\<close>

definition plan_ok :: "string \<Rightarrow> confirm_plan \<Rightarrow> bool" where
  "plan_ok pid pl \<longleftrightarrow> ec_pid (cp_intent pl) = pid \<and> ec_kind (cp_intent pl) = ''fiat_transfer_out''
     \<and> ec_status (cp_intent pl) = ''created'' \<and> ec_amountIdr (cp_intent pl) = cp_gross pl
     \<and> 0 \<le> cp_gross pl \<and> 0 \<le> cp_net pl \<and> 0 \<le> cp_fee pl \<and> 0 \<le> cp_tax pl \<and> 0 \<le> cp_appFee pl
     \<and> cp_gross pl = cp_net pl + cp_fee pl + cp_tax pl + cp_appFee pl
     \<and> (0 < cp_appFee pl \<longrightarrow> nullish (cp_appOwnerPid pl) [] \<noteq> [])"

text \<open>The plan of a confirm is the quote of the inquiry, read back exactly.\<close>

lemma confirm_begin_plan:
  assumes inv: "ledger_inv env seen" and pl: "confirm_begin env pid i auth seen = Inr (Plan pl)"
  shows "plan_ok pid pl \<and> cp_intent pl \<in> set (db_entries seen) \<and> lr_id (cp_intent pl) = i"
proof -
  obtain r where r: "find_row seen i pid = Some r" "ec_status r = ''created''" "cp_intent pl = r"
    using pl by (auto simp: confirm_begin_def Let_def split: sum.splits option.splits if_splits)
  from r(1) have mem: "r \<in> set (db_entries seen)" "lr_id r = i" "ec_pid r = pid" by (auto dest: find_row_SomeD)
  with inv r(2) have ok: "leg_ok r" "intent_ok r" by (auto simp: ledger_inv_def list_all_iff row_ok_def)
  then obtain fee tax net where q: "quotedBigint (json_get (lr_counterparty r) ''feeQuote'') = Some fee"
      "quotedBigint (json_get (lr_counterparty r) ''taxQuote'') = Some tax"
      "quotedBigint (json_get (lr_counterparty r) ''netQuote'') = Some net"
      "ec_amountIdr r = net + fee + tax + nullish (quotedBigint (json_get (lr_counterparty r) ''appFeeQuote'')) 0"
    by (auto simp: intent_ok_def)
  have "cp_gross pl = ec_amountIdr r" "cp_fee pl = fee" "cp_tax pl = tax" "cp_net pl = net"
    "cp_appFee pl = nullish (quotedBigint (json_get (lr_counterparty r) ''appFeeQuote'')) 0"
    "cp_appOwnerPid pl = json_string (json_get (lr_counterparty r) ''appOwnerPid'')"
    using pl r(1,2) q by (auto simp: confirm_begin_def Let_def split: sum.splits if_splits)
  with q ok r mem show ?thesis
    by (auto simp: plan_ok_def intent_ok_def leg_ok_def quoted_default_nonneg dest: quotedBigint_nonneg)
qed

lemma acct_posted: "ec_status c = ''posted'' \<Longrightarrow> acct x c = (if ec_pid c = x then row_delta c else 0)"
  by (auto simp: acct_def)

lemmas posting_simps = acct_posted row_delta_def core_flow_def leg_ok_def

lemma confirm_legs_totals:
  assumes "plan_ok pid pl"
  shows "\<forall>e \<in> set (confirm_legs env pid pl). leg_ok (hashed_core e)"
    "posted_balance x (map hashed_core (confirm_legs env pid pl)) =
       (if x = cp_beneficiaryPid pl then cp_net pl else 0) + (if x = nullish (cp_appOwnerPid pl) [] \<and> 0 < cp_appFee pl then cp_appFee pl else 0)"
    "ledger_total (map hashed_core (confirm_legs env pid pl)) = cp_gross pl"
  using assms by (auto simp: confirm_legs_def Let_def plan_ok_def posting_simps)

lemma sender_op_core:
  "hashed_core (co_data (sender_op pid pl)) =
     \<lparr>ec_entryGroup = ec_entryGroup (cp_intent pl), ec_kind = ''fiat_transfer_out'', ec_pid = pid,
      ec_counterpartyPid = Some (cp_beneficiaryPid pl), ec_amountIdr = cp_gross pl, ec_direction = ''out'',
      ec_idempotencyKey = ec_idempotencyKey (cp_intent pl), ec_parentRef = Some (ec_entryGroup (cp_intent pl)),
      ec_status = ''posted'', ec_feePolicyVersion = Some (cp_version pl)\<rparr>"
  by (simp add: sender_op_def hashed_core_def)

lemma confirm_txn_inv:
  assumes inv: "ledger_inv env db" and env: "env_ok env" and pl: "plan_ok pid pl"
    and old: "cp_intent pl \<in> set (db_entries seen)" "evolves seen db"
    and run: "confirm_txn env now pid pl db = Inr db'"
  shows "ledger_inv env db'" "evolves db db'"
    "posted_balance x (db_entries db') = posted_balance x (db_entries db) - (if x = pid then cp_gross pl else 0)
       + (if x = cp_beneficiaryPid pl then cp_net pl else 0)
       + (if x = nullish (cp_appOwnerPid pl) [] \<and> 0 < cp_appFee pl then cp_appFee pl else 0)"
    "ledger_total (db_entries db') = ledger_total (db_entries db)"
proof -
  obtain r db1 where r: "r \<in> set (db_entries db)" "lr_id r = lr_id (cp_intent pl)" "ec_pid r = pid" "ec_status r = ''created''"
    and guard: "cp_gross pl \<le> posted_balance pid (db_entries db)"
    and app: "appendChained env now (sender_op pid pl # map insert_op (confirm_legs env pid pl)) db = Inr db1"
    and same: "same_ledger db1 db'"
    using run by (auto simp: confirm_txn_def postedBalanceTx_eq split: option.splits if_splits dest!: find_row_SomeD enqueue_same)
  obtain r' where "r' \<in> set (db_entries db)" "same_intent (cp_intent pl) r'" using old by (auto simp: evolves_def)
  moreover from this have "r' = r" using rows_ok_id [of env db r' r] inv r by (auto simp: ledger_inv_def same_intent_def)
  ultimately have si: "same_intent (cp_intent pl) r" by simp
  let ?d = "co_data (sender_op pid pl)"
  have d: "posts_intent ?d r" using si pl r by (auto simp: posts_intent_def sender_op_def same_intent_def plan_ok_def)
  have dl: "leg_ok (hashed_core ?d)" using pl by (simp add: sender_op_core leg_ok_def plan_ok_def)
  have da: "acct y (hashed_core ?d) = (if y = pid then - cp_gross pl else 0)" "core_flow (hashed_core ?d) = - cp_gross pl" for y
    by (auto simp: sender_op_core posting_simps)
  have bal: "0 \<le> posted_balance y (db_entries db) + acct y (hashed_core ?d)" for y
    using inv guard by (auto simp: ledger_inv_def da)
  have ins: "0 \<le> posted_balance y (map hashed_core (confirm_legs env pid pl))" for y
    using pl by (simp add: confirm_legs_totals(2) [OF pl]) (simp add: plan_ok_def)
  have app': "appendChained env now (\<lparr>co_id = Some (lr_id r), co_data = ?d\<rparr> # map insert_op (confirm_legs env pid pl)) db = Inr db1"
    using app by (simp add: sender_op_def r)
  note P = post_intent [OF inv env r(1,4) d dl confirm_legs_totals(1) [OF pl] bal ins app']
  show "ledger_inv env db'" using P(1) by (simp add: ledger_inv_same [OF same])
  show "evolves db db'" using P(2) by (simp add: evolves_same [OF same])
  have e: "db_entries db' = db_entries db1" using same by (simp add: same_ledger_def)
  show "posted_balance x (db_entries db') = posted_balance x (db_entries db) - (if x = pid then cp_gross pl else 0)
       + (if x = cp_beneficiaryPid pl then cp_net pl else 0)
       + (if x = nullish (cp_appOwnerPid pl) [] \<and> 0 < cp_appFee pl then cp_appFee pl else 0)"
    using P(3) [of x] by (simp add: e da confirm_legs_totals(2) [OF pl])
  show "ledger_total (db_entries db') = ledger_total (db_entries db)"
    using P(4) by (simp add: e da confirm_legs_totals(3) [OF pl])
qed

lemma transferConfirm_inv:
  assumes inv: "ledger_inv env db" "ledger_inv env seen" "evolves seen db" and env: "env_ok env"
    and run: "transferConfirm env now pid i auth seen db = (r, db')"
  shows "ledger_inv env db' \<and> evolves db db' \<and> ledger_total (db_entries db') = ledger_total (db_entries db)"
proof (cases "db' = db")
  case False
  obtain pl db1 where b: "confirm_begin env pid i auth seen = Inr (Plan pl)" and t: "confirm_txn env now pid pl db = Inr db1"
    and same: "same_ledger db1 db'"
    using run False by (auto simp: transferConfirm_def Let_def split: sum.splits confirm_read.splits)
  note T = confirm_txn_inv [OF inv(1) env _ _ inv(3) t]
  have e: "db_entries db' = db_entries db1" using same by (simp add: same_ledger_def)
  show ?thesis
    using T(1,2,4) confirm_begin_plan [OF inv(2) b] ledger_inv_same [OF same] evolves_same [OF same] by (simp add: e)
qed (use inv in simp)

section \<open>Adjustment and issue\<close>

lemma adjust_txn_inv:
  assumes inv: "ledger_inv env db" and env: "env_ok env" and a: "0 \<le> amount" "fromPid \<noteq> toPid"
    and run: "adjust_txn env now fromPid amount (adjust_legs grp fromPid toPid amount reason rid) db = Inr db'"
  shows "ledger_inv env db'" "evolves db db'"
    "posted_balance x (db_entries db') = posted_balance x (db_entries db) - (if x = fromPid then amount else 0) + (if x = toPid then amount else 0)"
    "ledger_total (db_entries db') = ledger_total (db_entries db)"
proof -
  let ?ds = "adjust_legs grp fromPid toPid amount reason rid"
  have guard: "amount \<le> posted_balance fromPid (db_entries db)"
    and app: "appendChained env now (map insert_op ?ds) db = Inr db'"
    using run by (auto simp: adjust_txn_def postedBalanceTx_eq split: if_splits)
  have tot: "posted_balance y (map hashed_core ?ds) = (if y = toPid then amount else 0) - (if y = fromPid then amount else 0)"
    "ledger_total (map hashed_core ?ds) = 0" for y
    by (auto simp: adjust_legs_def Let_def posting_simps)
  have legs: "\<forall>e \<in> set ?ds. leg_ok (hashed_core e)" using a by (auto simp: adjust_legs_def Let_def leg_ok_def)
  have bal: "0 \<le> posted_balance y (db_entries db) + posted_balance y (map hashed_core ?ds)" for y
    using inv guard a by (auto simp: tot ledger_inv_def)
  note P = post_inserts [OF inv env app legs bal]
  show "ledger_inv env db'" "evolves db db'" by (rule P(1), rule P(2))
  show "posted_balance x (db_entries db') = posted_balance x (db_entries db) - (if x = fromPid then amount else 0) + (if x = toPid then amount else 0)"
    using P(3) [of x] by (simp add: tot)
  show "ledger_total (db_entries db') = ledger_total (db_entries db)" using P(4) by (simp add: tot)
qed

lemma adminAdjust_inv:
  assumes inv: "ledger_inv env db" and env: "env_ok env" and run: "adminAdjust env now nonce adm input seen db = (r, db')"
  shows "ledger_inv env db' \<and> evolves db db' \<and> ledger_total (db_entries db') = ledger_total (db_entries db)"
proof (cases "db' = db")
  case False
  obtain f t a g rs rid db1 where "0 < a" "f \<noteq> t" and x: "adjust_txn env now f a (adjust_legs g f t a rs rid) db = Inr db1"
    and same: "same_ledger db1 db'"
    using run False by (auto simp: adminAdjust_def Let_def split: sum.splits if_splits dest!: parseAmount_pos)
  with adjust_txn_inv [OF inv env _ _ x] have "ledger_inv env db1" "evolves db db1" "ledger_total (db_entries db1) = ledger_total (db_entries db)"
    by auto
  moreover have "db_entries db' = db_entries db1" using same by (simp add: same_ledger_def)
  ultimately show ?thesis using ledger_inv_same [OF same] evolves_same [OF same] by simp
qed (use inv in simp)

lemma issue_legs_ok:
  assumes "0 \<le> net" "0 \<le> tax" "0 \<le> appFee"
  shows "\<forall>e \<in> set (issue_legs env row src key net fee tax appFee owner v). leg_ok (hashed_core e)"
    "0 \<le> posted_balance x (map hashed_core (issue_legs env row src key net fee tax appFee owner v))"
  using assms by (auto simp: issue_legs_def Let_def posting_simps)

lemma read_quote_nonneg: "0 \<le> iq_tax (read_quote row)" "0 \<le> iq_appFee (read_quote row)" "0 \<le> iq_minimum (read_quote row)"
  by (simp_all add: read_quote_def Let_def quoted_default_nonneg)
    (cases "quotedBigint (json_get (pt_counterparty row) ''minimumIdr'')"; auto simp: MIN_CHECKOUT_NET_IDR_def dest: quotedBigint_nonneg)

lemma issue_txn_inv:
  assumes inv: "ledger_inv env db" and env: "env_ok env" and run: "issue_txn env now row src n (read_quote row) db = Inr db'" and n: "0 \<le> n"
  shows "ledger_inv env db' \<and> evolves db db'"
proof -
  let ?q = "read_quote row"
  let ?ds = "issue_legs env row src (''IC-'' @ pt_providerRef row) n (iq_fee ?q) (iq_tax ?q) (iq_appFee ?q) (iq_appOwnerPid ?q) (iq_version ?q)"
  obtain db1 where a: "appendChained env now (map insert_op ?ds) db = Inr db1" and same: "same_ledger db1 db'"
    using run by (auto simp: issue_txn_def Let_def dest: deposit_event_same)
  have "0 \<le> posted_balance x (db_entries db) + posted_balance x (map hashed_core ?ds)" for x
    using inv issue_legs_ok(2) [OF n read_quote_nonneg(1,2)] by (simp add: ledger_inv_def)
  then have "ledger_inv env db1 \<and> evolves db db1"
    using post_inserts(1,2) [OF inv env a] issue_legs_ok(1) [OF n read_quote_nonneg(1,2)] by blast
  then show ?thesis using ledger_inv_same [OF same] evolves_same [OF same] by simp
qed

lemma issue_cases:
  assumes "issueForDepositInner env now chk i src seen db = (r, db')"
  shows "same_ledger db db' \<or> (\<exists>row n db1. 0 \<le> n \<and> issue_txn env now row src n (read_quote row) db = Inr db1 \<and> same_ledger db1 db')"
proof (cases "same_ledger db db'")
  case False
  then obtain row n where c: "issue_commit env now row src n (read_quote row) db = (r, db')" and n: "iq_minimum (read_quote row) \<le> n"
    using assms by (auto simp: issueForDepositInner_def Let_def same_ledger_def not_less split: option.splits if_splits)
  from c False obtain db1 where "issue_txn env now row src n (read_quote row) db = Inr db1" "same_ledger db1 db'"
    by (auto simp: issue_commit_def split: sum.splits)
  moreover have "0 \<le> n" using n read_quote_nonneg(3) order_trans by blast
  ultimately show ?thesis by blast
qed simp

lemma issue_inv:
  assumes inv: "ledger_inv env db" and env: "env_ok env" and run: "issueForDeposit env now chk i src seen db = db'"
  shows "ledger_inv env db' \<and> evolves db db'"
proof -
  obtain r where "issueForDepositInner env now chk i src seen db = (r, db')"
    using run by (cases "issueForDepositInner env now chk i src seen db") (simp add: issueForDeposit_def)
  from issue_cases [OF this] show ?thesis
  proof (elim disjE exE conjE)
    assume same: "same_ledger db db'"
    then show ?thesis using inv ledger_inv_same [OF same] evolves_same [OF same] by simp
  next
    fix row n db1
    assume "0 \<le> n" and t: "issue_txn env now row src n (read_quote row) db = Inr db1" and same: "same_ledger db1 db'"
    then have "ledger_inv env db1 \<and> evolves db db1" using issue_txn_inv [OF inv env t] by simp
    then show ?thesis using ledger_inv_same [OF same] evolves_same [OF same] by simp
  qed
qed

end
