(* ===== verification/Fiat_Payments.thy ===== *)
theory Fiat_Payments
  imports Fiat_Safety
begin

text \<open>
  Money in: the deposit quote and Checkout deposit of \<^verbatim>\<open>fiat-subaccount.service.ts\<close>
  (\<^verbatim>\<open>normalizePaymentMethod\<close>, \<^verbatim>\<open>quoteDeposit\<close>, \<^verbatim>\<open>createCheckoutDeposit\<close>) and the direct app payments of
  \<^verbatim>\<open>fiat-payments.service.ts\<close> (create, sync, reconcile, notify, cancel, refund). The DOKU client is a
  parameter: what it answers to an order-status or a create-payment call.
\<close>

section \<open>Deposit quote\<close>

definition MAX_CHECKOUT_GROSS :: int where "MAX_CHECKOUT_GROSS = 999999999999"

definition MAX_PAYMENT_IDR :: int where "MAX_PAYMENT_IDR = 10000000"

definition parseGross :: "string \<Rightarrow> int result" where
  "parseGross raw =
     (case parseIdrStrict (RStr raw) ''amount'' of
        Inl _ \<Rightarrow> Inl (BadRequest ''Amount must be whole IDR (positive integer)'')
      | Inr gross \<Rightarrow> if gross \<le> 0 then Inl (BadRequest ''Amount must be positive'') else Inr gross)"

definition normalizePaymentMethod :: "string option \<Rightarrow> (string \<times> string list) option result" where
  "normalizePaymentMethod raw =
     (let key = to_upper (trim (nullish raw []))
      in if key = [] then Inr None
         else if isPaymentMethodCategory key then Inr (Some (key, codesForCategory key))
         else if paymentMethod key \<noteq> None then Inr (Some (key, [key]))
         else Inl (BadRequest ''Unknown payment method''))"

record deposit_quote =
  dq_amountIdr :: int
  dq_peridotFeeIdr :: int
  dq_peridotTaxIdr :: int
  dq_appFeeIdr :: int
  dq_verified :: bool
  dq_paymentMethod :: "string option"
  dq_gatewayFeeEnabled :: bool
  dq_gatewayFeeIdr :: int
  dq_gatewayTaxIdr :: int
  dq_transferFeeIdr :: int
  dq_totalIdr :: int
  dq_feePolicyVersion :: int
  dq_paymentMethods :: "(method_option \<times> string) list"

text \<open>\<^verbatim>\<open>BigInt(s)\<close> of a string of digits (the quotes and the validated request fields).\<close>

definition bigint_of :: "string \<Rightarrow> int" where
  "bigint_of s = int (nat_of_digits s)"

type_synonym live_fee = "string \<Rightarrow> int \<Rightarrow> int option option"

definition quoteDeposit ::
  "live_fee \<Rightarrow> payment_fee_state \<Rightarrow> int \<Rightarrow> fiat_db \<Rightarrow> string \<Rightarrow> string option \<Rightarrow> string option \<Rightarrow> deposit_quote result" where
  "quoteDeposit live pf now db netAmountIdr appClientId methodKey =
     bind_result (parseGross netAmountIdr) (\<lambda>net.
     if net < MIN_CHECKOUT_NET_IDR then Inl (BadRequest ''MIN_AMOUNT_BELOW_FLOOR'')
     else
       let q = quoteFees now db appClientId ''topup'' net;
           base = net + fb_globalFee q + fb_peridotTaxIdr q + fb_appFee q;
           methods = map (\<lambda>m. (m, show_int (base + bigint_of (mo_gatewayFeeIdr m) + bigint_of (mo_gatewayTaxIdr m)))) (methodsFor live pf net)
       in bind_result (normalizePaymentMethod methodKey) (\<lambda>meth.
          if (case meth of None \<Rightarrow> False | Some (key, _) \<Rightarrow> \<not> list_ex (\<lambda>(m, _). mo_key m = key) methods)
          then Inl (BadRequest ''Payment method unavailable'')
          else
            let chosen = (case meth of None \<Rightarrow> None | Some (key, _) \<Rightarrow> map_option fst (find (\<lambda>(m, _). mo_key m = key) methods));
                gatewayFee = nullish (map_option (bigint_of \<circ> mo_gatewayFeeIdr) chosen) 0;
                gatewayTax = nullish (map_option (bigint_of \<circ> mo_gatewayTaxIdr) chosen) 0;
                total = base + gatewayFee + gatewayTax
            in if total > MAX_CHECKOUT_GROSS then Inl (BadRequest ''Amount exceeds Checkout 12-digit limit'')
               else Inr \<lparr>dq_amountIdr = net, dq_peridotFeeIdr = fb_globalFee q, dq_peridotTaxIdr = fb_peridotTaxIdr q,
                 dq_appFeeIdr = fb_appFee q, dq_verified = fb_isVerified q, dq_paymentMethod = map_option mo_key chosen,
                 dq_gatewayFeeEnabled = nullish (map_option mo_enabled chosen) False, dq_gatewayFeeIdr = gatewayFee,
                 dq_gatewayTaxIdr = gatewayTax,
                 dq_transferFeeIdr = fb_globalFee q + fb_peridotTaxIdr q + gatewayFee + gatewayTax,
                 dq_totalIdr = total, dq_feePolicyVersion = fb_policyVersion q, dq_paymentMethods = methods\<rparr>))"

section \<open>Checkout deposit\<close>

definition deposit_json :: "fee_breakdown \<Rightarrow> int \<Rightarrow> (string \<times> string list) option \<Rightarrow> fee_quote \<Rightarrow> (string \<times> json) list" where
  "deposit_json q net selection gateway =
     [(''channel'', JStr ''checkout''), (''minimumIdr'', JStr (show_int MIN_CHECKOUT_NET_IDR)),
      (''feeQuote'', JStr (show_int (fb_globalFee q))), (''taxQuote'', JStr (show_int (fb_peridotTaxIdr q))),
      (''netQuote'', JStr (show_int net)), (''feePolicyVersion'', JNum (fb_policyVersion q))]
     @ (if nullish (fb_appId q) [] \<noteq> [] \<and> nullish (fb_appOwnerPid q) [] \<noteq> []
        then [(''appId'', JStr (nullish (fb_appId q) [])), (''appOwnerPid'', JStr (nullish (fb_appOwnerPid q) [])),
              (''appFeeQuote'', JStr (show_int (fb_appFee q)))] else [])
     @ (case selection of None \<Rightarrow> []
        | Some (key, _) \<Rightarrow> [(''paymentMethod'', JStr key), (''gatewayFeeEnabled'', JBool (fq_enabled gateway)),
            (''gatewayFeeQuote'', JStr (show_int (fq_feeIdr gateway))), (''gatewayTaxQuote'', JStr (show_int (fq_taxIdr gateway))),
            (''gatewayRateKey'', JStr (fq_rateKey gateway)), (''gatewayFeeSource'', JStr (fq_source gateway))])"

text \<open>The deposit row; \<open>rowId\<close> is its generated id, \<open>providerRef\<close> its generated invoice number.\<close>

definition deposit_row :: "string \<Rightarrow> string \<Rightarrow> string \<Rightarrow> fee_breakdown \<Rightarrow> int \<Rightarrow> (string \<times> string list) option \<Rightarrow> fee_quote \<Rightarrow> provider_tx" where
  "deposit_row rowId providerRef pid q net selection gateway =
     \<lparr>pt_id = rowId, pt_pid = pid, pt_kind = ''deposit'', pt_providerRef = providerRef, pt_providerStatus = ''created'',
      pt_providerPaymentStatus = None,
      pt_amountIdr = net + fb_globalFee q + fb_peridotTaxIdr q + fb_appFee q + fq_feeIdr gateway + fq_taxIdr gateway,
      pt_feeIdr = Some (fb_globalFee q), pt_netIdr = Some net, pt_feePolicyVersion = Some (fb_policyVersion q),
      pt_counterparty = Some (JObj (deposit_json q net selection gateway)), pt_ledgerStatus = Some ''pending''\<rparr>"

definition markTx :: "string \<Rightarrow> string \<Rightarrow> fiat_db \<Rightarrow> fiat_db" where
  "markTx i status db = db\<lparr>db_deposits := map (\<lambda>d. if pt_id d = i then d\<lparr>pt_providerStatus := status\<rparr> else d) (db_deposits db)\<rparr>"

text \<open>\<open>api\<close> is the create-payment call with its retries: the payment URL, or the error it ends with.\<close>

definition createCheckoutDeposit ::
  "live_fee \<Rightarrow> payment_fee_state \<Rightarrow> (string \<Rightarrow> int \<Rightarrow> http_error + string) \<Rightarrow> int \<Rightarrow> string \<Rightarrow> string \<Rightarrow> string \<Rightarrow> string
   \<Rightarrow> string option \<Rightarrow> string option \<Rightarrow> fiat_db \<Rightarrow> (provider_tx \<times> string) result \<times> fiat_db" where
  "createCheckoutDeposit live pf api now rowId providerRef pid netAmountIdr appClientId methodKey db =
     (case parseGross netAmountIdr of Inl e \<Rightarrow> (Inl e, db) | Inr net \<Rightarrow>
      if net < MIN_CHECKOUT_NET_IDR then (Inl (BadRequest ''MIN_AMOUNT_BELOW_FLOOR''), db)
      else let q = quoteFees now db appClientId ''topup'' net
        in case normalizePaymentMethod methodKey of Inl e \<Rightarrow> (Inl e, db) | Inr selection \<Rightarrow>
          let gateway = (case selection of
                 Some (key, _) \<Rightarrow> gatewayFee live pf key net
               | None \<Rightarrow> \<lparr>fq_feeIdr = 0, fq_taxIdr = 0, fq_enabled = False, fq_source = ''config'', fq_rateKey = ''none''\<rparr>);
              row = deposit_row rowId providerRef pid q net selection gateway
          in if selection \<noteq> None \<and> \<not> fq_enabled gateway then (Inl (BadRequest ''Payment method unavailable''), db)
             else if pt_amountIdr row > MAX_CHECKOUT_GROSS then (Inl (BadRequest ''Amount exceeds Checkout 12-digit limit''), db)
             else if list_ex (\<lambda>d. pt_providerRef d = providerRef) (db_deposits db) then (Inl UniqueViolation, db)
             else let db1 = db\<lparr>db_deposits := db_deposits db @ [row]\<rparr>
               in case api providerRef (pt_amountIdr row) of
                    Inl e \<Rightarrow> (Inl e, markTx rowId ''failed'' db1)
                  | Inr url \<Rightarrow> (Inr (row, url), log_audit pid ''fiat.subaccount.checkout'' [(''providerRef'', JStr providerRef)] (markTx rowId ''created'' db1)))"

section \<open>App payments\<close>

record auth_user =
  us_pid :: string
  us_app :: "string option"
  us_scope :: "string option"

definition machine :: "auth_user \<Rightarrow> bool" where
  "machine user \<longleftrightarrow> nullish (us_app user) [] \<noteq> []"

definition pay_usable :: "fiat_env \<Rightarrow> fiat_db \<Rightarrow> unit result" where
  "pay_usable env db = guard_result (ledgerEnabled env \<and> \<not> ledgerFrozen env db) (ServiceUnavailable ''Fiat ledger unavailable'')"

definition pay_app :: "fiat_db \<Rightarrow> auth_user \<Rightarrow> string option \<Rightarrow> pid_app result" where
  "pay_app db user clientId =
     (if machine user \<and> us_scope user \<noteq> Some ''fiat:payment'' \<and> us_scope user \<noteq> Some ''read''
      then Inl (Forbidden ''Machine token requires fiat:payment scope'')
      else if machine user \<and> nullish clientId [] \<noteq> [] \<and> clientId \<noteq> us_app user then Inl (Forbidden ''App context mismatch'')
      else let i = nullish (or_else (us_app user) clientId) []
        in if i = [] then Inl (BadRequest ''clientId is required for session payments'')
           else case find (\<lambda>a. pa_clientId a = i) (db_apps db) of
               None \<Rightarrow> Inl (Forbidden ''App unavailable'')
             | Some a \<Rightarrow> if \<not> pa_isActive a \<or> (machine user \<and> pa_ownerPid a \<noteq> us_pid user)
                 then Inl (Forbidden ''App unavailable'') else Inr a)"

definition pay_quote ::
  "live_fee \<Rightarrow> payment_fee_state \<Rightarrow> int \<Rightarrow> fiat_db \<Rightarrow> auth_user \<Rightarrow> string \<Rightarrow> string option \<Rightarrow> string option \<Rightarrow> (deposit_quote \<times> int) result" where
  "pay_quote live pf now db user amountIdr clientId methodKey =
     (if bigint_of amountIdr > MAX_PAYMENT_IDR then Inl (BadRequest ''PAYMENT_ABOVE_CEILING'')
      else bind_result (pay_app db user clientId) (\<lambda>a.
           bind_result (quoteDeposit live pf now db amountIdr (Some (pa_clientId a)) methodKey) (\<lambda>q.
           Inr (q, dq_totalIdr q - dq_amountIdr q))))"

record payment_view =
  pv_id :: string
  pv_status :: string
  pv_paymentUrl :: "string option"
  pv_grossIdr :: string
  pv_feeIdr :: string
  pv_totalIdr :: string
  pv_refundedIdr :: string

definition pay_view :: "int \<Rightarrow> fiat_payment \<Rightarrow> payment_view" where
  "pay_view now p =
     \<lparr>pv_id = fp_id p, pv_status = fp_status p,
      pv_paymentUrl = (if (fp_status p = ''created'' \<or> fp_status p = ''pending'') \<and> fp_expiresAt p > now then fp_paymentUrl p else None),
      pv_grossIdr = show_int (fp_amountIdr p), pv_feeIdr = show_int (fp_feeIdr p), pv_totalIdr = show_int (fp_totalIdr p),
      pv_refundedIdr = show_int (fp_refundedIdr p)\<rparr>"

definition find_payment :: "fiat_db \<Rightarrow> string \<Rightarrow> fiat_payment option" where
  "find_payment db i = find (\<lambda>p. fp_id p = i) (db_payments db)"

definition owned :: "fiat_db \<Rightarrow> auth_user \<Rightarrow> string \<Rightarrow> fiat_payment result" where
  "owned db user i =
     (case find_payment db i of
        None \<Rightarrow> Inl (NotFound ''Payment not found'')
      | Some p \<Rightarrow>
          if (if machine user then Some (fp_appClientId p) \<noteq> us_app user else fp_payerPid p \<noteq> Some (us_pid user))
          then Inl (NotFound ''Payment not found'')
          else if machine user then bind_result (pay_app db user None) (\<lambda>_. Inr p)
          else Inr p)"

record create_input =
  ci_amountIdr :: string
  ci_clientId :: "string option"
  ci_paymentMethod :: "string option"
  ci_externalId :: string
  ci_beneficiaryPid :: "string option"
  ci_payerPid :: "string option"
  ci_metadataBytes :: nat

definition quote_fields :: "deposit_quote \<Rightarrow> (string \<times> string) list" where
  "quote_fields q =
     [(''amountIdr'', show_int (dq_amountIdr q)), (''peridotFeeIdr'', show_int (dq_peridotFeeIdr q)),
      (''peridotTaxIdr'', show_int (dq_peridotTaxIdr q)), (''appFeeIdr'', show_int (dq_appFeeIdr q)),
      (''gatewayFeeIdr'', show_int (dq_gatewayFeeIdr q)), (''gatewayTaxIdr'', show_int (dq_gatewayTaxIdr q)),
      (''totalIdr'', show_int (dq_totalIdr q))]"

text \<open>\<^verbatim>\<open>updateMany where { id, status in from }\<close>: the rows and the count.\<close>

definition claim_payment :: "(fiat_payment \<Rightarrow> bool) \<Rightarrow> (fiat_payment \<Rightarrow> fiat_payment) \<Rightarrow> string \<Rightarrow> fiat_db \<Rightarrow> nat \<times> fiat_db" where
  "claim_payment ok f i db =
     (length (filter (\<lambda>p. fp_id p = i \<and> ok p) (db_payments db)),
      db\<lparr>db_payments := map (\<lambda>p. if fp_id p = i \<and> ok p then f p else p) (db_payments db)\<rparr>)"

text \<open>The row is inserted (unique on id, provider reference and app plus external id), then DOKU is called
  once: \<open>api\<close> answers the payment URL and expiry, or fails (\<open>None\<close>).\<close>

definition insert_payment :: "fiat_payment \<Rightarrow> fiat_db \<Rightarrow> fiat_db result" where
  "insert_payment p db =
     (if list_ex (\<lambda>x. fp_id x = fp_id p \<or> fp_providerRef x = fp_providerRef p
           \<or> (fp_appClientId x = fp_appClientId p \<and> fp_externalId x = fp_externalId p)) (db_payments db)
      then Inl UniqueViolation else Inr (db\<lparr>db_payments := db_payments db @ [p]\<rparr>))"

definition pay_insert ::
  "(string \<Rightarrow> int \<Rightarrow> (string \<times> int option) option) \<Rightarrow> int \<Rightarrow> fiat_payment \<Rightarrow> fiat_db \<Rightarrow> payment_view result \<times> fiat_db" where
  "pay_insert api now p db =
     (case insert_payment p db of
        Inl e \<Rightarrow> (Inl e, db)
      | Inr db1 \<Rightarrow>
          let db2 = (case api (fp_providerRef p) (fp_totalIdr p) of
                None \<Rightarrow> db1
              | Some (url, expiry) \<Rightarrow> snd (claim_payment (\<lambda>x. fp_status x = ''created'')
                  (\<lambda>x. x\<lparr>fp_status := ''pending'', fp_paymentUrl := Some url, fp_expiresAt := nullish expiry (fp_expiresAt p)\<rparr>) (fp_id p) db1))
          in (case find_payment db2 (fp_id p) of
                None \<Rightarrow> Inl (NotFound ''No FiatPayment found'')
              | Some x \<Rightarrow> Inr (pay_view now x), db2))"

definition pay_attempt ::
  "fiat_env \<Rightarrow> live_fee \<Rightarrow> payment_fee_state \<Rightarrow> (string \<Rightarrow> int \<Rightarrow> (string \<times> int option) option) \<Rightarrow> int \<Rightarrow> string \<Rightarrow> string
   \<Rightarrow> auth_user \<Rightarrow> create_input \<Rightarrow> fiat_db \<Rightarrow> fiat_db \<Rightarrow> payment_view result \<times> fiat_db" where
  "pay_attempt env live pf api now payId providerRef user input seen db =
     (case pay_usable env seen of Inl e \<Rightarrow> (Inl e, db) | Inr _ \<Rightarrow>
      case pay_app seen user (ci_clientId input) of Inl e \<Rightarrow> (Inl e, db) | Inr app \<Rightarrow>
      if us_scope user = Some ''read'' then (Inl (Forbidden ''Read-only token''), db)
      else if nullish (ci_paymentMethod input) [] = [] then (Inl (BadRequest ''paymentMethod is required''), db)
      else
        let payerPid = (if machine user then ci_payerPid input else Some (us_pid user));
            beneficiaryPid = nullish (ci_beneficiaryPid input) (pa_ownerPid app)
        in if \<not> machine user \<and> nullish (ci_payerPid input) [] \<noteq> [] \<and> ci_payerPid input \<noteq> Some (us_pid user)
           then (Inl (Forbidden ''Payer mismatch''), db)
           else case find (\<lambda>p. fp_appClientId p = pa_clientId app \<and> fp_externalId p = ci_externalId input) (db_payments seen) of
             Some prior \<Rightarrow>
               if fp_payerPid prior \<noteq> payerPid \<or> fp_amountIdr prior \<noteq> bigint_of (ci_amountIdr input) \<or> fp_beneficiaryPid prior \<noteq> beneficiaryPid
               then (Inl (Conflict ''externalId already used with different payment details''), db)
               else (Inr (pay_view now prior), db)
           | None \<Rightarrow>
               if ci_metadataBytes input > 2048 then (Inl (BadRequest ''metadata exceeds 2KB''), db)
               else if \<not> list_all (\<lambda>p. List.member (db_identities seen) p)
                    (filter (\<lambda>p. p \<noteq> []) (beneficiaryPid # (case payerPid of None \<Rightarrow> [] | Some p \<Rightarrow> [p])))
               then (Inl (BadRequest ''Identity unavailable''), db)
               else case pay_quote live pf now seen user (ci_amountIdr input) (ci_clientId input) (ci_paymentMethod input) of
                 Inl e \<Rightarrow> (Inl e, db)
               | Inr (q, fee) \<Rightarrow>
                   let p = \<lparr>fp_id = payId, fp_appClientId = pa_clientId app, fp_payerPid = payerPid, fp_beneficiaryPid = beneficiaryPid,
                         fp_externalId = ci_externalId input, fp_amountIdr = bigint_of (ci_amountIdr input), fp_feeIdr = fee,
                         fp_totalIdr = dq_totalIdr q, fp_quote = quote_fields q, fp_providerRef = providerRef, fp_paymentUrl = None,
                         fp_status = ''created'', fp_expiresAt = now + 1800000, fp_paidAt = None, fp_createdAt = now, fp_refundedIdr = 0,
                         fp_nextCheckAt = now\<rparr>
                   in pay_insert api now p db)"

text \<open>A unique violation restarts the call on the current database, where the row of the concurrent
  creator is found.\<close>

definition createPayment ::
  "fiat_env \<Rightarrow> live_fee \<Rightarrow> payment_fee_state \<Rightarrow> (string \<Rightarrow> int \<Rightarrow> (string \<times> int option) option) \<Rightarrow> int \<Rightarrow> string \<Rightarrow> string
   \<Rightarrow> auth_user \<Rightarrow> create_input \<Rightarrow> fiat_db \<Rightarrow> fiat_db \<Rightarrow> payment_view result \<times> fiat_db" where
  "createPayment env live pf api now payId providerRef user input seen db =
     (case pay_attempt env live pf api now payId providerRef user input seen db of
        (Inl UniqueViolation, db') \<Rightarrow> pay_attempt env live pf api now payId providerRef user input db' db'
      | r \<Rightarrow> r)"

section \<open>Payment sync\<close>

definition payment_event :: "fiat_env \<Rightarrow> int \<Rightarrow> fiat_payment \<Rightarrow> string \<Rightarrow> fiat_db \<Rightarrow> fiat_db result" where
  "payment_event env now p ty db =
     (case find (\<lambda>a. pa_clientId a = fp_appClientId p) (db_apps db) of
        None \<Rightarrow> Inr db
      | Some a \<Rightarrow>
          if \<not> pa_isActive a \<or> nullish (pa_webhookUrl a) [] = [] then Inr db
          else create_event env now ty (fp_id p @ '':'' @ ty) (pa_ownerPid a) (nullish (pa_webhookUrl a) [])
            [(''eventId'', JStr (env_uuid env (length (db_events db)))), (''type'', JStr ty), (''occurredAt'', JStr (env_iso env now)),
             (''appClientId'', JStr (fp_appClientId p)), (''externalId'', JStr (fp_externalId p)), (''paymentId'', JStr (fp_id p)),
             (''amountIdr'', JStr (show_int (fp_amountIdr p))), (''feeIdr'', JStr (show_int (fp_feeIdr p))),
             (''payerPid'', json_opt_string (fp_payerPid p))] db)"

record order_state =
  os_paid :: bool
  os_paidAmount :: "int option"
  os_expired :: bool
  os_txStatus :: string

definition set_payment :: "string \<Rightarrow> (fiat_payment \<Rightarrow> fiat_payment) \<Rightarrow> fiat_db \<Rightarrow> fiat_db" where
  "set_payment i f db = db\<lparr>db_payments := map (\<lambda>p. if fp_id p = i then f p else p) (db_payments db)\<rparr>"

definition closed_status :: "string \<Rightarrow> bool" where
  "closed_status st \<longleftrightarrow> st = ''failed'' \<or> st = ''expired'' \<or> st = ''cancelled''"

definition quote_amount :: "fiat_payment \<Rightarrow> string \<Rightarrow> int" where
  "quote_amount p k = bigint_of (nullish (jsmap_get (fp_quote p) k) ''0'')"

definition payment_legs :: "fiat_payment \<Rightarrow> pid_app \<Rightarrow> entry_data list" where
  "payment_legs p app =
     (let mk = (\<lambda>kind amount pid dir key. \<lparr>ed_entryGroup = fp_id p, ed_kind = kind, ed_pid = pid, ed_counterpartyPid = fp_payerPid p,
            ed_amountIdr = amount, ed_direction = dir, ed_idempotencyKey = fp_id p @ '':'' @ key, ed_parentRef = Some (fp_id p),
            ed_feePolicyVersion = None, ed_counterparty = None, ed_source = Some ''payment''\<rparr>)
      in mk ''fiat_payment_in'' (fp_amountIdr p) (fp_beneficiaryPid p) ''in'' ''IN''
         # map (\<lambda>(kind, amount, pid, dir). mk kind amount pid dir kind)
             (filter (\<lambda>(_, amount, _). amount > 0)
               [(''fiat_fee'', quote_amount p ''peridotFeeIdr'', fp_beneficiaryPid p, ''out''),
                (''fiat_tax'', quote_amount p ''peridotTaxIdr'', fp_beneficiaryPid p, ''out''),
                (''fiat_app_fee'', quote_amount p ''appFeeIdr'', pa_ownerPid app, ''in'')]))"

definition sync_mismatch :: "fiat_env \<Rightarrow> int \<Rightarrow> fiat_payment \<Rightarrow> fiat_db \<Rightarrow> fiat_db result" where
  "sync_mismatch env now p db =
     (case find_payment db (fp_id p) of
        None \<Rightarrow> Inl (JsError ''P2025'')
      | Some current \<Rightarrow>
          if fp_status current = ''paid'' \<or> closed_status (fp_status current) then Inr db
          else payment_event env now current ''fiat.payment.failed'' (set_payment (fp_id p) (\<lambda>x. x\<lparr>fp_status := ''failed''\<rparr>) db))"

definition sync_status :: "int \<Rightarrow> order_state \<Rightarrow> fiat_payment \<Rightarrow> string option" where
  "sync_status now st p =
     (if os_paid st then Some ''paid'' else if os_expired st \<or> fp_expiresAt p \<le> now then Some ''expired''
      else if os_txStatus st = ''FAILED'' then Some ''failed'' else None)"

definition sync_txn :: "fiat_env \<Rightarrow> int \<Rightarrow> fiat_payment \<Rightarrow> string \<Rightarrow> fiat_db \<Rightarrow> fiat_db result" where
  "sync_txn env now p status db =
     (case find_payment db (fp_id p) of
        None \<Rightarrow> Inl (JsError ''P2025'')
      | Some current \<Rightarrow>
          if fp_status current = ''paid'' \<or> fp_status current = status \<or> (closed_status (fp_status current) \<and> status \<noteq> ''paid'')
          then Inr db
          else
            bind_result
              (if status = ''paid''
               then (case find (\<lambda>a. pa_clientId a = fp_appClientId p) (db_apps db) of
                       None \<Rightarrow> Inl (JsError ''P2025'')
                     | Some app \<Rightarrow> appendChained env now (map insert_op (payment_legs p app)) db)
               else Inr db)
              (\<lambda>db1. payment_event env now p (''fiat.payment.'' @ status)
                 (set_payment (fp_id p) (\<lambda>x. x\<lparr>fp_status := status, fp_paidAt := (if status = ''paid'' then Some now else fp_paidAt x)\<rparr>) db1)))"

text \<open>\<open>p\<close> is the row as read earlier, \<open>order\<close> the provider's answer (\<open>None\<close>: the call threw).\<close>

definition sync :: "fiat_env \<Rightarrow> int \<Rightarrow> order_state option \<Rightarrow> fiat_payment \<Rightarrow> fiat_db \<Rightarrow> unit result \<times> fiat_db" where
  "sync env now order p db =
     (if fp_status p = ''paid'' then (Inr (), db)
      else case order of
          None \<Rightarrow> (Inl (JsError ''checkOrderStatus''), db)
        | Some st \<Rightarrow>
            let commit = (\<lambda>r. case r of Inl e \<Rightarrow> (Inl e, db) | Inr db' \<Rightarrow> (Inr (), db'))
            in if os_paid st \<and> os_paidAmount st \<noteq> Some (fp_totalIdr p) then commit (sync_mismatch env now p db)
               else case sync_status now st p of
                   None \<Rightarrow> (Inr (), db)
                 | Some status \<Rightarrow>
                     (case pay_usable env db of Inl e \<Rightarrow> (Inl e, db) | Inr _ \<Rightarrow> commit (sync_txn env now p status db)))"

definition notify :: "fiat_env \<Rightarrow> int \<Rightarrow> (string \<Rightarrow> order_state option) \<Rightarrow> string option \<Rightarrow> fiat_db \<Rightarrow> unit result \<times> fiat_db" where
  "notify env now orders invoice db =
     (case invoice of None \<Rightarrow> (Inr (), db)
      | Some ref \<Rightarrow>
          (case find (\<lambda>p. fp_providerRef p = ref) (db_payments db) of
             None \<Rightarrow> (Inr (), db)
           | Some p \<Rightarrow> sync env now (orders (fp_providerRef p)) p db))"

definition cancelPayment ::
  "fiat_env \<Rightarrow> int \<Rightarrow> (string \<Rightarrow> order_state option) \<Rightarrow> auth_user \<Rightarrow> string \<Rightarrow> fiat_db \<Rightarrow> payment_view result \<times> fiat_db" where
  "cancelPayment env now orders user i db =
     (case owned db user i of Inl e \<Rightarrow> (Inl e, db) | Inr p \<Rightarrow>
      case sync env now (orders (fp_providerRef p)) p db of
        (Inl e, db1) \<Rightarrow> (Inl e, db1)
      | (Inr _, db1) \<Rightarrow>
          let (n, db2) = claim_payment (\<lambda>x. fp_status x = ''created'' \<or> fp_status x = ''pending'') (\<lambda>x. x\<lparr>fp_status := ''cancelled''\<rparr>) i db1
          in if n = 0 then (Inl (Conflict ''Payment cannot be cancelled''), db2)
             else (map_sum id (pay_view now) (owned db2 user i), db2))"

text \<open>One pass of the scheduler: the due rows are read once, each is claimed by its \<^verbatim>\<open>nextCheckAt\<close> and synced.\<close>

fun reconcile_rows :: "fiat_env \<Rightarrow> int \<Rightarrow> (string \<Rightarrow> order_state option) \<Rightarrow> fiat_payment list \<Rightarrow> fiat_db \<Rightarrow> fiat_db" where
  "reconcile_rows env now orders [] db = db"
| "reconcile_rows env now orders (p # ps) db =
     (let young = fp_createdAt p > now - 180000;
          (n, db1) = claim_payment (\<lambda>x. fp_nextCheckAt x = fp_nextCheckAt p)
            (\<lambda>x. x\<lparr>fp_nextCheckAt := now + (if young then 5000 else 30000)\<rparr>) (fp_id p) db
      in reconcile_rows env now orders ps
           (if n = 0 then db1 else snd (sync env now (orders (fp_providerRef p)) p db1)))"

definition reconcile_due :: "int \<Rightarrow> fiat_db \<Rightarrow> fiat_payment list" where
  "reconcile_due now db =
     take 100 (sort_key fp_nextCheckAt (filter (\<lambda>p. (fp_status p = ''created'' \<or> fp_status p = ''pending'' \<or> fp_status p = ''cancelled'')
        \<and> fp_nextCheckAt p \<le> now \<and> fp_createdAt p > now - 86400000) (db_payments db)))"

definition reconcile :: "fiat_env \<Rightarrow> int \<Rightarrow> (string \<Rightarrow> order_state option) \<Rightarrow> fiat_db \<Rightarrow> fiat_db" where
  "reconcile env now orders db = reconcile_rows env now orders (reconcile_due now db) db"

section \<open>Refund\<close>

definition refund_legs :: "string \<Rightarrow> string \<Rightarrow> string \<Rightarrow> string \<Rightarrow> int \<Rightarrow> entry_data list" where
  "refund_legs key payId beneficiaryPid payerPid amount =
     [\<lparr>ed_entryGroup = key, ed_kind = ''fiat_adjust'', ed_pid = beneficiaryPid, ed_counterpartyPid = Some payerPid, ed_amountIdr = amount,
       ed_direction = ''out'', ed_idempotencyKey = key @ '':OUT'', ed_parentRef = Some payId, ed_feePolicyVersion = None,
       ed_counterparty = None, ed_source = Some ''payment-refund''\<rparr>,
      \<lparr>ed_entryGroup = key, ed_kind = ''fiat_adjust'', ed_pid = payerPid, ed_counterpartyPid = Some beneficiaryPid, ed_amountIdr = amount,
       ed_direction = ''in'', ed_idempotencyKey = key @ '':IN'', ed_parentRef = Some payId, ed_feePolicyVersion = None,
       ed_counterparty = None, ed_source = Some ''payment-refund''\<rparr>]"

definition refund_amount :: "fiat_payment \<Rightarrow> string option \<Rightarrow> int" where
  "refund_amount current amountIdr =
     (if nullish amountIdr [] \<noteq> [] then bigint_of (nullish amountIdr []) else fp_amountIdr current - fp_refundedIdr current)"

definition refund_txn :: "fiat_env \<Rightarrow> int \<Rightarrow> fiat_payment \<Rightarrow> string \<Rightarrow> string \<Rightarrow> string option \<Rightarrow> fiat_db \<Rightarrow> ((string \<times> string) \<times> fiat_db) result" where
  "refund_txn env now p payer key amountIdr db =
     (case find_payment db (fp_id p) of
        None \<Rightarrow> Inl (JsError ''P2025'')
      | Some current \<Rightarrow>
          (case find_key db (key @ '':OUT'') of
             Some existing \<Rightarrow>
               if nullish amountIdr [] \<noteq> [] \<and> ec_amountIdr existing \<noteq> bigint_of (nullish amountIdr [])
               then Inl (Conflict ''Refund requestId conflict'')
               else Inr ((key, show_int (ec_amountIdr existing)), db)
           | None \<Rightarrow>
               let amount = refund_amount current amountIdr
               in if fp_status current \<noteq> ''paid'' \<or> amount \<le> 0 \<or> amount > fp_amountIdr current - fp_refundedIdr current
                  then Inl (Conflict ''Refund exceeds remaining paid amount'')
                  else if postedBalanceTx db (fp_beneficiaryPid p) < amount then Inl (BadRequest ''Insufficient beneficiary balance'')
                  else bind_result (appendChained env now (map insert_op (refund_legs key (fp_id p) (fp_beneficiaryPid p) payer amount)) db)
                    (\<lambda>db1. Inr ((key, show_int amount), set_payment (fp_id p) (\<lambda>x. x\<lparr>fp_refundedIdr := fp_refundedIdr x + amount\<rparr>) db1))))"

definition refund ::
  "fiat_env \<Rightarrow> int \<Rightarrow> auth_user \<Rightarrow> string \<Rightarrow> string \<Rightarrow> string option \<Rightarrow> fiat_db \<Rightarrow> fiat_db \<Rightarrow> (string \<times> string) result \<times> fiat_db" where
  "refund env now user i requestId amountIdr seen db =
     (case pay_usable env seen of Inl e \<Rightarrow> (Inl e, db) | Inr _ \<Rightarrow>
      case find_payment seen i of None \<Rightarrow> (Inl (NotFound ''Payment not found''), db) | Some p \<Rightarrow>
      case pay_app seen user (or_else (us_app user) (Some (fp_appClientId p))) of Inl e \<Rightarrow> (Inl e, db) | Inr app \<Rightarrow>
      if fp_appClientId p \<noteq> pa_clientId app \<or> us_pid user \<noteq> fp_beneficiaryPid p \<or> (machine user \<and> us_scope user \<noteq> Some ''fiat:payment'')
      then (Inl (Forbidden ''Only beneficiary can refund this payment''), db)
      else if nullish (fp_payerPid p) [] = [] then (Inl (Conflict ''Payment has no payer PID; cannot refund to a machine identity''), db)
      else case refund_txn env now p (nullish (fp_payerPid p) []) (i @ '':refund:'' @ requestId) amountIdr db of
          Inl e \<Rightarrow> (Inl e, db)
        | Inr (v, db') \<Rightarrow> (Inr v, db'))"

section \<open>Payments keep the ledger invariant\<close>

definition payments_ok :: "fiat_db \<Rightarrow> bool" where
  "payments_ok db \<longleftrightarrow> distinct (map fp_id (db_payments db))
     \<and> (\<forall>p \<in> set (db_payments db). 0 \<le> fp_refundedIdr p \<and> fp_refundedIdr p \<le> fp_amountIdr p
          \<and> (fp_refundedIdr p \<noteq> 0 \<longrightarrow> fp_status p = ''paid''))"

text \<open>A payment keeps its identity, value and parties; paid is final, and refunds only grow.\<close>

definition same_payment :: "fiat_payment \<Rightarrow> fiat_payment \<Rightarrow> bool" where
  "same_payment p p' \<longleftrightarrow> fp_id p' = fp_id p \<and> fp_amountIdr p' = fp_amountIdr p \<and> fp_beneficiaryPid p' = fp_beneficiaryPid p
     \<and> fp_payerPid p' = fp_payerPid p \<and> fp_appClientId p' = fp_appClientId p \<and> fp_totalIdr p' = fp_totalIdr p \<and> fp_quote p' = fp_quote p
     \<and> fp_refundedIdr p \<le> fp_refundedIdr p' \<and> (fp_status p = ''paid'' \<longrightarrow> fp_status p' = ''paid'')"

definition pay_evolves :: "fiat_db \<Rightarrow> fiat_db \<Rightarrow> bool" where
  "pay_evolves s t \<longleftrightarrow> evolves s t \<and> (\<forall>p \<in> set (db_payments s). \<exists>p' \<in> set (db_payments t). same_payment p p')"

definition pay_inv :: "fiat_env \<Rightarrow> fiat_db \<Rightarrow> bool" where
  "pay_inv env db \<longleftrightarrow> ledger_inv env db \<and> payments_ok db"

lemma same_payment_refl [simp]: "same_payment p p"
  by (simp add: same_payment_def)

lemma pay_evolves_refl [simp]: "pay_evolves db db"
  unfolding pay_evolves_def using same_payment_refl evolves_refl by blast

lemma pay_evolves_trans: "pay_evolves s t \<Longrightarrow> pay_evolves t u \<Longrightarrow> pay_evolves s u"
  unfolding pay_evolves_def
proof (intro conjI ballI; elim conjE)
  fix p assume a: "p \<in> set (db_payments s)" "\<forall>p\<in>set (db_payments s). \<exists>p'\<in>set (db_payments t). same_payment p p'"
    "\<forall>p\<in>set (db_payments t). \<exists>p'\<in>set (db_payments u). same_payment p p'"
  then obtain q r where "same_payment p q" "r \<in> set (db_payments u)" "same_payment q r" by blast
  moreover from this have "same_payment p r" by (auto simp: same_payment_def)
  ultimately show "\<exists>p'\<in>set (db_payments u). same_payment p p'" by blast
qed (rule evolves_trans)

text \<open>A change of the payment rows by a map that keeps each row well formed and of the same value.\<close>

lemma payments_update:
  assumes "pay_inv env db" "db' = db\<lparr>db_payments := map f (db_payments db)\<rparr>"
    and "\<And>p. p \<in> set (db_payments db) \<Longrightarrow> same_payment p (f p) \<and> fp_refundedIdr (f p) \<le> fp_amountIdr p
          \<and> (fp_refundedIdr (f p) \<noteq> 0 \<longrightarrow> fp_status (f p) = ''paid'')"
  shows "pay_inv env db' \<and> pay_evolves db db'"
proof -
  have same: "same_ledger db db'" by (simp add: same_ledger_def assms(2))
  have "map fp_id (map f (db_payments db)) = map fp_id (db_payments db)"
    using assms(3) by (auto simp: same_payment_def)
  then have "payments_ok db'"
    using assms(1,3) unfolding payments_ok_def pay_inv_def assms(2) same_payment_def
    by (auto simp del: map_map) (metis order_trans)+
  moreover have "pay_evolves db db'"
    using assms(3) evolves_same [OF same, of db] by (auto simp: pay_evolves_def assms(2))
  ultimately show ?thesis using assms(1) ledger_inv_same [OF same] by (simp add: pay_inv_def)
qed

lemma pay_inv_ledger_step:
  assumes "pay_inv env db" "ledger_inv env db'" "evolves db db'" "db_payments db' = db_payments db"
  shows "pay_inv env db' \<and> pay_evolves db db'"
proof -
  have "\<forall>p \<in> set (db_payments db). \<exists>p' \<in> set (db_payments db'). same_payment p p'"
    unfolding assms(4) using same_payment_refl by blast
  with assms show ?thesis by (simp add: pay_inv_def payments_ok_def pay_evolves_def)
qed

lemma pay_inv_same:
  assumes "same_ledger db db'" "db_payments db' = db_payments db" "pay_inv env db"
  shows "pay_inv env db' \<and> pay_evolves db db'"
  using pay_inv_ledger_step [OF assms(3) _ _ assms(2)] assms ledger_inv_same [OF assms(1)] evolves_same [OF assms(1), of db]
  by (simp add: pay_inv_def)

lemma payment_event_same: "payment_event env now p ty db = Inr db' \<Longrightarrow> same_ledger db db' \<and> db_payments db' = db_payments db"
  by (auto simp: payment_event_def create_event_def same_ledger_def split: option.splits if_splits)

lemma append_payments: "append_ops env now p q ops db = Inr db' \<Longrightarrow> db_payments db' = db_payments db"
proof (induction ops arbitrary: p q db)
  case (Cons op ops)
  then show ?case
    by (fastforce simp: Let_def create_entry_def update_entry_def split: option.splits if_splits)
qed simp

lemma appendChained_payments: "appendChained env now ops db = Inr db' \<Longrightarrow> db_payments db' = db_payments db"
  by (auto simp: appendChained_def append_payments split: prod.splits)

lemma find_payment_SomeD: "find_payment db i = Some p \<Longrightarrow> p \<in> set (db_payments db) \<and> fp_id p = i"
  by (auto simp: find_payment_def dest: find_SomeD)

lemma set_payment_sel: "set_payment i f db = db\<lparr>db_payments := map (\<lambda>p. if fp_id p = i then f p else p) (db_payments db)\<rparr>"
  by (simp add: set_payment_def)

text \<open>Moving an unpaid payment to another status.\<close>

lemma set_status_inv:
  assumes inv: "pay_inv env db" and cur: "find_payment db i = Some c" "fp_status c \<noteq> ''paid''"
    and f: "\<And>x. same_payment x (f x) \<or> fp_status x = ''paid''" "\<And>x. fp_refundedIdr (f x) = fp_refundedIdr x"
  shows "pay_inv env (set_payment i f db) \<and> pay_evolves db (set_payment i f db)"
proof (rule payments_update [OF inv set_payment_sel])
  fix p assume p: "p \<in> set (db_payments db)"
  have c: "c \<in> set (db_payments db)" "fp_id c = i" using find_payment_SomeD [OF cur(1)] by auto
  have ok: "payments_ok db" using inv by (simp add: pay_inv_def)
  show "same_payment p (if fp_id p = i then f p else p) \<and> fp_refundedIdr (if fp_id p = i then f p else p) \<le> fp_amountIdr p
    \<and> (fp_refundedIdr (if fp_id p = i then f p else p) \<noteq> 0 \<longrightarrow> fp_status (if fp_id p = i then f p else p) = ''paid'')"
  proof (cases "fp_id p = i")
    case True
    with p c ok have "p = c" by (auto simp: payments_ok_def distinct_map inj_on_def)
    with ok c cur(2) f [of p] True show ?thesis by (auto simp: payments_ok_def)
  next
    case False
    with ok p show ?thesis by (auto simp: payments_ok_def)
  qed
qed

lemma payment_legs_ok:
  assumes "0 \<le> fp_amountIdr p"
  shows "\<forall>e \<in> set (payment_legs p app). leg_ok (hashed_core e)"
    "0 \<le> posted_balance x (map hashed_core (payment_legs p app))"
  using assms by (auto simp: payment_legs_def Let_def hashed_core_def posting_simps)

lemma sync_mismatch_inv:
  assumes "pay_inv env db" "sync_mismatch env now p db = Inr db'"
  shows "pay_inv env db' \<and> pay_evolves db db'"
proof (cases "db' = db")
  case False
  let ?f = "\<lambda>x. x\<lparr>fp_status := ''failed''\<rparr>"
  obtain c where c: "find_payment db (fp_id p) = Some c" "fp_status c \<noteq> ''paid''"
    and e: "payment_event env now c ''fiat.payment.failed'' (set_payment (fp_id p) ?f db) = Inr db'"
    using assms(2) False by (auto simp: sync_mismatch_def split: option.splits if_splits)
  have "pay_inv env (set_payment (fp_id p) ?f db) \<and> pay_evolves db (set_payment (fp_id p) ?f db)"
    by (rule set_status_inv [OF assms(1) c]) (auto simp: same_payment_def)
  then show ?thesis
    using pay_inv_same payment_event_same [OF e] pay_evolves_trans by blast
qed (use assms in simp)

lemma sync_txn_inv:
  assumes inv: "pay_inv env db" and env: "env_ok env" and p: "0 \<le> fp_amountIdr p" and run: "sync_txn env now p st db = Inr db'"
  shows "pay_inv env db' \<and> pay_evolves db db'"
proof (cases "db' = db")
  case False
  let ?f = "\<lambda>x. x\<lparr>fp_status := st, fp_paidAt := (if st = ''paid'' then Some now else fp_paidAt x)\<rparr>"
  obtain c db1 where c: "find_payment db (fp_id p) = Some c" "fp_status c \<noteq> ''paid''"
    and step: "(st = ''paid'' \<and> (\<exists>app. appendChained env now (map insert_op (payment_legs p app)) db = Inr db1)) \<or> db1 = db"
    and e: "payment_event env now p (''fiat.payment.'' @ st) (set_payment (fp_id p) ?f db1) = Inr db'"
    using run False by (auto simp: sync_txn_def split: option.splits if_splits)
  have nn: "0 \<le> posted_balance x (db_entries db)" for x using inv by (simp add: pay_inv_def ledger_inv_def)
  have pays: "db_payments db1 = db_payments db" using step appendChained_payments by blast
  have one: "pay_inv env db1 \<and> pay_evolves db db1"
    using step
  proof (elim disjE conjE exE)
    fix app assume a: "appendChained env now (map insert_op (payment_legs p app)) db = Inr db1"
    have "0 \<le> posted_balance x (db_entries db) + posted_balance x (map hashed_core (payment_legs p app))" for x
      using nn payment_legs_ok(2) [OF p] by (metis add_nonneg_nonneg)
    then show ?thesis
      using pay_inv_ledger_step [OF inv _ _ pays] post_inserts(1,2) [OF _ env a payment_legs_ok(1) [OF p]] inv by (simp add: pay_inv_def)
  qed (use inv in simp)
  have "find_payment db1 (fp_id p) = Some c" using c pays by (simp add: find_payment_def)
  then have "pay_inv env (set_payment (fp_id p) ?f db1) \<and> pay_evolves db1 (set_payment (fp_id p) ?f db1)"
    using one c(2) by (intro set_status_inv) (auto simp: same_payment_def)
  then show ?thesis
    using one pay_inv_same payment_event_same [OF e] pay_evolves_trans by blast
qed (use inv in simp)

lemma sync_inv:
  assumes inv: "pay_inv env db" and env: "env_ok env" and p: "0 \<le> fp_amountIdr p" and run: "sync env now ord p db = (r, db')"
  shows "pay_inv env db' \<and> pay_evolves db db'"
  using run inv sync_mismatch_inv [OF inv] sync_txn_inv [OF inv env p]
  by (auto simp: sync_def Let_def split: if_splits option.splits sum.splits)

lemma claim_inv:
  assumes "pay_inv env db" "claim_payment ok f i db = (n, db')"
    and "\<And>x. ok x \<Longrightarrow> x \<in> set (db_payments db) \<Longrightarrow> same_payment x (f x) \<and> fp_refundedIdr (f x) = fp_refundedIdr x \<and> (fp_status (f x) = fp_status x \<or> fp_status x \<noteq> ''paid'')"
  shows "pay_inv env db' \<and> pay_evolves db db'"
proof (rule payments_update [OF assms(1), of _ "\<lambda>p. if fp_id p = i \<and> ok p then f p else p"])
  show "db' = db\<lparr>db_payments := map (\<lambda>p. if fp_id p = i \<and> ok p then f p else p) (db_payments db)\<rparr>"
    using assms(2) by (auto simp: claim_payment_def)
  fix p assume "p \<in> set (db_payments db)"
  moreover have "payments_ok db" using assms(1) by (simp add: pay_inv_def)
  ultimately show "same_payment p (if fp_id p = i \<and> ok p then f p else p) \<and> fp_refundedIdr (if fp_id p = i \<and> ok p then f p else p) \<le> fp_amountIdr p
    \<and> (fp_refundedIdr (if fp_id p = i \<and> ok p then f p else p) \<noteq> 0 \<longrightarrow> fp_status (if fp_id p = i \<and> ok p then f p else p) = ''paid'')"
    using assms(3) [of p] by (auto simp: payments_ok_def)
qed

lemma cancelPayment_inv:
  assumes inv: "pay_inv env db" and env: "env_ok env" and run: "cancelPayment env now ords user i db = (r, db')"
  shows "pay_inv env db' \<and> pay_evolves db db'"
proof (cases "owned db user i")
  case (Inl e)
  then show ?thesis using run inv by (simp add: cancelPayment_def)
next
  case (Inr p)
  then have "p \<in> set (db_payments db)" by (auto simp: owned_def split: option.splits if_splits dest: find_payment_SomeD)
  then have p: "0 \<le> fp_amountIdr p" using inv by (auto simp: pay_inv_def payments_ok_def)
  obtain r1 db1 where s: "sync env now (ords (fp_providerRef p)) p db = (r1, db1)" by fastforce
  have one: "pay_inv env db1 \<and> pay_evolves db db1" using sync_inv [OF inv env p s] .
  obtain n db2 where c: "claim_payment (\<lambda>x. fp_status x = ''created'' \<or> fp_status x = ''pending'') (\<lambda>x. x\<lparr>fp_status := ''cancelled''\<rparr>) i db1 = (n, db2)"
    by fastforce
  have "pay_inv env db2 \<and> pay_evolves db1 db2"
    by (rule claim_inv [OF _ c]) (use one in \<open>auto simp: same_payment_def\<close>)
  with one have "pay_inv env db2 \<and> pay_evolves db db2" using pay_evolves_trans by blast
  then show ?thesis
    using run one Inr by (auto simp: cancelPayment_def s c split: sum.splits if_splits)
qed

lemma reconcile_rows_inv:
  assumes "env_ok env" "\<forall>p \<in> set ps. 0 \<le> fp_amountIdr p" "pay_inv env db"
  shows "pay_inv env (reconcile_rows env now ords ps db) \<and> pay_evolves db (reconcile_rows env now ords ps db)"
  using assms(2,3)
proof (induction ps arbitrary: db)
  case (Cons p ps)
  let ?f = "\<lambda>x. x\<lparr>fp_nextCheckAt := now + (if fp_createdAt p > now - 180000 then 5000 else 30000)\<rparr>"
  obtain n db1 where c: "claim_payment (\<lambda>x. fp_nextCheckAt x = fp_nextCheckAt p) ?f (fp_id p) db = (n, db1)" by fastforce
  have one: "pay_inv env db1 \<and> pay_evolves db db1"
    by (rule claim_inv [OF Cons.prems(2) c]) (auto simp: same_payment_def)
  define db2 where "db2 = (if n = 0 then db1 else snd (sync env now (ords (fp_providerRef p)) p db1))"
  have two: "pay_inv env db2 \<and> pay_evolves db1 db2"
    using sync_inv [OF _ assms(1) _ prod.collapse [symmetric], of db1 p] one Cons.prems(1) by (simp add: db2_def)
  have "reconcile_rows env now ords (p # ps) db = reconcile_rows env now ords ps db2"
    by (simp add: c Let_def db2_def)
  with Cons.IH [of db2] Cons.prems(1) one two show ?case
    using pay_evolves_trans by (metis list.set_intros(2))
qed simp

lemma reconcile_inv:
  assumes "env_ok env" "pay_inv env db"
  shows "pay_inv env (reconcile env now ords db) \<and> pay_evolves db (reconcile env now ords db)"
proof -
  have "set (reconcile_due now db) \<subseteq> set (db_payments db)"
    by (auto simp: reconcile_due_def dest: in_set_takeD)
  then have "\<forall>p \<in> set (reconcile_due now db). 0 \<le> fp_amountIdr p"
    using assms(2) by (force simp: pay_inv_def payments_ok_def)
  then show ?thesis unfolding reconcile_def by (intro reconcile_rows_inv assms)
qed

lemma notify_inv:
  assumes inv: "pay_inv env db" and env: "env_ok env" and run: "notify env now ords ref db = (r, db')"
  shows "pay_inv env db' \<and> pay_evolves db db'"
proof (cases "db' = db")
  case False
  then obtain p where "p \<in> set (db_payments db)" "sync env now (ords (fp_providerRef p)) p db = (r, db')"
    using run by (auto simp: notify_def split: option.splits dest!: find_SomeD)
  then show ?thesis using sync_inv [OF inv env] inv by (force simp: pay_inv_def payments_ok_def)
qed (use inv in simp)

lemma refund_txn_inv:
  assumes inv: "pay_inv env db" and env: "env_ok env" and run: "refund_txn env now p payer key amt db = Inr (v, db')"
  shows "pay_inv env db' \<and> pay_evolves db db' \<and> ledger_total (db_entries db') = ledger_total (db_entries db)"
    and "db' \<noteq> db \<Longrightarrow> \<exists>a c. 0 < a \<and> find_payment db (fp_id p) = Some c \<and> fp_status c = ''paid'' \<and> a \<le> fp_amountIdr c - fp_refundedIdr c
          \<and> v = (key, show_int a) \<and> a \<le> posted_balance (fp_beneficiaryPid p) (db_entries db)
          \<and> db_payments db' = db_payments (set_payment (fp_id p) (\<lambda>x. x\<lparr>fp_refundedIdr := fp_refundedIdr x + a\<rparr>) db)
          \<and> (\<forall>x. posted_balance x (db_entries db') = posted_balance x (db_entries db)
               - (if x = fp_beneficiaryPid p then a else 0) + (if x = payer then a else 0))"
proof -
  show "pay_inv env db' \<and> pay_evolves db db' \<and> ledger_total (db_entries db') = ledger_total (db_entries db)"
    and "db' \<noteq> db \<Longrightarrow> \<exists>a c. 0 < a \<and> find_payment db (fp_id p) = Some c \<and> fp_status c = ''paid'' \<and> a \<le> fp_amountIdr c - fp_refundedIdr c
          \<and> v = (key, show_int a) \<and> a \<le> posted_balance (fp_beneficiaryPid p) (db_entries db)
          \<and> db_payments db' = db_payments (set_payment (fp_id p) (\<lambda>x. x\<lparr>fp_refundedIdr := fp_refundedIdr x + a\<rparr>) db)
          \<and> (\<forall>x. posted_balance x (db_entries db') = posted_balance x (db_entries db)
               - (if x = fp_beneficiaryPid p then a else 0) + (if x = payer then a else 0))"
  proof (cases "db' = db")
    case False
    let ?f = "\<lambda>a x. x\<lparr>fp_refundedIdr := fp_refundedIdr x + a\<rparr>"
    let ?ds = "\<lambda>a. refund_legs key (fp_id p) (fp_beneficiaryPid p) payer a"
    obtain c a db1 where "a = refund_amount c amt" and c: "find_payment db (fp_id p) = Some c" "fp_status c = ''paid''" "0 < a" "a \<le> fp_amountIdr c - fp_refundedIdr c"
      and guard: "a \<le> posted_balance (fp_beneficiaryPid p) (db_entries db)"
      and app: "appendChained env now (map insert_op (?ds a)) db = Inr db1"
      and db': "db' = set_payment (fp_id p) (?f a) db1" "v = (key, show_int a)"
      using run False
      by (auto simp: refund_txn_def Let_def postedBalanceTx_eq not_le not_less split: option.splits if_splits)
    have tot: "posted_balance y (map hashed_core (?ds a)) = (if y = payer then a else 0) - (if y = fp_beneficiaryPid p then a else 0)"
      "ledger_total (map hashed_core (?ds a)) = 0" for y
      by (auto simp: refund_legs_def hashed_core_def posting_simps)
    have legs: "\<forall>e \<in> set (?ds a). leg_ok (hashed_core e)" using c(3) by (auto simp: refund_legs_def hashed_core_def leg_ok_def)
    have li: "ledger_inv env db" using inv by (simp add: pay_inv_def)
    have bal: "0 \<le> posted_balance y (db_entries db) + posted_balance y (map hashed_core (?ds a))" for y
      using li guard c(3) by (auto simp: tot ledger_inv_def)
    note P = post_inserts [OF li env app legs bal]
    have pays: "db_payments db1 = db_payments db" by (rule appendChained_payments [OF app])
    have one: "pay_inv env db1 \<and> pay_evolves db db1" by (rule pay_inv_ledger_step [OF inv P(1,2) pays])
    have two: "pay_inv env db' \<and> pay_evolves db1 db'"
    proof (rule payments_update [OF _ db'(1) [unfolded set_payment_sel]])
      show "pay_inv env db1" using one by simp
      fix x assume x: "x \<in> set (db_payments db1)"
      have ok: "payments_ok db" using inv by (simp add: pay_inv_def)
      have "c \<in> set (db_payments db)" "fp_id c = fp_id p" using find_payment_SomeD [OF c(1)] by auto
      with x ok pays have "fp_id x = fp_id p \<Longrightarrow> x = c" by (auto simp: payments_ok_def distinct_map inj_on_def)
      with x c ok pays show "same_payment x (if fp_id x = fp_id p then ?f a x else x)
          \<and> fp_refundedIdr (if fp_id x = fp_id p then ?f a x else x) \<le> fp_amountIdr x
          \<and> (fp_refundedIdr (if fp_id x = fp_id p then ?f a x else x) \<noteq> 0 \<longrightarrow> fp_status (if fp_id x = fp_id p then ?f a x else x) = ''paid'')"
        by (auto simp: same_payment_def payments_ok_def)
    qed
    have e: "db_entries db' = db_entries db1" by (simp add: db' set_payment_def)
    have "ledger_total (db_entries db') = ledger_total (db_entries db)" using P(4) by (simp add: e tot)
    with one two pay_evolves_trans show "pay_inv env db' \<and> pay_evolves db db' \<and> ledger_total (db_entries db') = ledger_total (db_entries db)"
      by blast
    have "posted_balance x (db_entries db') = posted_balance x (db_entries db)
               - (if x = fp_beneficiaryPid p then a else 0) + (if x = payer then a else 0)" for x
      using P(3) [of x] by (simp add: e tot)
    with c db' guard pays show "\<exists>a c. 0 < a \<and> find_payment db (fp_id p) = Some c \<and> fp_status c = ''paid'' \<and> a \<le> fp_amountIdr c - fp_refundedIdr c
          \<and> v = (key, show_int a) \<and> a \<le> posted_balance (fp_beneficiaryPid p) (db_entries db)
          \<and> db_payments db' = db_payments (set_payment (fp_id p) (\<lambda>x. x\<lparr>fp_refundedIdr := fp_refundedIdr x + a\<rparr>) db)
          \<and> (\<forall>x. posted_balance x (db_entries db') = posted_balance x (db_entries db)
               - (if x = fp_beneficiaryPid p then a else 0) + (if x = payer then a else 0))"
      by (intro exI [of _ a] exI [of _ c]) (auto simp: set_payment_def)
  qed (use inv in simp_all)
qed

lemma refund_inv:
  assumes inv: "pay_inv env db" and env: "env_ok env" and run: "refund env now user i rid amt seen db = (r, db')"
  shows "pay_inv env db' \<and> pay_evolves db db' \<and> ledger_total (db_entries db') = ledger_total (db_entries db)"
proof (cases "db' = db")
  case False
  then obtain p payer key v where "refund_txn env now p payer key amt db = Inr (v, db')"
    using run by (auto simp: refund_def split: sum.splits option.splits if_splits)
  then show ?thesis using refund_txn_inv(1) [OF inv env] by blast
qed (use inv in simp)

lemma insert_payment_inv:
  assumes inv: "pay_inv env db" and run: "insert_payment p db = Inr db'" and p: "0 \<le> fp_amountIdr p" "fp_refundedIdr p = 0"
  shows "pay_inv env db' \<and> pay_evolves db db'"
proof -
  have db': "db' = db\<lparr>db_payments := db_payments db @ [p]\<rparr>" and fresh: "fp_id p \<notin> fp_id ` set (db_payments db)"
    using run by (auto simp: insert_payment_def list_ex_iff split: if_splits)
  have same: "same_ledger db db'" by (simp add: same_ledger_def db')
  have "payments_ok db'" using inv fresh p by (auto simp: pay_inv_def payments_ok_def db')
  moreover have "set (db_payments db) \<subseteq> set (db_payments db')" by (auto simp: db')
  then have "\<forall>q \<in> set (db_payments db). \<exists>q' \<in> set (db_payments db'). same_payment q q'"
    using same_payment_refl by blast
  ultimately show ?thesis
    using inv ledger_inv_same [OF same] evolves_same [OF same, of db] by (simp add: pay_inv_def pay_evolves_def)
qed

lemma pay_attempt_inv:
  assumes inv: "pay_inv env db" and run: "pay_attempt env live pf api now payId ref user input seen db = (r, db')"
  shows "pay_inv env db' \<and> pay_evolves db db'"
proof (cases "db' = db")
  case False
  have "\<exists>p. pay_insert api now p db = (r, db') \<and> 0 \<le> fp_amountIdr p \<and> fp_refundedIdr p = 0 \<and> fp_id p = payId"
    using run False unfolding pay_attempt_def Let_def bigint_of_def
    by (auto split: sum.splits if_splits option.splits intro!: exI)
  then obtain p where p: "pay_insert api now p db = (r, db')" "0 \<le> fp_amountIdr p" "fp_refundedIdr p = 0" "fp_id p = payId"
    by blast
  then obtain db1 where ins: "insert_payment p db = Inr db1" "0 \<le> fp_amountIdr p" "fp_refundedIdr p = 0"
    and rest: "db' = db1 \<or> (\<exists>url ex. db' = snd (claim_payment (\<lambda>x. fp_status x = ''created'')
       (\<lambda>x. x\<lparr>fp_status := ''pending'', fp_paymentUrl := Some url, fp_expiresAt := ex\<rparr>) payId db1))"
    using False by (auto simp: pay_insert_def Let_def split: sum.splits option.splits)
  have one: "pay_inv env db1 \<and> pay_evolves db db1" by (rule insert_payment_inv [OF inv ins])
  from rest show ?thesis
  proof (elim disjE exE)
    fix url ex assume d: "db' = snd (claim_payment (\<lambda>x. fp_status x = ''created'')
       (\<lambda>x. x\<lparr>fp_status := ''pending'', fp_paymentUrl := Some url, fp_expiresAt := ex\<rparr>) payId db1)"
    have "pay_inv env db' \<and> pay_evolves db1 db'"
      unfolding d by (rule claim_inv [OF _ prod.collapse [symmetric]]) (use one in \<open>auto simp: same_payment_def\<close>)
    with one show ?thesis using pay_evolves_trans by blast
  qed (use one in simp)
qed (use inv in simp)

lemma createPayment_inv:
  assumes inv: "pay_inv env db" and run: "createPayment env live pf api now payId ref user input seen db = (r, db')"
  shows "pay_inv env db' \<and> pay_evolves db db'"
proof -
  obtain r1 db1 where a: "pay_attempt env live pf api now payId ref user input seen db = (r1, db1)" by fastforce
  have one: "pay_inv env db1 \<and> pay_evolves db db1" using pay_attempt_inv [OF inv a] .
  show ?thesis
  proof (cases "r1 = Inl UniqueViolation")
    case True
    with run a have "pay_attempt env live pf api now payId ref user input db1 db1 = (r, db')" by (simp add: createPayment_def)
    from pay_attempt_inv [OF _ this] one show ?thesis using pay_evolves_trans by blast
  next
    case False
    with run a have "db' = db1" by (auto simp: createPayment_def split: sum.splits http_error.splits)
    with one show ?thesis by simp
  qed
qed

lemma createCheckoutDeposit_inv:
  assumes inv: "pay_inv env db" and run: "createCheckoutDeposit live pf api now rowId ref pid net cid m db = (r, db')"
  shows "pay_inv env db' \<and> pay_evolves db db'"
proof -
  have "same_ledger db db' \<and> db_payments db' = db_payments db"
    using run by (auto simp: createCheckoutDeposit_def Let_def markTx_def log_audit_def same_ledger_def split: sum.splits if_splits)
  then show ?thesis using pay_inv_same inv by blast
qed

end
