(* ===== verification/Fiat_System.thy ===== *)
theory Fiat_System
  imports Fiat_Payments
begin

text \<open>
  The fiat services together. A step runs one operation on the newest database while its reads may
  have seen any earlier one; the state is the history of databases. From the per-operation lemmas,
  every interleaving keeps the ledger invariant: the chain verifies, nobody is overdrawn, refunds stay
  within the payment, and rows that left the state \<^verbatim>\<open>created\<close> never change.
\<close>

section \<open>The machine\<close>

datatype fiat_op =
    OpIssue int "string \<Rightarrow> order_status" string string
  | OpMint int string string raw_amount
  | OpInquiry int string string inquiry_input "string option" auth_ctx
  | OpConfirm int string string auth_ctx
  | OpCancel string string
  | OpAdjust int string string adjust_input
  | OpFreeze "bool option"
  | OpDeposit live_fee payment_fee_state "string \<Rightarrow> int \<Rightarrow> http_error + string" int string string string string "string option" "string option"
  | OpCreatePayment live_fee payment_fee_state "string \<Rightarrow> int \<Rightarrow> (string \<times> int option) option" int string string auth_user create_input
  | OpNotify int "string \<Rightarrow> order_state option" "string option"
  | OpReconcile int "string \<Rightarrow> order_state option"
  | OpCancelPayment int "string \<Rightarrow> order_state option" auth_user string
  | OpRefund int auth_user string string "string option"

fun fiat_exec :: "fiat_env \<Rightarrow> fiat_op \<Rightarrow> fiat_db \<Rightarrow> fiat_db \<Rightarrow> fiat_db" where
  "fiat_exec env (OpIssue now chk i src) seen db = issueForDeposit env now chk i src seen db"
| "fiat_exec env (OpMint now cid pid raw) seen db = snd (mintTestCredit env now cid pid raw db)"
| "fiat_exec env (OpInquiry now grp pid input cid auth) seen db = snd (transferInquiry env now grp pid input cid auth db)"
| "fiat_exec env (OpConfirm now pid i auth) seen db = snd (transferConfirm env now pid i auth seen db)"
| "fiat_exec env (OpCancel pid i) seen db = snd (cancelIntent pid i db)"
| "fiat_exec env (OpAdjust now nonce adm input) seen db = snd (adminAdjust env now nonce adm input seen db)"
| "fiat_exec env (OpFreeze b) seen db = setFrozenOverride b db"
| "fiat_exec env (OpDeposit live pf api now rowId ref pid net cid m) seen db = snd (createCheckoutDeposit live pf api now rowId ref pid net cid m db)"
| "fiat_exec env (OpCreatePayment live pf api now payId ref user input) seen db = snd (createPayment env live pf api now payId ref user input seen db)"
| "fiat_exec env (OpNotify now ords invoice) seen db = snd (notify env now ords invoice db)"
| "fiat_exec env (OpReconcile now ords) seen db = reconcile env now ords db"
| "fiat_exec env (OpCancelPayment now ords user i) seen db = snd (cancelPayment env now ords user i db)"
| "fiat_exec env (OpRefund now user i rid amt) seen db = snd (refund env now user i rid amt seen db)"

definition fiat_step :: "fiat_env \<Rightarrow> fiat_op \<times> nat \<Rightarrow> fiat_db list \<Rightarrow> fiat_db list" where
  "fiat_step env s hist =
     fiat_exec env (fst s) (if snd s < length hist then hist ! snd s else hd hist) (hd hist) # hist"

definition sys_inv :: "fiat_env \<Rightarrow> fiat_db list \<Rightarrow> bool" where
  "sys_inv env hist \<longleftrightarrow> env_ok env \<and> hist \<noteq> [] \<and> (\<forall>s \<in> set hist. pay_inv env s \<and> pay_evolves s (hd hist))"

text \<open>Operations of the ledger service do not touch the payments.\<close>

lemma db_payments_log [simp]:
  "db_payments (log_audit p e d db) = db_payments db" "db_payments (log_app_token a p g ph db) = db_payments db"
  by (simp_all add: log_audit_def log_app_token_def)

lemma create_payments: "create_entry env now st l d db = Inr db' \<Longrightarrow> db_payments db' = db_payments db"
  by (auto simp: create_entry_def split: if_splits)

lemma event_payments: "create_event env now ty k t u pl db = Inr db' \<Longrightarrow> db_payments db' = db_payments db"
  by (auto simp: create_event_def split: if_splits)

lemma enqueue_each_payments: "enqueue_each env now payload grp apps db = Inr db' \<Longrightarrow> db_payments db' = db_payments db"
proof (induction apps arbitrary: db)
  case (Cons a apps)
  then show ?case by (fastforce simp: Let_def split: if_splits dest: event_payments)
qed simp

lemma confirm_txn_payments: "confirm_txn env now pid pl db = Inr db' \<Longrightarrow> db_payments db' = db_payments db"
  by (auto simp: confirm_txn_def enqueueTransferEventsTx_def Let_def split: option.splits if_splits
      dest!: appendChained_payments enqueue_each_payments)

lemma deposit_event_payments: "deposit_event env now row k n f db = Inr db' \<Longrightarrow> db_payments db' = db_payments db"
  by (auto simp: deposit_event_def split: option.splits if_splits dest: event_payments)

lemma ledger_ops_payments:
  "db_payments (issueForDeposit env now chk i src seen db) = db_payments db"
  "db_payments (snd (mintTestCredit env now cid pid raw db)) = db_payments db"
  "db_payments (snd (transferInquiry env now grp pid input acid auth db)) = db_payments db"
  "db_payments (snd (transferConfirm env now pid i auth seen db)) = db_payments db"
  "db_payments (snd (cancelIntent pid i db)) = db_payments db"
  "db_payments (snd (adminAdjust env now nonce adm ainput seen db)) = db_payments db"
  subgoal by (auto simp: issueForDeposit_def issueForDepositInner_def issue_commit_def issue_txn_def Let_def split: option.splits sum.splits
      dest!: appendChained_payments deposit_event_payments)
  subgoal by (auto simp: mintTestCredit_def Let_def split: option.splits sum.splits dest: appendChained_payments)
  subgoal by (auto simp: transferInquiry_def Let_def split: option.splits sum.splits dest: create_payments)
  subgoal by (auto simp: transferConfirm_def Let_def split: option.splits sum.splits confirm_read.splits dest: confirm_txn_payments)
  subgoal by (auto simp: cancelIntent_def Let_def split: option.splits)
  subgoal by (auto simp: adminAdjust_def adjust_txn_def Let_def split: option.splits sum.splits if_splits dest: appendChained_payments)
  done

lemma exec_inv:
  assumes inv: "pay_inv env db" "pay_inv env seen" "pay_evolves seen db" and env: "env_ok env"
  shows "pay_inv env (fiat_exec env op seen db) \<and> pay_evolves db (fiat_exec env op seen db)"
proof -
  have l: "ledger_inv env db" "ledger_inv env seen" "evolves seen db"
    using inv by (auto simp: pay_inv_def pay_evolves_def)
  note c = prod.collapse [symmetric]
  show ?thesis
  proof (cases op)
    case (OpConfirm now pid i auth)
    then show ?thesis using pay_inv_ledger_step [OF inv(1)] transferConfirm_inv [OF l env c] ledger_ops_payments(4) by simp
  next
    case (OpFreeze b)
    then show ?thesis using pay_inv_same [OF _ _ inv(1), of "setFrozenOverride b db"] by (simp add: same_ledger_def setFrozenOverride_def)
  qed (simp_all add: pay_inv_ledger_step [OF inv(1)] ledger_ops_payments issue_inv [OF l(1) env refl] mint_inv [OF l(1) env c]
      transferInquiry_inv [OF l(1) env c] cancel_inv [OF l(1) c] adminAdjust_inv [OF l(1) env c]
      createCheckoutDeposit_inv [OF inv(1) c] createPayment_inv [OF inv(1) c] notify_inv [OF inv(1) env c]
      reconcile_inv [OF env inv(1)] cancelPayment_inv [OF inv(1) env c] refund_inv [OF inv(1) env c])
qed

interpretation fiat: monotone_machine "fiat_step env" "sys_inv env" "\<lambda>h h'. \<exists>ys. h' = ys @ h" for env
proof
  fix s :: "fiat_db list" and op :: "fiat_op \<times> nat"
  assume inv: "sys_inv env s"
  let ?seen = "if snd op < length s then s ! snd op else hd s"
  have "hd s \<in> set s" "?seen \<in> set s" using inv by (auto simp: sys_inv_def)
  then have "pay_inv env (hd s)" "pay_inv env ?seen" "pay_evolves ?seen (hd s)"
    using inv unfolding sys_inv_def by blast+
  then have "pay_inv env (fiat_exec env (fst op) ?seen (hd s)) \<and> pay_evolves (hd s) (fiat_exec env (fst op) ?seen (hd s))"
    using inv by (intro exec_inv) (auto simp: sys_inv_def)
  then show "sys_inv env (fiat_step env op s)"
    using inv pay_evolves_trans by (auto simp: sys_inv_def fiat_step_def)
qed (auto simp: fiat_step_def intro: exI [of _ "[x]" for x])

lemma sys_inv_start: "env_ok env \<Longrightarrow> pay_inv env db \<Longrightarrow> sys_inv env [db]"
  by (simp add: sys_inv_def)

lemma run_head_inv:
  "env_ok env \<Longrightarrow> pay_inv env db \<Longrightarrow> pay_inv env (hd (fold (fiat_step env) ops [db]))"
  using fiat.run_inv [OF sys_inv_start, of env db ops] by (auto simp: sys_inv_def)

lemma run_head_evolves:
  assumes "env_ok env" "pay_inv env db"
  shows "pay_evolves db (hd (fold (fiat_step env) ops [db]))"
proof -
  have "sys_inv env (fold (fiat_step env) ops [db])" by (rule fiat.run_inv [OF sys_inv_start [OF assms]])
  moreover obtain ys where "fold (fiat_step env) ops [db] = ys @ [db]"
    using fiat.run_grows [OF sys_inv_start [OF assms], of ops] by blast
  ultimately show ?thesis by (simp add: sys_inv_def)
qed

section \<open>Safety of every interleaving\<close>


lemma pay_inv_empty: "pay_inv env (empty_db\<lparr>db_apps := apps\<rparr>)" if "\<forall>a \<in> set apps. pa_id a \<noteq> [] \<and> pa_ownerPid a \<noteq> []"
  using that by (simp add: pay_inv_def ledger_inv_def payments_ok_def empty_db_def rows_ok_def chain_inv_def chained_def chain_tip_def
      fully_chained_def tables_ok_def)

definition demo_db :: fiat_db where
  "demo_db = empty_db\<lparr>db_apps := [\<lparr>pa_id = ''app1'', pa_clientId = ''cid'', pa_ownerPid = ''dev@pid'', pa_isActive = True,
     pa_isVerified = False, pa_verificationExpiresAt = None, pa_webhookUrl = Some ''https://dev''\<rparr>]\<rparr>"

lemma pay_inv_demo [simp]: "pay_inv env demo_db"
  unfolding demo_db_def by (rule pay_inv_empty) simp


text \<open>C24: closed rows are final. A row that was posted or cancelled is still in the ledger, unchanged,
  after any further operations; and confirming a cancelled intent moves nothing, even when the confirm
  read the intent while it was still open.\<close>

theorem closed_rows_final:
  assumes "env_ok env" "pay_inv env db0" "r \<in> set (db_entries db0)" "ec_status r \<noteq> ''created''"
    and db: "db = hd (fold (fiat_step env) ops [db0])"
  shows "r \<in> set (db_entries db)
    \<and> (ec_status r = ''cancelled'' \<longrightarrow> snd (transferConfirm env now pid (lr_id r) auth seen db) = db)"
proof -
  have ev: "pay_evolves db0 db" unfolding db by (rule run_head_evolves [OF assms(1,2)])
  have inv: "rows_ok env db" using run_head_inv [OF assms(1,2), of ops] by (simp add: db pay_inv_def ledger_inv_def)
  obtain r' where "r' \<in> set (db_entries db)" "same_intent r r'"
    using ev assms(3) by (auto simp: pay_evolves_def evolves_def)
  with assms(4) have mem: "r \<in> set (db_entries db)" by (auto simp: same_intent_def)
  have "confirm_txn env now pid pl db = Inl (BadRequest ''Transfer is closed -- start a new inquiry'')"
    if "ec_status r = ''cancelled''" "lr_id (cp_intent pl) = lr_id r" for pl
  proof (cases "find_row db (lr_id r) pid")
    case (Some q)
    then have "q = r" using rows_ok_id [OF inv _ mem] by (auto dest!: find_row_SomeD)
    with Some that show ?thesis by (simp add: confirm_txn_def)
  qed (use that in \<open>simp add: confirm_txn_def\<close>)
  moreover have "lr_id (cp_intent pl) = lr_id r" if "confirm_begin env pid (lr_id r) auth seen = Inr (Plan pl)" for pl
    using that by (auto simp: confirm_begin_def Let_def split: sum.splits option.splits if_splits dest!: find_row_SomeD)
  ultimately show ?thesis
    using mem by (auto simp: transferConfirm_def split: sum.splits confirm_read.splits)
qed

text \<open>An intent of ana for bob, cancelled.\<close>

definition cancelled_intent :: ledger_row where
  "cancelled_intent = (new_row demo_env 0 ''cancelled'' None
     (leg ''CT1'' ''fiat_transfer_out'' ''ana@pid'' (Some ''bob@pid'') 5000 ''out'' ''CT1'' None (Some 5)
       (Some (intent_json ''bob@pid'' (quoteFees 0 demo_db None ''transaction'' 5000) 4889 None)) ''transfer-inquiry'') 0)"

lemma demo_quote: "quoteFees 0 demo_db None ''transaction'' 5000 = \<lparr>fb_globalFee = 100, fb_peridotTaxIdr = 11, fb_appFee = 0,
    fb_appId = None, fb_appOwnerPid = None, fb_policyVersion = 5, fb_isVerified = False\<rparr>"
  by (simp add: quoteFees_def Let_def activeFeePolicy_def demo_db_def empty_db_def resolveAppContext_def appFeeFor_def
      DEFAULT_FEE_POLICY_def calcServiceFee_def calcTaxAmount_def bigdiv_nonneg)

lemma pay_inv_cancelled: "pay_inv demo_env (demo_db\<lparr>db_entries := [cancelled_intent], db_nextSeq := 1\<rparr>)"
  by (simp add: pay_inv_def ledger_inv_def payments_ok_def demo_db_def empty_db_def rows_ok_def chain_inv_def chained_def chain_tip_def
      fully_chained_def tables_ok_def cancelled_intent_def new_row_def leg_def hashed_def row_ok_def leg_ok_def intent_ok_def acct_def)
    (simp add: intent_json_get demo_quote [unfolded demo_db_def empty_db_def, simplified] json_string_def)

theorem closed_rows_final_witness:
  "snd (transferConfirm demo_env 9 ''ana@pid'' (lr_id cancelled_intent) \<lparr>au_app = None, au_scope = None\<rparr> demo_db
      (hd (fold (fiat_step demo_env) [(OpMint 5 ''c1'' ''ana@pid'' (RStr ''20000''), 0)]
        [demo_db\<lparr>db_entries := [cancelled_intent], db_nextSeq := 1\<rparr>])))
   = hd (fold (fiat_step demo_env) [(OpMint 5 ''c1'' ''ana@pid'' (RStr ''20000''), 0)]
        [demo_db\<lparr>db_entries := [cancelled_intent], db_nextSeq := 1\<rparr>])"
proof -
  have s: "ec_status cancelled_intent = ''cancelled''" by (simp add: cancelled_intent_def new_row_def)
  have m: "cancelled_intent \<in> set (db_entries (demo_db\<lparr>db_entries := [cancelled_intent], db_nextSeq := 1\<rparr>))" by simp
  have n: "ec_status cancelled_intent \<noteq> ''created''" using s by simp
  from closed_rows_final [OF demo_env_ok pay_inv_cancelled m n refl] s show ?thesis by blast
qed

section \<open>Conservation\<close>

definition moves_only :: "fiat_op \<Rightarrow> bool" where
  "moves_only op = (case op of
      OpInquiry _ _ _ _ _ _ \<Rightarrow> True | OpConfirm _ _ _ _ \<Rightarrow> True | OpCancel _ _ \<Rightarrow> True | OpAdjust _ _ _ _ \<Rightarrow> True
    | OpFreeze _ \<Rightarrow> True | OpDeposit _ _ _ _ _ _ _ _ _ _ \<Rightarrow> True | OpCreatePayment _ _ _ _ _ _ _ _ \<Rightarrow> True | OpRefund _ _ _ _ _ \<Rightarrow> True
    | _ \<Rightarrow> False)"

lemma deposit_entries: "db_entries (snd (createCheckoutDeposit live pf api now rowId ref pid net cid m db)) = db_entries db"
  by (auto simp: createCheckoutDeposit_def Let_def markTx_def log_audit_def split: sum.splits)

lemma pay_insert_entries: "db_entries (snd (pay_insert api now p db)) = db_entries db"
  by (auto simp: pay_insert_def insert_payment_def claim_payment_def Let_def split: sum.splits option.splits if_splits)

lemma pay_attempt_entries: "db_entries (snd (pay_attempt env live pf api now payId ref user input seen db)) = db_entries db"
  by (auto simp: pay_attempt_def Let_def pay_insert_entries split: sum.splits option.splits)

lemma createPayment_entries: "db_entries (snd (createPayment env live pf api now payId ref user input seen db)) = db_entries db"
  using pay_attempt_entries [of env live pf api now payId ref user input]
  by (auto simp: createPayment_def split: prod.splits sum.splits http_error.splits) (metis snd_conv)+

lemma exec_total:
  assumes inv: "pay_inv env db" "pay_inv env seen" "pay_evolves seen db" and env: "env_ok env" and op: "moves_only op"
  shows "ledger_total (db_entries (fiat_exec env op seen db)) = ledger_total (db_entries db)"
proof -
  have l: "ledger_inv env db" "ledger_inv env seen" "evolves seen db"
    using inv by (auto simp: pay_inv_def pay_evolves_def)
  note c = prod.collapse [symmetric]
  show ?thesis
    using op by (cases op) (simp_all add: moves_only_def transferConfirm_inv [OF l env c] transferInquiry_inv [OF l(1) env c]
      cancel_inv [OF l(1) c] adminAdjust_inv [OF l(1) env c] refund_inv [OF inv(1) env c] setFrozenOverride_def
      deposit_entries createPayment_entries)
qed

text \<open>C4: money is conserved. However transfers, cancellations, adjustments and refunds interleave, the
  credit outstanding over all owners, the treasury and the tax bucket, as the replay computes it, does not
  change; only issues, faucet mints and paid payments create credit.\<close>

theorem transfers_conserve_money:
  assumes "env_ok env" "pay_inv env db0" "list_all (moves_only \<circ> fst) ops"
  shows "totalFiatOutstanding (replayFiatLedger (map to_fiat_row (db_entries (hd (fold (fiat_step env) ops [db0])))))
    = totalFiatOutstanding (replayFiatLedger (map to_fiat_row (db_entries db0)))"
proof -
  have step: "ledger_total (db_entries (hd (fold (fiat_step env) ops h))) = ledger_total (db_entries (hd h))"
    if "sys_inv env h" "list_all (moves_only \<circ> fst) ops" for h
    using that
  proof (induction ops arbitrary: h)
    case (Cons op ops)
    let ?seen = "if snd op < length h then h ! snd op else hd h"
    have "hd h \<in> set h" "?seen \<in> set h" using Cons.prems by (auto simp: sys_inv_def)
    then have "pay_inv env (hd h)" "pay_inv env ?seen" "pay_evolves ?seen (hd h)"
      using Cons.prems(1) unfolding sys_inv_def by blast+
    then have "ledger_total (db_entries (hd (fiat_step env op h))) = ledger_total (db_entries (hd h))"
      using Cons.prems exec_total [of env "hd h" ?seen "fst op"] by (simp add: fiat_step_def sys_inv_def)
    with Cons show ?case using fiat.step_inv by simp
  qed simp
  have "list_all leg_ok (db_entries d)" if "pay_inv env d" for d
    using that by (auto simp: pay_inv_def ledger_inv_def row_ok_def list_all_iff)
  then show ?thesis
    using step [OF sys_inv_start [OF assms(1,2)] assms(3)] run_head_inv [OF assms(1,2), of ops] assms(2)
    by (simp add: replay_total_posted)
qed

theorem transfers_conserve_money_witness:
  "totalFiatOutstanding (replayFiatLedger (map to_fiat_row (db_entries (hd (fold (fiat_step demo_env)
     [(OpAdjust 6 ''ADJ1'' ''root@pid'' \<lparr>ai_fromPid = ''ana@pid'', ai_toPid = ''bob@pid'', ai_amountIdr = ''500'',
         ai_reason = ''correction of a test'', ai_requestId = Some ''r1''\<rparr>, 0),
      (OpCancel ''ana@pid'' ''CT1'', 0)] [demo_db])))))
   = totalFiatOutstanding (replayFiatLedger (map to_fiat_row (db_entries demo_db)))"
  by (rule transfers_conserve_money) (simp_all add: moves_only_def)

end
