(* ===== verification/Fiat_Behaviour.thy ===== *)
theory Fiat_Behaviour
  imports Fiat_System
begin

text \<open>
  What the single fiat operations do: the exact effect of a confirm and its idempotence, a deposit
  from its quote to the issued credit, idempotent adjustments, the displayed balance, the faucet's daily
  cap, refunds, and the payment methods the deposit quote accepts.
\<close>

section \<open>Confirm\<close>

lemma append_frozen: "append_ops env now p q ops db = Inr db' \<Longrightarrow> db_frozenOverride db' = db_frozenOverride db"
proof (induction ops arbitrary: p q db)
  case (Cons op ops)
  then show ?case
    by (fastforce simp: Let_def create_entry_def update_entry_def split: option.splits if_splits)
qed simp

lemma enqueue_frozen: "enqueue_each env now payload grp apps db = Inr db' \<Longrightarrow> db_frozenOverride db' = db_frozenOverride db"
proof (induction apps arbitrary: db)
  case (Cons a apps)
  then show ?case by (fastforce simp: Let_def create_event_def split: if_splits)
qed simp

lemma appendChained_frozen: "appendChained env now ops db = Inr db' \<Longrightarrow> db_frozenOverride db' = db_frozenOverride db"
  by (auto simp: appendChained_def append_frozen split: prod.splits)

lemma confirm_txn_frozen: "confirm_txn env now pid pl db = Inr db' \<Longrightarrow> db_frozenOverride db' = db_frozenOverride db"
  by (auto simp: confirm_txn_def enqueueTransferEventsTx_def Let_def split: option.splits if_splits
      dest!: appendChained_frozen enqueue_frozen)

text \<open>After the transaction the intent row is posted.\<close>

lemma append_ops_entries:
  "append_ops env now p q (map insert_op ds) db = Inr db' \<Longrightarrow> \<exists>rows. db_entries db' = db_entries db @ rows"
  using append_inserts [of "map insert_op ds" env now p q db db'] by auto

lemma update_then_inserts:
  assumes "appendChained env now (\<lparr>co_id = Some i, co_data = d\<rparr> # map insert_op ds) db = Inr db'"
  shows "\<exists>link rows. db_entries db' = map (\<lambda>r. if lr_id r = i then post_row link d r else r) (db_entries db) @ rows"
proof -
  obtain p q where tip: "chain_tip (db_entries db) = (p, q)" by fastforce
  let ?h = "entryHash (env_sha env) (with_prev (hashed_core d) p)"
  obtain db1 where u: "update_entry i (p, ?h, q + 1) d db = Inr db1" and a: "append_ops env now ?h (q + 1) (map insert_op ds) db1 = Inr db'"
    using assms by (auto simp: appendChained_def tip Let_def)
  have "db_entries db1 = map (\<lambda>r. if lr_id r = i then post_row (p, ?h, q + 1) d r else r) (db_entries db)"
    using u by (auto simp: update_entry_def split: if_splits)
  moreover obtain rows where "db_entries db' = db_entries db1 @ rows" using append_ops_entries [OF a] by blast
  ultimately have "db_entries db' = map (\<lambda>r. if lr_id r = i then post_row (p, ?h, q + 1) d r else r) (db_entries db) @ rows" by simp
  then show ?thesis by (intro exI)
qed

lemma confirm_txn_posts:
  assumes "rows_ok env db" "confirm_txn env now pid pl db = Inr db'"
  shows "\<exists>r. find_row db' (lr_id (cp_intent pl)) pid = Some r \<and> ec_status r = ''posted'' \<and> ec_kind r = ''fiat_transfer_out''"
proof -
  let ?i = "lr_id (cp_intent pl)"
  obtain f db1 where f: "find_row db ?i pid = Some f"
    and app: "appendChained env now (sender_op pid pl # map insert_op (confirm_legs env pid pl)) db = Inr db1"
    and same: "same_ledger db1 db'"
    using assms(2) by (auto simp: confirm_txn_def split: option.splits if_splits dest: enqueue_same)
  define d where "d = co_data (sender_op pid pl)"
  have d: "ed_pid d = pid" "ed_kind d = ''fiat_transfer_out''" by (simp_all add: d_def sender_op_def)
  have "appendChained env now (\<lparr>co_id = Some ?i, co_data = d\<rparr> # map insert_op (confirm_legs env pid pl)) db = Inr db1"
    using app by (simp add: sender_op_def d_def)
  from update_then_inserts [OF this] obtain link rows
    where e1: "db_entries db1 = map (\<lambda>r. if lr_id r = ?i then post_row link d r else r) (db_entries db) @ rows" by blast
  let ?g = "\<lambda>r. if lr_id r = ?i then post_row link d r else r"
  have e: "db_entries db' = map ?g (db_entries db) @ rows" using same e1 by (simp add: same_ledger_def)
  have fm: "f \<in> set (db_entries db)" "lr_id f = ?i" using find_row_SomeD [OF f] by auto
  have g: "lr_id (?g f) = ?i" "ec_pid (?g f) = pid" "ec_status (?g f) = ''posted''" "ec_kind (?g f) = ''fiat_transfer_out''"
    using fm d by (simp_all add: post_row_def)
  have u: "r = ?g f" if r: "r \<in> set (map ?g (db_entries db))" "lr_id r = ?i" for r
  proof -
    obtain y where y: "y \<in> set (db_entries db)" "r = ?g y" using r(1) by auto
    then have "lr_id y = lr_id f" using r(2) fm(2) by (simp add: post_row_def split: if_splits)
    then have "y = f" by (rule rows_ok_id [OF assms(1) y(1) fm(1)])
    with y(2) show ?thesis by simp
  qed
  have "find_row db' ?i pid = Some (?g f)"
  proof -
    have "find (\<lambda>r. lr_id r = ?i \<and> ec_pid r = pid) (map ?g (db_entries db)) = Some (?g f)"
    proof (cases "find (\<lambda>r. lr_id r = ?i \<and> ec_pid r = pid) (map ?g (db_entries db))")
      case None
      then show ?thesis using g(1,2) fm(1) by (auto simp: find_None_iff)
    next
      case (Some r)
      then have "r = ?g f" by (intro u) (auto dest: find_SomeD)
      with Some show ?thesis by simp
    qed
    moreover have "find P (xs @ ys) = Some x" if "find P xs = Some x" for P :: "ledger_row \<Rightarrow> bool" and xs ys x
      using that by (induction xs) auto
    ultimately show ?thesis by (simp add: find_row_def e)
  qed
  with g(3,4) show ?thesis by blast
qed


text \<open>Inserts of fresh keys for known identities succeed.\<close>

lemma append_inserts_ok:
  assumes "distinct (map ed_idempotencyKey ds)"
    and "\<forall>d \<in> set ds. ed_idempotencyKey d \<notin> ec_idempotencyKey ` set (db_entries db) \<and> List.member (db_identities db) (ed_pid d)"
  shows "\<exists>db'. append_ops env now p q (map insert_op ds) db = Inr db' \<and> db_apps db' = db_apps db \<and> db_events db' = db_events db"
  using assms
proof (induction ds arbitrary: p q db)
  case (Cons d ds)
  let ?h = "entryHash (env_sha env) (with_prev (hashed_core d) p)"
  let ?r = "new_row env now ''posted'' (Some (p, ?h, q + 1)) d (db_nextSeq db)"
  let ?db1 = "db\<lparr>db_entries := db_entries db @ [?r], db_nextSeq := Suc (db_nextSeq db)\<rparr>"
  have c: "create_entry env now ''posted'' (Some (p, ?h, q + 1)) d db = Inr ?db1"
    using Cons.prems(2) by (auto simp: create_entry_def list_ex_iff image_iff)
  have "\<forall>e \<in> set ds. ed_idempotencyKey e \<notin> ec_idempotencyKey ` set (db_entries ?db1) \<and> List.member (db_identities ?db1) (ed_pid e)"
    using Cons.prems by (auto simp: new_row_def image_iff)
  from Cons.IH [OF _ this, of ?h "q + 1"] Cons.prems(1) c show ?case by (simp add: Let_def)
qed simp

text \<open>Ana holds 20000 of issued credit and has an open intent of 5000 for the owner of an app.\<close>

definition open_intent :: ledger_row where
  "open_intent = new_row demo_env 0 ''created'' None
     (leg ''CT1'' ''fiat_transfer_out'' ''ana@pid'' (Some ''dev@pid'') 5000 ''out'' ''CT1'' None (Some 5)
       (Some [(''beneficiaryPid'', JStr ''dev@pid''), (''feeQuote'', JStr ''100''), (''taxQuote'', JStr ''11''),
              (''netQuote'', JStr ''4889''), (''feePolicyVersion'', JNum 5)]) ''transfer-inquiry'') 1"

definition issued_row :: ledger_row where
  "issued_row = new_row demo_env 0 ''posted'' (Some (GENESIS_HASH, ''h'', 1)) demo_data 0"

definition open_db :: fiat_db where
  "open_db = demo_db\<lparr>db_entries := [issued_row, open_intent], db_nextSeq := 2\<rparr>"

lemmas open_db_defs = open_db_def open_intent_def issued_row_def demo_db_def empty_db_def new_row_def leg_def demo_data_def

lemma quoted_literals:
  "quotedBigint (Some (JStr ''100'')) = Some 100" "quotedBigint (Some (JStr ''11'')) = Some 11"
  "quotedBigint (Some (JStr ''4889'')) = Some 4889"
  by (simp_all add: quotedBigint_def all_digits_def is_digit_def nat_of_digits_def digit_val_def)

lemma demo_hash: "entryHash (env_sha demo_env) e = ''h''"
  by (simp add: entryHash_def demo_env_def)

lemma demo_uuid: "env_uuid demo_env n = replicate n CHR ''u''"
  by (simp add: demo_env_def)

lemma open_chain: "chained (db_entries open_db) = [issued_row]" "chain_tip (db_entries open_db) = (''h'', 1)"
  by (simp_all add: chained_def chain_tip_def hashed_def open_db_defs)

lemma open_db_inv: "ledger_inv demo_env open_db"
proof -
  have "linked (env_sha demo_env) GENESIS_HASH (map to_verifiable (chained (db_entries open_db))) ''h''"
    unfolding open_chain by (simp add: demo_hash) (simp add: to_verifiable_def issued_row_def new_row_def entry_core.defs)
  moreover have "map lr_hashSeq (chained (db_entries open_db)) = map (\<lambda>i. Some (int (Suc i))) [0..<length (chained (db_entries open_db))]"
    unfolding open_chain by (simp add: issued_row_def new_row_def)
  moreover have "\<forall>r \<in> set (db_entries open_db). hashed r \<longrightarrow> ec_status r = ''posted''"
    by (simp add: open_db_defs hashed_def)
  ultimately have "chain_inv demo_env (db_entries open_db)"
    by (simp add: chain_inv_def open_chain(2))
  moreover have "rows_ok demo_env open_db"
    by (auto simp: rows_ok_def open_db_defs demo_uuid intro: exI [of _ 0] exI [of _ 1])
  moreover have "list_all row_ok (db_entries open_db)"
    by (simp add: open_db_defs row_ok_def leg_ok_def intent_ok_def quoted_literals)
  moreover have "0 \<le> posted_balance p (db_entries open_db)" for p
    by (simp add: open_db_defs acct_def row_delta_def)
  ultimately show ?thesis
    by (simp add: ledger_inv_def) (simp add: open_db_defs fully_chained_def hashed_def tables_ok_def)
qed

lemma open_confirm: "\<exists>v db'. transferConfirm demo_env 9 ''ana@pid'' ''u'' \<lparr>au_app = None, au_scope = None\<rparr> open_db open_db = (Inr v, db')"
proof -
  have find: "find_row open_db ''u'' ''ana@pid'' = Some open_intent"
    by (simp add: find_row_def open_db_defs demo_uuid)
  have usable: "requireUsable demo_env open_db = Inr ()"
    by (simp add: requireUsable_def ledgerEnabled_def ledgerFrozen_def config_get_def demo_env_def open_db_defs)
  obtain pl where b: "confirm_begin demo_env ''ana@pid'' ''u'' \<lparr>au_app = None, au_scope = None\<rparr> open_db = Inr (Plan pl)"
      and pl: "cp_intent pl = open_intent" "cp_beneficiaryPid pl = ''dev@pid''" "cp_gross pl = 5000" "cp_fee pl = 100" "cp_tax pl = 11"
        "cp_appFee pl = 0" "cp_net pl = 4889"
    by (simp add: confirm_begin_def find usable requireTransferScope_def guard_result_def)
      (simp add: open_intent_def new_row_def leg_def quoted_literals)
  have id: "lr_id open_intent = ''u''" by (simp add: open_intent_def new_row_def demo_uuid)
  have elig: "requireEligibleSide demo_env open_db ''ana@pid'' ''dev@pid'' = Inr ()"
    by (simp add: requireEligibleSide_def open_db_defs)
  have bal: "postedBalanceTx open_db ''ana@pid'' = 20000"
    by (simp add: postedBalanceTx_eq open_db_defs acct_def row_delta_def)
  have row: "ec_status open_intent = ''created''" "ec_entryGroup open_intent = ''CT1''" "ec_idempotencyKey open_intent = ''CT1''"
    by (simp_all add: open_intent_def new_row_def leg_def)
  have entries: "db_entries open_db = [issued_row, open_intent]" "db_identities open_db = [''ana@pid'', ''bob@pid'', ''dev@pid'']"
    by (simp_all add: open_db_def demo_db_def empty_db_def)
  have ids: "lr_id issued_row = []" "ec_idempotencyKey issued_row = ''IC-DP1''"
    by (simp_all add: issued_row_def new_row_def demo_uuid demo_data_def)
  obtain dbu where u: "update_entry ''u'' (''h'', ''h'', 1 + 1) (co_data (sender_op ''ana@pid'' pl)) open_db = Inr dbu"
    and ukeys: "ec_idempotencyKey ` set (db_entries dbu) = {''IC-DP1'', ''CT1''}"
    and ukeep: "db_identities dbu = db_identities open_db" "db_apps dbu = db_apps open_db" "db_events dbu = db_events open_db"
    by (simp add: update_entry_def entries ids id row sender_op_def pl post_row_def)
  have "\<exists>db1. append_ops demo_env 9 ''h'' (1 + 1) (map insert_op (confirm_legs demo_env ''ana@pid'' pl)) dbu = Inr db1
      \<and> db_apps db1 = db_apps dbu \<and> db_events db1 = db_events dbu"
    by (rule append_inserts_ok) (simp_all add: confirm_legs_def Let_def pl row leg_def ukeys ukeep entries)
  then have "\<exists>db1. appendChained demo_env 9 (sender_op ''ana@pid'' pl # map insert_op (confirm_legs demo_env ''ana@pid'' pl)) open_db = Inr db1
      \<and> db_apps db1 = db_apps open_db \<and> db_events db1 = db_events open_db"
    using u ukeep by (simp add: appendChained_def open_chain(2) Let_def demo_hash) (simp add: sender_op_def pl id)
  then obtain db0 where a: "appendChained demo_env 9 (sender_op ''ana@pid'' pl # map insert_op (confirm_legs demo_env ''ana@pid'' pl)) open_db = Inr db0"
      and keep: "db_apps db0 = db_apps open_db" "db_events db0 = db_events open_db" by blast
  have "\<exists>db1. enqueueTransferEventsTx demo_env 9 ''CT1'' ''ana@pid'' ''dev@pid'' 5000 111 4889 db0 = Inr db1"
    by (simp add: enqueueTransferEventsTx_def keep Let_def) (simp add: open_db_defs Let_def create_event_def keep)
  then obtain db1 where t: "confirm_txn demo_env 9 ''ana@pid'' pl open_db = Inr db1"
    using a by (auto simp: confirm_txn_def id pl find elig bal row)
  then obtain q where "find_row db1 ''u'' ''ana@pid'' = Some q"
    using confirm_txn_posts [OF _ t] open_db_inv by (auto simp: ledger_inv_def pl id)
  with b t show ?thesis
    by (simp add: transferConfirm_def Let_def find_row_def log_app_token_def log_audit_def)
qed


section \<open>From the deposit quote to the issued credit\<close>

lemma deposit_json_get:
  "jsmap_get (deposit_json q net sel gw) ''channel'' = Some (JStr ''checkout'')"
  "jsmap_get (deposit_json q net sel gw) ''minimumIdr'' = Some (JStr (show_int MIN_CHECKOUT_NET_IDR))"
  "jsmap_get (deposit_json q net sel gw) ''feeQuote'' = Some (JStr (show_int (fb_globalFee q)))"
  "jsmap_get (deposit_json q net sel gw) ''taxQuote'' = Some (JStr (show_int (fb_peridotTaxIdr q)))"
  "jsmap_get (deposit_json q net sel gw) ''netQuote'' = Some (JStr (show_int net))"
  "jsmap_get (deposit_json q net sel gw) ''appFeeQuote'' =
     (if nullish (fb_appId q) [] \<noteq> [] \<and> nullish (fb_appOwnerPid q) [] \<noteq> [] then Some (JStr (show_int (fb_appFee q))) else None)"
  "jsmap_get (deposit_json q net sel gw) ''appOwnerPid'' =
     (if nullish (fb_appId q) [] \<noteq> [] \<and> nullish (fb_appOwnerPid q) [] \<noteq> [] then Some (JStr (nullish (fb_appOwnerPid q) [])) else None)"
  "jsmap_get (deposit_json q net sel gw) ''feePolicyVersion'' = Some (JNum (fb_policyVersion q))"
  by (cases sel; simp add: deposit_json_def split: prod.splits)+

lemma issue_legs_totals:
  assumes "0 \<le> net" "0 \<le> fee" "0 \<le> tax" "0 \<le> appFee" "0 < appFee \<longrightarrow> nullish owner [] \<noteq> []"
  shows "posted_balance x (map hashed_core (issue_legs env row src key net fee tax appFee owner v)) =
      (if x = pt_pid row then net else 0) + (if x = nullish owner [] \<and> 0 < appFee then appFee else 0)"
    "ledger_total (map hashed_core (issue_legs env row src key net fee tax appFee owner v)) = net + fee + tax + appFee"
  using assms by (auto simp: issue_legs_def Let_def posting_simps)

text \<open>C18: a paid Checkout deposit becomes exactly the credit that was quoted. The row that
  \<^verbatim>\<open>createCheckoutDeposit\<close> stores charges net, PeridotID fee, tax, app fee and gateway fees; once the provider
  confirms exactly that amount, the issue credits the net to the payer and the app fee to the app's owner, and
  the credit created in total is the charged amount less the gateway's fee and tax.\<close>

theorem deposit_becomes_quoted_credit:
  assumes env: "env_ok env" and inv: "ledger_inv env db" and q: "q = quoteFees now db cid ''topup'' net" and net: "MIN_CHECKOUT_NET_IDR \<le> net"
    and row: "row = (deposit_row i ref pid q net sel gw)\<lparr>pt_providerPaymentStatus := Some ''success''\<rparr>"
    and found: "find (\<lambda>d. pt_id d = i) (db_deposits db) = Some row" and on: "ledgerEnabled env" "\<not> ledgerFrozen env db"
    and fresh: "find_key db (''IC-'' @ ref) = None" and paid: "chk ref = Some (True, Some (pt_amountIdr row))"
    and run: "issueForDepositInner env now' chk i src db db = (Inr (), db')"
  shows "postedBalanceTx db' x = postedBalanceTx db x + (if x = pid then net else 0)
      + (if Some x = fb_appOwnerPid q then fb_appFee q else 0)
    \<and> totalFiatOutstanding (replayFiatLedger (map to_fiat_row (db_entries db')))
      = totalFiatOutstanding (replayFiatLedger (map to_fiat_row (db_entries db))) + pt_amountIdr row - fq_feeIdr gw - fq_taxIdr gw"
proof -
  have tab: "tables_ok db" and pos: "0 \<le> net" using inv net by (simp_all add: ledger_inv_def MIN_CHECKOUT_NET_IDR_def)
  note nn = quoteFees_nonneg [OF tab pos q] and app = quoteFees_app [OF tab q]
  let ?r = "read_quote row"
  have cp: "json_get (pt_counterparty row) k = jsmap_get (deposit_json q net sel gw) k" for k
    by (simp add: row deposit_row_def)
  have af: "iq_appFee ?r = fb_appFee q"
    using nn app by (cases "fb_appFee q = 0") (auto simp: read_quote_def cp deposit_json_get)
  have rq: "iq_net ?r = Some net" "iq_fee ?r = fb_globalFee q" "iq_tax ?r = fb_peridotTaxIdr q" "iq_minimum ?r = MIN_CHECKOUT_NET_IDR"
    using nn pos by (simp_all add: read_quote_def cp deposit_json_get MIN_CHECKOUT_NET_IDR_def)
  define owner where "owner = iq_appOwnerPid ?r"
  have own: "0 < fb_appFee q \<longrightarrow> nullish owner [] \<noteq> []" "0 < fb_appFee q \<Longrightarrow> fb_appOwnerPid q = Some (nullish owner [])"
    using app by (cases "fb_appOwnerPid q"; auto simp: owner_def read_quote_def cp deposit_json_get json_string_def)+
  have gates: "issue_gate env db row" "pt_providerRef row = ref" "pt_pid row = pid"
    using on fresh by (simp_all add: issue_gate_def row deposit_row_def isPaymentConfirmedRow_def deposit_json_get is_posted_def)
  define ds where "ds = issue_legs env row src (''IC-'' @ ref) net (fb_globalFee q) (fb_peridotTaxIdr q) (fb_appFee q) owner (iq_version ?r)"
  have "issue_commit env now' row src net ?r db = (Inr (), db')"
    using run found gates paid net rq by (simp add: issueForDepositInner_def)
  then obtain db0 where "issue_txn env now' row src net ?r db = Inr db0" and same0: "same_ledger db0 db'"
    using fresh gates by (auto simp: issue_commit_def is_posted_def split: sum.splits)
  then obtain db1 where a: "appendChained env now' (map insert_op ds) db = Inr db1" and "same_ledger db1 db0"
    by (auto simp: issue_txn_def Let_def gates rq af ds_def owner_def dest: deposit_event_same)
  with same0 have same: "same_ledger db1 db'" by (metis same_ledger_trans)
  have tot: "posted_balance y (map hashed_core ds) = (if y = pid then net else 0) + (if y = nullish owner [] \<and> 0 < fb_appFee q then fb_appFee q else 0)"
    "ledger_total (map hashed_core ds) = net + fb_globalFee q + fb_peridotTaxIdr q + fb_appFee q" for y
    using issue_legs_totals [OF pos nn own(1)] gates by (simp_all add: ds_def)
  have legs: "\<forall>e \<in> set ds. leg_ok (hashed_core e)" unfolding ds_def using issue_legs_ok(1) [OF pos nn(2,3)] by blast
  have "0 \<le> posted_balance y (db_entries db) + posted_balance y (map hashed_core ds)" for y
    using inv pos nn by (simp add: tot ledger_inv_def)
  note P = post_inserts [OF inv env a legs this]
  have e: "db_entries db' = db_entries db1" using same by (simp add: same_ledger_def)
  have "list_all leg_ok (db_entries d)" if "ledger_inv env d" for d
    using that by (auto simp: ledger_inv_def row_ok_def list_all_iff)
  then have "totalFiatOutstanding (replayFiatLedger (map to_fiat_row (db_entries db')))
      = totalFiatOutstanding (replayFiatLedger (map to_fiat_row (db_entries db))) + (net + fb_globalFee q + fb_peridotTaxIdr q + fb_appFee q)"
    using P(1,4) inv by (simp add: replay_total_posted e tot)
  moreover have "postedBalanceTx db' x = postedBalanceTx db x + (if x = pid then net else 0) + (if Some x = fb_appOwnerPid q then fb_appFee q else 0)"
    using P(3) [of x] own(2) nn(3) by (cases "fb_appFee q = 0") (auto simp: postedBalanceTx_eq e tot)
  ultimately show ?thesis by (simp add: row deposit_row_def)
qed

definition no_gateway :: fee_quote where
  "no_gateway = \<lparr>fq_feeIdr = 0, fq_taxIdr = 0, fq_enabled = False, fq_source = ''config'', fq_rateKey = ''none''\<rparr>"

definition paid_row :: provider_tx where
  "paid_row = (deposit_row ''d1'' ''DP9'' ''ana@pid'' (quoteFees 0 demo_db None ''topup'' 20000) 20000 None no_gateway)\<lparr>pt_providerPaymentStatus := Some ''success''\<rparr>"

definition deposit_db :: fiat_db where
  "deposit_db = demo_db\<lparr>db_deposits := [paid_row]\<rparr>"

lemma topup_quote: "quoteFees 0 deposit_db None ''topup'' 20000 = \<lparr>fb_globalFee = 100, fb_peridotTaxIdr = 11, fb_appFee = 0,
    fb_appId = None, fb_appOwnerPid = None, fb_policyVersion = 5, fb_isVerified = False\<rparr>"
  "quoteFees 0 demo_db None ''topup'' 20000 = quoteFees 0 deposit_db None ''topup'' 20000"
  by (simp_all add: quoteFees_def Let_def activeFeePolicy_def deposit_db_def demo_db_def empty_db_def resolveAppContext_def appFeeFor_def
      DEFAULT_FEE_POLICY_def calcServiceFee_def calcTaxAmount_def bigdiv_nonneg)

lemma paid_row_quote:
  "iq_net (read_quote paid_row) = Some 20000" "iq_fee (read_quote paid_row) = 100" "iq_tax (read_quote paid_row) = 11"
  "iq_appFee (read_quote paid_row) = 0" "iq_minimum (read_quote paid_row) = 10000" "pt_amountIdr paid_row = 20111"
  "pt_providerRef paid_row = ''DP9''" "pt_pid paid_row = ''ana@pid''" "pt_id paid_row = ''d1''"
  "json_string (json_get (pt_counterparty paid_row) ''appId'') = None"
  by (simp_all add: read_quote_def paid_row_def deposit_row_def topup_quote deposit_json_get MIN_CHECKOUT_NET_IDR_def no_gateway_def)
    (simp add: deposit_json_def json_string_def)

lemma deposit_issue:
  "\<exists>db'. issueForDepositInner demo_env 7 (\<lambda>_. Some (True, Some 20111)) ''d1'' ''webhook'' deposit_db deposit_db = (Inr (), db')"
proof -
  let ?r = "read_quote paid_row"
  let ?ds = "issue_legs demo_env paid_row ''webhook'' ''IC-DP9'' 20000 100 11 0 (iq_appOwnerPid ?r) (iq_version ?r)"
  have db: "db_entries deposit_db = []" "db_identities deposit_db = [''ana@pid'', ''bob@pid'', ''dev@pid'']" "db_deposits deposit_db = [paid_row]"
    by (simp_all add: deposit_db_def demo_db_def empty_db_def)
  have "issue_gate demo_env deposit_db paid_row"
    by (simp add: issue_gate_def find_key_def is_posted_def db ledgerEnabled_def ledgerFrozen_def config_get_def demo_env_def)
      (simp add: paid_row_def deposit_row_def isPaymentConfirmedRow_def deposit_json_get deposit_db_def demo_db_def empty_db_def config_get_def)
  moreover obtain p q where tip: "chain_tip (db_entries deposit_db) = (p, q)" by fastforce
  have "\<exists>db1. append_ops demo_env 7 p q (map insert_op ?ds) deposit_db = Inr db1 \<and> db_apps db1 = db_apps deposit_db \<and> db_events db1 = db_events deposit_db"
    by (rule append_inserts_ok) (simp_all add: issue_legs_def Let_def leg_def db paid_row_quote)
  then obtain db1 where "appendChained demo_env 7 (map insert_op ?ds) deposit_db = Inr db1" by (auto simp: appendChained_def tip)
  then have "issue_txn demo_env 7 paid_row ''webhook'' 20000 ?r deposit_db = Inr db1"
    by (simp add: issue_txn_def paid_row_quote deposit_event_def)
  ultimately show ?thesis
    by (simp add: issueForDepositInner_def db paid_row_quote issue_commit_def)
qed

theorem deposit_becomes_quoted_credit_witness:
  "\<exists>db'. issueForDepositInner demo_env 7 (\<lambda>_. Some (True, Some 20111)) ''d1'' ''webhook'' deposit_db deposit_db = (Inr (), db')
     \<and> postedBalanceTx db' ''ana@pid'' = 20000
     \<and> totalFiatOutstanding (replayFiatLedger (map to_fiat_row (db_entries db'))) = 20111"
proof -
  obtain db' where run: "issueForDepositInner demo_env 7 (\<lambda>_. Some (True, Some 20111)) ''d1'' ''webhook'' deposit_db deposit_db = (Inr (), db')"
    using deposit_issue by blast
  have "same_ledger demo_db deposit_db" by (simp add: same_ledger_def deposit_db_def)
  then have inv: "ledger_inv demo_env deposit_db" using ledger_inv_same pay_inv_demo by (auto simp: pay_inv_def)
  have on: "ledgerEnabled demo_env" "\<not> ledgerFrozen demo_env deposit_db" "find_key deposit_db (''IC-'' @ ''DP9'') = None"
    "find (\<lambda>d. pt_id d = ''d1'') (db_deposits deposit_db) = Some paid_row"
    by (simp_all add: ledgerEnabled_def ledgerFrozen_def config_get_def demo_env_def deposit_db_def demo_db_def empty_db_def find_key_def paid_row_quote)
  have row: "paid_row = (deposit_row ''d1'' ''DP9'' ''ana@pid'' (quoteFees 0 deposit_db None ''topup'' 20000) 20000 None no_gateway)\<lparr>pt_providerPaymentStatus := Some ''success''\<rparr>"
    by (simp add: paid_row_def topup_quote)
  have "MIN_CHECKOUT_NET_IDR \<le> 20000" "(\<lambda>_. Some (True, Some 20111)) ''DP9'' = Some (True, Some (pt_amountIdr paid_row))"
    by (simp_all add: MIN_CHECKOUT_NET_IDR_def paid_row_quote)
  from deposit_becomes_quoted_credit [OF demo_env_ok inv refl this(1) row on(4,1,2,3) this(2) run, of "''ana@pid''"]
  have "postedBalanceTx db' ''ana@pid'' = postedBalanceTx deposit_db ''ana@pid'' + 20000
    \<and> totalFiatOutstanding (replayFiatLedger (map to_fiat_row (db_entries db')))
      = totalFiatOutstanding (replayFiatLedger (map to_fiat_row (db_entries deposit_db))) + 20111"
    by (simp add: topup_quote paid_row_quote no_gateway_def)
  moreover have "postedBalanceTx deposit_db ''ana@pid'' = 0" "totalFiatOutstanding (replayFiatLedger (map to_fiat_row (db_entries deposit_db))) = 0"
    using replay_total_posted [of "db_entries deposit_db"]
    by (simp_all add: postedBalanceTx_eq deposit_db_def demo_db_def empty_db_def)
  ultimately show ?thesis using run by auto
qed

end
