(* ===== verification/Xp_Curve.thy ===== *)
theory Xp_Curve
  imports Prelude Complex_Main
begin

text \<open>
  The level curve of \<^verbatim>\<open>experience/xp-curve.ts\<close>: the XP from one level to the next,
  cumulative thresholds with overrides, the level of a total and the progress inside a level.
  The exponent of a formula is the fraction \<open>fo_num / fo_den\<close> (the default 1.5 is 3/2), and
  \<^verbatim>\<open>Math.floor(base * Math.pow(level, exponent))\<close> is computed on integers: the largest \<open>r\<close> with
  \<open>r ^ den \<le> base ^ den * level ^ num\<close>. The doubles of the source agree with it as long as rounding does not
  cross an integer; the last section proves the reference values the tests of the source fix.
\<close>

section \<open>Integer roots\<close>

text \<open>The largest \<open>r\<close> with \<open>r ^ q \<le> n\<close>, one binary digit per call.\<close>

function iroot :: "nat \<Rightarrow> nat \<Rightarrow> nat" where
  "iroot q n =
     (if q = 0 \<or> n = 0 then 0
      else let r = 2 * iroot q (n div 2 ^ q) in if (r + 1) ^ q \<le> n then r + 1 else r)"
  by auto
termination
proof (relation "measure snd")
  fix q n :: nat
  assume "\<not> (q = 0 \<or> n = 0)"
  then have "1 < (2::nat) ^ q" by (intro one_less_power) auto
  with \<open>\<not> (q = 0 \<or> n = 0)\<close> show "((q, n div 2 ^ q), (q, n)) \<in> measure snd" by simp
qed simp

declare iroot.simps [simp del]

lemma iroot_bounds: "0 < q \<Longrightarrow> iroot q n ^ q \<le> n \<and> n < (iroot q n + 1) ^ q"
proof (induction q n rule: iroot.induct)
  case (1 q n)
  show ?case
  proof (cases "n = 0")
    case True
    with \<open>0 < q\<close> show ?thesis by (simp add: iroot.simps [of q 0])
  next
    case False
    let ?s = "iroot q (n div 2 ^ q)"
    have IH: "?s ^ q \<le> n div 2 ^ q" "n div 2 ^ q < (?s + 1) ^ q"
      using 1 False by auto
    have "?s ^ q * 2 ^ q \<le> n"
      using IH(1) by (meson div_times_less_eq_dividend le_trans mult_le_mono1)
    then have lo: "(2 * ?s) ^ q \<le> n" by (simp add: power_mult_distrib mult.commute)
    have "n < (n div 2 ^ q + 1) * 2 ^ q"
      by (simp add: dividend_less_div_times)
    also have "\<dots> \<le> (?s + 1) ^ q * 2 ^ q" using IH(2) by (intro mult_le_mono1) simp
    also have "\<dots> = (2 * ?s + 2) ^ q" by (simp add: power_mult_distrib [symmetric] algebra_simps)
    finally have "n < (2 * ?s + 2) ^ q" .
    with lo False \<open>0 < q\<close> show ?thesis
      by (simp add: iroot.simps [of q n] Let_def)
  qed
qed

text \<open>Evaluation on numerals.\<close>

lemma iroot_one: "0 < q \<Longrightarrow> iroot q (Suc 0) = 1"
  using one_less_power [of "2::nat" q] by (simp add: iroot.simps [of q "Suc 0"] iroot.simps [of q 0] div_less)

lemma iroot_eval [js_simps]:
  "iroot q 0 = 0"
  "iroot (numeral k) (Suc 0) = 1"
  "iroot (numeral k) (numeral n) =
     (let r = 2 * iroot (numeral k) (numeral n div 2 ^ numeral k) in if (r + 1) ^ numeral k \<le> numeral n then r + 1 else r)"
  by (simp_all add: iroot.simps [of q 0] iroot_one iroot.simps [of "numeral k" "numeral n"])

section \<open>The formula\<close>

record xp_formula =
  fo_base :: nat
  fo_num :: nat
  fo_den :: nat

definition DEFAULT_FORMULA :: xp_formula where
  "DEFAULT_FORMULA = \<lparr>fo_base = 100, fo_num = 3, fo_den = 2\<rparr>"

definition DEFAULT_MAX_LEVEL :: int where
  "DEFAULT_MAX_LEVEL = 100"

text \<open>\<^verbatim>\<open>Math.floor(formula.base * Math.pow(level, formula.exponent))\<close>.\<close>

definition advance :: "xp_formula \<Rightarrow> nat \<Rightarrow> int" where
  "advance f level = int (iroot (fo_den f) (fo_base f ^ fo_den f * level ^ fo_num f))"

definition xpToAdvance :: "int \<Rightarrow> xp_formula \<Rightarrow> int result" where
  "xpToAdvance level f =
     (if level < 1 then Inl (JsError (''Invalid level: '' @ show_int level)) else Inr (advance f (nat level)))"

text \<open>The loop \<open>for (l = 1; l < level; l++) total += xpToAdvance(l)\<close>.\<close>

fun cumulative :: "xp_formula \<Rightarrow> nat \<Rightarrow> int" where
  "cumulative f 0 = 0"
| "cumulative f (Suc n) = cumulative f n + advance f (Suc n)"

definition cumulativeXpForLevel :: "int \<Rightarrow> xp_formula \<Rightarrow> int result" where
  "cumulativeXpForLevel level f =
     (if level < 1 then Inl (JsError (''Invalid level: '' @ show_int level)) else Inr (cumulative f (nat (level - 1))))"

record level_threshold =
  th_level :: int
  th_cumulativeXp :: int

fun broken_at :: "level_threshold list \<Rightarrow> int option" where
  "broken_at (a # b # rows) = (if th_cumulativeXp b < th_cumulativeXp a then Some (th_level b) else broken_at (b # rows))"
| "broken_at _ = None"

definition threshold_row :: "xp_formula \<Rightarrow> (int, int) jsmap \<Rightarrow> nat \<Rightarrow> level_threshold" where
  "threshold_row f overrides i =
     \<lparr>th_level = int i, th_cumulativeXp = nullish (jsmap_get overrides (int i)) (cumulative f (i - 1))\<rparr>"

definition buildThresholds :: "int \<Rightarrow> xp_formula \<Rightarrow> (int, int) jsmap \<Rightarrow> level_threshold list result" where
  "buildThresholds maxLevel f overrides =
     (if maxLevel < 1 then Inl (JsError (''Invalid maxLevel: '' @ show_int maxLevel))
      else let rows = map (threshold_row f overrides) [1..<Suc (nat maxLevel)]
        in case broken_at rows of
             Some l \<Rightarrow> Inl (JsError (''Threshold override breaks monotonicity at level '' @ show_int l))
           | None \<Rightarrow> Inr rows)"

fun level_loop :: "int \<Rightarrow> int \<Rightarrow> level_threshold list \<Rightarrow> int" where
  "level_loop xp level [] = level"
| "level_loop xp level (row # rows) = (if xp \<ge> th_cumulativeXp row then level_loop xp (th_level row) rows else level)"

definition levelFromXp :: "int \<Rightarrow> level_threshold list \<Rightarrow> int result" where
  "levelFromXp totalXp thresholds =
     (if totalXp < 0 then Inl (JsError (''Invalid totalXp: '' @ show_int totalXp)) else Inr (level_loop totalXp 1 thresholds))"

text \<open>\<open>lp_hundredths\<close> is \<^verbatim>\<open>Math.round(pct * 100)\<close>, the percentage in hundredths.\<close>

record level_progress =
  lp_level :: int
  lp_currentLevelXp :: int
  lp_nextLevelXp :: "int option"
  lp_hundredths :: int

text \<open>\<^verbatim>\<open>new Map(thresholds.map(...))\<close>: a later row of the same level wins.\<close>

definition by_level :: "level_threshold list \<Rightarrow> (int, int) jsmap" where
  "by_level thresholds = fold (\<lambda>t. jsmap_set (th_level t) (th_cumulativeXp t)) thresholds []"

definition progressFor :: "int \<Rightarrow> int \<Rightarrow> level_threshold list \<Rightarrow> level_progress" where
  "progressFor xp level thresholds =
     (let current = nullish (jsmap_get (by_level thresholds) level) 0
      in case jsmap_get (by_level thresholds) (level + 1) of
           None \<Rightarrow> \<lparr>lp_level = level, lp_currentLevelXp = current, lp_nextLevelXp = None, lp_hundredths = 10000\<rparr>
         | Some next_xp \<Rightarrow>
             let span = next_xp - current;
                 pct = (if span \<le> 0 then 10000 else min 10000 (max 0 ((2 * (xp - current) * 10000 + span) div (2 * span))))
             in \<lparr>lp_level = level, lp_currentLevelXp = current, lp_nextLevelXp = Some next_xp, lp_hundredths = pct\<rparr>)"

definition xpToJsonNumber :: "int \<Rightarrow> string \<Rightarrow> int result" where
  "xpToJsonNumber v field =
     (if \<bar>v\<bar> > max_safe_integer then Inl (JsError (''XP total out of JSON-safe range ('' @ field @ '')'')) else Inr v)"

section \<open>Properties of the curve\<close>

lemma cumulative_eval [js_simps]:
  "cumulative f (numeral k) = cumulative f (pred_numeral k) + advance f (numeral k)"
  by (simp add: numeral_eq_Suc)

lemma advance_bounds:
  assumes "0 < fo_den f"
  shows "nat (advance f l) ^ fo_den f \<le> fo_base f ^ fo_den f * l ^ fo_num f"
    and "fo_base f ^ fo_den f * l ^ fo_num f < (nat (advance f l) + 1) ^ fo_den f"
  using iroot_bounds [OF assms, of "fo_base f ^ fo_den f * l ^ fo_num f"] by (simp_all add: advance_def)

lemma advance_ge_base:
  assumes "0 < fo_den f" "0 < l"
  shows "int (fo_base f) \<le> advance f l"
proof (rule ccontr)
  assume "\<not> ?thesis"
  then have "nat (advance f l) + 1 \<le> fo_base f" by (simp add: advance_def)
  then have "(nat (advance f l) + 1) ^ fo_den f \<le> fo_base f ^ fo_den f * 1" by (simp add: power_mono)
  also have "\<dots> \<le> fo_base f ^ fo_den f * l ^ fo_num f"
    using assms(2) by (intro mult_le_mono2) simp
  finally show False using advance_bounds(2) [OF assms(1), of l] by simp
qed

lemma cumulative_strict:
  "0 < fo_den f \<Longrightarrow> 0 < fo_base f \<Longrightarrow> m < n \<Longrightarrow> cumulative f m < cumulative f n"
proof (induction n)
  case (Suc n)
  have "0 < advance f (Suc n)" using advance_ge_base [of f "Suc n"] Suc.prems by simp
  with Suc show ?case by (cases "m = n") auto
qed simp

lemma cumulative_mono:
  "0 < fo_den f \<Longrightarrow> m \<le> n \<Longrightarrow> cumulative f m \<le> cumulative f n"
proof (induction n)
  case (Suc n)
  have "0 \<le> advance f (Suc n)" by (simp add: advance_def)
  with Suc show ?case by (cases "m = Suc n") auto
qed simp

lemma broken_at_None:
  "broken_at rows = None \<longleftrightarrow> sorted (map th_cumulativeXp rows)"
proof (induction rows rule: broken_at.induct)
  case (1 a b rows)
  then show ?case by auto
qed auto

text \<open>The level loop stops at the last row whose threshold is met, on sorted rows.\<close>

lemma level_loop_takeWhile:
  "level_loop xp level rows =
     (case rev (takeWhile (\<lambda>r. th_cumulativeXp r \<le> xp) rows) of [] \<Rightarrow> level | r # _ \<Rightarrow> th_level r)"
proof (induction rows arbitrary: level)
  case (Cons r rows)
  then show ?case
    by (cases "takeWhile (\<lambda>r. th_cumulativeXp r \<le> xp) rows" rule: rev_cases) auto
qed simp

lemma level_loop_count:
  assumes rows: "rows = map g [1..<Suc m]" and lev: "\<And>i. th_level (g i) = int i"
  shows "level_loop xp 1 rows = int (max 1 (length (takeWhile (\<lambda>r. th_cumulativeXp r \<le> xp) rows)))"
proof -
  let ?t = "takeWhile (\<lambda>r. th_cumulativeXp r \<le> xp) rows"
  show ?thesis
  proof (cases ?t rule: rev_cases)
    case Nil
    then show ?thesis by (simp add: level_loop_takeWhile)
  next
    case (snoc ys y)
    then have len: "length ?t = Suc (length ys)" "length ?t \<le> m"
      using length_takeWhile_le [of "\<lambda>r. th_cumulativeXp r \<le> xp" rows] by (simp_all add: rows del: upt_Suc)
    have "y = ?t ! length ys" by (simp add: snoc)
    also have "\<dots> = rows ! length ys" using len by (simp add: takeWhile_nth)
    also have "\<dots> = g (Suc (length ys))" using len by (simp add: rows del: upt_Suc)
    finally show ?thesis using snoc len lev by (simp add: level_loop_takeWhile)
  qed
qed

lemma build_rows:
  assumes "buildThresholds m f overrides = Inr rows"
  shows "1 \<le> m" "rows = map (threshold_row f overrides) [1..<Suc (nat m)]" "sorted (map th_cumulativeXp rows)"
  using assms broken_at_None
  by (auto simp: buildThresholds_def Let_def simp del: upt_Suc split: if_splits option.splits)

lemma build_formula_ok:
  assumes "0 < fo_den f" "1 \<le> m"
  shows "buildThresholds m f [] = Inr (map (threshold_row f []) [1..<Suc (nat m)])"
proof -
  have "sorted (map th_cumulativeXp (map (threshold_row f []) [1..<Suc (nat m)]))"
    using cumulative_mono [OF assms(1)]
    by (auto simp: sorted_iff_nth_mono threshold_row_def simp del: upt_Suc)
  then have "broken_at (map (threshold_row f []) [1..<Suc (nat m)]) = None" by (simp only: broken_at_None)
  with assms(2) show ?thesis by (simp add: buildThresholds_def Let_def del: upt_Suc)
qed

lemma level_of_rows:
  assumes build: "buildThresholds m f overrides = Inr rows" and "0 \<le> xp"
  shows "levelFromXp xp rows = Inr (int (max 1 (length (takeWhile (\<lambda>r. th_cumulativeXp r \<le> xp) rows))))"
proof -
  have "level_loop xp 1 rows = int (max 1 (length (takeWhile (\<lambda>r. th_cumulativeXp r \<le> xp) rows)))"
    by (rule level_loop_count [OF build_rows(2) [OF build]]) (simp add: threshold_row_def)
  with assms(2) show ?thesis by (simp add: levelFromXp_def)
qed

text \<open>Which rows the loop passes: row \<open>i\<close> (of level \<open>i + 1\<close>) is passed exactly when its threshold is met.\<close>

lemma passed_iff:
  assumes "sorted (map f rows)" "i < length rows"
  shows "i < length (takeWhile (\<lambda>r. f r \<le> xp) rows) \<longleftrightarrow> f (rows ! i) \<le> (xp :: int)"
proof
  show "f (rows ! i) \<le> xp" if "i < length (takeWhile (\<lambda>r. f r \<le> xp) rows)"
    using that nth_mem [OF that] by (auto simp: takeWhile_nth dest: set_takeWhileD)
  show "i < length (takeWhile (\<lambda>r. f r \<le> xp) rows)" if met: "f (rows ! i) \<le> xp"
  proof (rule ccontr)
    let ?n = "length (takeWhile (\<lambda>r. f r \<le> xp) rows)"
    assume "\<not> i < ?n"
    then have "?n < length rows" "?n \<le> i" using assms(2) by auto
    then have "\<not> f (rows ! ?n) \<le> xp" using nth_length_takeWhile by blast
    moreover have "f (rows ! ?n) \<le> f (rows ! i)"
      using assms \<open>?n \<le> i\<close> \<open>?n < length rows\<close> by (auto simp: sorted_iff_nth_mono)
    ultimately show False using met by simp
  qed
qed

lemma build_nth:
  assumes "buildThresholds m f overrides = Inr rows" "i < length rows"
  shows "th_level (rows ! i) = int (Suc i)" "length rows = nat m"
  using build_rows [OF assms(1)] assms(2) by (simp_all add: threshold_row_def del: upt_Suc)

section \<open>Claims\<close>

text \<open>The XP needed to leave a level is the documented formula, the floor of
  \<^verbatim>\<open>base * level ^ exponent\<close> over the real numbers, for every formula and level.\<close>

lemma xp_advance_is_floor:
  assumes den: "0 < fo_den f" and lev: "1 \<le> level"
  shows "xpToAdvance level f = Inr \<lfloor>real (fo_base f) * real_of_int level powr (real (fo_num f) / real (fo_den f))\<rfloor>"
proof -
  let ?l = "nat level" and ?x = "real (fo_base f) * real_of_int level powr (real (fo_num f) / real (fo_den f))"
  obtain r where r: "advance f ?l = int r" by (simp add: advance_def)
  have pos: "0 < real_of_int level" "0 \<le> ?x" using lev by auto
  have "?x ^ fo_den f = real (fo_base f) ^ fo_den f * (real_of_int level powr (real (fo_num f) / real (fo_den f))) ^ fo_den f"
    by (simp add: power_mult_distrib)
  also have "(real_of_int level powr (real (fo_num f) / real (fo_den f))) ^ fo_den f = real_of_int level powr real (fo_num f)"
    using den pos(1) by (simp add: powr_power)
  also have "\<dots> = real ?l ^ fo_num f" using lev by (simp add: powr_realpow)
  finally have x: "?x ^ fo_den f = real (fo_base f ^ fo_den f * ?l ^ fo_num f)" by simp
  have "real r ^ fo_den f \<le> ?x ^ fo_den f"
    unfolding x using advance_bounds(1) [OF den, of ?l] by (simp add: r flip: of_nat_power of_nat_mult)
  then have lo: "real r \<le> ?x" using den pos(2) by (simp add: power_mono_iff)
  have "?x ^ fo_den f < real (r + 1) ^ fo_den f"
    unfolding x using advance_bounds(2) [OF den, of ?l] by (simp add: r flip: of_nat_power of_nat_mult of_nat_Suc)
  then have "?x < real (r + 1)" by (rule power_less_imp_less_base) simp
  with lo have "\<lfloor>?x\<rfloor> = int r" by (intro floor_unique) simp_all
  then show ?thesis using lev r by (simp add: xpToAdvance_def)
qed

text \<open>C33: the level of a total is the highest level whose threshold is met. For any thresholds the builder
  accepts, overrides included, every level up to the result has its threshold met (level 1 always
  counts) and every level above it has not.\<close>

theorem level_is_highest_met:
  assumes build: "buildThresholds m f overrides = Inr rows" and xp: "0 \<le> xp"
  shows "\<exists>L. levelFromXp xp rows = Inr L \<and> 1 \<le> L \<and> L \<le> m
    \<and> list_all (\<lambda>r. if th_level r \<le> L then th_level r = 1 \<or> th_cumulativeXp r \<le> xp else xp < th_cumulativeXp r) rows"
proof -
  let ?n = "length (takeWhile (\<lambda>r. th_cumulativeXp r \<le> xp) rows)"
  have m: "1 \<le> m" "length rows = nat m" using build_rows [OF build] by simp_all
  have "?n \<le> length rows" by (rule length_takeWhile_le)
  moreover have "list_all (\<lambda>r. if th_level r \<le> int (max 1 ?n) then th_level r = 1 \<or> th_cumulativeXp r \<le> xp else xp < th_cumulativeXp r) rows"
    unfolding list_all_length
  proof (intro allI impI)
    fix i assume i: "i < length rows"
    from passed_iff [OF build_rows(3) [OF build] i, of xp] build_nth(1) [OF build i]
    show "if th_level (rows ! i) \<le> int (max 1 ?n) then th_level (rows ! i) = 1 \<or> th_cumulativeXp (rows ! i) \<le> xp
      else xp < th_cumulativeXp (rows ! i)"
      by (cases "i < ?n") auto
  qed
  ultimately show ?thesis
    using m level_of_rows [OF build xp] by (intro exI [of _ "int (max 1 ?n)"]) auto
qed

theorem level_is_highest_met_witness:
  "\<exists>rows L. buildThresholds 5 DEFAULT_FORMULA [(3, 400)] = Inr rows \<and> levelFromXp 399 rows = Inr L \<and> 1 \<le> L \<and> L \<le> 5
    \<and> list_all (\<lambda>r. if th_level r \<le> L then th_level r = 1 \<or> th_cumulativeXp r \<le> 399 else 399 < th_cumulativeXp r) rows"
proof -
  have levels: "[Suc 0..<6] = [1, 2, 3, 4, 5]" by code_simp
  have "\<exists>rows. buildThresholds 5 DEFAULT_FORMULA [(3, 400)] = Inr rows"
    by (rule exI [of _ "[\<lparr>th_level = 1, th_cumulativeXp = 0\<rparr>, \<lparr>th_level = 2, th_cumulativeXp = 100\<rparr>, \<lparr>th_level = 3, th_cumulativeXp = 400\<rparr>,
       \<lparr>th_level = 4, th_cumulativeXp = 901\<rparr>, \<lparr>th_level = 5, th_cumulativeXp = 1701\<rparr>]"])
      (simp add: buildThresholds_def Let_def threshold_row_def levels advance_def DEFAULT_FORMULA_def js_simps)
  then obtain rows where rows: "buildThresholds 5 DEFAULT_FORMULA [(3, 400)] = Inr rows" ..
  have "(0::int) \<le> 399" by simp
  from level_is_highest_met [OF rows this] rows show ?thesis by blast
qed

text \<open>Thresholds and levels are inverse on the formula. For a formula with a positive base the builder
  accepts every maximum level, a total equal to the threshold of a level is at that level, and one XP less
  is at the level below.\<close>

lemma threshold_round_trip:
  assumes f: "0 < fo_den f" "0 < fo_base f" and L: "1 \<le> L" "L \<le> m"
  shows "\<exists>rows c. buildThresholds m f [] = Inr rows \<and> cumulativeXpForLevel L f = Inr c
    \<and> levelFromXp c rows = Inr L \<and> (1 < L \<longrightarrow> levelFromXp (c - 1) rows = Inr (L - 1))"
proof -
  define rows where "rows = map (threshold_row f []) [1..<Suc (nat m)]"
  define c where "c = cumulative f (nat (L - 1))"
  have build: "buildThresholds m f [] = Inr rows" using build_formula_ok [OF f(1)] L by (simp add: rows_def)
  have c0: "0 \<le> c" using cumulative_mono [OF f(1), of 0 "nat (L - 1)"] by (simp add: c_def)
  have key: "length (takeWhile (\<lambda>r. th_cumulativeXp r \<le> x) rows) = k"
    if "k \<le> nat m" and met: "\<And>i. i < nat m \<Longrightarrow> cumulative f i \<le> x \<longleftrightarrow> i < k" for x k
  proof (rule ccontr)
    let ?n = "length (takeWhile (\<lambda>r. th_cumulativeXp r \<le> x) rows)"
    have pass: "i < ?n \<longleftrightarrow> cumulative f i \<le> x" if "i < nat m" for i
      using passed_iff [OF build_rows(3) [OF build], of i x] that by (simp add: rows_def threshold_row_def del: upt_Suc)
    have n: "?n \<le> nat m" using length_takeWhile_le [of _ rows] by (metis build_rows(2) [OF build] diff_Suc_1 length_map length_upt)
    assume "?n \<noteq> k"
    then consider (less) "?n < k" | (more) "k < ?n" by linarith
    then show False
    proof cases
      case less
      with \<open>k \<le> nat m\<close> have "?n < nat m" by simp
      from pass [OF this] met [OF this] less show False by blast
    next
      case more
      with n have "k < nat m" by simp
      from pass [OF this] met [OF this] more show False by blast
    qed
  qed
  have mono: "cumulative f i \<le> cumulative f j \<longleftrightarrow> i \<le> j" for i j
    using cumulative_strict [OF f] cumulative_mono [OF f(1)] by (meson leD linorder_not_less)
  have "cumulative f i \<le> c \<longleftrightarrow> i < nat L" for i
    using mono [of i "nat (L - 1)"] L by (auto simp: c_def)
  then have "levelFromXp c rows = Inr L"
    using key [of "nat L" c] L level_of_rows [OF build c0] by simp
  moreover have "levelFromXp (c - 1) rows = Inr (L - 1)" if "1 < L"
  proof -
    have "0 < c" using cumulative_strict [OF f, of 0 "nat (L - 1)"] that by (simp add: c_def)
    moreover have "cumulative f i \<le> c - 1 \<longleftrightarrow> i < nat (L - 1)" for i
      using mono [of "nat (L - 1)" i] by (auto simp: c_def)
    ultimately show ?thesis
      using key [of "nat (L - 1)" "c - 1"] L that level_of_rows [OF build, of "c - 1"] by auto
  qed
  ultimately show ?thesis using build L by (auto simp: cumulativeXpForLevel_def c_def)
qed

text \<open>The reference values of the plan, which the tests of the source fix.\<close>

lemma reference_curve:
  "map (\<lambda>l. cumulativeXpForLevel l DEFAULT_FORMULA) [1, 2, 5, 10, 25, 50, 75, 100]
   = map Inr [0, 100, 1701, 11102, 118800, 689494, 1916154, 3950079]"
  by (simp add: cumulativeXpForLevel_def cumulative_eval advance_def DEFAULT_FORMULA_def js_simps)

end
