(* ===== verification/Xp_Ledger.thy ===== *)
theory Xp_Ledger
  imports Xp_Curve
begin

text \<open>
  The experience ledger: the tables of the XP module (\<^verbatim>\<open>schema.prisma\<close>), the policy and level reads of
  \<^verbatim>\<open>levels.service.ts\<close> and the append-only journal of \<^verbatim>\<open>ledger.service.ts\<close> (\<^verbatim>\<open>awardXp\<close>,
  \<^verbatim>\<open>adjustXp\<close>, \<^verbatim>\<open>reverseXp\<close>, \<^verbatim>\<open>reconcile\<close>).
  An operation takes two databases: \<open>seen\<close>, which its reads before any lock saw, and \<open>db\<close>, on which its
  transaction runs once it holds the row locks and which it commits to. A unique key that was free in \<open>seen\<close>
  may be taken in \<open>db\<close>, which is how the races the source handles (P2002) arise.
  XP amounts are integers: \<^verbatim>\<open>BigInt(Math.floor(n))\<close> of a number argument is taken before the call.
\<close>

section \<open>PIDs (\<^verbatim>\<open>common/pid.ts\<close>)\<close>

definition handle_char :: "char \<Rightarrow> bool" where
  "handle_char c \<longleftrightarrow> is_digit c \<or> (97 \<le> (of_char c :: nat) \<and> (of_char c :: nat) \<le> 122) \<or> c = CHR ''_''"

definition PID_SUFFIX :: string where "PID_SUFFIX = ''@pid''"

definition isPidHandle :: "string \<Rightarrow> bool" where
  "isPidHandle h \<longleftrightarrow> 3 \<le> length h \<and> length h \<le> 20 \<and> list_all handle_char h"

definition normalizePidHandle :: "string \<Rightarrow> string" where
  "normalizePidHandle h = to_lower (trim h)"

definition toPid :: "string \<Rightarrow> string result" where
  "toPid h =
     (if isPidHandle (normalizePidHandle h) then Inr (normalizePidHandle h @ PID_SUFFIX) else Inl (JsError ''Invalid PID handle''))"

definition isPid :: "string \<Rightarrow> bool" where
  "isPid v \<longleftrightarrow> drop (length v - 4) v = PID_SUFFIX \<and> isPidHandle (take (length v - 4) v)"

section \<open>Tables\<close>

record xp_policy =
  pv_id :: string
  pv_version :: int
  pv_formula :: xp_formula
  pv_maxLevel :: "int option"
  pv_createdBy :: string
  pv_activatedAt :: "int option"
  pv_supersededAt :: "int option"

record threshold_rec = level_threshold +
  tr_policyVersionId :: string

record xp_state =
  us_pid :: string
  us_totalXp :: int
  us_level :: int
  us_policyVersionId :: string

record xp_task =
  tk_id :: string
  tk_key :: string
  tk_xpReward :: int
  tk_recurring :: string
  tk_lifetimeLimit :: "int option"
  tk_dailyLimit :: "int option"
  tk_weeklyLimit :: "int option"
  tk_monthlyLimit :: "int option"
  tk_cooldownSecs :: "int option"
  tk_availableFrom :: "int option"
  tk_availableUntil :: "int option"
  tk_status :: string
  tk_verificationType :: string
  tk_verificationChecker :: "string option"
  tk_scopeAppId :: "string option"

record xp_completion =
  tc_pid :: string
  tc_taskId :: string
  tc_periodKey :: string
  tc_appId :: string
  tc_eventId :: string
  tc_isOnce :: bool
  tc_resourceId :: "string option"
  tc_awardedEntryId :: string
  tc_createdAt :: int

record xp_entry =
  le_id :: string
  le_pid :: string
  le_deltaXp :: int
  le_balanceAfter :: int
  le_levelAfter :: int
  le_kind :: string
  le_taskId :: "string option"
  le_eventId :: "string option"
  le_appId :: "string option"
  le_reason :: "string option"
  le_actorAdminId :: "string option"
  le_policyVersionId :: string
  le_createdAt :: int

record xp_caps =
  cap_daily :: "int option"
  cap_weekly :: "int option"
  cap_monthly :: "int option"

record xp_quota = xp_caps +
  qa_appId :: string
  qa_suspended :: bool
  qa_suspendReason :: "string option"

record xp_org_quota = xp_caps +
  qo_ownerPid :: string

record xp_suspicious =
  sa_id :: string
  sa_pid :: "string option"
  sa_appId :: "string option"
  sa_signal :: string
  sa_reviewed :: bool

record xp_app =
  xa_id :: string
  xa_clientId :: string
  xa_ownerPid :: string
  xa_isActive :: bool
  xa_isVerified :: bool
  xa_xpEnabled :: bool
  xa_approvedEventTypes :: "string list"

record xp_identity =
  xi_pid :: string
  xi_status :: string
  xi_role :: string

text \<open>\<open>xd_credentials\<close> holds the PID of each linked credential, \<open>xd_audit\<close> the actor and name of each
  security event, \<open>xd_next\<close> the state of the id supply.\<close>

record xp_db =
  xd_policies :: "xp_policy list"
  xd_thresholds :: "threshold_rec list"
  xd_states :: "xp_state list"
  xd_tasks :: "xp_task list"
  xd_completions :: "xp_completion list"
  xd_entries :: "xp_entry list"
  xd_quotas :: "xp_quota list"
  xd_orgQuotas :: "xp_org_quota list"
  xd_suspicious :: "xp_suspicious list"
  xd_apps :: "xp_app list"
  xd_identities :: "xp_identity list"
  xd_profiles :: "string list"
  xd_credentials :: "string list"
  xd_audit :: "(string \<times> string) list"
  xd_next :: nat

text \<open>The uuid supply, the UTC day of a time (\<^verbatim>\<open>toISOString().slice(0, 10)\<close>) and the configuration.\<close>

record xp_env =
  xv_uuid :: "nat \<Rightarrow> string"
  xv_day :: "int \<Rightarrow> string"
  xv_config :: "(string, string) jsmap"

definition xp_log :: "string \<Rightarrow> string \<Rightarrow> xp_db \<Rightarrow> xp_db" where
  "xp_log actor event db = db\<lparr>xd_audit := xd_audit db @ [(actor, event)]\<rparr>"

definition has_identity :: "xp_db \<Rightarrow> string \<Rightarrow> bool" where
  "has_identity db pid = list_ex (\<lambda>i. xi_pid i = pid) (xd_identities db)"

definition find_state :: "xp_db \<Rightarrow> string \<Rightarrow> xp_state option" where
  "find_state db pid = find (\<lambda>s. us_pid s = pid) (xd_states db)"

definition create_state :: "xp_state \<Rightarrow> xp_db \<Rightarrow> xp_db result" where
  "create_state s db =
     (if find_state db (us_pid s) \<noteq> None then Inl UniqueViolation
      else if \<not> has_identity db (us_pid s) then Inl (JsError ''P2003'')
      else Inr (db\<lparr>xd_states := xd_states db @ [s]\<rparr>))"

definition set_state :: "string \<Rightarrow> (xp_state \<Rightarrow> xp_state) \<Rightarrow> xp_db \<Rightarrow> xp_db" where
  "set_state pid g db = db\<lparr>xd_states := map (\<lambda>s. if us_pid s = pid then g s else s) (xd_states db)\<rparr>"

text \<open>A journal row gets the next id and refers to an identity and, where it names one, a task.\<close>

definition create_xp_entry :: "xp_env \<Rightarrow> (string \<Rightarrow> xp_entry) \<Rightarrow> xp_db \<Rightarrow> (xp_entry \<times> xp_db) result" where
  "create_xp_entry env mk db =
     (let e = mk (xv_uuid env (xd_next db))
      in if \<not> has_identity db (le_pid e) then Inl (JsError ''P2003'')
         else if (case le_taskId e of None \<Rightarrow> False | Some t \<Rightarrow> \<not> list_ex (\<lambda>k. tk_id k = t) (xd_tasks db)) then Inl (JsError ''P2003'')
         else Inr (e, db\<lparr>xd_entries := xd_entries db @ [e], xd_next := Suc (xd_next db)\<rparr>))"

text \<open>The unique keys of a completion: the event of an app, and the two partial one-time indexes.\<close>

definition completion_clash :: "xp_completion \<Rightarrow> xp_completion \<Rightarrow> bool" where
  "completion_clash c d \<longleftrightarrow>
     (tc_appId c = tc_appId d \<and> tc_eventId c = tc_eventId d)
     \<or> (tc_isOnce c \<and> tc_isOnce d \<and> tc_taskId c = tc_taskId d \<and> tc_pid c = tc_pid d \<and> tc_resourceId c = tc_resourceId d)"

definition create_completion :: "xp_completion \<Rightarrow> xp_db \<Rightarrow> xp_db result" where
  "create_completion c db =
     (if list_ex (completion_clash c) (xd_completions db) then Inl UniqueViolation
      else Inr (db\<lparr>xd_completions := xd_completions db @ [c]\<rparr>))"

definition find_completion :: "xp_db \<Rightarrow> string \<Rightarrow> string \<Rightarrow> xp_completion option" where
  "find_completion db app ev = find (\<lambda>c. tc_appId c = app \<and> tc_eventId c = ev) (xd_completions db)"

section \<open>Policies and levels (\<^verbatim>\<open>levels.service.ts\<close>)\<close>

record active_policy =
  ap_policy :: xp_policy
  ap_formula :: xp_formula
  ap_thresholds :: "level_threshold list"

definition parseFormula :: "xp_formula \<Rightarrow> xp_formula" where
  "parseFormula f =
     (let base = (if fo_base f > 0 then fo_base f else fo_base DEFAULT_FORMULA);
          expo = (if fo_num f > 0 \<and> fo_den f > 0 then (fo_num f, fo_den f) else (fo_num DEFAULT_FORMULA, fo_den DEFAULT_FORMULA))
      in \<lparr>fo_base = base, fo_num = fst expo, fo_den = snd expo\<rparr>)"

definition is_active :: "xp_policy \<Rightarrow> bool" where
  "is_active p \<longleftrightarrow> pv_activatedAt p \<noteq> None \<and> pv_supersededAt p = None"

text \<open>The stored rows of a policy, by level.\<close>

definition policy_rows :: "xp_db \<Rightarrow> string \<Rightarrow> level_threshold list" where
  "policy_rows db pol = map level_threshold.truncate (sort_key th_level (filter (\<lambda>r. tr_policyVersionId r = pol) (xd_thresholds db)))"

definition getActivePolicy :: "xp_db \<Rightarrow> active_policy result" where
  "getActivePolicy db =
     (case sort_key (\<lambda>p. - pv_version p) (filter is_active (xd_policies db)) of
        [] \<Rightarrow> Inl (NotFound ''No active XP policy version'')
      | p # _ \<Rightarrow>
          let formula = parseFormula (pv_formula p);
              rows = policy_rows db (pv_id p);
              maxLevel = nullish (pv_maxLevel p) (int (length rows))
          in bind_result (if rows \<noteq> [] then Inr rows else buildThresholds maxLevel formula [])
               (\<lambda>thresholds. Inr \<lparr>ap_policy = p, ap_formula = formula, ap_thresholds = thresholds\<rparr>))"

lemma getActivePolicy_cong:
  assumes "xd_policies a = xd_policies b" "xd_thresholds a = xd_thresholds b"
  shows "getActivePolicy a = getActivePolicy b"
proof -
  have rows: "policy_rows a = policy_rows b" using assms(2) by (simp add: policy_rows_def fun_eq_iff)
  show ?thesis unfolding getActivePolicy_def assms(1) rows ..
qed

definition levelForXp :: "int \<Rightarrow> active_policy \<Rightarrow> int result" where
  "levelForXp totalXp active =
     (if totalXp < 0 then Inl (JsError ''totalXp must be >= 0'') else levelFromXp totalXp (ap_thresholds active))"

definition genesis :: "string \<Rightarrow> active_policy \<Rightarrow> xp_state" where
  "genesis pid active = \<lparr>us_pid = pid, us_totalXp = 0, us_level = 1, us_policyVersionId = pv_id (ap_policy active)\<rparr>"

definition find_or_throw :: "xp_db \<Rightarrow> string \<Rightarrow> xp_state result" where
  "find_or_throw db pid = (case find_state db pid of None \<Rightarrow> Inl (JsError ''P2025'') | Some s \<Rightarrow> Inr s)"

definition ensureState :: "string \<Rightarrow> active_policy \<Rightarrow> xp_db \<Rightarrow> xp_db \<Rightarrow> xp_state result \<times> xp_db" where
  "ensureState pid active seen db =
     (case find_state seen pid of
        Some s \<Rightarrow> (Inr s, db)
      | None \<Rightarrow>
          (case create_state (genesis pid active) db of
             Inr db' \<Rightarrow> (Inr (genesis pid active), db')
           | Inl UniqueViolation \<Rightarrow> (find_or_throw db pid, db)
           | Inl e \<Rightarrow> (Inl e, db)))"

record level_view =
  lv_pid :: string
  lv_level :: int
  lv_totalXp :: int
  lv_progress :: level_progress

definition view_level :: "active_policy \<Rightarrow> xp_state \<Rightarrow> int result" where
  "view_level active s =
     (if us_policyVersionId s = pv_id (ap_policy active) then Inr (us_level s)
      else levelFromXp (us_totalXp s) (ap_thresholds active))"

definition view_of :: "string \<Rightarrow> active_policy \<Rightarrow> xp_state \<Rightarrow> level_view result" where
  "view_of pid active s =
     bind_result (view_level active s) (\<lambda>level.
     bind_result (xpToJsonNumber (us_totalXp s) ''total_xp'') (\<lambda>jsTotal.
     Inr \<lparr>lv_pid = pid, lv_level = level, lv_totalXp = jsTotal,
          lv_progress = progressFor (us_totalXp s) level (ap_thresholds active)\<rparr>))"

definition getLevelView :: "string \<Rightarrow> xp_db \<Rightarrow> xp_db \<Rightarrow> level_view result \<times> xp_db" where
  "getLevelView rawPid seen db =
     (let pid = to_lower (trim rawPid)
      in if \<not> isPid pid then (Inl (NotFound ''Unknown user''), db)
         else case find (\<lambda>i. xi_pid i = pid) (xd_identities seen) of
           None \<Rightarrow> (Inl (NotFound ''Unknown user''), db)
         | Some i \<Rightarrow>
             if xi_status i = ''deleted'' then (Inl (NotFound ''Unknown user''), db)
             else case getActivePolicy seen of
               Inl e \<Rightarrow> (Inl e, db)
             | Inr active \<Rightarrow>
                 (case ensureState pid active seen db of
                    (Inl e, db') \<Rightarrow> (Inl e, db')
                  | (Inr s, db') \<Rightarrow> (view_of pid active s, db')))"

section \<open>The journal (\<^verbatim>\<open>ledger.service.ts\<close>)\<close>

definition XP_AWARD_KINDS :: "string list" where
  "XP_AWARD_KINDS = [''task_award'', ''manual_adjustment'', ''reversal'']"

definition MAX_ID_LEN :: nat where "MAX_ID_LEN = 128"

definition MAX_REASON_LEN :: nat where "MAX_REASON_LEN = 512"

record award_input =
  aw_pid :: string
  aw_deltaXp :: int
  aw_kind :: string
  aw_taskId :: "string option"
  aw_eventId :: "string option"
  aw_appId :: "string option"
  aw_reason :: "string option"
  aw_actorAdminId :: "string option"
  aw_periodKey :: "string option"
  aw_resourceId :: "string option"

record award_result =
  ar_pid :: string
  ar_awardedXp :: int
  ar_totalXp :: int
  ar_level :: int
  ar_leveledUp :: bool
  ar_duplicate :: bool

definition toDelta :: "int \<Rightarrow> int result" where
  "toDelta d = (if d \<le> 0 then Inl (BadRequest ''deltaXp must be a positive integer'') else Inr d)"

definition bad_id :: "string option \<Rightarrow> bool" where
  "bad_id v = (case v of None \<Rightarrow> False | Some s \<Rightarrow> s = [] \<or> length s > MAX_ID_LEN)"

definition validateInput :: "award_input \<Rightarrow> (string \<times> int) result" where
  "validateInput i =
     (let pid = to_lower (trim (aw_pid i))
      in if \<not> isPid pid then Inl (BadRequest ''Invalid pid'')
         else bind_result (toDelta (aw_deltaXp i)) (\<lambda>delta.
           if \<not> List.member XP_AWARD_KINDS (aw_kind i) then Inl (BadRequest (''Unknown award kind: '' @ aw_kind i))
           else if bad_id (aw_eventId i) then Inl (BadRequest ''eventId must be 1-128 chars'')
           else if aw_eventId i \<noteq> None \<and> nullish (aw_taskId i) [] = [] then Inl (BadRequest ''eventId requires taskId'')
           else if bad_id (aw_taskId i) then Inl (BadRequest ''taskId must be 1-128 chars'')
           else if bad_id (aw_appId i) then Inl (BadRequest ''appId must be 1-128 chars'')
           else if length (nullish (aw_reason i) []) > MAX_REASON_LEN then Inl (BadRequest ''reason too long (max 512)'')
           else Inr (pid, delta)))"

text \<open>The journal row both writers append; \<open>bal\<close> and \<open>level\<close> are the balance and level after it.\<close>

definition award_row :: "award_input \<Rightarrow> string \<Rightarrow> int \<Rightarrow> int \<Rightarrow> int \<Rightarrow> string \<Rightarrow> int \<Rightarrow> string \<Rightarrow> xp_entry" where
  "award_row i pid delta bal level policyId now newId =
     \<lparr>le_id = newId, le_pid = pid, le_deltaXp = delta, le_balanceAfter = bal, le_levelAfter = level, le_kind = aw_kind i,
      le_taskId = aw_taskId i, le_eventId = aw_eventId i, le_appId = aw_appId i, le_reason = aw_reason i,
      le_actorAdminId = aw_actorAdminId i, le_policyVersionId = policyId, le_createdAt = now\<rparr>"

definition award_completion :: "xp_env \<Rightarrow> int \<Rightarrow> award_input \<Rightarrow> string \<Rightarrow> string \<Rightarrow> string \<Rightarrow> string \<Rightarrow> bool \<Rightarrow> xp_completion" where
  "award_completion env now i pid task ev entryId once =
     \<lparr>tc_pid = pid, tc_taskId = task, tc_periodKey = nullish (aw_periodKey i) (xv_day env now),
      tc_appId = nullish (aw_appId i) [], tc_eventId = ev, tc_isOnce = once, tc_resourceId = aw_resourceId i,
      tc_awardedEntryId = entryId, tc_createdAt = now\<rparr>"

text \<open>The completion row of a task event, when the award names both.\<close>

definition complete_task :: "xp_env \<Rightarrow> int \<Rightarrow> award_input \<Rightarrow> string \<Rightarrow> string \<Rightarrow> xp_db \<Rightarrow> xp_db result" where
  "complete_task env now i pid entryId db =
     (case (aw_eventId i, aw_taskId i) of
        (Some ev, Some task) \<Rightarrow>
          if ev = [] \<or> task = [] then Inr db
          else (case find (\<lambda>k. tk_id k = task) (xd_tasks db) of
             None \<Rightarrow> Inl (NotFound (''Unknown task: '' @ task))
           | Some k \<Rightarrow> create_completion (award_completion env now i pid task ev entryId (tk_recurring k = ''once'')) db)
      | _ \<Rightarrow> Inr db)"

definition appendTaskAward ::
  "xp_env \<Rightarrow> int \<Rightarrow> award_input \<Rightarrow> string \<Rightarrow> xp_state option \<Rightarrow> int \<Rightarrow> active_policy \<Rightarrow> xp_db \<Rightarrow> ((int \<times> int \<times> int) \<times> xp_db) result" where
  "appendTaskAward env now i pid state delta active db =
     bind_result (case state of
         Some s \<Rightarrow> Inr (s, db)
       | None \<Rightarrow> bind_result (create_state (genesis pid active) db) (\<lambda>db1. Inr (genesis pid active, db1))) (\<lambda>(s, db1).
     let prevLevel = us_level s; newTotal = us_totalXp s + delta; pol = pv_id (ap_policy active)
     in bind_result (levelFromXp newTotal (ap_thresholds active)) (\<lambda>newLevel.
        bind_result (create_xp_entry env (award_row i pid delta newTotal newLevel pol now) db1) (\<lambda>(e, db2).
        bind_result (complete_task env now i pid (le_id e) db2) (\<lambda>db3.
        Inr ((newTotal, newLevel, prevLevel),
             set_state pid (\<lambda>u. u\<lparr>us_totalXp := newTotal, us_level := newLevel, us_policyVersionId := pol\<rparr>) db3)))))"

text \<open>\<^verbatim>\<open>SELECT ... FOR UPDATE\<close> on the state row: a row the query found is re-read under its lock, a missing
  one is created.\<close>

definition lock_state :: "string \<Rightarrow> active_policy \<Rightarrow> xp_db \<Rightarrow> xp_db \<Rightarrow> (xp_state \<times> xp_db) result" where
  "lock_state pid active seen db =
     (case find_state seen pid of
        Some _ \<Rightarrow> bind_result (find_or_throw db pid) (\<lambda>s. Inr (s, db))
      | None \<Rightarrow> bind_result (create_state (genesis pid active) db) (\<lambda>db1. Inr (genesis pid active, db1)))"

definition award_result_of :: "string \<Rightarrow> int \<Rightarrow> int \<times> int \<times> int \<Rightarrow> award_result" where
  "award_result_of pid delta w = (case w of (newTotal, newLevel, prevLevel) \<Rightarrow>
     \<lparr>ar_pid = pid, ar_awardedXp = delta, ar_totalXp = newTotal, ar_level = newLevel, ar_leveledUp = newLevel > prevLevel, ar_duplicate = False\<rparr>)"

definition duplicate_result :: "string \<Rightarrow> xp_state \<Rightarrow> award_result" where
  "duplicate_result pid s =
     \<lparr>ar_pid = pid, ar_awardedXp = 0, ar_totalXp = us_totalXp s, ar_level = us_level s, ar_leveledUp = False, ar_duplicate = True\<rparr>"

definition award_txn ::
  "xp_env \<Rightarrow> int \<Rightarrow> award_input \<Rightarrow> string \<Rightarrow> int \<Rightarrow> active_policy \<Rightarrow> xp_db \<Rightarrow> xp_db \<Rightarrow> (award_result \<times> xp_db) result" where
  "award_txn env now i pid delta active seen db =
     bind_result (lock_state pid active seen db) (\<lambda>(s, db1).
     if (case aw_eventId i of None \<Rightarrow> False | Some ev \<Rightarrow> find_completion seen (nullish (aw_appId i) []) ev \<noteq> None)
     then bind_result (find_or_throw db1 pid) (\<lambda>current. Inr (duplicate_result pid current, db1))
     else bind_result (appendTaskAward env now i pid (Some s) delta active db1)
            (\<lambda>(w, db2). Inr (award_result_of pid delta w, db2)))"

text \<open>The retry of a lost genesis race runs when the row is there: it sees \<open>db\<close>.\<close>

definition awardXp :: "xp_env \<Rightarrow> int \<Rightarrow> award_input \<Rightarrow> xp_db \<Rightarrow> xp_db \<Rightarrow> award_result result \<times> xp_db" where
  "awardXp env now i seen db =
     (case validateInput i of Inl e \<Rightarrow> (Inl e, db) | Inr (pid, delta) \<Rightarrow>
      case getActivePolicy seen of Inl e \<Rightarrow> (Inl e, db) | Inr active \<Rightarrow>
      case award_txn env now i pid delta active seen db of
        Inr (r, db') \<Rightarrow> (Inr r, db')
      | Inl UniqueViolation \<Rightarrow>
          (if aw_eventId i \<noteq> None then
             (case find_state db pid of
                Some s \<Rightarrow> (Inr (duplicate_result pid s), db)
              | None \<Rightarrow> (Inl UniqueViolation, db))
           else
             (case getActivePolicy db of Inl e \<Rightarrow> (Inl e, db) | Inr active' \<Rightarrow>
                (case award_txn env now i pid delta active' db db of
                   Inr (r, db') \<Rightarrow> (Inr r, db')
                 | Inl e \<Rightarrow> (Inl e, db))))
      | Inl e \<Rightarrow> (Inl e, db))"

record admin_input =
  ad_pid :: string
  ad_amount :: int
  ad_reason :: "string option"
  ad_actorAdminId :: "string option"
  ad_originalEntryId :: "string option"

text \<open>The checks \<^verbatim>\<open>adjustXp\<close> and \<^verbatim>\<open>reverseXp\<close> share; \<open>what\<close> ends their messages.\<close>

definition validate_admin :: "string \<Rightarrow> admin_input \<Rightarrow> (string \<times> int \<times> string \<times> string) result" where
  "validate_admin what i =
     (let pid = to_lower (trim (ad_pid i)); reason = trim (nullish (ad_reason i) []); actor = trim (nullish (ad_actorAdminId i) [])
      in if \<not> isPid pid then Inl (BadRequest ''Invalid pid'')
         else bind_result (toDelta (ad_amount i)) (\<lambda>d.
           if reason = [] then Inl (BadRequest (''reason is required for '' @ what))
           else if length reason > MAX_REASON_LEN then Inl (BadRequest ''reason too long (max 512)'')
           else if actor = [] then Inl (BadRequest (''actorAdminId is required for '' @ what))
           else Inr (pid, d, reason, actor)))"

definition admin_row :: "string \<Rightarrow> string \<Rightarrow> int \<Rightarrow> int \<Rightarrow> int \<Rightarrow> string \<Rightarrow> string \<Rightarrow> string \<Rightarrow> int \<Rightarrow> string \<Rightarrow> xp_entry" where
  "admin_row kind pid delta bal level reason actor policyId now newId =
     \<lparr>le_id = newId, le_pid = pid, le_deltaXp = delta, le_balanceAfter = bal, le_levelAfter = level, le_kind = kind,
      le_taskId = None, le_eventId = None, le_appId = None, le_reason = Some reason, le_actorAdminId = Some actor,
      le_policyVersionId = policyId, le_createdAt = now\<rparr>"

text \<open>The transaction of both: \<open>delta\<close> is negative for a reversal.\<close>

definition admin_txn ::
  "xp_env \<Rightarrow> int \<Rightarrow> string \<Rightarrow> string \<Rightarrow> int \<Rightarrow> string \<Rightarrow> string \<Rightarrow> active_policy \<Rightarrow> xp_db \<Rightarrow> xp_db \<Rightarrow> (award_result \<times> xp_db) result" where
  "admin_txn env now kind pid delta reason actor active seen db =
     bind_result (lock_state pid active seen db) (\<lambda>(s, db1).
     let newTotal = us_totalXp s + delta; pol = pv_id (ap_policy active)
     in if kind = ''reversal'' \<and> newTotal < 0 then Inl (BadRequest ''reversal exceeds balance'')
        else bind_result (levelFromXp newTotal (ap_thresholds active)) (\<lambda>newLevel.
          bind_result (create_xp_entry env (admin_row kind pid delta newTotal newLevel reason actor pol now) db1) (\<lambda>(e, db2).
          Inr (\<lparr>ar_pid = pid, ar_awardedXp = delta, ar_totalXp = newTotal, ar_level = newLevel,
                ar_leveledUp = (kind = ''manual_adjustment'' \<and> newLevel > us_level s), ar_duplicate = False\<rparr>,
               set_state pid (\<lambda>u. u\<lparr>us_totalXp := newTotal, us_level := newLevel, us_policyVersionId := pol\<rparr>) db2))))"

definition run_admin :: "(active_policy \<Rightarrow> (award_result \<times> xp_db) result) \<Rightarrow> xp_db \<Rightarrow> xp_db \<Rightarrow> award_result result \<times> xp_db" where
  "run_admin txn seen db =
     (case getActivePolicy seen of Inl e \<Rightarrow> (Inl e, db) | Inr active \<Rightarrow>
      case txn active of Inl e \<Rightarrow> (Inl e, db) | Inr (r, db') \<Rightarrow> (Inr r, db'))"

definition adjustXp :: "xp_env \<Rightarrow> int \<Rightarrow> admin_input \<Rightarrow> xp_db \<Rightarrow> xp_db \<Rightarrow> award_result result \<times> xp_db" where
  "adjustXp env now i seen db =
     (case validate_admin ''manual adjustments'' i of Inl e \<Rightarrow> (Inl e, db)
      | Inr (pid, d, reason, actor) \<Rightarrow>
          run_admin (\<lambda>active. admin_txn env now ''manual_adjustment'' pid d reason actor active seen db) seen db)"

definition reverseXp :: "xp_env \<Rightarrow> int \<Rightarrow> admin_input \<Rightarrow> xp_db \<Rightarrow> xp_db \<Rightarrow> award_result result \<times> xp_db" where
  "reverseXp env now i seen db =
     (case validate_admin ''reversals'' i of Inl e \<Rightarrow> (Inl e, db)
      | Inr (pid, d, reason, actor) \<Rightarrow>
          let reason' = (case ad_originalEntryId i of
                Some o' \<Rightarrow> if o' = [] then reason else ''reversal of '' @ o' @ '': '' @ reason
              | None \<Rightarrow> reason)
          in run_admin (\<lambda>active. admin_txn env now ''reversal'' pid (- d) reason' actor active seen db) seen db)"

record xp_mismatch =
  mm_pid :: string
  mm_ledgerTotal :: int
  mm_stateTotal :: "int option"

definition ledger_sum :: "string \<Rightarrow> xp_entry list \<Rightarrow> int" where
  "ledger_sum pid es = sum_list (map le_deltaXp (filter (\<lambda>e. le_pid e = pid) es))"

text \<open>\<^verbatim>\<open>groupBy pid\<close> and the comparison of each sum with the state row.\<close>

definition xp_reconcile :: "string option \<Rightarrow> xp_db \<Rightarrow> bool \<times> xp_mismatch list" where
  "xp_reconcile pid db =
     (let pids = remdups (filter (\<lambda>p. pid = None \<or> pid = Some [] \<or> pid = Some p) (map le_pid (xd_entries db)));
          mismatches = concat (map (\<lambda>p.
            let lt = ledger_sum p (xd_entries db); st = map_option us_totalXp (find_state db p)
            in if (case st of None \<Rightarrow> lt \<noteq> 0 | Some t \<Rightarrow> t \<noteq> lt)
               then [\<lparr>mm_pid = p, mm_ledgerTotal = lt, mm_stateTotal = st\<rparr>] else []) pids)
      in (mismatches = [], mismatches))"

section \<open>The journal invariant\<close>

definition state_total :: "xp_db \<Rightarrow> string \<Rightarrow> int" where
  "state_total db pid = (case find_state db pid of None \<Rightarrow> 0 | Some s \<Rightarrow> us_totalXp s)"

text \<open>Each row carries the balance of its PID after it.\<close>

definition balances_ok :: "xp_entry list \<Rightarrow> bool" where
  "balances_ok es \<longleftrightarrow> (\<forall>i < length es. le_balanceAfter (es ! i) = ledger_sum (le_pid (es ! i)) (take (Suc i) es))"

text \<open>The idempotency key of an awarded event; an absent app is the ecosystem scope.\<close>

definition event_key :: "xp_entry \<Rightarrow> string \<times> string" where
  "event_key e = (nullish (le_appId e) [], nullish (le_eventId e) [])"

definition event_keys :: "xp_entry list \<Rightarrow> (string \<times> string) list" where
  "event_keys es = map event_key (filter (\<lambda>e. le_eventId e \<noteq> None) es)"

definition completion_key :: "xp_completion \<Rightarrow> string \<times> string" where
  "completion_key c = (tc_appId c, tc_eventId c)"

definition xp_inv :: "xp_db \<Rightarrow> bool" where
  "xp_inv db \<longleftrightarrow>
     distinct (map us_pid (xd_states db))
     \<and> (\<forall>p. state_total db p = ledger_sum p (xd_entries db) \<and> 0 \<le> ledger_sum p (xd_entries db))
     \<and> balances_ok (xd_entries db)
     \<and> event_keys (xd_entries db) = map completion_key (xd_completions db)
     \<and> distinct (map completion_key (xd_completions db))
     \<and> (\<forall>e \<in> set (xd_entries db). le_appId e \<noteq> None \<longrightarrow> 0 < le_deltaXp e)"

text \<open>Operations that touch neither the journal nor a total.\<close>

definition same_journal :: "xp_db \<Rightarrow> xp_db \<Rightarrow> bool" where
  "same_journal a b \<longleftrightarrow> xd_entries b = xd_entries a \<and> xd_completions b = xd_completions a
     \<and> map (\<lambda>s. (us_pid s, us_totalXp s)) (xd_states b) = map (\<lambda>s. (us_pid s, us_totalXp s)) (xd_states a)"

text \<open>The journal and the completions only grow, and no state row disappears.\<close>

definition xp_grows :: "xp_db \<Rightarrow> xp_db \<Rightarrow> bool" where
  "xp_grows a b \<longleftrightarrow> (\<exists>es. xd_entries b = xd_entries a @ es) \<and> (\<exists>cs. xd_completions b = xd_completions a @ cs)
     \<and> us_pid ` set (xd_states a) \<subseteq> us_pid ` set (xd_states b)"

lemma ledger_sum_simps [simp]:
  "ledger_sum p [] = 0" "ledger_sum p (xs @ ys) = ledger_sum p xs + ledger_sum p ys"
  "ledger_sum p [e] = (if le_pid e = p then le_deltaXp e else 0)"
  by (simp_all add: ledger_sum_def)

lemma balances_ok_snoc:
  "balances_ok (es @ [e]) \<longleftrightarrow> balances_ok es \<and> le_balanceAfter e = ledger_sum (le_pid e) es + le_deltaXp e"
  by (auto simp: balances_ok_def nth_append less_Suc_eq)

lemma event_keys_snoc [simp]:
  "event_keys (es @ [e]) = event_keys es @ (if le_eventId e = None then [] else [event_key e])"
  by (simp add: event_keys_def)

lemma state_total_map:
  "state_total db p = (case map_of (map (\<lambda>s. (us_pid s, us_totalXp s)) (xd_states db)) p of None \<Rightarrow> 0 | Some t \<Rightarrow> t)"
proof -
  have f: "map_option us_totalXp (find (\<lambda>s. us_pid s = p) ss) = map_of (map (\<lambda>s. (us_pid s, us_totalXp s)) ss) p" for ss
    by (induction ss) auto
  have "state_total db p = (case map_option us_totalXp (find (\<lambda>s. us_pid s = p) (xd_states db)) of None \<Rightarrow> 0 | Some t \<Rightarrow> t)"
    by (simp add: state_total_def find_state_def split: option.splits)
  then show ?thesis by (simp only: f)
qed

lemma same_journal_columns:
  assumes "same_journal a b"
  shows "map us_pid (xd_states b) = map us_pid (xd_states a)" "map us_totalXp (xd_states b) = map us_totalXp (xd_states a)"
proof -
  let ?g = "\<lambda>s. (us_pid s, us_totalXp s)"
  have eq: "map ?g (xd_states b) = map ?g (xd_states a)" using assms by (simp add: same_journal_def)
  show "map us_pid (xd_states b) = map us_pid (xd_states a)" using arg_cong [OF eq, of "map fst"] by (simp add: comp_def)
  show "map us_totalXp (xd_states b) = map us_totalXp (xd_states a)" using arg_cong [OF eq, of "map snd"] by (simp add: comp_def)
qed

lemma same_journal_inv:
  assumes "same_journal a b" "xp_inv a"
  shows "xp_inv b"
  using assms same_journal_columns(1) [OF assms(1)] by (simp add: xp_inv_def same_journal_def state_total_map)

lemma same_journal_grows: "same_journal a b \<Longrightarrow> xp_grows a b"
  using arg_cong [OF same_journal_columns(1), of a b set] by (auto simp: xp_grows_def same_journal_def)

lemma same_journal_refl [simp]: "same_journal a a"
  by (simp add: same_journal_def)

lemma same_journal_trans: "same_journal a b \<Longrightarrow> same_journal b c \<Longrightarrow> same_journal a c"
  by (simp add: same_journal_def)

lemma xp_grows_refl [simp]: "xp_grows a a"
  by (simp add: xp_grows_def)

lemma xp_grows_trans: "xp_grows a b \<Longrightarrow> xp_grows b c \<Longrightarrow> xp_grows a c"
  by (auto simp: xp_grows_def)

text \<open>What a writer of the journal keeps: the invariant, and growth.\<close>

definition keeps :: "xp_db \<Rightarrow> xp_db \<Rightarrow> bool" where
  "keeps a b \<longleftrightarrow> (xp_inv a \<longrightarrow> xp_inv b) \<and> xp_grows a b"

lemma keeps_refl [simp]: "keeps a a"
  by (simp add: keeps_def)

lemma keeps_trans: "keeps a b \<Longrightarrow> keeps b c \<Longrightarrow> keeps a c"
  using xp_grows_trans by (auto simp: keeps_def)

lemma keeps_same: "same_journal a b \<Longrightarrow> keeps a b"
  using same_journal_inv same_journal_grows by (auto simp: keeps_def)

lemma find_state_SomeD: "find_state db p = Some s \<Longrightarrow> s \<in> set (xd_states db) \<and> us_pid s = p"
  by (auto simp: find_state_def dest: find_SomeD)

lemma find_state_None: "find_state db p = None \<longleftrightarrow> p \<notin> us_pid ` set (xd_states db)"
  by (auto simp: find_state_def find_None_iff)

lemma find_snoc: "find P (xs @ [x]) = (case find P xs of Some y \<Rightarrow> Some y | None \<Rightarrow> if P x then Some x else None)"
  by (induction xs) auto

lemma create_state_keeps:
  assumes "create_state s db = Inr db'" "us_totalXp s = 0"
  shows "keeps db db'" "find_state db' (us_pid s) = Some s"
proof -
  have new: "find_state db (us_pid s) = None" and db': "db' = db\<lparr>xd_states := xd_states db @ [s]\<rparr>"
    using assms(1) by (auto simp: create_state_def split: if_splits)
  have "state_total db' p = state_total db p" for p
    using new assms(2) by (auto simp: db' state_total_def find_state_def find_snoc split: option.splits)
  then show "keeps db db'"
    using new by (auto simp: keeps_def xp_inv_def xp_grows_def db' find_state_None)
  show "find_state db' (us_pid s) = Some s"
    using new by (simp add: db' find_state_def find_snoc)
qed

lemma lock_state_keeps:
  assumes "lock_state pid active seen db = Inr (s, db1)"
  shows "keeps db db1 \<and> find_state db1 pid = Some s"
  using assms create_state_keeps [of "genesis pid active" db]
  by (auto simp: lock_state_def find_or_throw_def genesis_def split: option.splits)

lemma find_map_upd:
  "(\<And>s. us_pid (g s) = us_pid s) \<Longrightarrow>
   find (\<lambda>s. us_pid s = p) (map (\<lambda>s. if us_pid s = pid then g s else s) ss)
   = (if p = pid then map_option g (find (\<lambda>s. us_pid s = p) ss) else find (\<lambda>s. us_pid s = p) ss)"
  by (induction ss) auto

text \<open>The one write of the journal: a row, its completion when it names an event, and the state row.\<close>

lemma journal_write_keeps:
  assumes inv: "xp_inv db" and st: "find_state db pid = Some s" and nonneg: "0 \<le> us_totalXp s + delta"
    and e: "le_pid e = pid" "le_deltaXp e = delta" "le_balanceAfter e = us_totalXp s + delta" "le_appId e \<noteq> None \<longrightarrow> 0 < delta"
    and cs: "cs = [] \<and> le_eventId e = None
      \<or> (\<exists>c. cs = [c] \<and> le_eventId e \<noteq> None \<and> completion_key c = event_key e \<and> event_key e \<notin> completion_key ` set (xd_completions db))"
    and db': "xd_entries db' = xd_entries db @ [e]" "xd_completions db' = xd_completions db @ cs"
      "xd_states db' = map (\<lambda>u. if us_pid u = pid then u\<lparr>us_totalXp := us_totalXp s + delta, us_level := l, us_policyVersionId := v\<rparr> else u) (xd_states db)"
  shows "keeps db db'"
proof -
  let ?g = "\<lambda>u. u\<lparr>us_totalXp := us_totalXp s + delta, us_level := l, us_policyVersionId := v\<rparr>"
  have find': "find_state db' p = (if p = pid then map_option ?g (find_state db p) else find_state db p)" for p
    unfolding find_state_def db'(3) by (rule find_map_upd) simp
  have tot: "state_total db p = ledger_sum p (xd_entries db)" "0 \<le> ledger_sum p (xd_entries db)" for p
    using inv by (simp_all add: xp_inv_def)
  have s: "us_totalXp s = ledger_sum pid (xd_entries db)" using tot(1) [of pid] st by (simp add: state_total_def)
  have "state_total db' p = ledger_sum p (xd_entries db') \<and> 0 \<le> ledger_sum p (xd_entries db')" for p
  proof (cases "p = pid")
    case True
    with st find' s e nonneg show ?thesis by (simp add: state_total_def db')
  next
    case False
    with tot [of p] find' e show ?thesis by (simp add: state_total_def db')
  qed
  moreover have pids: "map us_pid (xd_states db') = map us_pid (xd_states db)" by (simp add: db'(3))
  ultimately have "xp_inv db'"
    using inv e s cs unfolding xp_inv_def db'(1,2) by (auto simp: balances_ok_snoc)
  moreover have "us_pid ` set (xd_states db') = us_pid ` set (xd_states db)"
    using arg_cong [OF pids, of set] by simp
  ultimately show ?thesis by (simp add: keeps_def xp_grows_def db'(1,2))
qed

definition event_ok :: "award_input \<Rightarrow> bool" where
  "event_ok i \<longleftrightarrow> (case aw_eventId i of None \<Rightarrow> True | Some ev \<Rightarrow> ev \<noteq> [] \<and> nullish (aw_taskId i) [] \<noteq> [])"

lemma validateInput_ok:
  "validateInput i = Inr (pid, delta) \<Longrightarrow> 0 < delta \<and> event_ok i \<and> isPid pid"
  by (auto simp: validateInput_def toDelta_def event_ok_def bad_id_def Let_def split: if_splits option.splits)

lemma complete_task_effect:
  assumes "complete_task env now i pid eid db = Inr db'" "event_ok i"
  obtains (none) "db' = db" "aw_eventId i = None"
  | (completed) c where "db' = db\<lparr>xd_completions := xd_completions db @ [c]\<rparr>" "aw_eventId i \<noteq> None"
      "completion_key c = (nullish (aw_appId i) [], nullish (aw_eventId i) [])"
      "completion_key c \<notin> completion_key ` set (xd_completions db)"
      "tc_pid c = pid" "tc_createdAt c = now" "aw_taskId i = Some (tc_taskId c)"
proof (cases "aw_eventId i")
  case None
  with assms(1) none show ?thesis by (simp add: complete_task_def)
next
  case (Some ev)
  with assms(2) obtain task where task: "aw_taskId i = Some task" "ev \<noteq> []" "task \<noteq> []"
    by (cases "aw_taskId i") (auto simp: event_ok_def)
  then obtain once where "create_completion (award_completion env now i pid task ev eid once) db = Inr db'"
    using assms(1) Some by (auto simp: complete_task_def split: option.splits)
  with Some task show ?thesis
    by (intro completed [of "award_completion env now i pid task ev eid once"])
      (auto simp: create_completion_def award_completion_def completion_key_def completion_clash_def list_ex_iff image_iff split: if_splits)
qed

lemma create_xp_entry_effect:
  assumes "create_xp_entry env mk db = Inr (e, db')"
  shows "db' = db\<lparr>xd_entries := xd_entries db @ [e], xd_next := Suc (xd_next db)\<rparr> \<and> e = mk (xv_uuid env (xd_next db))"
  using assms by (auto simp: create_xp_entry_def Let_def split: if_splits)

lemma levelFromXp_nonneg: "levelFromXp x rows = Inr l \<Longrightarrow> 0 \<le> x"
  by (simp add: levelFromXp_def split: if_splits)

text \<open>The exact effect of the shared award writer on a known state row.\<close>

lemma append_award_effect:
  assumes run: "appendTaskAward env now i pid (Some s) delta active db = Inr ((tot, l, pl), db')" and ev: "event_ok i"
  obtains e cs where "tot = us_totalXp s + delta" "pl = us_level s" "levelFromXp tot (ap_thresholds active) = Inr l"
    "e = award_row i pid delta tot l (pv_id (ap_policy active)) now (xv_uuid env (xd_next db))"
    "cs = [] \<and> le_eventId e = None \<or> (\<exists>c. cs = [c] \<and> le_eventId e \<noteq> None \<and> completion_key c = event_key e
       \<and> event_key e \<notin> completion_key ` set (xd_completions db) \<and> tc_pid c = pid \<and> tc_createdAt c = now \<and> aw_taskId i = Some (tc_taskId c))"
    "db' = set_state pid (\<lambda>u. u\<lparr>us_totalXp := tot, us_level := l, us_policyVersionId := pv_id (ap_policy active)\<rparr>)
       (db\<lparr>xd_entries := xd_entries db @ [e], xd_next := Suc (xd_next db), xd_completions := xd_completions db @ cs\<rparr>)"
proof -
  let ?pol = "pv_id (ap_policy active)" and ?tot = "us_totalXp s + delta"
  from run obtain e db2 db3 where l: "levelFromXp ?tot (ap_thresholds active) = Inr l" "tot = ?tot" "pl = us_level s"
    and e: "create_xp_entry env (award_row i pid delta ?tot l ?pol now) db = Inr (e, db2)"
    and c: "complete_task env now i pid (le_id e) db2 = Inr db3"
    and db': "db' = set_state pid (\<lambda>u. u\<lparr>us_totalXp := ?tot, us_level := l, us_policyVersionId := ?pol\<rparr>) db3"
    by (auto simp: appendTaskAward_def Let_def)
  note e = create_xp_entry_effect [OF e]
  then have key: "event_key e = (nullish (aw_appId i) [], nullish (aw_eventId i) [])" "le_eventId e = aw_eventId i"
    by (simp_all add: award_row_def event_key_def)
  show ?thesis
  proof (rule complete_task_effect [OF c ev])
    assume "db3 = db2" "aw_eventId i = None"
    with l e db' key show ?thesis by (intro that [of e "[]"]) simp_all
  next
    fix c
    assume "db3 = db2\<lparr>xd_completions := xd_completions db2 @ [c]\<rparr>" "aw_eventId i \<noteq> None"
      "completion_key c = (nullish (aw_appId i) [], nullish (aw_eventId i) [])"
      "completion_key c \<notin> completion_key ` set (xd_completions db2)" "tc_pid c = pid" "tc_createdAt c = now" "aw_taskId i = Some (tc_taskId c)"
    with l e db' key show ?thesis by (intro that [of e "[c]"]) simp_all
  qed
qed

lemma append_award_keeps:
  assumes run: "appendTaskAward env now i pid (Some s) delta active db = Inr (w, db')"
    and st: "find_state db pid = Some s" and "xp_inv db" "0 < delta" "event_ok i"
  shows "keeps db db'"
proof -
  obtain tot l pl where w: "w = (tot, l, pl)" by (cases w) auto
  obtain e cs where eff: "tot = us_totalXp s + delta" "pl = us_level s" "levelFromXp tot (ap_thresholds active) = Inr l"
    "e = award_row i pid delta tot l (pv_id (ap_policy active)) now (xv_uuid env (xd_next db))"
    "cs = [] \<and> le_eventId e = None \<or> (\<exists>c. cs = [c] \<and> le_eventId e \<noteq> None \<and> completion_key c = event_key e
       \<and> event_key e \<notin> completion_key ` set (xd_completions db) \<and> tc_pid c = pid \<and> tc_createdAt c = now \<and> aw_taskId i = Some (tc_taskId c))"
    "db' = set_state pid (\<lambda>u. u\<lparr>us_totalXp := tot, us_level := l, us_policyVersionId := pv_id (ap_policy active)\<rparr>)
       (db\<lparr>xd_entries := xd_entries db @ [e], xd_next := Suc (xd_next db), xd_completions := xd_completions db @ cs\<rparr>)"
    by (rule append_award_effect [OF run [unfolded w] assms(5)])
  then have nonneg: "0 \<le> us_totalXp s + delta" using levelFromXp_nonneg by metis
  show ?thesis
    by (rule journal_write_keeps [OF assms(3) st nonneg, of e cs])
      (use eff assms(4) in \<open>auto simp: award_row_def set_state_def\<close>)
qed

lemma award_txn_keeps:
  assumes "award_txn env now i pid delta active seen db = Inr (r, db')" "xp_inv db" "0 < delta" "event_ok i"
  shows "keeps db db'"
proof -
  from assms(1) obtain s db1 where lock: "lock_state pid active seen db = Inr (s, db1)"
    and rest: "db' = db1 \<or> (\<exists>w. appendTaskAward env now i pid (Some s) delta active db1 = Inr (w, db'))"
    by (auto simp: award_txn_def split: if_splits)
  from lock_state_keeps [OF lock] have k: "keeps db db1" "find_state db1 pid = Some s" by simp_all
  then have "xp_inv db1" using assms(2) by (simp add: keeps_def)
  with rest k assms(3,4) have "keeps db1 db'" using append_award_keeps by fastforce
  with k(1) show ?thesis by (rule keeps_trans)
qed

lemma awardXp_keeps: "xp_inv db \<Longrightarrow> keeps db (snd (awardXp env now i seen db))"
  using award_txn_keeps [of env now i _ _ _ _ db] validateInput_ok [of i]
  by (fastforce simp: awardXp_def split: sum.splits prod.splits http_error.splits option.splits if_splits)

lemma admin_txn_keeps:
  assumes "admin_txn env now kind pid delta reason actor active seen db = Inr (r, db')" "xp_inv db"
  shows "keeps db db'"
proof -
  let ?pol = "pv_id (ap_policy active)"
  from assms(1) obtain s db1 l e db2 where lock: "lock_state pid active seen db = Inr (s, db1)"
    and l: "levelFromXp (us_totalXp s + delta) (ap_thresholds active) = Inr l"
    and e: "create_xp_entry env (admin_row kind pid delta (us_totalXp s + delta) l reason actor ?pol now) db1 = Inr (e, db2)"
    and db': "db' = set_state pid (\<lambda>u. u\<lparr>us_totalXp := us_totalXp s + delta, us_level := l, us_policyVersionId := ?pol\<rparr>) db2"
    by (auto simp: admin_txn_def Let_def split: if_splits)
  from lock_state_keeps [OF lock] have k: "keeps db db1" "find_state db1 pid = Some s" by simp_all
  then have "xp_inv db1" using assms(2) by (simp add: keeps_def)
  note eff = create_xp_entry_effect [OF e]
  have "keeps db1 db'"
    by (rule journal_write_keeps [OF \<open>xp_inv db1\<close> k(2) levelFromXp_nonneg [OF l], of e "[]"])
      (use eff db' in \<open>auto simp: admin_row_def set_state_def\<close>)
  with k(1) show ?thesis by (rule keeps_trans)
qed

lemma run_admin_keeps:
  "xp_inv db \<Longrightarrow> (\<And>active r db'. txn active = Inr (r, db') \<Longrightarrow> keeps db db') \<Longrightarrow> keeps db (snd (run_admin txn seen db))"
  by (auto simp: run_admin_def split: sum.splits)

lemma adjustXp_keeps: "xp_inv db \<Longrightarrow> keeps db (snd (adjustXp env now i seen db))"
  by (auto simp: adjustXp_def split: sum.splits intro: run_admin_keeps admin_txn_keeps)

lemma reverseXp_keeps: "xp_inv db \<Longrightarrow> keeps db (snd (reverseXp env now i seen db))"
  by (auto simp: reverseXp_def Let_def split: sum.splits intro: run_admin_keeps admin_txn_keeps)

lemma ensureState_keeps: "keeps db (snd (ensureState pid active seen db))"
  using create_state_keeps(1) [of "genesis pid active" db]
  by (auto simp: ensureState_def genesis_def split: option.splits sum.splits http_error.splits)

lemma getLevelView_keeps: "keeps db (snd (getLevelView rawPid seen db))"
  using ensureState_keeps [of db] by (auto simp: getLevelView_def Let_def split: option.splits sum.splits prod.splits) (metis snd_conv)+

text \<open>Under the invariant the reconciliation job finds nothing.\<close>

lemma reconcile_ok: "xp_inv db \<Longrightarrow> xp_reconcile pid db = (True, [])"
proof -
  assume inv: "xp_inv db"
  have "ledger_sum p (xd_entries db) = t" if "find_state db p = Some s" "us_totalXp s = t" for p s t
    using inv that by (auto simp: xp_inv_def state_total_def dest!: spec [of _ p])
  moreover have "ledger_sum p (xd_entries db) = 0" if "find_state db p = None" for p
    using inv that by (auto simp: xp_inv_def state_total_def dest!: spec [of _ p])
  ultimately show ?thesis
    by (auto simp: xp_reconcile_def Let_def split: option.splits)
qed

end
