(* ===== verification/Xp_Admin.thy ===== *)
theory Xp_Admin
  imports Xp_Ledger
begin

text \<open>
  The administration of the XP module: catalogues (\<^verbatim>\<open>catalog.ts\<close>), the grant envelope
  (\<^verbatim>\<open>experience-admin-guards.ts\<close>), permissions and quotas (\<^verbatim>\<open>experience-admin.service.ts\<close>), tasks
  (\<^verbatim>\<open>experience-tasks.service.ts\<close>), policy versions (\<^verbatim>\<open>experience-policies.service.ts\<close>) and the
  backfill (\<^verbatim>\<open>policy-backfill.service.ts\<close>). Operations take \<open>seen\<close> and \<open>db\<close> as in \<open>Xp_Ledger\<close>.
  A field of a DTO that may be absent, null or a value is an \<open>option option\<close>.
\<close>

section \<open>Catalogues\<close>

definition key_char :: "char \<Rightarrow> bool" where
  "key_char c \<longleftrightarrow> handle_char c"

text \<open>\<^verbatim>\<open>/^[a-z][a-z0-9_]{2,63}$/\<close>.\<close>

definition event_type_format :: "string \<Rightarrow> bool" where
  "event_type_format v =
     (case v of [] \<Rightarrow> False
      | c # cs \<Rightarrow> 97 \<le> (of_char c :: nat) \<and> (of_char c :: nat) \<le> 122 \<and> 2 \<le> length cs \<and> length cs \<le> 63 \<and> list_all key_char cs)"

definition MVP_EVENT_TYPES :: "string list" where
  "MVP_EVENT_TYPES = [''onboarding_completed'', ''identity_verified'', ''campaign_completed'', ''achievement_earned'', ''ecosystem_activity'']"

definition validateEventType :: "string \<Rightarrow> string option" where
  "validateEventType v =
     (if \<not> event_type_format v then Some (''invalid event-type format: '' @ v)
      else if \<not> List.member MVP_EVENT_TYPES v then Some (''unknown event type (not in MVP catalog): '' @ v)
      else None)"

fun allowlist_loop :: "json list \<Rightarrow> string list \<Rightarrow> string list \<Rightarrow> string list \<times> string list" where
  "allowlist_loop [] seen errors = (seen, errors)"
| "allowlist_loop (JStr t # ts) seen errors =
     (case validateEventType t of
        Some err \<Rightarrow> allowlist_loop ts seen (errors @ [err])
      | None \<Rightarrow> if List.member seen t then allowlist_loop ts seen (errors @ [''duplicate event type: '' @ t])
                else allowlist_loop ts (seen @ [t]) errors)"
| "allowlist_loop (_ # ts) seen errors = allowlist_loop ts seen (errors @ [''event type must be a string''])"

definition validateEventTypeAllowlist :: "json \<Rightarrow> string list + string list" where
  "validateEventTypeAllowlist types =
     (case types of
        JArr ts \<Rightarrow>
          if length ts > 50 then Inl [''approvedEventTypes too large (max 50)'']
          else (case allowlist_loop ts [] [] of (seen, errors) \<Rightarrow> if errors \<noteq> [] then Inl errors else Inr seen)
      | _ \<Rightarrow> Inl [''approvedEventTypes must be an array''])"

definition VERIFICATION_TYPES :: "string list" where
  "VERIFICATION_TYPES = [''internal_state'', ''backend_check'']"

definition RELIABLE_CHECKERS :: "string list" where
  "RELIABLE_CHECKERS = [''internal_state.onboarding_completed'', ''internal_state.identity_verified'',
     ''internal_state.campaign_verified'', ''backend_check.achievement_owned'', ''backend_check.activity_verified'']"

definition validateChecker :: "string \<Rightarrow> string option \<Rightarrow> string option" where
  "validateChecker verificationType checker =
     (case checker of
        None \<Rightarrow> Some ''task has no reliable checker registered (verification.checker is required for activation)''
      | Some c \<Rightarrow>
          if c = [] then Some ''task has no reliable checker registered (verification.checker is required for activation)''
          else if \<not> List.member RELIABLE_CHECKERS c then Some (''unknown verification checker (not in MVP registry): '' @ c)
          else if takeWhile (\<lambda>x. x \<noteq> CHR ''.'') c \<noteq> verificationType
            then Some (''checker '' @ c @ '' does not match verificationType '' @ verificationType)
          else None)"

definition TASK_RECURRING :: "string list" where
  "TASK_RECURRING = [''once'', ''daily'', ''weekly'', ''monthly'', ''unlimited'']"

definition TASK_STATUSES :: "string list" where
  "TASK_STATUSES = [''draft'', ''active'', ''disabled'', ''archived'']"

section \<open>Guards\<close>

definition SECOND_PERSON_MIN_REASON :: nat where "SECOND_PERSON_MIN_REASON = 10"

definition checkGrantEnvelope :: "bool \<Rightarrow> string \<Rightarrow> string option \<Rightarrow> string option \<Rightarrow> string option" where
  "checkGrantEnvelope isRaise actor confirmedBy reason =
     (let c = trim (nullish confirmedBy []); r = trim (nullish reason [])
      in if \<not> isRaise then None
         else if c \<noteq> [] then
           (if to_lower c = to_lower actor then Some ''confirmedBy must be a different admin (self-confirm is not second-person)''
            else None)
         else if length r \<ge> SECOND_PERSON_MIN_REASON then None
         else Some ''permission grants require second-person confirm (confirmedBy) or justification (reason >= 10 chars)'')"

definition requireApp :: "xp_db \<Rightarrow> string \<Rightarrow> xp_app result" where
  "requireApp db appId = (case find (\<lambda>a. xa_id a = appId) (xd_apps db) of None \<Rightarrow> Inl (NotFound ''scope app not found'') | Some a \<Rightarrow> Inr a)"

definition requireActiveAdmin :: "xp_db \<Rightarrow> string \<Rightarrow> unit result" where
  "requireActiveAdmin db pid =
     (case find (\<lambda>i. xi_pid i = to_lower pid) (xd_identities db) of
        Some i \<Rightarrow> if xi_status i \<noteq> ''active'' \<or> xi_role i \<noteq> ''admin'' then Inl (BadRequest ''confirmedBy must be an active admin'') else Inr ()
      | None \<Rightarrow> Inl (BadRequest ''confirmedBy must be an active admin''))"

text \<open>The envelope of a write: its verdict, then the second person must be an active admin.\<close>

definition envelope :: "bool \<Rightarrow> string \<Rightarrow> string option \<Rightarrow> string option \<Rightarrow> xp_db \<Rightarrow> unit result" where
  "envelope isRaise actor confirmedBy reason db =
     (case checkGrantEnvelope isRaise actor confirmedBy reason of
        Some e \<Rightarrow> Inl (BadRequest e)
      | None \<Rightarrow> if trim (nullish confirmedBy []) \<noteq> [] then requireActiveAdmin db (trim (nullish confirmedBy [])) else Inr ())"

definition add_suspicious :: "xp_env \<Rightarrow> string option \<Rightarrow> string option \<Rightarrow> string \<Rightarrow> xp_db \<Rightarrow> xp_db" where
  "add_suspicious env pid app signal db =
     db\<lparr>xd_suspicious := xd_suspicious db @ [\<lparr>sa_id = xv_uuid env (xd_next db), sa_pid = pid, sa_appId = app, sa_signal = signal, sa_reviewed = False\<rparr>],
        xd_next := Suc (xd_next db)\<rparr>"

section \<open>Permissions and quotas\<close>

record permission_dto =
  pd_xpEnabled :: bool
  pd_approvedEventTypes :: json
  pd_confirmedBy :: "string option"
  pd_reason :: "string option"

definition permission_raise :: "xp_app \<Rightarrow> bool \<Rightarrow> string list \<Rightarrow> bool" where
  "permission_raise app xpEnabled types =
     ((xpEnabled \<and> \<not> xa_xpEnabled app) \<or> (xpEnabled \<and> list_ex (\<lambda>t. \<not> List.member (xa_approvedEventTypes app) t) types))"

definition setXpPermission :: "xp_env \<Rightarrow> string \<Rightarrow> string \<Rightarrow> permission_dto \<Rightarrow> xp_db \<Rightarrow> xp_db \<Rightarrow> (xp_app \<times> bool) result \<times> xp_db" where
  "setXpPermission env actor appId dto seen db =
     (case find (\<lambda>a. xa_id a = appId) (xd_apps seen) of
        None \<Rightarrow> (Inl (NotFound ''app not found''), db)
      | Some app \<Rightarrow>
          case validateEventTypeAllowlist (pd_approvedEventTypes dto) of
            Inl errors \<Rightarrow> (Inl (BadRequest (''approvedEventTypes rejected: '' @ join ''; '' errors)), db)
          | Inr types \<Rightarrow>
              let isRaise = permission_raise app (pd_xpEnabled dto) types
              in case envelope isRaise actor (pd_confirmedBy dto) (pd_reason dto) seen of
                   Inl e \<Rightarrow> (Inl e, db)
                 | Inr _ \<Rightarrow>
                     let upd = (\<lambda>a. a\<lparr>xa_xpEnabled := pd_xpEnabled dto, xa_approvedEventTypes := types\<rparr>);
                         db1 = xp_log actor (if pd_xpEnabled dto then ''admin.xp.permission.granted'' else ''admin.xp.permission.revoked'')
                           (db\<lparr>xd_apps := map (\<lambda>a. if xa_id a = appId then upd a else a) (xd_apps db)\<rparr>);
                         self = (isRaise \<and> to_lower (xa_ownerPid app) = to_lower actor);
                         db2 = (if self then xp_log actor ''admin.xp.permission.self_grant_alert''
                                  (add_suspicious env (Some actor) (Some appId) ''xp.self_grant'' db1) else db1)
                     in (Inr (upd app, self), db2))"

record quota_dto =
  qd_dailyCap :: "int option option"
  qd_weeklyCap :: "int option option"
  qd_monthlyCap :: "int option option"
  qd_suspended :: "bool option"
  qd_suspendReason :: "string option option"
  qd_confirmedBy :: "string option"
  qd_reason :: "string option"

definition bad_cap :: "int option option \<Rightarrow> bool" where
  "bad_cap v = (case v of Some (Some c) \<Rightarrow> c < 1 \<or> c > 100000000 | _ \<Rightarrow> False)"

definition cap_error :: "quota_dto \<Rightarrow> string option" where
  "cap_error dto =
     (if bad_cap (qd_dailyCap dto) then Some ''dailyCap must be a positive integer or null''
      else if bad_cap (qd_weeklyCap dto) then Some ''weeklyCap must be a positive integer or null''
      else if bad_cap (qd_monthlyCap dto) then Some ''monthlyCap must be a positive integer or null''
      else None)"

text \<open>\<^verbatim>\<open>dto.cap !== undefined ? dto.cap : (prev?.cap ?? null)\<close>.\<close>

definition next_caps :: "quota_dto \<Rightarrow> 'a xp_caps_scheme option \<Rightarrow> xp_caps" where
  "next_caps dto prev =
     \<lparr>cap_daily = nullish (qd_dailyCap dto) (Option.bind prev cap_daily),
      cap_weekly = nullish (qd_weeklyCap dto) (Option.bind prev cap_weekly),
      cap_monthly = nullish (qd_monthlyCap dto) (Option.bind prev cap_monthly)\<rparr>"

definition cap_raised :: "int option \<Rightarrow> int option \<Rightarrow> bool" where
  "cap_raised nxt prev = (case nxt of None \<Rightarrow> False | Some n \<Rightarrow> (case prev of None \<Rightarrow> True | Some p \<Rightarrow> n > p))"

definition caps_raised :: "xp_caps \<Rightarrow> 'a xp_caps_scheme option \<Rightarrow> bool" where
  "caps_raised n prev =
     (cap_raised (cap_daily n) (Option.bind prev cap_daily)
      \<or> cap_raised (cap_weekly n) (Option.bind prev cap_weekly)
      \<or> cap_raised (cap_monthly n) (Option.bind prev cap_monthly))"

definition next_quota :: "quota_dto \<Rightarrow> string \<Rightarrow> xp_quota option \<Rightarrow> xp_quota" where
  "next_quota dto appId prev =
     xp_caps.extend (next_caps dto prev)
       \<lparr>qa_appId = appId, qa_suspended = nullish (or_else (qd_suspended dto) (map_option qa_suspended prev)) False,
        qa_suspendReason = nullish (qd_suspendReason dto) (Option.bind prev qa_suspendReason)\<rparr>"

definition quota_raised :: "xp_quota \<Rightarrow> xp_quota option \<Rightarrow> bool" where
  "quota_raised n prev =
     (caps_raised (xp_caps.truncate n) prev \<or> (case prev of None \<Rightarrow> False | Some p \<Rightarrow> qa_suspended p \<and> \<not> qa_suspended n))"

text \<open>The upsert writes the row computed from what was read.\<close>

definition put_quota :: "xp_quota \<Rightarrow> xp_db \<Rightarrow> xp_db" where
  "put_quota q db =
     (if list_ex (\<lambda>r. qa_appId r = qa_appId q) (xd_quotas db)
      then db\<lparr>xd_quotas := map (\<lambda>r. if qa_appId r = qa_appId q then q else r) (xd_quotas db)\<rparr>
      else db\<lparr>xd_quotas := xd_quotas db @ [q]\<rparr>)"

definition suspend_unexplained :: "quota_dto \<Rightarrow> xp_quota \<Rightarrow> bool" where
  "suspend_unexplained dto n \<longleftrightarrow>
     qa_suspended n \<and> trim (nullish (or_else (nullish (qd_suspendReason dto) None) (qa_suspendReason n)) []) = []
     \<and> trim (nullish (qd_reason dto) []) = []"

definition upsertQuota :: "xp_env \<Rightarrow> string \<Rightarrow> string \<Rightarrow> quota_dto \<Rightarrow> xp_db \<Rightarrow> xp_db \<Rightarrow> (xp_quota \<times> bool) result \<times> xp_db" where
  "upsertQuota env actor appId dto seen db =
     (case find (\<lambda>a. xa_id a = appId) (xd_apps seen) of
        None \<Rightarrow> (Inl (NotFound ''app not found''), db)
      | Some app \<Rightarrow>
          case cap_error dto of
            Some e \<Rightarrow> (Inl (BadRequest e), db)
          | None \<Rightarrow>
              let prev = find (\<lambda>q. qa_appId q = appId) (xd_quotas seen);
                  n = next_quota dto appId prev;
                  raised = quota_raised n prev
              in if suspend_unexplained dto n then (Inl (BadRequest ''suspending requires suspendReason or reason''), db)
                 else case envelope raised actor (qd_confirmedBy dto) (qd_reason dto) seen of
                   Inl e \<Rightarrow> (Inl e, db)
                 | Inr _ \<Rightarrow>
                     let db1 = xp_log actor ''admin.xp.quota.set'' (put_quota n db);
                         self = (raised \<and> to_lower (xa_ownerPid app) = to_lower actor)
                     in (Inr (n, self), if self then add_suspicious env (Some actor) (Some appId) ''xp.self_grant'' db1 else db1))"

definition put_org_quota :: "xp_org_quota \<Rightarrow> xp_db \<Rightarrow> xp_db" where
  "put_org_quota q db =
     (if list_ex (\<lambda>r. qo_ownerPid r = qo_ownerPid q) (xd_orgQuotas db)
      then db\<lparr>xd_orgQuotas := map (\<lambda>r. if qo_ownerPid r = qo_ownerPid q then q else r) (xd_orgQuotas db)\<rparr>
      else db\<lparr>xd_orgQuotas := xd_orgQuotas db @ [q]\<rparr>)"

definition upsertOrgQuota :: "string \<Rightarrow> string \<Rightarrow> quota_dto \<Rightarrow> xp_db \<Rightarrow> xp_db \<Rightarrow> xp_org_quota result \<times> xp_db" where
  "upsertOrgQuota actor ownerPid dto seen db =
     (case find (\<lambda>i. xi_pid i = to_lower ownerPid) (xd_identities seen) of
        None \<Rightarrow> (Inl (NotFound ''owner not found''), db)
      | Some owner \<Rightarrow>
          case cap_error dto of
            Some e \<Rightarrow> (Inl (BadRequest e), db)
          | None \<Rightarrow>
              let prev = find (\<lambda>q. qo_ownerPid q = xi_pid owner) (xd_orgQuotas seen);
                  caps = next_caps dto prev;
                  n = xp_caps.extend caps \<lparr>qo_ownerPid = xi_pid owner\<rparr>
              in case envelope (caps_raised caps prev) actor (qd_confirmedBy dto) (qd_reason dto) seen of
                   Inl e \<Rightarrow> (Inl e, db)
                 | Inr _ \<Rightarrow> (Inr n, xp_log actor ''admin.xp.org_quota.set'' (put_org_quota n db)))"

definition suspendApp :: "xp_env \<Rightarrow> string \<Rightarrow> string \<Rightarrow> bool \<Rightarrow> string option \<Rightarrow> string option \<Rightarrow> xp_db \<Rightarrow> xp_db \<Rightarrow> (xp_quota \<times> bool) result \<times> xp_db" where
  "suspendApp env actor appId suspended suspendReason reason seen db =
     upsertQuota env actor appId
       \<lparr>qd_dailyCap = None, qd_weeklyCap = None, qd_monthlyCap = None, qd_suspended = Some suspended,
        qd_suspendReason = Some (or_else suspendReason reason), qd_confirmedBy = None, qd_reason = reason\<rparr> seen db"

definition log_ok :: "string \<Rightarrow> string \<Rightarrow> 'a result \<times> xp_db \<Rightarrow> 'a result \<times> xp_db" where
  "log_ok actor event r = (case r of (Inl e, db) \<Rightarrow> (Inl e, db) | (Inr a, db) \<Rightarrow> (Inr a, xp_log actor event db))"

definition admin_adjust :: "xp_env \<Rightarrow> int \<Rightarrow> string \<Rightarrow> string \<Rightarrow> int \<Rightarrow> string \<Rightarrow> xp_db \<Rightarrow> xp_db \<Rightarrow> award_result result \<times> xp_db" where
  "admin_adjust env now actor pid deltaXp reason seen db =
     log_ok actor ''admin.xp.adjusted''
       (adjustXp env now \<lparr>ad_pid = pid, ad_amount = deltaXp, ad_reason = Some reason, ad_actorAdminId = Some actor, ad_originalEntryId = None\<rparr> seen db)"

definition original_error :: "string \<Rightarrow> string option \<Rightarrow> xp_db \<Rightarrow> http_error option" where
  "original_error pid original db =
     (if nullish original [] = [] then None
      else case find (\<lambda>e. le_id e = nullish original []) (xd_entries db) of
        None \<Rightarrow> Some (NotFound ''original ledger entry not found'')
      | Some e \<Rightarrow> if to_lower (le_pid e) \<noteq> to_lower (trim pid) then Some (BadRequest ''original entry belongs to a different pid'') else None)"

definition admin_reverse ::
  "xp_env \<Rightarrow> int \<Rightarrow> string \<Rightarrow> string \<Rightarrow> int \<Rightarrow> string \<Rightarrow> string option \<Rightarrow> xp_db \<Rightarrow> xp_db \<Rightarrow> award_result result \<times> xp_db" where
  "admin_reverse env now actor pid amount reason original seen db =
     (case original_error pid original seen of
        Some e \<Rightarrow> (Inl e, db)
      | None \<Rightarrow> log_ok actor ''admin.xp.reversed''
          (reverseXp env now \<lparr>ad_pid = pid, ad_amount = amount, ad_reason = Some reason, ad_actorAdminId = Some actor, ad_originalEntryId = original\<rparr> seen db))"

definition reviewSuspicious :: "string \<Rightarrow> string \<Rightarrow> bool \<Rightarrow> xp_db \<Rightarrow> xp_suspicious result \<times> xp_db" where
  "reviewSuspicious actor i reviewed db =
     (case find (\<lambda>a. sa_id a = i) (xd_suspicious db) of
        None \<Rightarrow> (Inl (NotFound ''suspicious activity not found''), db)
      | Some a \<Rightarrow> (Inr (a\<lparr>sa_reviewed := reviewed\<rparr>),
          xp_log actor ''admin.xp.suspicious.reviewed''
            (db\<lparr>xd_suspicious := map (\<lambda>x. if sa_id x = i then x\<lparr>sa_reviewed := reviewed\<rparr> else x) (xd_suspicious db)\<rparr>)))"

end
