(* ===== verification/Xp_Policy.thy ===== *)
theory Xp_Policy
  imports Xp_Admin
begin

text \<open>
  Policy versions and tasks: \<^verbatim>\<open>experience-policies.service.ts\<close> (draft, materialise, preview, activate),
  \<^verbatim>\<open>policy-backfill.service.ts\<close> (plan, paged backfill, rollback draft, verification) and
  \<^verbatim>\<open>experience-tasks.service.ts\<close> (create, update). Reads before a write see \<open>seen\<close>; the write happens on \<open>db\<close>.
\<close>

section \<open>Policy versions\<close>

record policy_dto =
  po_base :: "int option"
  po_exponent :: "(nat \<times> nat) option"
  po_maxLevel :: "int option"

text \<open>The exponent is a fraction; \<^verbatim>\<open>exponent < 0.5 || exponent > 3\<close> on it.\<close>

definition toFormula :: "policy_dto \<Rightarrow> xp_formula result" where
  "toFormula dto =
     (let base = nullish (po_base dto) (int (fo_base DEFAULT_FORMULA));
          (num, den) = nullish (po_exponent dto) (fo_num DEFAULT_FORMULA, fo_den DEFAULT_FORMULA)
      in if base < 1 \<or> base > 100000 then Inl (BadRequest ''base must be an integer 1..100000'')
         else if den = 0 \<or> 2 * num < den \<or> num > 3 * den then Inl (BadRequest ''exponent must be a number 0.5..3'')
         else Inr \<lparr>fo_base = nat base, fo_num = num, fo_den = den\<rparr>)"

fun parseOverrides :: "(int \<times> int) list \<Rightarrow> int \<Rightarrow> (int, int) jsmap \<Rightarrow> (int, int) jsmap result" where
  "parseOverrides [] maxLevel m = Inr m"
| "parseOverrides ((level, v) # rest) maxLevel m =
     (if level < 1 \<or> level > maxLevel then Inl (BadRequest (''override level out of range 1..'' @ show_int maxLevel @ '': '' @ show_int level))
      else if v < 0 \<or> v > 1000000000000 then Inl (BadRequest (''override xp must be an integer 0..1e12 (level '' @ show_int level @ '')''))
      else parseOverrides rest maxLevel (jsmap_set level v m))"

definition DEFAULT_FORMULA_MAX_LEVEL :: int where "DEFAULT_FORMULA_MAX_LEVEL = 100"

definition max_version :: "xp_db \<Rightarrow> int" where
  "max_version db = fold max (map pv_version (xd_policies db)) 0"

definition create_policy :: "xp_policy \<Rightarrow> xp_db \<Rightarrow> xp_db result" where
  "create_policy p db =
     (if list_ex (\<lambda>q. pv_version q = pv_version p \<or> pv_id q = pv_id p) (xd_policies db) then Inl UniqueViolation
      else Inr (db\<lparr>xd_policies := xd_policies db @ [p], xd_next := Suc (xd_next db)\<rparr>))"

definition draft_policy :: "xp_env \<Rightarrow> xp_db \<Rightarrow> int \<Rightarrow> xp_formula \<Rightarrow> int option \<Rightarrow> string \<Rightarrow> xp_policy" where
  "draft_policy env db version formula maxLevel by_whom =
     \<lparr>pv_id = xv_uuid env (xd_next db), pv_version = version, pv_formula = formula, pv_maxLevel = maxLevel, pv_createdBy = by_whom,
      pv_activatedAt = None, pv_supersededAt = None\<rparr>"

definition createPolicyDraft :: "xp_env \<Rightarrow> string \<Rightarrow> policy_dto \<Rightarrow> xp_db \<Rightarrow> xp_db \<Rightarrow> xp_policy result \<times> xp_db" where
  "createPolicyDraft env actor dto seen db =
     (case toFormula dto of Inl e \<Rightarrow> (Inl e, db) | Inr formula \<Rightarrow>
      let maxLevel = nullish (po_maxLevel dto) DEFAULT_FORMULA_MAX_LEVEL;
          row = draft_policy env db (max_version seen + 1) formula (Some maxLevel) actor
      in if maxLevel < 1 \<or> maxLevel > 10000 then (Inl (BadRequest ''maxLevel must be an integer 1..10000''), db)
         else case create_policy row db of
           Inl UniqueViolation \<Rightarrow> (Inl (Conflict ''policy version collision -- retry''), db)
         | Inl e \<Rightarrow> (Inl e, db)
         | Inr db' \<Rightarrow> (Inr row, xp_log actor ''admin.xp.policy.drafted'' db'))"

definition find_policy :: "xp_db \<Rightarrow> string \<Rightarrow> xp_policy option" where
  "find_policy db i = find (\<lambda>p. pv_id p = i) (xd_policies db)"

definition error_message :: "http_error \<Rightarrow> string" where
  "error_message e = (case e of JsError m \<Rightarrow> m | BadRequest m \<Rightarrow> m | _ \<Rightarrow> [])"

definition materializePolicy ::
  "string \<Rightarrow> string \<Rightarrow> (int \<times> int) list \<Rightarrow> xp_db \<Rightarrow> xp_db \<Rightarrow> (string \<times> int \<times> nat) result \<times> xp_db" where
  "materializePolicy actor i overrides seen db =
     (case find_policy seen i of
        None \<Rightarrow> (Inl (NotFound ''policy not found''), db)
      | Some p \<Rightarrow>
          if pv_activatedAt p \<noteq> None then (Inl (BadRequest ''active/superseded policies are immutable -- draft a new version''), db)
          else let maxLevel = nullish (pv_maxLevel p) DEFAULT_FORMULA_MAX_LEVEL
            in case parseOverrides overrides maxLevel [] of Inl e \<Rightarrow> (Inl e, db) | Inr ov \<Rightarrow>
               case buildThresholds maxLevel (pv_formula p) ov of
                 Inl e \<Rightarrow> (Inl (BadRequest (error_message e)), db)
               | Inr rows \<Rightarrow>
                   (Inr (i, pv_version p, length rows),
                    xp_log actor ''admin.xp.policy.materialized''
                      (db\<lparr>xd_thresholds := filter (\<lambda>r. tr_policyVersionId r \<noteq> i) (xd_thresholds db)
                            @ map (\<lambda>r. level_threshold.extend r \<lparr>tr_policyVersionId = i\<rparr>) rows\<rparr>)))"

record threshold_diff =
  td_level :: int
  td_draftXp :: int
  td_activeXp :: "int option"
  td_delta :: "int option"

record policy_preview =
  pp_version :: int
  pp_activeVersion :: "int option"
  pp_thresholdCount :: nat
  pp_thresholdDiff :: "threshold_diff list"
  pp_evaluated :: nat
  pp_truncated :: bool
  pp_leveledUp :: nat
  pp_leveledDown :: nat
  pp_unchanged :: nat

definition PREVIEW_CAP :: nat where "PREVIEW_CAP = 20000"

definition diff_row :: "(int, int) jsmap \<Rightarrow> level_threshold \<Rightarrow> threshold_diff" where
  "diff_row activeByLevel t =
     \<lparr>td_level = th_level t, td_draftXp = th_cumulativeXp t, td_activeXp = jsmap_get activeByLevel (th_level t),
      td_delta = map_option (\<lambda>x. th_cumulativeXp t - x) (jsmap_get activeByLevel (th_level t))\<rparr>"

text \<open>The levels of a state now and under the draft; an error of either aborts the preview.\<close>

fun compare_levels :: "active_policy option \<Rightarrow> level_threshold list \<Rightarrow> xp_state list \<Rightarrow> (int \<times> int) list result" where
  "compare_levels active draft [] = Inr []"
| "compare_levels active draft (s # ss) =
     bind_result (case active of Some a \<Rightarrow> levelFromXp (us_totalXp s) (ap_thresholds a) | None \<Rightarrow> Inr 1) (\<lambda>now_level.
     bind_result (levelFromXp (us_totalXp s) draft) (\<lambda>next_level.
     bind_result (compare_levels active draft ss) (\<lambda>rest. Inr ((now_level, next_level) # rest))))"

definition active_or_none :: "xp_db \<Rightarrow> active_policy option" where
  "active_or_none db = (case getActivePolicy db of Inl _ \<Rightarrow> None | Inr a \<Rightarrow> Some a)"

definition previewPolicy :: "string \<Rightarrow> xp_db \<Rightarrow> policy_preview result" where
  "previewPolicy i db =
     (case find_policy db i of
        None \<Rightarrow> Inl (NotFound ''policy not found'')
      | Some draft \<Rightarrow>
          let rows = policy_rows db i; active = active_or_none db
          in if rows = [] then Inl (BadRequest ''policy has no materialized thresholds -- materialize first'')
             else bind_result (compare_levels active rows (take PREVIEW_CAP (xd_states db))) (\<lambda>ls.
               Inr \<lparr>pp_version = pv_version draft, pp_activeVersion = map_option (pv_version \<circ> ap_policy) active,
                 pp_thresholdCount = length rows,
                 pp_thresholdDiff = map (diff_row (by_level (case active of None \<Rightarrow> [] | Some a \<Rightarrow> ap_thresholds a))) rows,
                 pp_evaluated = min (length (xd_states db)) PREVIEW_CAP, pp_truncated = (length (xd_states db) > PREVIEW_CAP),
                 pp_leveledUp = length (filter (\<lambda>(a, b). b > a) ls), pp_leveledDown = length (filter (\<lambda>(a, b). b < a) ls),
                 pp_unchanged = length (filter (\<lambda>(a, b). b = a) ls)\<rparr>))"

definition set_policy :: "string \<Rightarrow> (xp_policy \<Rightarrow> xp_policy) \<Rightarrow> xp_db \<Rightarrow> xp_db" where
  "set_policy i g db = db\<lparr>xd_policies := map (\<lambda>p. if pv_id p = i then g p else p) (xd_policies db)\<rparr>"

definition activate_txn :: "int \<Rightarrow> string \<Rightarrow> xp_db \<Rightarrow> xp_db" where
  "activate_txn now i db =
     (let db1 = (case find is_active (xd_policies db) of
            Some current \<Rightarrow> if pv_id current \<noteq> i then set_policy (pv_id current) (\<lambda>p. p\<lparr>pv_supersededAt := Some now\<rparr>) db else db
          | None \<Rightarrow> db)
      in set_policy i (\<lambda>p. p\<lparr>pv_activatedAt := Some now, pv_supersededAt := None\<rparr>) db1)"

definition activatePolicy ::
  "int \<Rightarrow> string \<Rightarrow> string \<Rightarrow> string option \<Rightarrow> string option \<Rightarrow> xp_db \<Rightarrow> xp_db \<Rightarrow> xp_policy result \<times> xp_db" where
  "activatePolicy now actor i confirmedBy reason seen db =
     (case envelope True actor confirmedBy reason seen of Inl e \<Rightarrow> (Inl e, db) | Inr _ \<Rightarrow>
      case find_policy seen i of
        None \<Rightarrow> (Inl (NotFound ''policy not found''), db)
      | Some draft \<Rightarrow>
          if pv_activatedAt draft \<noteq> None \<and> pv_supersededAt draft = None then (Inl (BadRequest ''policy is already active''), db)
          else if pv_supersededAt draft \<noteq> None then (Inl (BadRequest ''superseded policies cannot be reactivated -- draft a new version''), db)
          else if policy_rows seen i = [] then (Inl (BadRequest ''policy has no materialized thresholds -- materialize first''), db)
          else let db' = activate_txn now i db
            in (case find_policy db' i of Some p \<Rightarrow> Inr p | None \<Rightarrow> Inl (JsError ''P2025''),
                if find_policy db i = None then db else xp_log actor ''admin.xp.policy.activated'' db'))"

section \<open>Backfill\<close>

definition migrationEnabled :: "xp_env \<Rightarrow> bool" where
  "migrationEnabled env \<longleftrightarrow> nullish (jsmap_get (xv_config env) ''PID_XP_MIGRATION_ENABLED'') ''false'' = ''true''"

record backfill_plan =
  bp_version :: int
  bp_isActive :: bool
  bp_activeVersion :: "int option"
  bp_thresholdCount :: nat
  bp_totalStates :: nat
  bp_stamped :: nat
  bp_pending :: int

definition planBackfill :: "string \<Rightarrow> xp_db \<Rightarrow> backfill_plan result" where
  "planBackfill i db =
     (case find_policy db i of
        None \<Rightarrow> Inl (NotFound ''policy not found'')
      | Some p \<Rightarrow>
          let n = length (policy_rows db i); stamped = length (filter (\<lambda>s. us_policyVersionId s = i) (xd_states db));
              active = active_or_none db
          in if n = 0 then Inl (BadRequest ''policy has no materialized thresholds -- materialize first'')
             else Inr \<lparr>bp_version = pv_version p, bp_isActive = (map_option (pv_id \<circ> ap_policy) active = Some i),
               bp_activeVersion = map_option (pv_version \<circ> ap_policy) active, bp_thresholdCount = n,
               bp_totalStates = length (xd_states db), bp_stamped = stamped, bp_pending = int (length (xd_states db)) - int stamped\<rparr>)"

definition DEFAULT_BATCH :: int where "DEFAULT_BATCH = 500"

definition MAX_BATCH :: int where "MAX_BATCH = 5000"

record backfill_page =
  pg_processed :: nat
  pg_updated :: nat
  pg_nextCursor :: "string option"
  pg_finished :: bool

text \<open>\<^verbatim>\<open>Math.min(Math.max(Math.floor(n) || DEFAULT_BATCH, 1), MAX_BATCH)\<close>.\<close>

definition batch_size :: "int option \<Rightarrow> nat" where
  "batch_size n =
     (let v = nullish n DEFAULT_BATCH; w = (if v = 0 then DEFAULT_BATCH else v) in nat (min (max w 1) MAX_BATCH))"

text \<open>States after the cursor, by PID; the empty cursor is the start.\<close>

definition states_after :: "string \<Rightarrow> xp_db \<Rightarrow> xp_state list" where
  "states_after cursor db = filter (\<lambda>s. cursor = [] \<or> cursor < us_pid s) (sort_key us_pid (xd_states db))"

text \<open>The writes of a page: the PID, and the level computed from the total that was read.\<close>

fun page_writes :: "string \<Rightarrow> level_threshold list \<Rightarrow> xp_state list \<Rightarrow> (string \<times> int) list result" where
  "page_writes i rows [] = Inr []"
| "page_writes i rows (s # ss) =
     bind_result (levelFromXp (us_totalXp s) rows) (\<lambda>l.
     bind_result (page_writes i rows ss) (\<lambda>ws.
     Inr (if l \<noteq> us_level s \<or> us_policyVersionId s \<noteq> i then (us_pid s, l) # ws else ws)))"

definition apply_writes :: "string \<Rightarrow> (string \<times> int) list \<Rightarrow> xp_db \<Rightarrow> xp_db" where
  "apply_writes i ws db = fold (\<lambda>(p, l). set_state p (\<lambda>u. u\<lparr>us_level := l, us_policyVersionId := i\<rparr>)) ws db"

definition runBackfill ::
  "xp_env \<Rightarrow> string \<Rightarrow> string \<Rightarrow> string option \<Rightarrow> int option \<Rightarrow> xp_db \<Rightarrow> xp_db \<Rightarrow> backfill_page result \<times> xp_db" where
  "runBackfill env actor i cursor batch seen db =
     (if \<not> migrationEnabled env then (Inl (ServiceUnavailable ''XP migration tooling is disabled''), db)
      else case find_policy seen i of
        None \<Rightarrow> (Inl (NotFound ''policy not found''), db)
      | Some p \<Rightarrow>
          let rows = policy_rows seen i; n = batch_size batch; cur = nullish cursor [];
              page = take (n + 1) (states_after cur seen);
              slice = take n page;
              fin = (length page \<le> n)
          in if rows = [] then (Inl (BadRequest ''policy has no materialized thresholds -- materialize first''), db)
             else case page_writes i rows slice of
               Inl e \<Rightarrow> (Inl e, db)
             | Inr ws \<Rightarrow>
                 (Inr \<lparr>pg_processed = length slice, pg_updated = length ws,
                       pg_nextCursor = (if fin then None else Some (if slice = [] then cur else us_pid (last slice))), pg_finished = fin\<rparr>,
                  xp_log actor ''admin.xp.backfill.ran'' (apply_writes i ws db)))"

definition rollbackDraft :: "xp_env \<Rightarrow> string \<Rightarrow> int \<Rightarrow> xp_db \<Rightarrow> xp_db \<Rightarrow> (string \<times> int \<times> nat) result \<times> xp_db" where
  "rollbackDraft env actor version seen db =
     (if \<not> migrationEnabled env then (Inl (ServiceUnavailable ''XP migration tooling is disabled''), db)
      else case find (\<lambda>p. pv_version p = version) (xd_policies seen) of
        None \<Rightarrow> (Inl (NotFound ''policy version not found''), db)
      | Some source \<Rightarrow>
          if map_option (pv_id \<circ> ap_policy) (active_or_none seen) = Some (pv_id source)
          then (Inl (BadRequest ''version is already active -- nothing to roll back''), db)
          else let rows = policy_rows seen (pv_id source);
                   draft = draft_policy env db (max_version seen + 1) (pv_formula source) (pv_maxLevel source)
                     (actor @ '' (rollback of v'' @ show_int (pv_version source) @ '')'')
            in if rows = [] then (Inl (BadRequest ''source version has no materialized thresholds''), db)
               else case create_policy draft db of
                 Inl e \<Rightarrow> (Inl e, db)
               | Inr db1 \<Rightarrow>
                   (Inr (pv_id draft, pv_version draft, length rows),
                    xp_log actor ''admin.xp.backfill.rollback_drafted''
                      (db1\<lparr>xd_thresholds := xd_thresholds db1 @ map (\<lambda>r. level_threshold.extend r \<lparr>tr_policyVersionId = pv_id draft\<rparr>) rows\<rparr>)))"

record backfill_verdict =
  bv_reconcileOk :: bool
  bv_mismatches :: "xp_mismatch list"
  bv_activeVersion :: "int option"
  bv_unstamped :: nat
  bv_ok :: bool

definition verifyBackfill :: "xp_db \<Rightarrow> backfill_verdict" where
  "verifyBackfill db =
     (let (ok, mm) = xp_reconcile None db; active = active_or_none db;
          unstamped = (case active of
              Some a \<Rightarrow> length (filter (\<lambda>s. us_policyVersionId s \<noteq> pv_id (ap_policy a)) (xd_states db))
            | None \<Rightarrow> length (xd_states db))
      in \<lparr>bv_reconcileOk = ok, bv_mismatches = mm, bv_activeVersion = map_option (pv_version \<circ> ap_policy) active,
          bv_unstamped = unstamped, bv_ok = (ok \<and> unstamped = 0)\<rparr>)"

section \<open>Tasks\<close>

text \<open>A task DTO: on create an absent field takes its default, on update it keeps the stored value. Dates are
  times in milliseconds. The name and description are not modelled.\<close>

record task_dto =
  td_key :: "string option"
  td_xpReward :: "int option"
  td_recurring :: "string option"
  td_lifetimeLimit :: "int option option"
  td_dailyLimit :: "int option option"
  td_weeklyLimit :: "int option option"
  td_monthlyLimit :: "int option option"
  td_cooldownSecs :: "int option option"
  td_availableFrom :: "int option option"
  td_availableUntil :: "int option option"
  td_status :: "string option"
  td_verificationType :: "string option"
  td_verificationChecker :: "string option option"
  td_scopeAppId :: "string option option"

definition validateTaskSemantics :: "string option \<Rightarrow> int option \<Rightarrow> int option \<Rightarrow> string option" where
  "validateTaskSemantics recurring from until =
     (if (case recurring of None \<Rightarrow> False | Some r \<Rightarrow> \<not> List.member TASK_RECURRING r)
      then Some ''recurring must be one of once|daily|weekly|monthly|unlimited''
      else case (from, until) of
        (Some f, Some u) \<Rightarrow> if f \<ge> u then Some ''availableFrom must be before availableUntil'' else None
      | _ \<Rightarrow> None)"

definition sanitizeTaskKey :: "string \<Rightarrow> string result" where
  "sanitizeTaskKey key =
     (let k = to_lower (trim key)
      in if event_type_format k then Inr k else Inl (BadRequest ''key must match ^[a-z][a-z0-9_]{2,63}$''))"

definition scope_error :: "xp_db \<Rightarrow> string option \<Rightarrow> http_error option" where
  "scope_error db scope = (case scope of None \<Rightarrow> None | Some a \<Rightarrow> (case requireApp db a of Inl e \<Rightarrow> Some e | Inr _ \<Rightarrow> None))"

text \<open>\<^verbatim>\<open>dto.verificationChecker?.trim() || null\<close>.\<close>

definition trimmed_or_null :: "string option \<Rightarrow> string option" where
  "trimmed_or_null v = (case v of None \<Rightarrow> None | Some s \<Rightarrow> if trim s = [] then None else Some (trim s))"

definition new_task :: "string \<Rightarrow> string \<Rightarrow> task_dto \<Rightarrow> xp_task" where
  "new_task newId key dto =
     \<lparr>tk_id = newId, tk_key = key, tk_xpReward = nullish (td_xpReward dto) 0, tk_recurring = nullish (td_recurring dto) ''once'',
      tk_lifetimeLimit = nullish (td_lifetimeLimit dto) None, tk_dailyLimit = nullish (td_dailyLimit dto) None,
      tk_weeklyLimit = nullish (td_weeklyLimit dto) None, tk_monthlyLimit = nullish (td_monthlyLimit dto) None,
      tk_cooldownSecs = nullish (td_cooldownSecs dto) None, tk_availableFrom = nullish (td_availableFrom dto) None,
      tk_availableUntil = nullish (td_availableUntil dto) None, tk_status = ''draft'',
      tk_verificationType = nullish (td_verificationType dto) ''internal_state'',
      tk_verificationChecker = trimmed_or_null (nullish (td_verificationChecker dto) None),
      tk_scopeAppId = nullish (td_scopeAppId dto) None\<rparr>"

definition nonempty_scope :: "string option \<Rightarrow> string option" where
  "nonempty_scope s = (if s = Some [] then None else s)"

definition createTask :: "xp_env \<Rightarrow> string \<Rightarrow> task_dto \<Rightarrow> xp_db \<Rightarrow> xp_task result \<times> xp_db" where
  "createTask env actor dto db =
     (case sanitizeTaskKey (nullish (td_key dto) []) of Inl e \<Rightarrow> (Inl e, db) | Inr key \<Rightarrow>
      case validateTaskSemantics (td_recurring dto) (nullish (td_availableFrom dto) None) (nullish (td_availableUntil dto) None) of
        Some e \<Rightarrow> (Inl (BadRequest e), db)
      | None \<Rightarrow>
          case scope_error db (nonempty_scope (nullish (td_scopeAppId dto) None)) of
            Some e \<Rightarrow> (Inl e, db)
          | None \<Rightarrow>
              if (case td_verificationType dto of None \<Rightarrow> False | Some v \<Rightarrow> \<not> List.member VERIFICATION_TYPES v)
              then (Inl (BadRequest ''verificationType must be internal_state|backend_check''), db)
              else if list_ex (\<lambda>t. tk_key t = key) (xd_tasks db) then (Inl (Conflict ''task key already exists''), db)
              else let t = new_task (xv_uuid env (xd_next db)) key dto
                in (Inr t, xp_log actor ''admin.xp.task.created'' (db\<lparr>xd_tasks := xd_tasks db @ [t], xd_next := Suc (xd_next db)\<rparr>)))"

definition bad_limit :: "int option option \<Rightarrow> bool" where
  "bad_limit v = (case v of Some (Some n) \<Rightarrow> n < 1 | _ \<Rightarrow> False)"

definition patch_error :: "task_dto \<Rightarrow> string option" where
  "patch_error dto =
     (if (case td_status dto of None \<Rightarrow> False | Some s \<Rightarrow> \<not> List.member TASK_STATUSES s) then Some ''status must be one of draft|active|disabled|archived''
      else if (case td_xpReward dto of None \<Rightarrow> False | Some n \<Rightarrow> n < 1 \<or> n > 100000) then Some ''xpReward must be an integer 1..100000''
      else if bad_limit (td_lifetimeLimit dto) then Some ''lifetimeLimit must be a positive integer or null''
      else if bad_limit (td_dailyLimit dto) then Some ''dailyLimit must be a positive integer or null''
      else if bad_limit (td_weeklyLimit dto) then Some ''weeklyLimit must be a positive integer or null''
      else if bad_limit (td_monthlyLimit dto) then Some ''monthlyLimit must be a positive integer or null''
      else if (case td_cooldownSecs dto of Some (Some n) \<Rightarrow> n < 0 \<or> n > 31536000 | _ \<Rightarrow> False) then Some ''cooldownSecs must be an integer 0..31536000 or null''
      else if (case td_verificationType dto of None \<Rightarrow> False | Some v \<Rightarrow> \<not> List.member VERIFICATION_TYPES v)
        then Some ''verificationType must be internal_state|backend_check''
      else None)"

definition patch_task :: "task_dto \<Rightarrow> xp_task \<Rightarrow> xp_task" where
  "patch_task dto t =
     t\<lparr>tk_xpReward := nullish (td_xpReward dto) (tk_xpReward t), tk_recurring := nullish (td_recurring dto) (tk_recurring t),
       tk_lifetimeLimit := nullish (td_lifetimeLimit dto) (tk_lifetimeLimit t), tk_dailyLimit := nullish (td_dailyLimit dto) (tk_dailyLimit t),
       tk_weeklyLimit := nullish (td_weeklyLimit dto) (tk_weeklyLimit t), tk_monthlyLimit := nullish (td_monthlyLimit dto) (tk_monthlyLimit t),
       tk_cooldownSecs := nullish (td_cooldownSecs dto) (tk_cooldownSecs t), tk_availableFrom := nullish (td_availableFrom dto) (tk_availableFrom t),
       tk_availableUntil := nullish (td_availableUntil dto) (tk_availableUntil t), tk_status := nullish (td_status dto) (tk_status t),
       tk_verificationType := nullish (td_verificationType dto) (tk_verificationType t),
       tk_verificationChecker := nullish (td_verificationChecker dto) (tk_verificationChecker t),
       tk_scopeAppId := nullish (td_scopeAppId dto) (tk_scopeAppId t)\<rparr>"

definition activation_error :: "task_dto \<Rightarrow> xp_task \<Rightarrow> string option" where
  "activation_error dto t =
     (if nullish (td_status dto) (tk_status t) = ''active''
      then validateChecker (nullish (td_verificationType dto) (tk_verificationType t)) (nullish (td_verificationChecker dto) (tk_verificationChecker t))
      else None)"

definition updateTask :: "string \<Rightarrow> string \<Rightarrow> task_dto \<Rightarrow> xp_db \<Rightarrow> xp_db \<Rightarrow> xp_task result \<times> xp_db" where
  "updateTask actor i dto seen db =
     (case find (\<lambda>t. tk_id t = i) (xd_tasks seen) of
        None \<Rightarrow> (Inl (NotFound ''task not found''), db)
      | Some t \<Rightarrow>
          if tk_status t = ''archived'' then (Inl (BadRequest ''archived tasks are immutable''), db)
          else case patch_error dto of Some e \<Rightarrow> (Inl (BadRequest e), db) | None \<Rightarrow>
            case validateTaskSemantics (td_recurring dto) (or_else (nullish (td_availableFrom dto) None) (tk_availableFrom t))
                   (or_else (nullish (td_availableUntil dto) None) (tk_availableUntil t)) of
              Some e \<Rightarrow> (Inl (BadRequest e), db)
            | None \<Rightarrow>
                case scope_error seen (nullish (td_scopeAppId dto) None) of
                  Some e \<Rightarrow> (Inl e, db)
                | None \<Rightarrow>
                    case activation_error dto t of
                      Some e \<Rightarrow> (Inl (BadRequest e), db)
                    | None \<Rightarrow>
                        let upd = (\<lambda>x. if tk_id x = i then patch_task dto x else x)
                        in (Inr (patch_task dto t), xp_log actor ''admin.xp.task.updated'' (db\<lparr>xd_tasks := map upd (xd_tasks db)\<rparr>)))"

section \<open>The backfill run (\<^verbatim>\<open>settings/backfill-run.service.ts\<close>)\<close>

record backfill_run =
  br_id :: string
  br_policyId :: string
  br_policyVersion :: int
  br_status :: string
  br_cursor :: "string option"
  br_dryRun :: bool
  br_processed :: int
  br_updated :: nat
  br_actor :: string
  br_finished :: bool

record run_db =
  rd_xp :: xp_db
  rd_runs :: "backfill_run list"

definition resolvePolicy :: "string option \<Rightarrow> xp_db \<Rightarrow> (string \<times> int) result" where
  "resolvePolicy version db =
     (case version of
        Some v \<Rightarrow>
          if v \<noteq> [] then
            (case find (\<lambda>p. if all_digits v then pv_version p = int (nat_of_digits v) else pv_id p = v) (xd_policies db) of
               None \<Rightarrow> Inl (NotFound (''policy '' @ v @ '' not found''))
             | Some p \<Rightarrow> Inr (pv_id p, pv_version p))
          else (case active_or_none db of
             None \<Rightarrow> Inl (BadRequest ''no active policy -- pass policyVersion explicitly'')
           | Some a \<Rightarrow> Inr (pv_id (ap_policy a), pv_version (ap_policy a)))
      | None \<Rightarrow> (case active_or_none db of
             None \<Rightarrow> Inl (BadRequest ''no active policy -- pass policyVersion explicitly'')
           | Some a \<Rightarrow> Inr (pv_id (ap_policy a), pv_version (ap_policy a))))"

record run_opts =
  ro_dryRun :: "bool option"
  ro_policyVersion :: "string option"
  ro_cursor :: "string option"
  ro_batchSize :: "int option"

text \<open>The page loop: the cursor, the counts so far and, at the end, the finished counts or the error with the
  counts and cursor it stopped at. \<open>None\<close> would be a run that never ends.\<close>

partial_function (option) page_loop ::
  "xp_env \<Rightarrow> string \<Rightarrow> string \<Rightarrow> int option \<Rightarrow> string \<Rightarrow> nat \<Rightarrow> nat \<Rightarrow> xp_db \<Rightarrow> ((http_error option \<times> string \<times> nat \<times> nat) \<times> xp_db) option" where
  "page_loop env actor i batch cursor processed updated db =
     (case runBackfill env actor i (if cursor = [] then None else Some cursor) (if batch = Some 0 then None else batch) db db of
        (Inl e, db') \<Rightarrow> Some ((Some e, cursor, processed, updated), db')
      | (Inr page, db') \<Rightarrow>
          if pg_finished page then Some ((None, [], processed + pg_processed page, updated + pg_updated page), db')
          else page_loop env actor i batch (nullish (pg_nextCursor page) []) (processed + pg_processed page) (updated + pg_updated page) db')"

definition new_run :: "xp_env \<Rightarrow> string \<Rightarrow> (string \<times> int) \<Rightarrow> string \<Rightarrow> string option \<Rightarrow> bool \<Rightarrow> int \<Rightarrow> xp_db \<Rightarrow> backfill_run" where
  "new_run env actor policy status cursor dry processed db =
     \<lparr>br_id = xv_uuid env (xd_next db), br_policyId = fst policy, br_policyVersion = snd policy, br_status = status, br_cursor = cursor,
      br_dryRun = dry, br_processed = processed, br_updated = 0, br_actor = actor, br_finished = dry\<rparr>"

definition end_run :: "backfill_run \<Rightarrow> http_error option \<times> string \<times> nat \<times> nat \<Rightarrow> backfill_run" where
  "end_run run outcome = (case outcome of (err, cursor, processed, updated) \<Rightarrow>
     run\<lparr>br_status := (if err = None then ''done'' else ''failed''), br_cursor := (if cursor = [] then None else Some cursor),
         br_processed := int processed, br_updated := updated, br_finished := True\<rparr>)"

record run_result =
  rr_runId :: string
  rr_status :: string
  rr_processed :: int
  rr_updated :: nat
  rr_ok :: bool

text \<open>A preview writes a run row and nothing else; an execution runs the pages to the end.\<close>

definition preview_run :: "xp_env \<Rightarrow> string \<Rightarrow> string \<times> int \<Rightarrow> run_db \<Rightarrow> run_result result \<times> run_db" where
  "preview_run env actor policy st =
     (let db = rd_xp st
      in case planBackfill (fst policy) db of
           Inl e \<Rightarrow> (Inl e, st)
         | Inr plan \<Rightarrow>
             let run = new_run env actor policy ''preview'' None True (bp_pending plan) db
             in (Inr \<lparr>rr_runId = br_id run, rr_status = ''preview'', rr_processed = bp_pending plan, rr_updated = 0, rr_ok = bv_ok (verifyBackfill db)\<rparr>,
                 \<lparr>rd_xp = xp_log actor ''admin.xp.backfill.previewed'' (db\<lparr>xd_next := Suc (xd_next db)\<rparr>), rd_runs = rd_runs st @ [run]\<rparr>))"

definition execute_run :: "xp_env \<Rightarrow> string \<Rightarrow> string \<times> int \<Rightarrow> run_opts \<Rightarrow> run_db \<Rightarrow> (run_result result \<times> run_db) option" where
  "execute_run env actor policy opts st =
     (let db = rd_xp st;
          run = new_run env actor policy ''running'' (ro_cursor opts) False 0 db;
          db0 = xp_log actor ''admin.xp.backfill.run_requested'' (db\<lparr>xd_next := Suc (xd_next db)\<rparr>)
      in case page_loop env actor (fst policy) (ro_batchSize opts) (nullish (ro_cursor opts) []) 0 0 db0 of
           None \<Rightarrow> None
         | Some (outcome, db1) \<Rightarrow>
             let run' = end_run run outcome; st' = (\<lambda>ev. \<lparr>rd_xp = xp_log actor ev db1, rd_runs = rd_runs st @ [run']\<rparr>)
             in case outcome of
                  (Some e, _) \<Rightarrow> Some (Inl e, st' ''admin.xp.backfill.run_failed'')
                | (None, _) \<Rightarrow> Some (Inr \<lparr>rr_runId = br_id run, rr_status = ''done'', rr_processed = br_processed run', rr_updated = br_updated run',
                      rr_ok = bv_ok (verifyBackfill db1)\<rparr>, st' ''admin.xp.backfill.run_completed''))"

definition requestRun :: "xp_env \<Rightarrow> string \<Rightarrow> run_opts \<Rightarrow> run_db \<Rightarrow> (run_result result \<times> run_db) option" where
  "requestRun env actor opts st =
     (if \<not> nullish (ro_dryRun opts) True \<and> nullish (ro_policyVersion opts) [] = []
      then Some (Inl (BadRequest ''policyVersion is required when dryRun=false''), st)
      else case resolvePolicy (ro_policyVersion opts) (rd_xp st) of
        Inl e \<Rightarrow> Some (Inl e, st)
      | Inr policy \<Rightarrow>
          if nullish (ro_dryRun opts) True then Some (preview_run env actor policy st)
          else if \<not> migrationEnabled env then Some (Inl (ServiceUnavailable ''XP migration tooling is disabled''), st)
          else execute_run env actor policy opts st)"

section \<open>Admin writes leave the journal alone\<close>

named_theorems journal_simps

lemma xp_log_same [journal_simps]: "same_journal db (xp_log a e db') \<longleftrightarrow> same_journal db db'"
  by (simp add: same_journal_def xp_log_def)

lemma add_suspicious_same [journal_simps]: "same_journal db (add_suspicious env p a s db') \<longleftrightarrow> same_journal db db'"
  by (simp add: same_journal_def add_suspicious_def)

lemma put_quota_same [journal_simps]: "same_journal db (put_quota q db') \<longleftrightarrow> same_journal db db'"
  "same_journal db (put_org_quota o' db') \<longleftrightarrow> same_journal db db'"
  by (simp_all add: same_journal_def put_quota_def put_org_quota_def)

lemma set_policy_same [journal_simps]: "same_journal db (set_policy i g db') \<longleftrightarrow> same_journal db db'"
  by (simp add: same_journal_def set_policy_def)

lemma xp_field_same [journal_simps]:
  "same_journal db (db'\<lparr>xd_policies := a\<rparr>) \<longleftrightarrow> same_journal db db'" "same_journal db (db'\<lparr>xd_thresholds := b\<rparr>) \<longleftrightarrow> same_journal db db'"
  "same_journal db (db'\<lparr>xd_tasks := c\<rparr>) \<longleftrightarrow> same_journal db db'" "same_journal db (db'\<lparr>xd_next := n\<rparr>) \<longleftrightarrow> same_journal db db'"
  "same_journal db (db'\<lparr>xd_apps := d\<rparr>) \<longleftrightarrow> same_journal db db'" "same_journal db (db'\<lparr>xd_suspicious := e\<rparr>) \<longleftrightarrow> same_journal db db'"
  by (simp_all add: same_journal_def)

lemma set_state_same [journal_simps]:
  "same_journal db (set_state p (\<lambda>u. u\<lparr>us_level := l, us_policyVersionId := i\<rparr>) db') \<longleftrightarrow> same_journal db db'"
proof -
  let ?db = "set_state p (\<lambda>u. u\<lparr>us_level := l, us_policyVersionId := i\<rparr>) db'"
  have e: "xd_entries ?db = xd_entries db'" "xd_completions ?db = xd_completions db'" by (simp_all add: set_state_def)
  have s: "map (\<lambda>s. (us_pid s, us_totalXp s)) (xd_states ?db) = map (\<lambda>s. (us_pid s, us_totalXp s)) (xd_states db')"
    by (auto simp: set_state_def)
  show ?thesis by (simp only: same_journal_def e s)
qed

lemma apply_writes_same [journal_simps]: "same_journal db (apply_writes i ws db') \<longleftrightarrow> same_journal db db'"
  unfolding apply_writes_def
proof (induction ws arbitrary: db')
  case (Cons w ws)
  then show ?case by (cases w) (simp add: set_state_same)
qed simp

lemma admin_same:
  "same_journal db (snd (setXpPermission env actor appId pdto seen db))"
  "same_journal db (snd (upsertQuota env actor appId qdto seen db))"
  "same_journal db (snd (upsertOrgQuota actor ownerPid qdto seen db))"
  "same_journal db (snd (reviewSuspicious actor i reviewed db))"
  "same_journal db (snd (createPolicyDraft env actor podto seen db))"
  "same_journal db (snd (materializePolicy actor i overrides seen db))"
  "same_journal db (snd (activatePolicy now actor i confirmedBy reason seen db))"
  "same_journal db (snd (runBackfill env actor i cursor batch seen db))"
  "same_journal db (snd (rollbackDraft env actor version seen db))"
  "same_journal db (snd (createTask env actor tdto db))"
  "same_journal db (snd (updateTask actor i tdto seen db))"
  by (auto simp: setXpPermission_def upsertQuota_def upsertOrgQuota_def reviewSuspicious_def createPolicyDraft_def materializePolicy_def
      activatePolicy_def activate_txn_def runBackfill_def rollbackDraft_def createTask_def updateTask_def create_policy_def Let_def
      journal_simps split: option.splits sum.splits http_error.splits if_splits)

section \<open>The backfill reaches every state\<close>

definition stamped :: "string \<Rightarrow> level_threshold list \<Rightarrow> xp_state \<Rightarrow> bool" where
  "stamped i rows s \<longleftrightarrow> us_policyVersionId s = i \<and> levelFromXp (us_totalXp s) rows = Inr (us_level s)"

definition states_ok :: "xp_db \<Rightarrow> bool" where
  "states_ok db \<longleftrightarrow> distinct (map us_pid (xd_states db)) \<and> (\<forall>s \<in> set (xd_states db). 0 \<le> us_totalXp s \<and> us_pid s \<noteq> [])"

lemma batch_size_pos: "0 < batch_size n"
  by (auto simp: batch_size_def Let_def DEFAULT_BATCH_def MAX_BATCH_def)

lemma page_writes_ok:
  assumes "\<forall>s \<in> set ss. 0 \<le> us_totalXp s"
  obtains ws where "page_writes i rows ss = Inr ws"
    "\<forall>s \<in> set ss. us_pid s \<notin> fst ` set ws \<longrightarrow> stamped i rows s"
    "\<forall>(p, l) \<in> set ws. \<exists>s \<in> set ss. us_pid s = p \<and> l = level_loop (us_totalXp s) 1 rows"
  using assms
proof (induction ss arbitrary: thesis)
  case (Cons s ss)
  obtain ws where ws: "page_writes i rows ss = Inr ws"
    "\<forall>s \<in> set ss. us_pid s \<notin> fst ` set ws \<longrightarrow> stamped i rows s"
    "\<forall>(p, l) \<in> set ws. \<exists>s \<in> set ss. us_pid s = p \<and> l = level_loop (us_totalXp s) 1 rows"
    using Cons.IH Cons.prems(2) by auto
  let ?l = "level_loop (us_totalXp s) 1 rows"
  have l: "levelFromXp (us_totalXp s) rows = Inr ?l" using Cons.prems(2) by (simp add: levelFromXp_def)
  show ?case
  proof (cases "?l \<noteq> us_level s \<or> us_policyVersionId s \<noteq> i")
    case True
    show ?thesis
      by (rule Cons.prems(1) [of "(us_pid s, ?l) # ws"]) (use True ws l in auto)
  next
    case False
    show ?thesis
      by (rule Cons.prems(1) [of ws]) (use False ws l in \<open>auto simp: stamped_def\<close>)
  qed
qed simp

lemma apply_writes_states:
  assumes "\<forall>(p, l) \<in> set ws. l = f p"
  shows "xd_states (apply_writes i ws db)
    = map (\<lambda>s. if us_pid s \<in> fst ` set ws then s\<lparr>us_level := f (us_pid s), us_policyVersionId := i\<rparr> else s) (xd_states db)"
  using assms unfolding apply_writes_def
proof (induction ws arbitrary: db)
  case (Cons w ws)
  then show ?case by (cases w) (auto simp: set_state_def)
qed simp

lemma apply_writes_rest:
  "xd_policies (apply_writes i ws db) = xd_policies db \<and> xd_thresholds (apply_writes i ws db) = xd_thresholds db"
  unfolding apply_writes_def by (induction ws arbitrary: db) (auto simp: set_state_def)

lemma state_total_mem: "distinct (map us_pid (xd_states db)) \<Longrightarrow> s \<in> set (xd_states db) \<Longrightarrow> state_total db (us_pid s) = us_totalXp s"
proof -
  assume d: "distinct (map us_pid (xd_states db))" "s \<in> set (xd_states db)"
  have "map_of (map (\<lambda>s. (us_pid s, us_totalXp s)) (xd_states db)) (us_pid s) = Some (us_totalXp s)"
    using d by (intro map_of_is_SomeI) (auto simp: comp_def)
  then show ?thesis by (simp add: state_total_map)
qed

lemma set_states_after: "set (states_after c db) = {s \<in> set (xd_states db). c = [] \<or> c < us_pid s}"
  by (auto simp: states_after_def)

text \<open>One page on a quiet database: it stamps exactly the states of its slice.\<close>

lemma page_effect:
  assumes en: "migrationEnabled env" and p: "find_policy db i = Some p" and rows: "policy_rows db i = rows" "rows \<noteq> []"
    and ok: "states_ok db"
  obtains page db1 where "runBackfill env actor i cur batch db db = (Inr page, db1)"
    "pg_finished page \<longleftrightarrow> length (states_after (nullish cur []) db) \<le> batch_size batch"
    "\<not> pg_finished page \<Longrightarrow> pg_nextCursor page = Some (us_pid (states_after (nullish cur []) db ! (batch_size batch - 1)))"
    "xd_policies db1 = xd_policies db" "xd_thresholds db1 = xd_thresholds db" "same_journal db db1"
    "\<And>s. s \<in> set (xd_states db1) \<Longrightarrow>
       if us_pid s \<in> us_pid ` set (take (batch_size batch) (states_after (nullish cur []) db)) then stamped i rows s else s \<in> set (xd_states db)"
proof -
  define S n where "S = states_after (nullish cur []) db" and "n = batch_size batch"
  have S: "set S \<subseteq> set (xd_states db)" by (auto simp: S_def set_states_after)
  then have slice: "set (take n S) \<subseteq> set (xd_states db)" using set_take_subset by fastforce
  with ok have "\<forall>s \<in> set (take n S). 0 \<le> us_totalXp s" by (auto simp: states_ok_def)
  then obtain ws where ws: "page_writes i rows (take n S) = Inr ws"
    "\<forall>s \<in> set (take n S). us_pid s \<notin> fst ` set ws \<longrightarrow> stamped i rows s"
    "\<forall>(p, l) \<in> set ws. \<exists>s \<in> set (take n S). us_pid s = p \<and> l = level_loop (us_totalXp s) 1 rows"
    by (rule page_writes_ok)
  let ?f = "\<lambda>p. level_loop (state_total db p) 1 rows"
  have f: "\<forall>(p, l) \<in> set ws. l = ?f p"
    using ws(3) slice ok state_total_mem [of db] by (fastforce simp: states_ok_def)
  define db1 where "db1 = xp_log actor ''admin.xp.backfill.ran'' (apply_writes i ws db)"
  have st: "xd_states db1 = map (\<lambda>s. if us_pid s \<in> fst ` set ws then s\<lparr>us_level := ?f (us_pid s), us_policyVersionId := i\<rparr> else s) (xd_states db)"
    using apply_writes_states [OF f] by (simp add: db1_def xp_log_def)
  have inj: "s = t" if "s \<in> set (xd_states db)" "t \<in> set (xd_states db)" "us_pid s = us_pid t" for s t
    using ok that by (auto simp: states_ok_def distinct_map inj_on_def)
  have eff: "if us_pid s \<in> us_pid ` set (take n S) then stamped i rows s else s \<in> set (xd_states db)" if s: "s \<in> set (xd_states db1)" for s
  proof -
    from s obtain t where t0: "t \<in> set (xd_states db)"
      "s = (if us_pid t \<in> fst ` set ws then t\<lparr>us_level := ?f (us_pid t), us_policyVersionId := i\<rparr> else t)"
      unfolding st set_map image_iff by blast
    then have "us_pid s = us_pid t" by simp
    note t = t0(1) this t0(2)
    have tot: "state_total db (us_pid t) = us_totalXp t" "0 \<le> us_totalXp t" using ok t(1) state_total_mem by (auto simp: states_ok_def)
    show ?thesis
    proof (cases "us_pid t \<in> fst ` set ws")
      case True
      then have "us_pid t \<in> us_pid ` set (take n S)" using ws(3) by force
      with True t tot show ?thesis by (simp add: stamped_def levelFromXp_def)
    next
      case False
      then have "s = t" using t by simp
      moreover have "stamped i rows t" if "us_pid t \<in> us_pid ` set (take n S)"
      proof -
        from that obtain u where "u \<in> set (take n S)" "us_pid u = us_pid t" by force
        with slice inj [of u t] t(1) False ws(2) show ?thesis by auto
      qed
      ultimately show ?thesis using t by simp
    qed
  qed
  have n: "0 < n" by (simp add: n_def batch_size_pos)
  have fin: "length (take (n + 1) S) \<le> n \<longleftrightarrow> length S \<le> n" by auto
  have tk: "take n (take (n + 1) S) = take n S" by (simp add: min_def)
  have last: "us_pid (last (take n S)) = us_pid (S ! (n - 1))" "take n S \<noteq> []" if "\<not> length S \<le> n"
  proof -
    show ne: "take n S \<noteq> []" using that n by auto
    show "us_pid (last (take n S)) = us_pid (S ! (n - 1))" using that n by (simp add: last_conv_nth [OF ne])
  qed
  let ?page = "\<lparr>pg_processed = length (take n S), pg_updated = length ws,
    pg_nextCursor = (if length S \<le> n then None else Some (if take n S = [] then nullish cur [] else us_pid (last (take n S)))), pg_finished = (length S \<le> n)\<rparr>"
  have run: "runBackfill env actor i cur batch db db = (Inr ?page, db1)"
    using en p rows ws(1) by (simp add: runBackfill_def Let_def S_def [symmetric] n_def [symmetric] fin tk db1_def)
  show ?thesis
  proof (rule that [OF run])
    show "same_journal db db1" by (simp add: db1_def journal_simps)
    show "xd_policies db1 = xd_policies db" "xd_thresholds db1 = xd_thresholds db"
      using apply_writes_rest [of i ws db] by (simp_all add: db1_def xp_log_def)
  qed (use eff last in \<open>auto simp: S_def [symmetric] n_def [symmetric]\<close>)
qed

text \<open>The pages of a run chain to the end: the cursor passes every state.\<close>

lemma remaining_decreases:
  assumes "s \<in> set (xd_states db)" "c = [] \<or> c < us_pid s" "us_pid s \<noteq> []"
  shows "{p \<in> us_pid ` set (xd_states db). us_pid s < p} \<subset> {p \<in> us_pid ` set (xd_states db). c = [] \<or> c < p}"
  using assms by (auto intro: less_trans)

lemma sorted_take_le:
  assumes "sorted (map f xs)" "x \<in> set xs" "0 < n" "n \<le> length xs" "f x \<le> f (xs ! (n - 1))" "distinct (map f xs)"
  shows "x \<in> set (take n xs)"
proof -
  from assms(2) obtain k where k: "k < length xs" "x = xs ! k" by (auto simp: in_set_conv_nth)
  have "k < n"
  proof (rule ccontr)
    assume "\<not> k < n"
    then have "n - 1 < k" using assms(3) by simp
    then have "f (xs ! (n - 1)) \<le> f x" "f (xs ! (n - 1)) \<noteq> f x"
      using assms(1,6) k by (auto simp: sorted_iff_nth_mono distinct_conv_nth)
    with assms(5) show False by simp
  qed
  with k assms(4) show ?thesis by (auto simp: in_set_conv_nth intro!: exI [of _ k])
qed

lemma page_loop_completes:
  assumes en: "migrationEnabled env" and p: "find_policy db i = Some p" and rows: "policy_rows db i = rows" "rows \<noteq> []"
    and ok: "states_ok db" and cur: "cursor = [] \<or> cursor \<in> us_pid ` set (xd_states db)"
  shows "\<exists>pr up db'. page_loop env actor i batch cursor processed updated db = Some ((None, [], pr, up), db')
    \<and> same_journal db db' \<and> xd_policies db' = xd_policies db \<and> xd_thresholds db' = xd_thresholds db
    \<and> (\<forall>s \<in> set (xd_states db'). if cursor = [] \<or> cursor < us_pid s then stamped i rows s else s \<in> set (xd_states db))"
  using p rows ok cur
proof (induction "card {q \<in> us_pid ` set (xd_states db). cursor = [] \<or> cursor < q}" arbitrary: db cursor processed updated rule: less_induct)
  case less
  let ?cur = "if cursor = [] then None else Some cursor" and ?batch = "if batch = Some 0 then None else batch"
  have cur: "nullish ?cur [] = cursor" by simp
  define S n where "S = states_after cursor db" and "n = batch_size ?batch"
  obtain page db1 where run: "runBackfill env actor i ?cur ?batch db db = (Inr page, db1)"
    and fin: "pg_finished page \<longleftrightarrow> length S \<le> n"
    and nxt: "\<not> pg_finished page \<Longrightarrow> pg_nextCursor page = Some (us_pid (S ! (n - 1)))"
    and same: "xd_policies db1 = xd_policies db" "xd_thresholds db1 = xd_thresholds db" "same_journal db db1"
    and eff: "\<And>s. s \<in> set (xd_states db1) \<Longrightarrow> if us_pid s \<in> us_pid ` set (take n S) then stamped i rows s else s \<in> set (xd_states db)"
    using page_effect [OF en less.prems(1,2,3,4), of actor ?cur ?batch] unfolding cur S_def [symmetric] n_def [symmetric] by metis
  have SS: "set S = {s \<in> set (xd_states db). cursor = [] \<or> cursor < us_pid s}" by (simp add: S_def set_states_after)
  have pids: "map us_pid (xd_states db1) = map us_pid (xd_states db)" and tots: "map us_totalXp (xd_states db1) = map us_totalXp (xd_states db)"
    by (rule same_journal_columns [OF same(3)])+
  have sets: "us_pid ` set (xd_states db1) = us_pid ` set (xd_states db)" "us_totalXp ` set (xd_states db1) = us_totalXp ` set (xd_states db)"
    using arg_cong [OF pids, of set] arg_cong [OF tots, of set] by simp_all
  have twin: "\<exists>t \<in> set (xd_states db). us_pid t = us_pid s" if "s \<in> set (xd_states db1)" for s
    using imageI [OF that, of us_pid] unfolding sets(1) by (auto simp: image_iff)
  have ok1: "states_ok db1"
    using less.prems(4) pids sets unfolding states_ok_def by (metis (no_types, lifting) imageE image_eqI)
  have "sorted (map us_pid S)" "distinct (map us_pid S)"
    using less.prems(4) by (auto simp: S_def states_after_def states_ok_def sorted_filter distinct_map inj_on_def)
  show ?case
  proof (cases "pg_finished page")
    case True
    then have "take n S = S" using fin by simp
    moreover have "us_pid s \<in> us_pid ` set S" if "s \<in> set (xd_states db1)" "cursor = [] \<or> cursor < us_pid s" for s
    proof -
      from twin [OF that(1)] obtain t where "t \<in> set (xd_states db)" "us_pid t = us_pid s" by blast
      with that(2) SS show ?thesis by (intro image_eqI [of _ _ t]) auto
    qed
    moreover have "\<not> (cursor = [] \<or> cursor < us_pid s) \<Longrightarrow> us_pid s \<notin> us_pid ` set S" for s using SS by auto
    ultimately have "\<forall>s \<in> set (xd_states db1). if cursor = [] \<or> cursor < us_pid s then stamped i rows s else s \<in> set (xd_states db)"
      using eff by metis
    with True run same show ?thesis by (subst page_loop.simps) simp
  next
    case False
    then have n: "0 < n" "n < length S" "n \<le> length S" using fin by (simp_all add: n_def batch_size_pos)
    let ?c = "us_pid (S ! (n - 1))"
    have mem: "S ! (n - 1) \<in> set S" using n by (intro nth_mem) simp
    then have m: "S ! (n - 1) \<in> set (xd_states db)" "cursor = [] \<or> cursor < ?c" using SS by auto
    then have c: "?c \<noteq> []" using less.prems(4) by (auto simp: states_ok_def)
    have dec: "card {q \<in> us_pid ` set (xd_states db1). ?c = [] \<or> ?c < q} < card {q \<in> us_pid ` set (xd_states db). cursor = [] \<or> cursor < q}"
      unfolding sets(1) using c remaining_decreases [OF m c] by (intro psubset_card_mono) auto
    have p1: "find_policy db1 i = Some p" "policy_rows db1 i = rows" using less.prems(1,2) same by (simp_all add: find_policy_def policy_rows_def)
    have c1: "?c = [] \<or> ?c \<in> us_pid ` set (xd_states db1)" using m(1) sets(1) by auto
    obtain pr up db' where IH: "page_loop env actor i batch ?c (processed + pg_processed page) (updated + pg_updated page) db1 = Some ((None, [], pr, up), db')"
      "same_journal db1 db'" "xd_policies db' = xd_policies db1" "xd_thresholds db' = xd_thresholds db1"
      "\<forall>s \<in> set (xd_states db'). if ?c = [] \<or> ?c < us_pid s then stamped i rows s else s \<in> set (xd_states db1)"
      using less.hyps [OF dec p1 less.prems(3) ok1 c1] by blast
    have "if cursor = [] \<or> cursor < us_pid s then stamped i rows s else s \<in> set (xd_states db)" if s: "s \<in> set (xd_states db')" for s
    proof (cases "?c < us_pid s")
      case True
      then show ?thesis using IH(5) s m(2) less_trans by fastforce
    next
      case False
      then have s1: "s \<in> set (xd_states db1)" using IH(5) s c by auto
      have "us_pid s \<in> us_pid ` set (take n S) \<longleftrightarrow> cursor = [] \<or> cursor < us_pid s"
      proof
        assume "us_pid s \<in> us_pid ` set (take n S)"
        then show "cursor = [] \<or> cursor < us_pid s" using SS set_take_subset [of n S] by auto
      next
        assume "cursor = [] \<or> cursor < us_pid s"
        then obtain t where t: "t \<in> set S" "us_pid t = us_pid s" using twin [OF s1] SS by auto
        with False have "us_pid t \<le> ?c" by simp
        from sorted_take_le [OF \<open>sorted (map us_pid S)\<close> t(1) n(1,3) this \<open>distinct (map us_pid S)\<close>] t(2)
        show "us_pid s \<in> us_pid ` set (take n S)" by (metis imageI)
      qed
      then show ?thesis using eff [OF s1] by auto
    qed
    moreover have "page_loop env actor i batch cursor processed updated db = Some ((None, [], pr, up), db')"
      using run False nxt IH(1) by (subst page_loop.simps) simp
    ultimately show ?thesis using IH(2,3,4) same same_journal_trans [OF same(3) IH(2)] by auto
  qed
qed

section \<open>Claims\<close>

text \<open>C32: a backfill run completes and finishes the migration. With migration enabled, a policy with
  materialised thresholds and a quiet database, an execution from the start returns with status done for every batch size:
  every state row is then stamped with the policy and carries the level of its total, the journal and
  all totals are unchanged, and no row is left unstamped when the policy is the active one.\<close>

theorem backfill_run_completes:
  assumes "migrationEnabled env" "xp_inv (rd_xp st)" "states_ok (rd_xp st)"
    and ver: "resolvePolicy (Some v) (rd_xp st) = Inr (i, n)" "v \<noteq> []" and rows: "policy_rows (rd_xp st) i \<noteq> []"
    and opts: "opts = \<lparr>ro_dryRun = Some False, ro_policyVersion = Some v, ro_cursor = None, ro_batchSize = batch\<rparr>"
  shows "\<exists>r st'. requestRun env actor opts st = Some (Inr r, st') \<and> rr_status r = ''done''
    \<and> list_all (stamped i (policy_rows (rd_xp st) i)) (xd_states (rd_xp st'))
    \<and> same_journal (rd_xp st) (rd_xp st') \<and> xp_reconcile None (rd_xp st') = (True, [])
    \<and> (map_option (pv_id \<circ> ap_policy) (active_or_none (rd_xp st')) = Some i \<longrightarrow> rr_ok r)"
proof -
  let ?db = "rd_xp st" and ?start = "xp_log actor ''admin.xp.backfill.run_requested'' ((rd_xp st)\<lparr>xd_next := Suc (xd_next (rd_xp st))\<rparr>)"
  have db0: "xd_states ?start = xd_states ?db" "xd_policies ?start = xd_policies ?db" "xd_thresholds ?start = xd_thresholds ?db" "same_journal ?db ?start"
    by (simp_all add: xp_log_def same_journal_def)
  from ver obtain q where q: "q \<in> set (xd_policies ?db)" "pv_id q = i"
    by (auto simp: resolvePolicy_def dest!: find_SomeD split: option.splits)
  then have "find_policy ?start i \<noteq> None" by (auto simp: find_policy_def db0 find_None_iff)
  then obtain p where p: "find_policy ?start i = Some p" by blast
  have r: "policy_rows ?start i = policy_rows ?db i" and s: "states_ok ?start"
    using assms(3) by (simp_all add: policy_rows_def db0 states_ok_def)
  obtain pr up db' where loop: "page_loop env actor i batch [] 0 0 ?start = Some ((None, [], pr, up), db')"
    and same: "same_journal ?start db'" and st: "\<forall>s \<in> set (xd_states db'). stamped i (policy_rows ?db i) s"
    using page_loop_completes [OF assms(1) p r rows s disjI1 [OF refl], of actor batch 0 0] by auto
  have j: "same_journal ?db db'" by (rule same_journal_trans [OF db0(4) same])
  then have rec: "xp_reconcile None db' = (True, [])" using reconcile_ok same_journal_inv assms(2) by blast
  have ok: "bv_ok (verifyBackfill db')" if "map_option (pv_id \<circ> ap_policy) (active_or_none db') = Some i"
  proof -
    have "filter (\<lambda>s. us_policyVersionId s \<noteq> i) (xd_states db') = []" using st by (auto simp: filter_empty_conv stamped_def)
    with that rec show ?thesis by (auto simp: verifyBackfill_def Let_def)
  qed
  have act: "active_or_none (xp_log actor ev db') = active_or_none db'" for ev
    using getActivePolicy_cong [of "xp_log actor ev db'" db'] by (simp add: active_or_none_def xp_log_def)
  have req: "requestRun env actor opts st = execute_run env actor (i, n) opts st"
    using assms(1) ver opts by (simp add: requestRun_def)
  have "xp_reconcile None (xp_log actor ev db') = (True, [])" for ev
    using rec by (simp add: xp_reconcile_def xp_log_def find_state_def)
  then show ?thesis
    unfolding req execute_run_def using loop st j ok
    by (simp add: Let_def opts act list_all_iff journal_simps) (simp add: xp_log_def end_run_def)
qed

definition demo_xp_env :: xp_env where
  "demo_xp_env = \<lparr>xv_uuid = show_nat, xv_day = (\<lambda>_. ''2026-10-22''), xv_config = [(''PID_XP_MIGRATION_ENABLED'', ''true'')]\<rparr>"

definition demo_policy :: xp_policy where
  "demo_policy = \<lparr>pv_id = ''p1'', pv_version = 1, pv_formula = DEFAULT_FORMULA, pv_maxLevel = Some 3, pv_createdBy = ''root@pid'',
     pv_activatedAt = Some 0, pv_supersededAt = None\<rparr>"

text \<open>One user at 150 XP, an active policy with levels at 0, 100 and 382 XP.\<close>

definition demo_xp_db :: xp_db where
  "demo_xp_db = \<lparr>xd_policies = [demo_policy],
     xd_thresholds = [\<lparr>th_level = 1, th_cumulativeXp = 0, tr_policyVersionId = ''p1''\<rparr>, \<lparr>th_level = 2, th_cumulativeXp = 100, tr_policyVersionId = ''p1''\<rparr>,
       \<lparr>th_level = 3, th_cumulativeXp = 382, tr_policyVersionId = ''p1''\<rparr>],
     xd_states = [\<lparr>us_pid = ''ana@pid'', us_totalXp = 150, us_level = 2, us_policyVersionId = ''p1''\<rparr>],
     xd_tasks = [], xd_completions = [],
     xd_entries = [\<lparr>le_id = ''e0'', le_pid = ''ana@pid'', le_deltaXp = 150, le_balanceAfter = 150, le_levelAfter = 2, le_kind = ''manual_adjustment'',
       le_taskId = None, le_eventId = None, le_appId = None, le_reason = Some ''opening'', le_actorAdminId = Some ''root@pid'',
       le_policyVersionId = ''p1'', le_createdAt = 0\<rparr>],
     xd_quotas = [], xd_orgQuotas = [], xd_suspicious = [], xd_apps = [],
     xd_identities = [\<lparr>xi_pid = ''ana@pid'', xi_status = ''active'', xi_role = ''user''\<rparr>, \<lparr>xi_pid = ''root@pid'', xi_status = ''active'', xi_role = ''admin''\<rparr>],
     xd_profiles = [''ana@pid''], xd_credentials = [''ana@pid''], xd_audit = [], xd_next = 1\<rparr>"

lemma demo_xp_inv: "xp_inv demo_xp_db" "states_ok demo_xp_db"
  by (auto simp: xp_inv_def demo_xp_db_def state_total_def find_state_def ledger_sum_def balances_ok_def event_keys_def states_ok_def)

lemma demo_rows: "policy_rows demo_xp_db ''p1'' = [\<lparr>th_level = 1, th_cumulativeXp = 0\<rparr>, \<lparr>th_level = 2, th_cumulativeXp = 100\<rparr>, \<lparr>th_level = 3, th_cumulativeXp = 382\<rparr>]"
  by (simp add: policy_rows_def demo_xp_db_def level_threshold.truncate_def)

theorem backfill_run_completes_witness:
  "\<exists>r st'. requestRun demo_xp_env ''root@pid'' \<lparr>ro_dryRun = Some False, ro_policyVersion = Some ''1'', ro_cursor = None, ro_batchSize = Some 1\<rparr>
      \<lparr>rd_xp = demo_xp_db, rd_runs = []\<rparr> = Some (Inr r, st') \<and> rr_status r = ''done''"
proof -
  let ?st = "\<lparr>rd_xp = demo_xp_db, rd_runs = []\<rparr>"
  have "all_digits ''1''" "nat_of_digits ''1'' = 1" by (simp_all add: all_digits_def is_digit_def nat_of_digits_def digit_val_def)
  then have v: "resolvePolicy (Some ''1'') (rd_xp ?st) = Inr (''p1'', 1)" by (simp add: resolvePolicy_def demo_xp_db_def demo_policy_def)
  have e: "migrationEnabled demo_xp_env" by (simp add: migrationEnabled_def demo_xp_env_def)
  have i: "xp_inv (rd_xp ?st)" "states_ok (rd_xp ?st)" using demo_xp_inv by simp_all
  have r: "policy_rows (rd_xp ?st) ''p1'' \<noteq> []" "''1'' \<noteq> []" by (simp_all add: demo_rows)
  from backfill_run_completes [OF e i v r(2,1) refl] show ?thesis by blast
qed

end
