(* ===== verification/Settings.thy ===== *)
theory Settings
  imports Prelude
begin

text \<open>
  System settings: the closed key catalogue of \<^verbatim>\<open>settings/defaults.ts\<close>, the cached reads and the optimistic
  admin write of \<^verbatim>\<open>settings/settings.service.ts\<close>, and the XP accessors of \<^verbatim>\<open>settings/xp-settings.service.ts\<close>.
  Numbers of a JSON value are integers. A read takes the rows its query saw (or \<open>None\<close> when the
  database fails) and the time it started; the cache is the process's own.
\<close>

section \<open>Catalogue\<close>

definition XP_SUSPEND_DEFAULT :: json where "XP_SUSPEND_DEFAULT = JBool False"

definition XP_LIMIT_DEFAULT :: json where "XP_LIMIT_DEFAULT = JNum 0"

definition XP_POLICY_ACTIVE_DEFAULT :: json where "XP_POLICY_ACTIVE_DEFAULT = JStr []"

definition SETTINGS_CACHE_TTL_MS :: int where "SETTINGS_CACHE_TTL_MS = 30000"

definition is_bool :: "json \<Rightarrow> bool" where "is_bool v = (case v of JBool _ \<Rightarrow> True | _ \<Rightarrow> False)"

definition is_number :: "json \<Rightarrow> bool" where "is_number v = (case v of JNum _ \<Rightarrow> True | _ \<Rightarrow> False)"

definition validateRewardShape :: "json \<Rightarrow> string option" where
  "validateRewardShape v =
     (case v of
        JObj kvs \<Rightarrow>
          (case jsmap_get kvs ''amount'' of
             Some (JNum a) \<Rightarrow>
               if a < 0 then Some ''amount must be an integer >= 0''
               else (case jsmap_get kvs ''cap'' of
                  Some JNull \<Rightarrow> None
                | Some (JNum c) \<Rightarrow> if c < a then Some ''cap must be null or an integer >= amount'' else None
                | _ \<Rightarrow> Some ''cap must be null or an integer >= amount'')
           | _ \<Rightarrow> Some ''amount must be an integer >= 0'')
      | _ \<Rightarrow> Some ''must be an object {amount, cap}'')"

definition validateAppPermissions :: "json \<Rightarrow> string option" where
  "validateAppPermissions v =
     (case v of
        JObj kvs \<Rightarrow>
          (case (jsmap_get kvs ''canEarn'', jsmap_get kvs ''canSpend'') of
             (Some (JBool _), Some (JBool _)) \<Rightarrow> None
           | _ \<Rightarrow> Some ''canEarn and canSpend must both be booleans'')
      | _ \<Rightarrow> Some ''must be an object {canEarn, canSpend}'')"

definition lower_alnum :: "char \<Rightarrow> bool" where
  "lower_alnum c \<longleftrightarrow> is_digit c \<or> (97 \<le> (of_char c :: nat) \<and> (of_char c :: nat) \<le> 122) \<or> c = CHR ''_''"

fun threshold_errors :: "(string \<times> json) list \<Rightarrow> string option" where
  "threshold_errors [] = None"
| "threshold_errors ((name, v) # rest) =
     (if name = [] \<or> length name > 64 \<or> \<not> list_all lower_alnum name then Some ''threshold name must match ^[a-z0-9_]{1,64}$''
      else case v of
        JNum n \<Rightarrow> if n < 0 then Some ''threshold must be a number >= 0'' else threshold_errors rest
      | _ \<Rightarrow> Some ''threshold must be a number >= 0'')"

definition validateThresholds :: "json \<Rightarrow> string option" where
  "validateThresholds v =
     (case v of
        JObj kvs \<Rightarrow> if length kvs > 50 then Some ''at most 50 entries'' else threshold_errors kvs
      | _ \<Rightarrow> Some ''must be an object {name: number >= 0}'')"

definition id_char :: "char \<Rightarrow> bool" where
  "id_char c \<longleftrightarrow> lower_alnum c \<or> (65 \<le> (of_char c :: nat) \<and> (of_char c :: nat) \<le> 90) \<or> c = CHR ''.'' \<or> c = CHR ''-''"

text \<open>\<^verbatim>\<open>/^<prefix>[...]{1,n}$/\<close>.\<close>

definition param_key :: "string \<Rightarrow> (char \<Rightarrow> bool) \<Rightarrow> nat \<Rightarrow> string \<Rightarrow> bool" where
  "param_key prefix ok n key \<longleftrightarrow>
     take (length prefix) key = prefix \<and> 1 \<le> length (drop (length prefix) key) \<and> length (drop (length prefix) key) \<le> n
     \<and> list_all ok (drop (length prefix) key)"

definition unknown_key :: "string \<Rightarrow> string" where
  "unknown_key key = ''unknown setting key '' @ key @ '' (closed catalog -- new keys ship via migration)''"

definition validateParameterizedKey :: "string \<Rightarrow> json \<Rightarrow> string option" where
  "validateParameterizedKey key v =
     (if param_key ''xp.rewards.'' lower_alnum 64 key then validateRewardShape v
      else if param_key ''xp.app_permissions.'' id_char 128 key then validateAppPermissions v
      else if param_key ''xp.suspend.'' id_char 128 key then (if is_bool v then None else Some ''must be a boolean'')
      else Some (unknown_key key))"

record setting_def =
  sd_valueType :: string
  sd_default :: json
  sd_validate :: "json \<Rightarrow> string option"

definition nonneg_int :: "json \<Rightarrow> string option" where
  "nonneg_int v = (case v of JNum n \<Rightarrow> if n \<ge> 0 then None else Some ''must be an integer >= 0'' | _ \<Rightarrow> Some ''must be an integer >= 0'')"

definition SETTING_DEFINITIONS :: "(string, setting_def) jsmap" where
  "SETTING_DEFINITIONS =
     [(''xp.limits.daily'', \<lparr>sd_valueType = ''integer'', sd_default = XP_LIMIT_DEFAULT, sd_validate = nonneg_int\<rparr>),
      (''xp.limits.weekly'', \<lparr>sd_valueType = ''integer'', sd_default = XP_LIMIT_DEFAULT, sd_validate = nonneg_int\<rparr>),
      (''xp.limits.monthly'', \<lparr>sd_valueType = ''integer'', sd_default = XP_LIMIT_DEFAULT, sd_validate = nonneg_int\<rparr>),
      (''xp.policy.active'', \<lparr>sd_valueType = ''string'', sd_default = XP_POLICY_ACTIVE_DEFAULT,
         sd_validate = (\<lambda>v. case v of JStr s \<Rightarrow> if length s \<le> 64 then None else Some ''must be a string of at most 64 chars''
                              | _ \<Rightarrow> Some ''must be a string of at most 64 chars'')\<rparr>),
      (''xp.policy.thresholds'', \<lparr>sd_valueType = ''json'', sd_default = JObj [], sd_validate = validateThresholds\<rparr>),
      (''xp.suspend.global'', \<lparr>sd_valueType = ''boolean'', sd_default = XP_SUSPEND_DEFAULT,
         sd_validate = (\<lambda>v. if is_bool v then None else Some ''must be a boolean'')\<rparr>)]"

definition definitionFor :: "string \<Rightarrow> setting_def option" where
  "definitionFor key = jsmap_get SETTING_DEFINITIONS key"

definition matchesValueType :: "string \<Rightarrow> json \<Rightarrow> bool" where
  "matchesValueType t v =
     (if t = ''boolean'' then is_bool v
      else if t = ''integer'' then is_number v
      else if t = ''number'' then is_number v
      else if t = ''string'' then (case v of JStr _ \<Rightarrow> True | _ \<Rightarrow> False)
      else t = ''json'')"

text \<open>\<^verbatim>\<open>err.startsWith("unknown setting key")\<close> holds exactly of the closed-catalogue error.\<close>

definition validateStoredValue :: "string \<Rightarrow> string \<Rightarrow> json \<Rightarrow> string option" where
  "validateStoredValue key valueType v =
     (case definitionFor key of
        Some d \<Rightarrow> if sd_valueType d \<noteq> valueType then Some ''stored valueType does not match catalog'' else sd_validate d v
      | None \<Rightarrow>
          let err = validateParameterizedKey key v
          in if err = Some (unknown_key key) then err
             else if \<not> matchesValueType valueType v then Some ''value does not match valueType''
             else err)"

section \<open>Service state\<close>

record setting_row =
  sr_key :: string
  sr_value :: json
  sr_valueType :: string
  sr_version :: int
  sr_updatedBy :: string

record history_row =
  hr_key :: string
  hr_oldValue :: json
  hr_newValue :: json
  hr_reason :: string
  hr_version :: int
  hr_updatedBy :: string

record settings_db =
  st_rows :: "setting_row list"
  st_history :: "history_row list"
  st_audit :: "(string \<times> string) list"

record cache_entry =
  ce_value :: json
  ce_expiresAt :: int

type_synonym settings_cache = "(string, cache_entry) jsmap"

record detailed_read =
  dr_value :: json
  dr_source :: string
  dr_degraded :: bool

definition find_setting :: "settings_db \<Rightarrow> string \<Rightarrow> setting_row option" where
  "find_setting db key = find (\<lambda>r. sr_key r = key) (st_rows db)"

definition invalidate :: "string option \<Rightarrow> settings_cache \<Rightarrow> settings_cache" where
  "invalidate key cache = (case key of Some k \<Rightarrow> if k = [] then [] else jsmap_delete k cache | None \<Rightarrow> [])"

text \<open>What the query of a read yields: the value, and the entry it caches if any.\<close>

definition read_row :: "int \<Rightarrow> string \<Rightarrow> json \<Rightarrow> settings_db option \<Rightarrow> detailed_read \<times> cache_entry option" where
  "read_row now key callerDefault seen =
     (let fallback = (case definitionFor key of Some d \<Rightarrow> sd_default d | None \<Rightarrow> callerDefault)
      in case seen of
           None \<Rightarrow> (\<lparr>dr_value = fallback, dr_source = ''fallback'', dr_degraded = True\<rparr>, None)
         | Some db \<Rightarrow>
             (case find_setting db key of
                None \<Rightarrow> (\<lparr>dr_value = fallback, dr_source = ''default'', dr_degraded = False\<rparr>, None)
              | Some r \<Rightarrow>
                  if validateStoredValue key (sr_valueType r) (sr_value r) \<noteq> None
                  then (\<lparr>dr_value = fallback, dr_source = ''fallback'', dr_degraded = True\<rparr>, None)
                  else (\<lparr>dr_value = sr_value r, dr_source = ''db'', dr_degraded = False\<rparr>,
                        Some \<lparr>ce_value = sr_value r, ce_expiresAt = now + SETTINGS_CACHE_TTL_MS\<rparr>)))"

definition readDetailed :: "int \<Rightarrow> string \<Rightarrow> json \<Rightarrow> settings_db option \<Rightarrow> settings_cache \<Rightarrow> detailed_read \<times> settings_cache" where
  "readDetailed now key callerDefault seen cache =
     (case jsmap_get cache key of
        Some hit \<Rightarrow>
          if ce_expiresAt hit > now then (\<lparr>dr_value = ce_value hit, dr_source = ''cache'', dr_degraded = False\<rparr>, cache)
          else (case read_row now key callerDefault seen of (r, None) \<Rightarrow> (r, cache) | (r, Some e) \<Rightarrow> (r, jsmap_set key e cache))
      | None \<Rightarrow> (case read_row now key callerDefault seen of (r, None) \<Rightarrow> (r, cache) | (r, Some e) \<Rightarrow> (r, jsmap_set key e cache)))"

definition get_setting :: "int \<Rightarrow> string \<Rightarrow> json \<Rightarrow> settings_db option \<Rightarrow> settings_cache \<Rightarrow> json \<times> settings_cache" where
  "get_setting now key callerDefault seen cache =
     (case readDetailed now key callerDefault seen cache of (r, cache') \<Rightarrow> (dr_value r, cache'))"

record write_opts =
  wo_reason :: string
  wo_expectedVersion :: int
  wo_updatedBy :: string

definition write_error :: "string \<Rightarrow> json \<Rightarrow> write_opts \<Rightarrow> http_error option" where
  "write_error key v opts =
     (case definitionFor key of
        None \<Rightarrow> Some (NotFound ''unknown setting key (closed catalog)'')
      | Some d \<Rightarrow>
          if length (wo_reason opts) < 10 \<or> length (wo_reason opts) > 500 then Some (BadRequest ''reason must be 10-500 chars'')
          else if wo_expectedVersion opts < 1 then Some (BadRequest ''expectedVersion must be an integer >= 1'')
          else if sd_validate d v \<noteq> None then Some (BadRequest ''validation_error'')
          else if \<not> matchesValueType (sd_valueType d) v then Some (BadRequest ''value does not match valueType'')
          else None)"

text \<open>The transaction: the update is guarded by the version in its WHERE clause; the history row records the
  value that was read before.\<close>

definition write_txn :: "string \<Rightarrow> json \<Rightarrow> write_opts \<Rightarrow> json \<Rightarrow> settings_db \<Rightarrow> settings_db result" where
  "write_txn key v opts oldValue db =
     (if list_ex (\<lambda>r. sr_key r = key \<and> sr_version r = wo_expectedVersion opts) (st_rows db)
      then Inr (db\<lparr>st_rows := map (\<lambda>r. if sr_key r = key \<and> sr_version r = wo_expectedVersion opts
                      then r\<lparr>sr_value := v, sr_version := wo_expectedVersion opts + 1, sr_updatedBy := wo_updatedBy opts\<rparr> else r) (st_rows db),
                   st_history := st_history db @ [\<lparr>hr_key = key, hr_oldValue = oldValue, hr_newValue = v, hr_reason = wo_reason opts,
                      hr_version = wo_expectedVersion opts + 1, hr_updatedBy = wo_updatedBy opts\<rparr>],
                   st_audit := st_audit db @ [(wo_updatedBy opts, ''system_setting.updated'')]\<rparr>)
      else Inl (Conflict ''version_conflict''))"

definition updateSetting ::
  "string \<Rightarrow> json \<Rightarrow> write_opts \<Rightarrow> settings_db \<Rightarrow> settings_db \<Rightarrow> settings_cache \<Rightarrow> setting_row result \<times> settings_db \<times> settings_cache" where
  "updateSetting key v opts seen db cache =
     (case write_error key v opts of Some e \<Rightarrow> (Inl e, db, cache) | None \<Rightarrow>
      case find_setting seen key of
        None \<Rightarrow> (Inl (NotFound ''unknown setting key (not seeded)''), db, cache)
      | Some current \<Rightarrow>
          if sr_version current \<noteq> wo_expectedVersion opts then (Inl (Conflict ''version_conflict''), db, cache)
          else (case write_txn key v opts (sr_value current) db of
             Inl e \<Rightarrow> (Inl e, db, cache)
           | Inr db' \<Rightarrow>
               (case find_setting db' key of
                  Some r \<Rightarrow> (Inr r, db', invalidate (Some key) cache)
                | None \<Rightarrow> (Inl (ServiceUnavailable ''settings store unreachable''), db, cache))))"

definition listSettings :: "string option \<Rightarrow> settings_db \<Rightarrow> setting_row list" where
  "listSettings prefix db =
     sort_key sr_key (filter (\<lambda>r. case prefix of None \<Rightarrow> True | Some p \<Rightarrow> take (length p) (sr_key r) = p) (st_rows db))"

definition settingHistory :: "string \<Rightarrow> nat \<Rightarrow> nat \<Rightarrow> settings_db \<Rightarrow> (history_row list \<times> string option) result" where
  "settingHistory key limit offset db =
     (if definitionFor key = None \<and> find_setting db key = None then Inl (NotFound ''unknown setting key'')
      else let rows = take (limit + 1) (drop offset (rev (filter (\<lambda>h. hr_key h = key) (st_history db))))
        in Inr (take limit rows, if length rows > limit then Some (show_nat (offset + limit)) else None))"

section \<open>XP accessors\<close>

record effective_intake =
  ei_allowed :: bool
  ei_suspendGlobal :: json
  ei_suspendApp :: json
  ei_source :: string

text \<open>Both switches are read at once; \<open>seen1\<close> and \<open>seen2\<close> are what the two queries saw.\<close>

definition effectiveIntake ::
  "int \<Rightarrow> string option \<Rightarrow> settings_db option \<Rightarrow> settings_db option \<Rightarrow> settings_cache \<Rightarrow> effective_intake \<times> settings_cache" where
  "effectiveIntake now appId seen1 seen2 cache =
     (let (g, cache1) = readDetailed now ''xp.suspend.global'' XP_SUSPEND_DEFAULT seen1 cache;
          (a, cache2) = (case appId of
              Some i \<Rightarrow> if i = [] then (\<lparr>dr_value = JBool False, dr_source = ''default'', dr_degraded = False\<rparr>, cache1)
                        else readDetailed now (''xp.suspend.'' @ i) XP_SUSPEND_DEFAULT seen2 cache1
            | None \<Rightarrow> (\<lparr>dr_value = JBool False, dr_source = ''default'', dr_degraded = False\<rparr>, cache1));
          degraded = (dr_degraded g \<or> dr_degraded a)
      in (\<lparr>ei_allowed = (\<not> degraded \<and> dr_value g \<noteq> JBool True \<and> dr_value a \<noteq> JBool True),
           ei_suspendGlobal = dr_value g, ei_suspendApp = dr_value a, ei_source = (if degraded then ''defaults-fallback'' else ''db'')\<rparr>, cache2))"

section \<open>The audit trail of writes\<close>

text \<open>Replaying the history of one key from a value and a version.\<close>

fun replay_history :: "json \<Rightarrow> int \<Rightarrow> history_row list \<Rightarrow> (json \<times> int) option" where
  "replay_history v n [] = Some (v, n)"
| "replay_history v n (h # hs) =
     (if hr_oldValue h = v \<and> hr_version h = n + 1 then replay_history (hr_newValue h) (n + 1) hs else None)"

definition key_history :: "settings_db \<Rightarrow> string \<Rightarrow> history_row list" where
  "key_history db key = filter (\<lambda>h. hr_key h = key) (st_history db)"

text \<open>The rows of \<open>db\<close> are those of \<open>db0\<close>, each carried along by the part of its history that follows.\<close>

definition trail_ok :: "settings_db \<Rightarrow> settings_db \<Rightarrow> bool" where
  "trail_ok db0 db \<longleftrightarrow>
     map sr_key (st_rows db) = map sr_key (st_rows db0)
     \<and> (\<exists>hs. st_history db = st_history db0 @ hs)
     \<and> (\<forall>key r0 r. find_setting db0 key = Some r0 \<longrightarrow> find_setting db key = Some r
          \<longrightarrow> replay_history (sr_value r0) (sr_version r0) (drop (length (key_history db0 key)) (key_history db key)) = Some (sr_value r, sr_version r))"

type_synonym settings_write = "string \<times> json \<times> write_opts \<times> nat"

text \<open>A write whose pre-read saw the state \<open>k\<close> writes ago; the list holds every state, newest first.\<close>

definition write_step :: "settings_write \<Rightarrow> settings_db list \<Rightarrow> settings_db list" where
  "write_step w dbs = (case w of (key, v, opts, k) \<Rightarrow>
     (let seen = (if k < length dbs then dbs ! k else hd dbs) in fst (snd (updateSetting key v opts seen (hd dbs) [])) # dbs))"

definition trail_inv :: "settings_db list \<Rightarrow> bool" where
  "trail_inv dbs \<longleftrightarrow> dbs \<noteq> [] \<and> distinct (map sr_key (st_rows (hd dbs))) \<and> (\<forall>d \<in> set dbs. trail_ok d (hd dbs))"

lemma trail_refl: "trail_ok db db"
  by (auto simp: trail_ok_def)

lemma replay_version: "replay_history v n hs = Some (v', n') \<Longrightarrow> n' = n + int (length hs)"
  by (induction hs arbitrary: v n) (fastforce split: if_splits)+

lemma replay_append:
  "replay_history v n (hs @ [h]) =
     (case replay_history v n hs of None \<Rightarrow> None
      | Some (v', n') \<Rightarrow> if hr_oldValue h = v' \<and> hr_version h = n' + 1 then Some (hr_newValue h, n' + 1) else None)"
  by (induction hs arbitrary: v n) auto

lemma find_map_key:
  assumes "\<And>r. sr_key (g r) = sr_key r"
  shows "find (\<lambda>r. sr_key r = key) (map g rows) = map_option g (find (\<lambda>r. sr_key r = key) rows)"
  by (induction rows) (auto simp: assms)

lemma find_setting_keys: "map sr_key (st_rows a) = map sr_key (st_rows b) \<Longrightarrow> find_setting a key = None \<longleftrightarrow> find_setting b key = None"
  unfolding find_setting_def find_None_iff by (metis (mono_tags, lifting) imageE image_eqI list.set_map)

text \<open>A committed write, spelled out on the newest state.\<close>

lemma write_cases:
  assumes "db' = fst (snd (updateSetting key v opts seen db cache))" "distinct (map sr_key (st_rows db))"
  obtains (kept) "db' = db"
  | (written) c r where "find_setting seen key = Some c" "sr_version c = wo_expectedVersion opts"
      "find_setting db key = Some r" "sr_version r = wo_expectedVersion opts"
      "st_history db' = st_history db @ [\<lparr>hr_key = key, hr_oldValue = sr_value c, hr_newValue = v, hr_reason = wo_reason opts,
         hr_version = wo_expectedVersion opts + 1, hr_updatedBy = wo_updatedBy opts\<rparr>]"
      "map sr_key (st_rows db') = map sr_key (st_rows db)"
      "find_setting db' key = Some (r\<lparr>sr_value := v, sr_version := wo_expectedVersion opts + 1, sr_updatedBy := wo_updatedBy opts\<rparr>)"
      "\<And>k. k \<noteq> key \<Longrightarrow> find_setting db' k = find_setting db k"
proof (cases "db' = db")
  case False
  then obtain c where c: "find_setting seen key = Some c" "sr_version c = wo_expectedVersion opts"
    and txn: "write_txn key v opts (sr_value c) db = Inr db'"
    using assms(1) by (auto simp: updateSetting_def split: option.splits sum.splits if_splits)
  let ?g = "\<lambda>r. if sr_key r = key \<and> sr_version r = wo_expectedVersion opts
    then r\<lparr>sr_value := v, sr_version := wo_expectedVersion opts + 1, sr_updatedBy := wo_updatedBy opts\<rparr> else r"
  from txn obtain q where q: "q \<in> set (st_rows db)" "sr_key q = key" "sr_version q = wo_expectedVersion opts"
    and db': "st_rows db' = map ?g (st_rows db)"
      "st_history db' = st_history db @ [\<lparr>hr_key = key, hr_oldValue = sr_value c, hr_newValue = v, hr_reason = wo_reason opts,
         hr_version = wo_expectedVersion opts + 1, hr_updatedBy = wo_updatedBy opts\<rparr>]"
    by (auto simp: write_txn_def list_ex_iff split: if_splits)
  have found: "find_setting db' k = map_option ?g (find_setting db k)" for k
    unfolding find_setting_def db' by (rule find_map_key) simp
  have "find_setting db key = Some q"
    using q assms(2) unfolding find_setting_def
    by (auto simp: find_Some_iff in_set_conv_nth distinct_conv_nth)
  moreover have "find_setting db' k = find_setting db k" if "k \<noteq> key" for k
    using that found [of k] by (cases "find_setting db k") (auto simp: find_setting_def dest: find_SomeD)
  ultimately show ?thesis
    using c q db' found [of key] by (intro written [of c q]) (auto simp: comp_def)
qed (rule kept)

lemma trail_step:
  assumes inv: "trail_ok d db" "trail_ok s db" "distinct (map sr_key (st_rows db))"
    and db': "db' = fst (snd (updateSetting key v opts s db cache))"
  shows "trail_ok d db'"
proof (cases rule: write_cases [OF db' inv(3), case_names kept written])
  case kept
  with inv show ?thesis by simp
next
  case (written c r)
  let ?h = "\<lparr>hr_key = key, hr_oldValue = sr_value c, hr_newValue = v, hr_reason = wo_reason opts,
     hr_version = wo_expectedVersion opts + 1, hr_updatedBy = wo_updatedBy opts\<rparr>"
  have hist: "key_history db' k = key_history db k @ (if k = key then [?h] else [])" for k
    by (simp add: key_history_def written(5))
  have pre: "length (key_history d k) \<le> length (key_history db k)" for k
    using inv(1) by (auto simp: trail_ok_def key_history_def)
  text \<open>The version pins the value: a snapshot with the version of the newest state has its value.\<close>
  have rep: "replay_history (sr_value c) (sr_version c) (drop (length (key_history s key)) (key_history db key)) = Some (sr_value r, sr_version r)"
    using inv(2) written(1,3) unfolding trail_ok_def by blast
  then have "drop (length (key_history s key)) (key_history db key) = []"
    using replay_version [OF rep] written(2,4) by simp
  with rep have val: "sr_value c = sr_value r" by simp
  have "replay_history (sr_value r0) (sr_version r0) (drop (length (key_history d k)) (key_history db' k)) = Some (sr_value q, sr_version q)"
    if "find_setting d k = Some r0" "find_setting db' k = Some q" for k r0 q
  proof (cases "k = key")
    case True
    have "replay_history (sr_value r0) (sr_version r0) (drop (length (key_history d key)) (key_history db key)) = Some (sr_value r, sr_version r)"
      using inv(1) that(1) written(3) True unfolding trail_ok_def by blast
    then show ?thesis
      using True that(2) written(2,4,7) val pre [of key] by (auto simp: hist replay_append)
  next
    case False
    with inv(1) that written(8) show ?thesis unfolding trail_ok_def by (auto simp: hist)
  qed
  with inv(1) written(5,6) show ?thesis by (auto simp: trail_ok_def)
qed

interpretation writes: service_machine write_step trail_inv
proof
  fix w :: settings_write and dbs
  assume inv: "trail_inv dbs"
  obtain key v opts k where w: "w = (key, v, opts, k)" by (cases w)
  let ?seen = "if k < length dbs then dbs ! k else hd dbs"
  let ?db' = "fst (snd (updateSetting key v opts ?seen (hd dbs) []))"
  have ne: "dbs \<noteq> []" and d: "distinct (map sr_key (st_rows (hd dbs)))" and all: "\<And>d. d \<in> set dbs \<Longrightarrow> trail_ok d (hd dbs)"
    using inv by (auto simp: trail_inv_def)
  then have "?seen \<in> set dbs" by auto
  then have step: "trail_ok d ?db'" if "d \<in> set dbs" for d using trail_step [OF all [OF that] all d refl] by blast
  then have "map sr_key (st_rows ?db') = map sr_key (st_rows (hd dbs))" using ne by (auto simp: trail_ok_def)
  with d step ne show "trail_inv (write_step w dbs)" by (auto simp: trail_inv_def write_step_def w Let_def trail_refl)
qed

text \<open>C25: the settings history is a complete audit trail. However admin writes race (each may have read any
  earlier state), the history rows of a key follow each other with consecutive versions, each old value
  the new value before it, and replaying them from the starting row gives exactly the stored value and version:
  no write is lost and none is unrecorded.\<close>

theorem settings_history_replays:
  assumes "distinct (map sr_key (st_rows db0))" "st_history db0 = []" and db: "db = hd (fold write_step ws [db0])"
    and "find_setting db0 key = Some r0"
  shows "\<exists>r. find_setting db key = Some r
    \<and> replay_history (sr_value r0) (sr_version r0) (filter (\<lambda>h. hr_key h = key) (st_history db)) = Some (sr_value r, sr_version r)"
proof -
  have "trail_inv [db0]" using assms(1) by (simp add: trail_inv_def trail_refl)
  then have inv: "trail_inv (fold write_step ws [db0])" by (rule writes.run_inv)
  have "\<exists>ys. fold write_step ws (xs @ [db0]) = ys @ [db0]" for xs
    by (induction ws arbitrary: xs) (auto simp: write_step_def Let_def split: prod.splits simp flip: append_Cons)
  then have "db0 \<in> set (fold write_step ws [db0])" by (metis append_Nil in_set_conv_decomp)
  with inv have t: "trail_ok db0 db" by (simp add: trail_inv_def db)
  then obtain r where "find_setting db key = Some r"
    using assms(4) find_setting_keys [of db db0 key] by (auto simp: trail_ok_def)
  with t assms(2,4) show ?thesis by (auto simp: trail_ok_def key_history_def)
qed

definition demo_settings :: settings_db where
  "demo_settings = \<lparr>st_rows = [\<lparr>sr_key = ''xp.suspend.global'', sr_value = JBool False, sr_valueType = ''boolean'', sr_version = 1, sr_updatedBy = ''seed''\<rparr>],
     st_history = [], st_audit = []\<rparr>"

theorem settings_history_replays_witness:
  "\<exists>r. find_setting (hd (fold write_step
      [(''xp.suspend.global'', JBool True, \<lparr>wo_reason = ''incident 42 -- stop'', wo_expectedVersion = 1, wo_updatedBy = ''root''\<rparr>, 0),
       (''xp.suspend.global'', JBool False, \<lparr>wo_reason = ''raced by another'', wo_expectedVersion = 1, wo_updatedBy = ''eve''\<rparr>, 1)] [demo_settings])) ''xp.suspend.global'' = Some r"
proof -
  have f: "find_setting demo_settings ''xp.suspend.global''
      = Some \<lparr>sr_key = ''xp.suspend.global'', sr_value = JBool False, sr_valueType = ''boolean'', sr_version = 1, sr_updatedBy = ''seed''\<rparr>"
    by (simp add: find_setting_def demo_settings_def)
  have "distinct (map sr_key (st_rows demo_settings))" "st_history demo_settings = []" by (simp_all add: demo_settings_def)
  from settings_history_replays [OF this refl f] show ?thesis by blast
qed

section \<open>How stale a cached read can be\<close>

text \<open>One process and its database over time. \<open>sy_hist\<close> holds the database states, newest first, each with the
  time it was committed. A read that started at \<open>start\<close> queries a state that nothing replaced before
  \<open>start\<close>, and stores its entry when it ends, also when a write was committed meanwhile. Other processes write too:
  their writes leave this cache alone.\<close>

record settings_sys =
  sy_hist :: "(int \<times> settings_db) list"
  sy_cache :: settings_cache
  sy_clock :: int

datatype settings_op =
    ReadFill int int string json nat
  | WriteHere int string json write_opts nat
  | WriteElsewhere int string json write_opts nat

definition current_since :: "(int \<times> settings_db) list \<Rightarrow> nat \<Rightarrow> int \<Rightarrow> bool" where
  "current_since hist k t \<longleftrightarrow> k < length hist \<and> (k = 0 \<or> t \<le> fst (hist ! (k - 1)))"

definition newest :: "settings_sys \<Rightarrow> settings_db" where
  "newest s = snd (hd (sy_hist s))"

definition snapshot :: "settings_sys \<Rightarrow> nat \<Rightarrow> settings_db" where
  "snapshot s k = (if k < length (sy_hist s) then snd (sy_hist s ! k) else newest s)"

definition settings_step :: "settings_op \<Rightarrow> settings_sys \<Rightarrow> settings_sys" where
  "settings_step op s =
     (case op of
        ReadFill start fin key dflt k \<Rightarrow>
          if start \<le> fin \<and> sy_clock s \<le> fin \<and> current_since (sy_hist s) k start
          then s\<lparr>sy_clock := fin,
                 sy_cache := (case snd (read_row start key dflt (Some (snapshot s k))) of None \<Rightarrow> sy_cache s | Some e \<Rightarrow> jsmap_set key e (sy_cache s))\<rparr>
          else s
      | WriteHere t key v opts k \<Rightarrow>
          if sy_clock s \<le> t then
            (case updateSetting key v opts (snapshot s k) (newest s) (sy_cache s) of
               (_, db', cache') \<Rightarrow> s\<lparr>sy_clock := t, sy_hist := (t, db') # sy_hist s, sy_cache := cache'\<rparr>)
          else s
      | WriteElsewhere t key v opts k \<Rightarrow>
          if sy_clock s \<le> t then
            (case updateSetting key v opts (snapshot s k) (newest s) [] of
               (_, db', _) \<Rightarrow> s\<lparr>sy_clock := t, sy_hist := (t, db') # sy_hist s\<rparr>)
          else s)"

definition settings_run :: "int \<Rightarrow> settings_db \<Rightarrow> settings_op list \<Rightarrow> settings_sys" where
  "settings_run t0 db0 ops = fold settings_step ops \<lparr>sy_hist = [(t0, db0)], sy_cache = [], sy_clock = t0\<rparr>"

definition entry_ok :: "(int \<times> settings_db) list \<Rightarrow> int \<Rightarrow> string \<Rightarrow> cache_entry \<Rightarrow> bool" where
  "entry_ok hist clock key e \<longleftrightarrow>
     ce_expiresAt e - SETTINGS_CACHE_TTL_MS \<le> clock
     \<and> (\<exists>k r. current_since hist k (ce_expiresAt e - SETTINGS_CACHE_TTL_MS) \<and> find_setting (snd (hist ! k)) key = Some r
          \<and> sr_value r = ce_value e \<and> validateStoredValue key (sr_valueType r) (sr_value r) = None)"

definition cache_inv :: "settings_sys \<Rightarrow> bool" where
  "cache_inv s \<longleftrightarrow> sy_hist s \<noteq> []
     \<and> (\<forall>key e. jsmap_get (sy_cache s) key = Some e \<longrightarrow> entry_ok (sy_hist s) (sy_clock s) key e)"

lemma current_since_push: "current_since hist k t \<Longrightarrow> t \<le> now \<Longrightarrow> current_since ((now, db) # hist) (Suc k) t"
  by (cases k) (auto simp: current_since_def)

lemma entry_ok_push: "entry_ok hist clock key e \<Longrightarrow> clock \<le> now \<Longrightarrow> entry_ok ((now, db) # hist) now key e"
  unfolding entry_ok_def using current_since_push by (metis (no_types, lifting) nth_Cons_Suc order_trans)

lemma entry_ok_clock: "entry_ok hist clock key e \<Longrightarrow> clock \<le> now \<Longrightarrow> entry_ok hist now key e"
  by (auto simp: entry_ok_def)

lemma read_row_cached:
  "snd (read_row now key dflt (Some db)) = Some e \<longleftrightarrow>
     (\<exists>r. find_setting db key = Some r \<and> validateStoredValue key (sr_valueType r) (sr_value r) = None
          \<and> e = \<lparr>ce_value = sr_value r, ce_expiresAt = now + SETTINGS_CACHE_TTL_MS\<rparr>)"
  by (auto simp: read_row_def Let_def split: option.splits)

lemma updateSetting_cache:
  "updateSetting key v opts seen db cache = (r, db', cache') \<Longrightarrow> cache' = cache \<or> cache' = invalidate (Some key) cache"
  by (auto simp: updateSetting_def split: option.splits sum.splits if_splits)

lemma invalidate_sub: "jsmap_get (invalidate (Some k) cache) key = Some e \<Longrightarrow> jsmap_get cache key = Some e"
  by (simp add: invalidate_def jsmap_get_delete split: if_splits)

interpretation cached: service_machine settings_step cache_inv
proof
  fix op s
  assume inv: "cache_inv s"
  note ok = inv [unfolded cache_inv_def]
  show "cache_inv (settings_step op s)"
  proof (cases op)
    case (ReadFill start fin key dflt k)
    show ?thesis
    proof (cases "start \<le> fin \<and> sy_clock s \<le> fin \<and> current_since (sy_hist s) k start")
      case True
      have snap: "snapshot s k = snd (sy_hist s ! k)" using True by (simp add: snapshot_def current_since_def)
      show ?thesis
      proof (cases "snd (read_row start key dflt (Some (snapshot s k)))")
        case None
        with True ok ReadFill show ?thesis by (auto simp: settings_step_def cache_inv_def intro: entry_ok_clock)
      next
        case (Some e)
        then have "entry_ok (sy_hist s) fin key e"
          using True unfolding read_row_cached snap entry_ok_def by auto
        with Some True ok ReadFill show ?thesis
          by (auto simp: settings_step_def cache_inv_def jsmap_get_set intro: entry_ok_clock)
      qed
    qed (use inv ReadFill in \<open>auto simp: settings_step_def\<close>)
  next
    case (WriteHere t key v opts k)
    obtain r db' cache' where u: "updateSetting key v opts (snapshot s k) (newest s) (sy_cache s) = (r, db', cache')" by (cases "updateSetting key v opts (snapshot s k) (newest s) (sy_cache s)") auto
    from updateSetting_cache [OF u] ok have c: "\<And>key e. jsmap_get cache' key = Some e \<Longrightarrow> jsmap_get (sy_cache s) key = Some e"
      by (auto dest: invalidate_sub)
    with ok have "jsmap_get cache' key' = Some e \<Longrightarrow> entry_ok (sy_hist s) (sy_clock s) key' e" for key' e by blast
    with ok u WriteHere show ?thesis by (auto simp: settings_step_def cache_inv_def intro: entry_ok_push)
  next
    case (WriteElsewhere t key v opts k)
    with ok show ?thesis by (auto simp: settings_step_def cache_inv_def intro: entry_ok_push split: prod.splits)
  qed
qed

text \<open>C26: a setting read is at most 30 seconds stale. After any interleaving of reads, local writes and writes of
  other processes, the value a read returns is the one a fresh read would have returned on some database state that was
  current at or after 30 seconds before the read: a kill switch takes effect on every process within
  the cache lifetime.\<close>

theorem setting_reads_bounded_stale:
  "\<exists>k. current_since (sy_hist (settings_run t0 db0 ops)) k (now - 30000)
    \<and> dr_value (fst (readDetailed now key dflt (Some (newest (settings_run t0 db0 ops))) (sy_cache (settings_run t0 db0 ops))))
      = dr_value (fst (read_row now key dflt (Some (snd (sy_hist (settings_run t0 db0 ops) ! k)))))"
proof -
  define s where "s = settings_run t0 db0 ops"
  have "cache_inv \<lparr>sy_hist = [(t0, db0)], sy_cache = [], sy_clock = t0\<rparr>" by (simp add: cache_inv_def)
  then have inv: "cache_inv s" unfolding s_def settings_run_def by (rule cached.run_inv)
  then have new: "current_since (sy_hist s) 0 t" "newest s = snd (sy_hist s ! 0)" for t
    by (auto simp: cache_inv_def current_since_def newest_def hd_conv_nth)
  have "\<exists>k. current_since (sy_hist s) k (now - 30000)
    \<and> dr_value (fst (readDetailed now key dflt (Some (newest s)) (sy_cache s)))
      = dr_value (fst (read_row now key dflt (Some (snd (sy_hist s ! k)))))"
  proof (cases "\<exists>e. jsmap_get (sy_cache s) key = Some e \<and> ce_expiresAt e > now")
    case True
    then obtain e where e: "jsmap_get (sy_cache s) key = Some e" "ce_expiresAt e > now" by blast
    with inv obtain k r where k: "current_since (sy_hist s) k (ce_expiresAt e - SETTINGS_CACHE_TTL_MS)"
      "find_setting (snd (sy_hist s ! k)) key = Some r" "sr_value r = ce_value e" "validateStoredValue key (sr_valueType r) (sr_value r) = None"
      unfolding cache_inv_def entry_ok_def by blast
    then have "current_since (sy_hist s) k (now - 30000)" using e(2) by (auto simp: current_since_def SETTINGS_CACHE_TTL_MS_def)
    with e k show ?thesis by (intro exI [of _ k]) (simp add: readDetailed_def read_row_def Let_def)
  next
    case False
    then have "fst (readDetailed now key dflt (Some (newest s)) (sy_cache s)) = fst (read_row now key dflt (Some (newest s)))"
      by (auto simp: readDetailed_def split: option.splits prod.splits)
    with new show ?thesis by (intro exI [of _ 0]) simp
  qed
  then show ?thesis by (simp add: s_def)
qed

text \<open>With an unreadable database and nothing cached, or with a malformed row, intake is denied.\<close>

lemma read_degraded:
  assumes "jsmap_get cache key = None"
    and "seen = None \<or> (\<exists>db r. seen = Some db \<and> find_setting db key = Some r
           \<and> validateStoredValue key (sr_valueType r) (sr_value r) \<noteq> None)"
  shows "dr_degraded (fst (readDetailed now key dflt seen cache))"
  using assms by (auto simp: readDetailed_def read_row_def Let_def)

lemma intake_needs_both:
  "ei_allowed (fst (effectiveIntake now appId seen1 seen2 cache)) \<Longrightarrow>
     \<not> dr_degraded (fst (readDetailed now ''xp.suspend.global'' XP_SUSPEND_DEFAULT seen1 cache))
     \<and> dr_value (fst (readDetailed now ''xp.suspend.global'' XP_SUSPEND_DEFAULT seen1 cache)) \<noteq> JBool True"
  by (cases "readDetailed now ''xp.suspend.global'' XP_SUSPEND_DEFAULT seen1 cache") (auto simp: effectiveIntake_def Let_def split: prod.splits)

lemma intake_fails_closed:
  assumes "jsmap_get cache ''xp.suspend.global'' = None"
    and "seen = None \<or> (\<exists>db r. seen = Some db \<and> find_setting db ''xp.suspend.global'' = Some r
           \<and> validateStoredValue ''xp.suspend.global'' (sr_valueType r) (sr_value r) \<noteq> None)"
  shows "\<not> ei_allowed (fst (effectiveIntake now appId seen seen2 cache))"
  using intake_needs_both read_degraded [OF assms] by blast

end
