(* ===== verification/Xp_Intake.thy ===== *)
theory Xp_Intake
  imports Xp_Policy Settings
begin

text \<open>
  The event intake of the experience module: \<^verbatim>\<open>events.service.ts\<close> and the services its pipeline calls,
  \<^verbatim>\<open>verification.service.ts\<close>, \<^verbatim>\<open>evidence.service.ts\<close> and \<^verbatim>\<open>quota.service.ts\<close>, with the
  credential guard in front of it and its throttle keys. As in the ledger, the reads before the row locks see \<open>seen\<close>;
  what is read once all locks are held, and what is written, is on \<open>db\<close>.
\<close>

section \<open>Window starts\<close>

text \<open>The day number of 1 January of a year, and the year of a day number, as ECMAScript defines them.\<close>

definition dayFromYear :: "int \<Rightarrow> int" where
  "dayFromYear y = 365 * (y - 1970) + (y - 1969) div 4 - (y - 1901) div 100 + (y - 1601) div 400"

definition yearFromDay :: "int \<Rightarrow> int" where
  "yearFromDay d =
     (let g = 1970 + (400 * d) div 146097
      in if dayFromYear g > d then g - 1 else if dayFromYear (g + 1) \<le> d then g + 1 else g)"

definition month_lengths :: "int \<Rightarrow> int list" where
  "month_lengths y = [31, dayFromYear (y + 1) - dayFromYear y - 337, 31, 30, 31, 30, 31, 31, 30, 31, 30, 31]"

text \<open>The days of the year before the month that contains day \<open>r\<close> of the year.\<close>

fun month_floor :: "int \<Rightarrow> int list \<Rightarrow> int" where
  "month_floor r [] = 0"
| "month_floor r (m # ms) = (if r < m then 0 else m + month_floor (r - m) ms)"

definition monthStart :: "int \<Rightarrow> int" where
  "monthStart d = (let y = yearFromDay d in dayFromYear y + month_floor (d - dayFromYear y) (month_lengths y))"

record windows =
  wn_day :: int
  wn_week :: int
  wn_month :: int

definition windowStarts :: "int \<Rightarrow> windows" where
  "windowStarts now =
     (let d = now div 86400000; day = d * 86400000; utcDay = (d + 4) mod 7; mondayOffset = (utcDay + 6) mod 7
      in \<lparr>wn_day = day, wn_week = day - mondayOffset * 86400000, wn_month = monthStart d * 86400000\<rparr>)"

definition toSafeNumber :: "int \<Rightarrow> int" where
  "toSafeNumber v = (if v > 9007199254740991 then 9007199254740991 else v)"

lemma div_bounds: "0 < k \<Longrightarrow> (x div k) * k \<le> x \<and> x < (x div k) * k + k" for x k :: int
  using div_mult_mod_eq [of x k] pos_mod_bound [of k x] pos_mod_sign [of k x] by linarith

lemma year_brackets: "dayFromYear (yearFromDay d) \<le> d \<and> d < dayFromYear (yearFromDay d + 1)"
proof -
  define g where "g = 1970 + (400 * d) div 146097"
  have g: "146097 * (g - 1970) \<le> 400 * d" "400 * d < 146097 * (g - 1969)"
    using div_bounds [of 146097 "400 * d"] by (simp_all add: g_def)
  have near: "400 * dayFromYear y \<le> 146097 * (y - 1970) + 589 \<and> 146097 * (y - 1970) - 506 \<le> 400 * dayFromYear y" for y
    using div_bounds [of 4 "y - 1969"] div_bounds [of 100 "y - 1901"] div_bounds [of 400 "y - 1601"]
    unfolding dayFromYear_def by (simp add: algebra_simps)
  have lo: "dayFromYear (g - 1) \<le> d" using g near [of "g - 1"] by simp
  have hi: "d < dayFromYear (g + 2)" using g near [of "g + 2"] by simp
  show ?thesis
    using lo hi by (simp add: yearFromDay_def Let_def g_def [symmetric] add.commute)
qed

lemma month_floor_brackets:
  "0 \<le> r \<Longrightarrow> r < sum_list ms \<Longrightarrow>
     \<exists>i < length ms. month_floor r ms = sum_list (take i ms) \<and> sum_list (take i ms) \<le> r \<and> r < sum_list (take (Suc i) ms)"
proof (induction r ms rule: month_floor.induct)
  case (2 r m ms)
  show ?case
  proof (cases "r < m")
    case True
    with "2.prems" show ?thesis by (intro exI [of _ 0]) simp
  next
    case False
    with 2 obtain i where "i < length ms" "month_floor (r - m) ms = sum_list (take i ms)"
      "sum_list (take i ms) \<le> r - m" "r - m < sum_list (take (Suc i) ms)" by auto
    with False show ?thesis by (intro exI [of _ "Suc i"]) simp
  qed
qed simp

text \<open>\<open>monthStart d\<close> is the first day of the month of the proleptic Gregorian calendar that contains day \<open>d\<close>.\<close>

lemma monthStart_brackets:
  obtains y i where "i < 12" "monthStart d = dayFromYear y + sum_list (take i (month_lengths y))"
    "monthStart d \<le> d" "d < dayFromYear y + sum_list (take (Suc i) (month_lengths y))"
proof -
  let ?y = "yearFromDay d"
  have len: "length (month_lengths ?y) = 12" by (simp add: month_lengths_def)
  have "0 \<le> d - dayFromYear ?y" "d - dayFromYear ?y < sum_list (month_lengths ?y)"
    using year_brackets [of d] by (simp_all add: month_lengths_def)
  from month_floor_brackets [OF this] obtain i where i: "i < 12"
    "month_floor (d - dayFromYear ?y) (month_lengths ?y) = sum_list (take i (month_lengths ?y))"
    "sum_list (take i (month_lengths ?y)) \<le> d - dayFromYear ?y" "d - dayFromYear ?y < sum_list (take (Suc i) (month_lengths ?y))"
    unfolding len by blast
  show ?thesis by (rule that [of i ?y]) (use i in \<open>simp_all add: monthStart_def Let_def\<close>)
qed

lemma windows_open:
  "wn_day (windowStarts now) \<le> now" "wn_week (windowStarts now) \<le> now" "wn_month (windowStarts now) \<le> now"
proof -
  have d: "now div 86400000 * 86400000 \<le> now" using div_bounds [of 86400000 now] by simp
  then show "wn_day (windowStarts now) \<le> now" by (simp add: windowStarts_def Let_def)
  have "0 \<le> ((now div 86400000 + 4) mod 7 + 6) mod 7 * (86400000 :: int)" by simp
  with d show "wn_week (windowStarts now) \<le> now" unfolding windowStarts_def Let_def by simp
  have "monthStart (now div 86400000) \<le> now div 86400000" by (rule monthStart_brackets [of "now div 86400000"])
  with d show "wn_month (windowStarts now) \<le> now" by (simp add: windowStarts_def Let_def)
qed

section \<open>Standing, evidence and quotas\<close>

record app_standing =
  st_isActive :: bool
  st_isVerified :: bool
  st_xpEnabled :: bool
  st_approvedEventTypes :: "string list"

definition standing_of :: "xp_app \<Rightarrow> app_standing" where
  "standing_of a = \<lparr>st_isActive = xa_isActive a, st_isVerified = xa_isVerified a, st_xpEnabled = xa_xpEnabled a,
                    st_approvedEventTypes = xa_approvedEventTypes a\<rparr>"

text \<open>The reason why an app may not submit an event type; None is permission.\<close>

definition canSubmitEvents :: "app_standing option \<Rightarrow> string option \<Rightarrow> string option" where
  "canSubmitEvents app eventType =
     (case app of
        None \<Rightarrow> Some ''Unknown app''
      | Some a \<Rightarrow>
          if \<not> st_isActive a then Some ''App is not active''
          else if \<not> st_isVerified a then Some ''App is not Verified''
          else if \<not> st_xpEnabled a then Some ''App has no XP permission''
          else (case eventType of
                  None \<Rightarrow> None
                | Some t \<Rightarrow> if List.member (st_approvedEventTypes a) t then None else Some (''Event type not approved: '' @ t)))"

definition find_identity :: "xp_db \<Rightarrow> string \<Rightarrow> xp_identity option" where
  "find_identity db pid = find (\<lambda>i. xi_pid i = pid) (xd_identities db)"

definition live_identity :: "xp_db \<Rightarrow> string \<Rightarrow> bool" where
  "live_identity db pid = (case find_identity db pid of None \<Rightarrow> False | Some i \<Rightarrow> xi_status i \<noteq> ''deleted'')"

text \<open>The reason why a checker refuses a subject; None is a positive verdict.\<close>

definition verify_evidence :: "string \<Rightarrow> string \<Rightarrow> xp_db \<Rightarrow> string option" where
  "verify_evidence checker pid db =
     (if checker = ''internal_state.onboarding_completed'' then
        if \<not> live_identity db pid then Some ''no live identity''
        else if \<not> List.member (xd_profiles db) pid then Some ''no profile row (onboarding incomplete)''
        else None
      else if checker = ''internal_state.identity_verified'' then
        if \<not> live_identity db pid then Some ''no live identity''
        else if length (filter (\<lambda>p. p = pid) (xd_credentials db)) < 1 then Some ''no linked credential (identity unverified)''
        else None
      else if checker = ''internal_state.campaign_verified'' then Some ''no PeridotID-side campaign record (registry not shipped)''
      else if checker = ''backend_check.achievement_owned'' then Some ''no PeridotID-issued achievement registry (not shipped)''
      else if checker = ''backend_check.activity_verified'' then Some ''no PeridotID-side activity record linkage (not shipped)''
      else Some (''unknown checker: '' @ checker))"

record quota_input =
  qi_daily :: int
  qi_weekly :: int
  qi_monthly :: int
  qi_deltaXp :: int
  qi_caps :: xp_caps
  qi_suspended :: bool
  qi_suspendReason :: "string option"

fun first_exceeded :: "int \<Rightarrow> (int option \<times> int \<times> string) list \<Rightarrow> string option" where
  "first_exceeded delta [] = None"
| "first_exceeded delta ((cap, s, name) # rest) =
     (case cap of
        Some c \<Rightarrow>
          if s + delta > c then Some (name @ '' cap exceeded ('' @ show_int s @ ''+'' @ show_int delta @ '' > '' @ show_int c @ '')'')
          else first_exceeded delta rest
      | None \<Rightarrow> first_exceeded delta rest)"

text \<open>The reason why the quota refuses an award; None lets it pass.\<close>

definition evaluate_quota :: "quota_input \<Rightarrow> string option" where
  "evaluate_quota q =
     (if qi_suspended q then Some (nullish (qi_suspendReason q) ''App XP awards suspended'')
      else if list_ex (\<lambda>v. v < 0) [qi_daily q, qi_weekly q, qi_monthly q, qi_deltaXp q] then Some ''Invalid quota accounting input''
      else first_exceeded (qi_deltaXp q)
             [(cap_daily (qi_caps q), qi_daily q, ''daily''), (cap_weekly (qi_caps q), qi_weekly q, ''weekly''),
              (cap_monthly (qi_caps q), qi_monthly q, ''monthly'')])"

lemma quota_allows:
  assumes "evaluate_quota q = None"
  shows "\<not> qi_suspended q" "0 \<le> qi_deltaXp q"
    "cap_daily (qi_caps q) = Some c \<Longrightarrow> qi_daily q + qi_deltaXp q \<le> c"
    "cap_weekly (qi_caps q) = Some c \<Longrightarrow> qi_weekly q + qi_deltaXp q \<le> c"
    "cap_monthly (qi_caps q) = Some c \<Longrightarrow> qi_monthly q + qi_deltaXp q \<le> c"
  using assms by (auto simp: evaluate_quota_def split: if_splits option.splits)

lemma standing_allows:
  assumes "canSubmitEvents (map_option standing_of app) (Some t) = None"
  obtains a where "app = Some a" "xa_isActive a" "xa_isVerified a" "xa_xpEnabled a" "t \<in> set (xa_approvedEventTypes a)"
  using assms by (cases app) (auto simp: canSubmitEvents_def standing_of_def split: if_splits)

section \<open>The pipeline (\<^verbatim>\<open>events.service.ts\<close>)\<close>

record authed_app =
  au_id :: string
  au_clientId :: string

record intake_input =
  in_pid :: string
  in_eventId :: string
  in_eventType :: string
  in_resourceId :: "string option"
  in_app :: authed_app

record intake_verdict =
  iv_status :: string
  iv_awarded :: int
  iv_level :: "int option"
  iv_reason :: "string option"
  iv_leveledUp :: "bool option"
  iv_signal :: "string option"

definition NOT_ELIGIBLE :: string where "NOT_ELIGIBLE = ''not_eligible''"

definition rejected :: "string \<Rightarrow> string option \<Rightarrow> intake_verdict" where
  "rejected reason signal =
     \<lparr>iv_status = ''rejected'', iv_awarded = 0, iv_level = None, iv_reason = Some reason, iv_leveledUp = None, iv_signal = signal\<rparr>"

definition duplicate_verdict :: "xp_state option \<Rightarrow> intake_verdict" where
  "duplicate_verdict s =
     \<lparr>iv_status = ''duplicate'', iv_awarded = 0, iv_level = Some (case s of None \<Rightarrow> 1 | Some u \<Rightarrow> us_level u),
      iv_reason = Some ''duplicate_event'', iv_leveledUp = None, iv_signal = None\<rparr>"

definition awarded_verdict :: "int \<Rightarrow> int \<Rightarrow> int \<Rightarrow> intake_verdict" where
  "awarded_verdict xp newLevel prevLevel =
     \<lparr>iv_status = ''awarded'', iv_awarded = xp, iv_level = Some newLevel, iv_reason = None,
      iv_leveledUp = Some (newLevel > prevLevel), iv_signal = None\<rparr>"

text \<open>A step of the pipeline raises, ends it with a verdict (\<open>Inr v\<close>) or goes on (\<open>Inl x\<close>).\<close>

type_synonym 'a stage = "('a + intake_verdict) result"

definition stop :: "intake_verdict \<Rightarrow> 'a stage" where "stop v = Inr (Inr v)"

definition go :: "'a \<Rightarrow> 'a stage" where "go x = Inr (Inl x)"

definition bind_stage :: "'a stage \<Rightarrow> ('a \<Rightarrow> 'b stage) \<Rightarrow> 'b stage" where
  "bind_stage m f = bind_result m (\<lambda>r. case r of Inl x \<Rightarrow> f x | Inr v \<Rightarrow> stop v)"

lemma stage_simps [simp]:
  "bind_stage (go x) f = f x" "bind_stage (stop v) f = stop v" "go x = go y \<longleftrightarrow> x = y" "go x \<noteq> stop v" "stop v \<noteq> go x"
  "stop v = stop w \<longleftrightarrow> v = w" "bind_stage (Inl e) f = Inl e" "go x \<noteq> Inl e" "stop v \<noteq> Inl e" "Inl e \<noteq> go x" "Inl e \<noteq> stop v"
  by (simp_all add: bind_stage_def go_def stop_def)

lemma bind_stage_go: "bind_stage m f = go y \<longleftrightarrow> (\<exists>x. m = go x \<and> f x = go y)"
  by (cases m) (auto simp: bind_stage_def go_def stop_def split: sum.splits)

text \<open>Steps 2 and 3, and their repetition after the locks: a missing or inactive app raises.\<close>

definition find_app :: "xp_db \<Rightarrow> string \<Rightarrow> xp_app option" where
  "find_app db app = find (\<lambda>a. xa_id a = app) (xd_apps db)"

definition standing_gate :: "xp_app option \<Rightarrow> string \<Rightarrow> xp_app stage" where
  "standing_gate fresh eventType =
     (case canSubmitEvents (map_option standing_of fresh) (Some eventType) of
        Some _ \<Rightarrow>
          (case fresh of
             None \<Rightarrow> Inl (Forbidden ''App is not permitted to submit events'')
           | Some a \<Rightarrow> if \<not> xa_isActive a then Inl (Forbidden ''App is not permitted to submit events'')
                       else stop (rejected ''app_not_permitted'' (Some ''xp.intake.permission_denied'')))
      | None \<Rightarrow> (case fresh of Some a \<Rightarrow> go a | None \<Rightarrow> Inl (Forbidden ''App is not permitted to submit events'')))"

definition resolve_task :: "xp_db \<Rightarrow> string \<Rightarrow> string \<Rightarrow> xp_task option" where
  "resolve_task db eventType app =
     (let candidates = filter (\<lambda>t. tk_key t = eventType \<and> tk_status t = ''active'') (xd_tasks db)
      in case filter (\<lambda>t. tk_scopeAppId t = Some app) candidates @ filter (\<lambda>t. tk_scopeAppId t = None) candidates of
           [] \<Rightarrow> None | t # _ \<Rightarrow> Some t)"

definition out_of_window :: "int \<Rightarrow> xp_task \<Rightarrow> bool" where
  "out_of_window now t \<longleftrightarrow>
     (case tk_availableFrom t of None \<Rightarrow> False | Some f \<Rightarrow> now < f) \<or> (case tk_availableUntil t of None \<Rightarrow> False | Some u \<Rightarrow> now > u)"

definition task_gate :: "int \<Rightarrow> xp_task option \<Rightarrow> xp_task stage" where
  "task_gate now task =
     (case task of
        None \<Rightarrow> stop (rejected ''no_active_task'' None)
      | Some t \<Rightarrow>
          if out_of_window now t then stop (rejected ''task_not_available'' None)
          else if validateChecker (tk_verificationType t) (tk_verificationChecker t) \<noteq> None
            then stop (rejected ''task_not_verifiable'' (Some ''xp.intake.checker_drift''))
          else go t)"

definition evidence_gate :: "string \<Rightarrow> xp_task \<Rightarrow> xp_db \<Rightarrow> unit stage" where
  "evidence_gate pid t db =
     (case verify_evidence (nullish (tk_verificationChecker t) []) pid db of
        Some _ \<Rightarrow> stop (rejected NOT_ELIGIBLE (Some ''xp.intake.unverifiable''))
      | None \<Rightarrow> go ())"

text \<open>Steps 2 to 5, before any lock: the owner of the app and the task.\<close>

definition pre_lock :: "int \<Rightarrow> intake_input \<Rightarrow> xp_db \<Rightarrow> (string \<times> xp_task) stage" where
  "pre_lock now i seen =
     bind_stage (standing_gate (find_app seen (au_id (in_app i))) (in_eventType i)) (\<lambda>fresh.
     bind_stage (if live_identity seen (in_pid i) then go () else stop (rejected NOT_ELIGIBLE (Some ''xp.intake.unknown_subject''))) (\<lambda>_.
     bind_stage (task_gate now (resolve_task seen (in_eventType i) (au_id (in_app i)))) (\<lambda>task.
     bind_stage (evidence_gate (in_pid i) task seen) (\<lambda>_. go (xa_ownerPid fresh, task)))))"

definition task_completions :: "xp_db \<Rightarrow> string \<Rightarrow> string \<Rightarrow> xp_completion list" where
  "task_completions db task pid = filter (\<lambda>c. tc_taskId c = task \<and> tc_pid c = pid) (xd_completions db)"

text \<open>The creation time of the latest completion.\<close>

definition latest_completion :: "xp_db \<Rightarrow> string \<Rightarrow> string \<Rightarrow> int option" where
  "latest_completion db task pid =
     (case map tc_createdAt (task_completions db task pid) of [] \<Rightarrow> None | t # ts \<Rightarrow> Some (fold max ts t))"

definition cooling_down :: "int \<Rightarrow> xp_task \<Rightarrow> int option \<Rightarrow> bool" where
  "cooling_down now t latest =
     (case (latest, tk_cooldownSecs t) of (Some l, Some c) \<Rightarrow> c > 0 \<and> now - l < 1000 * c | _ \<Rightarrow> False)"

definition count_since :: "xp_db \<Rightarrow> string \<Rightarrow> string \<Rightarrow> int \<Rightarrow> int" where
  "count_since db task pid since = int (length (filter (\<lambda>c. tc_createdAt c \<ge> since) (task_completions db task pid)))"

definition at_limit :: "int option \<Rightarrow> int \<Rightarrow> bool" where
  "at_limit limit n = (case limit of None \<Rightarrow> False | Some l \<Rightarrow> n \<ge> l)"

definition task_limit_hit :: "int \<Rightarrow> xp_task \<Rightarrow> string \<Rightarrow> xp_db \<Rightarrow> bool" where
  "task_limit_hit now t pid db \<longleftrightarrow>
     (let w = windowStarts now;
          lifetime = int (length (task_completions db (tk_id t) pid));
          daily = (if tk_dailyLimit t \<noteq> None \<or> tk_weeklyLimit t \<noteq> None \<or> tk_monthlyLimit t \<noteq> None
                   then count_since db (tk_id t) pid (wn_day w) else 0);
          weekly = (if tk_weeklyLimit t \<noteq> None then count_since db (tk_id t) pid (wn_week w) else 0);
          monthly = (if tk_monthlyLimit t \<noteq> None then count_since db (tk_id t) pid (wn_month w) else 0)
      in tk_recurring t = ''once'' \<and> lifetime \<ge> 1 \<or> at_limit (tk_lifetimeLimit t) lifetime \<or> at_limit (tk_dailyLimit t) daily
         \<or> at_limit (tk_weeklyLimit t) weekly \<or> at_limit (tk_monthlyLimit t) monthly)"

definition xp_since :: "xp_db \<Rightarrow> (string option \<Rightarrow> bool) \<Rightarrow> int \<Rightarrow> int" where
  "xp_since db apps since = sum_list (map le_deltaXp (filter (\<lambda>e. apps (le_appId e) \<and> le_createdAt e \<ge> since) (xd_entries db)))"

definition owner_apps :: "xp_db \<Rightarrow> string \<Rightarrow> string list" where
  "owner_apps db owner = map xa_id (filter (\<lambda>a. xa_ownerPid a = owner) (xd_apps db))"

definition of_app :: "string \<Rightarrow> string option \<Rightarrow> bool" where
  "of_app app a = (a = Some app)"

definition of_owner :: "xp_db \<Rightarrow> string \<Rightarrow> string option \<Rightarrow> bool" where
  "of_owner db owner a = (case a of None \<Rightarrow> False | Some x \<Rightarrow> List.member (owner_apps db owner) x)"

definition no_caps :: xp_caps where
  "no_caps = \<lparr>cap_daily = None, cap_weekly = None, cap_monthly = None\<rparr>"

definition window_input :: "int \<Rightarrow> int \<Rightarrow> xp_caps \<Rightarrow> bool \<Rightarrow> string option \<Rightarrow> (string option \<Rightarrow> bool) \<Rightarrow> xp_db \<Rightarrow> quota_input" where
  "window_input now reward caps susp susp_reason apps db =
     (let w = windowStarts now
      in \<lparr>qi_daily = toSafeNumber (xp_since db apps (wn_day w)), qi_weekly = toSafeNumber (xp_since db apps (wn_week w)),
          qi_monthly = toSafeNumber (xp_since db apps (wn_month w)), qi_deltaXp = reward, qi_caps = caps,
          qi_suspended = susp, qi_suspendReason = susp_reason\<rparr>)"

definition find_quota :: "xp_db \<Rightarrow> string \<Rightarrow> xp_quota option" where
  "find_quota db app = find (\<lambda>q. qa_appId q = app) (xd_quotas db)"

definition find_org_quota :: "xp_db \<Rightarrow> string \<Rightarrow> xp_org_quota option" where
  "find_org_quota db owner = find (\<lambda>q. qo_ownerPid q = owner) (xd_orgQuotas db)"

definition app_quota_input :: "int \<Rightarrow> int \<Rightarrow> string \<Rightarrow> xp_db \<Rightarrow> quota_input" where
  "app_quota_input now reward app db =
     (let q = find_quota db app
      in window_input now reward (case q of None \<Rightarrow> no_caps | Some x \<Rightarrow> xp_caps.truncate x)
           (case q of None \<Rightarrow> False | Some x \<Rightarrow> qa_suspended x) (case q of None \<Rightarrow> None | Some x \<Rightarrow> qa_suspendReason x) (of_app app) db)"

definition org_quota_input :: "int \<Rightarrow> int \<Rightarrow> string \<Rightarrow> xp_db \<Rightarrow> quota_input" where
  "org_quota_input now reward owner db =
     window_input now reward (case find_org_quota db owner of None \<Rightarrow> no_caps | Some x \<Rightarrow> xp_caps.truncate x)
       False None (of_owner db owner) db"

text \<open>Step 7b: the quotas of the app and of its owner.\<close>

definition quota_gate :: "int \<Rightarrow> string \<Rightarrow> string \<Rightarrow> xp_task \<Rightarrow> xp_db \<Rightarrow> unit stage" where
  "quota_gate now app owner t db =
     (if evaluate_quota (app_quota_input now (tk_xpReward t) app db) \<noteq> None
      then stop (rejected (if qi_suspended (app_quota_input now (tk_xpReward t) app db) then ''suspended'' else ''quota_exceeded'')
                   (Some ''xp.intake.quota_exceeded''))
      else if evaluate_quota (org_quota_input now (tk_xpReward t) owner db) \<noteq> None
      then stop (rejected ''quota_exceeded'' (Some ''xp.intake.quota_exceeded''))
      else go ())"

text \<open>The post-lock repetition of the task checks.\<close>

definition retask_gate :: "int \<Rightarrow> xp_task \<Rightarrow> xp_db \<Rightarrow> unit stage" where
  "retask_gate now t db =
     (case find (\<lambda>k. tk_id k = tk_id t) (xd_tasks db) of
        Some r \<Rightarrow>
          if tk_status r = ''active'' \<and> \<not> out_of_window now r
             \<and> validateChecker (tk_verificationType r) (tk_verificationChecker r) = None \<and> tk_scopeAppId r = tk_scopeAppId t
          then go () else stop (rejected ''no_active_task'' (Some ''xp.intake.checker_drift''))
      | None \<Rightarrow> stop (rejected ''no_active_task'' (Some ''xp.intake.checker_drift'')))"

text \<open>Steps 6 and 7 under the locks, then the repeated checks.\<close>

definition locked_gates :: "int \<Rightarrow> intake_input \<Rightarrow> string \<Rightarrow> xp_task \<Rightarrow> xp_state option \<Rightarrow> xp_db \<Rightarrow> unit stage" where
  "locked_gates now i owner t state db =
     bind_stage (if find_completion db (au_id (in_app i)) (in_eventId i) \<noteq> None
                 then stop (duplicate_verdict (case state of Some s \<Rightarrow> Some s | None \<Rightarrow> find_state db (in_pid i))) else go ()) (\<lambda>_.
     bind_stage (if cooling_down now t (latest_completion db (tk_id t) (in_pid i)) then stop (rejected ''cooldown'' None) else go ()) (\<lambda>_.
     bind_stage (if task_limit_hit now t (in_pid i) db then stop (rejected ''task_limit'' None) else go ()) (\<lambda>_.
     bind_stage (quota_gate now (au_id (in_app i)) owner t db) (\<lambda>_.
     bind_stage (standing_gate (find_app db (au_id (in_app i))) (in_eventType i)) (\<lambda>_.
     retask_gate now t db)))))"

definition intake_award :: "xp_env \<Rightarrow> int \<Rightarrow> intake_input \<Rightarrow> xp_task \<Rightarrow> award_input" where
  "intake_award env now i t =
     \<lparr>aw_pid = in_pid i, aw_deltaXp = tk_xpReward t, aw_kind = ''task_award'', aw_taskId = Some (tk_id t),
      aw_eventId = Some (in_eventId i), aw_appId = Some (au_id (in_app i)), aw_reason = None, aw_actorAdminId = None,
      aw_periodKey = Some (xv_day env now), aw_resourceId = in_resourceId i\<rparr>"

definition locked_state :: "string \<Rightarrow> xp_db \<Rightarrow> xp_db \<Rightarrow> xp_state option result" where
  "locked_state pid seen db =
     (case find_state seen pid of None \<Rightarrow> Inr None | Some _ \<Rightarrow> bind_result (find_or_throw db pid) (\<lambda>s. Inr (Some s)))"

definition runPipeline :: "xp_env \<Rightarrow> int \<Rightarrow> intake_input \<Rightarrow> xp_db \<Rightarrow> xp_db \<Rightarrow> (intake_verdict \<times> xp_db) result" where
  "runPipeline env now i seen db =
     bind_result (pre_lock now i seen) (\<lambda>p. case p of Inr v \<Rightarrow> Inr (v, db) | Inl (owner, task) \<Rightarrow>
     bind_result (locked_state (in_pid i) seen db) (\<lambda>state.
     bind_result (locked_gates now i owner task state db) (\<lambda>g. case g of Inr v \<Rightarrow> Inr (v, db) | Inl _ \<Rightarrow>
     bind_result (getActivePolicy db) (\<lambda>active.
     bind_result (appendTaskAward env now (intake_award env now i task) (in_pid i) state (tk_xpReward task) active db)
       (\<lambda>((newTotal, newLevel, prevLevel), db').
       Inr (awarded_verdict (tk_xpReward task) newLevel prevLevel, xp_log (in_pid i) ''xp.awarded'' db'))))))"

text \<open>A lost race: the event of the winner is a duplicate, a lost genesis is tried once more, on \<open>db\<close>.\<close>

definition runPipelineSafe :: "xp_env \<Rightarrow> int \<Rightarrow> intake_input \<Rightarrow> xp_db \<Rightarrow> xp_db \<Rightarrow> intake_verdict result \<times> xp_db" where
  "runPipelineSafe env now i seen db =
     (case runPipeline env now i seen db of
        Inr (v, db') \<Rightarrow> (Inr v, db')
      | Inl UniqueViolation \<Rightarrow>
          if find_completion db (au_id (in_app i)) (in_eventId i) \<noteq> None
          then (Inr (duplicate_verdict (find_state db (in_pid i))), db)
          else (case runPipeline env now i db db of
             Inr (v, db') \<Rightarrow> (Inr v, db')
           | Inl UniqueViolation \<Rightarrow>
               if find_completion db (au_id (in_app i)) (in_eventId i) \<noteq> None
               then (Inr (duplicate_verdict (find_state db (in_pid i))), db)
               else (Inl UniqueViolation, db)
           | Inl e \<Rightarrow> (Inl e, db))
      | Inl e \<Rightarrow> (Inl e, db))"

text \<open>The suspicious feed: the write fails when \<open>up\<close> is false, and the failure is swallowed.\<close>

definition feed :: "xp_env \<Rightarrow> bool \<Rightarrow> string option \<Rightarrow> string option \<Rightarrow> string \<Rightarrow> xp_db \<Rightarrow> xp_db" where
  "feed env up pid app signal db = (if up then add_suspicious env pid app signal db else db)"

record event_dto =
  ev_userId :: string
  ev_eventId :: string
  ev_eventType :: string
  ev_resourceId :: "string option"

definition submitEvent ::
  "xp_env \<Rightarrow> int \<Rightarrow> bool \<Rightarrow> effective_intake \<Rightarrow> event_dto \<Rightarrow> authed_app option \<Rightarrow> xp_db \<Rightarrow> xp_db \<Rightarrow> intake_verdict result \<times> xp_db" where
  "submitEvent env now up gate dto authed seen db =
     (case authed of
        None \<Rightarrow> (Inl (Forbidden ''App is not permitted to submit events''), db)
      | Some app \<Rightarrow>
          if \<not> ei_allowed gate
          then (Inl (ServiceUnavailable ''XP intake is disabled''), feed env up None (Some (au_id app)) ''xp.intake.disabled_reject'' db)
          else if \<not> event_type_format (ev_eventType dto) then (Inl (BadRequest ''event_type must match ^[a-z][a-z0-9_]{2,63}$''), db)
          else let pid = to_lower (trim (ev_userId dto)); eventId = trim (ev_eventId dto)
            in if \<not> isPid pid then (Inl (BadRequest ''user_id must be a valid PID''), db)
               else if length eventId = 0 \<or> length eventId > 128 then (Inl (BadRequest ''event_id must be 1-128 chars''), db)
               else (case runPipelineSafe env now \<lparr>in_pid = pid, in_eventId = eventId, in_eventType = ev_eventType dto,
                             in_resourceId = ev_resourceId dto, in_app = app\<rparr> seen db of
                 (Inr v, db') \<Rightarrow>
                   (Inr v, (case iv_signal v of None \<Rightarrow> db' | Some s \<Rightarrow> if s = [] then db' else feed env up (Some pid) (Some (au_id app)) s db'))
               | (Inl e, db') \<Rightarrow> (Inl e, db')))"

section \<open>What an award satisfies\<close>

text \<open>A verdict that awards nothing leaves the database alone; an award wrote through the shared writer, on a state row
  that was locked or created.\<close>

lemma verdict_status [simp]:
  "iv_status (rejected r s) = ''rejected''" "iv_status (duplicate_verdict st) = ''duplicate''"
  "iv_status (awarded_verdict x n p) = ''awarded''" "iv_awarded (awarded_verdict x n p) = x"
  by (simp_all add: rejected_def duplicate_verdict_def awarded_verdict_def)

lemma gate_stops:
  "standing_gate a t = stop v \<Longrightarrow> iv_status v = ''rejected''" "task_gate now k = stop v \<Longrightarrow> iv_status v = ''rejected''"
  "evidence_gate pid task db = stop v \<Longrightarrow> iv_status v = ''rejected''" "quota_gate now app ow task db = stop v \<Longrightarrow> iv_status v = ''rejected''"
  "retask_gate now task db = stop v \<Longrightarrow> iv_status v = ''rejected''"
  by (auto simp: standing_gate_def task_gate_def evidence_gate_def quota_gate_def retask_gate_def split: option.splits if_splits)

lemma bind_stage_stop: "bind_stage m f = stop v \<longleftrightarrow> m = stop v \<or> (\<exists>x. m = go x \<and> f x = stop v)"
  by (cases m) (auto simp: bind_stage_def go_def stop_def split: sum.splits)

lemma if_stop [simp]: "(if P then go () else stop v) = stop w \<longleftrightarrow> \<not> P \<and> w = v" "(if P then stop v else go ()) = stop w \<longleftrightarrow> P \<and> w = v"
  "(if P then go () else stop v) = go u \<longleftrightarrow> P" "(if P then stop v else go ()) = go u \<longleftrightarrow> \<not> P"
  by auto

lemma pre_lock_stops: "pre_lock now i seen = stop v \<Longrightarrow> iv_status v = ''rejected''"
  unfolding pre_lock_def by (auto simp: bind_stage_stop dest: gate_stops)

lemma locked_stops: "locked_gates now i ow t st db = stop v \<Longrightarrow> iv_status v \<in> {''rejected'', ''duplicate''}"
  unfolding locked_gates_def by (auto simp: bind_stage_stop dest: gate_stops)

lemma append_genesis:
  "appendTaskAward env now i pid None delta active db =
     bind_result (create_state (genesis pid active) db) (appendTaskAward env now i pid (Some (genesis pid active)) delta active)"
  by (cases "create_state (genesis pid active) db") (simp_all add: appendTaskAward_def)

definition awarded_by :: "xp_env \<Rightarrow> int \<Rightarrow> intake_input \<Rightarrow> xp_db \<Rightarrow> xp_db \<Rightarrow> string \<Rightarrow> xp_task \<Rightarrow> xp_state \<Rightarrow> xp_db \<Rightarrow> int \<Rightarrow> int \<Rightarrow> xp_db \<Rightarrow> bool" where
  "awarded_by env now i seen db owner t s db1 l pl db2 \<longleftrightarrow>
     pre_lock now i seen = go (owner, t) \<and> (\<exists>st. locked_gates now i owner t st db = go ())
     \<and> keeps db db1 \<and> find_state db1 (in_pid i) = Some s \<and> us_totalXp s = state_total db (in_pid i)
     \<and> (\<exists>ss. db1 = db\<lparr>xd_states := ss\<rparr>)
     \<and> (\<exists>active. getActivePolicy db = Inr active
          \<and> appendTaskAward env now (intake_award env now i t) (in_pid i) (Some s) (tk_xpReward t) active db1
            = Inr ((us_totalXp s + tk_xpReward t, l, pl), db2))"

lemma runPipeline_cases:
  assumes "runPipeline env now i seen db = Inr (v, db')"
  obtains (none) "db' = db" "iv_status v \<noteq> ''awarded''"
  | (awarded) owner t s db1 l pl db2 where "awarded_by env now i seen db owner t s db1 l pl db2"
      "v = awarded_verdict (tk_xpReward t) l pl" "db' = xp_log (in_pid i) ''xp.awarded'' db2"
proof -
  consider (pre) w where "pre_lock now i seen = stop w" "v = w" "db' = db"
    | (locked) owner t st w where "locked_gates now i owner t st db = stop w" "v = w" "db' = db"
    | (award) owner t st active tot l pl db2 where "pre_lock now i seen = go (owner, t)" "locked_state (in_pid i) seen db = Inr st"
        "locked_gates now i owner t st db = go ()" "getActivePolicy db = Inr active"
        "appendTaskAward env now (intake_award env now i t) (in_pid i) st (tk_xpReward t) active db = Inr ((tot, l, pl), db2)"
        "v = awarded_verdict (tk_xpReward t) l pl" "db' = xp_log (in_pid i) ''xp.awarded'' db2"
  proof -
    from assms obtain p where p: "pre_lock now i seen = Inr p"
      and rest: "(case p of Inr v \<Rightarrow> Inr (v, db) | Inl (owner, task) \<Rightarrow>
       bind_result (locked_state (in_pid i) seen db) (\<lambda>state.
       bind_result (locked_gates now i owner task state db) (\<lambda>g. case g of Inr v \<Rightarrow> Inr (v, db) | Inl _ \<Rightarrow>
       bind_result (getActivePolicy db) (\<lambda>active.
       bind_result (appendTaskAward env now (intake_award env now i task) (in_pid i) state (tk_xpReward task) active db)
         (\<lambda>((newTotal, newLevel, prevLevel), db').
         Inr (awarded_verdict (tk_xpReward task) newLevel prevLevel, xp_log (in_pid i) ''xp.awarded'' db')))))) = Inr (v, db')"
      unfolding runPipeline_def bind_result_Inr by blast
    show ?thesis
    proof (cases p)
      case (Inr w)
      with p rest show ?thesis by (intro pre [of w]) (auto simp: stop_def)
    next
      case (Inl ot)
      obtain owner t where ot: "ot = (owner, t)" by (cases ot)
      from rest Inl ot obtain st g where st: "locked_state (in_pid i) seen db = Inr st" and g: "locked_gates now i owner t st db = Inr g"
        and rest': "(case g of Inr v \<Rightarrow> Inr (v, db) | Inl _ \<Rightarrow>
          bind_result (getActivePolicy db) (\<lambda>active.
          bind_result (appendTaskAward env now (intake_award env now i t) (in_pid i) st (tk_xpReward t) active db)
           (\<lambda>((newTotal, newLevel, prevLevel), db').
           Inr (awarded_verdict (tk_xpReward t) newLevel prevLevel, xp_log (in_pid i) ''xp.awarded'' db')))) = Inr (v, db')"
        by auto
      show ?thesis
      proof (cases g)
        case (Inr w)
        with g rest' show ?thesis by (intro locked [of owner t st w]) (auto simp: stop_def)
      next
        case (Inl u)
        with g rest' st p \<open>p = Inl ot\<close> ot show ?thesis by (auto simp: go_def intro: award)
      qed
    qed
  qed
  then show ?thesis
  proof cases
    case pre
    with pre_lock_stops [of now i seen v] show ?thesis by (intro none) auto
  next
    case locked
    with locked_stops show ?thesis by (intro none) fastforce+
  next
    case award
    have tot: "tot = us_totalXp s + tk_xpReward t" if "appendTaskAward env now (intake_award env now i t) (in_pid i) (Some s) (tk_xpReward t) active d = Inr ((tot, l, pl), db2)" for s d
      using that by (auto simp: appendTaskAward_def Let_def)
    show ?thesis
    proof (cases st)
      case (Some s)
      with award(2) have f: "find_state db (in_pid i) = Some s" by (auto simp: locked_state_def find_or_throw_def split: option.splits)
      have self: "\<exists>ss. db = db\<lparr>xd_states := ss\<rparr>" by (rule exI [of _ "xd_states db"]) simp
      show ?thesis
        by (rule awarded [of owner t s db l pl db2], unfold awarded_by_def)
          (use award Some tot f self in \<open>auto simp: state_total_def\<close>)
    next
      case None
      let ?g = "genesis (in_pid i) active"
      from award(5) None obtain db1 where c: "create_state ?g db = Inr db1"
        and ap: "appendTaskAward env now (intake_award env now i t) (in_pid i) (Some ?g) (tk_xpReward t) active db1 = Inr ((tot, l, pl), db2)"
        by (auto simp: append_genesis)
      then have new: "find_state db (in_pid i) = None" "db1 = db\<lparr>xd_states := xd_states db @ [?g]\<rparr>"
        by (auto simp: create_state_def genesis_def split: if_splits)
      have g: "us_pid ?g = in_pid i" "us_totalXp ?g = 0" by (simp_all add: genesis_def)
      show ?thesis
        by (rule awarded [of owner t ?g db1 l pl db2], unfold awarded_by_def)
          (use award None tot [OF ap] ap new g create_state_keeps [OF c g(2)] in \<open>auto simp: state_total_def\<close>)
    qed
  qed
qed

lemma awarded_writes:
  assumes aw: "awarded_by env now i seen db owner t s db1 l pl db2" and "in_eventId i \<noteq> []" "tk_id t \<noteq> []"
  obtains e c where "xd_entries db2 = xd_entries db @ [e]" "xd_completions db2 = xd_completions db @ [c]" "xd_apps db2 = xd_apps db"
    "le_appId e = Some (au_id (in_app i))" "le_deltaXp e = tk_xpReward t" "le_createdAt e = now"
    "tc_taskId c = tk_id t" "tc_pid c = in_pid i" "tc_createdAt c = now"
    "find_state db2 (in_pid i) \<noteq> None" "state_total db2 (in_pid i) = state_total db (in_pid i) + tk_xpReward t"
proof -
  let ?pid = "in_pid i" and ?i = "intake_award env now i t"
  have ev: "event_ok ?i" using assms(2,3) by (simp add: event_ok_def intake_award_def)
  from aw obtain active ss where db1: "db1 = db\<lparr>xd_states := ss\<rparr>" and f: "find_state db1 ?pid = Some s" and tot: "us_totalXp s = state_total db ?pid"
    and ap: "appendTaskAward env now ?i ?pid (Some s) (tk_xpReward t) active db1 = Inr ((us_totalXp s + tk_xpReward t, l, pl), db2)"
    unfolding awarded_by_def by blast
  obtain e cs where e: "e = award_row ?i ?pid (tk_xpReward t) (us_totalXp s + tk_xpReward t) l (pv_id (ap_policy active)) now (xv_uuid env (xd_next db1))"
    and cs: "cs = [] \<and> le_eventId e = None \<or> (\<exists>c. cs = [c] \<and> le_eventId e \<noteq> None \<and> completion_key c = event_key e
       \<and> event_key e \<notin> completion_key ` set (xd_completions db1) \<and> tc_pid c = ?pid \<and> tc_createdAt c = now \<and> aw_taskId ?i = Some (tc_taskId c))"
    and db2: "db2 = set_state ?pid (\<lambda>u. u\<lparr>us_totalXp := us_totalXp s + tk_xpReward t, us_level := l, us_policyVersionId := pv_id (ap_policy active)\<rparr>)
       (db1\<lparr>xd_entries := xd_entries db1 @ [e], xd_next := Suc (xd_next db1), xd_completions := xd_completions db1 @ cs\<rparr>)"
    by (rule append_award_effect [OF ap ev])
  have "le_eventId e \<noteq> None" by (simp add: e award_row_def intake_award_def)
  with cs obtain c where c: "cs = [c]" "tc_pid c = ?pid" "tc_createdAt c = now" "aw_taskId ?i = Some (tc_taskId c)" by blast
  have st: "find_state db2 ?pid = Some (s\<lparr>us_totalXp := us_totalXp s + tk_xpReward t, us_level := l, us_policyVersionId := pv_id (ap_policy active)\<rparr>)"
    using f find_map_upd [of "\<lambda>u. u\<lparr>us_totalXp := us_totalXp s + tk_xpReward t, us_level := l, us_policyVersionId := pv_id (ap_policy active)\<rparr>" ?pid ?pid "xd_states db1"]
    by (simp add: db2 set_state_def find_state_def)
  show ?thesis
    by (rule that [of e c]) (use c st tot in \<open>simp_all add: db2 set_state_def db1 e award_row_def intake_award_def state_total_def\<close>)
qed

text \<open>The bounds an award must leave in place, and the range of the cap columns.\<close>

definition bounded_by :: "int option \<Rightarrow> int \<Rightarrow> bool" where
  "bounded_by cap n = (case cap of None \<Rightarrow> True | Some c \<Rightarrow> n \<le> c)"

definition within_caps :: "int \<Rightarrow> 'a xp_caps_scheme \<Rightarrow> (string option \<Rightarrow> bool) \<Rightarrow> xp_db \<Rightarrow> bool" where
  "within_caps now caps apps db \<longleftrightarrow>
     bounded_by (cap_daily caps) (xp_since db apps (wn_day (windowStarts now)))
     \<and> bounded_by (cap_weekly caps) (xp_since db apps (wn_week (windowStarts now)))
     \<and> bounded_by (cap_monthly caps) (xp_since db apps (wn_month (windowStarts now)))"

definition within_limits :: "int \<Rightarrow> xp_task \<Rightarrow> string \<Rightarrow> xp_db \<Rightarrow> bool" where
  "within_limits now t pid db \<longleftrightarrow>
     (tk_recurring t = ''once'' \<longrightarrow> length (task_completions db (tk_id t) pid) \<le> 1)
     \<and> bounded_by (tk_lifetimeLimit t) (int (length (task_completions db (tk_id t) pid)))
     \<and> bounded_by (tk_dailyLimit t) (count_since db (tk_id t) pid (wn_day (windowStarts now)))
     \<and> bounded_by (tk_weeklyLimit t) (count_since db (tk_id t) pid (wn_week (windowStarts now)))
     \<and> bounded_by (tk_monthlyLimit t) (count_since db (tk_id t) pid (wn_month (windowStarts now)))"

definition cooled :: "int \<Rightarrow> xp_task \<Rightarrow> string \<Rightarrow> xp_db \<Rightarrow> bool" where
  "cooled now t pid db \<longleftrightarrow>
     (\<forall>c \<in> set (task_completions db (tk_id t) pid). case tk_cooldownSecs t of None \<Rightarrow> True | Some s \<Rightarrow> s \<le> 0 \<or> tc_createdAt c + 1000 * s \<le> now)"

definition int_column :: "int option \<Rightarrow> bool" where
  "int_column c = (case c of None \<Rightarrow> True | Some x \<Rightarrow> x \<le> 2147483647)"

definition caps_in_column :: "'a xp_caps_scheme \<Rightarrow> bool" where
  "caps_in_column q \<longleftrightarrow> int_column (cap_daily q) \<and> int_column (cap_weekly q) \<and> int_column (cap_monthly q)"

lemma safe_sum: "toSafeNumber x + r \<le> c \<Longrightarrow> 0 \<le> r \<Longrightarrow> c \<le> 2147483647 \<Longrightarrow> x + r \<le> c"
  by (simp add: toSafeNumber_def split: if_splits)

lemma xp_since_snoc:
  "xd_entries db' = xd_entries db @ [e] \<Longrightarrow> 0 \<le> le_deltaXp e \<Longrightarrow> xp_since db' apps w \<le> xp_since db apps w + le_deltaXp e"
  by (simp add: xp_since_def)

lemma quota_respected:
  assumes "evaluate_quota (window_input now reward caps susp sr apps db) = None" "caps_in_column caps"
    and "xd_entries db' = xd_entries db @ [e]" "le_deltaXp e = reward"
  shows "within_caps now caps apps db' \<and> \<not> susp"
proof -
  note q = quota_allows [OF assms(1), unfolded window_input_def Let_def, simplified]
  have r: "0 \<le> reward" by (rule q(2))
  have "x \<le> c" if "toSafeNumber y + reward \<le> c" "x \<le> y + reward" "c \<le> 2147483647" for x y c
    using safe_sum [OF that(1) r that(3)] that(2) by simp
  moreover have "xp_since db' apps w \<le> xp_since db apps w + reward" for w
    using xp_since_snoc [OF assms(3)] r assms(4) by simp
  ultimately show ?thesis
    using q assms(2) by (auto simp: within_caps_def bounded_by_def caps_in_column_def int_column_def split: option.splits)
qed

lemma limits_respected:
  assumes "\<not> task_limit_hit now t pid db" "xd_completions db' = xd_completions db @ [c]"
  shows "within_limits now t pid db'"
proof -
  have tc: "task_completions db' (tk_id t) pid = task_completions db (tk_id t) pid @ (if tc_taskId c = tk_id t \<and> tc_pid c = pid then [c] else [])"
    using assms(2) by (simp add: task_completions_def)
  then have n: "count_since db' (tk_id t) pid w \<le> count_since db (tk_id t) pid w + 1" for w
    by (simp add: count_since_def)
  have len: "length (task_completions db' (tk_id t) pid) \<le> length (task_completions db (tk_id t) pid) + 1" by (simp add: tc)
  have b: "bounded_by l m" if "\<not> at_limit l k" "l \<noteq> None \<Longrightarrow> m \<le> k + 1" for l m k
    using that by (auto simp: at_limit_def bounded_by_def split: option.splits)
  note h = assms(1) [unfolded task_limit_hit_def Let_def de_Morgan_disj]
  have "bounded_by (tk_lifetimeLimit t) (int (length (task_completions db' (tk_id t) pid)))"
    using h len by (intro b [of _ "int (length (task_completions db (tk_id t) pid))"]) auto
  moreover have "bounded_by (tk_dailyLimit t) (count_since db' (tk_id t) pid (wn_day (windowStarts now)))"
    by (rule b [OF h [THEN conjunct2, THEN conjunct2, THEN conjunct1]]) (use n in simp)
  moreover have "bounded_by (tk_weeklyLimit t) (count_since db' (tk_id t) pid (wn_week (windowStarts now)))"
    by (rule b [OF h [THEN conjunct2, THEN conjunct2, THEN conjunct2, THEN conjunct1]]) (use n in simp)
  moreover have "bounded_by (tk_monthlyLimit t) (count_since db' (tk_id t) pid (wn_month (windowStarts now)))"
    by (rule b [OF h [THEN conjunct2, THEN conjunct2, THEN conjunct2, THEN conjunct2]]) (use n in simp)
  ultimately show ?thesis
    using h [THEN conjunct1] len unfolding within_limits_def by auto
qed

lemma fold_max_ge: "x \<in> set (t # ts) \<Longrightarrow> x \<le> fold max ts t" for x :: int
proof (induction ts arbitrary: t x)
  case (Cons a ts)
  have "max a t \<le> fold max ts (max a t)" by (rule Cons.IH) simp
  then show ?case using Cons.prems Cons.IH [of x "max a t"] by auto
qed simp

lemma cooldown_respected:
  assumes "\<not> cooling_down now t (latest_completion db (tk_id t) pid)"
  shows "cooled now t pid db"
proof -
  have "\<exists>l. latest_completion db (tk_id t) pid = Some l \<and> tc_createdAt c \<le> l" if "c \<in> set (task_completions db (tk_id t) pid)" for c
    using that fold_max_ge by (auto simp: latest_completion_def split: list.splits)
  then show ?thesis
    using assms by (fastforce simp: cooled_def cooling_down_def split: option.splits)
qed

lemma locked_gates_go:
  assumes "locked_gates now i owner t st db = go ()"
  shows "find_completion db (au_id (in_app i)) (in_eventId i) = None" "\<not> cooling_down now t (latest_completion db (tk_id t) (in_pid i))"
    "\<not> task_limit_hit now t (in_pid i) db" "evaluate_quota (app_quota_input now (tk_xpReward t) (au_id (in_app i)) db) = None"
    "evaluate_quota (org_quota_input now (tk_xpReward t) owner db) = None"
    "canSubmitEvents (map_option standing_of (find_app db (au_id (in_app i)))) (Some (in_eventType i)) = None"
  using assms unfolding locked_gates_def
  by (auto simp: bind_stage_go quota_gate_def standing_gate_def split: if_splits option.splits)

text \<open>What an award of \<open>xp\<close> points means for the database \<open>db\<close> it was decided on and the database \<open>db'\<close> it left: the
  task and the app's owner come from \<open>src\<close>, everything else is checked on \<open>db\<close>.\<close>

definition award_ok :: "int \<Rightarrow> string \<Rightarrow> string \<Rightarrow> string \<Rightarrow> string \<Rightarrow> int \<Rightarrow> xp_db \<Rightarrow> xp_db \<Rightarrow> xp_db \<Rightarrow> bool" where
  "award_ok now pid app eventType eventId xp src db db' \<longleftrightarrow>
     (\<exists>t a a0. t \<in> set (xd_tasks src) \<and> tk_key t = eventType \<and> tk_status t = ''active'' \<and> xp = tk_xpReward t
       \<and> find_app db app = Some a \<and> xa_isActive a \<and> xa_isVerified a \<and> xa_xpEnabled a \<and> eventType \<in> set (xa_approvedEventTypes a)
       \<and> (\<forall>q. find_quota db app = Some q \<longrightarrow> \<not> qa_suspended q \<and> within_caps now q (of_app app) db')
       \<and> find_app src app = Some a0
       \<and> (\<forall>q. find_org_quota db (xa_ownerPid a0) = Some q \<longrightarrow> within_caps now q (of_owner db (xa_ownerPid a0)) db')
       \<and> cooled now t pid db \<and> within_limits now t pid db'
       \<and> live_identity src pid
       \<and> find_completion db app eventId = None
       \<and> state_total db' pid = state_total db pid + xp)"

definition columns_ok :: "xp_db \<Rightarrow> bool" where
  "columns_ok db \<longleftrightarrow> list_all caps_in_column (xd_quotas db) \<and> list_all caps_in_column (xd_orgQuotas db)"

definition task_ids_ok :: "xp_db \<Rightarrow> bool" where
  "task_ids_ok db = list_all (\<lambda>t. tk_id t \<noteq> [] \<and> 0 < tk_xpReward t) (xd_tasks db)"

lemma resolve_task_SomeD:
  "resolve_task db k app = Some t \<Longrightarrow> t \<in> set (xd_tasks db) \<and> tk_key t = k \<and> tk_status t = ''active''"
proof -
  assume *: "resolve_task db k app = Some t"
  let ?c = "filter (\<lambda>t. tk_key t = k \<and> tk_status t = ''active'') (xd_tasks db)"
  have hd_in: "(case xs of [] \<Rightarrow> None | x # _ \<Rightarrow> Some x) = Some t \<Longrightarrow> t \<in> set xs" for xs :: "xp_task list" by (cases xs) auto
  have "t \<in> set (filter (\<lambda>t. tk_scopeAppId t = Some app) ?c @ filter (\<lambda>t. tk_scopeAppId t = None) ?c)"
    using * unfolding resolve_task_def Let_def by (rule hd_in)
  then show ?thesis by auto
qed

lemma pre_lock_go:
  assumes "pre_lock now i seen = go (owner, t)"
  shows "t \<in> set (xd_tasks seen) \<and> tk_key t = in_eventType i \<and> tk_status t = ''active'' \<and> live_identity seen (in_pid i)
    \<and> (\<exists>a. find_app seen (au_id (in_app i)) = Some a \<and> owner = xa_ownerPid a)"
proof -
  from assms obtain fresh where "standing_gate (find_app seen (au_id (in_app i))) (in_eventType i) = go fresh" "owner = xa_ownerPid fresh"
    "live_identity seen (in_pid i)" and task: "task_gate now (resolve_task seen (in_eventType i) (au_id (in_app i))) = go t"
    unfolding pre_lock_def by (auto simp: bind_stage_go)
  moreover from task have "resolve_task seen (in_eventType i) (au_id (in_app i)) = Some t"
    by (auto simp: task_gate_def split: option.splits if_splits)
  ultimately show ?thesis
    using resolve_task_SomeD by (auto simp: standing_gate_def split: option.splits if_splits)
qed

lemma within_caps_truncate [simp]: "within_caps now (xp_caps.truncate q) apps db = within_caps now q apps db"
  "caps_in_column (xp_caps.truncate q) = caps_in_column q"
  by (simp_all add: within_caps_def caps_in_column_def xp_caps.truncate_def)

lemma awarded_ok:
  assumes aw: "awarded_by env now i seen db owner t s db1 l pl db2" and "in_eventId i \<noteq> []" "task_ids_ok seen" "columns_ok db"
  shows "award_ok now (in_pid i) (au_id (in_app i)) (in_eventType i) (in_eventId i) (tk_xpReward t) seen db (xp_log (in_pid i) x db2)"
proof -
  let ?app = "au_id (in_app i)" and ?pid = "in_pid i" and ?db' = "xp_log (in_pid i) x db2"
  from aw obtain st where pre: "pre_lock now i seen = go (owner, t)" and gates: "locked_gates now i owner t st db = go ()"
    unfolding awarded_by_def by blast
  note p = pre_lock_go [OF pre] and g = locked_gates_go [OF gates]
  have "tk_id t \<noteq> []" using p assms(3) by (auto simp: task_ids_ok_def list_all_iff)
  then obtain e c where w: "xd_entries db2 = xd_entries db @ [e]" "xd_completions db2 = xd_completions db @ [c]"
    "le_deltaXp e = tk_xpReward t" "state_total db2 ?pid = state_total db ?pid + tk_xpReward t"
    using awarded_writes [OF aw assms(2)] by metis
  then have w': "xd_entries ?db' = xd_entries db @ [e]" "xd_completions ?db' = xd_completions db @ [c]"
    "state_total ?db' ?pid = state_total db ?pid + tk_xpReward t" by (simp_all add: xp_log_def state_total_def find_state_def)
  have appq: "\<not> qa_suspended q \<and> within_caps now q (of_app ?app) ?db'" if q: "find_quota db ?app = Some q" for q
  proof -
    have "caps_in_column q" using q assms(4) by (auto simp: columns_ok_def find_quota_def list_all_iff dest: find_SomeD)
    then show ?thesis
      using quota_respected [OF _ _ w'(1) w(3), of now "xp_caps.truncate q" "qa_suspended q" "qa_suspendReason q" "of_app ?app"] g(4) q
      by (simp add: app_quota_input_def Let_def)
  qed
  have orgq: "within_caps now q (of_owner db owner) ?db'" if q: "find_org_quota db owner = Some q" for q
  proof -
    have "caps_in_column q" using q assms(4) by (auto simp: columns_ok_def find_org_quota_def list_all_iff dest: find_SomeD)
    then show ?thesis
      using quota_respected [OF _ _ w'(1) w(3), of now "xp_caps.truncate q" False None "of_owner db owner"] g(5) q
      by (simp add: org_quota_input_def)
  qed
  obtain a where a: "find_app db ?app = Some a" "xa_isActive a" "xa_isVerified a" "xa_xpEnabled a" "in_eventType i \<in> set (xa_approvedEventTypes a)"
    by (rule standing_allows [OF g(6)])
  from p obtain a0 where a0: "find_app seen ?app = Some a0" "owner = xa_ownerPid a0" by blast
  show ?thesis
    unfolding award_ok_def
    using p a a0 appq orgq g(1) cooldown_respected [OF g(2)] limits_respected [OF g(3) w'(2)] w'(3) by blast
qed

lemma pipeline_award_ok:
  assumes "runPipeline env now i seen db = Inr (v, db')" "iv_status v = ''awarded''"
    and "in_eventId i \<noteq> []" "task_ids_ok seen" "columns_ok db"
  shows "award_ok now (in_pid i) (au_id (in_app i)) (in_eventType i) (in_eventId i) (iv_awarded v) seen db db'"
  using assms(1)
proof (cases rule: runPipeline_cases)
  case none
  with assms(2) show ?thesis by simp
next
  case (awarded owner t s db1 l pl db2)
  with awarded_ok [OF awarded(1) assms(3-5)] show ?thesis by simp
qed

lemma safe_award_ok:
  assumes "runPipelineSafe env now i seen db = (Inr v, db')" "iv_status v = ''awarded''"
    and "in_eventId i \<noteq> []" "task_ids_ok seen" "task_ids_ok db" "columns_ok db"
  shows "\<exists>src \<in> {seen, db}. award_ok now (in_pid i) (au_id (in_app i)) (in_eventType i) (in_eventId i) (iv_awarded v) src db db'"
proof -
  have "runPipeline env now i seen db = Inr (v, db') \<or> runPipeline env now i db db = Inr (v, db')"
    using assms(1,2) unfolding runPipelineSafe_def by (auto split: sum.splits http_error.splits prod.splits if_splits)
  then show ?thesis using pipeline_award_ok assms by blast
qed

text \<open>The pipeline keeps the journal invariant.\<close>

lemma pipeline_keeps:
  assumes "runPipeline env now i seen db = Inr (v, db')" "xp_inv db" "in_eventId i \<noteq> []" "task_ids_ok seen"
  shows "keeps db db'"
  using assms(1)
proof (cases rule: runPipeline_cases)
  case (awarded owner t s db1 l pl db2)
  then obtain active where aw: "pre_lock now i seen = go (owner, t)" "keeps db db1" "find_state db1 (in_pid i) = Some s"
    and ap: "appendTaskAward env now (intake_award env now i t) (in_pid i) (Some s) (tk_xpReward t) active db1 = Inr ((us_totalXp s + tk_xpReward t, l, pl), db2)"
    unfolding awarded_by_def by blast
  have t: "tk_id t \<noteq> []" "0 < tk_xpReward t" using pre_lock_go [OF aw(1)] assms(4) by (auto simp: task_ids_ok_def list_all_iff)
  have "keeps db1 db2"
    by (rule append_award_keeps [OF ap aw(3)]) (use aw(2) assms(2,3) t in \<open>simp_all add: keeps_def event_ok_def intake_award_def\<close>)
  moreover have "keeps db2 db'" unfolding awarded(3) by (rule keeps_same) (simp add: same_journal_def xp_log_def)
  ultimately show ?thesis using aw(2) keeps_trans by blast
qed simp

lemma submitEvent_keeps:
  assumes "xp_inv db" "task_ids_ok seen" "task_ids_ok db"
  shows "keeps db (snd (submitEvent env now up gate dto authed seen db))"
proof -
  have feed: "keeps d (feed env up pid app sig d)" for pid app sig d
    by (rule keeps_same) (simp add: feed_def add_suspicious_def same_journal_def)
  have safe: "keeps db d" if "runPipelineSafe env now i seen db = (r, d)" "in_eventId i \<noteq> []" for i r d
    using that pipeline_keeps [OF _ assms(1) that(2)] assms(2,3)
    unfolding runPipelineSafe_def by (auto split: sum.splits http_error.splits prod.splits if_splits)
  show ?thesis
  proof (cases authed)
    case (Some app)
    define i where "i = \<lparr>in_pid = to_lower (trim (ev_userId dto)), in_eventId = trim (ev_eventId dto), in_eventType = ev_eventType dto,
                             in_resourceId = ev_resourceId dto, in_app = app\<rparr>"
    obtain r d where run: "runPipelineSafe env now i seen db = (r, d)" by (cases "runPipelineSafe env now i seen db")
    have "keeps db d" if "trim (ev_eventId dto) \<noteq> []" using safe [OF run] that by (simp add: i_def)
    then have "keeps db (feed env up p q s d)" if "trim (ev_eventId dto) \<noteq> []" for p q s using that feed keeps_trans by blast
    with Some run feed \<open>trim (ev_eventId dto) \<noteq> [] \<Longrightarrow> keeps db d\<close> show ?thesis
      unfolding submitEvent_def Let_def by (auto simp: i_def [symmetric] split: sum.splits option.splits)
  qed (simp add: submitEvent_def)
qed

text \<open>C2: every award of the event intake is within its limits. When \<^verbatim>\<open>submitEvent\<close> answers \<open>awarded\<close>, then on the database the award
  was committed to the app was active, verified, XP-enabled and approved for the event type, intake was not suspended, the
  event was new, the cooldown of the task had passed since every earlier completion; and after the award the XP credited in
  the running day, week and month is within every cap of the app and of its owner, and the completions of the task
  by the user are within its once, lifetime, daily, weekly and monthly limits. The total grew by exactly the reward of the task.\<close>

theorem intake_award_within_limits:
  assumes "submitEvent env now up gate dto (Some app) seen db = (Inr v, db')" "iv_status v = ''awarded''"
    and "task_ids_ok seen" "task_ids_ok db" "columns_ok db"
  shows "ei_allowed gate \<and> (\<exists>src \<in> {seen, db}. award_ok now (to_lower (trim (ev_userId dto))) (au_id app) (ev_eventType dto) (trim (ev_eventId dto))
      (iv_awarded v) src db db')"
proof -
  define i where "i = \<lparr>in_pid = to_lower (trim (ev_userId dto)), in_eventId = trim (ev_eventId dto), in_eventType = ev_eventType dto,
                             in_resourceId = ev_resourceId dto, in_app = app\<rparr>"
  obtain r d where run: "runPipelineSafe env now i seen db = (r, d)" by (cases "runPipelineSafe env now i seen db")
  have v: "ei_allowed gate" "in_eventId i \<noteq> []" "r = Inr v"
    "db' = (case iv_signal v of None \<Rightarrow> d | Some s \<Rightarrow> if s = [] then d else feed env up (Some (in_pid i)) (Some (au_id app)) s d)"
    using assms(1) run unfolding submitEvent_def Let_def i_def [symmetric] by (auto simp: i_def split: if_splits sum.splits option.splits)
  have sig: "iv_signal w = None" if "runPipeline env now i src db = Inr (w, x)" "iv_status w = ''awarded''" for w src x
    using that(1) by (cases rule: runPipeline_cases) (use that(2) in \<open>simp_all add: awarded_verdict_def\<close>)
  then have "iv_signal v = None"
    using run v(3) assms(2) unfolding runPipelineSafe_def
    by (auto split: sum.splits http_error.splits prod.splits if_splits)
  then have "runPipelineSafe env now i seen db = (Inr v, db')" using run v(3,4) by simp
  from safe_award_ok [OF this assms(2) v(2) assms(3,4,5)] v(1) show ?thesis by (simp add: i_def)
qed

definition demo_task :: xp_task where
  "demo_task = \<lparr>tk_id = ''t1'', tk_key = ''onboarding_completed'', tk_xpReward = 40, tk_recurring = ''once'', tk_lifetimeLimit = Some 1,
     tk_dailyLimit = Some 1, tk_weeklyLimit = None, tk_monthlyLimit = None, tk_cooldownSecs = Some 60, tk_availableFrom = None,
     tk_availableUntil = None, tk_status = ''active'', tk_verificationType = ''internal_state'',
     tk_verificationChecker = Some ''internal_state.onboarding_completed'', tk_scopeAppId = None\<rparr>"

definition demo_intake_db :: xp_db where
  "demo_intake_db = demo_xp_db\<lparr>xd_tasks := [demo_task],
     xd_apps := [\<lparr>xa_id = ''a1'', xa_clientId = ''c1'', xa_ownerPid = ''root@pid'', xa_isActive = True, xa_isVerified = True, xa_xpEnabled = True,
       xa_approvedEventTypes = [''onboarding_completed'']\<rparr>],
     xd_quotas := [\<lparr>cap_daily = Some 40, cap_weekly = Some 100, cap_monthly = None, qa_appId = ''a1'', qa_suspended = False, qa_suspendReason = None\<rparr>],
     xd_orgQuotas := [\<lparr>cap_daily = None, cap_weekly = None, cap_monthly = Some 5000, qo_ownerPid = ''root@pid''\<rparr>]\<rparr>"

definition demo_event :: event_dto where
  "demo_event = \<lparr>ev_userId = '' Ana@PID'', ev_eventId = ''ev-1'', ev_eventType = ''onboarding_completed'', ev_resourceId = None\<rparr>"

definition open_gate :: effective_intake where
  "open_gate = \<lparr>ei_allowed = True, ei_suspendGlobal = JBool False, ei_suspendApp = JBool False, ei_source = ''db''\<rparr>"

definition demo_input :: intake_input where
  "demo_input = \<lparr>in_pid = ''ana@pid'', in_eventId = ''ev-1'', in_eventType = ''onboarding_completed'', in_resourceId = None,
     in_app = \<lparr>au_id = ''a1'', au_clientId = ''c1''\<rparr>\<rparr>"

lemma demo_pre_lock: "pre_lock 1792713600000 demo_input demo_intake_db = go (''root@pid'', demo_task)"
  by (simp add: pre_lock_def demo_input_def standing_gate_def canSubmitEvents_def standing_of_def find_app_def demo_intake_db_def demo_xp_db_def
    live_identity_def find_identity_def resolve_task_def task_gate_def out_of_window_def validateChecker_def RELIABLE_CHECKERS_def
    evidence_gate_def verify_evidence_def demo_task_def)

lemma demo_gates: "locked_gates 1792713600000 demo_input ''root@pid'' demo_task (Some s) demo_intake_db = go ()"
  by (simp add: locked_gates_def demo_input_def standing_gate_def canSubmitEvents_def standing_of_def find_app_def demo_intake_db_def demo_xp_db_def
    find_completion_def latest_completion_def task_completions_def cooling_down_def task_limit_hit_def count_since_def at_limit_def
    quota_gate_def app_quota_input_def org_quota_input_def window_input_def find_quota_def find_org_quota_def evaluate_quota_def
    xp_since_def of_app_def of_owner_def toSafeNumber_def xp_caps.truncate_def
    retask_gate_def out_of_window_def validateChecker_def RELIABLE_CHECKERS_def demo_task_def Let_def)

definition demo_active :: active_policy where
  "demo_active = \<lparr>ap_policy = demo_policy, ap_formula = DEFAULT_FORMULA,
     ap_thresholds = [\<lparr>th_level = 1, th_cumulativeXp = 0\<rparr>, \<lparr>th_level = 2, th_cumulativeXp = 100\<rparr>, \<lparr>th_level = 3, th_cumulativeXp = 382\<rparr>]\<rparr>"

lemma demo_getActive: "getActivePolicy demo_intake_db = Inr demo_active"
proof -
  have "policy_rows demo_intake_db (pv_id demo_policy) = policy_rows demo_xp_db ''p1''"
    by (simp add: policy_rows_def demo_intake_db_def demo_policy_def)
  then have "policy_rows demo_intake_db (pv_id demo_policy) = ap_thresholds demo_active" by (simp add: demo_rows demo_active_def)
  moreover have "filter is_active (xd_policies demo_intake_db) = [demo_policy]"
    by (simp add: demo_intake_db_def demo_xp_db_def demo_policy_def is_active_def)
  ultimately show ?thesis
    by (simp add: getActivePolicy_def demo_active_def demo_policy_def parseFormula_def DEFAULT_FORMULA_def)
qed

lemma demo_state: "locked_state (in_pid demo_input) demo_intake_db demo_intake_db
    = Inr (Some \<lparr>us_pid = ''ana@pid'', us_totalXp = 150, us_level = 2, us_policyVersionId = ''p1''\<rparr>)"
  by (simp add: locked_state_def demo_input_def find_state_def find_or_throw_def demo_intake_db_def demo_xp_db_def)

lemma demo_pipeline:
  "\<exists>db'. runPipeline demo_xp_env 1792713600000 demo_input demo_intake_db demo_intake_db = Inr (awarded_verdict 40 2 2, db')"
proof -
  have "\<exists>db'. appendTaskAward demo_xp_env 1792713600000 (intake_award demo_xp_env 1792713600000 demo_input demo_task) (in_pid demo_input)
    (Some \<lparr>us_pid = ''ana@pid'', us_totalXp = 150, us_level = 2, us_policyVersionId = ''p1''\<rparr>) 40 demo_active demo_intake_db = Inr ((190, 2, 2), db')"
    by (simp add: appendTaskAward_def Let_def demo_active_def levelFromXp_def create_xp_entry_def award_row_def intake_award_def demo_input_def
      has_identity_def demo_intake_db_def demo_xp_db_def demo_task_def complete_task_def create_completion_def)
  moreover have "tk_xpReward demo_task = 40" by (simp add: demo_task_def)
  ultimately show ?thesis
    by (auto simp: runPipeline_def demo_pre_lock [unfolded go_def] demo_gates [unfolded go_def] demo_getActive demo_state)
qed

theorem intake_award_within_limits_witness:
  "\<exists>v db'. submitEvent demo_xp_env 1792713600000 True open_gate demo_event (Some \<lparr>au_id = ''a1'', au_clientId = ''c1''\<rparr>) demo_intake_db demo_intake_db = (Inr v, db')
    \<and> iv_status v = ''awarded''
    \<and> award_ok 1792713600000 ''ana@pid'' ''a1'' ''onboarding_completed'' ''ev-1'' 40 demo_intake_db demo_intake_db db'"
proof -
  obtain db' where run: "runPipeline demo_xp_env 1792713600000 demo_input demo_intake_db demo_intake_db = Inr (awarded_verdict 40 2 2, db')"
    using demo_pipeline by blast
  have pid: "to_lower (trim (ev_userId demo_event)) = ''ana@pid''" "trim (ev_eventId demo_event) = ''ev-1''"
    by (simp_all add: demo_event_def trim_def to_lower_def is_space_def to_lower_char_def char_of_def bit_0)
  have fmt: "event_type_format (ev_eventType demo_event)" "isPid ''ana@pid''"
    by (simp_all add: demo_event_def event_type_format_def key_char_def isPid_def PID_SUFFIX_def isPidHandle_def handle_char_def is_digit_def)
  have sub: "submitEvent demo_xp_env 1792713600000 True open_gate demo_event (Some \<lparr>au_id = ''a1'', au_clientId = ''c1''\<rparr>) demo_intake_db demo_intake_db
    = (Inr (awarded_verdict 40 2 2), db')"
    using run unfolding demo_input_def
    by (simp add: submitEvent_def open_gate_def pid fmt Let_def runPipelineSafe_def awarded_verdict_def) (simp add: demo_event_def)
  have ok: "task_ids_ok demo_intake_db" "columns_ok demo_intake_db"
    by (simp_all add: task_ids_ok_def columns_ok_def demo_intake_db_def demo_task_def caps_in_column_def int_column_def)
  have "award_ok 1792713600000 ''ana@pid'' ''a1'' ''onboarding_completed'' ''ev-1'' 40 demo_intake_db demo_intake_db db'"
    using intake_award_within_limits [OF sub _ ok(1) ok(1) ok(2)] by (simp add: pid) (simp add: demo_event_def)
  with sub show ?thesis by (intro exI [of _ "awarded_verdict 40 2 2"] exI [of _ db']) simp
qed

end
