(* ===== verification/Xp_System.thy ===== *)
theory Xp_System
  imports Xp_Intake
begin

text \<open>
  The experience services together: the state is the history of committed databases, newest first. A step runs one
  operation on the newest one while its unlocked reads may have seen any earlier one, so every interleaving of awards, event
  intake, admin corrections, quota and permission changes, policy activations and backfills is a run.
\<close>

section \<open>The machine\<close>

text \<open>The validators of \<^verbatim>\<open>CreateTaskDto\<close>, which reject the request before the service.\<close>

definition in_range :: "int \<Rightarrow> int \<Rightarrow> int option option \<Rightarrow> bool" where
  "in_range lo hi v = (case v of Some (Some n) \<Rightarrow> lo \<le> n \<and> n \<le> hi | _ \<Rightarrow> True)"

definition CreateTaskDto_valid :: "task_dto \<Rightarrow> bool" where
  "CreateTaskDto_valid d \<longleftrightarrow>
     event_type_format (nullish (td_key d) [])
     \<and> (case td_xpReward d of None \<Rightarrow> False | Some n \<Rightarrow> 1 \<le> n \<and> n \<le> 100000)
     \<and> (case td_recurring d of None \<Rightarrow> True | Some r \<Rightarrow> List.member TASK_RECURRING r)
     \<and> in_range 1 1000000 (td_lifetimeLimit d) \<and> in_range 1 100000 (td_dailyLimit d) \<and> in_range 1 100000 (td_weeklyLimit d)
     \<and> in_range 1 100000 (td_monthlyLimit d) \<and> in_range 0 31536000 (td_cooldownSecs d)
     \<and> (case td_verificationType d of None \<Rightarrow> True | Some v \<Rightarrow> List.member VERIFICATION_TYPES v)
     \<and> length (nullish (nullish (td_verificationChecker d) None) []) \<le> 128 \<and> length (nullish (nullish (td_scopeAppId d) None) []) \<le> 128"

datatype xp_op =
    XAward int award_input
  | XIntake int bool effective_intake event_dto "authed_app option"
  | XLevelView string
  | XAdjust int string string int string
  | XReverse int string string int string "string option"
  | XPermission string string permission_dto
  | XQuota string string quota_dto
  | XOrgQuota string string quota_dto
  | XSuspend string string bool "string option" "string option"
  | XReview string string bool
  | XDraft string policy_dto
  | XMaterialize string string "(int \<times> int) list"
  | XActivate int string string "string option" "string option"
  | XBackfill string string "string option" "int option"
  | XRollback string int
  | XCreateTask string task_dto
  | XUpdateTask string string task_dto

fun xp_exec :: "xp_env \<Rightarrow> xp_op \<Rightarrow> xp_db \<Rightarrow> xp_db \<Rightarrow> xp_db" where
  "xp_exec env (XAward now i) seen db = snd (awardXp env now i seen db)"
| "xp_exec env (XIntake now up gate dto authed) seen db = snd (submitEvent env now up gate dto authed seen db)"
| "xp_exec env (XLevelView pid) seen db = snd (getLevelView pid seen db)"
| "xp_exec env (XAdjust now actor pid d reason) seen db = snd (admin_adjust env now actor pid d reason seen db)"
| "xp_exec env (XReverse now actor pid a reason orig) seen db = snd (admin_reverse env now actor pid a reason orig seen db)"
| "xp_exec env (XPermission actor app dto) seen db = snd (setXpPermission env actor app dto seen db)"
| "xp_exec env (XQuota actor app dto) seen db = snd (upsertQuota env actor app dto seen db)"
| "xp_exec env (XOrgQuota actor owner dto) seen db = snd (upsertOrgQuota actor owner dto seen db)"
| "xp_exec env (XSuspend actor app b sr r) seen db = snd (suspendApp env actor app b sr r seen db)"
| "xp_exec env (XReview actor i b) seen db = snd (reviewSuspicious actor i b db)"
| "xp_exec env (XDraft actor dto) seen db = snd (createPolicyDraft env actor dto seen db)"
| "xp_exec env (XMaterialize actor i ov) seen db = snd (materializePolicy actor i ov seen db)"
| "xp_exec env (XActivate now actor i cb r) seen db = snd (activatePolicy now actor i cb r seen db)"
| "xp_exec env (XBackfill actor i cur batch) seen db = snd (runBackfill env actor i cur batch seen db)"
| "xp_exec env (XRollback actor v) seen db = snd (rollbackDraft env actor v seen db)"
| "xp_exec env (XCreateTask actor dto) seen db = (if CreateTaskDto_valid dto then snd (createTask env actor dto db) else db)"
| "xp_exec env (XUpdateTask actor i dto) seen db = snd (updateTask actor i dto seen db)"

definition xp_step :: "xp_env \<Rightarrow> xp_op \<times> nat \<Rightarrow> xp_db list \<Rightarrow> xp_db list" where
  "xp_step env s hist = xp_exec env (fst s) (if snd s < length hist then hist ! snd s else hd hist) (hd hist) # hist"

text \<open>The policy table: unique ids, at most one active version.\<close>

definition policies_ok :: "xp_db \<Rightarrow> bool" where
  "policies_ok db \<longleftrightarrow> distinct (map pv_id (xd_policies db)) \<and> length (filter is_active (xd_policies db)) \<le> 1"

definition db_ok :: "xp_db \<Rightarrow> bool" where
  "db_ok db \<longleftrightarrow> xp_inv db \<and> task_ids_ok db \<and> columns_ok db \<and> policies_ok db"

definition xp_sys_inv :: "xp_env \<Rightarrow> xp_db list \<Rightarrow> bool" where
  "xp_sys_inv env hist \<longleftrightarrow> (\<forall>n. xv_uuid env n \<noteq> []) \<and> hist \<noteq> [] \<and> (\<forall>d \<in> set hist. db_ok d \<and> xp_grows d (hd hist))"

section \<open>What each operation leaves alone\<close>

definition same_config :: "xp_db \<Rightarrow> xp_db \<Rightarrow> bool" where
  "same_config a b \<longleftrightarrow> xd_tasks b = xd_tasks a \<and> xd_quotas b = xd_quotas a \<and> xd_orgQuotas b = xd_orgQuotas a \<and> xd_policies b = xd_policies a"

named_theorems config_simps

lemma same_config_refl [simp]: "same_config db db"
  by (simp add: same_config_def)

lemma config_writes [config_simps]:
  "same_config db (xp_log a e db') \<longleftrightarrow> same_config db db'" "same_config db (add_suspicious env p ap sg db') \<longleftrightarrow> same_config db db'"
  "same_config db (set_state pid g db') \<longleftrightarrow> same_config db db'" "same_config db (db'\<lparr>xd_thresholds := th\<rparr>) \<longleftrightarrow> same_config db db'"
  "same_config db (db'\<lparr>xd_apps := ap1\<rparr>) \<longleftrightarrow> same_config db db'" "same_config db (db'\<lparr>xd_suspicious := su\<rparr>) \<longleftrightarrow> same_config db db'"
  "same_config db (db'\<lparr>xd_completions := cs\<rparr>) \<longleftrightarrow> same_config db db'" "same_config db (db'\<lparr>xd_states := ss\<rparr>) \<longleftrightarrow> same_config db db'"
  "same_config db (db'\<lparr>xd_entries := es, xd_next := n\<rparr>) \<longleftrightarrow> same_config db db'"
  by (simp_all add: same_config_def xp_log_def add_suspicious_def set_state_def)

lemma create_state_config: "create_state s db = Inr db' \<Longrightarrow> same_config db db'"
  by (auto simp: create_state_def config_simps split: if_splits)

lemma complete_config: "complete_task env now i pid eid db = Inr db' \<Longrightarrow> same_config db db'"
  by (auto simp: complete_task_def create_completion_def config_simps split: option.splits if_splits)

lemma entry_config: "create_xp_entry env mk db = Inr (e, db') \<Longrightarrow> same_config db db'"
  by (auto simp: config_simps dest!: create_xp_entry_effect)

lemma config_trans: "same_config a b \<Longrightarrow> same_config b c \<Longrightarrow> same_config a c"
  by (simp add: same_config_def)

lemma append_some_config:
  "appendTaskAward env now i pid (Some s) delta active db = Inr (w, db') \<Longrightarrow> same_config db db'"
  by (auto simp: appendTaskAward_def Let_def config_simps dest!: entry_config complete_config intro: config_trans)

lemma append_config: "appendTaskAward env now i pid st delta active db = Inr (w, db') \<Longrightarrow> same_config db db'"
  by (cases st) (auto simp: append_genesis dest!: create_state_config append_some_config intro: config_trans)

lemma lock_config: "lock_state pid active seen db = Inr (s, db1) \<Longrightarrow> same_config db db1"
  by (auto simp: lock_state_def dest!: create_state_config split: option.splits)

lemma award_txn_config: "award_txn env now i pid delta active seen db = Inr (r, db') \<Longrightarrow> same_config db db'"
  by (auto simp: award_txn_def dest!: lock_config append_config intro: config_trans split: if_splits)

lemma admin_txn_config: "admin_txn env now kind pid delta reason actor active seen db = Inr (r, db') \<Longrightarrow> same_config db db'"
  by (auto simp: admin_txn_def Let_def config_simps dest!: lock_config entry_config intro: config_trans split: if_splits)

lemma award_config: "same_config db (snd (awardXp env now i seen db))"
  by (auto simp: awardXp_def split: sum.splits prod.splits http_error.splits option.splits if_splits dest: award_txn_config)

lemma log_ok_config [config_simps]: "same_config db (snd (log_ok actor ev r)) \<longleftrightarrow> same_config db (snd r)"
  by (cases r) (auto simp: log_ok_def config_simps split: sum.splits)

lemma adjust_config: "same_config db (snd (adjustXp env now i seen db))" "same_config db (snd (reverseXp env now i seen db))"
  by (auto simp: adjustXp_def reverseXp_def run_admin_def Let_def split: sum.splits dest: admin_txn_config)

lemma admin_adjust_config: "same_config db (snd (admin_adjust env now actor pid d reason seen db))"
  by (simp add: admin_adjust_def config_simps adjust_config)

lemma admin_reverse_config: "same_config db (snd (admin_reverse env now actor pid d reason orig seen db))"
  by (simp add: admin_reverse_def config_simps adjust_config split: option.splits)

lemma view_config: "same_config db (snd (getLevelView pid seen db))"
proof -
  have "same_config db (snd (ensureState p active seen db))" for p active
    by (auto simp: ensureState_def split: option.splits sum.splits http_error.splits dest: create_state_config)
  then show ?thesis
    by (auto simp: getLevelView_def Let_def split: option.splits sum.splits prod.splits) (metis snd_conv)+
qed

lemma pipeline_config:
  assumes "runPipeline env now i seen db = Inr (v, db')"
  shows "same_config db db'"
  using assms
proof (cases rule: runPipeline_cases)
  case (awarded owner t s db1 l pl db2)
  then obtain ss active where "db1 = db\<lparr>xd_states := ss\<rparr>"
    "appendTaskAward env now (intake_award env now i t) (in_pid i) (Some s) (tk_xpReward t) active db1 = Inr ((us_totalXp s + tk_xpReward t, l, pl), db2)"
    unfolding awarded_by_def by blast
  then have "same_config db db1" "same_config db1 db2" by (auto simp: config_simps dest: append_some_config)
  then show ?thesis using config_trans by (auto simp: awarded config_simps)
qed simp

lemma intake_config: "same_config db (snd (submitEvent env now up gate dto authed seen db))"
proof -
  have feed: "same_config db (feed env up p a s d) \<longleftrightarrow> same_config db d" for p a s d by (simp add: feed_def config_simps)
  have "same_config db d" if "runPipelineSafe env now i seen db = (r, d)" for i r d
    using that unfolding runPipelineSafe_def by (auto split: sum.splits http_error.splits prod.splits if_splits dest: pipeline_config)
  then show ?thesis
    unfolding submitEvent_def Let_def by (auto simp: feed split: option.splits prod.splits sum.splits)
qed

lemma apply_writes_config: "same_config db (apply_writes i ws db') \<longleftrightarrow> same_config db db'"
  unfolding apply_writes_def
proof (induction ws arbitrary: db')
  case (Cons w ws)
  then show ?case by (cases w) (simp add: config_simps)
qed simp

lemma admin_config:
  "same_config db (snd (setXpPermission env actor appId pdto seen db))"
  "same_config db (snd (reviewSuspicious actor i reviewed db))"
  "same_config db (snd (materializePolicy actor i overrides seen db))"
  "same_config db (snd (runBackfill env actor i cursor batch seen db))"
  subgoal by (auto simp: setXpPermission_def Let_def config_simps split: option.splits sum.splits)
  subgoal by (auto simp: reviewSuspicious_def config_simps split: option.splits)
  subgoal by (auto simp: materializePolicy_def Let_def config_simps split: option.splits sum.splits)
  subgoal by (auto simp: runBackfill_def Let_def config_simps apply_writes_config split: option.splits sum.splits)
  done

lemmas config_lemmas = award_config intake_config view_config admin_adjust_config admin_reverse_config admin_config

section \<open>The writers of the configuration\<close>

lemma next_caps_column:
  assumes "cap_error dto = None" "\<And>p. prev = Some p \<Longrightarrow> caps_in_column p"
  shows "caps_in_column (next_caps dto prev)"
proof -
  have "int_column (nullish v (Option.bind prev f))" if "\<not> bad_cap v" "\<And>p. prev = Some p \<Longrightarrow> int_column (f p)" for v and f :: "'a xp_caps_scheme \<Rightarrow> int option"
    using that by (auto simp: bad_cap_def int_column_def split: option.splits) (cases prev; auto)+
  then show ?thesis
    using assms by (auto simp: caps_in_column_def next_caps_def cap_error_def split: if_splits)
qed

lemma extend_column [simp]: "caps_in_column (xp_caps.extend c x) = caps_in_column c"
  by (cases c) (simp add: caps_in_column_def xp_caps.extend_def)

lemma put_quota_columns: "columns_ok db \<Longrightarrow> caps_in_column q \<Longrightarrow> columns_ok (put_quota q db)"
  "columns_ok db \<Longrightarrow> caps_in_column oq \<Longrightarrow> columns_ok (put_org_quota oq db)"
  by (auto simp: columns_ok_def put_quota_def put_org_quota_def list_all_iff)

lemma columns_writes [simp]: "columns_ok (xp_log a e db) = columns_ok db" "columns_ok (add_suspicious env p ap s db) = columns_ok db"
  by (simp_all add: columns_ok_def xp_log_def add_suspicious_def)

lemma upsertQuota_columns:
  assumes "columns_ok seen" "columns_ok db"
  shows "columns_ok (snd (upsertQuota env actor app dto seen db))"
proof -
  let ?prev = "find (\<lambda>q. qa_appId q = app) (xd_quotas seen)"
  have "caps_in_column p" if "?prev = Some p" for p
    using that assms(1) by (auto simp: columns_ok_def list_all_iff dest: find_SomeD)
  then have "cap_error dto = None \<Longrightarrow> caps_in_column (next_quota dto app ?prev)"
    using next_caps_column [of dto ?prev] by (simp add: next_quota_def)
  then show ?thesis
    using assms(2) put_quota_columns(1) unfolding upsertQuota_def Let_def by (auto split: option.splits sum.splits)
qed

lemma upsertOrgQuota_columns:
  assumes "columns_ok seen" "columns_ok db"
  shows "columns_ok (snd (upsertOrgQuota actor owner dto seen db))"
proof -
  have prev: "caps_in_column p" if "find (\<lambda>q. qo_ownerPid q = o') (xd_orgQuotas seen) = Some p" for p o'
    using that assms(1) by (auto simp: columns_ok_def list_all_iff dest: find_SomeD)
  have "cap_error dto = None \<Longrightarrow> caps_in_column (next_caps dto (find (\<lambda>q. qo_ownerPid q = o') (xd_orgQuotas seen)))" for o'
    using next_caps_column [of dto "find (\<lambda>q. qo_ownerPid q = o') (xd_orgQuotas seen)"] prev by blast
  then show ?thesis
    using assms(2) put_quota_columns(2) unfolding upsertOrgQuota_def Let_def by (auto split: option.splits sum.splits)
qed

definition same_but_quotas :: "xp_db \<Rightarrow> xp_db \<Rightarrow> bool" where
  "same_but_quotas a b \<longleftrightarrow> xd_tasks b = xd_tasks a \<and> xd_policies b = xd_policies a"

lemma quota_frames:
  "same_but_quotas db (snd (upsertQuota env actor app dto seen db))" "same_but_quotas db (snd (upsertOrgQuota actor owner dto seen db))"
  by (auto simp: same_but_quotas_def upsertQuota_def upsertOrgQuota_def put_quota_def put_org_quota_def xp_log_def add_suspicious_def Let_def
      split: option.splits sum.splits)

text \<open>Policies: a draft is inactive and new; an activation supersedes the one active version first.\<close>

lemma draft_policies:
  assumes "create_policy p db = Inr db'" "\<not> is_active p" "policies_ok db"
  shows "policies_ok db'"
  using assms by (force simp: create_policy_def policies_ok_def list_ex_iff split: if_splits)

lemma set_policy_list: "xd_policies (set_policy i g db) = map (\<lambda>p. if pv_id p = i then g p else p) (xd_policies db)"
  by (simp add: set_policy_def)

lemma activate_at_most_one:
  assumes "distinct (map pv_id ps)" "\<forall>p \<in> set ps. is_active p \<longrightarrow> pv_id p = i" "\<And>p. pv_id (g p) = pv_id p"
  shows "length (filter is_active (map (\<lambda>p. if pv_id p = i then g p else p) ps)) \<le> 1"
  using assms
proof (induction ps)
  case (Cons p ps)
  show ?case
  proof (cases "pv_id p = i")
    case True
    then have "i \<notin> pv_id ` set ps" "\<forall>q \<in> set ps. is_active q \<longrightarrow> pv_id q = i" using Cons.prems(1,2) by simp_all
    then have "\<forall>q \<in> set ps. pv_id q \<noteq> i \<and> \<not> is_active q" by blast
    then have "filter is_active (map (\<lambda>p. if pv_id p = i then g p else p) ps) = []" by (simp add: filter_empty_conv)
    then show ?thesis by simp
  next
    case False
    then have "\<not> is_active p" using Cons.prems by auto
    with False Cons show ?thesis by simp
  qed
qed simp

lemma only_active:
  assumes "length (filter P xs) \<le> 1" "find P xs = Some x" "y \<in> set xs" "P y"
  shows "y = x"
proof -
  have in_f: "y \<in> set (filter P xs)" "x \<in> set (filter P xs)" using assms by (auto dest: find_SomeD)
  moreover obtain z where "filter P xs = [z]" using assms(1) in_f by (cases "filter P xs") auto
  ultimately show ?thesis by simp
qed

lemma activate_policies:
  assumes "policies_ok db"
  shows "policies_ok (activate_txn now i db)"
proof -
  define db1 where "db1 = (case find is_active (xd_policies db) of
      Some current \<Rightarrow> if pv_id current \<noteq> i then set_policy (pv_id current) (\<lambda>p. p\<lparr>pv_supersededAt := Some now\<rparr>) db else db
    | None \<Rightarrow> db)"
  have ids: "map pv_id (xd_policies db1) = map pv_id (xd_policies db)"
    by (auto simp: db1_def set_policy_list split: option.splits)
  have act: "\<forall>p \<in> set (xd_policies db1). is_active p \<longrightarrow> pv_id p = i"
  proof (cases "find is_active (xd_policies db)")
    case None
    then have "db1 = db" by (simp add: db1_def)
    with None show ?thesis by (auto simp: find_None_iff)
  next
    case (Some c)
    have one: "y = c" if "y \<in> set (xd_policies db)" "is_active y" for y
      using only_active [OF _ Some that] assms by (simp add: policies_ok_def)
    show ?thesis
      using one Some by (auto simp: db1_def set_policy_list is_active_def)
  qed
  have "length (filter is_active (xd_policies (activate_txn now i db))) \<le> 1"
    unfolding activate_txn_def Let_def db1_def [symmetric] set_policy_list
    by (rule activate_at_most_one) (use act ids assms in \<open>simp_all add: policies_ok_def\<close>)
  moreover have "map pv_id (xd_policies (activate_txn now i db)) = map pv_id (xd_policies db1)"
    unfolding activate_txn_def Let_def db1_def [symmetric] set_policy_list by simp
  ultimately show ?thesis using ids assms by (simp add: policies_ok_def)
qed

lemma policies_writes [simp]: "policies_ok (xp_log a e db) = policies_ok db" "policies_ok (db\<lparr>xd_thresholds := th\<rparr>) = policies_ok db"
  by (simp_all add: policies_ok_def xp_log_def)

lemma policy_ops:
  assumes "policies_ok db"
  shows "policies_ok (snd (createPolicyDraft env actor dto seen db))" "policies_ok (snd (rollbackDraft env actor v seen db))"
    "policies_ok (snd (activatePolicy now actor i cb r seen db))"
proof -
  have d: "\<not> is_active (draft_policy env db n f m w)" for n f m w by (simp add: draft_policy_def is_active_def)
  show "policies_ok (snd (createPolicyDraft env actor dto seen db))"
    using assms draft_policies d unfolding createPolicyDraft_def Let_def by (auto split: sum.splits http_error.splits)
  show "policies_ok (snd (rollbackDraft env actor v seen db))"
    using assms draft_policies d unfolding rollbackDraft_def Let_def by (auto split: option.splits sum.splits)
  show "policies_ok (snd (activatePolicy now actor i cb r seen db))"
    using assms activate_policies unfolding activatePolicy_def Let_def by (auto split: option.splits sum.splits)
qed

definition same_but_policies :: "xp_db \<Rightarrow> xp_db \<Rightarrow> bool" where
  "same_but_policies a b \<longleftrightarrow> xd_tasks b = xd_tasks a \<and> xd_quotas b = xd_quotas a \<and> xd_orgQuotas b = xd_orgQuotas a"

lemma policy_frames:
  "same_but_policies db (snd (createPolicyDraft env actor dto seen db))" "same_but_policies db (snd (rollbackDraft env actor v seen db))"
  "same_but_policies db (snd (activatePolicy now actor i cb r seen db))"
  by (auto simp: same_but_policies_def createPolicyDraft_def rollbackDraft_def activatePolicy_def activate_txn_def set_policy_def create_policy_def
      xp_log_def Let_def split: option.splits sum.splits http_error.splits if_splits)

lemma createTask_tasks:
  assumes "task_ids_ok db" "CreateTaskDto_valid dto" "\<And>n. xv_uuid env n \<noteq> []"
  shows "task_ids_ok (snd (createTask env actor dto db))"
proof -
  have "0 < nullish (td_xpReward dto) 0" using assms(2) by (auto simp: CreateTaskDto_valid_def split: option.splits)
  then show ?thesis
    using assms(1,3) unfolding createTask_def Let_def
    by (auto simp: task_ids_ok_def xp_log_def new_task_def split: sum.splits option.splits)
qed

lemma updateTask_tasks:
  assumes "task_ids_ok db"
  shows "task_ids_ok (snd (updateTask actor i dto seen db))"
proof -
  have "patch_error dto = None \<Longrightarrow> 0 < tk_xpReward t \<Longrightarrow> 0 < tk_xpReward (patch_task dto t)" "tk_id (patch_task dto t) = tk_id t" for t
    by (auto simp: patch_error_def patch_task_def split: if_splits option.splits)
  then show ?thesis
    using assms unfolding updateTask_def Let_def
    by (auto simp: task_ids_ok_def xp_log_def list_all_iff split: option.splits sum.splits)
qed

lemma task_frames:
  "policies_ok (snd (createTask env actor dto db)) = policies_ok db" "columns_ok (snd (createTask env actor dto db)) = columns_ok db"
  "policies_ok (snd (updateTask actor i dto seen db)) = policies_ok db" "columns_ok (snd (updateTask actor i dto seen db)) = columns_ok db"
  by (auto simp: createTask_def updateTask_def policies_ok_def columns_ok_def xp_log_def Let_def split: option.splits sum.splits)

section \<open>Every interleaving\<close>

lemma log_ok_keeps: "keeps db (snd r) \<Longrightarrow> keeps db (snd (log_ok actor ev r))"
proof -
  assume k: "keeps db (snd r)"
  have "keeps d (xp_log actor ev d)" for d by (rule keeps_same) (simp add: xp_log_same)
  with k show ?thesis using keeps_trans by (cases r) (auto simp: log_ok_def split: sum.splits)
qed

lemma exec_keeps:
  assumes "db_ok seen" "db_ok db"
  shows "keeps db (xp_exec env op seen db)"
proof (cases op)
  case (XIntake now up gate dto authed)
  with assms show ?thesis by (simp add: submitEvent_keeps db_ok_def)
next
  case (XAdjust now actor pid d reason)
  with assms show ?thesis by (simp add: admin_adjust_def log_ok_keeps adjustXp_keeps db_ok_def)
next
  case (XReverse now actor pid a reason orig)
  with assms show ?thesis by (simp add: admin_reverse_def log_ok_keeps reverseXp_keeps db_ok_def split: option.splits)
next
  case (XSuspend actor app b sr r)
  then show ?thesis by (simp add: suspendApp_def keeps_same admin_same)
qed (use assms in \<open>simp_all add: awardXp_keeps getLevelView_keeps keeps_same admin_same db_ok_def\<close>)

lemma config_keeps_ok: "same_config a b \<Longrightarrow> task_ids_ok a \<Longrightarrow> columns_ok a \<Longrightarrow> policies_ok a \<Longrightarrow> task_ids_ok b \<and> columns_ok b \<and> policies_ok b"
  by (simp add: same_config_def task_ids_ok_def columns_ok_def policies_ok_def)

lemma quota_ops_ok:
  assumes "columns_ok seen" "task_ids_ok db" "columns_ok db" "policies_ok db"
  shows "let d = snd (upsertQuota env actor app dto seen db) in task_ids_ok d \<and> columns_ok d \<and> policies_ok d"
    "let d = snd (upsertOrgQuota actor owner dto seen db) in task_ids_ok d \<and> columns_ok d \<and> policies_ok d"
  using assms quota_frames(1) [of db env actor app dto seen] quota_frames(2) [of db actor owner dto seen]
    upsertQuota_columns [OF assms(1,3)] upsertOrgQuota_columns [OF assms(1,3)]
  by (auto simp: Let_def same_but_quotas_def task_ids_ok_def policies_ok_def)

lemma policy_ops_ok:
  assumes "task_ids_ok db" "columns_ok db" "policies_ok db"
  shows "let d = snd (createPolicyDraft env actor dto seen db) in task_ids_ok d \<and> columns_ok d \<and> policies_ok d"
    "let d = snd (rollbackDraft env actor v seen db) in task_ids_ok d \<and> columns_ok d \<and> policies_ok d"
    "let d = snd (activatePolicy now actor i cb r seen db) in task_ids_ok d \<and> columns_ok d \<and> policies_ok d"
  using assms policy_frames(1) [of db env actor dto seen] policy_frames(2) [of db env actor v seen] policy_frames(3) [of db now actor i cb r seen]
    policy_ops [OF assms(3)]
  by (auto simp: Let_def same_but_policies_def task_ids_ok_def columns_ok_def)

lemma exec_config_ok:
  assumes seen: "columns_ok seen" and ok: "task_ids_ok db" "columns_ok db" "policies_ok db" and env: "\<And>n. xv_uuid env n \<noteq> []"
  shows "task_ids_ok (xp_exec env op seen db) \<and> columns_ok (xp_exec env op seen db) \<and> policies_ok (xp_exec env op seen db)"
proof (cases op)
  case (XCreateTask actor dto)
  then show ?thesis using createTask_tasks [OF ok(1) _ env] task_frames ok by simp
next
  case (XUpdateTask actor i dto)
  then show ?thesis using updateTask_tasks [OF ok(1)] task_frames ok by simp
next
  case (XSuspend actor app b sr r)
  then show ?thesis using quota_ops_ok(1) [OF seen ok] by (simp add: suspendApp_def Let_def)
qed (use config_keeps_ok [OF config_lemmas(1) ok] config_keeps_ok [OF config_lemmas(2) ok] config_keeps_ok [OF config_lemmas(3) ok]
      config_keeps_ok [OF config_lemmas(4) ok] config_keeps_ok [OF config_lemmas(5) ok] config_keeps_ok [OF config_lemmas(6) ok]
      config_keeps_ok [OF config_lemmas(7) ok] config_keeps_ok [OF config_lemmas(8) ok] config_keeps_ok [OF config_lemmas(9) ok]
      quota_ops_ok [OF seen ok] policy_ops_ok [OF ok] in \<open>simp_all add: Let_def\<close>)

lemma exec_ok:
  assumes "db_ok seen" "db_ok db" "\<And>n. xv_uuid env n \<noteq> []"
  shows "db_ok (xp_exec env op seen db) \<and> xp_grows db (xp_exec env op seen db)"
  using exec_keeps [OF assms(1,2), of env op] exec_config_ok [of seen db env op] assms by (simp add: db_ok_def keeps_def)

interpretation xp: monotone_machine "xp_step env" "xp_sys_inv env" "\<lambda>h h'. \<exists>ys. h' = ys @ h" for env
proof
  fix s :: "xp_db list" and op :: "xp_op \<times> nat"
  assume inv: "xp_sys_inv env s"
  let ?seen = "if snd op < length s then s ! snd op else hd s"
  have "hd s \<in> set s" "?seen \<in> set s" using inv by (auto simp: xp_sys_inv_def)
  then have "db_ok (hd s)" "db_ok ?seen" using inv unfolding xp_sys_inv_def by blast+
  then have "db_ok (xp_exec env (fst op) ?seen (hd s)) \<and> xp_grows (hd s) (xp_exec env (fst op) ?seen (hd s))"
    using inv by (intro exec_ok) (auto simp: xp_sys_inv_def)
  then show "xp_sys_inv env (xp_step env op s)"
    using inv xp_grows_trans by (auto simp: xp_sys_inv_def xp_step_def)
qed (auto simp: xp_step_def intro: exI [of _ "[x]" for x])

lemma xp_start: "(\<And>n. xv_uuid env n \<noteq> []) \<Longrightarrow> db_ok db \<Longrightarrow> xp_sys_inv env [db]"
  by (simp add: xp_sys_inv_def)

text \<open>C3: the experience ledger is sound under every interleaving. Start from a database that satisfies the invariant and run
  any operations, each with unlocked reads from any earlier database: the reconciliation of the final database reports no
  mismatch, every journal row carries the running balance of its user, no user is negative, each event of an app was
  awarded at most once, at most one policy version is active, and the journal of every earlier database is a prefix of the final
  one.\<close>

theorem xp_ledger_sound:
  assumes "\<And>n. xv_uuid env n \<noteq> []" "db_ok db"
  shows "xp_reconcile pid (hd (fold (xp_step env) ops [db])) = (True, [])
    \<and> balances_ok (xd_entries (hd (fold (xp_step env) ops [db])))
    \<and> 0 \<le> ledger_sum p (xd_entries (hd (fold (xp_step env) ops [db])))
    \<and> distinct (event_keys (xd_entries (hd (fold (xp_step env) ops [db]))))
    \<and> length (filter is_active (xd_policies (hd (fold (xp_step env) ops [db])))) \<le> 1
    \<and> (\<forall>d \<in> set (fold (xp_step env) ops [db]). \<exists>es. xd_entries (hd (fold (xp_step env) ops [db])) = xd_entries d @ es)"
proof -
  define h where "h = fold (xp_step env) ops [db]"
  have inv: "xp_sys_inv env h" unfolding h_def by (rule xp.run_inv [OF xp_start [OF assms]])
  then have ok: "db_ok (hd h)" by (auto simp: xp_sys_inv_def)
  then have "xp_reconcile pid (hd h) = (True, [])" by (intro reconcile_ok) (simp add: db_ok_def)
  then show ?thesis
    using ok inv unfolding h_def [symmetric]
    by (auto simp: db_ok_def xp_inv_def policies_ok_def xp_sys_inv_def xp_grows_def)
qed

lemma demo_db_ok: "db_ok demo_intake_db"
proof -
  have "same_journal demo_xp_db demo_intake_db" by (simp add: same_journal_def demo_intake_db_def)
  then have "xp_inv demo_intake_db" using same_journal_inv demo_xp_inv(1) by blast
  then show ?thesis
    by (simp add: db_ok_def task_ids_ok_def columns_ok_def policies_ok_def demo_intake_db_def demo_xp_db_def demo_task_def demo_policy_def
      is_active_def caps_in_column_def int_column_def)
qed

theorem xp_ledger_sound_witness:
  "xp_reconcile None (hd (fold (xp_step demo_xp_env)
      [(XIntake 1792713600000 True open_gate demo_event (Some \<lparr>au_id = ''a1'', au_clientId = ''c1''\<rparr>), 0)] [demo_intake_db])) = (True, [])"
proof -
  have "xv_uuid demo_xp_env n \<noteq> []" for n by (simp add: demo_xp_env_def show_nat.simps [of n])
  from xp_ledger_sound [OF this demo_db_ok] show ?thesis by blast
qed

section \<open>The grant envelope\<close>

text \<open>A raise is covered when another active admin confirmed it or the actor justified it.\<close>

definition covered :: "xp_db \<Rightarrow> string \<Rightarrow> string option \<Rightarrow> string option \<Rightarrow> bool" where
  "covered db actor confirmedBy reason \<longleftrightarrow>
     (let second = trim (nullish confirmedBy [])
      in second \<noteq> [] \<and> to_lower second \<noteq> to_lower actor \<and> requireActiveAdmin db second = Inr ()
         \<or> SECOND_PERSON_MIN_REASON \<le> length (trim (nullish reason [])))"

lemma envelope_covers: "envelope True actor cb r db = Inr u \<Longrightarrow> covered db actor cb r"
  by (auto simp: envelope_def covered_def checkGrantEnvelope_def Let_def split: option.splits if_splits)

lemma permission_needs_envelope:
  assumes "setXpPermission env actor appId dto seen db = (Inr (a, self), db')" "find_app seen appId = Some app"
  shows "envelope (permission_raise app (xa_xpEnabled a) (xa_approvedEventTypes a)) actor (pd_confirmedBy dto) (pd_reason dto) seen = Inr ()"
  using assms by (auto simp: setXpPermission_def find_app_def Let_def split: option.splits sum.splits)



text \<open>Removing a cap is not counted as a raise. An admin alone, with no confirmation and no reason, can set every cap of
  an app that is not suspended to null, which means unbounded.\<close>

lemma cap_removal_is_uncovered:
  assumes "find_app seen appId = Some app" "find_quota seen appId = Some q" "\<not> qa_suspended q"
  shows "\<exists>n db'. upsertQuota env actor appId \<lparr>qd_dailyCap = Some None, qd_weeklyCap = Some None, qd_monthlyCap = Some None,
      qd_suspended = None, qd_suspendReason = None, qd_confirmedBy = None, qd_reason = None\<rparr> seen db = (Inr (n, False), db')
    \<and> xp_caps.truncate n = no_caps \<and> n \<in> set (xd_quotas db')"
  using assms
  by (auto simp: upsertQuota_def find_app_def find_quota_def Let_def cap_error_def bad_cap_def next_quota_def next_caps_def quota_raised_def
      caps_raised_def cap_raised_def xp_caps.truncate_def xp_caps.extend_def no_caps_def suspend_unexplained_def envelope_def checkGrantEnvelope_def
      trim_def xp_log_def put_quota_def list_ex_iff)

section \<open>The backfill and a concurrent award\<close>

definition stale_db :: xp_db where
  "stale_db = demo_xp_db\<lparr>xd_states := [\<lparr>us_pid = ''ana@pid'', us_totalXp = 150, us_level = 1, us_policyVersionId = ''p0''\<rparr>]\<rparr>"

lemma stale_active: "getActivePolicy stale_db = Inr demo_active"
proof -
  have "getActivePolicy stale_db = getActivePolicy demo_intake_db"
    by (rule getActivePolicy_cong) (simp_all add: stale_db_def demo_intake_db_def)
  then show ?thesis by (simp add: demo_getActive)
qed

text \<open>The adjustment that commits while the backfill holds its page.\<close>

definition raced_db :: xp_db where
  "raced_db = snd (admin_adjust demo_xp_env 5 ''root@pid'' ''ana@pid'' 300 ''support credit'' stale_db stale_db)"

lemma raced_states: "xd_states raced_db = [\<lparr>us_pid = ''ana@pid'', us_totalXp = 450, us_level = 3, us_policyVersionId = ''p1''\<rparr>]"
proof -
  have v: "validate_admin ''manual adjustments'' \<lparr>ad_pid = ''ana@pid'', ad_amount = 300, ad_reason = Some ''support credit'',
      ad_actorAdminId = Some ''root@pid'', ad_originalEntryId = None\<rparr> = Inr (''ana@pid'', 300, ''support credit'', ''root@pid'')"
    by (simp add: validate_admin_def trim_def to_lower_def is_space_def to_lower_char_def isPid_def PID_SUFFIX_def isPidHandle_def handle_char_def
      is_digit_def toDelta_def MAX_REASON_LEN_def)
  have s: "find_state stale_db ''ana@pid'' = Some \<lparr>us_pid = ''ana@pid'', us_totalXp = 150, us_level = 1, us_policyVersionId = ''p0''\<rparr>"
    by (simp add: find_state_def stale_db_def)
  show ?thesis
    by (simp add: raced_db_def admin_adjust_def adjustXp_def v run_admin_def stale_active admin_txn_def lock_state_def s find_or_throw_def
      levelFromXp_def create_xp_entry_def admin_row_def has_identity_def Let_def log_ok_def xp_log_def set_state_def)
      (simp add: demo_active_def demo_policy_def stale_db_def demo_xp_db_def)
qed

text \<open>A backfill page can store a level that is out of date under the policy it stamps. The page is read outside the
  transaction that writes it: when an adjustment of a user commits in between, the backfill overwrites the level the adjustment
  computed with the one of the older total, and keeps the stamp of the active policy, so reads serve level 2 where the total
  of 450 XP is level 3.\<close>

lemma backfill_stores_stale_level:
  "\<exists>r db' s. raced_db = snd (admin_adjust demo_xp_env 5 ''root@pid'' ''ana@pid'' 300 ''support credit'' stale_db stale_db)
     \<and> runBackfill demo_xp_env ''root@pid'' ''p1'' None None stale_db raced_db = (Inr r, db')
     \<and> find_state db' ''ana@pid'' = Some s \<and> us_totalXp s = 450 \<and> us_policyVersionId s = pv_id (ap_policy demo_active)
     \<and> view_level demo_active s = Inr 2 \<and> levelFromXp (us_totalXp s) (ap_thresholds demo_active) = Inr 3"
proof -
  have rows: "policy_rows stale_db ''p1'' = ap_thresholds demo_active"
    using demo_rows by (simp add: policy_rows_def stale_db_def demo_active_def)
  have pol: "find_policy stale_db ''p1'' = Some demo_policy" by (simp add: find_policy_def stale_db_def demo_xp_db_def demo_policy_def)
  have page: "states_after [] stale_db = [\<lparr>us_pid = ''ana@pid'', us_totalXp = 150, us_level = 1, us_policyVersionId = ''p0''\<rparr>]"
    by (simp add: states_after_def stale_db_def)
  have size: "batch_size None = 500" by (simp add: batch_size_def DEFAULT_BATCH_def MAX_BATCH_def)
  have on: "migrationEnabled demo_xp_env" by (simp add: migrationEnabled_def demo_xp_env_def)
  have ne: "ap_thresholds demo_active \<noteq> []" by (simp add: demo_active_def)
  have lvl: "levelFromXp 150 (ap_thresholds demo_active) = Inr 2" by (simp add: levelFromXp_def demo_active_def)
  obtain r db' where run: "runBackfill demo_xp_env ''root@pid'' ''p1'' None None stale_db raced_db = (Inr r, db')"
    and db': "db' = xp_log ''root@pid'' ''admin.xp.backfill.ran'' (apply_writes ''p1'' [(''ana@pid'', 2)] raced_db)"
    by (simp add: runBackfill_def on pol rows page size ne lvl Let_def)
  have "find_state db' ''ana@pid'' = Some \<lparr>us_pid = ''ana@pid'', us_totalXp = 450, us_level = 2, us_policyVersionId = ''p1''\<rparr>"
    by (simp add: db' apply_writes_def set_state_def xp_log_def find_state_def raced_states)
  with run show ?thesis
    by (intro exI [of _ r] exI [of _ db']) (simp add: raced_db_def view_level_def levelFromXp_def demo_active_def demo_policy_def)
qed

end
