(* ===== verification/Core_Bytes.thy ===== *)
theory Core_Bytes
  imports Prelude "HOL-Library.Word"
begin

unbundle bit_operations_syntax

text \<open>
  The byte vocabulary of the wallet core, \<^verbatim>\<open>packages/core/src/bytes.ts\<close>: SHA-256, hexadecimal and base64url
  codecs, little-endian integers, and the ECDSA signature forms. A \<^verbatim>\<open>Uint8Array\<close> is a list of bytes; the 32-bit
  arithmetic of the hash is on \<open>32 word\<close>; a \<^verbatim>\<open>bigint\<close> is an \<open>int\<close>. Arrays are shorter than \<open>2\<^sup>3\<^sup>1\<close> bytes, so the
  source's 32-bit shifts of a length are divisions.
\<close>

type_synonym byte = "8 word"
type_synonym bytes = "byte list"
type_synonym word32 = "32 word"

section \<open>Little-endian and big-endian integers\<close>

text \<open>\<open>n\<close> times: emit \<^verbatim>\<open>v & 0xff\<close>, then \<^verbatim>\<open>v >>= 8\<close>.\<close>

fun le_bytes :: "nat \<Rightarrow> int \<Rightarrow> bytes" where
  "le_bytes 0 v = []"
| "le_bytes (Suc n) v = word_of_int v # le_bytes n (v div 256)"

definition u64le :: "int \<Rightarrow> bytes" where "u64le v = le_bytes 8 v"

definition i64le :: "int \<Rightarrow> bytes" where "i64le v = le_bytes 8 v"

definition u16le :: "int \<Rightarrow> bytes" where "u16le v = [word_of_int v, word_of_int (v div 256)]"

definition bigintToPadded32 :: "int \<Rightarrow> bytes" where "bigintToPadded32 v = rev (le_bytes 32 v)"

definition bytesToBigint :: "bytes \<Rightarrow> int" where
  "bytesToBigint b = foldl (\<lambda>v x. v * 256 + uint x) 0 b"

text \<open>The value of a little-endian string.\<close>

fun le_value :: "bytes \<Rightarrow> int" where
  "le_value [] = 0"
| "le_value (b # bs) = uint b + 256 * le_value bs"

lemma byte_range: "0 \<le> uint x" "uint x < 256" for x :: byte
  using unsigned_less [of x, where ?'a = int] by simp_all

lemma length_le_bytes [simp]: "length (le_bytes n v) = n"
  by (induction n arbitrary: v) auto

lemma le_value_bytes: "le_value (le_bytes n v) = v mod 256 ^ n"
proof (induction n arbitrary: v)
  case (Suc n)
  have "uint (word_of_int v :: byte) = v mod 256" by (simp add: unsigned_of_int take_bit_eq_mod)
  with Suc show ?case by (simp add: zmod_zmult2_eq)
qed simp

lemma le_value_range: "0 \<le> le_value b \<and> le_value b < 256 ^ length b"
proof (induction b)
  case (Cons x b)
  with byte_range [of x] show ?case by auto
qed simp

lemma le_bytes_value: "le_bytes (length b) (le_value b) = b"
proof (induction b)
  case (Cons x b)
  have "(uint x + 256 * le_value b) div 256 = le_value b" using byte_range [of x] by simp
  moreover have "(word_of_int (uint x + 256 * le_value b) :: byte) = x"
  proof -
    have "(256 :: byte) = 0" by simp
    then show ?thesis by (simp only: of_int_add of_int_mult of_int_numeral mult_zero_left add_0_right word_of_int_uint)
  qed
  ultimately show ?case using Cons by simp
qed simp

lemma le_bytes_inj: "le_bytes n v = le_bytes n w \<longleftrightarrow> v mod 256 ^ n = w mod 256 ^ n"
proof
  assume "le_bytes n v = le_bytes n w"
  then show "v mod 256 ^ n = w mod 256 ^ n" by (metis le_value_bytes)
next
  assume "v mod 256 ^ n = w mod 256 ^ n"
  then show "le_bytes n v = le_bytes n w" by (metis le_bytes_value le_value_bytes length_le_bytes)
qed

lemma be_value: "bytesToBigint b = le_value (rev b)"
proof -
  have "foldl (\<lambda>v x. v * 256 + uint x) a b = le_value (rev b) + a * 256 ^ length b" for a
  proof (induction b arbitrary: a)
    case (Cons x b)
    have snoc: "le_value (c @ [y]) = le_value c + uint y * 256 ^ length c" for c y
      by (induction c) (auto simp: algebra_simps)
    show ?case using Cons by (simp add: snoc algebra_simps)
  qed simp
  then show ?thesis by (simp add: bytesToBigint_def)
qed

section \<open>SHA-256\<close>

text \<open>The round constants, in the rows of the source.\<close>

definition K256 :: "word32 list" where
  "K256 = concat
    [[0x428a2f98, 0x71374491, 0xb5c0fbcf, 0xe9b5dba5, 0x3956c25b, 0x59f111f1, 0x923f82a4, 0xab1c5ed5],
     [0xd807aa98, 0x12835b01, 0x243185be, 0x550c7dc3, 0x72be5d74, 0x80deb1fe, 0x9bdc06a7, 0xc19bf174],
     [0xe49b69c1, 0xefbe4786, 0x0fc19dc6, 0x240ca1cc, 0x2de92c6f, 0x4a7484aa, 0x5cb0a9dc, 0x76f988da],
     [0x983e5152, 0xa831c66d, 0xb00327c8, 0xbf597fc7, 0xc6e00bf3, 0xd5a79147, 0x06ca6351, 0x14292967],
     [0x27b70a85, 0x2e1b2138, 0x4d2c6dfc, 0x53380d13, 0x650a7354, 0x766a0abb, 0x81c2c92e, 0x92722c85],
     [0xa2bfe8a1, 0xa81a664b, 0xc24b8b70, 0xc76c51a3, 0xd192e819, 0xd6990624, 0xf40e3585, 0x106aa070],
     [0x19a4c116, 0x1e376c08, 0x2748774c, 0x34b0bcb5, 0x391c0cb3, 0x4ed8aa4a, 0x5b9cca4f, 0x682e6ff3],
     [0x748f82ee, 0x78a5636f, 0x84c87814, 0x8cc70208, 0x90befffa, 0xa4506ceb, 0xbef9a3f7, 0xc67178f2]]"

type_synonym sha_state = "word32 \<times> word32 \<times> word32 \<times> word32 \<times> word32 \<times> word32 \<times> word32 \<times> word32"

definition sha_init :: sha_state where
  "sha_init = (0x6a09e667, 0xbb67ae85, 0x3c6ef372, 0xa54ff53a, 0x510e527f, 0x9b05688c, 0x1f83d9ab, 0x5be0cd19)"

text \<open>\<^verbatim>\<open>DataView.setUint32\<close> and \<^verbatim>\<open>getUint32\<close>, big-endian.\<close>

definition be32 :: "word32 \<Rightarrow> bytes" where
  "be32 v = [ucast (drop_bit 24 v), ucast (drop_bit 16 v), ucast (drop_bit 8 v), ucast v]"

definition setUint32 :: "nat \<Rightarrow> word32 \<Rightarrow> bytes \<Rightarrow> bytes" where
  "setUint32 off v xs = take off xs @ be32 v @ drop (off + 4) xs"

definition getUint32 :: "bytes \<Rightarrow> nat \<Rightarrow> word32" where
  "getUint32 xs off =
     push_bit 24 (ucast (xs ! off)) OR push_bit 16 (ucast (xs ! (off + 1))) OR push_bit 8 (ucast (xs ! (off + 2))) OR ucast (xs ! (off + 3))"

definition paddedLen :: "nat \<Rightarrow> nat" where
  "paddedLen n = ((n + 8) div 64 + 1) * 64"

definition sha_padded :: "bytes \<Rightarrow> bytes" where
  "sha_padded data =
     (let n = length data; m = paddedLen n; bitLen = int n * 8;
          p = data @ replicate (m - n) 0;
          p1 = p[n := 0x80];
          p2 = setUint32 (m - 4) (word_of_int bitLen) p1
      in setUint32 (m - 8) (word_of_int (bitLen div 2 ^ 32)) p2)"

definition rotr :: "word32 \<Rightarrow> nat \<Rightarrow> word32" where
  "rotr x n = drop_bit n x OR push_bit (32 - n) x"

definition sched_step :: "word32 list \<Rightarrow> word32 list" where
  "sched_step w =
     (let i = length w;
          s0 = rotr (w ! (i - 15)) 7 XOR rotr (w ! (i - 15)) 18 XOR drop_bit 3 (w ! (i - 15));
          s1 = rotr (w ! (i - 2)) 17 XOR rotr (w ! (i - 2)) 19 XOR drop_bit 10 (w ! (i - 2))
      in w @ [w ! (i - 16) + s0 + w ! (i - 7) + s1])"

definition schedule :: "bytes \<Rightarrow> word32 list" where
  "schedule block = (sched_step ^^ 48) (map (\<lambda>i. getUint32 block (i * 4)) [0..<16])"

definition sha_round :: "word32 \<times> word32 \<Rightarrow> sha_state \<Rightarrow> sha_state" where
  "sha_round kw st =
     (case st of (a, b, c, d, e, f, g, h) \<Rightarrow>
      let S1 = rotr e 6 XOR rotr e 11 XOR rotr e 25;
          ch = (e AND f) XOR (NOT e AND g);
          t1 = h + S1 + ch + fst kw + snd kw;
          S0 = rotr a 2 XOR rotr a 13 XOR rotr a 22;
          maj = (a AND b) XOR (a AND c) XOR (b AND c);
          t2 = S0 + maj
      in (t1 + t2, a, b, c, d + t1, e, f, g))"

definition sha_add :: "sha_state \<Rightarrow> sha_state \<Rightarrow> sha_state" where
  "sha_add x y =
     (case x of (h0, h1, h2, h3, h4, h5, h6, h7) \<Rightarrow> case y of (a, b, c, d, e, f, g, h) \<Rightarrow>
      (h0 + a, h1 + b, h2 + c, h3 + d, h4 + e, h5 + f, h6 + g, h7 + h))"

definition sha_block :: "bytes \<Rightarrow> sha_state \<Rightarrow> sha_state" where
  "sha_block block st = sha_add st (fold sha_round (zip K256 (schedule block)) st)"

fun sha_blocks :: "sha_state \<Rightarrow> bytes \<Rightarrow> sha_state" where
  "sha_blocks st [] = st"
| "sha_blocks st (x # xs) = sha_blocks (sha_block (take 64 (x # xs)) st) (drop 64 (x # xs))"

definition sha_out :: "sha_state \<Rightarrow> bytes" where
  "sha_out st =
     (case st of (h0, h1, h2, h3, h4, h5, h6, h7) \<Rightarrow> be32 h0 @ be32 h1 @ be32 h2 @ be32 h3 @ be32 h4 @ be32 h5 @ be32 h6 @ be32 h7)"

definition sha256Sync :: "bytes \<Rightarrow> bytes" where
  "sha256Sync data = sha_out (sha_blocks sha_init (sha_padded data))"

text \<open>\<^verbatim>\<open>TextEncoder\<close> on code points below 256.\<close>

definition utf8_char :: "char \<Rightarrow> bytes" where
  "utf8_char c =
     (let n = of_char c :: nat
      in if n < 128 then [word_of_nat n] else [word_of_nat (192 + n div 64), word_of_nat (128 + n mod 64)])"

definition fromAscii :: "string \<Rightarrow> bytes" where
  "fromAscii s = concat (map utf8_char s)"

definition pidToSeed32 :: "string \<Rightarrow> bytes result" where
  "pidToSeed32 pid =
     (let normalized = to_lower (trim pid)
      in if normalized = [] then Inl (JsError ''invalid pid'') else Inr (sha256Sync (fromAscii normalized)))"

subsection \<open>The standard\<close>

text \<open>FIPS 180-4: the padded message, the functions on words and the compression.\<close>

definition fips_pad :: "bytes \<Rightarrow> bytes" where
  "fips_pad m = m @ 0x80 # replicate ((119 - length m mod 64) mod 64) 0 @ rev (le_bytes 8 (8 * int (length m)))"

definition Ch :: "word32 \<Rightarrow> word32 \<Rightarrow> word32 \<Rightarrow> word32" where
  "Ch x y z = (x AND y) OR (NOT x AND z)"

definition Maj :: "word32 \<Rightarrow> word32 \<Rightarrow> word32 \<Rightarrow> word32" where
  "Maj x y z = (x AND y) OR (x AND z) OR (y AND z)"

definition big_sigma0 :: "word32 \<Rightarrow> word32" where
  "big_sigma0 x = word_rotr 2 x XOR word_rotr 13 x XOR word_rotr 22 x"

definition big_sigma1 :: "word32 \<Rightarrow> word32" where
  "big_sigma1 x = word_rotr 6 x XOR word_rotr 11 x XOR word_rotr 25 x"

definition small_sigma0 :: "word32 \<Rightarrow> word32" where
  "small_sigma0 x = word_rotr 7 x XOR word_rotr 18 x XOR drop_bit 3 x"

definition small_sigma1 :: "word32 \<Rightarrow> word32" where
  "small_sigma1 x = word_rotr 17 x XOR word_rotr 19 x XOR drop_bit 10 x"

fun fips_W :: "(nat \<Rightarrow> word32) \<Rightarrow> nat \<Rightarrow> word32" where
  "fips_W M t =
     (if t < 16 then M t
      else small_sigma1 (fips_W M (t - 2)) + fips_W M (t - 7) + small_sigma0 (fips_W M (t - 15)) + fips_W M (t - 16))"

declare fips_W.simps [simp del]

fun fips_rounds :: "(nat \<Rightarrow> word32) \<Rightarrow> nat \<Rightarrow> sha_state \<Rightarrow> sha_state" where
  "fips_rounds M 0 st = st"
| "fips_rounds M (Suc t) st =
     (case fips_rounds M t st of (a, b, c, d, e, f, g, h) \<Rightarrow>
      let T1 = h + big_sigma1 e + Ch e f g + K256 ! t + fips_W M t; T2 = big_sigma0 a + Maj a b c
      in (T1 + T2, a, b, c, d + T1, e, f, g))"

definition fips_word :: "bytes \<Rightarrow> nat \<Rightarrow> word32" where
  "fips_word block t = word_of_int (bytesToBigint (take 4 (drop (4 * t) block)))"

definition fips_block :: "bytes \<Rightarrow> sha_state \<Rightarrow> sha_state" where
  "fips_block block st = sha_add st (fips_rounds (fips_word block) 64 st)"

definition fips_sha256 :: "bytes \<Rightarrow> bytes" where
  "fips_sha256 m =
     (let p = fips_pad m; blocks = map (\<lambda>i. take 64 (drop (64 * i) p)) [0..<length p div 64]
      in case fold fips_block blocks sha_init of (h0, h1, h2, h3, h4, h5, h6, h7) \<Rightarrow>
         concat (map (\<lambda>h. rev (le_bytes 4 (uint h))) [h0, h1, h2, h3, h4, h5, h6, h7]))"

subsection \<open>Equivalence with the standard\<close>

lemma ucast_byte: "(ucast w :: byte) = word_of_int (uint w)" for w :: word32
  by (rule ucast_eq)

lemma byte_shift: "(ucast (drop_bit k v) :: byte) = word_of_int (uint v div 2 ^ k)" for v :: word32
proof -
  have "uint (drop_bit k v) = drop_bit k (take_bit LENGTH(32) (uint v))" by (rule unsigned_drop_bit_eq)
  moreover have "take_bit LENGTH(32) (uint v) = uint v" by (rule bintr_uint) simp
  ultimately have "uint (drop_bit k v) = uint v div 2 ^ k" by (simp only: drop_bit_eq_div)
  then show ?thesis by (simp only: ucast_byte)
qed

lemma le_bytes_4: "le_bytes 4 n = [word_of_int n, word_of_int (n div 2 ^ 8), word_of_int (n div 2 ^ 16), word_of_int (n div 2 ^ 24)]"
proof -
  have "n div 256 div 256 = n div 2 ^ 16" "n div 2 ^ 16 div 256 = n div 2 ^ 24" by (simp_all add: zdiv_zmult2_eq [symmetric])
  then show ?thesis by (simp add: eval_nat_numeral)
qed

lemma be32_le: "be32 v = rev (le_bytes 4 (uint v))"
proof -
  have "(ucast v :: byte) = word_of_int (uint v)" by (rule ucast_byte)
  then show ?thesis by (simp only: be32_def le_bytes_4 byte_shift rev.simps append.simps)
qed

lemma le_bytes_mod: "le_bytes n (v mod 256 ^ n) = le_bytes n v"
  by (simp add: le_bytes_inj)

lemma be32_of_int: "be32 (word_of_int v) = rev (le_bytes 4 v)"
proof -
  have "uint (word_of_int v :: word32) = v mod 256 ^ 4" by (simp add: unsigned_of_int take_bit_eq_mod)
  then show ?thesis by (simp only: be32_le le_bytes_mod)
qed

lemma le_bytes_append: "le_bytes (m + n) v = le_bytes m v @ le_bytes n (v div 256 ^ m)"
  by (induction m arbitrary: v) (simp_all add: zdiv_zmult2_eq)

lemma be64: "be32 (word_of_int (v div 2 ^ 32)) @ be32 (word_of_int v) = rev (le_bytes 8 v)"
  using le_bytes_append [of 4 4 v] by (simp add: be32_of_int)

lemma length_be32 [simp]: "length (be32 v) = 4"
  by (simp add: be32_def)

lemma setUint32_end: "length ys = 4 \<Longrightarrow> setUint32 (length xs) v (xs @ ys @ zs) = xs @ be32 v @ zs"
  by (simp add: setUint32_def)

lemma paddedLen_eq: "paddedLen n = n + 9 + (119 - n mod 64) mod 64"
proof -
  define q r where "q = n div 64" and "r = n mod 64"
  have n: "n = 64 * q + r" "r < 64" by (simp_all add: q_def r_def)
  have "(n + 8) div 64 = q + (r + 8) div 64" unfolding n(1) by simp
  moreover have "(r + 8) div 64 = (if r < 56 then 0 else 1)" using n(2) by auto
  moreover have "(119 - r) mod 64 = (if r < 56 then 55 - r else 119 - r)"
  proof (cases "r < 56")
    case True
    then have "119 - r = 64 + (55 - r)" by simp
    then have "(119 - r) mod 64 = (55 - r) mod 64" by (metis mod_add_self1)
    with True show ?thesis by simp
  next
    case False
    then show ?thesis by simp
  qed
  ultimately show ?thesis using n by (simp add: paddedLen_def r_def [symmetric])
qed

lemma sha_padded_fips: "sha_padded data = fips_pad data"
proof -
  let ?n = "length data" and ?b = "int (length data) * 8"
  define m where "m = paddedLen ?n"
  define z where "z = m - ?n - 9"
  have m: "m = ?n + 9 + z" using paddedLen_eq [of ?n] by (simp add: z_def m_def)
  have "data @ replicate (m - ?n) 0 = data @ 0 # replicate z 0 @ replicate 4 0 @ replicate 4 0"
  proof -
    have "m - ?n = Suc (z + 4 + 4)" by (simp add: m)
    then show ?thesis by (simp only: replicate.simps replicate_add append_assoc)
  qed
  then have p1: "(data @ replicate (m - ?n) 0)[?n := 0x80] = (data @ 0x80 # replicate z 0 @ replicate 4 0) @ replicate 4 0 @ []"
    by simp
  have l2: "m - 4 = length (data @ 0x80 # replicate z (0 :: byte) @ replicate 4 0)" by (simp add: m)
  have p2: "setUint32 (m - 4) (word_of_int ?b) ((data @ replicate (m - ?n) 0)[?n := 0x80])
      = (data @ 0x80 # replicate z 0) @ replicate 4 0 @ be32 (word_of_int ?b)"
    unfolding p1 l2 by (subst setUint32_end) simp_all
  have l3: "m - 8 = length (data @ 0x80 # replicate z (0 :: byte))" by (simp add: m)
  have "sha_padded data = setUint32 (m - 8) (word_of_int (?b div 2 ^ 32))
      ((data @ 0x80 # replicate z 0) @ replicate 4 0 @ be32 (word_of_int ?b))"
    unfolding sha_padded_def Let_def m_def [symmetric] p2 ..
  also have "\<dots> = (data @ 0x80 # replicate z 0) @ be32 (word_of_int (?b div 2 ^ 32)) @ be32 (word_of_int ?b)"
    unfolding l3 by (rule setUint32_end) simp
  also have "\<dots> = fips_pad data"
    unfolding be64 using paddedLen_eq [of ?n] by (simp add: fips_pad_def z_def m_def mult.commute)
  finally show ?thesis .
qed

lemma rotr_word_rotr: "0 < n \<Longrightarrow> n < 32 \<Longrightarrow> rotr x n = word_rotr n x"
proof (rule bit_word_eqI)
  fix k
  assume n: "0 < n" "n < 32" and k: "k < LENGTH(32)"
  show "bit (rotr x n) k = bit (word_rotr n x) k"
  proof (cases "k + n < 32")
    case True
    with n k show ?thesis by (auto simp: rotr_def bit_simps bit_word_rotr_iff add.commute)
  next
    case False
    then have "(k + n) mod 32 = k + n - 32" using n k by (simp add: mod_if)
    moreover have "\<not> bit x (n + k)" using False by (auto simp: bit_word.rep_eq not_less add.commute dest: bit_imp_le_length)
    ultimately show ?thesis using n k False by (auto simp: rotr_def bit_simps bit_word_rotr_iff)
  qed
qed

lemma ch_Ch: "(e AND f) XOR (NOT e AND g) = Ch e f g"
  unfolding Ch_def by (rule bit_word_eqI) (auto simp: bit_simps)

lemma maj_Maj: "(a AND b) XOR (a AND c) XOR (b AND c) = Maj a b c"
  unfolding Maj_def by (rule bit_word_eqI) (auto simp: bit_simps)

lemmas sigma_defs = big_sigma0_def big_sigma1_def small_sigma0_def small_sigma1_def

lemma sched_step_sigma:
  "sched_step w = w @ [w ! (length w - 16) + small_sigma0 (w ! (length w - 15)) + w ! (length w - 7) + small_sigma1 (w ! (length w - 2))]"
  by (simp add: sched_step_def Let_def rotr_word_rotr sigma_defs)

lemma schedule_W:
  assumes "ws = map M [0..<16]"
  shows "(sched_step ^^ k) ws = map (fips_W M) [0..<16 + k]"
proof (induction k)
  case 0
  have "fips_W M t = M t" if "t < 16" for t using that by (simp add: fips_W.simps [of M t])
  then show ?case using assms by simp
next
  case (Suc k)
  let ?t = "16 + k"
  have W: "fips_W M ?t = fips_W M k + small_sigma0 (fips_W M (k + 1)) + fips_W M (k + 9) + small_sigma1 (fips_W M (k + 14))"
    using fips_W.simps [of M ?t] by (simp add: ac_simps)
  have "(sched_step ^^ Suc k) ws = sched_step (map (fips_W M) [0..<16 + k])" using Suc by simp
  also have "\<dots> = map (fips_W M) [0..<?t] @ [fips_W M ?t]"
    unfolding sched_step_sigma W by (simp add: nth_append add.commute)
  also have "\<dots> = map (fips_W M) [0..<16 + Suc k]" by (simp only: add_Suc_right upt_Suc_append le0 map_append list.map)
  finally show ?case .
qed

lemma or_is_add: "a AND b = 0 \<Longrightarrow> a OR b = a + b" for a b :: word32
  by (simp add: disjunctive_add_eq_or)

lemma push_byte: "push_bit k (ucast b :: word32) = word_of_int (uint b * 2 ^ k)" for b :: byte
proof -
  have "(ucast b :: word32) = word_of_int (uint b)" by (rule ucast_eq)
  then show ?thesis by (simp only: push_bit_eq_mult of_int_mult of_int_power of_int_numeral)
qed

lemma getUint32_word:
  assumes "off + 4 \<le> length xs"
  shows "getUint32 xs off = word_of_int (bytesToBigint (take 4 (drop off xs)))"
proof -
  define a b c d where "a = xs ! off" and "b = xs ! (off + 1)" and "c = xs ! (off + 2)" and "d = xs ! (off + 3)"
  have "take 4 (drop off xs) = [a, b, c, d]"
    using assms by (intro nth_equalityI) (auto simp: a_def b_def c_def d_def less_Suc_eq numeral_eq_Suc)
  moreover have "getUint32 xs off = push_bit 24 (ucast a) + push_bit 16 (ucast b) + push_bit 8 (ucast c) + ucast d"
  proof -
    have "push_bit 8 (ucast c) AND ucast d = (0 :: word32)"
      "push_bit 16 (ucast b) AND (push_bit 8 (ucast c) OR ucast d) = (0 :: word32)"
      "push_bit 24 (ucast a) AND (push_bit 16 (ucast b) OR push_bit 8 (ucast c) OR ucast d) = (0 :: word32)"
      by (rule bit_word_eqI; auto simp: bit_simps dest: bit_imp_le_length)+
    then show ?thesis
      by (simp add: getUint32_def a_def b_def c_def d_def or_is_add ac_simps)
  qed
  moreover have "push_bit 24 (ucast a) + push_bit 16 (ucast b) + push_bit 8 (ucast c) + ucast d
      = (word_of_int (uint a * 2 ^ 24 + uint b * 2 ^ 16 + uint c * 2 ^ 8 + uint d) :: word32)"
    unfolding push_byte ucast_eq [of d] by (simp only: of_int_add)
  moreover have "bytesToBigint [a, b, c, d] = uint a * 2 ^ 24 + uint b * 2 ^ 16 + uint c * 2 ^ 8 + uint d"
    by (simp add: bytesToBigint_def)
  ultimately show ?thesis by (simp only:)
qed

lemma round_step:
  "fips_rounds M (Suc t) st = sha_round (K256 ! t, fips_W M t) (fips_rounds M t st)"
  by (simp add: sha_round_def Let_def rotr_word_rotr ch_Ch maj_Maj sigma_defs split: prod.splits)

lemma rounds_fold: "t \<le> 64 \<Longrightarrow> fips_rounds M t st = fold sha_round (zip (take t K256) (map (fips_W M) [0..<t])) st"
proof (induction t)
  case (Suc t)
  have "length K256 = 64" by (simp add: K256_def)
  with Suc.prems have "take (Suc t) K256 = take t K256 @ [K256 ! t]" "length (take t K256) = t" by (simp_all add: take_Suc_conv_app_nth)
  with Suc show ?case by (simp add: round_step del: fips_rounds.simps)
qed simp

lemma sha_block_fips: "length block = 64 \<Longrightarrow> sha_block block st = fips_block block st"
proof -
  assume len: "length block = 64"
  have words: "map (\<lambda>i. getUint32 block (i * 4)) [0..<16] = map (fips_word block) [0..<16]"
    using len by (intro map_cong refl) (simp add: getUint32_word fips_word_def mult.commute)
  have "schedule block = map (fips_W (fips_word block)) [0..<64]"
    unfolding schedule_def using schedule_W [OF words, of 48] by simp
  moreover have "take 64 K256 = K256" by (simp add: K256_def)
  ultimately show ?thesis
    using rounds_fold [of 64 "fips_word block" st] by (simp add: sha_block_def fips_block_def)
qed

definition chunks :: "bytes \<Rightarrow> bytes list" where
  "chunks p = map (\<lambda>i. take 64 (drop (64 * i) p)) [0..<length p div 64]"

lemma chunks_step:
  assumes "length p = 64 * Suc n"
  shows "chunks p = take 64 p # chunks (drop 64 p)"
proof -
  have "length p div 64 = Suc n" "length (drop 64 p) div 64 = n" using assms by simp_all
  then show ?thesis
    by (simp add: chunks_def upt_conv_Cons map_Suc_upt [symmetric] del: upt_Suc) (simp add: add.commute)
qed

lemma sha_blocks_chunks: "length p = 64 * n \<Longrightarrow> sha_blocks st p = fold fips_block (chunks p) st"
proof (induction n arbitrary: p st)
  case (Suc n)
  then obtain x xs where p: "p = x # xs" by (cases p) auto
  have "length (take 64 p) = 64" "length (drop 64 p) = 64 * n" using Suc.prems by simp_all
  with Suc.IH chunks_step [OF Suc.prems] show ?case by (simp add: p sha_block_fips del: take_Suc_Cons drop_Suc_Cons)
qed (simp add: chunks_def)

text \<open>C20: the synchronous SHA-256 of the core is the standard's SHA-256: on every byte string \<^verbatim>\<open>sha256Sync\<close> computes the function
  of FIPS 180-4, with its padding, message schedule, rounds and big-endian digest.\<close>

theorem sha256_is_fips: "sha256Sync data = fips_sha256 data"
proof -
  have "length (fips_pad data) = paddedLen (length data)" by (simp add: fips_pad_def paddedLen_eq)
  then obtain n where "length (fips_pad data) = 64 * n" by (metis paddedLen_def mult.commute)
  then have "sha_blocks sha_init (fips_pad data) = fold fips_block (chunks (fips_pad data)) sha_init" by (rule sha_blocks_chunks)
  then show ?thesis
    by (simp add: sha256Sync_def sha_padded_fips fips_sha256_def Let_def chunks_def sha_out_def be32_le split: prod.splits)
qed

end
