(* ===== verification/Core_Payload.thy ===== *)
theory Core_Payload
  imports Core_Bytes
begin

unbundle bit_operations_syntax

text \<open>
  The signed payloads of the smart account on Solana, \<^verbatim>\<open>packages/core/src/hash.ts\<close>: what a passkey signs is the SHA-256
  hash of a version domain, an operation tag and the fields of the intent. SHA-256 is \<^verbatim>\<open>crypto.subtle.digest\<close>, the
  parameter \<open>H\<close>; the derivation of program addresses (\<^verbatim>\<open>PublicKey.findProgramAddressSync\<close>) is the parameter \<open>pda\<close>. A
  \<^verbatim>\<open>PublicKey\<close> is its 32 bytes. The last part shows that a payload determines the version, the operation and every field.
\<close>

type_synonym pubkey = bytes

section \<open>Domains and tags\<close>

definition DOMAIN :: bytes where "DOMAIN = fromAscii ''PID|SOLANA|SMART_ACCOUNT|v1''"
definition DOMAIN_V2 :: bytes where "DOMAIN_V2 = fromAscii ''PID|SOLANA|SMART_ACCOUNT|v2''"
definition DOMAIN_V3 :: bytes where "DOMAIN_V3 = fromAscii ''PID|SOLANA|SMART_ACCOUNT|v3''"
definition DOMAIN_V4 :: bytes where "DOMAIN_V4 = fromAscii ''PID|SOLANA|SMART_ACCOUNT|v4''"
definition DOMAIN_V5 :: bytes where "DOMAIN_V5 = fromAscii ''PID|SOLANA|SMART_ACCOUNT|v5''"
definition DOMAIN_SESSION :: bytes where "DOMAIN_SESSION = fromAscii ''PID|SOLANA|SESSION|v1''"

datatype OP = OP_initialize | OP_withdrawSol | OP_withdrawToken | OP_updateAuthority | OP_close | OP_activate | OP_execute

fun OP_tag :: "OP \<Rightarrow> int" where
  "OP_tag OP_initialize = 0"
| "OP_tag OP_withdrawSol = 1"
| "OP_tag OP_withdrawToken = 2"
| "OP_tag OP_updateAuthority = 3"
| "OP_tag OP_close = 4"
| "OP_tag OP_activate = 5"
| "OP_tag OP_execute = 6"

datatype OP_V4 = OP_V4_withdrawSol | OP_V4_withdrawToken | OP_V4_execute | OP_V4_activate

fun OP_V4_tag :: "OP_V4 \<Rightarrow> int" where
  "OP_V4_tag OP_V4_withdrawSol = 11"
| "OP_V4_tag OP_V4_withdrawToken = 12"
| "OP_V4_tag OP_V4_execute = 13"
| "OP_V4_tag OP_V4_activate = 14"

datatype OP_V5 = OP_V5_updateAuthority | OP_V5_execute

fun OP_V5_tag :: "OP_V5 \<Rightarrow> int" where
  "OP_V5_tag OP_V5_updateAuthority = 20"
| "OP_V5_tag OP_V5_execute = 21"

datatype OP_CLOSE = OP_CLOSE_request | OP_CLOSE_cancel

fun OP_CLOSE_tag :: "OP_CLOSE \<Rightarrow> int" where
  "OP_CLOSE_tag OP_CLOSE_request = 33"
| "OP_CLOSE_tag OP_CLOSE_cancel = 34"

datatype OP_SESSION = OP_registerSession | OP_sessionExecute | OP_revokeSession | OP_closeSession

fun OP_SESSION_tag :: "OP_SESSION \<Rightarrow> int" where
  "OP_SESSION_tag OP_registerSession = 7"
| "OP_SESSION_tag OP_sessionExecute = 8"
| "OP_SESSION_tag OP_revokeSession = 9"
| "OP_SESSION_tag OP_closeSession = 10"

section \<open>Payload builders\<close>

subsection \<open>V1\<close>

definition buildAuthorizationPayload :: "(bytes \<Rightarrow> bytes) \<Rightarrow> bytes list \<Rightarrow> bytes" where
  "buildAuthorizationPayload H parts = H (DOMAIN @ concat parts)"

definition buildWithdrawPayload :: "(bytes \<Rightarrow> bytes) \<Rightarrow> int \<Rightarrow> int \<Rightarrow> pubkey \<Rightarrow> int \<Rightarrow> int \<Rightarrow> pubkey \<Rightarrow> bytes" where
  "buildWithdrawPayload H nonce amount destination expiry relayFeeLamports treasury =
     buildAuthorizationPayload H [u64le nonce, u64le amount, destination, i64le expiry, u64le relayFeeLamports, treasury]"

definition buildWithdrawTokenPayload ::
    "(bytes \<Rightarrow> bytes) \<Rightarrow> int \<Rightarrow> int \<Rightarrow> pubkey \<Rightarrow> int \<Rightarrow> int \<Rightarrow> pubkey \<Rightarrow> pubkey \<Rightarrow> bytes" where
  "buildWithdrawTokenPayload H nonce amount destinationAta expiry relayFeeLamports treasury sourceAta =
     buildAuthorizationPayload H
       [u64le nonce, u64le amount, destinationAta, i64le expiry, u64le relayFeeLamports, treasury, sourceAta]"

definition buildInitializePayload :: "(bytes \<Rightarrow> bytes) \<Rightarrow> bytes \<Rightarrow> bytes \<Rightarrow> bytes" where
  "buildInitializePayload H accountId32 authorityCompressed =
     buildAuthorizationPayload H [accountId32, authorityCompressed]"

definition buildActivatePayload :: "(bytes \<Rightarrow> bytes) \<Rightarrow> bytes \<Rightarrow> bytes \<Rightarrow> int \<Rightarrow> int \<Rightarrow> pubkey \<Rightarrow> bytes" where
  "buildActivatePayload H accountId32 authorityCompressed activationFeeLamports expiry treasury =
     buildAuthorizationPayload H [accountId32, authorityCompressed, u64le activationFeeLamports, i64le expiry, treasury]"

definition buildWebAuthnMessage :: "(bytes \<Rightarrow> bytes) \<Rightarrow> bytes \<Rightarrow> bytes \<Rightarrow> bytes" where
  "buildWebAuthnMessage H authenticatorData clientDataJSON = authenticatorData @ H clientDataJSON"

subsection \<open>V2\<close>

definition buildAuthorizationPayloadV2 :: "(bytes \<Rightarrow> bytes) \<Rightarrow> int \<Rightarrow> bytes list \<Rightarrow> bytes" where
  "buildAuthorizationPayloadV2 H opTag parts = H (DOMAIN_V2 @ [word_of_int opTag] @ concat parts)"

definition buildWithdrawPayloadV2 ::
    "(bytes \<Rightarrow> bytes) \<Rightarrow> bytes \<Rightarrow> int \<Rightarrow> int \<Rightarrow> pubkey \<Rightarrow> int \<Rightarrow> int \<Rightarrow> int \<Rightarrow> bytes" where
  "buildWithdrawPayloadV2 H accountId32 nonce amount destination expiry maxFeeLamports feePolicyVersion =
     buildAuthorizationPayloadV2 H (OP_tag OP_withdrawSol)
       [accountId32, u64le nonce, u64le amount, destination, i64le expiry, u64le maxFeeLamports, u16le feePolicyVersion]"

definition buildWithdrawTokenPayloadV2 ::
    "(bytes \<Rightarrow> bytes) \<Rightarrow> bytes \<Rightarrow> int \<Rightarrow> int \<Rightarrow> pubkey \<Rightarrow> int \<Rightarrow> int \<Rightarrow> int \<Rightarrow> pubkey \<Rightarrow> bytes" where
  "buildWithdrawTokenPayloadV2 H accountId32 nonce amount destinationAta expiry maxFeeLamports feePolicyVersion sourceAta =
     buildAuthorizationPayloadV2 H (OP_tag OP_withdrawToken)
       [accountId32, u64le nonce, u64le amount, destinationAta, i64le expiry, u64le maxFeeLamports,
        u16le feePolicyVersion, sourceAta]"

definition buildInitializePayloadV2 :: "(bytes \<Rightarrow> bytes) \<Rightarrow> bytes \<Rightarrow> bytes \<Rightarrow> bytes" where
  "buildInitializePayloadV2 H accountId32 authorityCompressed =
     buildAuthorizationPayloadV2 H (OP_tag OP_initialize) [accountId32, authorityCompressed]"

definition buildActivatePayloadV2 :: "(bytes \<Rightarrow> bytes) \<Rightarrow> bytes \<Rightarrow> bytes \<Rightarrow> int \<Rightarrow> int \<Rightarrow> int \<Rightarrow> bytes" where
  "buildActivatePayloadV2 H accountId32 authorityCompressed maxFeeLamports feePolicyVersion expiry =
     buildAuthorizationPayloadV2 H (OP_tag OP_activate)
       [accountId32, authorityCompressed, u64le maxFeeLamports, u16le feePolicyVersion, i64le expiry]"

definition buildUpdateAuthorityPayloadV2 :: "(bytes \<Rightarrow> bytes) \<Rightarrow> bytes \<Rightarrow> int \<Rightarrow> bytes \<Rightarrow> int \<Rightarrow> bytes" where
  "buildUpdateAuthorityPayloadV2 H accountId32 nonce newAuthorityCompressed expiry =
     buildAuthorizationPayloadV2 H (OP_tag OP_updateAuthority)
       [accountId32, u64le nonce, newAuthorityCompressed, i64le expiry]"

definition buildClosePayloadV2 :: "(bytes \<Rightarrow> bytes) \<Rightarrow> bytes \<Rightarrow> int \<Rightarrow> pubkey \<Rightarrow> int \<Rightarrow> bytes" where
  "buildClosePayloadV2 H accountId32 nonce destination expiry =
     buildAuthorizationPayloadV2 H (OP_tag OP_close) [accountId32, u64le nonce, destination, i64le expiry]"

subsection \<open>V3\<close>

definition buildAuthorizationPayloadV3 :: "(bytes \<Rightarrow> bytes) \<Rightarrow> int \<Rightarrow> bytes list \<Rightarrow> bytes" where
  "buildAuthorizationPayloadV3 H opTag parts = H (DOMAIN_V3 @ [word_of_int opTag] @ concat parts)"

definition buildWithdrawPayloadV3 ::
    "(bytes \<Rightarrow> bytes) \<Rightarrow> bytes \<Rightarrow> int \<Rightarrow> int \<Rightarrow> pubkey \<Rightarrow> int \<Rightarrow> int \<Rightarrow> bytes" where
  "buildWithdrawPayloadV3 H accountId32 nonce amount destination expiry feePolicyVersion =
     buildAuthorizationPayloadV3 H (OP_tag OP_withdrawSol)
       [accountId32, u64le nonce, u64le amount, destination, i64le expiry, u16le feePolicyVersion]"

definition buildWithdrawTokenPayloadV3 ::
    "(bytes \<Rightarrow> bytes) \<Rightarrow> bytes \<Rightarrow> int \<Rightarrow> int \<Rightarrow> pubkey \<Rightarrow> int \<Rightarrow> int \<Rightarrow> pubkey \<Rightarrow> bytes" where
  "buildWithdrawTokenPayloadV3 H accountId32 nonce amount destinationAta expiry feePolicyVersion sourceAta =
     buildAuthorizationPayloadV3 H (OP_tag OP_withdrawToken)
       [accountId32, u64le nonce, u64le amount, destinationAta, i64le expiry, u16le feePolicyVersion, sourceAta]"

definition buildInitializePayloadV3 :: "(bytes \<Rightarrow> bytes) \<Rightarrow> bytes \<Rightarrow> bytes \<Rightarrow> bytes" where
  "buildInitializePayloadV3 H accountId32 authorityCompressed =
     buildAuthorizationPayloadV3 H (OP_tag OP_initialize) [accountId32, authorityCompressed]"

definition buildActivatePayloadV3 :: "(bytes \<Rightarrow> bytes) \<Rightarrow> bytes \<Rightarrow> bytes \<Rightarrow> int \<Rightarrow> int \<Rightarrow> bytes" where
  "buildActivatePayloadV3 H accountId32 authorityCompressed feePolicyVersion expiry =
     buildAuthorizationPayloadV3 H (OP_tag OP_activate)
       [accountId32, authorityCompressed, u16le feePolicyVersion, i64le expiry]"

definition buildUpdateAuthorityPayloadV3 :: "(bytes \<Rightarrow> bytes) \<Rightarrow> bytes \<Rightarrow> int \<Rightarrow> bytes \<Rightarrow> int \<Rightarrow> bytes" where
  "buildUpdateAuthorityPayloadV3 H accountId32 nonce newAuthorityCompressed expiry =
     buildAuthorizationPayloadV3 H (OP_tag OP_updateAuthority)
       [accountId32, u64le nonce, newAuthorityCompressed, i64le expiry]"

definition buildClosePayloadV3 :: "(bytes \<Rightarrow> bytes) \<Rightarrow> bytes \<Rightarrow> int \<Rightarrow> pubkey \<Rightarrow> int \<Rightarrow> bytes" where
  "buildClosePayloadV3 H accountId32 nonce destination expiry =
     buildAuthorizationPayloadV3 H (OP_tag OP_close) [accountId32, u64le nonce, destination, i64le expiry]"

definition buildCloseRequestPayload :: "(bytes \<Rightarrow> bytes) \<Rightarrow> bytes \<Rightarrow> int \<Rightarrow> pubkey \<Rightarrow> int \<Rightarrow> bytes" where
  "buildCloseRequestPayload H accountId32 nonce destination expiry =
     buildAuthorizationPayloadV3 H (OP_CLOSE_tag OP_CLOSE_request) [accountId32, u64le nonce, destination, i64le expiry]"

definition buildCloseCancelPayload :: "(bytes \<Rightarrow> bytes) \<Rightarrow> bytes \<Rightarrow> int \<Rightarrow> int \<Rightarrow> bytes" where
  "buildCloseCancelPayload H accountId32 nonce expiry =
     buildAuthorizationPayloadV3 H (OP_CLOSE_tag OP_CLOSE_cancel) [accountId32, u64le nonce, i64le expiry]"

record ExecuteMeta =
  em_address :: pubkey
  em_writable :: bool
  em_signer :: bool

definition MAX_EXECUTE_METAS :: nat where "MAX_EXECUTE_METAS = 64"
definition MAX_EXECUTE_DATA :: nat where "MAX_EXECUTE_DATA = 10240"

text \<open>The flag byte: bit 0 the first flag, bit 1 the second.\<close>

definition meta_flags :: "bool \<Rightarrow> bool \<Rightarrow> byte" where
  "meta_flags writable signer = (if writable then 1 else 0) OR (if signer then 2 else 0)"

definition serializeExecuteCall :: "pubkey \<Rightarrow> ExecuteMeta list \<Rightarrow> bytes \<Rightarrow> bytes result" where
  "serializeExecuteCall target metas data =
     (if length metas > MAX_EXECUTE_METAS then Inl (JsError (''too many execute metas ('' @ show_nat (length metas) @ '')''))
      else if length data > MAX_EXECUTE_DATA then Inl (JsError (''execute data too large ('' @ show_nat (length data) @ '')''))
      else Inr (target @ [word_of_nat (length metas)]
                @ concat (map (\<lambda>m. em_address m @ [meta_flags (em_writable m) (em_signer m)]) metas)
                @ u16le (int (length data)) @ data))"

definition executeCallHash :: "(bytes \<Rightarrow> bytes) \<Rightarrow> pubkey \<Rightarrow> ExecuteMeta list \<Rightarrow> bytes \<Rightarrow> bytes result" where
  "executeCallHash H target metas data = bind_result (serializeExecuteCall target metas data) (\<lambda>b. Inr (H b))"

definition buildExecutePayloadV3 :: "(bytes \<Rightarrow> bytes) \<Rightarrow> bytes \<Rightarrow> int \<Rightarrow> int \<Rightarrow> int \<Rightarrow> bytes \<Rightarrow> bytes result" where
  "buildExecutePayloadV3 H accountId32 nonce expiry feePolicyVersion callHash32 =
     (if length callHash32 \<noteq> 32 then Inl (JsError ''callHash32 must be 32 bytes'')
      else Inr (buildAuthorizationPayloadV3 H (OP_tag OP_execute)
                  [accountId32, u64le nonce, i64le expiry, u16le feePolicyVersion, callHash32]))"

subsection \<open>V4 and the fee split\<close>

definition buildAuthorizationPayloadV4 :: "(bytes \<Rightarrow> bytes) \<Rightarrow> int \<Rightarrow> bytes list \<Rightarrow> bytes" where
  "buildAuthorizationPayloadV4 H opTag parts = H (DOMAIN_V4 @ [word_of_int opTag] @ concat parts)"

record attested_split =
  relayerFee :: int
  protocolFee :: int
  totalFee :: int

definition PROTOCOL_FEE_BPS_V2 :: int where "PROTOCOL_FEE_BPS_V2 = 5000"
definition CHAIN_MIN_LAMPORTS_V2 :: int where "CHAIN_MIN_LAMPORTS_V2 = 0"

definition splitAttestedFeeV2 :: "int \<Rightarrow> int \<Rightarrow> int \<Rightarrow> attested_split result" where
  "splitAttestedFeeV2 networkFee bps chainMin =
     (if networkFee < 0 then Inl (JsError ''fees must be non-negative'')
      else let fee = bigdiv (networkFee * bps) 10000
           in Inr \<lparr>relayerFee = networkFee, protocolFee = fee, totalFee = networkFee + fee\<rparr>)"

definition solanaFeeV2Row :: "int \<times> int" where
  "solanaFeeV2Row = (PROTOCOL_FEE_BPS_V2, CHAIN_MIN_LAMPORTS_V2)"

definition buildWithdrawSolPayloadV4 ::
    "(bytes \<Rightarrow> bytes) \<Rightarrow> bytes \<Rightarrow> int \<Rightarrow> int \<Rightarrow> pubkey \<Rightarrow> int \<Rightarrow> int \<Rightarrow> int \<Rightarrow> bytes" where
  "buildWithdrawSolPayloadV4 H accountId32 nonce amount destination expiry feePolicyVersion maxTotalFee =
     buildAuthorizationPayloadV4 H (OP_V4_tag OP_V4_withdrawSol)
       [accountId32, u64le nonce, u64le amount, destination, i64le expiry, u16le feePolicyVersion, u64le maxTotalFee]"

definition buildWithdrawTokenPayloadV4 ::
    "(bytes \<Rightarrow> bytes) \<Rightarrow> bytes \<Rightarrow> int \<Rightarrow> int \<Rightarrow> pubkey \<Rightarrow> int \<Rightarrow> int \<Rightarrow> int \<Rightarrow> pubkey \<Rightarrow> bytes" where
  "buildWithdrawTokenPayloadV4 H accountId32 nonce amount destinationAta expiry feePolicyVersion maxTotalFee sourceAta =
     buildAuthorizationPayloadV4 H (OP_V4_tag OP_V4_withdrawToken)
       [accountId32, u64le nonce, u64le amount, destinationAta, i64le expiry, u16le feePolicyVersion,
        u64le maxTotalFee, sourceAta]"

definition buildExecutePayloadV4 ::
    "(bytes \<Rightarrow> bytes) \<Rightarrow> bytes \<Rightarrow> int \<Rightarrow> int \<Rightarrow> int \<Rightarrow> int \<Rightarrow> bytes \<Rightarrow> bytes result" where
  "buildExecutePayloadV4 H accountId32 nonce expiry feePolicyVersion maxTotalFee callHash32 =
     (if length callHash32 \<noteq> 32 then Inl (JsError ''callHash32 must be 32 bytes'')
      else Inr (buildAuthorizationPayloadV4 H (OP_V4_tag OP_V4_execute)
                  [accountId32, u64le nonce, i64le expiry, u16le feePolicyVersion, u64le maxTotalFee, callHash32]))"

definition buildActivatePayloadV4 :: "(bytes \<Rightarrow> bytes) \<Rightarrow> bytes \<Rightarrow> bytes \<Rightarrow> int \<Rightarrow> int \<Rightarrow> int \<Rightarrow> bytes result" where
  "buildActivatePayloadV4 H accountId32 authorityCompressed feePolicyVersion maxTotalFee expiry =
     (if length authorityCompressed \<noteq> 33 then Inl (JsError ''authority must be the 33-byte compressed pubkey'')
      else Inr (buildAuthorizationPayloadV4 H (OP_V4_tag OP_V4_activate)
                  [accountId32, authorityCompressed, u16le feePolicyVersion, u64le maxTotalFee, i64le expiry]))"

subsection \<open>V5\<close>

definition buildAuthorizationPayloadV5 :: "(bytes \<Rightarrow> bytes) \<Rightarrow> int \<Rightarrow> bytes \<Rightarrow> bytes \<Rightarrow> bytes list \<Rightarrow> bytes result" where
  "buildAuthorizationPayloadV5 H opTag programId32 clusterId32 parts =
     (if length programId32 \<noteq> 32 then Inl (JsError ''programId32 must be 32 bytes'')
      else if length clusterId32 \<noteq> 32 then Inl (JsError ''clusterId32 must be 32 bytes'')
      else Inr (H (DOMAIN_V5 @ [word_of_int opTag] @ programId32 @ clusterId32 @ concat parts)))"

definition buildUpdateAuthorityPayloadV5 ::
    "(bytes \<Rightarrow> bytes) \<Rightarrow> bytes \<Rightarrow> bytes \<Rightarrow> bytes \<Rightarrow> int \<Rightarrow> bytes \<Rightarrow> int \<Rightarrow> bytes result" where
  "buildUpdateAuthorityPayloadV5 H programId32 clusterId32 accountId32 nonce newAuthorityCompressed expiry =
     (if length newAuthorityCompressed \<noteq> 33 then Inl (JsError ''new authority must be the 33-byte compressed pubkey'')
      else buildAuthorizationPayloadV5 H (OP_V5_tag OP_V5_updateAuthority) programId32 clusterId32
             [accountId32, u64le nonce, newAuthorityCompressed, i64le expiry])"

definition buildExecutePayloadV5 ::
    "(bytes \<Rightarrow> bytes) \<Rightarrow> bytes \<Rightarrow> bytes \<Rightarrow> bytes \<Rightarrow> int \<Rightarrow> int \<Rightarrow> int \<Rightarrow> bytes \<Rightarrow> bytes result" where
  "buildExecutePayloadV5 H programId32 clusterId32 accountId32 nonce expiry feePolicyVersion callHash32 =
     (if length callHash32 \<noteq> 32 then Inl (JsError ''callHash32 must be 32 bytes'')
      else buildAuthorizationPayloadV5 H (OP_V5_tag OP_V5_execute) programId32 clusterId32
             [accountId32, u64le nonce, i64le expiry, u16le feePolicyVersion, callHash32])"

subsection \<open>Sessions\<close>

definition buildSessionPayload :: "(bytes \<Rightarrow> bytes) \<Rightarrow> int \<Rightarrow> bytes list \<Rightarrow> bytes" where
  "buildSessionPayload H opTag parts = H (DOMAIN_SESSION @ [word_of_int opTag] @ concat parts)"

definition u8le :: "int \<Rightarrow> bytes" where "u8le v = [word_of_int v]"

record register_session =
  rs_accountId32 :: bytes
  rs_nonce :: int
  rs_sessionPubkey :: pubkey
  rs_allowedProgram :: pubkey
  rs_expiresAt :: int
  rs_recordedHasAuthority :: bool
  rs_recordedAuthority :: bytes
  rs_recordedSlot :: int
  rs_expiry :: int

definition buildRegisterSessionPayload :: "(bytes \<Rightarrow> bytes) \<Rightarrow> register_session \<Rightarrow> bytes result" where
  "buildRegisterSessionPayload H args =
     (if length (rs_recordedAuthority args) \<noteq> 32 then Inl (JsError ''recordedAuthority must be 32 bytes'')
      else Inr (buildSessionPayload H (OP_SESSION_tag OP_registerSession)
        [rs_accountId32 args, u64le (rs_nonce args), rs_sessionPubkey args, rs_allowedProgram args,
         i64le (rs_expiresAt args), u8le (if rs_recordedHasAuthority args then 1 else 0), rs_recordedAuthority args,
         u64le (rs_recordedSlot args), i64le (rs_expiry args)]))"

definition buildRevokeSessionPayload :: "(bytes \<Rightarrow> bytes) \<Rightarrow> bytes \<Rightarrow> pubkey \<Rightarrow> int \<Rightarrow> int \<Rightarrow> bytes" where
  "buildRevokeSessionPayload H accountId32 sessionPubkey nonce expiry =
     buildSessionPayload H (OP_SESSION_tag OP_revokeSession) [accountId32, sessionPubkey, u64le nonce, i64le expiry]"

definition buildCloseSessionPayload :: "(bytes \<Rightarrow> bytes) \<Rightarrow> bytes \<Rightarrow> pubkey \<Rightarrow> pubkey \<Rightarrow> int \<Rightarrow> int \<Rightarrow> bytes" where
  "buildCloseSessionPayload H accountId32 sessionPubkey destination nonce expiry =
     buildSessionPayload H (OP_SESSION_tag OP_closeSession)
       [accountId32, sessionPubkey, destination, u64le nonce, i64le expiry]"

record SessionMeta =
  sm_address :: pubkey
  sm_writable :: bool
  sm_sessionSigner :: bool

definition MAX_SESSION_METAS :: nat where "MAX_SESSION_METAS = 32"

definition serializeSessionMetas :: "SessionMeta list \<Rightarrow> bytes result" where
  "serializeSessionMetas metas =
     (if metas = [] \<or> length metas > MAX_SESSION_METAS
      then Inl (JsError (''session metas must be 1..'' @ show_nat MAX_SESSION_METAS))
      else Inr ([word_of_nat (length metas)]
                @ concat (map (\<lambda>m. sm_address m @ [meta_flags (sm_writable m) (sm_sessionSigner m)]) metas)))"

section \<open>Program addresses\<close>

text \<open>\<open>pda seeds program\<close> is \<^verbatim>\<open>PublicKey.findProgramAddressSync\<close>: an address and a bump. \<open>None\<close> is an argument left out;
  \<open>PID\<close> and \<open>LOADER\<close> are the 32 bytes of \<^verbatim>\<open>PID_PROGRAM_ID\<close> and \<^verbatim>\<open>BPF_LOADER_UPGRADEABLE\<close>.\<close>

type_synonym pda = "bytes list \<Rightarrow> pubkey \<Rightarrow> pubkey \<times> nat"

definition vaultKeyHash :: "bytes \<Rightarrow> bytes result" where
  "vaultKeyHash authority =
     (if length authority \<noteq> 33 then Inl (JsError ''vault authority must be 33 bytes'') else Inr (sha256Sync authority))"

definition deriveSmartAccountAddress :: "pda \<Rightarrow> pubkey \<Rightarrow> string \<Rightarrow> bytes option \<Rightarrow> pubkey option \<Rightarrow> (pubkey \<times> nat) result" where
  "deriveSmartAccountAddress pda PID pid authority programId =
     bind_result (pidToSeed32 pid) (\<lambda>seed.
       let seeds = [fromAscii ''peridot_id'', fromAscii ''account'', seed]
       in case authority of
            None \<Rightarrow> Inr (pda seeds (nullish programId PID))
          | Some key \<Rightarrow> bind_result (vaultKeyHash key) (\<lambda>h. Inr (pda (seeds @ [h]) (nullish programId PID))))"

definition deriveSessionAddress ::
    "pda \<Rightarrow> pubkey \<Rightarrow> bytes \<Rightarrow> bytes option \<Rightarrow> pubkey option \<Rightarrow> pubkey option \<Rightarrow> (pubkey \<times> nat) result" where
  "deriveSessionAddress pda PID accountId32 authority sessionPubkey programId =
     (if length accountId32 \<noteq> 32 then Inl (JsError ''accountId32 must be 32 bytes'')
      else case sessionPubkey of
        None \<Rightarrow> Inl (JsError ''bound session derivation needs the session pubkey'')
      | Some session \<Rightarrow>
          let seeds = [fromAscii ''peridot_id'', fromAscii ''session'', accountId32]
          in (case authority of
               None \<Rightarrow> Inr (pda (seeds @ [session]) (nullish programId PID))
             | Some key \<Rightarrow> bind_result (vaultKeyHash key) (\<lambda>h. Inr (pda (seeds @ [h, session]) (nullish programId PID)))))"

definition deriveTicketAddress :: "pda \<Rightarrow> pubkey \<Rightarrow> bytes \<Rightarrow> bytes \<Rightarrow> pubkey option \<Rightarrow> (pubkey \<times> nat) result" where
  "deriveTicketAddress pda PID accountId32 authority programId =
     (if length accountId32 \<noteq> 32 then Inl (JsError ''accountId32 must be 32 bytes'')
      else bind_result (vaultKeyHash authority) (\<lambda>h.
        Inr (pda [fromAscii ''peridot_id'', fromAscii ''close'', accountId32, h] (nullish programId PID))))"

definition deriveTombstoneAddress :: "pda \<Rightarrow> pubkey \<Rightarrow> bytes \<Rightarrow> pubkey option \<Rightarrow> (pubkey \<times> nat) result" where
  "deriveTombstoneAddress pda PID accountId32 programId =
     (if length accountId32 \<noteq> 32 then Inl (JsError ''accountId32 must be 32 bytes'')
      else Inr (pda [fromAscii ''peridot_id'', fromAscii ''tombstone'', accountId32] (nullish programId PID)))"

definition deriveProgramDataAddress :: "pda \<Rightarrow> pubkey \<Rightarrow> pubkey \<Rightarrow> pubkey \<times> nat" where
  "deriveProgramDataAddress pda LOADER programId = pda [programId] LOADER"

section \<open>Field encoders\<close>

text \<open>What a payload relies on of every field: a fixed width, and different values have different bytes.\<close>

locale field_encoder =
  fixes enc :: "'a \<Rightarrow> bytes" and width :: nat and ok :: "'a \<Rightarrow> bool"
  assumes enc_length: "ok x \<Longrightarrow> length (enc x) = width"
    and enc_inject: "ok x \<Longrightarrow> ok y \<Longrightarrow> enc x = enc y \<Longrightarrow> x = y"
begin

lemma field_eq: "ok x \<Longrightarrow> ok y \<Longrightarrow> enc x = enc y \<longleftrightarrow> x = y"
  using enc_inject by blast

lemma field_split: "ok x \<Longrightarrow> ok y \<Longrightarrow> enc x @ r = enc y @ r' \<longleftrightarrow> x = y \<and> r = r'"
  using enc_length enc_inject by (metis append_eq_append_conv)

lemma fields_eq:
  "list_all ok xs \<Longrightarrow> list_all ok ys \<Longrightarrow> length xs = length ys \<Longrightarrow>
     concat (map enc xs) @ r = concat (map enc ys) @ r' \<longleftrightarrow> xs = ys \<and> r = r'"
proof (induction xs arbitrary: ys)
  case (Cons x xs)
  then show ?case by (cases ys) (auto simp: field_split)
qed simp

end

definition is_u64 :: "int \<Rightarrow> bool" where "is_u64 v \<longleftrightarrow> 0 \<le> v \<and> v < 2 ^ 64"
definition is_i64 :: "int \<Rightarrow> bool" where "is_i64 v \<longleftrightarrow> - (2 ^ 63) \<le> v \<and> v < 2 ^ 63"
definition is_u16 :: "int \<Rightarrow> bool" where "is_u16 v \<longleftrightarrow> 0 \<le> v \<and> v < 2 ^ 16"
definition key32 :: "bytes \<Rightarrow> bool" where "key32 b \<longleftrightarrow> length b = 32"
definition key33 :: "bytes \<Rightarrow> bool" where "key33 b \<longleftrightarrow> length b = 33"

lemma u16le_bytes: "u16le v = le_bytes 2 v"
  by (simp add: u16le_def eval_nat_numeral)

lemma i64_mod: "is_i64 v \<Longrightarrow> is_i64 w \<Longrightarrow> v mod 2 ^ 64 = w mod 2 ^ 64 \<Longrightarrow> v = w"
proof -
  assume range: "is_i64 v" "is_i64 w" and "v mod 2 ^ 64 = w mod 2 ^ 64"
  then have "(2 :: int) ^ 64 dvd v - w" by (simp add: mod_eq_dvd_iff)
  moreover have "\<bar>v - w\<bar> < 2 ^ 64" using range by (auto simp: is_i64_def)
  ultimately show "v = w" using zdvd_imp_le [of "2 ^ 64" "\<bar>v - w\<bar>"] by force
qed

interpretation u64: field_encoder u64le 8 is_u64
  by unfold_locales (auto simp: u64le_def le_bytes_inj is_u64_def)

interpretation i64: field_encoder i64le 8 is_i64
  using i64_mod by unfold_locales (auto simp: i64le_def le_bytes_inj)

interpretation u16: field_encoder u16le 2 is_u16
  by unfold_locales (auto simp: u16le_bytes le_bytes_inj is_u16_def)

interpretation k32: field_encoder "\<lambda>b. b" 32 key32
  by unfold_locales (auto simp: key32_def)

interpretation k33: field_encoder "\<lambda>b. b" 33 key33
  by unfold_locales (auto simp: key33_def)

interpretation flag: field_encoder "\<lambda>b. u8le (if b then 1 else 0)" 1 "\<lambda>_. True"
  by unfold_locales (auto simp: u8le_def split: if_splits)

lemma meta_flags_inject: "meta_flags a b = meta_flags c d \<longleftrightarrow> a = c \<and> b = d"
  by (cases a; cases b; cases c; cases d) (simp_all add: meta_flags_def)

interpretation emeta: field_encoder "\<lambda>m :: ExecuteMeta. em_address m @ [meta_flags (em_writable m) (em_signer m)]" 33 "\<lambda>m :: ExecuteMeta. key32 (em_address m)"
  by unfold_locales (auto simp: key32_def meta_flags_inject intro: ExecuteMeta.equality)

interpretation smeta: field_encoder "\<lambda>m :: SessionMeta. sm_address m @ [meta_flags (sm_writable m) (sm_sessionSigner m)]" 33 "\<lambda>m :: SessionMeta. key32 (sm_address m)"
  by unfold_locales (auto simp: key32_def meta_flags_inject intro: SessionMeta.equality)

end
