(* ===== verification/Core_Intent.thy ===== *)
theory Core_Intent
  imports Core_Payload
begin

text \<open>
  What a signature of the smart account on Solana commits to. An \<open>intent\<close> is one call of a payload builder of
  \<^verbatim>\<open>packages/core/src/hash.ts\<close>, a constructor for every builder; \<open>payload\<close> makes the call. A payload determines its
  intent, for fields in the range of their encoders and a hash without a collision on the two messages; so a signature
  for one version, operation, account, nonce or amount is good for nothing else.
\<close>

section \<open>Intents\<close>

datatype intent_v1 =
    is_WithdrawV1: WithdrawV1 int int pubkey int int pubkey
  | is_WithdrawTokenV1: WithdrawTokenV1 int int pubkey int int pubkey pubkey
  | is_InitializeV1: InitializeV1 bytes bytes
  | ActivateV1 bytes bytes int int pubkey

datatype intent_v2 =
    WithdrawV2 bytes int int pubkey int int int
  | WithdrawTokenV2 bytes int int pubkey int int int pubkey
  | InitializeV2 bytes bytes
  | ActivateV2 bytes bytes int int int
  | UpdateAuthorityV2 bytes int bytes int
  | CloseV2 bytes int pubkey int

datatype intent_v3 =
    WithdrawV3 bytes int int pubkey int int
  | WithdrawTokenV3 bytes int int pubkey int int pubkey
  | InitializeV3 bytes bytes
  | ActivateV3 bytes bytes int int
  | UpdateAuthorityV3 bytes int bytes int
  | CloseV3 bytes int pubkey int
  | CloseRequest bytes int pubkey int
  | CloseCancel bytes int int
  | ExecuteV3 bytes int int int bytes

datatype intent_v4 =
    WithdrawSolV4 bytes int int pubkey int int int
  | WithdrawTokenV4 bytes int int pubkey int int int pubkey
  | ExecuteV4 bytes int int int int bytes
  | ActivateV4 bytes bytes int int int

datatype intent_v5 =
    UpdateAuthorityV5 bytes bytes bytes int bytes int
  | ExecuteV5 bytes bytes bytes int int int bytes

datatype intent_session =
    RegisterSession register_session
  | RevokeSession bytes pubkey int int
  | CloseSession bytes pubkey pubkey int int

datatype intent =
    is_V1: V1 intent_v1 | is_V2: V2 intent_v2 | is_V3: V3 intent_v3 | is_V4: V4 intent_v4 | is_V5: V5 intent_v5
  | is_Session: Session intent_session

text \<open>The builder that makes each of them.\<close>

fun payload_v1 :: "(bytes \<Rightarrow> bytes) \<Rightarrow> intent_v1 \<Rightarrow> bytes" where
  "payload_v1 H (WithdrawV1 n a d e f t) = buildWithdrawPayload H n a d e f t"
| "payload_v1 H (WithdrawTokenV1 n a d e f t s) = buildWithdrawTokenPayload H n a d e f t s"
| "payload_v1 H (InitializeV1 i k) = buildInitializePayload H i k"
| "payload_v1 H (ActivateV1 i k f e t) = buildActivatePayload H i k f e t"

fun payload_v2 :: "(bytes \<Rightarrow> bytes) \<Rightarrow> intent_v2 \<Rightarrow> bytes" where
  "payload_v2 H (WithdrawV2 i n a d e m v) = buildWithdrawPayloadV2 H i n a d e m v"
| "payload_v2 H (WithdrawTokenV2 i n a d e m v s) = buildWithdrawTokenPayloadV2 H i n a d e m v s"
| "payload_v2 H (InitializeV2 i k) = buildInitializePayloadV2 H i k"
| "payload_v2 H (ActivateV2 i k m v e) = buildActivatePayloadV2 H i k m v e"
| "payload_v2 H (UpdateAuthorityV2 i n k e) = buildUpdateAuthorityPayloadV2 H i n k e"
| "payload_v2 H (CloseV2 i n d e) = buildClosePayloadV2 H i n d e"

fun payload_v3 :: "(bytes \<Rightarrow> bytes) \<Rightarrow> intent_v3 \<Rightarrow> bytes result" where
  "payload_v3 H (WithdrawV3 i n a d e v) = Inr (buildWithdrawPayloadV3 H i n a d e v)"
| "payload_v3 H (WithdrawTokenV3 i n a d e v s) = Inr (buildWithdrawTokenPayloadV3 H i n a d e v s)"
| "payload_v3 H (InitializeV3 i k) = Inr (buildInitializePayloadV3 H i k)"
| "payload_v3 H (ActivateV3 i k v e) = Inr (buildActivatePayloadV3 H i k v e)"
| "payload_v3 H (UpdateAuthorityV3 i n k e) = Inr (buildUpdateAuthorityPayloadV3 H i n k e)"
| "payload_v3 H (CloseV3 i n d e) = Inr (buildClosePayloadV3 H i n d e)"
| "payload_v3 H (CloseRequest i n d e) = Inr (buildCloseRequestPayload H i n d e)"
| "payload_v3 H (CloseCancel i n e) = Inr (buildCloseCancelPayload H i n e)"
| "payload_v3 H (ExecuteV3 i n e v c) = buildExecutePayloadV3 H i n e v c"

fun payload_v4 :: "(bytes \<Rightarrow> bytes) \<Rightarrow> intent_v4 \<Rightarrow> bytes result" where
  "payload_v4 H (WithdrawSolV4 i n a d e v m) = Inr (buildWithdrawSolPayloadV4 H i n a d e v m)"
| "payload_v4 H (WithdrawTokenV4 i n a d e v m s) = Inr (buildWithdrawTokenPayloadV4 H i n a d e v m s)"
| "payload_v4 H (ExecuteV4 i n e v m c) = buildExecutePayloadV4 H i n e v m c"
| "payload_v4 H (ActivateV4 i k v m e) = buildActivatePayloadV4 H i k v m e"

fun payload_v5 :: "(bytes \<Rightarrow> bytes) \<Rightarrow> intent_v5 \<Rightarrow> bytes result" where
  "payload_v5 H (UpdateAuthorityV5 p c i n k e) = buildUpdateAuthorityPayloadV5 H p c i n k e"
| "payload_v5 H (ExecuteV5 p c i n e v h) = buildExecutePayloadV5 H p c i n e v h"

fun payload_session :: "(bytes \<Rightarrow> bytes) \<Rightarrow> intent_session \<Rightarrow> bytes result" where
  "payload_session H (RegisterSession args) = buildRegisterSessionPayload H args"
| "payload_session H (RevokeSession i s n e) = Inr (buildRevokeSessionPayload H i s n e)"
| "payload_session H (CloseSession i s d n e) = Inr (buildCloseSessionPayload H i s d n e)"

fun payload :: "(bytes \<Rightarrow> bytes) \<Rightarrow> intent \<Rightarrow> bytes result" where
  "payload H (V1 i) = Inr (payload_v1 H i)"
| "payload H (V2 i) = Inr (payload_v2 H i)"
| "payload H (V3 i) = payload_v3 H i"
| "payload H (V4 i) = payload_v4 H i"
| "payload H (V5 i) = payload_v5 H i"
| "payload H (Session i) = payload_session H i"

section \<open>Fields in range\<close>

fun ok_v1 :: "intent_v1 \<Rightarrow> bool" where
  "ok_v1 (WithdrawV1 n a d e f t) \<longleftrightarrow> is_u64 n \<and> is_u64 a \<and> key32 d \<and> is_i64 e \<and> is_u64 f \<and> key32 t"
| "ok_v1 (WithdrawTokenV1 n a d e f t s) \<longleftrightarrow> is_u64 n \<and> is_u64 a \<and> key32 d \<and> is_i64 e \<and> is_u64 f \<and> key32 t \<and> key32 s"
| "ok_v1 (InitializeV1 i k) \<longleftrightarrow> key32 i \<and> key33 k"
| "ok_v1 (ActivateV1 i k f e t) \<longleftrightarrow> key32 i \<and> key33 k \<and> is_u64 f \<and> is_i64 e \<and> key32 t"

fun ok_v2 :: "intent_v2 \<Rightarrow> bool" where
  "ok_v2 (WithdrawV2 i n a d e m v) \<longleftrightarrow> key32 i \<and> is_u64 n \<and> is_u64 a \<and> key32 d \<and> is_i64 e \<and> is_u64 m \<and> is_u16 v"
| "ok_v2 (WithdrawTokenV2 i n a d e m v s) \<longleftrightarrow> key32 i \<and> is_u64 n \<and> is_u64 a \<and> key32 d \<and> is_i64 e \<and> is_u64 m \<and> is_u16 v \<and> key32 s"
| "ok_v2 (InitializeV2 i k) \<longleftrightarrow> key32 i \<and> key33 k"
| "ok_v2 (ActivateV2 i k m v e) \<longleftrightarrow> key32 i \<and> key33 k \<and> is_u64 m \<and> is_u16 v \<and> is_i64 e"
| "ok_v2 (UpdateAuthorityV2 i n k e) \<longleftrightarrow> key32 i \<and> is_u64 n \<and> key33 k \<and> is_i64 e"
| "ok_v2 (CloseV2 i n d e) \<longleftrightarrow> key32 i \<and> is_u64 n \<and> key32 d \<and> is_i64 e"

fun ok_v3 :: "intent_v3 \<Rightarrow> bool" where
  "ok_v3 (WithdrawV3 i n a d e v) \<longleftrightarrow> key32 i \<and> is_u64 n \<and> is_u64 a \<and> key32 d \<and> is_i64 e \<and> is_u16 v"
| "ok_v3 (WithdrawTokenV3 i n a d e v s) \<longleftrightarrow> key32 i \<and> is_u64 n \<and> is_u64 a \<and> key32 d \<and> is_i64 e \<and> is_u16 v \<and> key32 s"
| "ok_v3 (InitializeV3 i k) \<longleftrightarrow> key32 i \<and> key33 k"
| "ok_v3 (ActivateV3 i k v e) \<longleftrightarrow> key32 i \<and> key33 k \<and> is_u16 v \<and> is_i64 e"
| "ok_v3 (UpdateAuthorityV3 i n k e) \<longleftrightarrow> key32 i \<and> is_u64 n \<and> key33 k \<and> is_i64 e"
| "ok_v3 (CloseV3 i n d e) \<longleftrightarrow> key32 i \<and> is_u64 n \<and> key32 d \<and> is_i64 e"
| "ok_v3 (CloseRequest i n d e) \<longleftrightarrow> key32 i \<and> is_u64 n \<and> key32 d \<and> is_i64 e"
| "ok_v3 (CloseCancel i n e) \<longleftrightarrow> key32 i \<and> is_u64 n \<and> is_i64 e"
| "ok_v3 (ExecuteV3 i n e v c) \<longleftrightarrow> key32 i \<and> is_u64 n \<and> is_i64 e \<and> is_u16 v \<and> key32 c"

fun ok_v4 :: "intent_v4 \<Rightarrow> bool" where
  "ok_v4 (WithdrawSolV4 i n a d e v m) \<longleftrightarrow> key32 i \<and> is_u64 n \<and> is_u64 a \<and> key32 d \<and> is_i64 e \<and> is_u16 v \<and> is_u64 m"
| "ok_v4 (WithdrawTokenV4 i n a d e v m s) \<longleftrightarrow> key32 i \<and> is_u64 n \<and> is_u64 a \<and> key32 d \<and> is_i64 e \<and> is_u16 v \<and> is_u64 m \<and> key32 s"
| "ok_v4 (ExecuteV4 i n e v m c) \<longleftrightarrow> key32 i \<and> is_u64 n \<and> is_i64 e \<and> is_u16 v \<and> is_u64 m \<and> key32 c"
| "ok_v4 (ActivateV4 i k v m e) \<longleftrightarrow> key32 i \<and> key33 k \<and> is_u16 v \<and> is_u64 m \<and> is_i64 e"

fun ok_v5 :: "intent_v5 \<Rightarrow> bool" where
  "ok_v5 (UpdateAuthorityV5 p c i n k e) \<longleftrightarrow> key32 p \<and> key32 c \<and> key32 i \<and> is_u64 n \<and> key33 k \<and> is_i64 e"
| "ok_v5 (ExecuteV5 p c i n e v h) \<longleftrightarrow> key32 p \<and> key32 c \<and> key32 i \<and> is_u64 n \<and> is_i64 e \<and> is_u16 v \<and> key32 h"

fun ok_session :: "intent_session \<Rightarrow> bool" where
  "ok_session (RegisterSession s) \<longleftrightarrow> key32 (rs_accountId32 s) \<and> is_u64 (rs_nonce s) \<and> key32 (rs_sessionPubkey s)
     \<and> key32 (rs_allowedProgram s) \<and> is_i64 (rs_expiresAt s) \<and> key32 (rs_recordedAuthority s) \<and> is_u64 (rs_recordedSlot s)
     \<and> is_i64 (rs_expiry s)"
| "ok_session (RevokeSession i s n e) \<longleftrightarrow> key32 i \<and> key32 s \<and> is_u64 n \<and> is_i64 e"
| "ok_session (CloseSession i s d n e) \<longleftrightarrow> key32 i \<and> key32 s \<and> key32 d \<and> is_u64 n \<and> is_i64 e"

fun ok_intent :: "intent \<Rightarrow> bool" where
  "ok_intent (V1 i) = ok_v1 i"
| "ok_intent (V2 i) = ok_v2 i"
| "ok_intent (V3 i) = ok_v3 i"
| "ok_intent (V4 i) = ok_v4 i"
| "ok_intent (V5 i) = ok_v5 i"
| "ok_intent (Session i) = ok_session i"

section \<open>The message that is hashed\<close>

text \<open>Evaluated with the identity for the hash, a builder returns the message that it hashes.\<close>

definition message :: "intent \<Rightarrow> bytes" where
  "message i = (case payload (\<lambda>b. b) i of Inr m \<Rightarrow> m | Inl _ \<Rightarrow> [])"

lemmas builder_defs =
  buildAuthorizationPayload_def buildWithdrawPayload_def buildWithdrawTokenPayload_def buildInitializePayload_def
  buildActivatePayload_def buildAuthorizationPayloadV2_def buildWithdrawPayloadV2_def buildWithdrawTokenPayloadV2_def
  buildInitializePayloadV2_def buildActivatePayloadV2_def buildUpdateAuthorityPayloadV2_def buildClosePayloadV2_def
  buildAuthorizationPayloadV3_def buildWithdrawPayloadV3_def buildWithdrawTokenPayloadV3_def buildInitializePayloadV3_def
  buildActivatePayloadV3_def buildUpdateAuthorityPayloadV3_def buildClosePayloadV3_def buildCloseRequestPayload_def
  buildCloseCancelPayload_def buildExecutePayloadV3_def buildAuthorizationPayloadV4_def buildWithdrawSolPayloadV4_def
  buildWithdrawTokenPayloadV4_def buildExecutePayloadV4_def buildActivatePayloadV4_def buildAuthorizationPayloadV5_def
  buildUpdateAuthorityPayloadV5_def buildExecutePayloadV5_def buildSessionPayload_def buildRegisterSessionPayload_def
  buildRevokeSessionPayload_def buildCloseSessionPayload_def

lemma payload_message: "ok_intent i \<Longrightarrow> payload H i = Inr (H (message i))"
proof -
  have v1: "payload_v1 H a = H (payload_v1 (\<lambda>b. b) a)" for a
    by (cases a) (simp_all add: builder_defs)
  have v2: "payload_v2 H a = H (payload_v2 (\<lambda>b. b) a)" for a
    by (cases a) (simp_all add: builder_defs)
  have v3: "ok_v3 a \<Longrightarrow> \<exists>m. payload_v3 (\<lambda>b. b) a = Inr m \<and> payload_v3 H a = Inr (H m)" for a
    by (cases a) (simp_all add: builder_defs key32_def)
  have v4: "ok_v4 a \<Longrightarrow> \<exists>m. payload_v4 (\<lambda>b. b) a = Inr m \<and> payload_v4 H a = Inr (H m)" for a
    by (cases a) (simp_all add: builder_defs key32_def key33_def)
  have v5: "ok_v5 a \<Longrightarrow> \<exists>m. payload_v5 (\<lambda>b. b) a = Inr m \<and> payload_v5 H a = Inr (H m)" for a
    by (cases a) (simp_all add: builder_defs key32_def key33_def)
  have se: "ok_session a \<Longrightarrow> \<exists>m. payload_session (\<lambda>b. b) a = Inr m \<and> payload_session H a = Inr (H m)" for a
    by (cases a) (simp_all add: builder_defs key32_def)
  assume "ok_intent i"
  then show ?thesis
    using v1 v2 v3 v4 v5 se by (cases i) (fastforce simp: message_def)+
qed

lemma ascii_domain_bytes:
  "DOMAIN = map word_of_nat [80, 73, 68, 124, 83, 79, 76, 65, 78, 65, 124, 83, 77, 65, 82, 84, 95, 65, 67, 67, 79, 85, 78, 84, 124, 118, 49]"
  "DOMAIN_V2 = map word_of_nat [80, 73, 68, 124, 83, 79, 76, 65, 78, 65, 124, 83, 77, 65, 82, 84, 95, 65, 67, 67, 79, 85, 78, 84, 124, 118, 50]"
  "DOMAIN_V3 = map word_of_nat [80, 73, 68, 124, 83, 79, 76, 65, 78, 65, 124, 83, 77, 65, 82, 84, 95, 65, 67, 67, 79, 85, 78, 84, 124, 118, 51]"
  "DOMAIN_V4 = map word_of_nat [80, 73, 68, 124, 83, 79, 76, 65, 78, 65, 124, 83, 77, 65, 82, 84, 95, 65, 67, 67, 79, 85, 78, 84, 124, 118, 52]"
  "DOMAIN_V5 = map word_of_nat [80, 73, 68, 124, 83, 79, 76, 65, 78, 65, 124, 83, 77, 65, 82, 84, 95, 65, 67, 67, 79, 85, 78, 84, 124, 118, 53]"
  "DOMAIN_SESSION = map word_of_nat [80, 73, 68, 124, 83, 79, 76, 65, 78, 65, 124, 83, 69, 83, 83, 73, 79, 78, 124, 118, 49]"
  by (simp_all add: DOMAIN_def DOMAIN_V2_def DOMAIN_V3_def DOMAIN_V4_def DOMAIN_V5_def DOMAIN_SESSION_def fromAscii_def utf8_char_def)

text \<open>No domain is a prefix of another.\<close>

lemma domains_apart:
  "DOMAIN @ x \<noteq> DOMAIN_V2 @ y" "DOMAIN @ x \<noteq> DOMAIN_V3 @ y" "DOMAIN @ x \<noteq> DOMAIN_V4 @ y" "DOMAIN @ x \<noteq> DOMAIN_V5 @ y"
  "DOMAIN @ x \<noteq> DOMAIN_SESSION @ y" "DOMAIN_V2 @ x \<noteq> DOMAIN_V3 @ y" "DOMAIN_V2 @ x \<noteq> DOMAIN_V4 @ y"
  "DOMAIN_V2 @ x \<noteq> DOMAIN_V5 @ y" "DOMAIN_V2 @ x \<noteq> DOMAIN_SESSION @ y" "DOMAIN_V3 @ x \<noteq> DOMAIN_V4 @ y"
  "DOMAIN_V3 @ x \<noteq> DOMAIN_V5 @ y" "DOMAIN_V3 @ x \<noteq> DOMAIN_SESSION @ y" "DOMAIN_V4 @ x \<noteq> DOMAIN_V5 @ y"
  "DOMAIN_V4 @ x \<noteq> DOMAIN_SESSION @ y" "DOMAIN_V5 @ x \<noteq> DOMAIN_SESSION @ y"
  unfolding ascii_domain_bytes by simp_all

definition message_domain :: "intent \<Rightarrow> bytes" where
  "message_domain i = (case i of V1 _ \<Rightarrow> DOMAIN | V2 _ \<Rightarrow> DOMAIN_V2 | V3 _ \<Rightarrow> DOMAIN_V3 | V4 _ \<Rightarrow> DOMAIN_V4 | V5 _ \<Rightarrow> DOMAIN_V5
     | Session _ \<Rightarrow> DOMAIN_SESSION)"

lemma message_starts: "ok_intent i \<Longrightarrow> \<exists>r. message i = message_domain i @ r"
proof (cases i)
  case (V1 a)
  then show ?thesis by (cases a) (simp_all add: message_def message_domain_def builder_defs)
next
  case (V2 a)
  then show ?thesis by (cases a) (simp_all add: message_def message_domain_def builder_defs)
next
  case (V3 a)
  assume "ok_intent i"
  with V3 show ?thesis by (cases a) (simp_all add: message_def message_domain_def builder_defs key32_def)
next
  case (V4 a)
  assume "ok_intent i"
  with V4 show ?thesis by (cases a) (simp_all add: message_def message_domain_def builder_defs key32_def key33_def)
next
  case (V5 a)
  assume "ok_intent i"
  with V5 show ?thesis by (cases a) (simp_all add: message_def message_domain_def builder_defs key32_def key33_def)
next
  case (Session a)
  assume "ok_intent i"
  with Session show ?thesis by (cases a) (simp_all add: message_def message_domain_def builder_defs key32_def)
qed

section \<open>A message determines its fields\<close>

lemmas field_splits =
  u64.field_split i64.field_split u16.field_split k32.field_split k33.field_split flag.field_split [OF TrueI TrueI]
  u64.field_eq i64.field_eq u16.field_eq

lemmas field_lengths = u64.enc_length i64.enc_length u16.enc_length k32.enc_length k33.enc_length

text \<open>A V1 message has no operation tag; its length tells the operation.\<close>

lemma v1_length:
  "ok_v1 a \<Longrightarrow> length (payload_v1 (\<lambda>b. b) a)
     = 27 + (case a of WithdrawV1 _ _ _ _ _ _ \<Rightarrow> 96 | WithdrawTokenV1 _ _ _ _ _ _ _ \<Rightarrow> 128 | InitializeV1 _ _ \<Rightarrow> 65 | ActivateV1 _ _ _ _ _ \<Rightarrow> 113)"
  by (cases a) (simp_all add: builder_defs field_lengths ascii_domain_bytes)

lemma v1_inject:
  assumes "ok_v1 a" "ok_v1 b" and eq: "payload_v1 (\<lambda>b. b) a = payload_v1 (\<lambda>b. b) b"
  shows "a = b"
proof -
  have "is_WithdrawV1 a = is_WithdrawV1 b" "is_WithdrawTokenV1 a = is_WithdrawTokenV1 b" "is_InitializeV1 a = is_InitializeV1 b"
    using assms v1_length [of a] v1_length [of b] by (cases a; cases b; simp)+
  then show ?thesis using assms
    by (cases a; cases b) (simp_all add: builder_defs field_splits)
qed

lemma v2_inject: "ok_v2 a \<Longrightarrow> ok_v2 b \<Longrightarrow> payload_v2 (\<lambda>b. b) a = payload_v2 (\<lambda>b. b) b \<Longrightarrow> a = b"
  by (cases a; cases b) (simp_all add: builder_defs field_splits)

lemma v3_inject: "ok_v3 a \<Longrightarrow> ok_v3 b \<Longrightarrow> payload_v3 (\<lambda>b. b) a = payload_v3 (\<lambda>b. b) b \<Longrightarrow> a = b"
  by (cases a; cases b) (simp_all add: builder_defs field_splits k32.enc_length)

lemma v4_inject: "ok_v4 a \<Longrightarrow> ok_v4 b \<Longrightarrow> payload_v4 (\<lambda>b. b) a = payload_v4 (\<lambda>b. b) b \<Longrightarrow> a = b"
  by (cases a; cases b) (simp_all add: builder_defs field_splits k32.enc_length k33.enc_length)

lemma v5_inject: "ok_v5 a \<Longrightarrow> ok_v5 b \<Longrightarrow> payload_v5 (\<lambda>b. b) a = payload_v5 (\<lambda>b. b) b \<Longrightarrow> a = b"
  by (cases a; cases b) (simp_all add: builder_defs field_splits k32.enc_length k33.enc_length)

lemma session_inject: "ok_session a \<Longrightarrow> ok_session b \<Longrightarrow> payload_session (\<lambda>b. b) a = payload_session (\<lambda>b. b) b \<Longrightarrow> a = b"
  by (cases a; cases b) (auto simp: builder_defs field_splits k32.enc_length intro: register_session.equality)

lemma message_inject:
  assumes ok: "ok_intent i" "ok_intent j" and eq: "message i = message j"
  shows "i = j"
proof -
  have dom: "message_domain i @ x = message_domain j @ y \<Longrightarrow>
      (is_V1 i \<and> is_V1 j) \<or> (is_V2 i \<and> is_V2 j) \<or> (is_V3 i \<and> is_V3 j) \<or> (is_V4 i \<and> is_V4 j) \<or> (is_V5 i \<and> is_V5 j)
      \<or> (is_Session i \<and> is_Session j)" for x y
    by (cases i; cases j) (simp_all add: message_domain_def domains_apart domains_apart [symmetric])
  from payload_message [OF ok(1), of "\<lambda>b. b"] payload_message [OF ok(2), of "\<lambda>b. b"] eq
  have same: "payload (\<lambda>b. b) i = payload (\<lambda>b. b) j" by simp
  obtain x y where "message_domain i @ x = message_domain j @ y"
    using message_starts [OF ok(1)] message_starts [OF ok(2)] eq by metis
  from dom [OF this] same ok show ?thesis
    using v1_inject v2_inject v3_inject v4_inject v5_inject session_inject
    by (elim disjE) (auto simp: is_V1_def is_V2_def is_V3_def is_V4_def is_V5_def is_Session_def)
qed

text \<open>C11: A signed payload commits to everything: two intents whose fields are in the range of their encoders have the same
  payload only when they are the same intent, that is, the same version, the same operation and the same value in every
  field (account, nonce, amount, destination, expiry, fee bound, key, program and cluster). The hash is only assumed to
  have no collision on the two messages.\<close>

theorem payload_binds_intent:
  assumes "ok_intent i" "ok_intent j" and "inj_on H {message i, message j}"
  shows "payload H i = payload H j \<longleftrightarrow> i = j"
  using assms message_inject payload_message [of i H] payload_message [of j H] by (auto dest: inj_onD)

theorem payload_binds_intent_witness:
  "payload (\<lambda>b. b) (V3 (CloseCancel (replicate 32 1) 7 100)) \<noteq> payload (\<lambda>b. b) (V3 (CloseCancel (replicate 32 1) 8 100))"
  using payload_binds_intent [of "V3 (CloseCancel (replicate 32 1) 7 100)" "V3 (CloseCancel (replicate 32 1) 8 100)" "\<lambda>b. b"]
  by (simp add: key32_def is_u64_def is_i64_def)

section \<open>The call of an execute\<close>

lemma count_inject: "a < 256 \<Longrightarrow> b < 256 \<Longrightarrow> (word_of_nat a :: byte) = word_of_nat b \<longleftrightarrow> a = b"
  by (simp add: word_of_nat_eq_iff take_bit_nat_eq_self)

definition ok_call :: "pubkey \<Rightarrow> ExecuteMeta list \<Rightarrow> bool" where
  "ok_call target metas \<longleftrightarrow> key32 target \<and> list_all (\<lambda>m. key32 (em_address m)) metas"

lemma serializeExecuteCall_inject:
  assumes "ok_call t ms" "ok_call t' ms'"
    and c: "serializeExecuteCall t ms d = Inr c" and c': "serializeExecuteCall t' ms' d' = Inr c"
  shows "t = t' \<and> ms = ms' \<and> d = d'"
proof -
  have small: "length ms < 256" "length ms' < 256" "is_u16 (int (length d))" "is_u16 (int (length d'))"
    using c c' by (auto simp: serializeExecuteCall_def MAX_EXECUTE_METAS_def MAX_EXECUTE_DATA_def is_u16_def split: if_splits)
  have "t @ [word_of_nat (length ms)] @ concat (map (\<lambda>m. em_address m @ [meta_flags (em_writable m) (em_signer m)]) ms) @ u16le (int (length d)) @ d
      = t' @ [word_of_nat (length ms')] @ concat (map (\<lambda>m. em_address m @ [meta_flags (em_writable m) (em_signer m)]) ms') @ u16le (int (length d')) @ d'"
    using c c' by (auto simp: serializeExecuteCall_def split: if_splits)
  moreover have "key32 t" "key32 t'" using assms by (simp_all add: ok_call_def)
  ultimately have head: "t = t'" "length ms = length ms'"
    and rest: "concat (map (\<lambda>m. em_address m @ [meta_flags (em_writable m) (em_signer m)]) ms) @ u16le (int (length d)) @ d
      = concat (map (\<lambda>m. em_address m @ [meta_flags (em_writable m) (em_signer m)]) ms') @ u16le (int (length d')) @ d'"
    using small by (simp_all add: k32.field_split count_inject)
  from emeta.fields_eq [THEN iffD1, OF _ _ head(2) rest] assms
  have "ms = ms'" "u16le (int (length d)) @ d = u16le (int (length d')) @ d'"
    by (simp_all add: ok_call_def)
  with head small show ?thesis by (simp add: u16.field_split)
qed

lemma serializeSessionMetas_inject:
  assumes "list_all (\<lambda>m. key32 (sm_address m)) ms" "list_all (\<lambda>m. key32 (sm_address m)) ms'"
    and c: "serializeSessionMetas ms = Inr c" and c': "serializeSessionMetas ms' = Inr c"
  shows "ms = ms'"
proof -
  have "length ms < 256" "length ms' < 256"
    using c c' by (auto simp: serializeSessionMetas_def MAX_SESSION_METAS_def split: if_splits)
  moreover have "[word_of_nat (length ms)] @ concat (map (\<lambda>m. sm_address m @ [meta_flags (sm_writable m) (sm_sessionSigner m)]) ms)
      = [word_of_nat (length ms')] @ concat (map (\<lambda>m. sm_address m @ [meta_flags (sm_writable m) (sm_sessionSigner m)]) ms')"
    using c c' by (auto simp: serializeSessionMetas_def split: if_splits)
  ultimately show ?thesis
    using smeta.fields_eq [OF assms(1,2), of "[]" "[]"] by (simp add: count_inject)
qed

text \<open>The three executes, as the intent that carries a call hash.\<close>

definition execute_v3 :: "bytes \<Rightarrow> int \<Rightarrow> int \<Rightarrow> int \<Rightarrow> bytes \<Rightarrow> intent" where
  "execute_v3 acct n e v h = V3 (ExecuteV3 acct n e v h)"

text \<open>C22: The signature of an execute commits to the call it makes: when the payloads of two executes, each over the hash of a
  call, are equal, then the target program, the list of accounts with their order and their writable and signer flags,
  and the instruction data are equal, and so are account, nonce, expiry and fee policy. Lists of more than 64 accounts
  and data of more than 10240 bytes are refused, which keeps the counts inside their bytes.\<close>

theorem execute_binds_call:
  assumes calls: "ok_call t ms" "ok_call t' ms'"
    and c: "serializeExecuteCall t ms d = Inr c" and c': "serializeExecuteCall t' ms' d' = Inr c'"
    and range: "key32 acct" "is_u64 n" "is_i64 e" "is_u16 v" "key32 acct'" "is_u64 n'" "is_i64 e'" "is_u16 v'"
    and H: "inj_on H ({c, c'} \<union> {message (execute_v3 acct n e v (H c)), message (execute_v3 acct' n' e' v' (H c'))})"
    and len: "length (H c) = 32" "length (H c') = 32"
  shows "bind_result (executeCallHash H t ms d) (buildExecutePayloadV3 H acct n e v)
       = bind_result (executeCallHash H t' ms' d') (buildExecutePayloadV3 H acct' n' e' v')
     \<longleftrightarrow> (acct, n, e, v, t, ms, d) = (acct', n', e', v', t', ms', d')"
proof -
  have ok: "ok_intent (execute_v3 acct n e v (H c))" "ok_intent (execute_v3 acct' n' e' v' (H c'))"
    using range len by (simp_all add: execute_v3_def key32_def)
  have same: "payload H (execute_v3 acct n e v (H c)) = payload H (execute_v3 acct' n' e' v' (H c'))
      \<longleftrightarrow> execute_v3 acct n e v (H c) = execute_v3 acct' n' e' v' (H c')"
    using ok message_inject payload_message H by (metis Inr_inject Un_iff inj_onD insertCI)
  have "H c = H c' \<longleftrightarrow> c = c'" using H by (auto dest: inj_onD)
  moreover have "c = c' \<longleftrightarrow> (t, ms, d) = (t', ms', d')"
  proof
    assume "c = c'"
    with serializeExecuteCall_inject [OF calls c] c' show "(t, ms, d) = (t', ms', d')" by simp
  next
    assume "(t, ms, d) = (t', ms', d')"
    with c c' show "c = c'" by simp
  qed
  moreover have "bind_result (executeCallHash H t ms d) (buildExecutePayloadV3 H acct n e v) = payload H (execute_v3 acct n e v (H c))"
    "bind_result (executeCallHash H t' ms' d') (buildExecutePayloadV3 H acct' n' e' v') = payload H (execute_v3 acct' n' e' v' (H c'))"
    by (simp_all add: execute_v3_def executeCallHash_def c c')
  ultimately show ?thesis
    using same by (simp only: execute_v3_def intent.inject intent_v3.inject prod.inject)
qed

theorem execute_binds_call_witness:
  "bind_result (executeCallHash (\<lambda>b. if length b = 35 then take 32 b else b) (replicate 32 1) [] [])
     (buildExecutePayloadV3 (\<lambda>b. if length b = 35 then take 32 b else b) (replicate 32 9) 1 50 1)
   \<noteq> bind_result (executeCallHash (\<lambda>b. if length b = 35 then take 32 b else b) (replicate 32 2) [] [])
     (buildExecutePayloadV3 (\<lambda>b. if length b = 35 then take 32 b else b) (replicate 32 9) 1 50 1)"
proof -
  let ?H = "\<lambda>b :: bytes. if length b = 35 then take 32 b else b"
  let ?c = "replicate 32 1 @ [0, 0, 0] :: bytes" and ?c' = "replicate 32 2 @ [0, 0, 0] :: bytes"
  let ?i = "\<lambda>h. execute_v3 (replicate 32 9) 1 50 1 h"
  have call: "serializeExecuteCall (replicate 32 1) [] [] = Inr ?c" "serializeExecuteCall (replicate 32 2) [] [] = Inr ?c'"
    by (simp_all add: serializeExecuteCall_def u16le_def)
  have len: "length (?H ?c) = 32" "length (?H ?c') = 32" by simp_all
  have apart: "?H ?c \<noteq> ?H ?c'" "?c \<noteq> ?c'" by (simp_all add: numeral_eq_Suc)
  have range: "key32 (replicate 32 9)" "is_u64 1" "is_i64 50" "is_u16 1"
    by (simp_all add: key32_def is_u64_def is_i64_def is_u16_def)
  have msg: "length (message (?i h)) = 110" if "length h = 32" for h
    using that by (simp add: execute_v3_def message_def builder_defs ascii_domain_bytes u64le_def i64le_def u16le_def)
  have "message (?i (?H ?c)) \<noteq> message (?i (?H ?c'))"
    using message_inject [of "?i (?H ?c)" "?i (?H ?c')"] range len apart by (auto simp: execute_v3_def key32_def)
  then have "inj_on ?H ({?c, ?c'} \<union> {message (?i (?H ?c)), message (?i (?H ?c'))})"
    using apart msg [OF len(1)] msg [OF len(2)] len by (intro inj_onI) (auto simp del: length_append length_replicate split: if_splits)
  from execute_binds_call [OF _ _ call range range this len] apart show ?thesis
    by (simp add: ok_call_def key32_def numeral_eq_Suc)
qed

end
