(* ===== verification/Batch_Quote.thy ===== *)
theory Batch_Quote
  imports Prelude
begin

text \<open>
  The stateless quote id of the batch queue, \<^verbatim>\<open>apps/api/src/batch-queue/batch-queue.service.ts\<close>: the quoted baseline, the
  hash of the op list, the expiry and the fee-policy version in one dotted string, and its decoder. The SHA-256 hex digest
  of \<^verbatim>\<open>node:crypto\<close> is the parameter \<open>sha\<close>.
\<close>

section \<open>Numbers in another radix\<close>

definition radix_alphabet :: string where
  "radix_alphabet = ''0123456789abcdefghijklmnopqrstuvwxyz''"

definition radix_val :: "nat \<Rightarrow> char \<Rightarrow> nat option" where
  "radix_val r c = find (\<lambda>i. radix_alphabet ! i = to_lower_char c) [0..<r]"

text \<open>\<^verbatim>\<open>toString(radix)\<close> of a \<^verbatim>\<open>bigint\<close> or of an integral number.\<close>

function show_radix_nat :: "nat \<Rightarrow> nat \<Rightarrow> string" where
  "show_radix_nat r n = (if n < r \<or> r < 2 then [radix_alphabet ! n] else show_radix_nat r (n div r) @ [radix_alphabet ! (n mod r)])"
  by pat_completeness auto

termination
  by (relation "measure snd") auto

declare show_radix_nat.simps [simp del]

definition show_radix :: "nat \<Rightarrow> int \<Rightarrow> string" where
  "show_radix r i = (if i < 0 then CHR ''-'' # show_radix_nat r (nat (- i)) else show_radix_nat r (nat i))"

text \<open>\<^verbatim>\<open>Number.parseInt(s, radix)\<close>: leading white space and a sign are skipped, the longest prefix of digits counts, no digit
  is \<^verbatim>\<open>NaN\<close>. The value is exact; every caller tests \<^verbatim>\<open>Number.isSafeInteger\<close>, which the rounding of a larger value never
  passes.\<close>

definition radix_digits :: "nat \<Rightarrow> string \<Rightarrow> nat list" where
  "radix_digits r s = map (\<lambda>c. the (radix_val r c)) (takeWhile (\<lambda>c. radix_val r c \<noteq> None) s)"

definition parseInt :: "nat \<Rightarrow> string \<Rightarrow> int option" where
  "parseInt r s =
     (let t = dropWhile is_space s;
          neg = (t \<noteq> [] \<and> hd t = CHR ''-'');
          u = (if t \<noteq> [] \<and> (hd t = CHR ''-'' \<or> hd t = CHR ''+'') then tl t else t);
          ds = radix_digits r u
      in if ds = [] then None
         else let v = foldl (\<lambda>a d. a * int r + int d) 0 ds in Some (if neg then - v else v))"

definition isSafeInteger :: "int option \<Rightarrow> bool" where
  "isSafeInteger v = (case v of None \<Rightarrow> False | Some n \<Rightarrow> \<bar>n\<bar> \<le> max_safe_integer)"

section \<open>The quote id\<close>

definition batchError :: "string \<Rightarrow> string \<Rightarrow> http_error" where
  "batchError code message = BadRequest (code @ '': '' @ message)"

definition encodeQuoteId :: "int \<Rightarrow> string \<Rightarrow> int \<Rightarrow> int \<Rightarrow> string" where
  "encodeQuoteId baseline opsHash expiresSec feeVersion =
     (let full = (if take 2 opsHash = ''0x'' then to_lower (drop 2 opsHash) else to_lower opsHash)
      in join ''.'' [''qb'', show_radix 36 baseline, full, show_radix 36 expiresSec, show_int feeVersion])"

definition is_hex_lower :: "char \<Rightarrow> bool" where
  "is_hex_lower c \<longleftrightarrow> is_digit c \<or> (97 \<le> (of_char c :: nat) \<and> (of_char c :: nat) \<le> 102)"

record quote =
  qt_baseline :: int
  qt_opsHash8 :: string
  qt_opsHashFull :: "string option"
  qt_expiresSec :: int
  qt_feeVersion :: int

definition decodeQuoteId :: "string \<Rightarrow> quote result" where
  "decodeQuoteId quoteId =
     (let malformed = Inl (batchError ''QUOTE_MISMATCH'' ''Quote id is malformed'')
      in case split_on (CHR ''.'') quoteId of
        [p0, p1, p2, p3, p4] \<Rightarrow>
          if p0 \<noteq> ''qb'' then malformed
          else let baseline = parseInt 36 p1; expiresSec = parseInt 36 p3; feeVersion = parseInt 10 p4 in
            if \<not> isSafeInteger baseline \<or> the baseline < 0 \<or> \<not> isSafeInteger expiresSec \<or> \<not> isSafeInteger feeVersion then malformed
            else let hashBody = to_lower p2 in
              if length hashBody = 64 \<and> list_all is_hex_lower hashBody
              then Inr \<lparr>qt_baseline = the baseline, qt_opsHash8 = take 8 hashBody, qt_opsHashFull = Some hashBody,
                       qt_expiresSec = the expiresSec, qt_feeVersion = the feeVersion\<rparr>
              else if length hashBody = 8 \<and> list_all is_hex_lower hashBody
              then Inr \<lparr>qt_baseline = the baseline, qt_opsHash8 = hashBody, qt_opsHashFull = None,
                       qt_expiresSec = the expiresSec, qt_feeVersion = the feeVersion\<rparr>
              else malformed
      | _ \<Rightarrow> malformed)"

section \<open>Reading back what was written\<close>

lemma radix_char:
  assumes "r \<le> 36" "d < r"
  shows "radix_val r (radix_alphabet ! d) = Some d \<and> \<not> is_space (radix_alphabet ! d)
    \<and> radix_alphabet ! d \<noteq> CHR ''-'' \<and> radix_alphabet ! d \<noteq> CHR ''+'' \<and> radix_alphabet ! d \<noteq> CHR ''.''"
proof -
  have "list_all (\<lambda>c. to_lower_char c = c \<and> \<not> is_space c \<and> c \<noteq> CHR ''-'' \<and> c \<noteq> CHR ''+'' \<and> c \<noteq> CHR ''.'') radix_alphabet"
    by (simp add: radix_alphabet_def to_lower_char_def is_space_def)
  then have c: "to_lower_char (radix_alphabet ! d) = radix_alphabet ! d \<and> \<not> is_space (radix_alphabet ! d)
    \<and> radix_alphabet ! d \<noteq> CHR ''-'' \<and> radix_alphabet ! d \<noteq> CHR ''+'' \<and> radix_alphabet ! d \<noteq> CHR ''.''"
    using assms by (simp add: list_all_length radix_alphabet_def)
  have "distinct radix_alphabet" "length radix_alphabet = 36" by (simp_all add: radix_alphabet_def)
  then have "radix_alphabet ! i = radix_alphabet ! d \<longleftrightarrow> i = d" if "i < r" for i
    using assms that by (simp add: nth_eq_iff_index_eq)
  then have "find (\<lambda>i. radix_alphabet ! i = radix_alphabet ! d) [0..<r] = Some d"
    using assms by (auto simp: find_Some_iff)
  with c show ?thesis by (simp add: radix_val_def)
qed

lemma show_radix_nat_digits:
  "2 \<le> r \<Longrightarrow> r \<le> 36 \<Longrightarrow> \<exists>ds. show_radix_nat r n = map ((!) radix_alphabet) ds \<and> ds \<noteq> [] \<and> (\<forall>d \<in> set ds. d < r)
     \<and> foldl (\<lambda>a d. a * int r + int d) 0 ds = int n"
proof (induction r n rule: show_radix_nat.induct)
  case (1 r n)
  show ?case
  proof (cases "n < r")
    case True
    then have "show_radix_nat r n = map ((!) radix_alphabet) [n]" by (simp add: show_radix_nat.simps [of r n])
    with True show ?thesis by (intro exI [of _ "[n]"]) simp
  next
    case False
    with 1 obtain ds where ds: "show_radix_nat r (n div r) = map ((!) radix_alphabet) ds" "ds \<noteq> []" "\<forall>d \<in> set ds. d < r"
      "foldl (\<lambda>a d. a * int r + int d) 0 ds = int (n div r)"
      by (metis not_less)
    have "int (n div r) * int r + int (n mod r) = int n"
      by (metis div_mult_mod_eq of_nat_add of_nat_mult)
    with False 1(2) ds show ?thesis
      by (intro exI [of _ "ds @ [n mod r]"]) (auto simp: show_radix_nat.simps [of r n])
  qed
qed

lemma radix_digits_map: "r \<le> 36 \<Longrightarrow> \<forall>d \<in> set ds. d < r \<Longrightarrow> radix_digits r (map ((!) radix_alphabet) ds) = ds"
proof -
  assume r: "r \<le> 36" and ds: "\<forall>d \<in> set ds. d < r"
  then show ?thesis by (induction ds) (auto simp: radix_digits_def radix_char)
qed

lemma parseInt_show_radix:
  assumes r: "2 \<le> r" "r \<le> 36"
  shows "parseInt r (show_radix r i) = Some i \<and> CHR ''.'' \<notin> set (show_radix r i)"
proof -
  obtain ds where ds: "show_radix_nat r (nat \<bar>i\<bar>) = map ((!) radix_alphabet) ds" "ds \<noteq> []" "\<forall>d \<in> set ds. d < r"
    "foldl (\<lambda>a d. a * int r + int d) 0 ds = \<bar>i\<bar>"
    using show_radix_nat_digits [OF r, of "nat \<bar>i\<bar>"] by auto
  obtain d ds' where d: "ds = d # ds'" using ds(2) by (cases ds) auto
  have head: "\<not> is_space (radix_alphabet ! d)" "radix_alphabet ! d \<noteq> CHR ''-''" "radix_alphabet ! d \<noteq> CHR ''+''"
    using ds(3) r radix_char [of r d] by (simp_all add: d)
  have dot: "CHR ''.'' \<notin> set (map ((!) radix_alphabet) ds)" using ds(3) r radix_char by fastforce
  have str: "show_radix r i = (if i < 0 then CHR ''-'' # map ((!) radix_alphabet) ds else map ((!) radix_alphabet) ds)"
    using ds(1) by (cases "i < 0") (simp_all add: show_radix_def)
  have read: "radix_digits r (map ((!) radix_alphabet) ds) = ds" using r ds(3) by (simp add: radix_digits_map)
  have minus: "\<not> is_space (CHR ''-'')" by (simp add: is_space_def)
  show ?thesis
  proof (cases "i < 0")
    case True
    then show ?thesis using ds(2,4) read dot minus by (simp add: str parseInt_def Let_def)
  next
    case False
    then have "show_radix r i = radix_alphabet ! d # map ((!) radix_alphabet) ds'" by (simp add: str d)
    then show ?thesis using False ds(2,4) read dot head by (simp add: parseInt_def Let_def d)
  qed
qed

lemma show_int_radix: "show_int v = show_radix 10 v"
proof -
  have digit: "digit_char d = radix_alphabet ! d" if "d < 10" for d
  proof -
    have "list_all (\<lambda>d. digit_char d = radix_alphabet ! d) [0..<10]"
      by (simp add: upt_rec radix_alphabet_def digit_char_def char_of_def bit_0)
    with that show ?thesis by (simp add: list_all_iff)
  qed
  have "show_nat n = show_radix_nat 10 n" for n
  proof (induction n rule: less_induct)
    case (less n)
    then show ?case by (cases "n < 10") (simp_all add: show_nat.simps [of n] show_radix_nat.simps [of 10 n] digit)
  qed
  then show ?thesis by (simp add: show_int_def show_radix_def)
qed

lemma lower_hex: "list_all is_hex_lower h \<Longrightarrow> to_lower h = h \<and> CHR ''.'' \<notin> set h"
  by (induction h) (auto simp: to_lower_def to_lower_char_def is_hex_lower_def is_digit_def)

lemma decode_parts:
  assumes "list_all is_hex_lower h"
  shows "split_on (CHR ''.'') (encodeQuoteId baseline (''0x'' @ h) expires version)
    = [''qb'', show_radix 36 baseline, h, show_radix 36 expires, show_radix 10 version]"
proof -
  have "encodeQuoteId baseline (''0x'' @ h) expires version
      = join [CHR ''.''] [''qb'', show_radix 36 baseline, h, show_radix 36 expires, show_radix 10 version]"
    using lower_hex [OF assms] by (simp add: encodeQuoteId_def show_int_radix)
  then show ?thesis
    using lower_hex [OF assms] parseInt_show_radix [of 36] parseInt_show_radix [of 10]
    by (simp only:) (rule split_on_join, auto)
qed

text \<open>C34: A quote id is read back as it was written: for a baseline, an expiry and a fee version within the safe integers and
  a 64-digit hash, decoding the encoded id returns the four values, and the full hash binds the op list. A baseline of
  \<open>2\<^sup>5\<^sup>3\<close> or more, which the encoder accepts, is always refused as malformed.\<close>

theorem quote_id_round_trip:
  assumes "list_all is_hex_lower h" "length h = 64"
    and "0 \<le> baseline" "\<bar>expires\<bar> \<le> max_safe_integer" "\<bar>version\<bar> \<le> max_safe_integer"
  shows "decodeQuoteId (encodeQuoteId baseline (''0x'' @ h) expires version) =
     (if baseline \<le> max_safe_integer
      then Inr \<lparr>qt_baseline = baseline, qt_opsHash8 = take 8 h, qt_opsHashFull = Some h, qt_expiresSec = expires, qt_feeVersion = version\<rparr>
      else Inl (batchError ''QUOTE_MISMATCH'' ''Quote id is malformed''))"
  using assms decode_parts [OF assms(1)] lower_hex [OF assms(1)] parseInt_show_radix [of 36] parseInt_show_radix [of 10]
  by (simp add: decodeQuoteId_def Let_def isSafeInteger_def)

theorem quote_id_round_trip_witness:
  "decodeQuoteId (encodeQuoteId (2 ^ 60) (''0x'' @ replicate 64 (CHR ''a'')) 1000 1) = Inl (batchError ''QUOTE_MISMATCH'' ''Quote id is malformed'')
   \<and> is_ok (decodeQuoteId (encodeQuoteId 123456 (''0x'' @ replicate 64 (CHR ''a'')) 1000 1))"
proof -
  have hex: "list_all is_hex_lower (replicate 64 (CHR ''a''))" by (simp add: list_all_iff is_hex_lower_def)
  show ?thesis
    using quote_id_round_trip [OF hex, of "2 ^ 60" 1000 1] quote_id_round_trip [OF hex, of 123456 1000 1]
    by (simp add: max_safe_integer_def)
qed

end
