(* ===== verification/Batch_Intent.thy ===== *)
theory Batch_Intent
  imports Batch_Quote
begin

text \<open>
  What the batch queue accepts, \<^verbatim>\<open>apps/api/src/batch-queue/batch-queue.service.ts\<close>: the op, the envelope of its signed
  intent, and the validation of an op list. The envelope is a JSON value; a JSON number is an integer. In a message an em dash
  is a hyphen.
\<close>

section \<open>Serialization\<close>

definition json_escape :: "char \<Rightarrow> string" where
  "json_escape c =
     (let n = of_char c :: nat; hex = (\<lambda>d. radix_alphabet ! d)
      in if c = CHR 0x22 then [CHR 0x5C, CHR 0x22]
         else if c = CHR 0x5C then [CHR 0x5C, CHR 0x5C]
         else if n = 8 then [CHR 0x5C, CHR ''b'']
         else if n = 9 then [CHR 0x5C, CHR ''t'']
         else if n = 10 then [CHR 0x5C, CHR ''n'']
         else if n = 12 then [CHR 0x5C, CHR ''f'']
         else if n = 13 then [CHR 0x5C, CHR ''r'']
         else if n < 32 then [CHR 0x5C, CHR ''u'', CHR ''0'', CHR ''0'', hex (n div 16), hex (n mod 16)]
         else [c])"

definition json_quote :: "string \<Rightarrow> string" where
  "json_quote s = CHR 0x22 # concat (map json_escape s) @ [CHR 0x22]"

fun json_stringify :: "json \<Rightarrow> string" where
  "json_stringify JNull = ''null''"
| "json_stringify (JBool b) = (if b then ''true'' else ''false'')"
| "json_stringify (JNum n) = show_int n"
| "json_stringify (JStr s) = json_quote s"
| "json_stringify (JArr vs) = ''['' @ join '','' (map json_stringify vs) @ '']''"
| "json_stringify (JObj kvs) = ''{'' @ join '','' (map (\<lambda>kv. json_quote (fst kv) @ '':'' @ json_stringify (snd kv)) kvs) @ ''}''"

text \<open>\<^verbatim>\<open>Buffer.byteLength(s, "utf8")\<close> on code points below 256, and \<^verbatim>\<open>String(v)\<close>.\<close>

definition utf8_byteLength :: "string \<Rightarrow> nat" where
  "utf8_byteLength s = sum_list (map (\<lambda>c. if (of_char c :: nat) < 128 then 1 else 2) s)"

fun js_String :: "json \<Rightarrow> string" where
  "js_String JNull = ''null''"
| "js_String (JBool b) = (if b then ''true'' else ''false'')"
| "js_String (JNum n) = show_int n"
| "js_String (JStr s) = s"
| "js_String (JArr vs) = join '','' (map (\<lambda>v. if v = JNull then [] else js_String v) vs)"
| "js_String (JObj kvs) = ''[object Object]''"

text \<open>\<^verbatim>\<open>v && typeof v === "object"\<close>.\<close>

definition is_object :: "json option \<Rightarrow> bool" where
  "is_object v = (case v of Some (JObj _) \<Rightarrow> True | Some (JArr _) \<Rightarrow> True | _ \<Rightarrow> False)"

section \<open>Ops\<close>

definition MAX_OPS_PER_BATCH :: nat where "MAX_OPS_PER_BATCH = 10"
definition MAX_CALLDATA_BYTES_PER_BATCH :: int where "MAX_CALLDATA_BYTES_PER_BATCH = 64 * 1024"
definition BATCH_GAS_CEILING :: int where "BATCH_GAS_CEILING = 30000000"
definition MAX_INTENT_BYTES :: nat where "MAX_INTENT_BYTES = 8 * 1024"

definition ZERO_ADDRESS :: string where "ZERO_ADDRESS = ''0x0000000000000000000000000000000000000000''"

record StoredOp =
  op_to :: string
  op_value :: string
  op_data :: string
  op_gasLimit :: "string option"
  op_intent :: json

definition selectorOf :: "string \<Rightarrow> string" where "selectorOf data = to_lower (take 10 data)"

text \<open>The number of bytes, in halves: a hex string of odd length counts a half byte.\<close>

definition calldataBytes2 :: "string \<Rightarrow> int" where "calldataBytes2 data = int (length data) - 2"

definition hashOps :: "(string \<Rightarrow> string) \<Rightarrow> StoredOp list \<Rightarrow> string" where
  "hashOps sha ops =
     ''0x'' @ sha (json_stringify (JArr (map (\<lambda>bop.
        JObj [(''to'', JStr (to_lower (op_to bop))), (''value'', JStr (op_value bop)), (''data'', JStr (to_lower (op_data bop)))]) ops)))"

definition is_hex :: "char \<Rightarrow> bool" where "is_hex c \<longleftrightarrow> is_hex_lower (to_lower_char c)"

text \<open>\<^verbatim>\<open>/^0x[0-9a-fA-F]*$/\<close>, and with a fixed count.\<close>

definition hex_string :: "string \<Rightarrow> bool" where
  "hex_string s \<longleftrightarrow> take 2 s = ''0x'' \<and> list_all is_hex (drop 2 s)"

definition hex_string_n :: "nat \<Rightarrow> string \<Rightarrow> bool" where
  "hex_string_n n s \<longleftrightarrow> hex_string s \<and> length s = n + 2"

definition DENIED_SELECTORS :: "string list" where
  "DENIED_SELECTORS =
     [''0xa9059cbb'', ''0x23b872dd'', ''0x095ea7b3'', ''0x39509351'', ''0xa457c2d7'', ''0xd505accf'', ''0x42842e0e'',
      ''0xb88d4fde'', ''0xf242432a'', ''0x2eb2c2d6'', ''0xa22cb465'', ''0x87517c45'', ''0x2a2e0c7a'']"

section \<open>The envelope of an intent\<close>

definition INTENT_KIND_OWNER_V3 :: string where "INTENT_KIND_OWNER_V3 = ''owner-execute-v3''"
definition INTENT_KIND_OWNER_V4 :: string where "INTENT_KIND_OWNER_V4 = ''owner-execute-v4''"
definition INTENT_KIND_SESSION_V1 :: string where "INTENT_KIND_SESSION_V1 = ''session-permission-v1''"
definition INTENT_KIND_SESSION_V2 :: string where "INTENT_KIND_SESSION_V2 = ''session-permission-v2''"

definition KNOWN_INTENT_KINDS :: "string list" where
  "KNOWN_INTENT_KINDS = [INTENT_KIND_OWNER_V3, INTENT_KIND_OWNER_V4, INTENT_KIND_SESSION_V1, INTENT_KIND_SESSION_V2]"

definition SESSION_INTENT_KINDS :: "string list" where
  "SESSION_INTENT_KINDS = [INTENT_KIND_SESSION_V1, INTENT_KIND_SESSION_V2]"

definition PHASE_1A_INTENT_KINDS :: "string list" where
  "PHASE_1A_INTENT_KINDS = [INTENT_KIND_OWNER_V3, INTENT_KIND_SESSION_V1]"

record intent_envelope =
  ev_kind :: string
  ev_account :: string
  ev_chainId :: string
  ev_permissionId :: "string option"
  ev_seq :: "int option"
  ev_legacyDefaulted :: bool

definition bad_intent :: "string \<Rightarrow> http_error" where
  "bad_intent message = batchError ''INVALID_CALLDATA'' message"

definition intent_kind :: "json \<Rightarrow> (string \<times> bool) result" where
  "intent_kind raw =
     (case json_get (Some raw) ''kind'' of
        None \<Rightarrow> Inr (INTENT_KIND_OWNER_V3, True)
      | Some k \<Rightarrow>
          (case k of
             JStr s \<Rightarrow> if List.member KNOWN_INTENT_KINDS s then Inr (s, False) else Inl (bad_intent (''Unknown intent kind: '' @ s))
           | _ \<Rightarrow> Inl (bad_intent (''Unknown intent kind: '' @ js_String k))))"

definition safe_natural :: "json option \<Rightarrow> bool" where
  "safe_natural v \<longleftrightarrow> isSafeInteger (json_number v) \<and> 0 \<le> the (json_number v)"

definition call_mirrors :: "json option \<Rightarrow> StoredOp \<Rightarrow> bool" where
  "call_mirrors c bop \<longleftrightarrow>
     map_option to_lower (json_string (json_get c ''to'')) = Some (to_lower (op_to bop))
     \<and> json_string (json_get c ''value'') = Some (op_value bop)
     \<and> map_option to_lower (json_string (json_get c ''data'')) = Some (to_lower (op_data bop))"

definition session_grant :: "string \<Rightarrow> json option \<Rightarrow> (string option \<times> int option) result" where
  "session_grant kind a =
     (if \<not> List.member SESSION_INTENT_KINDS kind then Inr (None, None)
      else case json_string (json_get a ''permissionId'') of
        None \<Rightarrow> Inl (bad_intent ''Session intent must carry auth.permissionId (bytes32)'')
      | Some p \<Rightarrow>
          if \<not> hex_string_n 64 p then Inl (bad_intent ''Session intent must carry auth.permissionId (bytes32)'')
          else if \<not> safe_natural (json_get a ''seq'') then Inl (bad_intent ''Session intent must carry auth.seq (u64)'')
          else Inr (Some (to_lower p), json_number (json_get a ''seq'')))"

definition validateIntentEnvelope :: "json \<Rightarrow> StoredOp \<Rightarrow> intent_envelope result" where
  "validateIntentEnvelope raw bop =
     bind_result (intent_kind raw) (\<lambda>(kind, legacy).
     if json_number (json_get (Some raw) ''version'') \<noteq> Some 1 then Inl (bad_intent ''Intent envelope version must be 1'')
     else case json_string (json_get (Some raw) ''account'') of
       None \<Rightarrow> Inl (bad_intent ''Intent envelope account must be a 0x address'')
     | Some account \<Rightarrow>
     if \<not> hex_string_n 40 account then Inl (bad_intent ''Intent envelope account must be a 0x address'')
     else case json_string (json_get (Some raw) ''chainId'') of
       None \<Rightarrow> Inl (bad_intent ''Intent envelope chainId must be a decimal string'')
     | Some chainId \<Rightarrow>
     if \<not> all_digits chainId then Inl (bad_intent ''Intent envelope chainId must be a decimal string'')
     else if \<not> is_object (json_get (Some raw) ''call'') then Inl (bad_intent ''Intent envelope must carry call {to,value,data}'')
     else if \<not> call_mirrors (json_get (Some raw) ''call'') bop then Inl (bad_intent ''Intent call must mirror the op (to/value/data)'')
     else if \<not> is_object (json_get (Some raw) ''auth'') then Inl (bad_intent ''Intent envelope must carry auth proof'')
     else if \<not> safe_natural (json_get (json_get (Some raw) ''auth'') ''deadline'')
       then Inl (bad_intent ''Intent envelope auth.deadline must be a u64 unix time'')
     else bind_result (session_grant kind (json_get (Some raw) ''auth'')) (\<lambda>(permissionId, seq).
       Inr \<lparr>ev_kind = kind, ev_account = to_lower account, ev_chainId = chainId, ev_permissionId = permissionId,
            ev_seq = seq, ev_legacyDefaulted = legacy\<rparr>))"

definition assertIntentSessionMatch :: "StoredOp \<Rightarrow> int \<Rightarrow> unit result" where
  "assertIntentSessionMatch bop sequence =
     bind_result (validateIntentEnvelope (op_intent bop) bop) (\<lambda>env.
       if List.member SESSION_INTENT_KINDS (ev_kind env) \<and> ev_seq env \<noteq> Some sequence
       then Inl (bad_intent ''Intent session seq does not match the batch session key'')
       else Inr ())"

definition intent_deadline :: "StoredOp \<Rightarrow> int" where
  "intent_deadline bop = the (json_number (json_get (json_get (Some (op_intent bop)) ''auth'') ''deadline''))"

definition assertIntentFreshness :: "StoredOp \<Rightarrow> int \<Rightarrow> unit result" where
  "assertIntentFreshness bop nowSec =
     bind_result (validateIntentEnvelope (op_intent bop) bop) (\<lambda>_.
       if intent_deadline bop \<le> nowSec
       then Inl (batchError ''SESSION_EXPIRED'' ''Intent auth deadline has passed - re-sign and try again'')
       else Inr ())"

section \<open>An op list\<close>

definition check_op :: "StoredOp \<Rightarrow> int result" where
  "check_op bop =
     (if \<not> hex_string_n 40 (op_to bop) \<or> to_lower (op_to bop) = ZERO_ADDRESS
        then Inl (batchError ''INVALID_TARGET'' (''Op target is invalid: '' @ op_to bop))
      else if \<not> hex_string (op_data bop) \<or> length (op_data bop) < 10
        then Inl (batchError ''INVALID_CALLDATA'' ''Op data must carry at least a 4-byte selector'')
      else if List.member (map to_lower DENIED_SELECTORS) (selectorOf (op_data bop))
        then Inl (batchError ''SESSION_DENIED'' (''Op selector '' @ selectorOf (op_data bop) @ '' is denied for batched execution''))
      else if \<not> all_digits (op_value bop) \<or> op_value bop \<noteq> ''0''
        then Inl (batchError ''VALUE_NOT_PERMITTED'' ''Phase-1a batches are non-financial only (value must be 0)'')
      else bind_result
        (case op_gasLimit bop of
           None \<Rightarrow> Inr 0
         | Some g \<Rightarrow> if \<not> all_digits g \<or> nat_of_digits g = 0
             then Inl (batchError ''GAS_CEILING_EXCEEDED'' ''Per-op gas cap must be a positive integer'')
             else Inr (int (nat_of_digits g))) (\<lambda>gas.
      if \<not> is_object (Some (op_intent bop)) then Inl (bad_intent ''Each op must carry its signed single-call intent'')
      else if utf8_byteLength (json_stringify (op_intent bop)) > MAX_INTENT_BYTES
        then Inl (batchError ''INTENT_TOO_LARGE'' (''Op intent exceeds '' @ show_nat MAX_INTENT_BYTES @ '' bytes''))
      else bind_result (validateIntentEnvelope (op_intent bop) bop) (\<lambda>env.
        if \<not> List.member PHASE_1A_INTENT_KINDS (ev_kind env)
        then Inl (bad_intent (''Intent kind '' @ ev_kind env @ '' is not permitted in phase-1a''))
        else Inr gas)))"

text \<open>The loop adds up calldata (in halves of a byte) and gas caps.\<close>

fun check_ops :: "StoredOp list \<Rightarrow> int \<times> int \<Rightarrow> (int \<times> int) result" where
  "check_ops [] acc = Inr acc"
| "check_ops (bop # rest) acc = bind_result (check_op bop) (\<lambda>gas. check_ops rest (fst acc + calldataBytes2 (op_data bop), snd acc + gas))"

definition validateBatchOps :: "StoredOp list \<Rightarrow> unit result" where
  "validateBatchOps ops =
     (if ops = [] then Inl (batchError ''EMPTY_BATCH'' ''Batch must contain at least one op'')
      else if length ops > MAX_OPS_PER_BATCH
        then Inl (batchError ''BATCH_TOO_LARGE'' (''Batch exceeds '' @ show_nat MAX_OPS_PER_BATCH @ '' ops''))
      else bind_result (check_ops ops (0, 0)) (\<lambda>(calldata2, gas).
        if calldata2 > 2 * MAX_CALLDATA_BYTES_PER_BATCH then Inl (batchError ''BATCH_TOO_LARGE'' ''Batch calldata exceeds 64 KB'')
        else if gas > BATCH_GAS_CEILING
          then Inl (batchError ''GAS_CEILING_EXCEEDED'' ''Sum of per-op gas caps exceeds the batch gas ceiling'')
        else Inr ()))"

section \<open>What an accepted op list is\<close>

text \<open>An op without money and without a denied selector, whose signed intent calls exactly what the op says.\<close>

definition admissible_op :: "StoredOp \<Rightarrow> bool" where
  "admissible_op bop \<longleftrightarrow>
     hex_string_n 40 (op_to bop) \<and> to_lower (op_to bop) \<noteq> ZERO_ADDRESS \<and> hex_string (op_data bop) \<and> 10 \<le> length (op_data bop)
     \<and> selectorOf (op_data bop) \<notin> set DENIED_SELECTORS \<and> op_value bop = ''0''
     \<and> (\<exists>env. validateIntentEnvelope (op_intent bop) bop = Inr env \<and> ev_kind env \<in> {INTENT_KIND_OWNER_V3, INTENT_KIND_SESSION_V1})
     \<and> call_mirrors (json_get (Some (op_intent bop)) ''call'') bop"

lemma envelope_mirrors: "validateIntentEnvelope raw bop = Inr env \<Longrightarrow> call_mirrors (json_get (Some raw) ''call'') bop"
  by (auto simp: validateIntentEnvelope_def split: if_splits option.splits)

lemma denied_lower: "map to_lower DENIED_SELECTORS = DENIED_SELECTORS"
  by (simp add: DENIED_SELECTORS_def to_lower_def to_lower_char_def)

lemma check_op_admissible: "check_op bop = Inr gas \<Longrightarrow> admissible_op bop \<and> 0 \<le> gas"
  by (auto simp: check_op_def admissible_op_def denied_lower PHASE_1A_INTENT_KINDS_def split: if_splits option.splits
      dest: envelope_mirrors)

lemma check_ops_admissible:
  "check_ops ops acc = Inr r \<Longrightarrow> list_all admissible_op ops
     \<and> fst r = fst acc + sum_list (map (\<lambda>bop. calldataBytes2 (op_data bop)) ops)"
proof (induction ops acc rule: check_ops.induct)
  case (2 bop rest acc)
  then show ?case using check_op_admissible by fastforce
qed auto

lemma validateBatchOps_admissible:
  assumes "validateBatchOps ops = Inr u"
  shows "1 \<le> length ops \<and> length ops \<le> MAX_OPS_PER_BATCH \<and> list_all admissible_op ops
    \<and> sum_list (map (\<lambda>bop. calldataBytes2 (op_data bop)) ops) \<le> 2 * MAX_CALLDATA_BYTES_PER_BATCH"
proof -
  obtain c g where "check_ops ops (0, 0) = Inr (c, g)" "c \<le> 2 * MAX_CALLDATA_BYTES_PER_BATCH" "ops \<noteq> []" "length ops \<le> MAX_OPS_PER_BATCH"
    using assms by (auto simp: validateBatchOps_def split: if_splits)
  then show ?thesis using check_ops_admissible [of ops "(0, 0)" "(c, g)"] by (cases ops) auto
qed

end
