(* ===== verification/Fee_Policy.thy ===== *)
theory Fee_Policy
  imports Prelude
begin

text \<open>
  The chain fee policy: the fee functions of \<^verbatim>\<open>apps/api/src/common/solana-relay.ts\<close> and \<^verbatim>\<open>apps/api/src/fee/fee-policy.service.ts\<close>,
  the service that publishes versions of the policy, activates one, caches them for 30 s, gates the version of a submitted
  quote and records the subsidy ledger. The state is the two tables and the cache; the time in milliseconds, whether the
  database answers and whether the audit log does are arguments of every call.
\<close>

section \<open>Fee arithmetic\<close>

definition MAX_PROTOCOL_FEE_BPS :: int where "MAX_PROTOCOL_FEE_BPS = 5000"
definition PID_FEE_POLICY_VERSION :: int where "PID_FEE_POLICY_VERSION = 2"

definition feePolicyVersion :: int where "feePolicyVersion = PID_FEE_POLICY_VERSION"

text \<open>Version to basis points; every minimum of the table is 0.\<close>

definition FEE_POLICY_TABLE :: "(int \<times> int) list" where
  "FEE_POLICY_TABLE = [(1, 5000), (2, 5000)]"

definition feePolicyRow :: "int \<Rightarrow> int result" where
  "feePolicyRow version =
     (case map_of FEE_POLICY_TABLE version of
        None \<Rightarrow> Inl (JsError (''unknown fee policy version: '' @ show_int version))
      | Some bps \<Rightarrow> if bps > MAX_PROTOCOL_FEE_BPS then Inl (JsError ''protocol fee exceeds maximum'') else Inr bps)"

definition protocolFeeOf :: "int \<Rightarrow> int \<Rightarrow> int" where
  "protocolFeeOf networkFee bps = bigdiv (networkFee * bps) 10000"

definition platformFeeOf :: "int \<Rightarrow> int \<Rightarrow> int result" where
  "platformFeeOf networkFee version = bind_result (feePolicyRow version) (\<lambda>bps. Inr (protocolFeeOf networkFee bps))"

definition platformFeeWithMin :: "int \<Rightarrow> int \<Rightarrow> int \<Rightarrow> int" where
  "platformFeeWithMin networkFee bps minFee = protocolFeeOf networkFee bps"

definition totalFeeOf :: "int \<Rightarrow> int \<Rightarrow> int result" where
  "totalFeeOf networkFee version = bind_result (platformFeeOf networkFee version) (\<lambda>fee. Inr (networkFee + fee))"

definition exceedsMaxTotalFee :: "int \<Rightarrow> int \<Rightarrow> bool" where
  "exceedsMaxTotalFee totalFee maxTotalFee \<longleftrightarrow> totalFee > maxTotalFee"

definition QUOTE_DRIFT_NUMERATOR :: int where "QUOTE_DRIFT_NUMERATOR = 120"
definition QUOTE_DRIFT_DENOMINATOR :: int where "QUOTE_DRIFT_DENOMINATOR = 100"

definition exceedsDriftBound :: "int \<Rightarrow> int \<Rightarrow> bool" where
  "exceedsDriftBound attested quoted \<longleftrightarrow> attested * QUOTE_DRIFT_DENOMINATOR > quoted * QUOTE_DRIFT_NUMERATOR"

section \<open>State\<close>

record fee_policy_row =
  po_version :: int
  po_bps :: int
  po_active :: bool
  po_fxSource :: string
  po_fxAsOf :: "int option"
  po_updatedAt :: int

record subsidy_entry =
  su_pid :: string
  su_namespace :: string
  su_reference :: string
  su_kind :: string
  su_quotedFee :: int
  su_actualCost :: int
  su_subsidy :: int
  su_txHash :: "string option"

text \<open>What a load of the policies returns: the rows by version and the active version.\<close>

type_synonym loaded = "(int, fee_policy_row) jsmap \<times> int"

record fee_state =
  fs_rows :: "fee_policy_row list"
  fs_cache :: "(int \<times> loaded) option"
  fs_subsidies :: "subsidy_entry list"
  fs_log :: "(string \<times> string \<times> int) list"

definition CACHE_TTL_MS :: int where "CACHE_TTL_MS = 30000"

definition invalidate_fees :: "fee_state \<Rightarrow> fee_state" where
  "invalidate_fees st = st\<lparr>fs_cache := None\<rparr>"

section \<open>Reading\<close>

definition codeFallback :: "int \<Rightarrow> loaded" where
  "codeFallback now =
     (let version = (if map_of FEE_POLICY_TABLE feePolicyVersion \<noteq> None then feePolicyVersion else 1)
      in (map (\<lambda>(v, bps). (v, \<lparr>po_version = v, po_bps = bps, po_active = (v = version), po_fxSource = ''FALLBACK_STATIC'',
                              po_fxAsOf = None, po_updatedAt = now\<rparr>)) FEE_POLICY_TABLE, version))"

text \<open>\<^verbatim>\<open>findMany({ orderBy: { version: "asc" } })\<close>; each row is set in the map under its version.\<close>

definition readPolicies :: "int \<Rightarrow> fee_policy_row list \<Rightarrow> loaded" where
  "readPolicies now stored =
     (let rows = sort_key po_version stored
      in if rows = [] then codeFallback now
         else (fold (\<lambda>r m. jsmap_set (po_version r) r m) rows [],
               po_version (case find po_active rows of Some r \<Rightarrow> r | None \<Rightarrow> last rows)))"

definition policies :: "bool \<Rightarrow> int \<Rightarrow> fee_state \<Rightarrow> loaded \<times> fee_state" where
  "policies dbOk now st =
     (case fs_cache st of
        Some (at, l) \<Rightarrow>
          if now - at < CACHE_TTL_MS then (l, st)
          else let l' = (if dbOk then readPolicies now (fs_rows st) else codeFallback now) in (l', st\<lparr>fs_cache := Some (now, l')\<rparr>)
      | None \<Rightarrow> let l' = (if dbOk then readPolicies now (fs_rows st) else codeFallback now) in (l', st\<lparr>fs_cache := Some (now, l')\<rparr>))"

definition activePolicy :: "bool \<Rightarrow> int \<Rightarrow> fee_state \<Rightarrow> fee_policy_row result \<times> fee_state" where
  "activePolicy dbOk now st =
     (case policies dbOk now st of (l, st') \<Rightarrow>
        (case jsmap_get (fst l) (snd l) of
           None \<Rightarrow> (Inl (BadRequest ''No fee policy available''), st')
         | Some row \<Rightarrow> (Inr row, st')))"

definition policyByVersion :: "bool \<Rightarrow> int \<Rightarrow> int \<Rightarrow> fee_state \<Rightarrow> fee_policy_row option \<times> fee_state" where
  "policyByVersion dbOk now version st = (case policies dbOk now st of (l, st') \<Rightarrow> (jsmap_get (fst l) version, st'))"

definition minFeeForVersion :: "bool \<Rightarrow> int \<Rightarrow> int \<Rightarrow> fee_state \<Rightarrow> (int \<times> int) result \<times> fee_state" where
  "minFeeForVersion dbOk now version st =
     (case policyByVersion dbOk now version st of (row, st') \<Rightarrow>
        (case row of
           None \<Rightarrow> (Inl (BadRequest ''UnknownFeePolicy: Unsupported fee policy - re-quote and try again''), st')
         | Some r \<Rightarrow> (Inr (0, po_bps r), st')))"

definition minFeeFor :: "bool \<Rightarrow> int \<Rightarrow> fee_state \<Rightarrow> (int \<times> int \<times> int) result \<times> fee_state" where
  "minFeeFor dbOk now st =
     (case activePolicy dbOk now st of (r, st') \<Rightarrow> (bind_result r (\<lambda>p. Inr (0, po_version p, po_bps p)), st'))"

datatype SubmitVersionCheck = VersionOk "string option" | VersionRefused string nat string

definition checkSubmitVersion :: "bool \<Rightarrow> int \<Rightarrow> int \<Rightarrow> fee_state \<Rightarrow> SubmitVersionCheck \<times> fee_state" where
  "checkSubmitVersion dbOk now submitted st =
     (case policies dbOk now st of ((ps, activeVersion), st') \<Rightarrow>
        (if jsmap_get ps submitted = None
           then VersionRefused ''UnknownFeePolicy'' 400 ''Unsupported fee policy - re-quote and try again''
         else if submitted = activeVersion then VersionOk None
         else if submitted > activeVersion
           then VersionRefused ''UnknownFeePolicy'' 400 ''Unsupported fee policy - re-quote and try again''
         else if activeVersion - submitted \<le> 1
           then VersionOk (Some (''Quote uses fee-policy v'' @ show_int submitted @ ''; current is v'' @ show_int activeVersion
                  @ '' - amounts re-attested under v'' @ show_int submitted))
         else VersionRefused ''StaleQuote'' 410 ''Fee policy superseded - re-quote and try again'', st'))"

record policy_view =
  pv_version :: int
  pv_bps :: int
  pv_active :: bool
  pv_fxSource :: string
  pv_fxAsOf :: "int option"
  pv_updatedAt :: int

definition publicView :: "bool \<Rightarrow> int \<Rightarrow> fee_state \<Rightarrow> policy_view result \<times> fee_state" where
  "publicView dbOk now st =
     (case activePolicy dbOk now st of (r, st') \<Rightarrow>
        (bind_result r (\<lambda>p. Inr \<lparr>pv_version = po_version p, pv_bps = po_bps p, pv_active = True, pv_fxSource = po_fxSource p,
           pv_fxAsOf = po_fxAsOf p, pv_updatedAt = po_updatedAt p\<rparr>), st'))"

definition listPolicies :: "bool \<Rightarrow> int \<Rightarrow> fee_state \<Rightarrow> policy_view list \<times> fee_state" where
  "listPolicies dbOk now st =
     (case policies dbOk now st of ((ps, activeVersion), st') \<Rightarrow>
        (map (\<lambda>p. \<lparr>pv_version = po_version p, pv_bps = po_bps p, pv_active = (po_version p = activeVersion),
                    pv_fxSource = po_fxSource p, pv_fxAsOf = po_fxAsOf p, pv_updatedAt = po_updatedAt p\<rparr>)
           (sort_key (\<lambda>p. - po_version p) (map snd ps)), st'))"

section \<open>Writing\<close>

text \<open>\<open>parseDate\<close> is \<^verbatim>\<open>new Date(s).getTime()\<close>, \<open>None\<close> for an invalid date.\<close>

record fee_create_input =
  ci_bps :: int
  ci_minima :: nat
  ci_fxSource :: "string option"
  ci_fxAsOf :: "string option"

record io =
  io_db :: bool
  io_log :: bool
  io_parseDate :: "string \<Rightarrow> int option"

definition security_log :: "io \<Rightarrow> string \<Rightarrow> string \<Rightarrow> int \<Rightarrow> 'a \<Rightarrow> fee_state \<Rightarrow> 'a result \<times> fee_state" where
  "security_log io pid event version answer st =
     (if io_log io then (Inr answer, st\<lparr>fs_log := fs_log st @ [(pid, event, version)]\<rparr>) else (Inl (JsError ''log unavailable''), st))"

definition new_version :: "fee_policy_row list \<Rightarrow> int" where
  "new_version rows = foldl (\<lambda>m r. max m (po_version r)) 0 rows + 1"

definition createPolicy :: "io \<Rightarrow> int \<Rightarrow> string \<Rightarrow> fee_create_input \<Rightarrow> fee_state \<Rightarrow> (int \<times> int \<times> bool) result \<times> fee_state" where
  "createPolicy io now pid input st =
     (let bps = ci_bps input in
      if bps < 0 \<or> bps > MAX_PROTOCOL_FEE_BPS
        then (Inl (BadRequest (''FeeBpsOutOfRange: bps must be an integer 0..'' @ show_int MAX_PROTOCOL_FEE_BPS)), st)
      else case (case ci_fxAsOf input of None \<Rightarrow> Inr None
                 | Some s \<Rightarrow> (case io_parseDate io s of None \<Rightarrow> Inl (BadRequest ''fxAsOf must be an ISO-8601 date'') | Some t \<Rightarrow> Inr (Some t))) of
        Inl e \<Rightarrow> (Inl e, st)
      | Inr fxAsOf \<Rightarrow>
          if \<not> io_db io then (Inl (JsError ''database unavailable''), st)
          else let version = new_version (fs_rows st);
                   source = trim (nullish (ci_fxSource input) []);
                   row = \<lparr>po_version = version, po_bps = bps, po_active = False,
                          po_fxSource = (if source = [] then ''FALLBACK_STATIC'' else source), po_fxAsOf = fxAsOf, po_updatedAt = now\<rparr>
            in if version \<in> po_version ` set (fs_rows st) then (Inl UniqueViolation, st)
               else security_log io pid ''admin.fee_policy.created'' version (version, bps, False)
                      (invalidate_fees (st\<lparr>fs_rows := fs_rows st @ [row]\<rparr>)))"

text \<open>The two updates of the activation: all rows off, then one on.\<close>

definition deactivate_row :: "int \<Rightarrow> fee_policy_row \<Rightarrow> fee_policy_row" where
  "deactivate_row now r = (if po_active r then r\<lparr>po_active := False, po_updatedAt := now\<rparr> else r)"

definition activate_row :: "int \<Rightarrow> int \<Rightarrow> fee_policy_row \<Rightarrow> fee_policy_row" where
  "activate_row now version r = (if po_version r = version then r\<lparr>po_active := True, po_updatedAt := now\<rparr> else r)"

definition activateFeePolicy :: "io \<Rightarrow> int \<Rightarrow> string \<Rightarrow> int \<Rightarrow> fee_state \<Rightarrow> (int \<times> int) result \<times> fee_state" where
  "activateFeePolicy io now pid version st =
     (if \<not> io_db io then (Inl (JsError ''database unavailable''), st)
      else if version \<notin> po_version ` set (fs_rows st)
        then (Inl (BadRequest (''UnknownFeePolicy: Fee policy v'' @ show_int version @ '' does not exist'')), st)
      else let previous = (case find po_active (fs_rows st) of Some r \<Rightarrow> po_version r | None \<Rightarrow> version);
               rows = map (activate_row now version) (map (deactivate_row now) (fs_rows st))
        in security_log io pid ''admin.fee_policy.activated'' version (version, previous) (invalidate_fees (st\<lparr>fs_rows := rows\<rparr>)))"

definition recordSubsidy :: "bool \<Rightarrow> subsidy_entry \<Rightarrow> fee_state \<Rightarrow> unit result \<times> fee_state" where
  "recordSubsidy dbOk e st =
     (if dbOk then (Inr (), st\<lparr>fs_subsidies := fs_subsidies st @ [e\<lparr>su_subsidy := su_actualCost e - su_quotedFee e\<rparr>]\<rparr>)
      else (Inl (JsError ''database unavailable''), st))"

section \<open>Invariant\<close>

definition bps_ok :: "fee_policy_row \<Rightarrow> bool" where
  "bps_ok r \<longleftrightarrow> 0 \<le> po_bps r \<and> po_bps r \<le> MAX_PROTOCOL_FEE_BPS"

definition loaded_ok :: "loaded \<Rightarrow> bool" where
  "loaded_ok l \<longleftrightarrow> snd l \<in> fst ` set (fst l) \<and> (\<forall>(v, r) \<in> set (fst l). po_version r = v \<and> bps_ok r)"

definition fee_ok :: "fee_state \<Rightarrow> bool" where
  "fee_ok st \<longleftrightarrow>
     distinct (map po_version (fs_rows st)) \<and> (\<forall>r \<in> set (fs_rows st). bps_ok r)
     \<and> length (filter po_active (fs_rows st)) \<le> 1
     \<and> (case fs_cache st of None \<Rightarrow> True | Some c \<Rightarrow> loaded_ok (snd c))"

lemma fallback_ok: "loaded_ok (codeFallback now)"
  by (simp add: loaded_ok_def codeFallback_def FEE_POLICY_TABLE_def feePolicyVersion_def PID_FEE_POLICY_VERSION_def bps_ok_def
      MAX_PROTOCOL_FEE_BPS_def)

lemma set_jsmap_set: "x \<in> set (jsmap_set k v m) \<Longrightarrow> x = (k, v) \<or> x \<in> set m"
  by (induction m) (auto split: if_splits)

lemma set_rows_ok:
  "(\<forall>(v, r) \<in> set m. po_version r = v \<and> bps_ok r) \<Longrightarrow> \<forall>r \<in> set rows. bps_ok r \<Longrightarrow>
     (\<forall>(v, r) \<in> set (fold (\<lambda>r m. jsmap_set (po_version r) r m) rows m). po_version r = v \<and> bps_ok r)
     \<and> fst ` set (fold (\<lambda>r m. jsmap_set (po_version r) r m) rows m) = fst ` set m \<union> po_version ` set rows"
proof (induction rows arbitrary: m)
  case (Cons r rows)
  have "\<forall>(v, q) \<in> set (jsmap_set (po_version r) r m). po_version q = v \<and> bps_ok q"
    using Cons.prems set_jsmap_set [of _ "po_version r" r m] by fastforce
  from Cons.IH [OF this] Cons.prems show ?case by (auto simp: jsmap_set_keys)
qed simp

lemma read_ok: "\<forall>r \<in> set rows. bps_ok r \<Longrightarrow> loaded_ok (readPolicies now rows)"
proof (cases "sort_key po_version rows = []")
  case False
  assume ok: "\<forall>r \<in> set rows. bps_ok r"
  let ?rows = "sort_key po_version rows"
  have pick: "(case find po_active ?rows of Some r \<Rightarrow> r | None \<Rightarrow> last ?rows) \<in> set ?rows"
    using False last_in_set [of ?rows] by (auto split: option.splits dest: find_SomeD)
  from set_rows_ok [of "[]" ?rows] ok
  have rows: "(\<forall>(v, r) \<in> set (fold (\<lambda>r m. jsmap_set (po_version r) r m) ?rows []). po_version r = v \<and> bps_ok r)"
    "fst ` set (fold (\<lambda>r m. jsmap_set (po_version r) r m) ?rows []) = po_version ` set ?rows" by auto
  then have "po_version (case find po_active ?rows of Some r \<Rightarrow> r | None \<Rightarrow> last ?rows) \<in> po_version ` set ?rows"
    using pick by (intro imageI)
  with False rows show ?thesis by (simp only: loaded_ok_def readPolicies_def Let_def if_False fst_conv snd_conv simp_thms)
qed (simp add: readPolicies_def fallback_ok)

lemma policies_ok:
  assumes "fee_ok st" "policies dbOk now st = (l, st')"
  shows "loaded_ok l \<and> fee_ok st' \<and> fs_rows st' = fs_rows st \<and> fs_subsidies st' = fs_subsidies st"
  using assms read_ok [of "fs_rows st" now] fallback_ok [of now]
  by (auto simp: policies_def fee_ok_def Let_def split: option.splits if_splits prod.splits)

lemma jsmap_get_ok: "loaded_ok l \<Longrightarrow> \<exists>r. jsmap_get (fst l) (snd l) = Some r \<and> po_version r = snd l \<and> bps_ok r"
proof -
  assume ok: "loaded_ok l"
  then obtain r where "jsmap_get (fst l) (snd l) = Some r"
    by (metis loaded_ok_def map_of_eq_None_iff not_None_eq)
  with ok show ?thesis by (auto simp: loaded_ok_def dest: map_of_SomeD)
qed

lemma activePolicy_ok:
  assumes "fee_ok st"
  obtains p st' where "activePolicy dbOk now st = (Inr p, st')" "bps_ok p" "fee_ok st'"
    "fs_rows st' = fs_rows st" "fs_subsidies st' = fs_subsidies st"
proof -
  obtain l st' where l: "policies dbOk now st = (l, st')" by (cases "policies dbOk now st")
  from policies_ok [OF assms l] jsmap_get_ok [of l] l show ?thesis
    by (auto simp: activePolicy_def intro: that)
qed

lemma new_version_fresh: "r \<in> set rows \<Longrightarrow> po_version r < new_version rows"
proof -
  have "m \<le> foldl (\<lambda>m r. max m (po_version r)) m rows \<and> (\<forall>r \<in> set rows. po_version r \<le> foldl (\<lambda>m r. max m (po_version r)) m rows)" for m
  proof (induction rows arbitrary: m)
    case (Cons a rows)
    from Cons [of "max m (po_version a)"] show ?case by auto
  qed simp
  then show "r \<in> set rows \<Longrightarrow> po_version r < new_version rows" by (fastforce simp: new_version_def)
qed

text \<open>The service's operations.\<close>

datatype fee_op =
    ReadPolicies bool int
  | CreatePolicy io int string fee_create_input
  | ActivatePolicy io int string int
  | RecordSubsidy bool subsidy_entry

fun fee_step :: "fee_op \<Rightarrow> fee_state \<Rightarrow> fee_state" where
  "fee_step (ReadPolicies dbOk now) st = snd (policies dbOk now st)"
| "fee_step (CreatePolicy io now pid input) st = snd (createPolicy io now pid input st)"
| "fee_step (ActivatePolicy io now pid version) st = snd (activateFeePolicy io now pid version st)"
| "fee_step (RecordSubsidy dbOk e) st = snd (recordSubsidy dbOk e st)"

text \<open>What is published is never changed: version, percentage and display source of a row.\<close>

definition published :: "fee_state \<Rightarrow> (int \<times> int \<times> string \<times> int option) set" where
  "published st = (\<lambda>r. (po_version r, po_bps r, po_fxSource r, po_fxAsOf r)) ` set (fs_rows st)"

lemma log_keeps:
  "fee_ok (snd (security_log io pid event v a st)) = fee_ok st" "published (snd (security_log io pid event v a st)) = published st"
  by (simp_all add: security_log_def fee_ok_def published_def)

lemma createPolicy_ok: "fee_ok st \<Longrightarrow> fee_ok (snd (createPolicy io now pid input st)) \<and> published st \<subseteq> published (snd (createPolicy io now pid input st))"
  using new_version_fresh [of _ "fs_rows st"]
  by (auto simp: createPolicy_def fee_ok_def published_def Let_def security_log_def invalidate_fees_def bps_ok_def split: sum.splits option.splits)

lemma switch_row:
  "po_version (activate_row now v (deactivate_row now r)) = po_version r" "po_bps (activate_row now v (deactivate_row now r)) = po_bps r"
  "po_fxSource (activate_row now v (deactivate_row now r)) = po_fxSource r" "po_fxAsOf (activate_row now v (deactivate_row now r)) = po_fxAsOf r"
  "po_active (activate_row now v (deactivate_row now r)) \<longleftrightarrow> po_version r = v"
  by (simp_all add: activate_row_def deactivate_row_def)

lemma filter_key_one: "distinct (map f xs) \<Longrightarrow> length (filter (\<lambda>r. f r = v) xs) \<le> 1"
proof (induction xs)
  case (Cons a xs)
  have "filter (\<lambda>r. f r = v) xs = []" if "f a = v"
  proof -
    have "f x \<noteq> v" if "x \<in> set xs" for x using Cons.prems that \<open>f a = v\<close> by (metis distinct.simps(2) image_eqI list.set_map list.simps(9))
    then show ?thesis by (simp add: filter_empty_conv)
  qed
  with Cons show ?case by auto
qed simp

lemma activateFeePolicy_ok:
  assumes "fee_ok st"
  shows "fee_ok (snd (activateFeePolicy io now pid version st)) \<and> published (snd (activateFeePolicy io now pid version st)) = published st"
proof -
  let ?rows = "map (activate_row now version) (map (deactivate_row now) (fs_rows st))"
  have d: "distinct (map po_version (fs_rows st))" using assms by (simp add: fee_ok_def)
  have "filter po_active ?rows = map (\<lambda>r. activate_row now version (deactivate_row now r)) (filter (\<lambda>r. po_version r = version) (fs_rows st))"
    by (simp add: filter_map comp_def switch_row)
  then have one: "length (filter po_active ?rows) \<le> 1" using filter_key_one [OF d, of version] by simp
  have "fee_ok (invalidate_fees (st\<lparr>fs_rows := ?rows\<rparr>))"
    using assms one by (simp add: fee_ok_def comp_def switch_row bps_ok_def invalidate_fees_def)
  moreover have "published (invalidate_fees (st\<lparr>fs_rows := ?rows\<rparr>)) = published st"
    by (simp add: published_def image_image switch_row invalidate_fees_def)
  ultimately show ?thesis
    using assms by (cases "io_db io"; cases "version \<in> po_version ` set (fs_rows st)") (simp_all add: activateFeePolicy_def Let_def log_keeps del: map_map)
qed

lemma policies_keep:
  "fee_ok st \<Longrightarrow> fee_ok (snd (policies dbOk now st))" "fs_rows (snd (policies dbOk now st)) = fs_rows st"
  using policies_ok [of st dbOk now "fst (policies dbOk now st)" "snd (policies dbOk now st)"]
  by (auto simp: policies_def Let_def split: option.splits prod.splits)

lemma recordSubsidy_keeps:
  "fee_ok (snd (recordSubsidy dbOk e st)) = fee_ok st" "published (snd (recordSubsidy dbOk e st)) = published st"
  by (simp_all add: recordSubsidy_def fee_ok_def published_def)

lemma policies_published: "published (snd (policies dbOk now st)) = published st"
  by (simp add: published_def policies_keep)

interpretation fee: monotone_machine fee_step fee_ok "\<lambda>s t. published s \<subseteq> published t"
proof
  show "fee_ok s \<Longrightarrow> fee_ok (fee_step op s)" for s op
    by (cases op) (simp_all add: policies_keep createPolicy_ok activateFeePolicy_ok recordSubsidy_keeps)
  show "fee_ok s \<Longrightarrow> published s \<subseteq> published (fee_step op s)" for s op
    by (cases op) (simp_all add: policies_published createPolicy_ok activateFeePolicy_ok recordSubsidy_keeps)
qed auto

section \<open>Properties\<close>

lemma protocolFee_half: "bps_ok p \<Longrightarrow> 0 \<le> n \<Longrightarrow> 0 \<le> protocolFeeOf n (po_bps p) \<and> 2 * protocolFeeOf n (po_bps p) \<le> n"
proof -
  assume ok: "bps_ok p" and n: "0 \<le> n"
  then have "n * po_bps p \<le> n * 5000" by (intro mult_left_mono) (simp_all add: bps_ok_def MAX_PROTOCOL_FEE_BPS_def)
  moreover have "protocolFeeOf n (po_bps p) = n * po_bps p div 10000"
    using ok n by (simp add: protocolFeeOf_def bigdiv_nonneg bps_ok_def)
  moreover have "0 \<le> n * po_bps p" using ok n by (simp add: bps_ok_def)
  ultimately show ?thesis by (auto simp: pos_imp_zdiv_nonneg_iff)
qed

text \<open>C23: The fee policy stays sound under any sequence of its operations (reads with or without a database, publications,
  activations, ledger writes): a quote always finds an active policy, even when the database is down; its fee is at most
  half of the network cost and never negative; no more than one row is active; and what was published (version,
  percentage, display source) is still there unchanged.\<close>

theorem fee_policy_sound:
  assumes "fee_ok st"
  shows "\<exists>p st'. activePolicy dbOk now (fold fee_step ops st) = (Inr p, st')
    \<and> (\<forall>n. 0 \<le> n \<longrightarrow> 0 \<le> protocolFeeOf n (po_bps p) \<and> 2 * protocolFeeOf n (po_bps p) \<le> n)
    \<and> length (filter po_active (fs_rows (fold fee_step ops st))) \<le> 1
    \<and> published st \<subseteq> published (fold fee_step ops st)"
proof -
  have ok: "fee_ok (fold fee_step ops st)" using assms by (rule fee.run_inv)
  obtain p st' where "activePolicy dbOk now (fold fee_step ops st) = (Inr p, st')" "bps_ok p"
    by (rule activePolicy_ok [OF ok])
  moreover have "length (filter po_active (fs_rows (fold fee_step ops st))) \<le> 1" using ok by (simp add: fee_ok_def)
  ultimately show ?thesis using fee.run_grows [OF assms] protocolFee_half by blast
qed

definition no_policies :: fee_state where
  "no_policies = \<lparr>fs_rows = [], fs_cache = None, fs_subsidies = [], fs_log = []\<rparr>"

theorem fee_policy_sound_witness:
  "\<exists>p st'. activePolicy False 0 (fold fee_step [ReadPolicies True 5] no_policies) = (Inr p, st')
    \<and> 2 * protocolFeeOf 100 (po_bps p) \<le> 100"
proof -
  have "fee_ok no_policies" by (simp add: no_policies_def fee_ok_def)
  from fee_policy_sound [OF this, of False 0 "[ReadPolicies True 5]"] show ?thesis
    by (elim exE conjE) (intro exI conjI, assumption, simp)
qed

text \<open>An activation governs: after version \<open>v\<close> is activated, the next read that reaches the database quotes under version \<open>v\<close>,
  whatever was cached before.\<close>

lemma activation_governs:
  assumes "fee_ok st" "activateFeePolicy io now pid v st = (Inr r, st')"
  shows "\<exists>p st''. activePolicy True now' st' = (Inr p, st'') \<and> po_version p = v \<and> bps_ok p"
proof -
  let ?rows = "map (activate_row now v) (map (deactivate_row now) (fs_rows st))"
  have st': "fs_rows st' = ?rows" "fs_cache st' = None" and v: "v \<in> po_version ` set (fs_rows st)"
    using assms(2) by (auto simp: activateFeePolicy_def Let_def security_log_def invalidate_fees_def split: if_splits)
  have active: "po_active q \<longleftrightarrow> po_version q = v" if "q \<in> set (sort_key po_version ?rows)" for q
    using that by (auto simp: switch_row)
  have ex: "\<exists>q \<in> set (sort_key po_version ?rows). po_active q" using v by (auto simp: switch_row)
  then obtain q where q: "find po_active (sort_key po_version ?rows) = Some q"
    by (metis find_None_iff not_None_eq)
  then have "po_version q = v" using active find_SomeD by metis
  moreover have "sort_key po_version ?rows \<noteq> []" using ex by (metis empty_iff list.set(1))
  ultimately have "snd (readPolicies now' ?rows) = v" using q by (simp add: readPolicies_def Let_def del: map_map)
  moreover have ok: "\<forall>r \<in> set ?rows. bps_ok r" using assms(1) by (simp add: fee_ok_def bps_ok_def switch_row)
  ultimately obtain p where "jsmap_get (fst (readPolicies now' ?rows)) v = Some p" "po_version p = v" "bps_ok p"
    using jsmap_get_ok [OF read_ok [OF ok, of now']] by auto
  then show ?thesis
    using \<open>snd (readPolicies now' ?rows) = v\<close> st' by (simp add: activePolicy_def policies_def Let_def del: map_map)
qed

definition one_policy :: fee_state where
  "one_policy = no_policies\<lparr>fs_rows := [\<lparr>po_version = 1, po_bps = 2500, po_active = False, po_fxSource = ''x'', po_fxAsOf = None, po_updatedAt = 0\<rparr>]\<rparr>"

definition demo_io :: io where
  "demo_io = \<lparr>io_db = True, io_log = True, io_parseDate = \<lambda>_. None\<rparr>"

text \<open>The first policy that is published on an empty table takes effect at once, although it is stored as inactive: the
  next read quotes under it, with the percentage it was given, and no longer under the in-code table.\<close>

lemma first_policy_governs_unactivated:
  assumes "fs_rows st = []" "createPolicy io now pid input st = (Inr r, st')"
  shows "\<exists>p st''. activePolicy True now' st' = (Inr p, st'') \<and> po_bps p = ci_bps input \<and> \<not> po_active p \<and> po_version p = 1"
proof -
  obtain row where row: "fs_rows st' = [row]" "fs_cache st' = None" "po_version row = 1" "po_bps row = ci_bps input" "\<not> po_active row"
    using assms by (cases "ci_fxAsOf input") (auto simp: createPolicy_def Let_def security_log_def invalidate_fees_def new_version_def
        split: if_splits option.splits)
  then have "readPolicies now' [row] = ([(1, row)], 1)" by (simp add: readPolicies_def)
  with row show ?thesis by (simp add: activePolicy_def policies_def Let_def)
qed

end
