(* ===== verification/Batch_Queue.thy ===== *)
theory Batch_Queue
  imports Batch_Intent Fee_Policy
begin

text \<open>
  The intent queue, \<^verbatim>\<open>apps/api/src/batch-queue/batch-queue.service.ts\<close> and its controller: quote, submit, cancel, flush,
  settle, reap, metrics. The state is the table of queued batches, the fee service of \<^verbatim>\<open>Fee_Policy\<close>, the audit events and
  a trace of the calls of \<^verbatim>\<open>submitter.submit\<close> (batch and index of the op). Statements of the database outside a
  transaction stay when a later one fails, so an operation returns its result and the state.

  The transport ports (\<^verbatim>\<open>BatchPorts\<close>) reach the chain; their answers are the fields of \<open>ports\<close>, by batch and index of the
  op, and each operation of a run has its own. Times are milliseconds; row ids count up; an em dash of a message is a hyphen.
\<close>

section \<open>Data\<close>

datatype BatchStatus = Received | Quoted | Queued | Submitted | Settled | Partial | Failed | Expired

record session_key =
  sk_keyAddress :: string
  sk_sequence :: int
  sk_expiresAt :: int

record OpReceipt =
  or_txHash :: string
  or_gasUsed :: int
  or_effectiveGasPrice :: int
  or_l1Fee :: "int option"
  or_ok :: bool
  or_revertReason :: "string option"

record OpSimulation =
  os_ok :: bool
  os_reason :: "string option"
  os_gasEstimate :: int

record SessionState =
  ss_valid :: bool
  ss_revoked :: bool
  ss_expiresAt :: int

record SessionCheckArgs =
  sc_keyAddress :: string
  sc_sequence :: int
  sc_nowSec :: int
  sc_account :: "string option"
  sc_permissionId :: "string option"

text \<open>The ports, and the configuration: \<open>pt_window\<close> is \<^verbatim>\<open>BATCH_QUEUE_WINDOW_SECS\<close>, a string or a number.\<close>

record ports =
  pt_estimate :: "nat \<Rightarrow> StoredOp \<Rightarrow> int result"
  pt_simulate :: "nat \<Rightarrow> nat \<Rightarrow> StoredOp \<Rightarrow> OpSimulation result"
  pt_submit :: "nat \<Rightarrow> nat \<Rightarrow> StoredOp \<Rightarrow> OpReceipt result"
  pt_check :: "nat \<Rightarrow> SessionCheckArgs \<Rightarrow> SessionState result"
  pt_feeDb :: bool
  pt_ledgerDb :: "nat \<Rightarrow> nat \<Rightarrow> bool"
  pt_logOk :: bool
  pt_window :: "(string + int) option"
  pt_reference :: "string option"

record op_outcome =
  oo_index :: nat
  oo_ok :: bool
  oo_txHash :: "string option"
  oo_reason :: "string option"
  oo_actualCost :: "int option"

record batch_receipts =
  br_actual :: int
  br_savings :: int
  br_userTotal :: int
  br_pricing :: string
  br_ops :: "op_outcome list"

record QueuedBatch =
  qb_id :: nat
  qb_pid :: string
  qb_status :: BatchStatus
  qb_atomic :: bool
  qb_from :: string
  qb_ops :: "StoredOp list"
  qb_sessionKey :: "session_key option"
  qb_quoteId :: string
  qb_idempotencyKey :: string
  qb_quotedBaseline :: int
  qb_quotedMaxTotal :: int
  qb_feePolicyVersion :: int
  qb_sessionExpiresAt :: "int option"
  qb_validUntil :: "int option"
  qb_bypassQueue :: bool
  qb_receipts :: "batch_receipts option"
  qb_failure :: "(string \<times> string) option"
  qb_settleDueAt :: int
  qb_settledAt :: "int option"
  qb_createdAt :: int
  qb_updatedAt :: int

record queue_db =
  qd_batches :: "QueuedBatch list"
  qd_fees :: fee_state
  qd_sent :: "(nat \<times> nat) list"
  qd_events :: "(string \<times> string \<times> nat) list"

record batch_dto =
  dt_from :: string
  dt_ops :: "StoredOp list"
  dt_atomic :: "bool option"
  dt_sessionKey :: "session_key option"
  dt_quoteId :: string
  dt_idempotencyKey :: string
  dt_bypassQueue :: "bool option"

record BatchQuoteView =
  qv_quoteId :: string
  qv_quotedAt :: int
  qv_expiresAt :: int
  qv_baselineNetwork :: int
  qv_quotedMaxTotal :: int
  qv_feePolicyVersion :: int
  qv_feeBps :: int
  qv_opsHash :: string
  qv_perOp :: "int list"
  qv_reference :: string
  qv_windowSecs :: int

record BatchStatusView =
  bv_batchId :: nat
  bv_lifecycle :: BatchStatus
  bv_atomic :: bool
  bv_bypassQueue :: bool
  bv_quoteId :: string
  bv_settleDueAt :: int
  bv_settledAt :: "int option"
  bv_perOp :: "(nat \<times> string \<times> string option \<times> string option) list"
  bv_fees :: "int \<times> int \<times> (int \<times> int \<times> int \<times> string) option"
  bv_failure :: "(string \<times> string) option"

section \<open>Helpers\<close>

definition DEFAULT_QUEUE_WINDOW_SECS :: int where "DEFAULT_QUEUE_WINDOW_SECS = 900"
definition DEFAULT_BATCH_REFERENCE :: string where "DEFAULT_BATCH_REFERENCE = ''10143''"
definition STALE_SUBMITTED_FACTOR :: int where "STALE_SUBMITTED_FACTOR = 2"
definition FLUSH_BATCH_LIMIT :: nat where "FLUSH_BATCH_LIMIT = 100"
definition METRICS_ROW_LIMIT :: nat where "METRICS_ROW_LIMIT = 5000"

definition windowSecs :: "ports \<Rightarrow> int" where
  "windowSecs p =
     (let n = (case pt_window p of None \<Rightarrow> None | Some (Inl s) \<Rightarrow> parseInt 10 s | Some (Inr v) \<Rightarrow> Some v)
      in if isSafeInteger n \<and> the n > 0 then the n else DEFAULT_QUEUE_WINDOW_SECS)"

definition reference :: "ports \<Rightarrow> string" where
  "reference p = nullish (pt_reference p) DEFAULT_BATCH_REFERENCE"

text \<open>\<^verbatim>\<open>String(err)\<close>.\<close>

fun error_string :: "http_error \<Rightarrow> string" where
  "error_string (BadRequest m) = ''BadRequestException: '' @ m"
| "error_string (Forbidden m) = ''ForbiddenException: '' @ m"
| "error_string (NotFound m) = ''NotFoundException: '' @ m"
| "error_string (Conflict m) = ''ConflictException: '' @ m"
| "error_string (Unprocessable m) = ''UnprocessableEntityException: '' @ m"
| "error_string (ServiceUnavailable m) = ''ServiceUnavailableException: '' @ m"
| "error_string (ProviderError c m) = ''HttpException: '' @ m"
| "error_string (JsError m) = ''Error: '' @ m"
| "error_string UniqueViolation = ''PrismaClientKnownRequestError''"

definition find_batch :: "nat \<Rightarrow> queue_db \<Rightarrow> QueuedBatch option" where
  "find_batch b db = find (\<lambda>r. qb_id r = b) (qd_batches db)"

definition update_batch :: "nat \<Rightarrow> int \<Rightarrow> (QueuedBatch \<Rightarrow> QueuedBatch) \<Rightarrow> queue_db \<Rightarrow> queue_db" where
  "update_batch b now f db =
     db\<lparr>qd_batches := map (\<lambda>r. if qb_id r = b then (f r)\<lparr>qb_updatedAt := now\<rparr> else r) (qd_batches db)\<rparr>"

text \<open>\<^verbatim>\<open>security.log(...).catch(() => undefined)\<close>.\<close>

definition log_event :: "ports \<Rightarrow> string \<Rightarrow> string \<Rightarrow> nat \<Rightarrow> queue_db \<Rightarrow> queue_db" where
  "log_event p pid event b db = (if pt_logOk p then db\<lparr>qd_events := qd_events db @ [(pid, event, b)]\<rparr> else db)"

definition batch_policy :: "ports \<Rightarrow> int \<Rightarrow> queue_db \<Rightarrow> fee_policy_row result \<times> queue_db" where
  "batch_policy p now db = (case activePolicy (pt_feeDb p) now (qd_fees db) of (r, fs) \<Rightarrow> (r, db\<lparr>qd_fees := fs\<rparr>))"

definition toView :: "QueuedBatch \<Rightarrow> BatchStatusView" where
  "toView row =
     \<lparr>bv_batchId = qb_id row, bv_lifecycle = qb_status row, bv_atomic = qb_atomic row, bv_bypassQueue = qb_bypassQueue row,
      bv_quoteId = qb_quoteId row, bv_settleDueAt = qb_settleDueAt row, bv_settledAt = qb_settledAt row,
      bv_perOp = (case qb_receipts row of
         Some r \<Rightarrow> map (\<lambda>o1. (oo_index o1, if oo_ok o1 then ''ok'' else ''failed'', oo_txHash o1, oo_reason o1)) (br_ops r)
       | None \<Rightarrow> map (\<lambda>i. (i, if qb_status row = Expired then ''expired'' else ''pending'', None, None)) [0..<length (qb_ops row)]),
      bv_fees = (qb_quotedBaseline row, qb_quotedMaxTotal row,
        map_option (\<lambda>r. (br_actual r, br_userTotal r, br_savings r, br_pricing r)) (qb_receipts row)),
      bv_failure = qb_failure row\<rparr>"

fun sum_estimates :: "ports \<Rightarrow> nat \<Rightarrow> StoredOp list \<Rightarrow> int list result" where
  "sum_estimates p i [] = Inr []"
| "sum_estimates p i (x # xs) =
     bind_result (pt_estimate p i x) (\<lambda>e. bind_result (sum_estimates p (Suc i) xs) (\<lambda>es. Inr (e # es)))"

fun all_ok :: "('a \<Rightarrow> unit result) \<Rightarrow> 'a list \<Rightarrow> unit result" where
  "all_ok f [] = Inr ()"
| "all_ok f (x # xs) = bind_result (f x) (\<lambda>_. all_ok f xs)"

definition maxTotal :: "int \<Rightarrow> int \<Rightarrow> int" where
  "maxTotal baseline bps = baseline + bigdiv (baseline * bps) 10000"

section \<open>Quote\<close>

definition estimateBatch :: "(string \<Rightarrow> string) \<Rightarrow> ports \<Rightarrow> batch_dto \<Rightarrow> int \<Rightarrow> queue_db \<Rightarrow> BatchQuoteView result \<times> queue_db" where
  "estimateBatch sha p dto now db =
     (let ops = dt_ops dto in
      case validateBatchOps ops of
        Inl e \<Rightarrow> (Inl e, db)
      | Inr _ \<Rightarrow>
      case sum_estimates p 0 ops of
        Inl e \<Rightarrow> (Inl e, db)
      | Inr estimates \<Rightarrow>
          let baseline = sum_list estimates in
          case batch_policy p now db of (pol, db1) \<Rightarrow>
          (case pol of
             Inl e \<Rightarrow> (Inl e, db1)
           | Inr policy \<Rightarrow>
              let dueSec = now div 1000 + windowSecs p; opsHash = hashOps sha ops in
              if (case dt_sessionKey dto of None \<Rightarrow> False | Some sk \<Rightarrow> sk_expiresAt sk < dueSec)
              then (Inl (batchError ''SESSION_EXPIRED'' ''Session expires before the settlement window closes''), db1)
              else (Inr \<lparr>qv_quoteId = encodeQuoteId baseline opsHash dueSec (po_version policy), qv_quotedAt = now,
                         qv_expiresAt = dueSec * 1000, qv_baselineNetwork = baseline,
                         qv_quotedMaxTotal = maxTotal baseline (po_bps policy), qv_feePolicyVersion = po_version policy,
                         qv_feeBps = po_bps policy, qv_opsHash = opsHash, qv_perOp = estimates, qv_reference = reference p,
                         qv_windowSecs = windowSecs p\<rparr>, db1)))"

section \<open>Settlement\<close>

record settle_acc =
  sa_receipts :: "op_outcome list"
  sa_actual :: int
  sa_success :: int
  sa_failure :: "(string \<times> string) option"
  sa_sent :: "nat list"

definition simulate_caught :: "ports \<Rightarrow> nat \<Rightarrow> nat \<Rightarrow> StoredOp \<Rightarrow> OpSimulation" where
  "simulate_caught p b i x =
     (case pt_simulate p b i x of
        Inr s \<Rightarrow> s
      | Inl e \<Rightarrow> \<lparr>os_ok = False, os_reason = Some (''SIMULATION_FAILED: '' @ error_string e), os_gasEstimate = 0\<rparr>)"

definition submit_caught :: "ports \<Rightarrow> nat \<Rightarrow> nat \<Rightarrow> StoredOp \<Rightarrow> OpReceipt" where
  "submit_caught p b i x =
     (case pt_submit p b i x of
        Inr r \<Rightarrow> r
      | Inl e \<Rightarrow> \<lparr>or_txHash = [], or_gasUsed = 0, or_effectiveGasPrice = 0, or_l1Fee = None, or_ok = False,
                 or_revertReason = Some (''RELAYER_ERROR: '' @ error_string e)\<rparr>)"

definition receipt_cost :: "OpReceipt \<Rightarrow> int" where
  "receipt_cost r = or_gasUsed r * or_effectiveGasPrice r + nullish (or_l1Fee r) 0"

fun settle_ops :: "ports \<Rightarrow> nat \<Rightarrow> bool \<Rightarrow> nat \<Rightarrow> StoredOp list \<Rightarrow> settle_acc \<Rightarrow> settle_acc" where
  "settle_ops p b atomic i [] acc = acc"
| "settle_ops p b atomic i (x # xs) acc =
     (let sim = simulate_caught p b i x in
      if \<not> os_ok sim then
        let acc1 = acc\<lparr>sa_receipts := sa_receipts acc @
              [\<lparr>oo_index = i, oo_ok = False, oo_txHash = None, oo_reason = Some (nullish (os_reason sim) ''SIMULATION_FAILED''),
                oo_actualCost = None\<rparr>]\<rparr>
        in if atomic
           then acc1\<lparr>sa_failure := Some (''SIMULATION_FAILED'', ''Op '' @ show_nat i @ '' failed simulation - atomic batch halted, prior submitted ops stand'')\<rparr>
           else settle_ops p b atomic (Suc i) xs acc1
      else
        let r = submit_caught p b i x; actual = receipt_cost r; acc0 = acc\<lparr>sa_sent := sa_sent acc @ [i]\<rparr> in
        if \<not> or_ok r then
          let acc1 = acc0\<lparr>sa_receipts := sa_receipts acc @
                [\<lparr>oo_index = i, oo_ok = False, oo_txHash = (if or_txHash r = [] then None else Some (or_txHash r)),
                  oo_reason = Some (nullish (or_revertReason r) ''EXECUTION_REVERTED''), oo_actualCost = Some actual\<rparr>],
                sa_actual := sa_actual acc + actual\<rparr>
          in if atomic
             then acc1\<lparr>sa_failure := Some (''EXECUTION_REVERTED'', ''Op '' @ show_nat i @ '' reverted - atomic batch halted, prior submitted ops stand'')\<rparr>
             else settle_ops p b atomic (Suc i) xs acc1
        else settle_ops p b atomic (Suc i) xs
               (acc0\<lparr>sa_receipts := sa_receipts acc @
                  [\<lparr>oo_index = i, oo_ok = True, oo_txHash = Some (or_txHash r), oo_reason = None, oo_actualCost = Some actual\<rparr>],
                  sa_actual := sa_actual acc + actual, sa_success := sa_success acc + actual\<rparr>))"

text \<open>\<^verbatim>\<open>receipts.some((r) => r.txHash)\<close> is false for an empty hash.\<close>

definition has_tx :: "op_outcome \<Rightarrow> bool" where
  "has_tx r \<longleftrightarrow> (case oo_txHash r of None \<Rightarrow> False | Some h \<Rightarrow> h \<noteq> [])"

fun record_subsidies :: "ports \<Rightarrow> QueuedBatch \<Rightarrow> int \<Rightarrow> op_outcome list \<Rightarrow> fee_state \<Rightarrow> fee_state" where
  "record_subsidies p row perOpQuoted [] fs = fs"
| "record_subsidies p row perOpQuoted (r # rs) fs =
     record_subsidies p row perOpQuoted rs
       (if oo_txHash r = None \<and> oo_actualCost r = None then fs
        else snd (recordSubsidy (pt_ledgerDb p (qb_id row) (oo_index r))
          \<lparr>su_pid = qb_pid row, su_namespace = ''evm'', su_reference = reference p, su_kind = ''batch_execute'',
           su_quotedFee = perOpQuoted, su_actualCost = nullish (oo_actualCost r) 0, su_subsidy = 0, su_txHash = oo_txHash r\<rparr> fs))"

definition settlement :: "QueuedBatch \<Rightarrow> int \<Rightarrow> settle_acc \<Rightarrow> batch_receipts" where
  "settlement row bps acc =
     (let Q = qb_quotedBaseline row; A = sa_actual acc; S = (if Q > A then Q - A else 0);
          fee = bigdiv (sa_success acc * bps) 10000; failedActual = sa_actual acc - sa_success acc;
          userTotal = sa_success acc + fee + failedActual
      in \<lparr>br_actual = A, br_savings = S,
          br_userTotal = (if userTotal > qb_quotedMaxTotal row then qb_quotedMaxTotal row else userTotal),
          br_pricing = (if S > 0 then ''PASS_THROUGH'' else ''NO_SAVINGS''), br_ops = sa_receipts acc\<rparr>)"

definition first_envelope :: "StoredOp list \<Rightarrow> string option \<times> string option" where
  "first_envelope ops =
     (case ops of
        [] \<Rightarrow> (None, None)
      | x # _ \<Rightarrow> (case validateIntentEnvelope (op_intent x) x of
                     Inr env \<Rightarrow> (Some (ev_account env), ev_permissionId env)
                   | Inl _ \<Rightarrow> (None, None)))"

text \<open>The session of the batch at settlement: \<open>Some code\<close> when it voids the quote. A failed check counts as revoked.\<close>

definition session_at_settlement :: "ports \<Rightarrow> QueuedBatch \<Rightarrow> int \<Rightarrow> string option" where
  "session_at_settlement p row nowSec =
     (case qb_sessionKey row of
        None \<Rightarrow> None
      | Some sk \<Rightarrow>
          let state = (case pt_check p (qb_id row)
                 \<lparr>sc_keyAddress = sk_keyAddress sk, sc_sequence = sk_sequence sk, sc_nowSec = nowSec,
                  sc_account = fst (first_envelope (qb_ops row)), sc_permissionId = snd (first_envelope (qb_ops row))\<rparr> of
                 Inr s \<Rightarrow> s | Inl _ \<Rightarrow> \<lparr>ss_valid = False, ss_revoked = True, ss_expiresAt = 0\<rparr>);
              validUntilSec = (case qb_validUntil row of Some t \<Rightarrow> t div 1000 | None \<Rightarrow> nowSec)
          in if ss_revoked state \<or> \<not> ss_valid state \<or> ss_expiresAt state \<le> nowSec \<or> ss_expiresAt state < validUntilSec
             then Some (if ss_revoked state then ''SESSION_REVOKED'' else ''SESSION_EXPIRED'') else None)"

definition settle_acc0 :: settle_acc where
  "settle_acc0 = \<lparr>sa_receipts = [], sa_actual = 0, sa_success = 0, sa_failure = None, sa_sent = []\<rparr>"

definition terminal_status :: "settle_acc \<Rightarrow> BatchStatus" where
  "terminal_status acc =
     (if sa_failure acc \<noteq> None then Failed else if list_ex (\<lambda>r. \<not> oo_ok r) (sa_receipts acc) then Partial else Settled)"

definition settleBatch :: "ports \<Rightarrow> nat \<Rightarrow> int \<Rightarrow> queue_db \<Rightarrow> BatchStatusView result \<times> queue_db" where
  "settleBatch p b now db =
     (case find_batch b db of
        None \<Rightarrow> (Inl (NotFound ''Batch not found''), db)
      | Some row \<Rightarrow>
      case session_at_settlement p row (now div 1000) of
        Some code \<Rightarrow>
          let db1 = log_event p (qb_pid row) ''batch.failed'' b (update_batch b now (\<lambda>r. r\<lparr>qb_status := Failed,
                 qb_failure := Some (code, ''Session invalid at settlement - quote voided, no fee charged''), qb_settledAt := Some now\<rparr>) db)
          in (Inr (toView (the (find_batch b db1))), db1)
      | None \<Rightarrow>
          case batch_policy p now (update_batch b now (\<lambda>r. r\<lparr>qb_status := Submitted\<rparr>) db) of (pol, db1) \<Rightarrow>
          (case pol of
             Inl e \<Rightarrow> (Inl e, db1)
           | Inr policy \<Rightarrow>
              let acc = settle_ops p b (qb_atomic row) 0 (qb_ops row) settle_acc0;
                  db2 = db1\<lparr>qd_sent := qd_sent db1 @ map (\<lambda>i. (b, i)) (sa_sent acc)\<rparr>;
                  perOpQuoted = (if qb_ops row \<noteq> [] then bigdiv (qb_quotedBaseline row) (int (length (qb_ops row))) else 0);
                  db3 = (if sa_failure acc = None \<or> list_ex has_tx (sa_receipts acc)
                         then db2\<lparr>qd_fees := record_subsidies p row perOpQuoted (sa_receipts acc) (qd_fees db2)\<rparr> else db2);
                  db4 = update_batch b now (\<lambda>r. r\<lparr>qb_status := terminal_status acc, qb_receipts := Some (settlement row (po_bps policy) acc),
                          qb_failure := sa_failure acc, qb_settledAt := Some now\<rparr>) db3;
                  db5 = log_event p (qb_pid row) (if sa_failure acc \<noteq> None then ''batch.failed'' else ''batch.settled'') b db4
              in (Inr (toView (the (find_batch b db5))), db5)))"

definition reapStaleSubmitted :: "ports \<Rightarrow> nat \<Rightarrow> int \<Rightarrow> queue_db \<Rightarrow> BatchStatusView result \<times> queue_db" where
  "reapStaleSubmitted p b now db =
     (case find_batch b db of
        None \<Rightarrow> (Inl (JsError ''Cannot read properties of null''), db)
      | Some row \<Rightarrow>
          if qb_status row \<noteq> Submitted then (Inr (toView row), db)
          else let db1 = log_event p (qb_pid row) ''batch.failed'' b (update_batch b now (\<lambda>r. r\<lparr>qb_status := Failed,
                   qb_failure := Some (''RELAYER_ERROR'', ''Flush did not complete before the reaper horizon - no fee charged, no resubmission attempted; stored receipts (if any) preserved for reconciliation''),
                   qb_settledAt := Some now\<rparr>) db)
            in (Inr (toView (the (find_batch b db1))), db1))"

section \<open>Flush\<close>

text \<open>A loop over row ids that stops at the first exception.\<close>

fun each_row :: "(nat \<Rightarrow> queue_db \<Rightarrow> BatchStatusView result \<times> queue_db) \<Rightarrow> nat list \<Rightarrow> queue_db \<Rightarrow> BatchStatusView list result \<times> queue_db" where
  "each_row f [] db = (Inr [], db)"
| "each_row f (b # bs) db =
     (case f b db of
        (Inl e, db1) \<Rightarrow> (Inl e, db1)
      | (Inr v, db1) \<Rightarrow> (case each_row f bs db1 of (r, db2) \<Rightarrow> (bind_result r (\<lambda>vs. Inr (v # vs)), db2)))"

definition in_scope :: "string option \<Rightarrow> QueuedBatch \<Rightarrow> bool" where
  "in_scope scope r \<longleftrightarrow> (case scope of None \<Rightarrow> True | Some pid \<Rightarrow> qb_pid r = pid)"

definition due_rows :: "string option \<Rightarrow> int \<Rightarrow> queue_db \<Rightarrow> nat list" where
  "due_rows scope now db =
     map qb_id (take FLUSH_BATCH_LIMIT (sort_key qb_settleDueAt
       (filter (\<lambda>r. qb_status r = Queued \<and> in_scope scope r \<and> qb_settleDueAt r \<le> now) (qd_batches db))))"

definition stale_rows :: "ports \<Rightarrow> string option \<Rightarrow> int \<Rightarrow> queue_db \<Rightarrow> nat list" where
  "stale_rows p scope now db =
     map qb_id (take FLUSH_BATCH_LIMIT
       (filter (\<lambda>r. qb_status r = Submitted \<and> in_scope scope r \<and> qb_updatedAt r < now - STALE_SUBMITTED_FACTOR * windowSecs p * 1000)
         (qd_batches db)))"

definition flushDueBatches :: "ports \<Rightarrow> int \<Rightarrow> string option \<Rightarrow> queue_db \<Rightarrow> BatchStatusView list result \<times> queue_db" where
  "flushDueBatches p now scope db =
     (case each_row (\<lambda>b. settleBatch p b now) (due_rows scope now db) db of
        (Inl e, db1) \<Rightarrow> (Inl e, db1)
      | (Inr vs, db1) \<Rightarrow>
          (case each_row (\<lambda>b. reapStaleSubmitted p b now) (stale_rows p scope now db1) db1 of
             (r, db2) \<Rightarrow> (bind_result r (\<lambda>ws. Inr (vs @ ws)), db2)))"

text \<open>The controller's flush: an active administrator flushes every batch, another caller only the own ones. A failed
  lookup of the identity counts as none.\<close>

record caller =
  ca_pid :: string
  ca_app :: bool

definition flush :: "ports \<Rightarrow> int \<Rightarrow> caller \<Rightarrow> (string \<times> string) option \<Rightarrow> queue_db \<Rightarrow> BatchStatusView list result \<times> queue_db" where
  "flush p now user identity db =
     (if \<not> ca_app user \<and> identity = Some (''admin'', ''active'') then flushDueBatches p now None db
      else flushDueBatches p now (Some (ca_pid user)) db)"

section \<open>Status, cancel and submit\<close>

definition getBatchStatus :: "string \<Rightarrow> nat \<Rightarrow> queue_db \<Rightarrow> BatchStatusView result" where
  "getBatchStatus pid b db =
     (case find_batch b db of
        None \<Rightarrow> Inl (NotFound ''Batch not found'')
      | Some row \<Rightarrow> if qb_pid row \<noteq> pid then Inl (NotFound ''Batch not found'') else Inr (toView row))"

definition cancelQueuedBatch :: "string \<Rightarrow> nat \<Rightarrow> int \<Rightarrow> queue_db \<Rightarrow> BatchStatusView result \<times> queue_db" where
  "cancelQueuedBatch pid b now db =
     (case find_batch b db of
        None \<Rightarrow> (Inl (NotFound ''Batch not found''), db)
      | Some row \<Rightarrow>
          if qb_pid row \<noteq> pid then (Inl (NotFound ''Batch not found''), db)
          else if qb_status row \<noteq> Queued then (Inl (Conflict ''Only queued batches can be cancelled''), db)
          else let db1 = update_batch b now (\<lambda>r. r\<lparr>qb_status := Expired\<rparr>) db in (Inr (toView (the (find_batch b db1))), db1))"

text \<open>The checks of a submission against its quote, up to the policy.\<close>

definition submit_quote :: "(string \<Rightarrow> string) \<Rightarrow> batch_dto \<Rightarrow> int \<Rightarrow> quote result" where
  "submit_quote sha dto nowSec =
     bind_result (decodeQuoteId (dt_quoteId dto)) (\<lambda>q.
     if qt_expiresSec q \<le> nowSec then Inl (batchError ''QUOTE_EXPIRED'' ''Quote expired - re-estimate and try again'')
     else bind_result (all_ok (\<lambda>x. assertIntentFreshness x nowSec) (dt_ops dto)) (\<lambda>_.
     let opsHash = hashOps sha (dt_ops dto);
         bound = (case qt_opsHashFull q of
                    Some full \<Rightarrow> to_lower (drop 2 opsHash) = full
                  | None \<Rightarrow> take 8 (drop 2 opsHash) = qt_opsHash8 q)
     in if bound then Inr q else Inl (batchError ''QUOTE_MISMATCH'' ''Ops changed since the quote - re-estimate and try again'')))"

text \<open>The price: the policy is the quoted one and the cost has not moved by more than a fifth.\<close>

definition submit_price :: "ports \<Rightarrow> batch_dto \<Rightarrow> quote \<Rightarrow> fee_policy_row \<Rightarrow> int result" where
  "submit_price p dto q policy =
     (if qt_feeVersion q \<noteq> po_version policy
      then Inl (batchError ''QUOTE_MISMATCH'' ''Fee policy changed since the quote - re-estimate and try again'')
      else bind_result (sum_estimates p 0 (dt_ops dto)) (\<lambda>es.
        if sum_list es * 100 > qt_baseline q * 120 then Inl (Conflict ''Network cost moved - re-estimate and try again'')
        else Inr (maxTotal (qt_baseline q) (po_bps policy))))"

definition submit_session :: "ports \<Rightarrow> nat \<Rightarrow> batch_dto \<Rightarrow> int \<Rightarrow> unit result" where
  "submit_session p b dto nowSec =
     (case dt_sessionKey dto of
        None \<Rightarrow> Inr ()
      | Some sk \<Rightarrow>
          bind_result (all_ok (\<lambda>x. assertIntentSessionMatch x (sk_sequence sk)) (dt_ops dto)) (\<lambda>_.
          bind_result (pt_check p b
            \<lparr>sc_keyAddress = sk_keyAddress sk, sc_sequence = sk_sequence sk, sc_nowSec = nowSec,
             sc_account = fst (first_envelope (dt_ops dto)), sc_permissionId = snd (first_envelope (dt_ops dto))\<rparr>) (\<lambda>state.
          if ss_revoked state then Inl (batchError ''SESSION_REVOKED'' ''Session was revoked - quote voided'')
          else if \<not> ss_valid state \<or> ss_expiresAt state \<le> nowSec then Inl (batchError ''SESSION_EXPIRED'' ''Session is expired - quote voided'')
          else if ss_expiresAt state < nowSec + windowSecs p
            then Inl (batchError ''SESSION_EXPIRED'' ''Session expires before the settlement window closes'')
          else Inr ())))"

definition new_batch_row :: "ports \<Rightarrow> nat \<Rightarrow> string \<Rightarrow> batch_dto \<Rightarrow> quote \<Rightarrow> fee_policy_row \<Rightarrow> int \<Rightarrow> int \<Rightarrow> QueuedBatch" where
  "new_batch_row p b pid dto q policy quotedMaxTotal now =
     \<lparr>qb_id = b, qb_pid = pid, qb_status = (if nullish (dt_bypassQueue dto) False then Submitted else Queued),
      qb_atomic = nullish (dt_atomic dto) True, qb_from = dt_from dto, qb_ops = dt_ops dto, qb_sessionKey = dt_sessionKey dto,
      qb_quoteId = dt_quoteId dto, qb_idempotencyKey = dt_idempotencyKey dto, qb_quotedBaseline = qt_baseline q,
      qb_quotedMaxTotal = quotedMaxTotal, qb_feePolicyVersion = po_version policy,
      qb_sessionExpiresAt = map_option (\<lambda>sk. sk_expiresAt sk * 1000) (dt_sessionKey dto),
      qb_validUntil = Some ((now div 1000 + windowSecs p) * 1000), qb_bypassQueue = nullish (dt_bypassQueue dto) False,
      qb_receipts = None, qb_failure = None, qb_settleDueAt = (now div 1000 + windowSecs p) * 1000, qb_settledAt = None,
      qb_createdAt = now, qb_updatedAt = now\<rparr>"

definition fresh_id :: "queue_db \<Rightarrow> nat" where
  "fresh_id db = foldl (\<lambda>m r. max m (Suc (qb_id r))) 0 (qd_batches db)"

definition submitBatch :: "(string \<Rightarrow> string) \<Rightarrow> ports \<Rightarrow> string \<Rightarrow> batch_dto \<Rightarrow> int \<Rightarrow> queue_db \<Rightarrow> BatchStatusView result \<times> queue_db" where
  "submitBatch sha p pid dto now db =
     (case validateBatchOps (dt_ops dto) of
        Inl e \<Rightarrow> (Inl e, db)
      | Inr _ \<Rightarrow>
      case find (\<lambda>r. qb_idempotencyKey r = dt_idempotencyKey dto) (qd_batches db) of
        Some existing \<Rightarrow>
          if qb_pid existing \<noteq> pid then (Inl (Conflict ''Idempotency key is already in use''), db) else (Inr (toView existing), db)
      | None \<Rightarrow>
      case submit_quote sha dto (now div 1000) of
        Inl e \<Rightarrow> (Inl e, db)
      | Inr q \<Rightarrow>
      case batch_policy p now db of (pol, db1) \<Rightarrow>
      (case bind_result pol (\<lambda>policy. bind_result (submit_price p dto q policy) (\<lambda>m.
              bind_result (submit_session p (fresh_id db) dto (now div 1000)) (\<lambda>_. Inr (policy, m)))) of
         Inl e \<Rightarrow> (Inl e, db1)
       | Inr (policy, quotedMaxTotal) \<Rightarrow>
           let b = fresh_id db;
               row = new_batch_row p b pid dto q policy quotedMaxTotal now;
               db2 = log_event p pid ''batch.submitted'' b (db1\<lparr>qd_batches := qd_batches db1 @ [row]\<rparr>)
           in if qb_bypassQueue row then settleBatch p b now db2
              else let db3 = snd (flushDueBatches p now (Some pid) db2) in (getBatchStatus pid b db3, db3)))"

section \<open>Metrics\<close>

record BatchMetrics =
  bm_windowDays :: int
  bm_totalBatches :: nat
  bm_queuedBatches :: nat
  bm_settledBatches :: nat
  bm_failedBatches :: nat
  bm_fillRate :: "nat \<times> nat"
  bm_failureRate :: "nat \<times> nat"
  bm_settledOps :: nat
  bm_failedOps :: nat
  bm_opFailureRate :: "nat \<times> nat"
  bm_savingsSamples :: nat
  bm_savingsTotal :: int
  bm_savingsAvg :: int
  bm_noSavingsBatches :: nat

text \<open>A rate is a fraction; over nothing it is 0.\<close>

definition rate :: "nat \<Rightarrow> nat \<Rightarrow> nat \<times> nat" where
  "rate n d = (if d = 0 then (0, 1) else (n, d))"

definition batchMetrics :: "int \<Rightarrow> int \<Rightarrow> queue_db \<Rightarrow> BatchMetrics" where
  "batchMetrics windowDays now db =
     (let days = (if 1 \<le> windowDays \<and> windowDays \<le> 90 then windowDays else 7);
          since = now - days * 24 * 3600 * 1000;
          rows = take METRICS_ROW_LIMIT (filter (\<lambda>r. qb_createdAt r \<ge> since) (qd_batches db));
          done_rows = filter (\<lambda>r. qb_status r = Settled \<or> qb_status r = Partial) rows;
          settled = length done_rows;
          failed = length (filter (\<lambda>r. qb_status r = Failed) rows);
          ops = concat (map (\<lambda>r. case qb_receipts r of None \<Rightarrow> [] | Some x \<Rightarrow> br_ops x) done_rows);
          settledOps = length (filter oo_ok ops);
          failedOps = length (filter (\<lambda>o1. \<not> oo_ok o1) ops);
          samples = List.map_filter qb_receipts done_rows;
          savings = sum_list (map br_savings samples)
      in \<lparr>bm_windowDays = days, bm_totalBatches = length rows,
          bm_queuedBatches = length (filter (\<lambda>r. qb_status r = Queued \<or> qb_status r = Submitted) rows),
          bm_settledBatches = settled, bm_failedBatches = failed,
          bm_fillRate = rate settled (settled + failed), bm_failureRate = rate failed (settled + failed),
          bm_settledOps = settledOps, bm_failedOps = failedOps, bm_opFailureRate = rate failedOps (settledOps + failedOps),
          bm_savingsSamples = length samples, bm_savingsTotal = savings,
          bm_savingsAvg = (if length samples = 0 then 0 else bigdiv savings (int (length samples))),
          bm_noSavingsBatches = length (filter (\<lambda>x. br_pricing x = ''NO_SAVINGS'') samples)\<rparr>)"

end
