(* ===== verification/Batch_Safety.thy ===== *)
theory Batch_Safety
  imports Batch_Queue
begin

text \<open>
  The queue as a machine: users submit and cancel, callers flush, administrators change the fee policy, and the process may
  crash in the middle of a settlement. The invariant says what the table holds in every reachable state: rows are well
  typed, no op was forwarded twice, nothing of a queued or cancelled batch was forwarded, and no settlement charges more
  than the quote.
\<close>

section \<open>Invariant\<close>

definition is_terminal :: "BatchStatus \<Rightarrow> bool" where
  "is_terminal s \<longleftrightarrow> s = Settled \<or> s = Partial \<or> s = Failed \<or> s = Expired"

text \<open>The cost of the forwarded ops, and of those that succeeded.\<close>

definition outcome_cost :: "op_outcome \<Rightarrow> int" where
  "outcome_cost r = nullish (oo_actualCost r) 0"

definition ok_cost :: "op_outcome \<Rightarrow> int" where
  "ok_cost r = (if oo_ok r then outcome_cost r else 0)"

definition receipts_ok :: "QueuedBatch \<Rightarrow> batch_receipts \<Rightarrow> bool" where
  "receipts_ok row r \<longleftrightarrow>
     (\<exists>bps. 0 \<le> bps \<and> bps \<le> MAX_PROTOCOL_FEE_BPS
        \<and> br_userTotal r = min (qb_quotedMaxTotal row) (br_actual r + protocolFeeOf (sum_list (map ok_cost (br_ops r))) bps))
     \<and> br_actual r = sum_list (map outcome_cost (br_ops r))
     \<and> br_savings r = max 0 (qb_quotedBaseline row - br_actual r)
     \<and> length (br_ops r) \<le> length (qb_ops row) \<and> map oo_index (br_ops r) = [0..<length (br_ops r)]"

lemma receipts_ok_cong:
  "qb_quotedMaxTotal r = qb_quotedMaxTotal r' \<Longrightarrow> qb_quotedBaseline r = qb_quotedBaseline r' \<Longrightarrow> qb_ops r = qb_ops r' \<Longrightarrow>
     receipts_ok r x = receipts_ok r' x"
  by (simp add: receipts_ok_def)

definition batch_row_ok :: "QueuedBatch \<Rightarrow> bool" where
  "batch_row_ok row \<longleftrightarrow>
     1 \<le> length (qb_ops row) \<and> length (qb_ops row) \<le> MAX_OPS_PER_BATCH \<and> list_all admissible_op (qb_ops row)
     \<and> 0 \<le> qb_quotedBaseline row
     \<and> (\<exists>bps. 0 \<le> bps \<and> bps \<le> MAX_PROTOCOL_FEE_BPS \<and> qb_quotedMaxTotal row = maxTotal (qb_quotedBaseline row) bps)
     \<and> qb_status row \<noteq> Received \<and> qb_status row \<noteq> Quoted
     \<and> (case qb_receipts row of None \<Rightarrow> True | Some r \<Rightarrow> receipts_ok row r)
     \<and> (qb_receipts row \<noteq> None \<longrightarrow> qb_status row \<in> {Settled, Partial, Failed})
     \<and> (qb_status row \<in> {Settled, Partial} \<longrightarrow> qb_receipts row \<noteq> None)
     \<and> (qb_status row = Failed \<longrightarrow> qb_failure row \<noteq> None)"

definition queue_inv :: "queue_db \<Rightarrow> bool" where
  "queue_inv db \<longleftrightarrow>
     distinct (map qb_id (qd_batches db)) \<and> distinct (map qb_idempotencyKey (qd_batches db)) \<and> fee_ok (qd_fees db)
     \<and> (\<forall>r \<in> set (qd_batches db). batch_row_ok r)
     \<and> distinct (qd_sent db)
     \<and> (\<forall>(b, i) \<in> set (qd_sent db). \<exists>r \<in> set (qd_batches db). qb_id r = b \<and> i < length (qb_ops r)
          \<and> qb_status r \<in> {Submitted, Settled, Partial, Failed})"

text \<open>What a later state keeps: terminal rows as they are, every row that was stored, the trace.\<close>

definition queue_grows :: "queue_db \<Rightarrow> queue_db \<Rightarrow> bool" where
  "queue_grows db db' \<longleftrightarrow>
     (\<forall>r \<in> set (qd_batches db). is_terminal (qb_status r) \<longrightarrow> r \<in> set (qd_batches db'))
     \<and> (\<forall>r \<in> set (qd_batches db). \<exists>r' \<in> set (qd_batches db'). qb_id r' = qb_id r \<and> qb_ops r' = qb_ops r \<and> qb_pid r' = qb_pid r
          \<and> qb_quotedMaxTotal r' = qb_quotedMaxTotal r)
     \<and> (\<exists>ys. qd_sent db' = qd_sent db @ ys)"

lemma queue_grows_refl: "queue_grows db db"
  by (auto simp: queue_grows_def)

lemma queue_grows_trans: "queue_grows a b \<Longrightarrow> queue_grows b c \<Longrightarrow> queue_grows a c"
  by (auto simp: queue_grows_def) (metis append.assoc)+

section \<open>One row replaced\<close>

lemma id_unique: "distinct (map qb_id rows) \<Longrightarrow> x \<in> set rows \<Longrightarrow> y \<in> set rows \<Longrightarrow> qb_id x = qb_id y \<Longrightarrow> x = y"
  by (auto simp: distinct_map inj_on_def)

lemma find_batch_unique:
  "distinct (map qb_id (qd_batches db)) \<Longrightarrow> r \<in> set (qd_batches db) \<Longrightarrow> find_batch (qb_id r) db = Some r"
  unfolding find_batch_def using id_unique by (metis (mono_tags, lifting) find_None_iff find_SomeD not_None_eq)

lemma find_batch_in: "find_batch b db = Some r \<Longrightarrow> r \<in> set (qd_batches db) \<and> qb_id r = b"
  by (auto simp: find_batch_def dest: find_SomeD)

definition replace_row :: "QueuedBatch \<Rightarrow> QueuedBatch list \<Rightarrow> QueuedBatch list" where
  "replace_row r rows = map (\<lambda>x. if qb_id x = qb_id r then r else x) rows"

lemma update_batch_replace:
  assumes "distinct (map qb_id (qd_batches db))" "row \<in> set (qd_batches db)" "qb_id (f row) = qb_id row"
  shows "update_batch (qb_id row) now f db = db\<lparr>qd_batches := replace_row ((f row)\<lparr>qb_updatedAt := now\<rparr>) (qd_batches db)\<rparr>"
proof -
  have "map (\<lambda>r. if qb_id r = qb_id row then (f r)\<lparr>qb_updatedAt := now\<rparr> else r) (qd_batches db)
      = replace_row ((f row)\<lparr>qb_updatedAt := now\<rparr>) (qd_batches db)"
    unfolding replace_row_def using assms id_unique [OF assms(1) _ assms(2)] by (intro map_cong) auto
  then show ?thesis by (simp add: update_batch_def)
qed

lemma replace_row_ids: "map qb_id (replace_row r rows) = map qb_id rows"
  by (simp add: replace_row_def comp_def if_distrib cong: if_cong)

lemma replace_row_keys:
  "distinct (map qb_id rows) \<Longrightarrow> row \<in> set rows \<Longrightarrow> qb_id r = qb_id row \<Longrightarrow> qb_idempotencyKey r = qb_idempotencyKey row \<Longrightarrow>
     map qb_idempotencyKey (replace_row r rows) = map qb_idempotencyKey rows"
  using id_unique by (fastforce simp: replace_row_def)

lemma replace_row_set:
  "distinct (map qb_id rows) \<Longrightarrow> row \<in> set rows \<Longrightarrow> qb_id r = qb_id row \<Longrightarrow> set (replace_row r rows) = insert r (set rows - {row})"
  using id_unique [of rows _ row] by (auto simp: replace_row_def)

text \<open>The row that takes the place of another, and the ops that were forwarded with it.\<close>

definition row_step :: "QueuedBatch \<Rightarrow> QueuedBatch \<Rightarrow> nat list \<Rightarrow> bool" where
  "row_step row row' sent \<longleftrightarrow>
     batch_row_ok row' \<and> qb_id row' = qb_id row \<and> qb_idempotencyKey row' = qb_idempotencyKey row \<and> qb_ops row' = qb_ops row
     \<and> qb_pid row' = qb_pid row \<and> qb_quotedMaxTotal row' = qb_quotedMaxTotal row
     \<and> qb_sessionKey row' = qb_sessionKey row \<and> qb_atomic row' = qb_atomic row
     \<and> distinct sent \<and> (\<forall>i \<in> set sent. i < length (qb_ops row))"

lemma inv_replace:
  assumes inv: "queue_inv db" and row: "row \<in> set (qd_batches db)" and step: "row_step row row' sent"
    and status: "qb_status row' \<in> {Submitted, Settled, Partial, Failed} \<or> (sent = [] \<and> qb_id row \<notin> fst ` set (qd_sent db))"
    and fresh: "qb_id row \<notin> fst ` set (qd_sent db) \<or> sent = []"
    and db': "qd_batches db' = replace_row row' (qd_batches db)" "qd_sent db' = qd_sent db @ map (Pair (qb_id row)) sent" "fee_ok (qd_fees db')"
  shows "queue_inv db'"
proof -
  let ?rows = "qd_batches db"
  have d: "distinct (map qb_id ?rows)" using inv by (simp add: queue_inv_def)
  have set': "set (replace_row row' ?rows) = insert row' (set ?rows - {row})"
    using replace_row_set [OF d row] step by (simp add: row_step_def)
  have "distinct (qd_sent db')" using inv step fresh
    by (auto simp: db' queue_inv_def row_step_def distinct_map inj_on_def image_iff)
  moreover have "\<exists>r \<in> set (qd_batches db'). qb_id r = b \<and> i < length (qb_ops r) \<and> qb_status r \<in> {Submitted, Settled, Partial, Failed}"
    if "(b, i) \<in> set (qd_sent db')" for b i
  proof (cases "b = qb_id row")
    case True
    have "i < length (qb_ops row)"
    proof (cases "(b, i) \<in> set (qd_sent db)")
      case True
      then obtain r where "r \<in> set ?rows" "qb_id r = b" "i < length (qb_ops r)" using inv by (fastforce simp: queue_inv_def)
      then show ?thesis using id_unique [OF d] row \<open>b = qb_id row\<close> by metis
    next
      case False
      then show ?thesis using that step by (auto simp: db' row_step_def)
    qed
    moreover have "qb_status row' \<in> {Submitted, Settled, Partial, Failed}"
      using status that True by (auto simp: db' image_iff)
    ultimately show ?thesis using True step by (auto simp: db' set' row_step_def)
  next
    case False
    then have "(b, i) \<in> set (qd_sent db)" using that by (auto simp: db')
    then obtain r where "r \<in> set ?rows" "qb_id r = b" "i < length (qb_ops r)" "qb_status r \<in> {Submitted, Settled, Partial, Failed}"
      using inv by (fastforce simp: queue_inv_def)
    with False show ?thesis by (auto simp: db' set')
  qed
  moreover have "\<forall>r \<in> set (qd_batches db'). batch_row_ok r"
    using inv step by (auto simp: db' set' queue_inv_def row_step_def)
  moreover have "distinct (map qb_idempotencyKey (qd_batches db'))"
    using replace_row_keys [OF d row, of row'] inv step by (simp add: db' queue_inv_def row_step_def)
  ultimately show ?thesis using d db'(3) by (auto simp: queue_inv_def db' replace_row_ids)
qed

lemma grows_replace:
  assumes inv: "queue_inv db" and row: "row \<in> set (qd_batches db)" "\<not> is_terminal (qb_status row)" and step: "row_step row row' sent"
    and db': "qd_batches db' = replace_row row' (qd_batches db)" "qd_sent db' = qd_sent db @ map (Pair (qb_id row)) sent"
  shows "queue_grows db db'"
proof -
  have d: "distinct (map qb_id (qd_batches db))" using inv by (simp add: queue_inv_def)
  have "set (replace_row row' (qd_batches db)) = insert row' (set (qd_batches db) - {row})"
    using replace_row_set [OF d row(1)] step by (simp add: row_step_def)
  then show ?thesis using row step by (auto simp: queue_grows_def db' row_step_def)
qed

lemma queued_not_sent:
  assumes "queue_inv db" "row \<in> set (qd_batches db)" "qb_status row \<notin> {Submitted, Settled, Partial, Failed}"
  shows "qb_id row \<notin> fst ` set (qd_sent db)"
proof
  assume "qb_id row \<in> fst ` set (qd_sent db)"
  then obtain r where "r \<in> set (qd_batches db)" "qb_id r = qb_id row" "qb_status r \<in> {Submitted, Settled, Partial, Failed}"
    using assms(1) by (fastforce simp: queue_inv_def)
  with assms show False using id_unique [of "qd_batches db" r row] by (auto simp: queue_inv_def)
qed

section \<open>Settlement\<close>

lemma settle_ops_effect:
  "\<exists>rs is. sa_receipts (settle_ops p b atomic i xs acc) = sa_receipts acc @ rs \<and> length rs \<le> length xs
     \<and> map oo_index rs = [i..<i + length rs]
     \<and> sa_actual (settle_ops p b atomic i xs acc) = sa_actual acc + sum_list (map outcome_cost rs)
     \<and> sa_success (settle_ops p b atomic i xs acc) = sa_success acc + sum_list (map ok_cost rs)
     \<and> sa_sent (settle_ops p b atomic i xs acc) = sa_sent acc @ is \<and> distinct is \<and> (\<forall>k \<in> set is. i \<le> k \<and> k < i + length xs)"
proof (induction xs arbitrary: i acc)
  case Nil
  show ?case by (intro exI [of _ "[]"]) simp
next
  case (Cons x xs)
  define rest where "rest = settle_ops p b atomic (Suc i) xs"
  have stop: ?case if "settle_ops p b atomic i (x # xs) acc = acc1" "sa_receipts acc1 = sa_receipts acc @ [r]" "oo_index r = i"
    "sa_actual acc1 = sa_actual acc + outcome_cost r" "sa_success acc1 = sa_success acc + ok_cost r" "sa_sent acc1 = sa_sent acc @ is"
    "is = [] \<or> is = [i]" for acc1 r "is"
    using that by (intro exI [of _ "[r]"] exI [of _ "is"]) auto
  have next_op: ?case if "settle_ops p b atomic i (x # xs) acc = rest acc1" "sa_receipts acc1 = sa_receipts acc @ [r]" "oo_index r = i"
    "sa_actual acc1 = sa_actual acc + outcome_cost r" "sa_success acc1 = sa_success acc + ok_cost r" "sa_sent acc1 = sa_sent acc @ is"
    "is = [] \<or> is = [i]" for acc1 r "is"
  proof -
    from Cons.IH [of "Suc i" acc1] obtain rs js where rest: "sa_receipts (rest acc1) = sa_receipts acc1 @ rs" "length rs \<le> length xs"
      "map oo_index rs = [Suc i..<Suc i + length rs]" "sa_actual (rest acc1) = sa_actual acc1 + sum_list (map outcome_cost rs)"
      "sa_success (rest acc1) = sa_success acc1 + sum_list (map ok_cost rs)" "sa_sent (rest acc1) = sa_sent acc1 @ js" "distinct js"
      "\<forall>k \<in> set js. Suc i \<le> k \<and> k < Suc i + length xs" unfolding rest_def by blast
    have "[i..<i + length (r # rs)] = i # [Suc i..<Suc i + length rs]"
      using upt_conv_Cons [of i "i + length (r # rs)"] by (simp del: upt_Suc)
    then show ?thesis using that(1-7) rest
      by (intro exI [of _ "r # rs"] exI [of _ "is @ js"]) auto
  qed
  show ?case
  proof (cases "os_ok (simulate_caught p b i x)")
    case False
    let ?r = "\<lparr>oo_index = i, oo_ok = False, oo_txHash = None, oo_reason = Some (nullish (os_reason (simulate_caught p b i x)) ''SIMULATION_FAILED''), oo_actualCost = None\<rparr>"
    show ?thesis
    proof (cases atomic)
      case True
      with False show ?thesis by (intro stop [OF refl, of ?r "[]"]) (auto simp: Let_def outcome_cost_def ok_cost_def)
    next
      case na: False
      show ?thesis
        by (rule next_op [of "acc\<lparr>sa_receipts := sa_receipts acc @ [?r]\<rparr>" ?r "[]"])
          (use False na in \<open>simp_all add: Let_def rest_def outcome_cost_def ok_cost_def\<close>)
    qed
  next
    case sim: True
    define rc where "rc = submit_caught p b i x"
    show ?thesis
    proof (cases "or_ok rc")
      case False
      let ?r = "\<lparr>oo_index = i, oo_ok = False, oo_txHash = (if or_txHash rc = [] then None else Some (or_txHash rc)),
         oo_reason = Some (nullish (or_revertReason rc) ''EXECUTION_REVERTED''), oo_actualCost = Some (receipt_cost rc)\<rparr>"
      show ?thesis
      proof (cases atomic)
        case True
        with sim False show ?thesis by (intro stop [OF refl, of ?r "[i]"]) (auto simp: Let_def rc_def outcome_cost_def ok_cost_def)
      next
        case na: False
        show ?thesis
          by (rule next_op [of "acc\<lparr>sa_sent := sa_sent acc @ [i], sa_receipts := sa_receipts acc @ [?r], sa_actual := sa_actual acc + receipt_cost rc\<rparr>" ?r "[i]"])
            (use sim False na in \<open>simp_all add: Let_def rest_def rc_def outcome_cost_def ok_cost_def\<close>)
      qed
    next
      case True
      let ?r = "\<lparr>oo_index = i, oo_ok = True, oo_txHash = Some (or_txHash rc), oo_reason = None, oo_actualCost = Some (receipt_cost rc)\<rparr>"
      show ?thesis
        by (rule next_op [of "acc\<lparr>sa_sent := sa_sent acc @ [i], sa_receipts := sa_receipts acc @ [?r], sa_actual := sa_actual acc + receipt_cost rc,
               sa_success := sa_success acc + receipt_cost rc\<rparr>" ?r "[i]"])
          (use sim True in \<open>simp_all add: Let_def rest_def rc_def outcome_cost_def ok_cost_def\<close>)
    qed
  qed
qed

lemma record_subsidies_ok: "fee_ok (record_subsidies p row q rs fs) = fee_ok fs"
  by (induction rs arbitrary: fs) (simp_all add: recordSubsidy_keeps)

lemma replace_row_twice: "qb_id r2 = qb_id r1 \<Longrightarrow> replace_row r2 (replace_row r1 rows) = replace_row r2 rows"
  by (simp add: replace_row_def)

lemma log_event_simps [simp]:
  "qd_batches (log_event p pid e b db) = qd_batches db" "qd_sent (log_event p pid e b db) = qd_sent db"
  "qd_fees (log_event p pid e b db) = qd_fees db"
  by (simp_all add: log_event_def)

lemma settlement_ok:
  assumes "bps_ok pol"
  shows "receipts_ok row (settlement row (po_bps pol) (settle_ops p b atomic 0 (qb_ops row) settle_acc0))"
proof -
  obtain rs "is" where eff: "sa_receipts (settle_ops p b atomic 0 (qb_ops row) settle_acc0) = rs" "length rs \<le> length (qb_ops row)"
    "map oo_index rs = [0..<length rs]"
    "sa_actual (settle_ops p b atomic 0 (qb_ops row) settle_acc0) = sum_list (map outcome_cost rs)"
    "sa_success (settle_ops p b atomic 0 (qb_ops row) settle_acc0) = sum_list (map ok_cost rs)"
    using settle_ops_effect [of p b atomic 0 "qb_ops row" settle_acc0] by (auto simp: settle_acc0_def)
  then show ?thesis
    using assms unfolding receipts_ok_def settlement_def Let_def bps_ok_def
    by (intro conjI exI [of _ "po_bps pol"]) (auto simp: protocolFeeOf_def)
qed

lemma sent_ok:
  "distinct (sa_sent (settle_ops p b atomic 0 xs settle_acc0)) \<and> (\<forall>i \<in> set (sa_sent (settle_ops p b atomic 0 xs settle_acc0)). i < length xs)"
  using settle_ops_effect [of p b atomic 0 xs settle_acc0] by (auto simp: settle_acc0_def)

lemma terminal_status_done: "terminal_status acc \<in> {Settled, Partial, Failed}"
  by (simp add: terminal_status_def)

text \<open>A settlement ends: the row becomes terminal, whatever the ports answer.\<close>

lemma settleBatch_effect:
  assumes inv: "queue_inv db" and row: "row \<in> set (qd_batches db)" and open_row: "qb_status row \<in> {Queued, Submitted}"
  obtains v db' row' sent where "settleBatch p (qb_id row) now db = (Inr v, db')" "qd_batches db' = replace_row row' (qd_batches db)"
    "qd_sent db' = qd_sent db @ map (Pair (qb_id row)) sent" "fee_ok (qd_fees db')" "row_step row row' sent"
    "qb_status row' \<in> {Settled, Partial, Failed}"
proof -
  have d: "distinct (map qb_id (qd_batches db))" and fee: "fee_ok (qd_fees db)" and ok: "batch_row_ok row"
    using inv row by (auto simp: queue_inv_def)
  have found: "find_batch (qb_id row) db = Some row" by (rule find_batch_unique [OF d row])
  have none: "qb_receipts row = None" using ok open_row by (auto simp: batch_row_ok_def)
  show thesis
  proof (cases "session_at_settlement p row (now div 1000)")
    case (Some code)
    let ?row' = "(row\<lparr>qb_status := Failed, qb_failure := Some (code, ''Session invalid at settlement - quote voided, no fee charged''), qb_settledAt := Some now\<rparr>)\<lparr>qb_updatedAt := now\<rparr>"
    have upd: "update_batch (qb_id row) now (\<lambda>r. r\<lparr>qb_status := Failed, qb_failure := Some (code, ''Session invalid at settlement - quote voided, no fee charged''), qb_settledAt := Some now\<rparr>) db
        = db\<lparr>qd_batches := replace_row ?row' (qd_batches db)\<rparr>"
      by (rule update_batch_replace [OF d row]) simp
    have "row_step row ?row' []" using ok none by (auto simp: row_step_def batch_row_ok_def)
    then show thesis
      using that [of _ _ ?row' "[]"] found Some fee by (simp add: settleBatch_def upd Let_def)
  next
    case None
    obtain pol fs where pol: "activePolicy (pt_feeDb p) now (qd_fees db) = (Inr pol, fs)" "bps_ok pol" "fee_ok fs"
      by (rule activePolicy_ok [OF fee])
    define acc where "acc = settle_ops p (qb_id row) (qb_atomic row) 0 (qb_ops row) settle_acc0"
    define r1 where "r1 = (row\<lparr>qb_status := Submitted\<rparr>)\<lparr>qb_updatedAt := now\<rparr>"
    define f where "f = (\<lambda>r :: QueuedBatch. r\<lparr>qb_status := terminal_status acc, qb_receipts := Some (settlement row (po_bps pol) acc), qb_failure := sa_failure acc, qb_settledAt := Some now\<rparr>)"
    define r2 where "r2 = (f r1)\<lparr>qb_updatedAt := now\<rparr>"
    have upd1: "update_batch (qb_id row) now (\<lambda>r. r\<lparr>qb_status := Submitted\<rparr>) db = db\<lparr>qd_batches := replace_row r1 (qd_batches db)\<rparr>"
      unfolding r1_def by (rule update_batch_replace [OF d row]) simp
    have r1: "qb_id r1 = qb_id row" by (simp add: r1_def)
    have upd2: "qd_batches (update_batch (qb_id row) now f db3) = replace_row r2 (qd_batches db)
        \<and> qd_sent (update_batch (qb_id row) now f db3) = qd_sent db3 \<and> qd_fees (update_batch (qb_id row) now f db3) = qd_fees db3"
      if "qd_batches db3 = replace_row r1 (qd_batches db)" for db3
    proof -
      have "r1 \<in> set (qd_batches db3)" using replace_row_set [OF d row r1] that by simp
      moreover have "distinct (map qb_id (qd_batches db3))" using d by (simp add: that replace_row_ids)
      ultimately have "update_batch (qb_id r1) now f db3 = db3\<lparr>qd_batches := replace_row r2 (qd_batches db3)\<rparr>"
        unfolding r2_def by (intro update_batch_replace) (simp_all add: f_def)
      then show ?thesis by (simp add: r1 that replace_row_twice r2_def f_def)
    qed
    have "receipts_ok r2 (settlement row (po_bps pol) acc)"
      using settlement_ok [OF pol(2), of row p "qb_id row" "qb_atomic row"]
        receipts_ok_cong [of r2 row] unfolding acc_def [symmetric] by (simp add: r2_def f_def r1_def)
    moreover have "sa_failure acc \<noteq> None" if "terminal_status acc = Failed" using that by (simp add: terminal_status_def split: if_splits)
    ultimately have "batch_row_ok r2" using ok terminal_status_done [of acc] by (auto simp: batch_row_ok_def r2_def f_def r1_def)
    then have step: "row_step row r2 (sa_sent acc)"
      using sent_ok [of p "qb_id row" "qb_atomic row" "qb_ops row"] by (auto simp: row_step_def r2_def f_def r1_def acc_def)
    have status: "qb_status r2 \<in> {Settled, Partial, Failed}" using terminal_status_done [of acc] by (simp add: r2_def f_def)
    obtain v db' where res: "settleBatch p (qb_id row) now db = (Inr v, db')"
      and db': "qd_batches db' = replace_row r2 (qd_batches db)" "qd_sent db' = qd_sent db @ map (Pair (qb_id row)) (sa_sent acc)" "fee_ok (qd_fees db')"
      using found None pol
      by (auto simp: settleBatch_def upd1 batch_policy_def Let_def acc_def [symmetric] f_def [symmetric] upd2 record_subsidies_ok)
    then show thesis using that step status by blast
  qed
qed

section \<open>Steps over one row\<close>

text \<open>What a loop over rows needs of its body: on a row of status \<open>s\<close> it ends, keeps the invariant, makes that row terminal and
  leaves the others.\<close>

definition closes_row :: "(nat \<Rightarrow> queue_db \<Rightarrow> BatchStatusView result \<times> queue_db) \<Rightarrow> BatchStatus \<Rightarrow> bool" where
  "closes_row f s \<longleftrightarrow>
     (\<forall>db row. queue_inv db \<longrightarrow> row \<in> set (qd_batches db) \<longrightarrow> qb_status row = s \<longrightarrow>
        (\<exists>v db' row'. f (qb_id row) db = (Inr v, db') \<and> queue_inv db' \<and> queue_grows db db'
           \<and> qd_batches db' = replace_row row' (qd_batches db) \<and> qb_id row' = qb_id row \<and> qb_pid row' = qb_pid row
           \<and> qb_status row' \<in> {Settled, Partial, Failed}))"

lemma settle_closes: "closes_row (\<lambda>b. settleBatch p b now) Queued"
  unfolding closes_row_def
proof (intro allI impI)
  fix db row assume inv: "queue_inv db" and row: "row \<in> set (qd_batches db)" "qb_status row = Queued"
  obtain v db' row' sent where eff: "settleBatch p (qb_id row) now db = (Inr v, db')" "qd_batches db' = replace_row row' (qd_batches db)"
    "qd_sent db' = qd_sent db @ map (Pair (qb_id row)) sent" "fee_ok (qd_fees db')" "row_step row row' sent"
    "qb_status row' \<in> {Settled, Partial, Failed}"
    by (rule settleBatch_effect [OF inv row(1), of p now]) (simp_all add: row(2))
  have fresh: "qb_id row \<notin> fst ` set (qd_sent db)" using queued_not_sent [OF inv row(1)] row(2) by simp
  have "queue_inv db'" using inv_replace [OF inv row(1) eff(5) _ _ eff(2,3,4)] eff(6) fresh by auto
  moreover have "queue_grows db db'" using grows_replace [OF inv row(1) _ eff(5,2,3)] row(2) by (simp add: is_terminal_def)
  moreover have "qb_id row' = qb_id row" "qb_pid row' = qb_pid row" using eff(5) by (simp_all add: row_step_def)
  ultimately show "\<exists>v db' row'. settleBatch p (qb_id row) now db = (Inr v, db') \<and> queue_inv db' \<and> queue_grows db db'
      \<and> qd_batches db' = replace_row row' (qd_batches db) \<and> qb_id row' = qb_id row \<and> qb_pid row' = qb_pid row
      \<and> qb_status row' \<in> {Settled, Partial, Failed}"
    using eff(1,2,6) by blast
qed

lemma reap_closes: "closes_row (\<lambda>b. reapStaleSubmitted p b now) Submitted"
  unfolding closes_row_def
proof (intro allI impI)
  fix db row assume inv: "queue_inv db" and row: "row \<in> set (qd_batches db)" "qb_status row = Submitted"
  have d: "distinct (map qb_id (qd_batches db))" and ok: "batch_row_ok row" and fee: "fee_ok (qd_fees db)"
    using inv row by (auto simp: queue_inv_def)
  define f where "f = (\<lambda>r :: QueuedBatch. r\<lparr>qb_status := Failed,
     qb_failure := Some (''RELAYER_ERROR'', ''Flush did not complete before the reaper horizon - no fee charged, no resubmission attempted; stored receipts (if any) preserved for reconciliation''),
     qb_settledAt := Some now\<rparr>)"
  define row' where "row' = (f row)\<lparr>qb_updatedAt := now\<rparr>"
  have step: "row_step row row' []" and status: "qb_status row' = Failed"
    using ok row(2) by (auto simp: row_step_def batch_row_ok_def row'_def f_def)
  define db' where "db' = log_event p (qb_pid row) ''batch.failed'' (qb_id row) (update_batch (qb_id row) now f db)"
  have db': "qd_batches db' = replace_row row' (qd_batches db)" "qd_sent db' = qd_sent db @ map (Pair (qb_id row)) []" "fee_ok (qd_fees db')"
    using update_batch_replace [OF d row(1), of f now] fee by (simp_all add: db'_def row'_def f_def)
  have "reapStaleSubmitted p (qb_id row) now db = (Inr (toView (the (find_batch (qb_id row) db'))), db')"
    using find_batch_unique [OF d row(1)] row(2) by (simp add: reapStaleSubmitted_def db'_def f_def Let_def)
  moreover have "queue_inv db'" using inv_replace [OF inv row(1) step _ _ db'] status by simp
  moreover have "queue_grows db db'" using grows_replace [OF inv row(1) _ step db'(1,2)] row(2) by (simp add: is_terminal_def)
  ultimately show "\<exists>v db' row'. reapStaleSubmitted p (qb_id row) now db = (Inr v, db') \<and> queue_inv db' \<and> queue_grows db db'
      \<and> qd_batches db' = replace_row row' (qd_batches db) \<and> qb_id row' = qb_id row \<and> qb_pid row' = qb_pid row
      \<and> qb_status row' \<in> {Settled, Partial, Failed}"
    using db'(1) step status by (auto simp: row_step_def)
qed

lemma each_row_closes:
  assumes f: "closes_row f s" and inv: "queue_inv db" and bs: "distinct bs"
    "\<forall>b \<in> set bs. \<exists>row \<in> set (qd_batches db). qb_id row = b \<and> qb_status row = s"
  shows "\<exists>vs db'. each_row f bs db = (Inr vs, db') \<and> queue_inv db' \<and> queue_grows db db'
    \<and> (\<forall>r \<in> set (qd_batches db'). if qb_id r \<in> set bs then qb_status r \<in> {Settled, Partial, Failed} else r \<in> set (qd_batches db))"
  using inv bs
proof (induction bs arbitrary: db)
  case Nil
  then show ?case by (simp add: queue_grows_refl)
next
  case (Cons b bs)
  obtain row where row: "row \<in> set (qd_batches db)" "qb_id row = b" "qb_status row = s" using Cons.prems(3) by auto
  then obtain v db1 row' where eff: "f b db = (Inr v, db1)" "queue_inv db1" "queue_grows db db1"
    "qd_batches db1 = replace_row row' (qd_batches db)" "qb_id row' = b" "qb_status row' \<in> {Settled, Partial, Failed}"
    using f Cons.prems(1) unfolding closes_row_def by metis
  have "distinct (map qb_id (qd_batches db))" using Cons.prems(1) by (simp add: queue_inv_def)
  from replace_row_set [OF this row(1)] eff(5) row(2)
  have set1: "set (qd_batches db1) = insert row' (set (qd_batches db) - {row})" by (simp add: eff(4))
  have "\<forall>c \<in> set bs. \<exists>r \<in> set (qd_batches db1). qb_id r = c \<and> qb_status r = s"
    using Cons.prems(2,3) row(2) by (fastforce simp: set1)
  from Cons.IH [OF eff(2) _ this] Cons.prems(2) obtain vs db' where rest: "each_row f bs db1 = (Inr vs, db')" "queue_inv db'" "queue_grows db1 db'"
    "\<forall>r \<in> set (qd_batches db'). if qb_id r \<in> set bs then qb_status r \<in> {Settled, Partial, Failed} else r \<in> set (qd_batches db1)" by auto
  have "if qb_id r \<in> set (b # bs) then qb_status r \<in> {Settled, Partial, Failed} else r \<in> set (qd_batches db)" if "r \<in> set (qd_batches db')" for r
  proof (cases "qb_id r \<in> set bs")
    case True
    with rest(4) that show ?thesis by auto
  next
    case False
    with rest(4) that have r: "r \<in> set (qd_batches db1)" by auto
    have "distinct (map qb_id (qd_batches db1))" using eff(2) by (simp add: queue_inv_def)
    from r eff(5,6) id_unique [OF this, of r row'] show ?thesis using False set1 by auto
  qed
  moreover have "each_row f (b # bs) db = (Inr (v # vs), db')" using eff(1) rest(1) by simp
  ultimately show ?case using rest(2) queue_grows_trans [OF eff(3) rest(3)] by blast
qed

lemma distinct_ids_take: "distinct (map qb_id rows) \<Longrightarrow> distinct (map qb_id (take n (sort_key k (filter P rows))))"
  by (auto simp: distinct_map inj_on_def distinct_sort dest!: in_set_takeD)

lemma distinct_ids_filter: "distinct (map qb_id rows) \<Longrightarrow> distinct (map qb_id (take n (filter P rows)))"
  by (auto simp: distinct_map inj_on_def dest!: in_set_takeD)

text \<open>A flush always returns and settles every row it selects.\<close>

lemma flush_effect:
  assumes inv: "queue_inv db"
  obtains vs db' where "flushDueBatches p now scope db = (Inr vs, db')" "queue_inv db'" "queue_grows db db'"
    "\<forall>r \<in> set (qd_batches db'). qb_status r \<in> {Settled, Partial, Failed} \<or> (r \<in> set (qd_batches db) \<and> qb_id r \<notin> set (due_rows scope now db))"
proof -
  have d: "distinct (map qb_id (qd_batches db))" using inv by (simp add: queue_inv_def)
  have due: "distinct (due_rows scope now db)" "\<forall>b \<in> set (due_rows scope now db). \<exists>row \<in> set (qd_batches db). qb_id row = b \<and> qb_status row = Queued"
    using distinct_ids_take [OF d] by (auto simp: due_rows_def dest!: in_set_takeD)
  obtain vs db1 where one: "each_row (\<lambda>b. settleBatch p b now) (due_rows scope now db) db = (Inr vs, db1)" "queue_inv db1" "queue_grows db db1"
    "\<forall>r \<in> set (qd_batches db1). if qb_id r \<in> set (due_rows scope now db) then qb_status r \<in> {Settled, Partial, Failed} else r \<in> set (qd_batches db)"
    using each_row_closes [OF settle_closes inv due] by blast
  have d1: "distinct (map qb_id (qd_batches db1))" using one(2) by (simp add: queue_inv_def)
  have stale: "distinct (stale_rows p scope now db1)"
    "\<forall>b \<in> set (stale_rows p scope now db1). \<exists>row \<in> set (qd_batches db1). qb_id row = b \<and> qb_status row = Submitted"
    using distinct_ids_filter [OF d1] by (auto simp: stale_rows_def dest!: in_set_takeD)
  obtain ws db2 where two: "each_row (\<lambda>b. reapStaleSubmitted p b now) (stale_rows p scope now db1) db1 = (Inr ws, db2)" "queue_inv db2" "queue_grows db1 db2"
    "\<forall>r \<in> set (qd_batches db2). if qb_id r \<in> set (stale_rows p scope now db1) then qb_status r \<in> {Settled, Partial, Failed} else r \<in> set (qd_batches db1)"
    using each_row_closes [OF reap_closes one(2) stale] by blast
  show thesis
  proof (rule that)
    show "flushDueBatches p now scope db = (Inr (vs @ ws), db2)" by (simp add: flushDueBatches_def one(1) two(1))
    show "queue_inv db2" by (rule two(2))
    show "queue_grows db db2" by (rule queue_grows_trans [OF one(3) two(3)])
    show "\<forall>r \<in> set (qd_batches db2). qb_status r \<in> {Settled, Partial, Failed} \<or> (r \<in> set (qd_batches db) \<and> qb_id r \<notin> set (due_rows scope now db))"
    proof
      fix r assume "r \<in> set (qd_batches db2)"
      with two(4) have "qb_status r \<in> {Settled, Partial, Failed} \<or> r \<in> set (qd_batches db1)" by metis
      with one(4) show "qb_status r \<in> {Settled, Partial, Failed} \<or> (r \<in> set (qd_batches db) \<and> qb_id r \<notin> set (due_rows scope now db))" by metis
    qed
  qed
qed

section \<open>Operations\<close>

lemma queue_congs:
  "qd_batches db = qd_batches db' \<Longrightarrow> qd_sent db = qd_sent db' \<Longrightarrow> fee_ok (qd_fees db') \<Longrightarrow> queue_inv db \<Longrightarrow> queue_inv db' \<and> queue_grows db db'"
  by (auto simp: queue_inv_def queue_grows_def)

lemma batch_policy_effect:
  assumes "queue_inv db"
  obtains pol fs where "batch_policy p now db = (Inr pol, db\<lparr>qd_fees := fs\<rparr>)" "bps_ok pol" "fee_ok fs"
proof -
  have "fee_ok (qd_fees db)" using assms by (simp add: queue_inv_def)
  then obtain pol fs where "activePolicy (pt_feeDb p) now (qd_fees db) = (Inr pol, fs)" "bps_ok pol" "fee_ok fs"
    by (rule activePolicy_ok)
  then show thesis using that by (simp add: batch_policy_def)
qed

lemma estimateBatch_inv: "queue_inv db \<Longrightarrow> queue_inv (snd (estimateBatch sha p dto now db)) \<and> queue_grows db (snd (estimateBatch sha p dto now db))"
proof -
  assume inv: "queue_inv db"
  obtain pol fs where pol: "batch_policy p now db = (Inr pol, db\<lparr>qd_fees := fs\<rparr>)" "fee_ok fs"
    using batch_policy_effect [OF inv] by metis
  have "snd (estimateBatch sha p dto now db) = db \<or> snd (estimateBatch sha p dto now db) = db\<lparr>qd_fees := fs\<rparr>"
    by (auto simp: estimateBatch_def pol Let_def split: sum.splits)
  then show ?thesis using queue_congs [of db "db\<lparr>qd_fees := fs\<rparr>"] inv pol(2) queue_grows_refl by auto
qed

lemma fresh_id_greater: "r \<in> set (qd_batches db) \<Longrightarrow> qb_id r < fresh_id db"
proof -
  have "m \<le> foldl (\<lambda>m r. max m (Suc (qb_id r))) m rows \<and> (\<forall>r \<in> set rows. qb_id r < foldl (\<lambda>m r. max m (Suc (qb_id r))) m rows)" for m rows
  proof (induction rows arbitrary: m)
    case (Cons a rows)
    from Cons [of "max m (Suc (qb_id a))"] show ?case by auto
  qed simp
  then show "r \<in> set (qd_batches db) \<Longrightarrow> qb_id r < fresh_id db" by (auto simp: fresh_id_def)
qed

lemma inv_append:
  assumes inv: "queue_inv db" and row: "batch_row_ok row" "qb_id row = fresh_id db" "qb_idempotencyKey row \<notin> qb_idempotencyKey ` set (qd_batches db)"
    and db': "qd_batches db' = qd_batches db @ [row]" "qd_sent db' = qd_sent db" "fee_ok (qd_fees db')"
  shows "queue_inv db' \<and> queue_grows db db' \<and> qb_id row \<notin> fst ` set (qd_sent db')"
proof -
  have fresh: "qb_id row \<notin> qb_id ` set (qd_batches db)" using fresh_id_greater row(2) by fastforce
  moreover have "b \<in> qb_id ` set (qd_batches db)" if "b \<in> fst ` set (qd_sent db)" for b
    using that inv by (fastforce simp: queue_inv_def)
  ultimately show ?thesis
    using inv row by (auto simp: queue_inv_def queue_grows_def db' case_prod_unfold)
qed

lemma decode_baseline: "decodeQuoteId q = Inr r \<Longrightarrow> 0 \<le> qt_baseline r"
  by (auto simp: decodeQuoteId_def Let_def split: list.splits if_splits)

lemma new_batch_row_ok:
  assumes "validateBatchOps (dt_ops dto) = Inr u" "submit_quote sha dto nowSec = Inr q" "submit_price p dto q pol = Inr m" "bps_ok pol"
  shows "batch_row_ok (new_batch_row p b pid dto q pol m now)"
proof -
  have "0 \<le> qt_baseline q" using assms(2) by (auto simp: submit_quote_def Let_def split: if_splits option.splits dest: decode_baseline)
  moreover have "m = maxTotal (qt_baseline q) (po_bps pol)" using assms(3) by (auto simp: submit_price_def split: if_splits)
  moreover note validateBatchOps_admissible [OF assms(1)]
  ultimately show ?thesis using assms(4) by (auto simp: batch_row_ok_def new_batch_row_def bps_ok_def)
qed

text \<open>A submission either leaves the table, or stores one admissible row and then settles it or flushes.\<close>

lemma submitBatch_inv:
  assumes inv: "queue_inv db"
  shows "queue_inv (snd (submitBatch sha p pid dto now db)) \<and> queue_grows db (snd (submitBatch sha p pid dto now db))"
proof -
  obtain pol fs where pol: "batch_policy p now db = (Inr pol, db\<lparr>qd_fees := fs\<rparr>)" "bps_ok pol" "fee_ok fs"
    using batch_policy_effect [OF inv] by metis
  have unchanged: ?thesis if "snd (submitBatch sha p pid dto now db) \<in> {db, db\<lparr>qd_fees := fs\<rparr>}"
    using that queue_congs [of db "db\<lparr>qd_fees := fs\<rparr>"] inv pol(3) queue_grows_refl by auto
  show ?thesis
  proof (cases "is_ok (validateBatchOps (dt_ops dto)) \<and> find (\<lambda>r. qb_idempotencyKey r = dt_idempotencyKey dto) (qd_batches db) = None
      \<and> (\<exists>q m. submit_quote sha dto (now div 1000) = Inr q \<and> submit_price p dto q pol = Inr m \<and> submit_session p (fresh_id db) dto (now div 1000) = Inr ())")
    case False
    have "snd (submitBatch sha p pid dto now db) \<in> {db, db\<lparr>qd_fees := fs\<rparr>}"
    proof (cases "validateBatchOps (dt_ops dto)")
      case (Inr u)
      show ?thesis
      proof (cases "find (\<lambda>r. qb_idempotencyKey r = dt_idempotencyKey dto) (qd_batches db)")
        case None
        with False Inr have no: "submit_quote sha dto (now div 1000) = Inr q \<Longrightarrow> submit_price p dto q pol = Inr m \<Longrightarrow> submit_session p (fresh_id db) dto (now div 1000) \<noteq> Inr ()" for q m
          by auto
        then show ?thesis using None Inr pol(1)
          by (cases "submit_quote sha dto (now div 1000)") (auto simp: submitBatch_def split: sum.splits)
      qed (simp_all add: submitBatch_def Inr)
    qed (simp add: submitBatch_def)
    then show ?thesis by (rule unchanged)
  next
    case True
    then obtain u q m where ok: "validateBatchOps (dt_ops dto) = Inr u" "find (\<lambda>r. qb_idempotencyKey r = dt_idempotencyKey dto) (qd_batches db) = None"
      "submit_quote sha dto (now div 1000) = Inr q" "submit_price p dto q pol = Inr m" "submit_session p (fresh_id db) dto (now div 1000) = Inr ()"
      by (auto simp: is_ok_def split: sum.splits)
    define row where "row = new_batch_row p (fresh_id db) pid dto q pol m now"
    define db2 where "db2 = log_event p pid ''batch.submitted'' (fresh_id db) (db\<lparr>qd_fees := fs, qd_batches := qd_batches db @ [row]\<rparr>)"
    have row: "batch_row_ok row" "qb_id row = fresh_id db" "qb_idempotencyKey row \<notin> qb_idempotencyKey ` set (qd_batches db)"
      using new_batch_row_ok [OF ok(1,3,4) pol(2)] ok(2) by (auto simp: row_def new_batch_row_def find_None_iff)
    have db2: "queue_inv db2" "queue_grows db db2" "qb_id row \<notin> fst ` set (qd_sent db2)" "row \<in> set (qd_batches db2)"
      using inv_append [OF inv row, of db2] pol(3) by (simp_all add: db2_def)
    have res: "snd (submitBatch sha p pid dto now db) = (if qb_bypassQueue row then snd (settleBatch p (fresh_id db) now db2) else snd (flushDueBatches p now (Some pid) db2))"
      using ok pol(1) by (simp add: submitBatch_def Let_def db2_def row_def)
    show ?thesis
    proof (cases "qb_bypassQueue row")
      case True
      then have open_row: "qb_status row = Submitted" by (simp add: row_def new_batch_row_def)
      obtain v db' row' sent where eff: "settleBatch p (qb_id row) now db2 = (Inr v, db')" "qd_batches db' = replace_row row' (qd_batches db2)"
        "qd_sent db' = qd_sent db2 @ map (Pair (qb_id row)) sent" "fee_ok (qd_fees db')" "row_step row row' sent"
        "qb_status row' \<in> {Settled, Partial, Failed}"
        by (rule settleBatch_effect [OF db2(1,4), of p now]) (simp_all add: open_row)
      have "queue_inv db'" using inv_replace [OF db2(1,4) eff(5) _ _ eff(2,3,4)] eff(6) db2(3) by auto
      moreover have "queue_grows db2 db'" using grows_replace [OF db2(1,4) _ eff(5,2,3)] open_row by (simp add: is_terminal_def)
      ultimately show ?thesis using True eff(1) db2(2) queue_grows_trans by (auto simp: res row(2))
    next
      case False
      obtain vs db' where "flushDueBatches p now (Some pid) db2 = (Inr vs, db')" "queue_inv db'" "queue_grows db2 db'"
        using flush_effect [OF db2(1), of p now "Some pid"] by metis
      then show ?thesis using False db2(2) queue_grows_trans by (auto simp: res)
    qed
  qed
qed

lemma cancelQueued_inv:
  assumes inv: "queue_inv db"
  shows "queue_inv (snd (cancelQueuedBatch pid b now db)) \<and> queue_grows db (snd (cancelQueuedBatch pid b now db))"
proof (cases "\<exists>row. find_batch b db = Some row \<and> qb_pid row = pid \<and> qb_status row = Queued")
  case False
  then have "snd (cancelQueuedBatch pid b now db) = db" by (auto simp: cancelQueuedBatch_def split: option.splits)
  then show ?thesis using inv by (simp add: queue_grows_refl)
next
  case True
  then obtain row where row: "find_batch b db = Some row" "qb_pid row = pid" "qb_status row = Queued" by auto
  then have mem: "row \<in> set (qd_batches db)" "qb_id row = b" using find_batch_in by auto
  have d: "distinct (map qb_id (qd_batches db))" and ok: "batch_row_ok row" and fee: "fee_ok (qd_fees db)"
    using inv mem by (auto simp: queue_inv_def)
  let ?row' = "(row\<lparr>qb_status := Expired\<rparr>)\<lparr>qb_updatedAt := now\<rparr>"
  have step: "row_step row ?row' []" using ok row(3) by (auto simp: row_step_def batch_row_ok_def)
  have db': "snd (cancelQueuedBatch pid b now db) = db\<lparr>qd_batches := replace_row ?row' (qd_batches db)\<rparr>"
    using row update_batch_replace [OF d mem(1), of "\<lambda>r. r\<lparr>qb_status := Expired\<rparr>" now] mem(2) by (simp add: cancelQueuedBatch_def Let_def)
  have fresh: "qb_id row \<notin> fst ` set (qd_sent db)" using queued_not_sent [OF inv mem(1)] row(3) by simp
  have "queue_inv (db\<lparr>qd_batches := replace_row ?row' (qd_batches db)\<rparr>)"
    using fee fresh by (intro inv_replace [OF inv mem(1) step]) simp_all
  moreover have "queue_grows db (db\<lparr>qd_batches := replace_row ?row' (qd_batches db)\<rparr>)"
    using row(3) by (intro grows_replace [OF inv mem(1) _ step]) (simp_all add: is_terminal_def)
  ultimately show ?thesis by (simp only: db' simp_thms)
qed

section \<open>The machine\<close>

text \<open>A process that dies in a settlement leaves the row submitted, after the first \<open>k\<close> forwarded ops.\<close>

definition crash_in_settlement :: "ports \<Rightarrow> nat \<Rightarrow> int \<Rightarrow> nat \<Rightarrow> queue_db \<Rightarrow> queue_db" where
  "crash_in_settlement p b now k db =
     (case find_batch b db of
        None \<Rightarrow> db
      | Some row \<Rightarrow>
          if qb_status row \<noteq> Queued then db
          else let db1 = update_batch b now (\<lambda>r. r\<lparr>qb_status := Submitted\<rparr>) db
               in db1\<lparr>qd_sent := qd_sent db1 @ map (\<lambda>i. (b, i)) (take k (sa_sent (settle_ops p b (qb_atomic row) 0 (qb_ops row) settle_acc0)))\<rparr>)"

lemma crash_inv:
  assumes inv: "queue_inv db"
  shows "queue_inv (crash_in_settlement p b now k db) \<and> queue_grows db (crash_in_settlement p b now k db)"
proof (cases "\<exists>row. find_batch b db = Some row \<and> qb_status row = Queued")
  case False
  then have "crash_in_settlement p b now k db = db" by (auto simp: crash_in_settlement_def split: option.splits)
  then show ?thesis using inv by (simp add: queue_grows_refl)
next
  case True
  then obtain row where row: "find_batch b db = Some row" "qb_status row = Queued" by auto
  then have mem: "row \<in> set (qd_batches db)" "qb_id row = b" using find_batch_in by auto
  have d: "distinct (map qb_id (qd_batches db))" and ok: "batch_row_ok row" and fee: "fee_ok (qd_fees db)"
    using inv mem by (auto simp: queue_inv_def)
  define sent where "sent = take k (sa_sent (settle_ops p b (qb_atomic row) 0 (qb_ops row) settle_acc0))"
  define row' where "row' = (row\<lparr>qb_status := Submitted\<rparr>)\<lparr>qb_updatedAt := now\<rparr>"
  have step: "row_step row row' sent"
    using ok row(2) sent_ok [of p b "qb_atomic row" "qb_ops row"]
    by (auto simp: row_step_def batch_row_ok_def row'_def sent_def distinct_take dest: in_set_takeD)
  define db' where "db' = crash_in_settlement p b now k db"
  have db': "qd_batches db' = replace_row row' (qd_batches db)" "qd_sent db' = qd_sent db @ map (Pair (qb_id row)) sent" "fee_ok (qd_fees db')"
    using row update_batch_replace [OF d mem(1), of "\<lambda>r. r\<lparr>qb_status := Submitted\<rparr>" now] mem(2) fee
    by (simp_all add: db'_def crash_in_settlement_def Let_def row'_def sent_def)
  have fresh: "qb_id row \<notin> fst ` set (qd_sent db)" using queued_not_sent [OF inv mem(1)] row(2) by simp
  have "queue_inv db'" using inv_replace [OF inv mem(1) step _ _ db'] fresh by (simp add: row'_def)
  moreover have "queue_grows db db'" using grows_replace [OF inv mem(1) _ step db'(1,2)] row(2) by (simp add: is_terminal_def)
  ultimately show ?thesis by (simp add: db'_def)
qed

datatype queue_op =
    QuoteBatch ports batch_dto int
  | SubmitBatch ports string batch_dto int
  | CancelBatch string nat int
  | FlushBatches ports int caller "(string \<times> string) option"
  | FeeChange fee_op
  | Crash ports nat int nat

fun queue_step :: "(string \<Rightarrow> string) \<Rightarrow> queue_op \<Rightarrow> queue_db \<Rightarrow> queue_db" where
  "queue_step sha (QuoteBatch p dto now) db = snd (estimateBatch sha p dto now db)"
| "queue_step sha (SubmitBatch p pid dto now) db = snd (submitBatch sha p pid dto now db)"
| "queue_step sha (CancelBatch pid b now) db = snd (cancelQueuedBatch pid b now db)"
| "queue_step sha (FlushBatches p now user identity) db = snd (flush p now user identity db)"
| "queue_step sha (FeeChange f) db = db\<lparr>qd_fees := fee_step f (qd_fees db)\<rparr>"
| "queue_step sha (Crash p b now k) db = crash_in_settlement p b now k db"

lemma queue_step_ok:
  assumes inv: "queue_inv db"
  shows "queue_inv (queue_step sha op db) \<and> queue_grows db (queue_step sha op db)"
proof (cases op)
  case (FlushBatches p now user identity)
  have "queue_inv (snd (flushDueBatches p now scope db)) \<and> queue_grows db (snd (flushDueBatches p now scope db))" for scope
    using flush_effect [OF inv, of p now scope] by (metis snd_conv)
  then show ?thesis by (simp add: FlushBatches flush_def)
next
  case (FeeChange f)
  have "fee_ok (fee_step f (qd_fees db))" using inv fee.step_inv by (simp add: queue_inv_def)
  with FeeChange inv show ?thesis using queue_congs [of db "db\<lparr>qd_fees := fee_step f (qd_fees db)\<rparr>"] by simp
qed (simp_all add: estimateBatch_inv submitBatch_inv cancelQueued_inv crash_inv inv)

interpretation queue: monotone_machine "queue_step sha" queue_inv queue_grows for sha
  using queue_step_ok queue_grows_refl queue_grows_trans by unfold_locales blast+

definition empty_queue :: queue_db where
  "empty_queue = \<lparr>qd_batches = [], qd_fees = no_policies, qd_sent = [], qd_events = []\<rparr>"

lemma empty_queue_inv: "queue_inv empty_queue"
  by (simp add: queue_inv_def empty_queue_def fee_ok_def no_policies_def)

section \<open>Properties\<close>

text \<open>C5: No op is forwarded twice. Whatever sequence of quotes, submissions, cancellations, flushes, policy changes and crashes
  the queue goes through, the trace of calls to the submitter has no repetition; every forwarded op is an op of a stored
  batch that is submitted or finished, so nothing of a queued or a cancelled batch was forwarded; and no later operation
  takes a call back or changes a finished row.\<close>

theorem batch_ops_sent_once:
  assumes "queue_inv db"
  shows "distinct (qd_sent (fold (queue_step sha) ops db))
    \<and> (\<forall>(b, i) \<in> set (qd_sent (fold (queue_step sha) ops db)). \<exists>r \<in> set (qd_batches (fold (queue_step sha) ops db)).
         qb_id r = b \<and> i < length (qb_ops r) \<and> qb_status r \<in> {Submitted, Settled, Partial, Failed})
    \<and> (\<exists>ys. qd_sent (fold (queue_step sha) ops db) = qd_sent db @ ys)
    \<and> (\<forall>r \<in> set (qd_batches db). qb_status r \<in> {Settled, Partial, Failed, Expired} \<longrightarrow> r \<in> set (qd_batches (fold (queue_step sha) ops db)))"
proof -
  define db' where "db' = fold (queue_step sha) ops db"
  have inv: "queue_inv db'" and grows: "queue_grows db db'"
    unfolding db'_def by (rule queue.run_inv [OF assms], rule queue.run_grows [OF assms])
  have "distinct (qd_sent db')" "\<forall>(b, i) \<in> set (qd_sent db'). \<exists>r \<in> set (qd_batches db').
         qb_id r = b \<and> i < length (qb_ops r) \<and> qb_status r \<in> {Submitted, Settled, Partial, Failed}"
    using inv by (simp_all add: queue_inv_def)
  moreover have "\<exists>ys. qd_sent db' = qd_sent db @ ys" using grows by (simp add: queue_grows_def)
  moreover have "\<forall>r \<in> set (qd_batches db). qb_status r \<in> {Settled, Partial, Failed, Expired} \<longrightarrow> r \<in> set (qd_batches db')"
    using grows by (auto simp: queue_grows_def is_terminal_def)
  ultimately show ?thesis by (simp only: db'_def simp_thms)
qed

text \<open>C21: Every stored batch is well typed in every reachable state: one to ten ops, each with a proper target that is not the
  zero address, calldata with a selector that is not denied, no value, and a signed intent of a permitted kind that calls
  exactly the op; one row per id and per idempotency key; a status that the queue uses; and receipts exactly on the rows
  that settled or failed after the settlement.\<close>

theorem stored_batches_well_typed:
  assumes "queue_inv db"
  shows "distinct (map qb_id (qd_batches (fold (queue_step sha) ops db)))
    \<and> distinct (map qb_idempotencyKey (qd_batches (fold (queue_step sha) ops db)))
    \<and> (\<forall>r \<in> set (qd_batches (fold (queue_step sha) ops db)).
         1 \<le> length (qb_ops r) \<and> length (qb_ops r) \<le> MAX_OPS_PER_BATCH \<and> list_all admissible_op (qb_ops r)
         \<and> qb_status r \<in> {Queued, Submitted, Settled, Partial, Failed, Expired}
         \<and> (qb_status r \<in> {Settled, Partial} \<longrightarrow> qb_receipts r \<noteq> None)
         \<and> (qb_receipts r \<noteq> None \<longrightarrow> qb_status r \<in> {Settled, Partial, Failed})
         \<and> (qb_status r = Failed \<longrightarrow> qb_failure r \<noteq> None))"
proof -
  have inv: "queue_inv (fold (queue_step sha) ops db)" by (rule queue.run_inv [OF assms])
  have "qb_status r \<in> {Queued, Submitted, Settled, Partial, Failed, Expired}" if "batch_row_ok r" for r
    using that by (cases "qb_status r") (auto simp: batch_row_ok_def)
  then show ?thesis using inv by (auto simp: queue_inv_def batch_row_ok_def)
qed

lemma maxTotal_bound: "0 \<le> b \<Longrightarrow> 0 \<le> bps \<Longrightarrow> bps \<le> MAX_PROTOCOL_FEE_BPS \<Longrightarrow> 2 * maxTotal b bps \<le> 3 * b"
  using protocolFee_half [of "\<lparr>po_version = 0, po_bps = bps, po_active = False, po_fxSource = [], po_fxAsOf = None, po_updatedAt = 0\<rparr>" b]
  by (simp add: bps_ok_def maxTotal_def protocolFeeOf_def)

text \<open>C13: A user never pays above the quote: of every settled batch, in every reachable state, the charge is the smaller of the
  locked maximum and the actual network cost of the forwarded ops plus a fee on the successful ones only; the locked
  maximum is at most one and a half times the quoted baseline; and the recorded savings are what the baseline exceeds the
  actual cost by, never negative.\<close>

theorem user_pays_at_most_quote:
  assumes "queue_inv db" "r \<in> set (qd_batches (fold (queue_step sha) ops db))" "qb_receipts r = Some x"
  shows "br_userTotal x \<le> qb_quotedMaxTotal r \<and> 2 * qb_quotedMaxTotal r \<le> 3 * qb_quotedBaseline r
    \<and> (\<exists>bps. 0 \<le> bps \<and> bps \<le> MAX_PROTOCOL_FEE_BPS
         \<and> br_userTotal x = min (qb_quotedMaxTotal r) (br_actual x + protocolFeeOf (sum_list (map ok_cost (br_ops x))) bps))
    \<and> br_actual x = sum_list (map outcome_cost (br_ops x))
    \<and> br_savings x = max 0 (qb_quotedBaseline r - br_actual x)"
proof -
  have "batch_row_ok r" using queue.run_inv [OF assms(1), of sha ops] assms(2) by (auto simp: queue_inv_def)
  then have "receipts_ok r x" "0 \<le> qb_quotedBaseline r"
    "\<exists>bps. 0 \<le> bps \<and> bps \<le> MAX_PROTOCOL_FEE_BPS \<and> qb_quotedMaxTotal r = maxTotal (qb_quotedBaseline r) bps"
    using assms(3) by (auto simp: batch_row_ok_def)
  then show ?thesis using maxTotal_bound by (auto simp: receipts_ok_def)
qed

section \<open>Everything due is settled\<close>

definition due :: "string option \<Rightarrow> int \<Rightarrow> QueuedBatch \<Rightarrow> bool" where
  "due scope now r \<longleftrightarrow> qb_status r = Queued \<and> in_scope scope r \<and> qb_settleDueAt r \<le> now"

definition due_count :: "string option \<Rightarrow> int \<Rightarrow> queue_db \<Rightarrow> nat" where
  "due_count scope now db = length (filter (due scope now) (qd_batches db))"

lemma due_count_card: "queue_inv db \<Longrightarrow> due_count scope now db = card {r \<in> set (qd_batches db). due scope now r}"
proof -
  assume "queue_inv db"
  then have "distinct (filter (due scope now) (qd_batches db))" by (simp add: queue_inv_def distinct_map)
  then show ?thesis by (simp add: due_count_def distinct_card [symmetric])
qed

lemma due_rows_length:
  assumes "queue_inv db"
  shows "card (set (due_rows scope now db)) = min FLUSH_BATCH_LIMIT (due_count scope now db)"
proof -
  have d: "distinct (map qb_id (qd_batches db))" using assms by (simp add: queue_inv_def)
  then have "distinct (due_rows scope now db)" using distinct_ids_take by (simp add: due_rows_def)
  then have "card (set (due_rows scope now db)) = length (due_rows scope now db)" by (rule distinct_card)
  also have "\<dots> = min FLUSH_BATCH_LIMIT (due_count scope now db)"
    by (simp add: due_rows_def due_count_def due_def [abs_def] min.commute)
  finally show ?thesis .
qed

lemma flush_shrinks_due:
  assumes inv: "queue_inv db" and res: "flushDueBatches p now scope db = (r, db')"
  shows "due_count scope now db' \<le> due_count scope now db - FLUSH_BATCH_LIMIT \<and> queue_inv db' \<and> queue_grows db db'"
proof -
  obtain vs where eff: "queue_inv db'" "queue_grows db db'"
    "\<forall>r \<in> set (qd_batches db'). qb_status r \<in> {Settled, Partial, Failed} \<or> (r \<in> set (qd_batches db) \<and> qb_id r \<notin> set (due_rows scope now db))"
    using flush_effect [OF inv, of p now scope] res by (metis prod.inject)
  define due_set where "due_set = {r \<in> set (qd_batches db). due scope now r}"
  define sel where "sel = {r \<in> due_set. qb_id r \<in> set (due_rows scope now db)}"
  have d: "distinct (map qb_id (qd_batches db))" using inv by (simp add: queue_inv_def)
  have "qb_id ` sel = set (due_rows scope now db)"
  proof
    show "set (due_rows scope now db) \<subseteq> qb_id ` sel"
    proof
      fix b assume b: "b \<in> set (due_rows scope now db)"
      then obtain r where "r \<in> set (qd_batches db)" "due scope now r" "qb_id r = b" by (auto simp: due_rows_def due_def dest!: in_set_takeD)
      with b show "b \<in> qb_id ` sel" by (auto simp: sel_def due_set_def)
    qed
  qed (auto simp: sel_def)
  moreover have "inj_on qb_id sel" using id_unique [OF d] by (auto simp: inj_on_def sel_def due_set_def)
  ultimately have "card sel = card (set (due_rows scope now db))" by (metis card_image)
  then have sel: "card sel = min FLUSH_BATCH_LIMIT (due_count scope now db)" by (simp add: due_rows_length [OF inv])
  have fin: "finite due_set" by (simp add: due_set_def)
  have "{r \<in> set (qd_batches db'). due scope now r} \<subseteq> due_set - sel"
    using eff(3) by (auto simp: due_def due_set_def sel_def)
  then have "card {r \<in> set (qd_batches db'). due scope now r} \<le> card (due_set - sel)" using fin by (intro card_mono) auto
  also have "\<dots> = card due_set - card sel" using fin by (intro card_Diff_subset) (auto simp: sel_def)
  finally show ?thesis using sel eff(1,2) due_count_card [OF inv, of scope now] due_count_card [OF eff(1), of scope now] by (auto simp: due_set_def)
qed

lemma flush_progress:
  assumes inv: "queue_inv db" and r: "r \<in> set (qd_batches db)" "qb_status r \<in> {Settled, Partial, Failed} \<or> due scope now r"
  shows "\<exists>r' \<in> set (qd_batches (snd (flushDueBatches p now scope db))). qb_id r' = qb_id r
    \<and> (qb_status r' \<in> {Settled, Partial, Failed} \<or> due scope now r')"
proof -
  obtain vs db' where eff: "flushDueBatches p now scope db = (Inr vs, db')" "queue_grows db db'"
    "\<forall>r \<in> set (qd_batches db'). qb_status r \<in> {Settled, Partial, Failed} \<or> (r \<in> set (qd_batches db) \<and> qb_id r \<notin> set (due_rows scope now db))"
    using flush_effect [OF inv, of p now scope] by metis
  obtain r' where r': "r' \<in> set (qd_batches db')" "qb_id r' = qb_id r" using eff(2) r(1) by (auto simp: queue_grows_def)
  then have "qb_status r' \<in> {Settled, Partial, Failed} \<or> r' = r"
    using eff(3) inv id_unique [of "qd_batches db" r' r] r(1) unfolding queue_inv_def by blast
  with r' r(2) eff(1) show ?thesis by auto
qed

text \<open>C19: Nothing is left behind. When the batches that are due in a scope are flushed often enough (one flush for each started
  hundred of them), every one of them ends settled, partial or failed and none that was due is still queued, whatever
  the chain, the session check, the fee database and the audit log answer in each flush.\<close>

theorem due_batches_settle:
  assumes inv: "queue_inv db" and enough: "due_count scope now db \<le> FLUSH_BATCH_LIMIT * length ps"
  shows "(\<forall>r \<in> set (qd_batches (fold (\<lambda>p db. snd (flushDueBatches p now scope db)) ps db)). \<not> due scope now r)
    \<and> (\<forall>r \<in> set (qd_batches db). due scope now r \<longrightarrow>
       (\<exists>r' \<in> set (qd_batches (fold (\<lambda>p db. snd (flushDueBatches p now scope db)) ps db)). qb_id r' = qb_id r
          \<and> qb_status r' \<in> {Settled, Partial, Failed}))"
proof -
  let ?run = "\<lambda>ps db. fold (\<lambda>p db. snd (flushDueBatches p now scope db)) ps db"
  have count: "due_count scope now db \<le> FLUSH_BATCH_LIMIT * length ps \<Longrightarrow> queue_inv db \<Longrightarrow> due_count scope now (?run ps db) = 0" for db
  proof (induction ps arbitrary: db)
    case (Cons p ps)
    note shrink = flush_shrinks_due [OF Cons.prems(2) prod.collapse [symmetric], where p = p and now = now and scope = scope]
    have "due_count scope now (snd (flushDueBatches p now scope db)) \<le> FLUSH_BATCH_LIMIT * length ps"
      using shrink Cons.prems(1) by simp linarith
    with shrink Cons.IH show ?case by simp
  qed simp
  have reach: "queue_inv db \<Longrightarrow> r \<in> set (qd_batches db) \<Longrightarrow> qb_status r \<in> {Settled, Partial, Failed} \<or> due scope now r \<Longrightarrow>
      \<exists>r' \<in> set (qd_batches (?run ps db)). qb_id r' = qb_id r \<and> (qb_status r' \<in> {Settled, Partial, Failed} \<or> due scope now r')" for db r
  proof (induction ps arbitrary: db r)
    case (Cons p ps)
    obtain r1 where r1: "r1 \<in> set (qd_batches (snd (flushDueBatches p now scope db)))" "qb_id r1 = qb_id r"
      "qb_status r1 \<in> {Settled, Partial, Failed} \<or> due scope now r1"
      using flush_progress [OF Cons.prems, of p] by auto
    have "queue_inv (snd (flushDueBatches p now scope db))"
      using flush_shrinks_due [OF Cons.prems(1) prod.collapse [symmetric]] by blast
    from Cons.IH [OF this r1(1,3)] r1(2) show ?case by simp
  qed auto
  have "\<not> due scope now r" if "r \<in> set (qd_batches (?run ps db))" for r
    using count [OF enough inv] that by (auto simp: due_count_def filter_empty_conv)
  then show ?thesis using reach [OF inv] by blast
qed

section \<open>Two flushes at once\<close>

lemma all_ok_sent:
  "(\<And>i x. os_ok (simulate_caught p b i x) \<and> or_ok (submit_caught p b i x)) \<Longrightarrow>
     sa_sent (settle_ops p b atomic i xs acc) = sa_sent acc @ [i..<i + length xs]"
proof (induction xs arbitrary: i acc)
  case (Cons x xs)
  have "[i..<i + length (x # xs)] = i # [Suc i..<Suc i + length xs]"
    using upt_conv_Cons [of i "i + length (x # xs)"] by (simp del: upt_Suc)
  with Cons show ?case by (simp add: Let_def del: upt_Suc)
qed simp

lemma settle_sent:
  assumes "queue_inv db" "find_batch b db = Some row" "qb_sessionKey row = None"
  shows "qd_sent (snd (settleBatch p b now db)) = qd_sent db @ map (Pair b) (sa_sent (settle_ops p b (qb_atomic row) 0 (qb_ops row) settle_acc0))"
proof -
  have "fee_ok (qd_fees db)" using assms(1) by (simp add: queue_inv_def)
  then obtain pol fs where "activePolicy (pt_feeDb p) now (qd_fees db) = (Inr pol, fs)" by (rule activePolicy_ok)
  then show ?thesis
    using assms by (simp add: settleBatch_def session_at_settlement_def batch_policy_def update_batch_def Let_def)
qed

text \<open>C40: The settlement of a row does not look at its status. Two flushes that both read the list of due batches before either
  settles (the list of the second still holds the batch) forward every op of the batch twice.\<close>

theorem concurrent_flushes_send_twice:
  assumes inv: "queue_inv db" and b: "b \<in> set (due_rows scope now db)" and row: "find_batch b db = Some row" "qb_sessionKey row = None"
    and ok: "\<And>i x. os_ok (simulate_caught p b i x) \<and> or_ok (submit_caught p b i x)"
  shows "qd_sent (snd (settleBatch p b now' (snd (settleBatch p b now db))))
    = qd_sent db @ map (Pair b) [0..<length (qb_ops row)] @ map (Pair b) [0..<length (qb_ops row)]"
proof -
  have mem: "row \<in> set (qd_batches db)" "qb_id row = b" using find_batch_in [OF row(1)] by auto
  have "\<exists>r \<in> set (qd_batches db). qb_id r = b \<and> qb_status r = Queued" using b by (auto simp: due_rows_def dest!: in_set_takeD)
  then have queued: "qb_status row = Queued" using id_unique [of "qd_batches db"] inv mem by (metis queue_inv_def)
  obtain v db' row' sent where eff: "settleBatch p (qb_id row) now db = (Inr v, db')" "qd_batches db' = replace_row row' (qd_batches db)"
    "qd_sent db' = qd_sent db @ map (Pair (qb_id row)) sent" "fee_ok (qd_fees db')" "row_step row row' sent" "qb_status row' \<in> {Settled, Partial, Failed}"
    by (rule settleBatch_effect [OF inv mem(1), of p now]) (simp_all add: queued)
  have inv': "queue_inv db'"
    using inv_replace [OF inv mem(1) eff(5) _ _ eff(2,3,4)] eff(6) queued_not_sent [OF inv mem(1)] queued by auto
  have "row' \<in> set (qd_batches db')"
    using replace_row_set [of "qd_batches db" row row'] inv mem(1) eff(2,5) by (simp add: queue_inv_def row_step_def)
  then have "find_batch b db' = Some row'"
    using find_batch_unique [of db' row'] inv' eff(5) mem(2) by (simp add: queue_inv_def row_step_def)
  then have "qd_sent (snd (settleBatch p b now' db')) = qd_sent db' @ map (Pair b) (sa_sent (settle_ops p b (qb_atomic row') 0 (qb_ops row') settle_acc0))"
    using eff(5) row(2) by (intro settle_sent [OF inv']) (simp_all add: row_step_def)
  moreover have "qb_ops row' = qb_ops row" "snd (settleBatch p b now db) = db'" using eff(1,5) mem(2) by (simp_all add: row_step_def)
  ultimately show ?thesis using settle_sent [OF inv row, of p now] all_ok_sent [OF ok] by (simp add: settle_acc0_def)
qed

section \<open>A concrete queue\<close>

definition demo_op :: StoredOp where
  "demo_op =
     \<lparr>op_to = ''0x1111111111111111111111111111111111111111'', op_value = ''0'', op_data = ''0x12345678'', op_gasLimit = None,
      op_intent = JObj [(''version'', JNum 1), (''account'', JStr ''0x2222222222222222222222222222222222222222''), (''chainId'', JStr ''10143''),
        (''call'', JObj [(''to'', JStr ''0x1111111111111111111111111111111111111111''), (''value'', JStr ''0''), (''data'', JStr ''0x12345678'')]),
        (''auth'', JObj [(''deadline'', JNum 5000)])]\<rparr>"

definition demo_row :: QueuedBatch where
  "demo_row =
     \<lparr>qb_id = 0, qb_pid = ''alice'', qb_status = Queued, qb_atomic = True, qb_from = ''0x2222222222222222222222222222222222222222'',
      qb_ops = [demo_op], qb_sessionKey = None, qb_quoteId = ''q'', qb_idempotencyKey = ''k'', qb_quotedBaseline = 1000,
      qb_quotedMaxTotal = 1500, qb_feePolicyVersion = 2, qb_sessionExpiresAt = None, qb_validUntil = Some 900000, qb_bypassQueue = False,
      qb_receipts = None, qb_failure = None, qb_settleDueAt = 900000, qb_settledAt = None, qb_createdAt = 0, qb_updatedAt = 0\<rparr>"

definition demo_queue :: queue_db where
  "demo_queue = empty_queue\<lparr>qd_batches := [demo_row]\<rparr>"

definition demo_ports :: ports where
  "demo_ports =
     \<lparr>pt_estimate = \<lambda>_ _. Inr 1000, pt_simulate = \<lambda>_ _ _. Inr \<lparr>os_ok = True, os_reason = None, os_gasEstimate = 21000\<rparr>,
      pt_submit = \<lambda>_ _ _. Inr \<lparr>or_txHash = ''0xabc'', or_gasUsed = 800, or_effectiveGasPrice = 1, or_l1Fee = None, or_ok = True, or_revertReason = None\<rparr>,
      pt_check = \<lambda>_ _. Inl (ServiceUnavailable []), pt_feeDb = True, pt_ledgerDb = \<lambda>_ _. True, pt_logOk = True, pt_window = None, pt_reference = None\<rparr>"

lemma demo_op_admissible: "admissible_op demo_op"
proof -
  have "validateIntentEnvelope (op_intent demo_op) demo_op = Inr \<lparr>ev_kind = INTENT_KIND_OWNER_V3, ev_account = ''0x2222222222222222222222222222222222222222'',
      ev_chainId = ''10143'', ev_permissionId = None, ev_seq = None, ev_legacyDefaulted = True\<rparr>"
    by (simp add: validateIntentEnvelope_def intent_kind_def json_number_def json_string_def hex_string_n_def hex_string_def is_hex_def is_hex_lower_def
        is_digit_def to_lower_char_def to_lower_def all_digits_def is_object_def call_mirrors_def safe_natural_def isSafeInteger_def max_safe_integer_def
        session_grant_def SESSION_INTENT_KINDS_def INTENT_KIND_OWNER_V3_def INTENT_KIND_SESSION_V1_def INTENT_KIND_SESSION_V2_def demo_op_def)
  then have "\<exists>env. validateIntentEnvelope (op_intent demo_op) demo_op = Inr env \<and> ev_kind env \<in> {INTENT_KIND_OWNER_V3, INTENT_KIND_SESSION_V1}" by auto
  moreover from this have "call_mirrors (json_get (Some (op_intent demo_op)) ''call'') demo_op" using envelope_mirrors by blast
  moreover have "hex_string_n 40 (op_to demo_op)" "to_lower (op_to demo_op) \<noteq> ZERO_ADDRESS" "hex_string (op_data demo_op)" "10 \<le> length (op_data demo_op)"
    "selectorOf (op_data demo_op) \<notin> set DENIED_SELECTORS" "op_value demo_op = ''0''"
    by (simp_all add: demo_op_def hex_string_n_def hex_string_def is_hex_def is_hex_lower_def is_digit_def to_lower_char_def to_lower_def ZERO_ADDRESS_def
        selectorOf_def DENIED_SELECTORS_def)
  ultimately show ?thesis unfolding admissible_op_def by blast
qed

lemma demo_queue_inv: "queue_inv demo_queue"
proof -
  have "maxTotal 1000 5000 = 1500" by (simp add: maxTotal_def bigdiv_nonneg)
  then have "batch_row_ok demo_row"
    using demo_op_admissible by (auto simp: batch_row_ok_def demo_row_def MAX_OPS_PER_BATCH_def MAX_PROTOCOL_FEE_BPS_def intro: exI [of _ 5000])
  with empty_queue_inv show ?thesis by (simp add: queue_inv_def demo_queue_def empty_queue_def)
qed

theorem batch_ops_sent_once_witness:
  "distinct (qd_sent (fold (queue_step (\<lambda>s. s)) [FlushBatches demo_ports 900000 \<lparr>ca_pid = ''alice'', ca_app = False\<rparr> None, Crash demo_ports 0 900001 1] demo_queue))"
  using batch_ops_sent_once [OF demo_queue_inv] by blast

theorem stored_batches_well_typed_witness:
  "list_all (\<lambda>r. length (qb_ops r) \<le> MAX_OPS_PER_BATCH) (qd_batches (fold (queue_step (\<lambda>s. s)) [CancelBatch ''alice'' 0 5] demo_queue))"
  using stored_batches_well_typed [OF demo_queue_inv, of "\<lambda>s. s" "[CancelBatch ''alice'' 0 5]"] by (auto simp: list_all_iff)

theorem due_batches_settle_witness:
  "\<exists>r \<in> set (qd_batches (fold (\<lambda>p db. snd (flushDueBatches p 900000 None db)) [demo_ports] demo_queue)).
     qb_id r = 0 \<and> qb_status r \<in> {Settled, Partial, Failed}"
proof -
  have row: "demo_row \<in> set (qd_batches demo_queue)" "due None 900000 demo_row" "qb_id demo_row = 0"
    by (simp_all add: demo_queue_def demo_row_def due_def in_scope_def)
  have "due_count None 900000 demo_queue \<le> FLUSH_BATCH_LIMIT * length [demo_ports]"
    by (simp add: due_count_def demo_queue_def demo_row_def due_def in_scope_def FLUSH_BATCH_LIMIT_def)
  from due_batches_settle [OF demo_queue_inv this, THEN conjunct2, rule_format, OF row(1,2)] show ?thesis unfolding row(3) .
qed

definition demo_receipts :: batch_receipts where
  "demo_receipts = \<lparr>br_actual = 800, br_savings = 200, br_userTotal = 1200, br_pricing = ''PASS_THROUGH'',
     br_ops = [\<lparr>oo_index = 0, oo_ok = True, oo_txHash = Some ''0xabc'', oo_reason = None, oo_actualCost = Some 800\<rparr>]\<rparr>"

definition demo_settled :: QueuedBatch where
  "demo_settled = demo_row\<lparr>qb_status := Settled, qb_receipts := Some demo_receipts\<rparr>"

theorem user_pays_at_most_quote_witness:
  "br_userTotal demo_receipts \<le> qb_quotedMaxTotal demo_settled \<and> 2 * qb_quotedMaxTotal demo_settled \<le> 3 * qb_quotedBaseline demo_settled"
proof -
  have "maxTotal 1000 5000 = 1500" "protocolFeeOf 800 5000 = 400" by (simp_all add: maxTotal_def protocolFeeOf_def bigdiv_nonneg)
  then have "batch_row_ok demo_settled"
    using demo_op_admissible by (auto simp: batch_row_ok_def demo_settled_def demo_row_def demo_receipts_def receipts_ok_def outcome_cost_def ok_cost_def
        MAX_OPS_PER_BATCH_def MAX_PROTOCOL_FEE_BPS_def intro!: exI [of _ 5000])
  with empty_queue_inv have inv: "queue_inv (empty_queue\<lparr>qd_batches := [demo_settled]\<rparr>)" by (simp add: queue_inv_def empty_queue_def)
  have "demo_settled \<in> set (qd_batches (fold (queue_step (\<lambda>s. s)) [] (empty_queue\<lparr>qd_batches := [demo_settled]\<rparr>)))" by simp
  from user_pays_at_most_quote [OF inv this, of demo_receipts] show ?thesis by (simp add: demo_settled_def)
qed

theorem concurrent_flushes_send_twice_witness:
  "qd_sent (snd (settleBatch demo_ports 0 900001 (snd (settleBatch demo_ports 0 900000 demo_queue)))) = [(0, 0), (0, 0)]"
proof -
  have "0 \<in> set (due_rows None 900000 demo_queue)" "find_batch 0 demo_queue = Some demo_row" "qb_sessionKey demo_row = None"
    by (simp_all add: due_rows_def find_batch_def demo_queue_def demo_row_def in_scope_def FLUSH_BATCH_LIMIT_def)
  from concurrent_flushes_send_twice [OF demo_queue_inv this, of demo_ports 900001] show ?thesis
    by (simp add: simulate_caught_def submit_caught_def demo_ports_def demo_queue_def empty_queue_def demo_row_def)
qed

end
