(* ===== verification/Effects.thy ===== *)
theory Effects
  imports Prelude
begin

text \<open>
  Operations that thread a state and may throw: \<open>('s, 'a) eff\<close> returns the result or the error and the state in both cases, because
  what an asynchronous method wrote before it threw stays written. \<open>preserves\<close> says that an operation relates the states before
  and after; the locale \<open>frame\<close> composes it along a method for every preorder of states.
\<close>

type_synonym ('s, 'a) eff = "'s \<Rightarrow> 'a result \<times> 's"

named_theorems keeps_intros

definition ret :: "'a \<Rightarrow> ('s, 'a) eff" where "ret a s = (Inr a, s)"

definition throw :: "http_error \<Rightarrow> ('s, 'a) eff" where "throw e s = (Inl e, s)"

definition bind_eff :: "('s, 'a) eff \<Rightarrow> ('a \<Rightarrow> ('s, 'b) eff) \<Rightarrow> ('s, 'b) eff" where
  "bind_eff m f s = (case m s of (Inl e, s1) \<Rightarrow> (Inl e, s1) | (Inr a, s1) \<Rightarrow> f a s1)"

text \<open>\<^verbatim>\<open>try\<close>: the outcome as a value.\<close>

definition try_eff :: "('s, 'a) eff \<Rightarrow> ('s, 'a result) eff" where
  "try_eff m s = (case m s of (r, s1) \<Rightarrow> (Inr r, s1))"

text \<open>\<^verbatim>\<open>.catch(() => d)\<close>.\<close>

definition catch_default :: "('s, 'a) eff \<Rightarrow> 'a \<Rightarrow> ('s, 'a) eff" where
  "catch_default m d s = (case m s of (Inl e, s1) \<Rightarrow> (Inr d, s1) | (Inr a, s1) \<Rightarrow> (Inr a, s1))"

definition get_state :: "('s, 's) eff" where "get_state s = (Inr s, s)"

definition modify :: "('s \<Rightarrow> 's) \<Rightarrow> ('s, unit) eff" where "modify f s = (Inr (), f s)"

definition lift_result :: "'a result \<Rightarrow> ('s, 'a) eff" where "lift_result r s = (r, s)"

lemma bind_eff_simps [simp]:
  "bind_eff (ret a) f = f a" "bind_eff (throw e) g = throw e" "bind_eff get_state h s = h s s"
  "bind_eff (modify u) f' s = f' () (u s)"
  by (simp_all add: fun_eq_iff bind_eff_def ret_def throw_def get_state_def modify_def)

lemma bind_eff_cases:
  assumes "bind_eff m f s = (r, t)"
  obtains (err) e where "m s = (Inl e, t)" "r = Inl e"
  | (ok) a s1 where "m s = (Inr a, s1)" "f a s1 = (r, t)"
  using assms by (auto simp: bind_eff_def split: prod.splits sum.splits)

lemma bind_eff_Inr:
  "bind_eff m f s = (Inr b, t) \<longleftrightarrow> (\<exists>a s1. m s = (Inr a, s1) \<and> f a s1 = (Inr b, t))"
  by (auto simp: bind_eff_def split: prod.splits sum.splits)

lemma try_eff_eq [simp]: "try_eff m s = (Inr (fst (m s)), snd (m s))"
  by (simp add: try_eff_def split: prod.splits)

lemma bind_try [simp]: "bind_eff (try_eff m) f s = f (fst (m s)) (snd (m s))"
  by (simp add: bind_eff_def)

lemma run_simps [simp]:
  "ret a s = (Inr a, s)" "throw e s = (Inl e, s)" "get_state s = (Inr s, s)" "modify u s = (Inr (), u s)" "lift_result r s = (r, s)"
  by (simp_all add: ret_def throw_def get_state_def modify_def lift_result_def)

lemma bind_eff_eval: "m s = (Inr a, s1) \<Longrightarrow> bind_eff m f s = f a s1" "m s = (Inl e, s1) \<Longrightarrow> bind_eff m f s = (Inl e, s1)"
  by (simp_all add: bind_eff_def)

definition preserves :: "('s \<Rightarrow> 's \<Rightarrow> bool) \<Rightarrow> ('s, 'a) eff \<Rightarrow> bool" where
  "preserves R m \<longleftrightarrow> (\<forall>s. R s (snd (m s)))"

lemma keepsD: "preserves R m \<Longrightarrow> m s = (r, t) \<Longrightarrow> R s t"
  unfolding preserves_def by (metis snd_conv)

locale frame =
  fixes R :: "'s \<Rightarrow> 's \<Rightarrow> bool"
  assumes refl: "R s s" and trans: "R s t \<Longrightarrow> R t u \<Longrightarrow> R s u"
begin

lemma keeps_pure [keeps_intros]:
  "preserves R (ret a)" "preserves R (throw e)" "preserves R get_state" "preserves R (lift_result r)"
  by (simp_all add: preserves_def refl)

lemma keeps_bind [keeps_intros]: "preserves R m \<Longrightarrow> (\<And>a. preserves R (f a)) \<Longrightarrow> preserves R (bind_eff m f)"
  unfolding preserves_def bind_eff_def by (auto split: prod.split sum.split intro: trans) (metis snd_conv trans)+

text \<open>The rest of a method may use that its first part can return \<open>a\<close>.\<close>

lemma keeps_bind_when:
  "preserves R m \<Longrightarrow> (\<And>a s t. m s = (Inr a, t) \<Longrightarrow> preserves R (f a)) \<Longrightarrow> preserves R (bind_eff m f)"
  unfolding preserves_def bind_eff_def by (auto split: prod.split sum.split intro: trans) (metis snd_conv trans)+

lemma keeps_try [keeps_intros]: "preserves R m \<Longrightarrow> preserves R (try_eff m)"
  by (simp add: preserves_def)

lemma keeps_catch [keeps_intros]: "preserves R m \<Longrightarrow> preserves R (catch_default m d)"
  unfolding preserves_def catch_default_def by (auto split: prod.split sum.split) (metis snd_conv)+

end

lemma keeps_if [keeps_intros]: "preserves R m \<Longrightarrow> preserves R n \<Longrightarrow> preserves R (if b then m else n)"
  by simp

lemma keeps_modify [keeps_intros]: "(\<And>s. R s (f s)) \<Longrightarrow> preserves R (modify f)"
  by (simp add: preserves_def)

lemma keeps_branch: "(b \<Longrightarrow> preserves R m) \<Longrightarrow> (\<not> b \<Longrightarrow> preserves R n) \<Longrightarrow> preserves R (if b then m else n)"
  by simp

lemma keeps_option: "(x = None \<Longrightarrow> preserves R m) \<Longrightarrow> (\<And>a. x = Some a \<Longrightarrow> preserves R (n a)) \<Longrightarrow> preserves R (case x of None \<Rightarrow> m | Some a \<Rightarrow> n a)"
  by (cases x) auto

lemma keeps_pair: "(\<And>a b. preserves R (n a b)) \<Longrightarrow> preserves R (case x of (a, b) \<Rightarrow> n a b)"
  by (cases x) auto

lemma keeps_sum: "(\<And>e. x = Inl e \<Longrightarrow> preserves R (m e)) \<Longrightarrow> (\<And>a. x = Inr a \<Longrightarrow> preserves R (n a)) \<Longrightarrow> preserves R (case x of Inl e \<Rightarrow> m e | Inr a \<Rightarrow> n a)"
  by (cases x) auto

lemmas keeps_cases = keeps_branch keeps_option keeps_sum keeps_pair

text \<open>What holds of the state when an operation returns.\<close>

definition ensures :: "('s \<Rightarrow> bool) \<Rightarrow> ('s, 'a) eff \<Rightarrow> bool" where
  "ensures Q m \<longleftrightarrow> (\<forall>s a t. m s = (Inr a, t) \<longrightarrow> Q t)"

lemma ensures_throw: "ensures Q (throw e)"
  by (simp add: ensures_def)

lemma ensures_bind: "(\<And>a. ensures Q (f a)) \<Longrightarrow> ensures Q (bind_eff m f)"
  by (auto simp: ensures_def bind_eff_Inr)

lemma ensures_then:
  "ensures Q m \<Longrightarrow> (\<And>a. preserves R (f a)) \<Longrightarrow> (\<And>s t. R s t \<Longrightarrow> Q s \<Longrightarrow> Q t) \<Longrightarrow> ensures Q (bind_eff m f)"
  unfolding ensures_def bind_eff_Inr by (metis keepsD)

end
