(* ===== verification/Relayer_Guard.thy ===== *)
theory Relayer_Guard
  imports Effects Complex_Main
begin

text \<open>
  The relayer's spend guard: the vocabulary and pure helpers of \<^verbatim>\<open>apps/api/src/relayer/relayer-events.ts\<close>, the circuit breaker of
  \<^verbatim>\<open>circuit-breaker.service.ts\<close>, the revocation monitor of \<^verbatim>\<open>revocation-monitor.service.ts\<close>, and the two admin operations on the
  breaker of \<^verbatim>\<open>apps/api/src/admin/admin.service.ts\<close>.

  The state holds the breaker's two maps, the monitor's map, the security events, the slots and the trace of broadcasts (used by
  \<^verbatim>\<open>Relayer_Slots\<close>), and the outside world, which is a parameter \<^typ>\<open>'w\<close>: the clock, timers, \<^verbatim>\<open>Math.random\<close>, the configuration and
  whether a database statement succeeds are the fields of \<open>env\<close>. Calls to \<^verbatim>\<open>Logger\<close> have no effect on the state.
\<close>

section \<open>Vocabulary\<close>

definition FEE_CHAINS :: "string list" where
  "FEE_CHAINS = [''solana'', ''stellar'', ''ethereum'', ''base'', ''bsc'']"

definition normalizeFeeChain :: "string \<Rightarrow> string" where
  "normalizeFeeChain chain = (if List.member FEE_CHAINS chain then chain else ''unknown'')"

definition evmReferenceToFeeChain :: "string \<Rightarrow> string" where
  "evmReferenceToFeeChain reference =
     (if reference = ''1'' then ''ethereum''
      else if reference = ''8453'' then ''base''
      else if reference = ''56'' then ''bsc''
      else ''unknown'')"

datatype SponsoredEntryPoint = EWithdraw | EExecute | ERotate | EActivate

fun entry_name :: "SponsoredEntryPoint \<Rightarrow> string" where
  "entry_name EWithdraw = ''withdraw''"
| "entry_name EExecute = ''execute''"
| "entry_name ERotate = ''rotate''"
| "entry_name EActivate = ''activate''"

definition BREAKER_WINDOW :: string where "BREAKER_WINDOW = ''1h''"

definition fmtBaseUnits :: "int \<Rightarrow> string" where "fmtBaseUnits v = show_int v"

definition absorbedLoss :: "int \<Rightarrow> int option \<Rightarrow> int" where
  "absorbedLoss attested actual =
     (case actual of None \<Rightarrow> 0 | Some a \<Rightarrow> if a > attested then a - attested else 0)"

definition REVOCATION_SPIKE_RATIO :: rat where "REVOCATION_SPIKE_RATIO = 5"
definition REVOCATION_SPIKE_MIN_RECENT :: nat where "REVOCATION_SPIKE_MIN_RECENT = 3"

text \<open>Rates are exact quotients.\<close>

definition isRevocationSpike :: "rat \<Rightarrow> rat \<Rightarrow> nat \<Rightarrow> bool" where
  "isRevocationSpike recentPerMin baselinePerMin recentCount =
     (if recentCount < REVOCATION_SPIKE_MIN_RECENT then False
      else if baselinePerMin \<le> 0 then True
      else recentPerMin > REVOCATION_SPIKE_RATIO * baselinePerMin)"

text \<open>\<^verbatim>\<open>Math.random()\<close> is a multiple of \<open>2\<^sup>-\<^sup>5\<^sup>3\<close> below 1, given by its numerator.\<close>

definition backoffWithJitter :: "nat \<Rightarrow> nat \<Rightarrow> nat \<Rightarrow> nat \<Rightarrow> nat" where
  "backoffWithJitter attempt baseMs maxMs random =
     (let top = min maxMs (baseMs * 2 ^ attempt);
          bottom = top div 2
      in bottom + random * (top - bottom + 1) div 2 ^ 53)"

datatype OracleFallbackResult = OracleFallbackResult (of_ok: bool) (of_attested: int) (of_reason: "string option")

definition applyOracleFallback :: "int option \<Rightarrow> int \<Rightarrow> OracleFallbackResult" where
  "applyOracleFallback live lastGood =
     (case live of
        None \<Rightarrow> OracleFallbackResult True lastGood (Some ''oracle-unavailable'')
      | Some l \<Rightarrow>
          if l > 2 * lastGood then OracleFallbackResult False lastGood (Some ''gas-sanity-exceeded'')
          else OracleFallbackResult True (if l > lastGood then l else lastGood) None)"

section \<open>Strings as numbers\<close>

text \<open>\<^verbatim>\<open>BigInt(s)\<close> of a string (StringToBigInt): surrounding space is dropped, the empty string is 0, a sign is allowed in decimal
  only, and \<^verbatim>\<open>0x\<close>, \<^verbatim>\<open>0o\<close>, \<^verbatim>\<open>0b\<close> start another radix.\<close>

definition digit_of :: "nat \<Rightarrow> char \<Rightarrow> nat option" where
  "digit_of radix c =
     (let n = of_char (to_lower_char c) :: nat;
          d = (if 48 \<le> n \<and> n \<le> 57 then n - 48 else if 97 \<le> n \<and> n \<le> 122 then n - 87 else 36)
      in if d < radix then Some d else None)"

definition digits_value :: "nat \<Rightarrow> string \<Rightarrow> int option" where
  "digits_value radix s =
     (if s = [] \<or> list_ex (\<lambda>c. digit_of radix c = None) s then None
      else Some (foldl (\<lambda>a c. a * int radix + int (the (digit_of radix c))) 0 s))"

definition parse_BigInt :: "string \<Rightarrow> int option" where
  "parse_BigInt raw =
     (let s = trim raw; p = to_lower (take 2 s) in
      if s = [] then Some 0
      else if p = ''0x'' then digits_value 16 (drop 2 s)
      else if p = ''0o'' then digits_value 8 (drop 2 s)
      else if p = ''0b'' then digits_value 2 (drop 2 s)
      else if hd s = CHR ''-'' then map_option uminus (digits_value 10 (tl s))
      else if hd s = CHR ''+'' then digits_value 10 (tl s)
      else digits_value 10 s)"

text \<open>The message of an exception.\<close>

fun thrown_message :: "http_error \<Rightarrow> string" where
  "thrown_message (BadRequest m) = m"
| "thrown_message (Forbidden m) = m"
| "thrown_message (NotFound m) = m"
| "thrown_message (Conflict m) = m"
| "thrown_message (Unprocessable m) = m"
| "thrown_message (ServiceUnavailable m) = m"
| "thrown_message (ProviderError _ m) = m"
| "thrown_message (JsError m) = m"
| "thrown_message UniqueViolation = ''Unique constraint failed''"

section \<open>State\<close>

datatype BroadcastStatus = BClaimed | BSubmitted | BConfirmed | BFailed | BExpired | BRebroadcast | BResolvedLanded
  | BResolvedNotLandedRebroadcast | BParkedUnreadable

record RelayerBroadcast =
  rb_pid :: string
  rb_nonce :: string
  rb_chain :: string
  rb_entryPoint :: SponsoredEntryPoint
  rb_txBytesHash :: string
  rb_signature :: "string option"
  rb_status :: BroadcastStatus
  rb_updatedAt :: int

type_synonym slot_key = "string \<times> string \<times> string \<times> SponsoredEntryPoint"
type_synonym security_event = "string \<times> string \<times> (string \<times> json) list"

text \<open>The calls of \<^verbatim>\<open>broadcast\<close> and what chain state the last resolution read before it.\<close>

datatype relay_call = Sent slot_key | Landed slot_key | NotLanded slot_key | Unreadable slot_key

record 'w relayer =
  rl_slots :: "RelayerBroadcast list"
  rl_ledger :: "(string, (int \<times> int) list) jsmap"
  rl_open :: "(string, string) jsmap"
  rl_revocations :: "(string, int list) jsmap"
  rl_events :: "security_event list"
  rl_trace :: "relay_call list"
  rl_world :: 'w

record 'w env =
  ev_now :: "'w \<Rightarrow> int"
  ev_sleep :: "nat \<Rightarrow> 'w \<Rightarrow> 'w"
  ev_random :: "'w \<Rightarrow> nat \<times> 'w"
  ev_config :: "string \<Rightarrow> string option"
  ev_db :: "'w \<Rightarrow> bool \<times> 'w"
  ev_pick :: "RelayerBroadcast list \<Rightarrow> nat"

text \<open>One statement of the database.\<close>

definition statement :: "'w env \<Rightarrow> (('w, 'z) relayer_scheme, 'a) eff \<Rightarrow> (('w, 'z) relayer_scheme, 'a) eff" where
  "statement ev m s =
     (let (ok, w) = ev_db ev (rl_world s); s1 = s\<lparr>rl_world := w\<rparr>
      in if ok then m s1 else (Inl (JsError ''database unavailable''), s1))"

definition log_security :: "'w env \<Rightarrow> string \<Rightarrow> string \<Rightarrow> (string \<times> json) list \<Rightarrow> (('w, 'z) relayer_scheme, unit) eff" where
  "log_security ev pid eventType metadata =
     statement ev (modify (\<lambda>s. s\<lparr>rl_events := rl_events s @ [(pid, eventType, metadata)]\<rparr>))"

definition sleep_backoff :: "'w env \<Rightarrow> nat \<Rightarrow> ('w, 'z) relayer_scheme \<Rightarrow> nat \<times> ('w, 'z) relayer_scheme" where
  "sleep_backoff ev attempt s =
     (let (r, w) = ev_random ev (rl_world s) in (backoffWithJitter attempt 500 8000 r, s\<lparr>rl_world := w\<rparr>))"

definition wait :: "'w env \<Rightarrow> nat \<Rightarrow> ('w, 'z) relayer_scheme \<Rightarrow> ('w, 'z) relayer_scheme" where
  "wait ev ms s = s\<lparr>rl_world := ev_sleep ev ms (rl_world s)\<rparr>"

section \<open>The circuit breaker\<close>

definition BREAKER_WINDOW_MS :: int where "BREAKER_WINDOW_MS = 60 * 60 * 1000"

record BreakerSnapshot =
  bs_chain :: string
  bs_open :: bool
  bs_absorbedSum :: string
  bs_cap :: string

fun firstSet :: "'w env \<Rightarrow> string list \<Rightarrow> string option" where
  "firstSet ev [] = None"
| "firstSet ev (key # keys) =
     (case ev_config ev key of
        Some v \<Rightarrow> if v \<noteq> [] then Some v else firstSet ev keys
      | None \<Rightarrow> firstSet ev keys)"

definition capFor :: "'w env \<Rightarrow> string \<Rightarrow> int" where
  "capFor ev chain =
     (let upper = to_upper chain;
          raw = nullish (firstSet ev [''BREAKER_CAP_'' @ upper, ''PID_RELAYER_BREAKER_CAP_LAMPORTS_'' @ upper,
                                      ''PID_RELAYER_BREAKER_CAP_LAMPORTS'']) ''0''
      in case parse_BigInt raw of Some cap \<Rightarrow> if cap > 0 then cap else 0 | None \<Rightarrow> 0)"

definition in_window :: "int \<Rightarrow> (int \<times> int) list \<Rightarrow> (int \<times> int) list" where
  "in_window now events = filter (\<lambda>e. now - fst e < BREAKER_WINDOW_MS) events"

definition open_chain :: "'w env \<Rightarrow> string \<Rightarrow> string \<Rightarrow> int \<Rightarrow> int \<Rightarrow> string \<Rightarrow> (('w, 'z) relayer_scheme, BreakerSnapshot) eff" where
  "open_chain ev pid chain windowSum cap reason =
     bind_eff (modify (\<lambda>s. s\<lparr>rl_open := jsmap_set chain reason (rl_open s)\<rparr>)) (\<lambda>_.
     bind_eff (log_security ev pid ''relayer.breaker.opened''
        [(''chain'', JStr chain), (''absorbedSum'', JStr (fmtBaseUnits windowSum)), (''cap'', JStr (fmtBaseUnits cap)),
         (''window'', JStr BREAKER_WINDOW), (''reason'', JStr reason)]) (\<lambda>_.
     ret \<lparr>bs_chain = chain, bs_open = True, bs_absorbedSum = fmtBaseUnits windowSum, bs_cap = fmtBaseUnits cap\<rparr>))"

definition isOpen :: "string \<Rightarrow> ('w, 'z) relayer_scheme \<Rightarrow> bool" where
  "isOpen chain s \<longleftrightarrow> jsmap_get (rl_open s) (normalizeFeeChain chain) \<noteq> None"

definition recordAbsorbed :: "'w env \<Rightarrow> string \<Rightarrow> string \<Rightarrow> int \<Rightarrow> (('w, 'z) relayer_scheme, BreakerSnapshot) eff" where
  "recordAbsorbed ev pid chain absorbed s =
     (let feeChain = normalizeFeeChain chain;
          now = ev_now ev (rl_world s);
          kept = in_window now (nullish (jsmap_get (rl_ledger s) feeChain) []);
          events = (if absorbed > 0 then kept @ [(now, absorbed)] else kept);
          s1 = s\<lparr>rl_ledger := jsmap_set feeChain events (rl_ledger s)\<rparr>;
          windowSum = sum_list (map snd events);
          cap = capFor ev feeChain;
          opened = jsmap_get (rl_open s1) feeChain \<noteq> None
      in if cap > 0 \<and> windowSum \<ge> cap \<and> \<not> opened then open_chain ev pid feeChain windowSum cap ''cap-breached'' s1
         else (Inr \<lparr>bs_chain = feeChain, bs_open = opened, bs_absorbedSum = fmtBaseUnits windowSum, bs_cap = fmtBaseUnits cap\<rparr>, s1))"

definition requireClosed :: "string \<Rightarrow> (('w, 'z) relayer_scheme, unit) eff" where
  "requireClosed chain s =
     (if jsmap_get (rl_open s) (normalizeFeeChain chain) = None then (Inr (), s)
      else (Inl (ServiceUnavailable
        ''Sponsored transactions are paused while the relayer is reviewed - please re-quote and try again in a moment''), s))"

definition windowSum :: "'w env \<Rightarrow> string \<Rightarrow> (('w, 'z) relayer_scheme, int) eff" where
  "windowSum ev chain s =
     (let events = in_window (ev_now ev (rl_world s)) (nullish (jsmap_get (rl_ledger s) chain) [])
      in (Inr (sum_list (map snd events)), s\<lparr>rl_ledger := jsmap_set chain events (rl_ledger s)\<rparr>))"

definition requireFeeChain :: "string \<Rightarrow> string result" where
  "requireFeeChain chain =
     (let feeChain = normalizeFeeChain chain
      in if feeChain = ''unknown'' then Inl (JsError (''unknown fee chain: '' @ chain)) else Inr feeChain)"

definition breaker_snapshot :: "'w env \<Rightarrow> string \<Rightarrow> (('w, 'z) relayer_scheme, BreakerSnapshot) eff" where
  "breaker_snapshot ev chain s =
     (let feeChain = normalizeFeeChain chain; cap = capFor ev feeChain; opened = (jsmap_get (rl_open s) feeChain \<noteq> None)
      in bind_eff (windowSum ev feeChain) (\<lambda>sum. ret \<lparr>bs_chain = feeChain, bs_open = opened,
           bs_absorbedSum = fmtBaseUnits sum, bs_cap = fmtBaseUnits cap\<rparr>) s)"

definition openBreaker :: "'w env \<Rightarrow> string \<Rightarrow> string \<Rightarrow> string \<Rightarrow> (('w, 'z) relayer_scheme, BreakerSnapshot) eff" where
  "openBreaker ev pid chain reason =
     bind_eff (lift_result (requireFeeChain chain)) (\<lambda>feeChain s.
       if jsmap_get (rl_open s) feeChain \<noteq> None then breaker_snapshot ev feeChain s
       else bind_eff (windowSum ev feeChain) (\<lambda>sum. open_chain ev pid feeChain sum (capFor ev feeChain) reason) s)"

definition closeBreaker :: "'w env \<Rightarrow> string \<Rightarrow> string \<Rightarrow> string \<Rightarrow> string \<Rightarrow> (('w, 'z) relayer_scheme, BreakerSnapshot) eff" where
  "closeBreaker ev operatorPid chain evidence reason =
     bind_eff (lift_result (requireFeeChain chain)) (\<lambda>feeChain.
       if evidence = [] \<or> length evidence > 2000 then throw (JsError ''closeBreaker requires evidence (1..2000 chars)'')
       else bind_eff (windowSum ev feeChain) (\<lambda>absorbedSum.
         let cap = capFor ev feeChain in
         bind_eff (modify (\<lambda>s. s\<lparr>rl_open := jsmap_delete feeChain (rl_open s), rl_ledger := jsmap_set feeChain [] (rl_ledger s)\<rparr>)) (\<lambda>_.
         bind_eff (log_security ev operatorPid ''relayer.breaker.closed''
           [(''chain'', JStr feeChain), (''absorbedSum'', JStr (fmtBaseUnits absorbedSum)), (''cap'', JStr (fmtBaseUnits cap)),
            (''window'', JStr BREAKER_WINDOW), (''reason'', JStr reason), (''operator'', JStr operatorPid), (''evidence'', JStr evidence)]) (\<lambda>_.
         ret \<lparr>bs_chain = feeChain, bs_open = False, bs_absorbedSum = fmtBaseUnits 0, bs_cap = fmtBaseUnits cap\<rparr>))))"

text \<open>The loop of \<^verbatim>\<open>withBoundedRetries\<close>: \<open>left\<close> attempts remain after \<open>attempt\<close>.\<close>

fun retry_loop :: "'w env \<Rightarrow> (('w, 'z) relayer_scheme, 'a) eff \<Rightarrow> nat \<Rightarrow> nat \<Rightarrow> string \<Rightarrow> (('w, 'z) relayer_scheme, 'a + string) eff" where
  "retry_loop ev f 0 attempt lastErr s = (Inr (Inr lastErr), s)"
| "retry_loop ev f (Suc left) attempt lastErr s =
     (case f s of
        (Inr a, s1) \<Rightarrow> (Inr (Inl a), s1)
      | (Inl e, s1) \<Rightarrow>
          let s2 = (if left > 0 then case sleep_backoff ev attempt s1 of (ms, s1') \<Rightarrow> wait ev ms s1' else s1)
          in retry_loop ev f left (Suc attempt) (thrown_message e) s2)"

definition withBoundedRetries ::
  "'w env \<Rightarrow> string \<Rightarrow> string \<Rightarrow> string \<Rightarrow> string \<Rightarrow> (('w, 'z) relayer_scheme, 'a) eff \<Rightarrow> nat \<Rightarrow> (('w, 'z) relayer_scheme, 'a) eff" where
  "withBoundedRetries ev pid chain entryPoint oper f attempts =
     bind_eff (retry_loop ev f attempts 0 ''undefined'') (\<lambda>r. case r of
         Inl a \<Rightarrow> ret a
       | Inr lastErr \<Rightarrow>
           bind_eff (log_security ev pid ''relay.parked_unreadable''
             [(''entryPoint'', JStr entryPoint), (''chain'', JStr chain), (''op'', JStr oper),
              (''reason'', JStr ''retry-bound-exhausted''), (''error'', JStr lastErr)]) (\<lambda>_.
           throw (ServiceUnavailable
             ''The request was parked for operator review after repeated network errors - please try again in a moment'')))"

section \<open>The revocation monitor\<close>

definition SPIKE_RECENT_WINDOW_MS :: int where "SPIKE_RECENT_WINDOW_MS = 10 * 60 * 1000"
definition SPIKE_BASELINE_WINDOW_MS :: int where "SPIKE_BASELINE_WINDOW_MS = 60 * 60 * 1000"

record RevocationSnapshot =
  rs_chain :: string
  rs_recentPerMin :: rat
  rs_baselinePerMin :: rat
  rs_spike :: bool

definition recordRevocation :: "string \<Rightarrow> int \<Rightarrow> (('w, 'z) relayer_scheme, RevocationSnapshot) eff" where
  "recordRevocation chain nowMs s =
     (let kept = filter (\<lambda>t. nowMs - t < SPIKE_BASELINE_WINDOW_MS) (nullish (jsmap_get (rl_revocations s) chain) []) @ [nowMs];
          recent = length (filter (\<lambda>t. nowMs - t < SPIKE_RECENT_WINDOW_MS) kept);
          recentPerMin = of_nat recent / 10;
          baselinePerMin = of_nat (length kept) / 60
      in (Inr \<lparr>rs_chain = chain, rs_recentPerMin = recentPerMin, rs_baselinePerMin = baselinePerMin,
               rs_spike = isRevocationSpike recentPerMin baselinePerMin recent\<rparr>,
          s\<lparr>rl_revocations := jsmap_set chain kept (rl_revocations s)\<rparr>))"

section \<open>Admin operations\<close>

definition openRelayerBreaker :: "'w env \<Rightarrow> string \<Rightarrow> string \<Rightarrow> string \<Rightarrow> (('w, 'z) relayer_scheme, BreakerSnapshot) eff" where
  "openRelayerBreaker ev pid chain reason =
     (let feeChain = normalizeFeeChain chain in
      if feeChain = ''unknown'' then throw (BadRequest (''Unknown fee chain: '' @ chain))
      else if reason = [] \<or> length reason > 500 then throw (BadRequest ''reason is required (1..500 chars)'')
      else bind_eff (openBreaker ev pid feeChain reason) (\<lambda>snap.
           bind_eff (log_security ev pid ''admin.relayer_breaker.opened'' [(''chain'', JStr feeChain), (''reason'', JStr reason)]) (\<lambda>_.
           ret snap)))"

definition closeRelayerBreaker :: "'w env \<Rightarrow> string \<Rightarrow> string \<Rightarrow> string \<Rightarrow> (('w, 'z) relayer_scheme, BreakerSnapshot) eff" where
  "closeRelayerBreaker ev pid chain evidence =
     (let feeChain = normalizeFeeChain chain in
      if feeChain = ''unknown'' then throw (BadRequest (''Unknown fee chain: '' @ chain))
      else if evidence = [] \<or> length evidence > 2000 then throw (BadRequest ''evidence is required (1..2000 chars)'')
      else bind_eff (closeBreaker ev pid feeChain evidence ''manual-resume'') (\<lambda>snap.
           bind_eff (log_security ev pid ''admin.relayer_breaker.closed'' [(''chain'', JStr feeChain), (''operator'', JStr pid)]) (\<lambda>_.
           ret snap)))"

section \<open>Pure helpers\<close>

text \<open>The delay lies in the upper half of the exponential step.\<close>

lemma backoff_bounds:
  assumes "random < 2 ^ 53"
  shows "min maxMs (baseMs * 2 ^ k) div 2 \<le> backoffWithJitter k baseMs maxMs random"
    and "backoffWithJitter k baseMs maxMs random \<le> min maxMs (baseMs * 2 ^ k)"
proof -
  define top where "top = min maxMs (baseMs * 2 ^ k)"
  have "random * (top - top div 2 + 1) < 2 ^ 53 * (top - top div 2 + 1)"
    by (rule mult_strict_right_mono [OF assms]) simp
  then have "random * (top - top div 2 + 1) div 2 ^ 53 < top - top div 2 + 1"
    by (simp add: less_mult_imp_div_less mult.commute)
  moreover have "backoffWithJitter k baseMs maxMs random = top div 2 + random * (top - top div 2 + 1) div 2 ^ 53"
    by (simp only: backoffWithJitter_def Let_def top_def)
  ultimately show "min maxMs (baseMs * 2 ^ k) div 2 \<le> backoffWithJitter k baseMs maxMs random"
    and "backoffWithJitter k baseMs maxMs random \<le> min maxMs (baseMs * 2 ^ k)"
    unfolding top_def by linarith+
qed

lemma normalize_known: "normalizeFeeChain c \<noteq> ''unknown'' \<Longrightarrow> normalizeFeeChain c = c"
  by (simp add: normalizeFeeChain_def split: if_splits)

lemma normalize_idem [simp]: "normalizeFeeChain (normalizeFeeChain c) = normalizeFeeChain c"
  by (simp add: normalizeFeeChain_def)

lemma requireFeeChain_Inr [simp]: "requireFeeChain c = Inr f \<longleftrightarrow> f = normalizeFeeChain c \<and> f \<noteq> ''unknown''"
  by (auto simp: requireFeeChain_def Let_def)

lemma evm_known: "evmReferenceToFeeChain r \<noteq> ''unknown'' \<Longrightarrow> normalizeFeeChain (evmReferenceToFeeChain r) = evmReferenceToFeeChain r"
  by (simp add: evmReferenceToFeeChain_def normalizeFeeChain_def FEE_CHAINS_def)

lemma statement_fields [simp]:
  "rl_open (snd (log_security ev p e m s)) = rl_open s" "rl_ledger (snd (log_security ev p e m s)) = rl_ledger s"
  "rl_slots (snd (log_security ev p e m s)) = rl_slots s" "rl_trace (snd (log_security ev p e m s)) = rl_trace s"
  "rl_revocations (snd (log_security ev p e m s)) = rl_revocations s"
  by (simp_all add: log_security_def statement_def Let_def split: prod.split)

lemma snd_bind_ret: "snd (bind_eff m (\<lambda>a. ret (f a)) s) = snd (m s)"
  by (simp add: bind_eff_def split: prod.split sum.split)

section \<open>What the breaker promises\<close>

text \<open>The specification keeps every loss since the last resume and says of each chain whether it is halted.\<close>

record breaker_spec =
  sp_losses :: "string \<Rightarrow> (int \<times> int) list"
  sp_halted :: "string \<Rightarrow> bool"

datatype breaker_op =
    Absorb string string int
  | OpenOp string string string
  | CloseOp string string string string
  | AdminOpen string string string
  | AdminClose string string string
  | Peek string

fun breaker_step :: "'w env \<Rightarrow> 'w \<times> breaker_op \<Rightarrow> ('w, 'z) relayer_scheme \<Rightarrow> ('w, 'z) relayer_scheme" where
  "breaker_step ev (w, Absorb pid chain amount) s = snd (recordAbsorbed ev pid chain amount (s\<lparr>rl_world := w\<rparr>))"
| "breaker_step ev (w, OpenOp pid chain reason) s = snd (openBreaker ev pid chain reason (s\<lparr>rl_world := w\<rparr>))"
| "breaker_step ev (w, CloseOp pid chain evidence reason) s = snd (closeBreaker ev pid chain evidence reason (s\<lparr>rl_world := w\<rparr>))"
| "breaker_step ev (w, AdminOpen pid chain reason) s = snd (openRelayerBreaker ev pid chain reason (s\<lparr>rl_world := w\<rparr>))"
| "breaker_step ev (w, AdminClose pid chain evidence) s = snd (closeRelayerBreaker ev pid chain evidence (s\<lparr>rl_world := w\<rparr>))"
| "breaker_step ev (w, Peek chain) s = snd (breaker_snapshot ev chain (s\<lparr>rl_world := w\<rparr>))"

definition spec_open :: "string \<Rightarrow> breaker_spec \<Rightarrow> breaker_spec" where
  "spec_open c a = a\<lparr>sp_halted := (sp_halted a)(c := True)\<rparr>"

definition spec_close :: "string \<Rightarrow> breaker_spec \<Rightarrow> breaker_spec" where
  "spec_close c a = a\<lparr>sp_halted := (sp_halted a)(c := False), sp_losses := (sp_losses a)(c := [])\<rparr>"

definition spec_absorb :: "int \<Rightarrow> int \<Rightarrow> string \<Rightarrow> int \<Rightarrow> breaker_spec \<Rightarrow> breaker_spec" where
  "spec_absorb cap now c amount a =
     (let losses = (if amount > 0 then sp_losses a c @ [(now, amount)] else sp_losses a c)
      in a\<lparr>sp_losses := (sp_losses a)(c := losses),
           sp_halted := (sp_halted a)(c := sp_halted a c \<or> cap > 0 \<and> sum_list (map snd (in_window now losses)) \<ge> cap)\<rparr>)"

definition known :: "string \<Rightarrow> bool" where "known c \<longleftrightarrow> normalizeFeeChain c \<noteq> ''unknown''"

fun spec_step :: "'w env \<Rightarrow> 'w \<times> breaker_op \<Rightarrow> breaker_spec \<Rightarrow> breaker_spec" where
  "spec_step ev (w, Absorb pid c amount) a = spec_absorb (capFor ev (normalizeFeeChain c)) (ev_now ev w) (normalizeFeeChain c) amount a"
| "spec_step ev (w, OpenOp pid c reason) a = (if known c then spec_open c a else a)"
| "spec_step ev (w, CloseOp pid c evidence reason) a =
     (if known c \<and> evidence \<noteq> [] \<and> length evidence \<le> 2000 then spec_close c a else a)"
| "spec_step ev (w, AdminOpen pid c reason) a = (if known c \<and> reason \<noteq> [] \<and> length reason \<le> 500 then spec_open c a else a)"
| "spec_step ev (w, AdminClose pid c evidence) a =
     (if known c \<and> evidence \<noteq> [] \<and> length evidence \<le> 2000 then spec_close c a else a)"
| "spec_step ev (w, Peek c) a = a"

text \<open>The map of the breaker and the specification agree on the halted chains and on the losses that are still in the window.\<close>

definition ledger_of :: "('w, 'z) relayer_scheme \<Rightarrow> string \<Rightarrow> (int \<times> int) list" where
  "ledger_of s c = nullish (jsmap_get (rl_ledger s) c) []"

definition breaker_sim :: "int \<Rightarrow> ('w, 'z) relayer_scheme \<Rightarrow> breaker_spec \<Rightarrow> bool" where
  "breaker_sim now s a \<longleftrightarrow>
     (\<forall>c. (jsmap_get (rl_open s) c \<noteq> None) = sp_halted a c \<and> in_window now (ledger_of s c) = in_window now (sp_losses a c))"

lemma in_window_idem [simp]: "in_window t (in_window t xs) = in_window t xs"
  by (simp add: in_window_def)

lemma in_window_later: "t \<le> t' \<Longrightarrow> in_window t' (in_window t xs) = in_window t' xs"
  unfolding in_window_def by (induction xs) auto

lemma in_window_append [simp]: "in_window t (xs @ ys) = in_window t xs @ in_window t ys"
  by (simp add: in_window_def)

lemma in_window_now [simp]: "in_window t [(t, a)] = [(t, a)]" "in_window t [] = []"
  by (simp_all add: in_window_def BREAKER_WINDOW_MS_def)

lemma breaker_sim_later: "t \<le> t' \<Longrightarrow> breaker_sim t s a \<Longrightarrow> breaker_sim t' s a"
  unfolding breaker_sim_def by (metis in_window_later)

lemma breaker_sim_cong:
  "rl_open s = rl_open s' \<Longrightarrow> (\<And>c. ledger_of s c = ledger_of s' c) \<Longrightarrow> breaker_sim t s a = breaker_sim t s' a"
  by (simp add: breaker_sim_def)

lemma ledger_of_set:
  "ledger_of (s\<lparr>rl_ledger := jsmap_set c xs (rl_ledger s)\<rparr>) c' = (if c' = c then xs else ledger_of s c')"
  by (simp add: ledger_of_def jsmap_get_set)

lemma open_chain_state:
  "rl_open (snd (open_chain ev pid c x y r s)) = jsmap_set c r (rl_open s)" "rl_ledger (snd (open_chain ev pid c x y r s)) = rl_ledger s"
  by (simp_all add: open_chain_def snd_bind_ret)

lemma windowSum_state:
  "rl_open (snd (windowSum ev c s)) = rl_open s"
  "ledger_of (snd (windowSum ev c s)) c' = (if c' = c then in_window (ev_now ev (rl_world s)) (ledger_of s c) else ledger_of s c')"
  by (simp_all add: windowSum_def Let_def ledger_of_set flip: ledger_of_def)

lemma windowSum_sim: "breaker_sim (ev_now ev (rl_world s)) s a \<Longrightarrow> breaker_sim (ev_now ev (rl_world s)) (snd (windowSum ev c s)) a"
  by (simp add: breaker_sim_def windowSum_state)

lemma windowSum_Inr: "windowSum ev c s = (Inr (sum_list (map snd (in_window (ev_now ev (rl_world s)) (ledger_of s c)))), snd (windowSum ev c s))"
  by (simp add: windowSum_def Let_def flip: ledger_of_def)


lemma open_chain_sim:
  "breaker_sim t s a \<Longrightarrow> breaker_sim t (snd (open_chain ev pid c x y r s)) (spec_open c a)"
  by (simp add: breaker_sim_def spec_open_def open_chain_state jsmap_get_set ledger_of_def)

lemma spec_open_idem: "sp_halted a c \<Longrightarrow> spec_open c a = a"
  by (simp add: spec_open_def fun_upd_idem)

lemma openBreaker_sim:
  assumes "breaker_sim (ev_now ev (rl_world s)) s a"
  shows "breaker_sim (ev_now ev (rl_world s)) (snd (openBreaker ev pid c reason s)) (if known c then spec_open c a else a)"
proof (cases "known c")
  case True
  then have c: "normalizeFeeChain c = c" and r: "requireFeeChain c = Inr c"
    using normalize_known [of c] by (simp_all add: known_def)
  show ?thesis
  proof (cases "jsmap_get (rl_open s) c")
    case None
    then have "openBreaker ev pid c reason s = open_chain ev pid c (sum_list (map snd (in_window (ev_now ev (rl_world s)) (ledger_of s c))))
        (capFor ev c) reason (snd (windowSum ev c s))"
      by (simp add: openBreaker_def r bind_eff_eval(1) [OF windowSum_Inr] bind_eff_eval(1) [where m = "lift_result (Inr c)"])
    with windowSum_sim [OF assms] show ?thesis by (simp add: True open_chain_sim)
  next
    case (Some y)
    with assms have "spec_open c a = a" by (intro spec_open_idem) (auto simp: breaker_sim_def)
    moreover have "snd (openBreaker ev pid c reason s) = snd (windowSum ev c s)"
      using Some by (simp add: openBreaker_def r c bind_eff_eval(1) [where m = "lift_result (Inr c)"] breaker_snapshot_def Let_def snd_bind_ret)
    ultimately show ?thesis using windowSum_sim [OF assms] by simp
  qed
next
  case False
  with assms show ?thesis by (simp add: openBreaker_def known_def requireFeeChain_def Let_def bind_eff_def)
qed

lemma closeBreaker_sim:
  assumes "breaker_sim (ev_now ev (rl_world s)) s a"
  shows "breaker_sim (ev_now ev (rl_world s)) (snd (closeBreaker ev pid c evidence reason s))
    (if known c \<and> evidence \<noteq> [] \<and> length evidence \<le> 2000 then spec_close c a else a)"
proof (cases "known c \<and> evidence \<noteq> [] \<and> length evidence \<le> 2000")
  case True
  then have c: "normalizeFeeChain c = c" and r: "requireFeeChain c = Inr c"
    using normalize_known [of c] by (simp_all add: known_def)
  define s1 where "s1 = snd (windowSum ev c s)"
  have "rl_open (snd (closeBreaker ev pid c evidence reason s)) = jsmap_delete c (rl_open s1)
      \<and> rl_ledger (snd (closeBreaker ev pid c evidence reason s)) = jsmap_set c [] (rl_ledger s1)"
    using True by (simp add: closeBreaker_def r bind_eff_eval(1) [OF windowSum_Inr] bind_eff_eval(1) [where m = "lift_result (Inr c)"]
        Let_def snd_bind_ret s1_def)
  moreover have "breaker_sim (ev_now ev (rl_world s)) s1 a" unfolding s1_def by (rule windowSum_sim [OF assms])
  ultimately show ?thesis
    using True by (simp add: breaker_sim_def spec_close_def ledger_of_def jsmap_get_set jsmap_get_delete)
next
  case False
  with assms show ?thesis
    by (auto simp: closeBreaker_def known_def requireFeeChain_def Let_def bind_eff_def)
qed

lemma recordAbsorbed_sim:
  assumes "breaker_sim (ev_now ev (rl_world s)) s a"
  shows "breaker_sim (ev_now ev (rl_world s)) (snd (recordAbsorbed ev pid chain amount s))
    (spec_absorb (capFor ev (normalizeFeeChain chain)) (ev_now ev (rl_world s)) (normalizeFeeChain chain) amount a)"
proof -
  define c t cap where "c = normalizeFeeChain chain" and "t = ev_now ev (rl_world s)" and "cap = capFor ev c"
  define events where "events = (if amount > 0 then in_window t (ledger_of s c) @ [(t, amount)] else in_window t (ledger_of s c))"
  define losses where "losses = (if amount > 0 then sp_losses a c @ [(t, amount)] else sp_losses a c)"
  define s1 where "s1 = s\<lparr>rl_ledger := jsmap_set c events (rl_ledger s)\<rparr>"
  have e: "in_window t losses = events" "in_window t events = events"
    using assms by (auto simp: events_def losses_def breaker_sim_def t_def)
  have s1: "breaker_sim t s1 (a\<lparr>sp_losses := (sp_losses a)(c := losses)\<rparr>)"
    using assms e by (auto simp: breaker_sim_def s1_def ledger_of_set t_def)
  define breach where "breach \<longleftrightarrow> cap > 0 \<and> sum_list (map snd events) \<ge> cap"
  have r: "snd (recordAbsorbed ev pid chain amount s) =
      (if breach \<and> jsmap_get (rl_open s) c = None then snd (open_chain ev pid c (sum_list (map snd events)) cap ''cap-breached'' s1) else s1)"
    by (simp add: recordAbsorbed_def Let_def breach_def s1_def events_def flip: c_def t_def cap_def ledger_of_def)
  have h: "(jsmap_get (rl_open s) c = None) = (\<not> sp_halted a c)"
    using assms by (simp add: breaker_sim_def) (metis not_None_eq)
  have "spec_absorb cap t c amount a = (if breach then spec_open c (a\<lparr>sp_losses := (sp_losses a)(c := losses)\<rparr>)
      else a\<lparr>sp_losses := (sp_losses a)(c := losses)\<rparr>)"
    by (auto simp: spec_absorb_def Let_def spec_open_def breach_def e fun_upd_idem simp flip: losses_def)
  moreover have "spec_open c (a\<lparr>sp_losses := (sp_losses a)(c := losses)\<rparr>) = a\<lparr>sp_losses := (sp_losses a)(c := losses)\<rparr>" if "sp_halted a c"
    using that by (simp add: spec_open_idem)
  ultimately show ?thesis
    unfolding c_def [symmetric] t_def [symmetric] cap_def [symmetric] r using h s1 open_chain_sim [OF s1] by auto
qed

lemma snd_bind_log [simp]:
  "breaker_sim t (snd (bind_eff m (\<lambda>a. bind_eff (log_security ev p e (f a)) (\<lambda>_. ret (g a))) s)) a' = breaker_sim t (snd (m s)) a'"
proof (cases "m s")
  case (Pair r s1)
  then show ?thesis
    by (cases r) (auto simp: bind_eff_eval snd_bind_ret ledger_of_def intro!: breaker_sim_cong)
qed

lemma breaker_step_sim:
  assumes "breaker_sim (ev_now ev w) s a"
  shows "breaker_sim (ev_now ev w) (breaker_step ev (w, oper) s) (spec_step ev (w, oper) a)"
proof -
  define s1 where "s1 = s\<lparr>rl_world := w\<rparr>"
  have s1: "breaker_sim (ev_now ev (rl_world s1)) s1 a" and w: "rl_world s1 = w"
    using assms by (simp_all add: s1_def breaker_sim_def ledger_of_def)
  show ?thesis
  proof (cases oper)
    case (Absorb pid c amount)
    with recordAbsorbed_sim [OF s1] w show ?thesis by (simp flip: s1_def)
  next
    case (OpenOp pid c reason)
    with openBreaker_sim [OF s1] w show ?thesis by (simp flip: s1_def)
  next
    case (CloseOp pid c evidence reason)
    with closeBreaker_sim [OF s1] w show ?thesis by (simp flip: s1_def)
  next
    case (AdminOpen pid c reason)
    with openBreaker_sim [OF s1, of pid "normalizeFeeChain c" reason] s1 w normalize_known [of c] show ?thesis
      by (auto simp: openRelayerBreaker_def Let_def known_def simp flip: s1_def split: if_splits)
  next
    case (AdminClose pid c evidence)
    with closeBreaker_sim [OF s1, of pid "normalizeFeeChain c" evidence "''manual-resume''"] s1 w normalize_known [of c] show ?thesis
      by (auto simp: closeRelayerBreaker_def Let_def known_def simp flip: s1_def split: if_splits)
  next
    case (Peek c)
    with windowSum_sim [OF s1] w show ?thesis by (simp add: breaker_snapshot_def Let_def snd_bind_ret flip: s1_def)
  qed
qed


lemma breaker_run_sim:
  "breaker_sim t s a \<Longrightarrow> sorted (t # map (\<lambda>x. ev_now ev (fst x)) ops) \<Longrightarrow>
    breaker_sim (last (t # map (\<lambda>x. ev_now ev (fst x)) ops)) (fold (breaker_step ev) ops s) (fold (spec_step ev) ops a)"
proof (induction ops arbitrary: t s a)
  case (Cons x ops)
  obtain w oper where x: "x = (w, oper)" by fastforce
  with Cons.prems have "breaker_sim (ev_now ev w) (breaker_step ev x s) (spec_step ev x a)"
    by (auto intro: breaker_step_sim breaker_sim_later)
  from Cons.IH [OF this] Cons.prems x show ?case by simp
qed simp

definition fresh_breaker :: "('w, 'z) relayer_scheme \<Rightarrow> bool" where
  "fresh_breaker s \<longleftrightarrow> rl_open s = [] \<and> rl_ledger s = []"

definition spec0 :: breaker_spec where
  "spec0 = \<lparr>sp_losses = \<lambda>_. [], sp_halted = \<lambda>_. False\<rparr>"

text \<open>C17: the circuit breaker, which drops losses as they leave its one-hour window, implements the specification that keeps every
  loss since the last resume: after any sequence of recorded losses, manual halts, resumes and reads in the order of the clock, from a
  fresh start and whatever statements of the database fail, sponsored broadcasts on a chain are refused exactly when the specification
  has it halted (a loss brought the window's sum to a positive cap, or an operator halted it, and no resume with evidence
  followed), and the sum the breaker reports is the sum of the losses of the last hour.\<close>

theorem breaker_refines_spec:
  assumes "fresh_breaker s" "sorted (map (\<lambda>x. ev_now ev (fst x)) (ops @ [(w, Peek chain)]))"
  shows "is_ok (fst (requireClosed chain (fold (breaker_step ev) ops s))) = (\<not> sp_halted (fold (spec_step ev) ops spec0) (normalizeFeeChain chain))
    \<and> fst (windowSum ev chain ((fold (breaker_step ev) ops s)\<lparr>rl_world := w\<rparr>)) =
      Inr (sum_list (map snd (in_window (ev_now ev w) (sp_losses (fold (spec_step ev) ops spec0) chain))))"
proof -
  define t where "t = Min (set (map (\<lambda>x. ev_now ev (fst x)) (ops @ [(w, Peek chain)])))"
  let ?s = "fold (breaker_step ev) ops s" and ?a = "fold (spec_step ev) ops spec0"
  have "breaker_sim t s spec0"
    using assms(1) by (simp add: breaker_sim_def fresh_breaker_def spec0_def ledger_of_def)
  moreover have "sorted (t # map (\<lambda>x. ev_now ev (fst x)) ops)" "last (t # map (\<lambda>x. ev_now ev (fst x)) ops) \<le> ev_now ev w"
    using assms(2) by (auto simp: t_def sorted_append last_map)
  ultimately have sim: "breaker_sim (ev_now ev w) ?s ?a"
    using breaker_run_sim [of t s spec0 ev ops] breaker_sim_later by blast
  then have "(jsmap_get (rl_open ?s) (normalizeFeeChain chain) = None) = (\<not> sp_halted ?a (normalizeFeeChain chain))"
    unfolding breaker_sim_def by (metis not_None_eq)
  moreover have "in_window (ev_now ev w) (ledger_of ?s chain) = in_window (ev_now ev w) (sp_losses ?a chain)"
    using sim by (simp add: breaker_sim_def)
  moreover have "ledger_of (?s\<lparr>rl_world := w\<rparr>) chain = ledger_of ?s chain" by (simp add: ledger_of_def)
  ultimately show ?thesis
    by (subst windowSum_Inr) (simp add: requireClosed_def)
qed

text \<open>The setting of the examples: the clock is the world, the database answers, one cap for every chain.\<close>

definition relayer_demo_env :: "int env" where
  "relayer_demo_env = \<lparr>ev_now = \<lambda>w. w, ev_sleep = \<lambda>n w. w + int n, ev_random = \<lambda>w. (0, w),
     ev_config = \<lambda>k. if k = ''PID_RELAYER_BREAKER_CAP_LAMPORTS'' then Some ''100'' else None, ev_db = \<lambda>w. (True, w), ev_pick = \<lambda>_. 0\<rparr>"

definition demo_relayer :: "int relayer" where
  "demo_relayer = \<lparr>rl_slots = [], rl_ledger = [], rl_open = [], rl_revocations = [], rl_events = [], rl_trace = [], rl_world = 0\<rparr>"

lemma demo_cap: "capFor relayer_demo_env c = 100"
proof -
  have "parse_BigInt ''100'' = Some 100"
    by (simp add: parse_BigInt_def Let_def trim_def is_space_def digits_value_def digit_of_def to_lower_def to_lower_char_def)
  then show ?thesis by (simp add: capFor_def relayer_demo_env_def Let_def)
qed

theorem breaker_refines_spec_witness:
  "is_ok (fst (requireClosed ''base'' (fold (breaker_step relayer_demo_env) [(0, Absorb ''p'' ''base'' 60), (3600000, Absorb ''p'' ''base'' 60)] demo_relayer)))"
  using breaker_refines_spec [of demo_relayer relayer_demo_env "[(0, Absorb ''p'' ''base'' 60), (3600000, Absorb ''p'' ''base'' 60)]" 3600000 "''base''"]
  by (simp add: fresh_breaker_def demo_relayer_def spec_absorb_def demo_cap spec0_def in_window_def BREAKER_WINDOW_MS_def)
     (simp add: relayer_demo_env_def)

text \<open>The slot a chain that is not in the list falls into stays open: nothing resumes it.\<close>

lemma spec_keeps_unknown: "sp_halted a ''unknown'' \<Longrightarrow> sp_halted (spec_step ev x a) ''unknown''"
proof (induction ev x a rule: spec_step.induct)
qed (auto simp: spec_absorb_def Let_def spec_open_def spec_close_def known_def dest: normalize_known)

definition unknown_open :: "('w, 'z) relayer_scheme \<Rightarrow> bool" where
  "unknown_open s \<longleftrightarrow> jsmap_get (rl_open s) ''unknown'' \<noteq> None"

lemma unknown_stays_open:
  assumes "unknown_open s"
  shows "unknown_open (breaker_step ev x s)"
proof -
  obtain w oper where x: "x = (w, oper)" by fastforce
  define a where "a = \<lparr>sp_losses = ledger_of s, sp_halted = \<lambda>c. jsmap_get (rl_open s) c \<noteq> None\<rparr>"
  have "breaker_sim (ev_now ev w) s a" by (simp add: breaker_sim_def a_def)
  then have "breaker_sim (ev_now ev w) (breaker_step ev x s) (spec_step ev x a)" unfolding x by (rule breaker_step_sim)
  moreover have "sp_halted (spec_step ev x a) ''unknown''"
    using assms by (intro spec_keeps_unknown) (simp add: a_def unknown_open_def)
  ultimately show ?thesis by (simp add: unknown_open_def breaker_sim_def)
qed

interpretation unknown_breaker: service_machine "breaker_step ev" unknown_open for ev
  by unfold_locales (rule unknown_stays_open)

text \<open>A loss on a chain that is not in the list of fee chains is booked under \<^verbatim>\<open>unknown\<close>; when it reaches the cap that the global
  setting gives that name, the breaker halts, and no later sequence of losses, halts, resumes (by the admin routes or the
  service) and reads ever lets a sponsored broadcast on such a chain through again: \<^verbatim>\<open>closeBreaker\<close> refuses the name.\<close>

lemma unknown_breaker_never_closes:
  assumes "\<not> known chain" "capFor ev ''unknown'' > 0" "amount \<ge> capFor ev ''unknown''" "list_all (\<lambda>e. 0 < snd e) (ledger_of s ''unknown'')"
  shows "\<not> is_ok (fst (requireClosed chain (fold (breaker_step ev) ops (snd (recordAbsorbed ev pid chain amount s)))))
    \<and> \<not> is_ok (fst (closeBreaker ev operatorPid chain evidence reason s))"
proof -
  have c: "normalizeFeeChain chain = ''unknown''" using assms(1) by (simp add: known_def)
  have "0 \<le> sum_list (map snd (in_window t (ledger_of s ''unknown'')))" for t
    using assms(4) by (intro sum_list_nonneg) (auto simp: in_window_def list_all_iff)
  from this [of "ev_now ev (rl_world s)"] have "unknown_open (snd (recordAbsorbed ev pid chain amount s))"
    using assms(2,3) by (auto simp: recordAbsorbed_def c Let_def unknown_open_def open_chain_state jsmap_get_set simp flip: ledger_of_def)
  then have "unknown_open (fold (breaker_step ev) ops (snd (recordAbsorbed ev pid chain amount s)))"
    by (rule unknown_breaker.run_inv)
  then show ?thesis
    by (auto simp: unknown_open_def requireClosed_def closeBreaker_def requireFeeChain_def c bind_eff_def)
qed

text \<open>Halting the breaker of an EVM chain does not stop the sponsored flows of that chain. They ask the breaker with the decimal
  reference of the chain, which the breaker files under \<^verbatim>\<open>unknown\<close>, while losses and operators use the name of the chain: after an
  operator halted the chain, its breaker_snapshot says that it is open and a broadcast under the reference still passes.\<close>

lemma evm_breaker_does_not_block:
  assumes "evmReferenceToFeeChain reference \<noteq> ''unknown''" "\<not> isOpen ''unknown'' s"
  shows "isOpen (evmReferenceToFeeChain reference) (snd (openBreaker ev pid (evmReferenceToFeeChain reference) reason s))
    \<and> is_ok (fst (requireClosed reference (snd (openBreaker ev pid (evmReferenceToFeeChain reference) reason s))))"
proof -
  define c where "c = evmReferenceToFeeChain reference"
  define a where "a = \<lparr>sp_losses = ledger_of s, sp_halted = \<lambda>c. jsmap_get (rl_open s) c \<noteq> None\<rparr>"
  have c: "known c" "normalizeFeeChain c = c" using assms(1) evm_known [of reference] by (simp_all add: known_def c_def)
  have r: "normalizeFeeChain reference = ''unknown''"
    using assms(1) by (auto simp: evmReferenceToFeeChain_def normalizeFeeChain_def FEE_CHAINS_def split: if_splits)
  have "breaker_sim (ev_now ev (rl_world s)) s a" by (simp add: breaker_sim_def a_def)
  from openBreaker_sim [OF this, of pid c reason] c(1)
  have "breaker_sim (ev_now ev (rl_world s)) (snd (openBreaker ev pid c reason s)) (spec_open c a)" by simp
  then have "(jsmap_get (rl_open (snd (openBreaker ev pid c reason s))) d \<noteq> None) = sp_halted (spec_open c a) d" for d
    unfolding breaker_sim_def by blast
  moreover have "\<not> sp_halted a ''unknown''" "c \<noteq> ''unknown''"
    using assms r by (simp_all add: a_def isOpen_def normalizeFeeChain_def FEE_CHAINS_def c_def)
  ultimately show ?thesis
    unfolding c_def [symmetric] by (simp add: isOpen_def requireClosed_def c(2) r spec_open_def)
qed

end
