(* ===== verification/Relayer_Slots.thy ===== *)
theory Relayer_Slots
  imports Relayer_Guard
begin

text \<open>
  The at-most-once ledger of broadcasts, \<^verbatim>\<open>apps/api/src/relayer/relayer-idempotency.service.ts\<close>: claiming the slot of a signed intent,
  recording what became of it, the guard against a second rotation, and broadcasting with resolve-then-act. The callbacks
  \<^verbatim>\<open>broadcast\<close> and \<^verbatim>\<open>resolveState\<close> of the caller are operations on the state; each call of the former and each answer of the latter is
  added to the trace. \<^verbatim>\<open>findFirst\<close> without an order returns any row of the table, chosen by \<open>ev_pick\<close>.
\<close>

section \<open>Slots\<close>

definition BROADCAST_CHAIN_SOLANA :: string where "BROADCAST_CHAIN_SOLANA = ''solana''"
definition BROADCAST_CHAIN_EIP155 :: string where "BROADCAST_CHAIN_EIP155 = ''eip155''"

datatype claim_decision = Proceed | Duplicate

record ClaimResult =
  cl_decision :: claim_decision
  cl_signature :: "string option"

datatype ChainStateResolution = LandedWith "string option" | NotLandedState | UnreadableState

definition RESOLVE_MAX_ATTEMPTS :: nat where "RESOLVE_MAX_ATTEMPTS = 5"
definition RESOLVE_BUDGET_MS :: int where "RESOLVE_BUDGET_MS = 30000"
definition ROTATION_SLOT_TTL_MS :: int where "ROTATION_SLOT_TTL_MS = 15 * 60 * 1000"

definition key_of_slot :: "RelayerBroadcast \<Rightarrow> slot_key" where
  "key_of_slot r = (rb_pid r, rb_nonce r, rb_chain r, rb_entryPoint r)"

definition find_slot :: "slot_key \<Rightarrow> RelayerBroadcast list \<Rightarrow> RelayerBroadcast option" where
  "find_slot k rows = find (\<lambda>r. key_of_slot r = k) rows"

definition new_slot :: "slot_key \<Rightarrow> string \<Rightarrow> int \<Rightarrow> RelayerBroadcast" where
  "new_slot k txBytesHash now = (case k of (pid, nonce, chain, entryPoint) \<Rightarrow>
     \<lparr>rb_pid = pid, rb_nonce = nonce, rb_chain = chain, rb_entryPoint = entryPoint, rb_txBytesHash = txBytesHash,
      rb_signature = None, rb_status = BClaimed, rb_updatedAt = now\<rparr>)"

text \<open>The answer for a slot that exists.\<close>

definition claim_existing :: "string \<Rightarrow> RelayerBroadcast \<Rightarrow> ClaimResult result" where
  "claim_existing txBytesHash row =
     (if rb_txBytesHash row = txBytesHash then Inr \<lparr>cl_decision = Duplicate, cl_signature = rb_signature row\<rparr>
      else Inl (Conflict ''A different transaction under the same authorization is forbidden - re-quote for a fresh nonce''))"

text \<open>\<^verbatim>\<open>claimSlot\<close> with no other caller between its two statements; the retry after a unique violation, which other
  callers can cause, is in the interleaved machine below.\<close>

definition claimSlot :: "'w env \<Rightarrow> slot_key \<Rightarrow> string \<Rightarrow> (('w, 'z) relayer_scheme, ClaimResult) eff" where
  "claimSlot ev k txBytesHash =
     bind_eff (statement ev get_state) (\<lambda>st.
       case find_slot k (rl_slots st) of
         Some existing \<Rightarrow> lift_result (claim_existing txBytesHash existing)
       | None \<Rightarrow>
           bind_eff (statement ev (modify (\<lambda>s. s\<lparr>rl_slots := rl_slots s @ [new_slot k txBytesHash (ev_now ev (rl_world s))]\<rparr>))) (\<lambda>_.
           ret \<lparr>cl_decision = Proceed, cl_signature = None\<rparr>))"

text \<open>\<^verbatim>\<open>relayerBroadcast.update\<close>: Prisma throws when the row is missing.\<close>

definition update_slot :: "'w env \<Rightarrow> slot_key \<Rightarrow> (RelayerBroadcast \<Rightarrow> RelayerBroadcast) \<Rightarrow> (('w, 'z) relayer_scheme, unit) eff" where
  "update_slot ev k f = statement ev (\<lambda>s.
     if find_slot k (rl_slots s) = None then (Inl (JsError ''P2025''), s)
     else (Inr (), s\<lparr>rl_slots := map (\<lambda>r. if key_of_slot r = k then (f r)\<lparr>rb_updatedAt := ev_now ev (rl_world s)\<rparr> else r) (rl_slots s)\<rparr>))"

definition recordSubmission :: "'w env \<Rightarrow> slot_key \<Rightarrow> string \<Rightarrow> (('w, 'z) relayer_scheme, unit) eff" where
  "recordSubmission ev k signature = update_slot ev k (\<lambda>r. r\<lparr>rb_signature := Some signature, rb_status := BSubmitted\<rparr>)"

text \<open>An absent or empty signature leaves the stored one.\<close>

definition recordOutcome :: "'w env \<Rightarrow> slot_key \<Rightarrow> BroadcastStatus \<Rightarrow> string option \<Rightarrow> (('w, 'z) relayer_scheme, unit) eff" where
  "recordOutcome ev k status signature = update_slot ev k (\<lambda>r.
     let r1 = r\<lparr>rb_status := status\<rparr> in case signature of
         Some sig \<Rightarrow> if sig \<noteq> [] then r1\<lparr>rb_signature := Some sig\<rparr> else r1
       | None \<Rightarrow> r1)"

section \<open>The rotation guard\<close>

definition inflight_rotations :: "string \<Rightarrow> string \<Rightarrow> RelayerBroadcast list \<Rightarrow> RelayerBroadcast list" where
  "inflight_rotations pid chain rows =
     filter (\<lambda>r. rb_pid r = pid \<and> rb_chain r = chain \<and> rb_entryPoint r = ERotate
       \<and> (rb_status r = BClaimed \<or> rb_status r = BSubmitted \<or> rb_status r = BRebroadcast)) rows"

definition pick_row :: "('a list \<Rightarrow> nat) \<Rightarrow> 'a list \<Rightarrow> 'a option" where
  "pick_row f rows = (if rows = [] then None else Some (rows ! (f rows mod length rows)))"

definition log_unconfirmed :: "'w env \<Rightarrow> string \<Rightarrow> string \<Rightarrow> RelayerBroadcast \<Rightarrow> string \<Rightarrow> (('w, 'z) relayer_scheme, unit) eff" where
  "log_unconfirmed ev pid chain inflight why = log_security ev pid ''credential.rotation.unconfirmed''
     [(''chain'', JStr chain), (''nonce'', JStr (rb_nonce inflight)), (''signature'', json_opt_string (rb_signature inflight)),
      (''guard'', JStr why)]"

definition assertNoInflightRotation :: "'w env \<Rightarrow> string \<Rightarrow> string \<Rightarrow> int \<Rightarrow> (('w, 'z) relayer_scheme, unit) eff" where
  "assertNoInflightRotation ev pid chain currentNonce =
     bind_eff (statement ev get_state) (\<lambda>st.
       case pick_row (ev_pick ev) (inflight_rotations pid chain (rl_slots st)) of
         None \<Rightarrow> ret ()
       | Some inflight \<Rightarrow>
           bind_eff get_state (\<lambda>s1.
           let ageMs = ev_now ev (rl_world s1) - rb_updatedAt inflight in
           case parse_BigInt (rb_nonce inflight) of
             None \<Rightarrow> throw (JsError ''SyntaxError'')
           | Some nonce \<Rightarrow>
               if nonce \<noteq> currentNonce \<or> ageMs > ROTATION_SLOT_TTL_MS then
                 bind_eff (recordOutcome ev (pid, rb_nonce inflight, chain, ERotate) BExpired None) (\<lambda>_.
                 log_unconfirmed ev pid chain inflight ''stale-slot-released'')
               else
                 bind_eff (log_unconfirmed ev pid chain inflight ''double-rotation'') (\<lambda>_.
                 throw (ServiceUnavailable
                   ''A rotation may still be confirming - check ceremony state before retrying (double-rotation guard)''))))"

section \<open>Broadcasting\<close>

definition str_contains :: "string \<Rightarrow> string \<Rightarrow> bool" where
  "str_contains needle s \<longleftrightarrow> list_ex (\<lambda>i. take (length needle) (drop i s) = needle) [0..<Suc (length s)]"

definition isDeterministicBroadcastError :: "http_error \<Rightarrow> bool" where
  "isDeterministicBroadcastError err =
     list_ex (\<lambda>w. str_contains w (to_lower (thrown_message err)))
       [''revert'', ''simulation failed'', ''invalid'', ''bad signature'', ''blockhash not found'', ''already been processed'', ''duplicate'']"

definition trace_call :: "relay_call \<Rightarrow> (('w, 'z) relayer_scheme, unit) eff" where
  "trace_call c = modify (\<lambda>s. s\<lparr>rl_trace := rl_trace s @ [c]\<rparr>)"

definition call_broadcast :: "slot_key \<Rightarrow> (('w, 'z) relayer_scheme, string \<times> 'r) eff \<Rightarrow> (('w, 'z) relayer_scheme, string \<times> 'r) eff" where
  "call_broadcast k broadcast = bind_eff (trace_call (Sent k)) (\<lambda>_. broadcast)"

text \<open>\<open>left\<close> resolve attempts remain, this one is \<open>attempt\<close>.\<close>

fun resolve_loop :: "'w env \<Rightarrow> (('w, 'z) relayer_scheme, ChainStateResolution) eff \<Rightarrow> int \<Rightarrow> nat \<Rightarrow> nat
    \<Rightarrow> (('w, 'z) relayer_scheme, ChainStateResolution) eff" where
  "resolve_loop ev resolveState started 0 attempt s = (Inr UnreadableState, s)"
| "resolve_loop ev resolveState started (Suc left) attempt s =
     (case resolveState s of
        (Inr r, s1) \<Rightarrow> (Inr r, s1)
      | (Inl e, s1) \<Rightarrow>
          if left = 0 then (Inr UnreadableState, s1)
          else case sleep_backoff ev attempt s1 of (delay, s2) \<Rightarrow>
            if ev_now ev (rl_world s2) - started + int delay > RESOLVE_BUDGET_MS then (Inr UnreadableState, s2)
            else resolve_loop ev resolveState started left (Suc attempt) (wait ev delay s2))"

definition resolveWithBound :: "'w env \<Rightarrow> (('w, 'z) relayer_scheme, ChainStateResolution) eff \<Rightarrow> (('w, 'z) relayer_scheme, ChainStateResolution) eff" where
  "resolveWithBound ev resolveState s = resolve_loop ev resolveState (ev_now ev (rl_world s)) RESOLVE_MAX_ATTEMPTS 0 s"

datatype ResolveOutcome = BroadcastOk | ResolvedLanded | ResolvedNotLandedRebroadcast

record 'r relay_result =
  rr_signature :: "string option"
  rr_result :: "'r option"
  rr_outcome :: ResolveOutcome

definition relay_meta :: "slot_key \<Rightarrow> (string \<times> json) list" where
  "relay_meta k = (case k of (pid, nonce, chain, entryPoint) \<Rightarrow>
     [(''entryPoint'', JStr (entry_name entryPoint)), (''chain'', JStr chain), (''nonce'', JStr nonce)])"

definition resolveThenAct :: "'w env \<Rightarrow> slot_key \<Rightarrow> (('w, 'z) relayer_scheme, string \<times> 'r) eff
    \<Rightarrow> (('w, 'z) relayer_scheme, ChainStateResolution) eff \<Rightarrow> (('w, 'z) relayer_scheme, 'r relay_result) eff" where
  "resolveThenAct ev k broadcast resolveState =
     bind_eff (resolveWithBound ev resolveState) (\<lambda>resolution. case resolution of
         UnreadableState \<Rightarrow>
           bind_eff (trace_call (Unreadable k)) (\<lambda>_.
           bind_eff (recordOutcome ev k BParkedUnreadable None) (\<lambda>_.
           bind_eff (log_security ev (fst k) ''relay.parked_unreadable''
             (relay_meta k @ [(''reason'', JStr ''ambiguous-rpc-unreadable-after-bound'')])) (\<lambda>_.
           throw (ServiceUnavailable
             ''The network outcome is unclear and the request was parked for operator review - no funds moved twice''))))
       | LandedWith signature \<Rightarrow>
           bind_eff (trace_call (Landed k)) (\<lambda>_.
           bind_eff (recordOutcome ev k BResolvedLanded signature) (\<lambda>_.
           bind_eff (log_security ev (fst k) ''relay.resolve_landed'' (relay_meta k @ [(''signature'', json_opt_string signature)])) (\<lambda>_.
           ret \<lparr>rr_signature = signature, rr_result = None, rr_outcome = ResolvedLanded\<rparr>)))
       | NotLandedState \<Rightarrow>
           bind_eff (trace_call (NotLanded k)) (\<lambda>_.
           bind_eff (call_broadcast k broadcast) (\<lambda>out.
           bind_eff (recordOutcome ev k BResolvedNotLandedRebroadcast (Some (fst out))) (\<lambda>_.
           bind_eff (log_security ev (fst k) ''relay.resolve_not_landed_rebroadcast'' (relay_meta k @ [(''signature'', JStr (fst out))])) (\<lambda>_.
           ret \<lparr>rr_signature = Some (fst out), rr_result = Some (snd out), rr_outcome = ResolvedNotLandedRebroadcast\<rparr>)))))"

definition broadcastWithResolveThenAct :: "'w env \<Rightarrow> slot_key \<Rightarrow> (('w, 'z) relayer_scheme, string \<times> 'r) eff
    \<Rightarrow> (('w, 'z) relayer_scheme, ChainStateResolution) eff \<Rightarrow> (('w, 'z) relayer_scheme, 'r relay_result) eff" where
  "broadcastWithResolveThenAct ev k broadcast resolveState =
     bind_eff (try_eff (call_broadcast k broadcast)) (\<lambda>r. case r of
         Inl err \<Rightarrow> if isDeterministicBroadcastError err then throw err else resolveThenAct ev k broadcast resolveState
       | Inr out \<Rightarrow>
           bind_eff (recordSubmission ev k (fst out)) (\<lambda>_.
           ret \<lparr>rr_signature = Some (fst out), rr_result = Some (snd out), rr_outcome = BroadcastOk\<rparr>))"

section \<open>Claims that interleave\<close>

text \<open>Callers of \<^verbatim>\<open>claimSlot\<close> whose statements alternate in any order. A caller is about to read its slot, about to create it,
  or has its answer; the unique index decides between creations, and the one that loses reads again.\<close>

datatype claim_pc = Reading | Creating | Answered "ClaimResult result"

record claimer =
  cm_key :: slot_key
  cm_hash :: string
  cm_pc :: claim_pc

type_synonym claim_sys = "claimer list \<times> RelayerBroadcast list"

inductive claim_step :: "nat option \<Rightarrow> claim_sys \<Rightarrow> claim_sys \<Rightarrow> bool" where
  read_none: "i < length cs \<Longrightarrow> cm_pc (cs ! i) = Reading \<Longrightarrow> find_slot (cm_key (cs ! i)) rows = None \<Longrightarrow>
    claim_step (Some i) (cs, rows) (cs[i := (cs ! i)\<lparr>cm_pc := Creating\<rparr>], rows)"
| read_row: "i < length cs \<Longrightarrow> cm_pc (cs ! i) = Reading \<Longrightarrow> find_slot (cm_key (cs ! i)) rows = Some row \<Longrightarrow>
    claim_step (Some i) (cs, rows) (cs[i := (cs ! i)\<lparr>cm_pc := Answered (claim_existing (cm_hash (cs ! i)) row)\<rparr>], rows)"
| create: "i < length cs \<Longrightarrow> cm_pc (cs ! i) = Creating \<Longrightarrow> find_slot (cm_key (cs ! i)) rows = None \<Longrightarrow>
    claim_step (Some i) (cs, rows)
      (cs[i := (cs ! i)\<lparr>cm_pc := Answered (Inr \<lparr>cl_decision = Proceed, cl_signature = None\<rparr>)\<rparr>],
       rows @ [new_slot (cm_key (cs ! i)) (cm_hash (cs ! i)) now])"
| collide: "i < length cs \<Longrightarrow> cm_pc (cs ! i) = Creating \<Longrightarrow> find_slot (cm_key (cs ! i)) rows = Some row \<Longrightarrow>
    claim_step (Some i) (cs, rows) (cs[i := (cs ! i)\<lparr>cm_pc := Reading\<rparr>], rows)"
| db_down: "i < length cs \<Longrightarrow> cm_pc (cs ! i) = Reading \<or> cm_pc (cs ! i) = Creating \<Longrightarrow>
    claim_step (Some i) (cs, rows) (cs[i := (cs ! i)\<lparr>cm_pc := Answered (Inl (JsError ''database unavailable''))\<rparr>], rows)"
| outcome: "(\<And>r. key_of_slot (f r) = key_of_slot r) \<Longrightarrow> (\<And>r. rb_txBytesHash (f r) = rb_txBytesHash r) \<Longrightarrow>
    claim_step None (cs, rows) (cs, map f rows)"

inductive claim_run :: "nat option list \<Rightarrow> claim_sys \<Rightarrow> claim_sys \<Rightarrow> bool" where
  idle: "claim_run [] y y"
| step: "claim_run ls x y \<Longrightarrow> claim_step l y z \<Longrightarrow> claim_run (ls @ [l]) x z"

inductive_cases claim_stepE: "claim_step l (cs, rows) y"

definition slot_hash :: "slot_key \<Rightarrow> RelayerBroadcast list \<Rightarrow> string option" where
  "slot_hash k rows = map_option rb_txBytesHash (find_slot k rows)"

definition accepted :: "claimer \<Rightarrow> bool" where
  "accepted c = (case cm_pc c of Answered (Inr _) \<Rightarrow> True | _ \<Rightarrow> False)"

definition proceeds :: "claimer \<Rightarrow> bool" where
  "proceeds c = (case cm_pc c of Answered (Inr r) \<Rightarrow> cl_decision r = Proceed | _ \<Rightarrow> False)"

text \<open>Accepted callers hold the bytes of their slot, and the callers that may broadcast have different slots.\<close>

definition claims_ok :: "claim_sys \<Rightarrow> bool" where
  "claims_ok x \<longleftrightarrow>
     (\<forall>i < length (fst x). accepted (fst x ! i) \<longrightarrow> slot_hash (cm_key (fst x ! i)) (snd x) = Some (cm_hash (fst x ! i)))
     \<and> (\<forall>i < length (fst x). \<forall>j < length (fst x). proceeds (fst x ! i) \<longrightarrow> proceeds (fst x ! j) \<longrightarrow> cm_key (fst x ! i) = cm_key (fst x ! j) \<longrightarrow> i = j)"

text \<open>Statements a caller still needs.\<close>

definition claim_rank :: "claim_sys \<Rightarrow> nat \<Rightarrow> nat" where
  "claim_rank x i = (case cm_pc (fst x ! i) of
       Answered _ \<Rightarrow> 0
     | Creating \<Rightarrow> 2
     | Reading \<Rightarrow> if slot_hash (cm_key (fst x ! i)) (snd x) = None then 3 else 1)"

lemma proceeds_accepted: "proceeds c \<Longrightarrow> accepted c"
  by (auto simp: proceeds_def accepted_def split: claim_pc.splits sum.splits)

lemma find_append_case: "find P (xs @ ys) = (case find P xs of Some x \<Rightarrow> Some x | None \<Rightarrow> find P ys)"
  by (induction xs) auto

lemma slot_hash_append [simp]:
  "slot_hash k (rows @ [new_slot k' h now]) = (if slot_hash k rows \<noteq> None then slot_hash k rows else if k = k' then Some h else None)"
  by (cases k') (auto simp: slot_hash_def find_slot_def new_slot_def key_of_slot_def find_append_case split: option.split)

lemma slot_hash_map:
  assumes "\<And>r. key_of_slot (f r) = key_of_slot r" "\<And>r. rb_txBytesHash (f r) = rb_txBytesHash r"
  shows "slot_hash k (map f rows) = slot_hash k rows"
  using assms by (induction rows) (auto simp: slot_hash_def find_slot_def)

lemma slot_hash_Some: "find_slot k rows = Some r \<Longrightarrow> slot_hash k rows = Some (rb_txBytesHash r)"
  by (simp add: slot_hash_def)

lemma slot_hash_None [simp]: "slot_hash k rows = None \<longleftrightarrow> find_slot k rows = None"
  by (simp add: slot_hash_def)

text \<open>What every step gives: the callers stay the same but for one program counter, slots keep their bytes, the ranks.\<close>

lemma claim_step_frame:
  assumes "claim_step l x y"
  shows "length (fst y) = length (fst x)" "cm_key (fst y ! i) = cm_key (fst x ! i)" "cm_hash (fst y ! i) = cm_hash (fst x ! i)"
    "slot_hash k (snd x) = Some h \<Longrightarrow> slot_hash k (snd y) = Some h"
    "l \<noteq> Some i \<Longrightarrow> fst y ! i = fst x ! i"
  using assms
  by (induction rule: claim_step.induct) (auto simp: nth_list_update slot_hash_map)

lemma claim_step_enabled:
  assumes "i < length (fst x)" "\<And>r. cm_pc (fst x ! i) \<noteq> Answered r"
  shows "\<exists>y. claim_step (Some i) x y"
proof -
  obtain cs rows where x: "x = (cs, rows)" by fastforce
  with assms have "cm_pc (cs ! i) = Reading \<or> cm_pc (cs ! i) = Creating" by (cases "cm_pc (cs ! i)") auto
  then show ?thesis using assms(1) x claim_step.db_down by fastforce
qed

lemma claim_step_rank:
  assumes "claim_step l x y"
  shows "claim_rank y i + (if l = Some i then 1 else 0) \<le> claim_rank x i"
  using assms
  by (induction rule: claim_step.induct) (auto simp: claim_rank_def nth_list_update slot_hash_map split: claim_pc.split)

lemma claims_ok_update:
  assumes ok: "claims_ok (cs, rows)" and i: "i < length cs"
    and acc: "accepted c \<Longrightarrow> slot_hash (cm_key c) rows = Some (cm_hash c)"
    and fresh: "\<And>j. proceeds c \<Longrightarrow> j < length cs \<Longrightarrow> proceeds (cs ! j) \<Longrightarrow> cm_key (cs ! j) \<noteq> cm_key c"
  shows "claims_ok (cs[i := c], rows)"
  unfolding claims_ok_def fst_conv snd_conv length_list_update
proof (intro conjI allI impI, goal_cases)
  case (1 j)
  then show ?case using ok i acc by (cases "j = i") (auto simp: claims_ok_def)
next
  case (2 j l)
  then show ?case using ok i fresh [of j] fresh [of l] by (cases "j = i"; cases "l = i") (auto simp: claims_ok_def)
qed

lemma claims_ok_rows:
  assumes "claims_ok (cs, rows)" "\<And>k h. slot_hash k rows = Some h \<Longrightarrow> slot_hash k rows' = Some h"
  shows "claims_ok (cs, rows')"
  using assms unfolding claims_ok_def by auto

lemma claim_step_ok:
  assumes "claim_step l x y" "claims_ok x"
  shows "claims_ok y"
  using assms
proof (induction rule: claim_step.induct)
  case (read_row i cs rows row)
  show ?case
    by (rule claims_ok_update [OF read_row(4,1)])
      (use read_row(3) in \<open>auto simp: accepted_def proceeds_def claim_existing_def slot_hash_def split: if_splits\<close>)
next
  case (create i cs rows now)
  have free: "cm_key (cs ! j) \<noteq> cm_key (cs ! i)" if "j < length cs" "proceeds (cs ! j)" for j
    using that create(3,4) proceeds_accepted [of "cs ! j"] by (auto simp: claims_ok_def slot_hash_def)
  have "claims_ok (cs, rows @ [new_slot (cm_key (cs ! i)) (cm_hash (cs ! i)) now])"
    by (rule claims_ok_rows [OF create(4)]) simp
  then show ?case by (rule claims_ok_update) (use create free in simp_all)
next
  case (outcome f cs rows)
  then show ?case by (intro claims_ok_rows [OF outcome(3)]) (simp add: slot_hash_map)
qed (auto intro!: claims_ok_update simp: accepted_def proceeds_def)

lemma claim_run_inv:
  assumes "claim_run ls x y" "claims_ok x"
  shows "claims_ok y \<and> length (fst y) = length (fst x) \<and> cm_key (fst y ! i) = cm_key (fst x ! i) \<and> cm_hash (fst y ! i) = cm_hash (fst x ! i)
    \<and> claim_rank y i + count_list ls (Some i) \<le> claim_rank x i"
  using assms
proof (induction rule: claim_run.induct)
  case (step ls x y l z)
  then show ?case
    using claim_step_rank [OF step(2), of i] claim_step_frame(1) [OF step(2)] claim_step_frame(2,3) [OF step(2), of i] claim_step_ok [OF step(2)] by (auto split: if_splits)
qed simp

text \<open>C7: whatever the interleaving of any number of callers of \<^verbatim>\<open>claimSlot\<close>, of the outcomes recorded meanwhile and of failures of
  the database: at most one caller per slot (pid, nonce, chain, entry point) is told to proceed; two callers of one slot that are both
  answered without an error hold the same signed bytes; and a caller takes at most three statements and can always take the next.\<close>

theorem claims_proceed_once:
  assumes run: "claim_run ls (cs, rows) (cs', rows')" and start: "list_all (\<lambda>c. cm_pc c = Reading) cs" and i: "i < length cs"
  shows "(\<forall>j < length cs. cm_key (cs ! i) = cm_key (cs ! j) \<longrightarrow>
        (proceeds (cs' ! i) \<and> proceeds (cs' ! j) \<longrightarrow> i = j) \<and>
        (accepted (cs' ! i) \<and> accepted (cs' ! j) \<longrightarrow> cm_hash (cs ! i) = cm_hash (cs ! j)))
    \<and> count_list ls (Some i) \<le> 3
    \<and> ((\<exists>r. cm_pc (cs' ! i) = Answered r) \<or> (\<exists>y. claim_step (Some i) (cs', rows') y))"
proof -
  have "claims_ok (cs, rows)"
    using start by (auto simp: claims_ok_def accepted_def proceeds_def list_all_length)
  note inv = claim_run_inv [OF run this]
  have "claim_rank (cs, rows) i \<le> 3" using i start by (simp add: claim_rank_def list_all_length)
  then have "count_list ls (Some i) \<le> 3" using inv [of i] by simp
  moreover have "(\<exists>r. cm_pc (cs' ! i) = Answered r) \<or> (\<exists>y. claim_step (Some i) (cs', rows') y)"
    using claim_step_enabled [of i "(cs', rows')"] inv [of i] i by auto
  moreover have "(proceeds (cs' ! i) \<and> proceeds (cs' ! j) \<longrightarrow> i = j) \<and> (accepted (cs' ! i) \<and> accepted (cs' ! j) \<longrightarrow> cm_hash (cs ! i) = cm_hash (cs ! j))"
    if "j < length cs" "cm_key (cs ! i) = cm_key (cs ! j)" for j
    using inv [of i] inv [of j] that i unfolding claims_ok_def by (metis fst_conv option.inject snd_conv)
  ultimately show ?thesis by blast
qed

definition demo_claimers :: "claimer list" where
  "demo_claimers = replicate 2 \<lparr>cm_key = (''alice'', ''4'', ''solana'', ERotate), cm_hash = ''h'', cm_pc = Reading\<rparr>"

theorem claims_proceed_once_witness:
  "\<exists>cs rows. claim_run [Some 0, Some 0, Some 1] (demo_claimers, []) (cs, rows) \<and> proceeds (cs ! 0) \<and> accepted (cs ! 1) \<and> \<not> proceeds (cs ! 1)"
proof -
  let ?k = "(''alice'', ''4'', ''solana'', ERotate)"
  let ?c = "\<lambda>pc. \<lparr>cm_key = ?k, cm_hash = ''h'', cm_pc = pc\<rparr>"
  let ?go = "Answered (Inr \<lparr>cl_decision = Proceed, cl_signature = None\<rparr>)" and ?row = "new_slot ?k ''h'' 0"
  have d: "demo_claimers = [?c Reading, ?c Reading]" by (simp add: demo_claimers_def numeral_2_eq_2)
  have r: "find_slot ?k [] = None" "find_slot ?k [?row] = Some ?row" by (simp_all add: find_slot_def new_slot_def key_of_slot_def)
  have s1: "claim_step (Some 0) (demo_claimers, []) ([?c Creating, ?c Reading], [])"
    using claim_step.read_none [of 0 demo_claimers "[]"] r by (simp add: d)
  have s2: "claim_step (Some 0) ([?c Creating, ?c Reading], []) ([?c ?go, ?c Reading], [?row])"
    using claim_step.create [of 0 "[?c Creating, ?c Reading]" "[]" 0] r by simp
  have s3: "claim_step (Some 1) ([?c ?go, ?c Reading], [?row]) ([?c ?go, ?c (Answered (claim_existing ''h'' ?row))], [?row])"
    using claim_step.read_row [of 1 "[?c ?go, ?c Reading]" "[?row]" ?row] r by simp
  note run = claim_run.step [OF claim_run.step [OF claim_run.step [OF claim_run.idle s1] s2] s3]
  from claims_proceed_once [OF run, of 0] have "\<not> proceeds (?c (Answered (claim_existing ''h'' ?row)))"
    by (auto simp: d proceeds_def dest!: spec [of _ 1])
  moreover have "proceeds (?c ?go)" "accepted (?c (Answered (claim_existing ''h'' ?row)))"
    by (simp_all add: proceeds_def accepted_def claim_existing_def new_slot_def)
  moreover have "claim_run [Some 0, Some 0, Some 1] (demo_claimers, []) ([?c ?go, ?c (Answered (claim_existing ''h'' ?row))], [?row])"
    using run by simp
  ultimately show ?thesis by (intro exI conjI) (assumption, simp_all)
qed

text \<open>A single caller of the machine is the sequential operation.\<close>

lemma claimSlot_is_claim_run:
  assumes "claimSlot ev k h s = (Inr r, t)"
  shows "\<exists>ls. claim_run ls ([\<lparr>cm_key = k, cm_hash = h, cm_pc = Reading\<rparr>], rl_slots s) ([\<lparr>cm_key = k, cm_hash = h, cm_pc = Answered (Inr r)\<rparr>], rl_slots t)"
proof (cases "find_slot k (rl_slots s)")
  case None
  then obtain now where t: "rl_slots t = rl_slots s @ [new_slot k h now]" and r: "r = \<lparr>cl_decision = Proceed, cl_signature = None\<rparr>"
    using assms by (auto simp: claimSlot_def bind_eff_def statement_def Let_def split: prod.splits if_splits)
  have "claim_step (Some 0) ([\<lparr>cm_key = k, cm_hash = h, cm_pc = Reading\<rparr>], rl_slots s) ([\<lparr>cm_key = k, cm_hash = h, cm_pc = Creating\<rparr>], rl_slots s)"
    using claim_step.read_none [of 0 "[\<lparr>cm_key = k, cm_hash = h, cm_pc = Reading\<rparr>]"] None by simp
  moreover have "claim_step (Some 0) ([\<lparr>cm_key = k, cm_hash = h, cm_pc = Creating\<rparr>], rl_slots s) ([\<lparr>cm_key = k, cm_hash = h, cm_pc = Answered (Inr r)\<rparr>], rl_slots t)"
    using claim_step.create [of 0 "[\<lparr>cm_key = k, cm_hash = h, cm_pc = Creating\<rparr>]"] None by (simp add: t r)
  ultimately show ?thesis using claim_run.idle claim_run.step by blast
next
  case (Some row)
  then have t: "rl_slots t = rl_slots s" "claim_existing h row = Inr r"
    using assms by (auto simp: claimSlot_def bind_eff_def statement_def Let_def split: prod.splits if_splits)
  then have "claim_step (Some 0) ([\<lparr>cm_key = k, cm_hash = h, cm_pc = Reading\<rparr>], rl_slots s) ([\<lparr>cm_key = k, cm_hash = h, cm_pc = Answered (Inr r)\<rparr>], rl_slots t)"
    using claim_step.read_row [of 0 "[\<lparr>cm_key = k, cm_hash = h, cm_pc = Reading\<rparr>]" "rl_slots s" row] Some by simp
  then show ?thesis using claim_run.idle claim_run.step by blast
qed


section \<open>What the operations leave alone\<close>

text \<open>A preorder of states that ignores the world and the security events is kept by every statement that reads, by the log and
  by the bounded reads of the chain; one that ignores the slots too, by every operation on slots.\<close>

locale relay_frame = frame R for R :: "('w, 'z) relayer_scheme \<Rightarrow> ('w, 'z) relayer_scheme \<Rightarrow> bool" +
  assumes world: "R s (s\<lparr>rl_world := w\<rparr>)" and events: "R s (s\<lparr>rl_events := e\<rparr>)"
begin

lemma keeps_statement [keeps_intros]: "preserves R m \<Longrightarrow> preserves R (statement ev m)"
  unfolding preserves_def statement_def by (auto simp: Let_def world split: prod.split) (metis snd_conv trans world)+

lemma keeps_log [keeps_intros]: "preserves R (log_security ev p e m)"
  unfolding log_security_def by (intro keeps_intros keeps_statement) (rule events)

lemma sleep_keeps: "sleep_backoff ev k s = (d, t) \<Longrightarrow> R s t" "R s (wait ev d s)"
  by (auto simp: sleep_backoff_def wait_def Let_def world split: prod.splits)

lemma resolve_loop_keeps: "preserves R rs \<Longrightarrow> resolve_loop ev rs started n k s = (r, t) \<Longrightarrow> R s t"
proof (induction ev rs started n k s rule: resolve_loop.induct)
  case (2 ev rs started n k s)
  obtain r1 s1 where rs: "rs s = (r1, s1)" by fastforce
  obtain d s2 where sl: "sleep_backoff ev k s1 = (d, s2)" by fastforce
  have "R s s1" "R s1 s2" "R s2 (wait ev d s2)" using keepsD [OF 2(2) rs] sleep_keeps(1) [OF sl] sleep_keeps(2) .
  with 2 rs sl show ?case by (auto split: sum.splits if_splits) (metis trans)+
qed (auto simp: refl)

lemma keeps_resolveWithBound [keeps_intros]: "preserves R rs \<Longrightarrow> preserves R (resolveWithBound ev rs)"
  unfolding preserves_def resolveWithBound_def using resolve_loop_keeps by (metis preserves_def prod.collapse)

end

locale slot_frame = relay_frame +
  assumes slots: "R s (s\<lparr>rl_slots := x\<rparr>)"
begin

lemma keeps_update_slot [keeps_intros]: "preserves R (update_slot ev k f)"
  unfolding update_slot_def by (rule keeps_statement) (simp add: preserves_def refl slots)

lemma keeps_records [keeps_intros]: "preserves R (recordSubmission ev k g)" "preserves R (recordOutcome ev k st sg)"
  unfolding recordSubmission_def recordOutcome_def by (rule keeps_update_slot)+

lemma keeps_claimSlot [keeps_intros]: "preserves R (claimSlot ev k h)"
  unfolding claimSlot_def
  by (intro keeps_bind keeps_statement keeps_pure) (auto split: option.split intro!: keeps_pure keeps_bind keeps_statement keeps_modify slots)

lemma keeps_guard [keeps_intros]: "preserves R (assertNoInflightRotation ev pid chain n)"
  unfolding assertNoInflightRotation_def log_unconfirmed_def Let_def
  by (intro keeps_bind keeps_statement keeps_pure) (auto split: option.split intro!: keeps_pure keeps_bind keeps_records keeps_log)

end

section \<open>Broadcasts\<close>

definition same_trace :: "('w, 'z) relayer_scheme \<Rightarrow> ('w, 'z) relayer_scheme \<Rightarrow> bool" where
  "same_trace s t \<longleftrightarrow> rl_trace t = rl_trace s"

interpretation trace: slot_frame same_trace
  by unfold_locales (simp_all add: same_trace_def)

lemma resolve_loop_reads:
  "resolve_loop ev rs started n k s = (r, t) \<Longrightarrow> \<exists>a. r = Inr a \<and> (a = UnreadableState \<or> (\<exists>s1. rs s1 = (Inr a, t)))"
proof (induction ev rs started n k s rule: resolve_loop.induct)
  case (2 ev rs started n k s)
  then show ?case by (auto split: prod.splits sum.splits if_splits)
qed auto

lemma trace_call_then:
  "bind_eff (trace_call c) (\<lambda>_. m) s = (r, t) \<Longrightarrow> preserves same_trace m \<Longrightarrow> rl_trace t = rl_trace s @ [c]"
  by (auto simp: trace_call_def same_trace_def dest: keepsD)

lemma call_broadcast_trace:
  "call_broadcast k b s = (r, t) \<Longrightarrow> preserves same_trace b \<Longrightarrow> rl_trace t = rl_trace s @ [Sent k]"
  unfolding call_broadcast_def by (rule trace_call_then)

lemma call_broadcast_then:
  assumes "bind_eff (call_broadcast k b) f s = (r, t)" "preserves same_trace b" "\<And>a. preserves same_trace (f a)"
  shows "rl_trace t = rl_trace s @ [Sent k]"
  using assms(1)
proof (cases rule: bind_eff_cases)
  case (err e)
  then show ?thesis using call_broadcast_trace assms(2) by blast
next
  case (ok a s1)
  then show ?thesis using call_broadcast_trace [OF ok(1) assms(2)] keepsD [OF assms(3) ok(2)] by (simp add: same_trace_def)
qed

text \<open>The calls a run of resolve-then-act makes after the first broadcast failed.\<close>

lemma resolveThenAct_calls:
  fixes b :: "(('w, 'z) relayer_scheme, string \<times> 'r) eff"
  assumes run: "resolveThenAct ev k b rs s = (r, t)" and keep: "preserves same_trace b" "preserves same_trace rs"
  shows "rl_trace t = rl_trace s @ [Landed k]
    \<or> rl_trace t = rl_trace s @ [Unreadable k] \<and> \<not> is_ok r
    \<or> rl_trace t = rl_trace s @ [NotLanded k, Sent k] \<and> (\<exists>s1 s2. rs s1 = (Inr NotLandedState, s2)) \<and> (\<forall>x. r = Inr x \<longrightarrow> rr_signature x \<noteq> None)"
proof -
  obtain a s1 where w: "resolveWithBound ev rs s = (Inr a, s1)" and a: "a = UnreadableState \<or> (\<exists>s0. rs s0 = (Inr a, s1))"
    using resolve_loop_reads [of ev rs _ _ _ s] unfolding resolveWithBound_def by (metis prod.collapse)
  have s1: "rl_trace s1 = rl_trace s"
    using keepsD [OF trace.keeps_resolveWithBound [OF keep(2)] w] by (simp add: same_trace_def)
  note run' = run [unfolded resolveThenAct_def bind_eff_eval(1) [of "resolveWithBound ev rs" s, OF w]]
  show ?thesis
  proof (cases a)
    case (LandedWith sig)
    with run' have "rl_trace t = rl_trace s1 @ [Landed k]"
      by (auto elim!: trace_call_then intro!: trace.keeps_bind trace.keeps_records trace.keeps_log trace.keeps_pure)
    with s1 show ?thesis by simp
  next
    case NotLandedState
    define f :: "string \<times> 'r \<Rightarrow> (('w, 'z) relayer_scheme, 'r relay_result) eff" where "f = (\<lambda>out. bind_eff (recordOutcome ev k BResolvedNotLandedRebroadcast (Some (fst out))) (\<lambda>_.
        bind_eff (log_security ev (fst k) ''relay.resolve_not_landed_rebroadcast'' (relay_meta k @ [(''signature'', JStr (fst out))])) (\<lambda>_.
        ret \<lparr>rr_signature = Some (fst out), rr_result = Some (snd out), rr_outcome = ResolvedNotLandedRebroadcast\<rparr>)))"
    have "bind_eff (call_broadcast k b) f (s1\<lparr>rl_trace := rl_trace s1 @ [NotLanded k]\<rparr>) = (r, t)"
      using run' NotLandedState by (simp add: trace_call_def f_def)
    moreover from this have "rl_trace t = rl_trace (s1\<lparr>rl_trace := rl_trace s1 @ [NotLanded k]\<rparr>) @ [Sent k]"
      by (rule call_broadcast_then [OF _ keep(1)])
        (auto simp: f_def intro!: trace.keeps_bind trace.keeps_records trace.keeps_log trace.keeps_pure)
    ultimately show ?thesis
      using s1 NotLandedState a by (auto simp: f_def bind_eff_Inr)
  next
    case UnreadableState
    with run' have "rl_trace t = rl_trace s1 @ [Unreadable k]"
      by (auto elim!: trace_call_then intro!: trace.keeps_bind trace.keeps_records trace.keeps_log trace.keeps_pure)
    moreover have "\<not> is_ok r"
      using run' UnreadableState by (auto simp: bind_eff_def trace_call_def is_ok_def split: prod.splits sum.splits)
    ultimately show ?thesis using s1 by simp
  qed
qed

definition relay_runs :: "slot_key \<Rightarrow> relay_call list list" where
  "relay_runs k = [[Sent k], [Sent k, Landed k], [Sent k, Unreadable k], [Sent k, NotLanded k, Sent k]]"

text \<open>C6: a sponsored transaction is handed to the network at most twice per request. The second time happens only after the first
  attempt failed with an error that does not decide its fate and a read of the chain proved that it had not landed; when the
  chain shows that it landed there is no second time, and when the chain cannot be read the request is parked with an error. A request that
  returns without a signature is one that the chain shows as landed. Nothing is said of callbacks that broadcast by other means.\<close>

theorem broadcast_at_most_twice:
  fixes b :: "(('w, 'z) relayer_scheme, string \<times> 'r) eff"
  assumes "broadcastWithResolveThenAct ev k b rs s = (r, t)" "preserves same_trace b" "preserves same_trace rs"
  shows "\<exists>calls. rl_trace t = rl_trace s @ calls \<and> calls \<in> set (relay_runs k)
    \<and> (calls \<noteq> [Sent k] \<longrightarrow> (\<exists>e s1. b (s\<lparr>rl_trace := rl_trace s @ [Sent k]\<rparr>) = (Inl e, s1) \<and> \<not> isDeterministicBroadcastError e))
    \<and> (calls = [Sent k, NotLanded k, Sent k] \<longrightarrow> (\<exists>s1 s2. rs s1 = (Inr NotLandedState, s2)))
    \<and> (calls = [Sent k, Unreadable k] \<longrightarrow> \<not> is_ok r)
    \<and> (\<forall>x. r = Inr x \<and> rr_signature x = None \<longrightarrow> calls = [Sent k, Landed k])"
proof -
  obtain r1 s1 where b: "b (s\<lparr>rl_trace := rl_trace s @ [Sent k]\<rparr>) = (r1, s1)" by fastforce
  then have c: "call_broadcast k b s = (r1, s1)" by (simp add: call_broadcast_def trace_call_def)
  have s1: "rl_trace s1 = rl_trace s @ [Sent k]" by (rule call_broadcast_trace [OF c assms(2)])
  show ?thesis
  proof (cases r1)
    case (Inr out)
    define m :: "(('w, 'z) relayer_scheme, 'r relay_result) eff" where "m = bind_eff (recordSubmission ev k (fst out)) (\<lambda>_.
        ret \<lparr>rr_signature = Some (fst out), rr_result = Some (snd out), rr_outcome = BroadcastOk\<rparr>)"
    have "m s1 = (r, t)"
      using assms(1) c Inr by (simp add: broadcastWithResolveThenAct_def m_def)
    moreover have "preserves same_trace m"
      unfolding m_def by (intro trace.keeps_bind trace.keeps_records trace.keeps_pure)
    ultimately have "same_trace s1 t" "\<And>x. r = Inr x \<Longrightarrow> rr_signature x \<noteq> None"
      by (auto simp: m_def bind_eff_Inr dest: keepsD)
    then show ?thesis using s1 by (intro exI [of _ "[Sent k]"]) (auto simp: relay_runs_def same_trace_def)
  next
    case (Inl e)
    show ?thesis
    proof (cases "isDeterministicBroadcastError e")
      case True
      with Inl assms(1) c s1 show ?thesis
        by (intro exI [of _ "[Sent k]"]) (auto simp: broadcastWithResolveThenAct_def relay_runs_def)
    next
      case False
      with Inl assms(1) c have "resolveThenAct ev k b rs s1 = (r, t)" by (simp add: broadcastWithResolveThenAct_def)
      from resolveThenAct_calls [OF this assms(2,3)] show ?thesis
      proof (elim disjE conjE)
        assume "rl_trace t = rl_trace s1 @ [Landed k]"
        with s1 b Inl False show ?thesis by (intro exI [of _ "[Sent k, Landed k]"]) (auto simp: relay_runs_def)
      next
        assume "rl_trace t = rl_trace s1 @ [Unreadable k]" "\<not> is_ok r"
        with s1 b Inl False show ?thesis by (intro exI [of _ "[Sent k, Unreadable k]"]) (auto simp: relay_runs_def)
      next
        assume "rl_trace t = rl_trace s1 @ [NotLanded k, Sent k]" "\<exists>s1 s2. rs s1 = (Inr NotLandedState, s2)"
          "\<forall>x. r = Inr x \<longrightarrow> rr_signature x \<noteq> None"
        with s1 b Inl False show ?thesis by (intro exI [of _ "[Sent k, NotLanded k, Sent k]"]) (auto simp: relay_runs_def)
      qed
    qed
  qed
qed


theorem broadcast_at_most_twice_witness:
  "length (filter (\<lambda>c. c = Sent (''alice'', ''4'', ''solana'', EWithdraw)) (rl_trace (snd (broadcastWithResolveThenAct relayer_demo_env
      (''alice'', ''4'', ''solana'', EWithdraw) (\<lambda>s. (Inl (JsError ''socket hang up''), s) :: (string \<times> unit) result \<times> int relayer)
      (\<lambda>s. (Inr NotLandedState, s)) demo_relayer)))) \<le> 2"
proof -
  let ?k = "(''alice'', ''4'', ''solana'', EWithdraw)"
  let ?run = "broadcastWithResolveThenAct relayer_demo_env ?k (\<lambda>s. (Inl (JsError ''socket hang up''), s) :: (string \<times> unit) result \<times> int relayer)
      (\<lambda>s. (Inr NotLandedState, s)) demo_relayer"
  have "\<exists>calls. rl_trace (snd ?run) = rl_trace demo_relayer @ calls \<and> calls \<in> set (relay_runs ?k)"
    using broadcast_at_most_twice [OF prod.collapse [symmetric], where ev = relayer_demo_env and k = ?k and s = demo_relayer
        and b = "\<lambda>s. (Inl (JsError ''socket hang up''), s) :: (string \<times> unit) result \<times> int relayer" and rs = "\<lambda>s. (Inr NotLandedState, s)"]
    by (auto simp: preserves_def same_trace_def)
  then show ?thesis by (auto simp: relay_runs_def demo_relayer_def)
qed

section \<open>Frames of the whole relayer\<close>

text \<open>A preorder that ignores the ledger and the open breakers is kept by the breaker.\<close>

locale ledger_frame = relay_frame +
  assumes ledger: "R s (s\<lparr>rl_ledger := l\<rparr>)" and opened: "R s (s\<lparr>rl_open := opn\<rparr>)"
begin

lemma keeps_recordAbsorbed [keeps_intros]: "preserves R (recordAbsorbed ev pid chain amount)"
proof -
  have "preserves R (open_chain ev pid c x y z)" for c x y z
    unfolding open_chain_def by (intro keeps_bind keeps_modify opened keeps_log keeps_pure)
  then have "R s (snd (open_chain ev pid c x y z (s\<lparr>rl_ledger := l\<rparr>)))" for s l c x y z
    unfolding preserves_def by (blast intro: trans ledger)
  then show ?thesis
    by (simp add: preserves_def recordAbsorbed_def Let_def ledger)
qed

lemma keeps_requireClosed [keeps_intros]: "preserves R (requireClosed chain)"
  by (simp add: preserves_def requireClosed_def refl)

end

text \<open>A preorder that ignores every field of the relayer is kept by the broadcasts too.\<close>

locale outer_frame = slot_frame R + ledger_frame R for R :: "('w, 'z) relayer_scheme \<Rightarrow> ('w, 'z) relayer_scheme \<Rightarrow> bool" +
  assumes trace_ignored: "R s (s\<lparr>rl_trace := c\<rparr>)" and revocations: "R s (s\<lparr>rl_revocations := v\<rparr>)"
begin

lemma keeps_trace_call [keeps_intros]: "preserves R (trace_call c)"
  unfolding trace_call_def by (rule keeps_modify) (rule trace_ignored)

lemma keeps_broadcast [keeps_intros]:
  assumes "preserves R b" "preserves R rs"
  shows "preserves R (broadcastWithResolveThenAct ev k b rs)"
  unfolding broadcastWithResolveThenAct_def resolveThenAct_def call_broadcast_def
  using assms by (auto intro!: keeps_bind keeps_try keeps_trace_call keeps_records keeps_log keeps_pure keeps_resolveWithBound
      split: sum.split ChainStateResolution.split)

lemma keeps_recordRevocation [keeps_intros]: "preserves R (recordRevocation chain now)"
  by (simp add: preserves_def recordRevocation_def Let_def revocations)

end

end
