(* ===== verification/Cose.thy ===== *)
theory Cose
  imports Core_Bytes
begin

text \<open>
  The reader of stored passkeys, \<^verbatim>\<open>apps/api/src/credentials/cose.ts\<close>: a CBOR reader limited to what a COSE EC2 key holds,
  and the two conversions of a key (raw coordinates, compressed point). The reader's buffer and offset are the bytes
  that are left. Node's range errors of \<^verbatim>\<open>readUInt16BE\<close> and \<^verbatim>\<open>readUInt32BE\<close> are \<open>JsError\<close>.
\<close>

section \<open>The CBOR reader\<close>

fun readByte :: "bytes \<Rightarrow> (nat \<times> bytes) result" where
  "readByte [] = Inl (JsError ''cbor: truncated'')"
| "readByte (b # bs) = Inr (unat b, bs)"

definition be_value :: "bytes \<Rightarrow> nat" where
  "be_value bs = foldl (\<lambda>a b. a * 256 + unat b) 0 bs"

text \<open>\<^verbatim>\<open>buf.readUInt16BE\<close> and \<^verbatim>\<open>buf.readUInt32BE\<close>.\<close>

definition readUIntBE :: "nat \<Rightarrow> bytes \<Rightarrow> (nat \<times> bytes) result" where
  "readUIntBE n bs = (if length bs < n then Inl (JsError ''ERR_OUT_OF_RANGE'') else Inr (be_value (take n bs), drop n bs))"

definition readLength :: "nat \<Rightarrow> bytes \<Rightarrow> (nat \<times> bytes) result" where
  "readLength initial bs =
     (if initial < 24 then Inr (initial, bs)
      else if initial = 24 then readByte bs
      else if initial = 25 then readUIntBE 2 bs
      else if initial = 26 then readUIntBE 4 bs
      else Inl (JsError ''cbor: length too large''))"

text \<open>Major type and value; \<^verbatim>\<open>b >> 5\<close> and \<^verbatim>\<open>b & 0x1f\<close> of the first byte.\<close>

definition readHeader :: "bytes \<Rightarrow> (nat \<times> nat \<times> bytes) result" where
  "readHeader bs = bind_result (readByte bs) (\<lambda>(b, bs1).
     bind_result (readLength (b mod 32) bs1) (\<lambda>(v, bs2). Inr (b div 32, v, bs2)))"

definition readInt :: "bytes \<Rightarrow> (int \<times> bytes) result" where
  "readInt bs = bind_result (readHeader bs) (\<lambda>(major, v, bs1).
     if major = 0 then Inr (int v, bs1) else if major = 1 then Inr (- 1 - int v, bs1)
     else Inl (JsError ''cbor: expected int''))"

definition readBytes :: "bytes \<Rightarrow> (bytes \<times> bytes) result" where
  "readBytes bs = bind_result (readHeader bs) (\<lambda>(major, v, bs1).
     if major \<noteq> 2 then Inl (JsError ''cbor: expected byte string'')
     else if length (take v bs1) \<noteq> v then Inl (JsError ''cbor: truncated byte string'')
     else Inr (take v bs1, drop v bs1))"

definition readMapLength :: "bytes \<Rightarrow> (nat \<times> bytes) result" where
  "readMapLength bs = bind_result (readHeader bs) (\<lambda>(major, v, bs1).
     if major \<noteq> 5 then Inl (JsError ''cbor: expected map'') else Inr (v, bs1))"

lemma bind_result_cong [fundef_cong]:
  "m = m' \<Longrightarrow> (\<And>a. m' = Inr a \<Longrightarrow> f a = f' a) \<Longrightarrow> bind_result m f = bind_result m' f'"
  by (cases m') auto

lemma readLength_shrinks: "readLength i bs = Inr (v, bs1) \<Longrightarrow> length bs1 \<le> length bs"
  by (cases bs) (auto simp: readLength_def readUIntBE_def split: if_splits)

lemma readHeader_shrinks: "readHeader bs = Inr (m, v, bs1) \<Longrightarrow> length bs1 < length bs"
  by (cases bs) (auto simp: readHeader_def dest: readLength_shrinks)

text \<open>The loop of \<^verbatim>\<open>skipValue\<close> over \<open>n\<close> values: each reads its header and is skipped in turn. A map of \<open>v\<close> entries is
  \<open>2 v\<close> values.\<close>

function skip_values :: "nat \<Rightarrow> bytes \<Rightarrow> bytes result" where
  "skip_values n bs =
     (if n = 0 then Inr bs
      else bind_result (readHeader bs) (\<lambda>(major, v, bs1).
        bind_result
          (if major = 2 \<or> major = 3 then if length bs1 < v then Inl (JsError ''cbor: truncated'') else Inr (drop v bs1)
           else if major = 4 then skip_values v bs1
           else if major = 5 then skip_values (2 * v) bs1
           else Inr bs1)
          (\<lambda>bs2. skip_values (n - 1) bs2)))"
  by pat_completeness auto

text \<open>Skipping never moves backwards, so the values after a skipped one are read from fewer bytes.\<close>

lemma skip_values_dom_shrinks:
  "skip_values_dom (n, bs) \<Longrightarrow> skip_values n bs = Inr bs' \<Longrightarrow> length bs' \<le> length bs"
proof (induction n bs arbitrary: bs' rule: skip_values.pinduct)
  case (1 n bs)
  show ?case
  proof (cases "n = 0")
    case False
    with 1 obtain m v bs1 bs2 where h: "readHeader bs = Inr (m, v, bs1)"
      and s: "(if m = 2 \<or> m = 3 then if length bs1 < v then Inl (JsError ''cbor: truncated'') else Inr (drop v bs1)
           else if m = 4 then skip_values v bs1 else if m = 5 then skip_values (2 * v) bs1 else Inr bs1) = Inr bs2"
      and r: "skip_values (n - 1) bs2 = Inr bs'"
      by (auto simp: skip_values.psimps [OF 1(1)])
    have "length bs2 \<le> length bs1"
      using s 1(2,3) [OF False h refl refl] by (auto split: if_splits)
    moreover have "length bs' \<le> length bs2"
      using 1(4) [OF False h refl refl s r] .
    ultimately show ?thesis using readHeader_shrinks [OF h] by simp
  qed (use 1 in \<open>simp add: skip_values.psimps\<close>)
qed

lemma skipped_shrinks:
  assumes "(if m = 2 \<or> m = 3 then if length bs1 < v then Inl e else Inr (drop v bs1)
      else if m = 4 then skip_values v bs1 else if m = 5 then skip_values (2 * v) bs1 else Inr bs1) = Inr bs2"
    and "m = 4 \<Longrightarrow> skip_values_dom (v, bs1)" "m = 5 \<Longrightarrow> skip_values_dom (2 * v, bs1)"
  shows "length bs2 \<le> length bs1"
  using assms by (auto dest: skip_values_dom_shrinks split: if_splits)

termination skip_values
proof (relation "measure (\<lambda>(n, bs). length bs)", goal_cases)
  case (4 n bs x m r v bs1 bs2)
  then have "length bs1 < length bs" by (auto dest: readHeader_shrinks)
  moreover have "length bs2 \<le> length bs1"
    using 4 by (intro skipped_shrinks [of m bs1 v _ bs2]) auto
  ultimately show ?case by simp
qed (auto dest: readHeader_shrinks)

declare skip_values.simps [simp del]

definition skipValue :: "nat \<Rightarrow> nat \<Rightarrow> bytes \<Rightarrow> bytes result" where
  "skipValue major v bs =
     (if major = 2 \<or> major = 3 then if length bs < v then Inl (JsError ''cbor: truncated'') else Inr (drop v bs)
      else if major = 4 then skip_values v bs
      else if major = 5 then skip_values (2 * v) bs
      else Inr bs)"

section \<open>Keys\<close>

definition P256_CRV :: int where "P256_CRV = 1"
definition KEY_X :: int where "KEY_X = - 2"
definition KEY_Y :: int where "KEY_Y = - 3"

text \<open>One entry of the map, with the coordinates read so far.\<close>

definition cose_entry :: "bytes option \<times> bytes option \<Rightarrow> bytes \<Rightarrow> ((bytes option \<times> bytes option) \<times> bytes) result" where
  "cose_entry xy bs = bind_result (readInt bs) (\<lambda>(key, bs1).
     if key = - 1 then bind_result (readInt bs1) (\<lambda>(crv, bs2).
          if crv \<noteq> P256_CRV then Inl (JsError ''cose: not P-256'') else Inr (xy, bs2))
     else if key = KEY_X then bind_result (readBytes bs1) (\<lambda>(x, bs2). Inr ((Some x, snd xy), bs2))
     else if key = KEY_Y then bind_result (readBytes bs1) (\<lambda>(y, bs2). Inr ((fst xy, Some y), bs2))
     else bind_result (readHeader bs1) (\<lambda>(major, v, bs2). bind_result (skipValue major v bs2) (\<lambda>bs3. Inr (xy, bs3))))"

fun cose_entries :: "nat \<Rightarrow> bytes option \<times> bytes option \<Rightarrow> bytes \<Rightarrow> (bytes option \<times> bytes option) result" where
  "cose_entries 0 xy bs = Inr xy"
| "cose_entries (Suc n) xy bs = bind_result (cose_entry xy bs) (\<lambda>(xy1, bs1). cose_entries n xy1 bs1)"

definition coseToRawXy :: "bytes \<Rightarrow> (bytes \<times> bytes) result" where
  "coseToRawXy cose = bind_result (readMapLength cose) (\<lambda>(pairs, bs).
     bind_result (cose_entries pairs (None, None) bs) (\<lambda>xy. case xy of
         (Some x, Some y) \<Rightarrow> if length x \<noteq> 32 \<or> length y \<noteq> 32 then Inl (JsError ''cose: missing x/y'') else Inr (x, y)
       | _ \<Rightarrow> Inl (JsError ''cose: missing x/y'')))"

text \<open>The second conversion repeats the loop of the first and ends with the parity byte.\<close>

definition coseToCompressedSecp256r1 :: "bytes \<Rightarrow> bytes result" where
  "coseToCompressedSecp256r1 cose = bind_result (readMapLength cose) (\<lambda>(pairs, bs).
     bind_result (cose_entries pairs (None, None) bs) (\<lambda>xy. case xy of
         (Some x, Some y) \<Rightarrow>
           if length x \<noteq> 32 \<or> length y \<noteq> 32 then Inl (JsError ''cose: missing x/y'')
           else let parity = (if y ! 31 AND 1 = 1 then 0x03 else 0x02) in Inr (parity # x)
       | _ \<Rightarrow> Inl (JsError ''cose: missing x/y'')))"

section \<open>Encoder of a key\<close>

text \<open>The CBOR head of RFC 8949 (values below \<open>2\<^sup>3\<^sup>2\<close>), the reference the reader is compared with.\<close>

definition cbor_head :: "nat \<Rightarrow> nat \<Rightarrow> bytes" where
  "cbor_head major v =
     (if v < 24 then [of_nat (major * 32 + v)]
      else if v < 256 then [of_nat (major * 32 + 24), of_nat v]
      else if v < 65536 then [of_nat (major * 32 + 25), of_nat (v div 256), of_nat v]
      else [of_nat (major * 32 + 26), of_nat (v div 16777216), of_nat (v div 65536), of_nat (v div 256), of_nat v])"

text \<open>CBOR values without tags and simple values.\<close>

datatype cbor = CInt int | CBytes bytes | CText bytes | CArray "cbor list" | CMap "(cbor \<times> cbor) list"

definition cbor_int :: "int \<Rightarrow> bytes" where
  "cbor_int k = (if 0 \<le> k then cbor_head 0 (nat k) else cbor_head 1 (nat (- 1 - k)))"

fun cbor_encode :: "cbor \<Rightarrow> bytes" where
  "cbor_encode (CInt k) = cbor_int k"
| "cbor_encode (CBytes b) = cbor_head 2 (length b) @ b"
| "cbor_encode (CText b) = cbor_head 3 (length b) @ b"
| "cbor_encode (CArray vs) = cbor_head 4 (length vs) @ concat (map cbor_encode vs)"
| "cbor_encode (CMap kvs) = cbor_head 5 (length kvs) @ concat (map (\<lambda>(k, v). cbor_encode k @ cbor_encode v) kvs)"

fun cbor_small :: "cbor \<Rightarrow> bool" where
  "cbor_small (CInt k) \<longleftrightarrow> - (2 ^ 32) \<le> k \<and> k < 2 ^ 32"
| "cbor_small (CBytes b) \<longleftrightarrow> length b < 2 ^ 32"
| "cbor_small (CText b) \<longleftrightarrow> length b < 2 ^ 32"
| "cbor_small (CArray vs) \<longleftrightarrow> length vs < 2 ^ 32 \<and> list_all cbor_small vs"
| "cbor_small (CMap kvs) \<longleftrightarrow> length kvs < 2 ^ 32 \<and> list_all (\<lambda>(k, v). cbor_small k \<and> cbor_small v) kvs"

section \<open>The reader inverts the encoder\<close>

lemma unat_of_nat_byte: "unat (of_nat n :: byte) = n mod 256"
  by (simp add: unat_of_nat)

lemma readHeader_head [simp]:
  assumes "major < 8" "v < 2 ^ 32"
  shows "readHeader (cbor_head major v @ rest) = Inr (major, v, rest)"
proof -
  have d: "(major * 32 + k) mod 256 = major * 32 + k" "(major * 32 + k) mod 32 = k" "(major * 32 + k) div 32 = major"
    if "k < 32" for k
    using that assms(1) by auto
  have two: "v div 256 mod 256 * 256 + v mod 256 = v" if "v < 65536"
    using that div_mult_mod_eq [of v 256] by simp
  have four: "((v div 16777216 * 256 + v div 65536 mod 256) * 256 + v div 256 mod 256) * 256 + v mod 256 = v"
    using div_mult_mod_eq [of v 256] div_mult_mod_eq [of "v div 256" 256] div_mult_mod_eq [of "v div 65536" 256]
    by (simp add: div_mult2_eq [symmetric])
  have top: "v div 16777216 mod 256 = v div 16777216"
    using assms(2) by simp
  consider "v < 24" | "24 \<le> v" "v < 256" | "256 \<le> v" "v < 65536" | "65536 \<le> v" by linarith
  then show ?thesis
  proof cases
    case 1
    then show ?thesis using d [of v] by (simp add: readHeader_def cbor_head_def readLength_def unat_of_nat_byte del: of_nat_add of_nat_mult)
  next
    case 2
    then show ?thesis using d [of 24] by (simp add: readHeader_def cbor_head_def readLength_def unat_of_nat_byte del: of_nat_add of_nat_mult)
  next
    case 3
    then show ?thesis using d [of 25] two
      by (simp add: readHeader_def cbor_head_def readLength_def readUIntBE_def be_value_def unat_of_nat_byte del: of_nat_add of_nat_mult)
  next
    case 4
    then show ?thesis using d [of 26] four top
      by (simp add: readHeader_def cbor_head_def readLength_def readUIntBE_def be_value_def unat_of_nat_byte del: of_nat_add of_nat_mult)
  qed
qed

lemma odd_unat: "odd (unat w) = odd w" for w :: byte
  using bit_unsigned_iff [of w 0, where ?'a = nat] by (simp add: bit_0)

lemma readInt_int [simp]: "- (2 ^ 32) \<le> k \<Longrightarrow> k < 2 ^ 32 \<Longrightarrow> readInt (cbor_int k @ rest) = Inr (k, rest)"
  by (auto simp: readInt_def cbor_int_def nat_less_iff)

lemma readBytes_bytes [simp]: "length b < 2 ^ 32 \<Longrightarrow> readBytes (cbor_head 2 (length b) @ b @ rest) = Inr (b, rest)"
  by (simp add: readBytes_def)

text \<open>What one encoded value costs the skipper.\<close>

lemma skip_values_cons:
  "readHeader bs = Inr (m, v, bs1) \<Longrightarrow> skip_values (Suc n) bs = bind_result (skipValue m v bs1) (skip_values n)"
  by (subst skip_values.simps) (simp add: skipValue_def)

lemma skip_values_0 [simp]: "skip_values 0 bs = Inr bs"
  by (simp add: skip_values.simps)

lemma skip_concat:
  assumes "\<And>v n rest. v \<in> set vs \<Longrightarrow> skip_values (Suc n) (f v @ rest) = skip_values n rest"
  shows "skip_values (length vs + n) (concat (map f vs) @ rest) = skip_values n rest"
  using assms by (induction vs arbitrary: n) auto

lemma skip_encoded: "cbor_small v \<Longrightarrow> skip_values (Suc n) (cbor_encode v @ rest) = skip_values n rest"
proof (induction v arbitrary: n rest rule: cbor_encode.induct)
  case (1 k)
  then show ?case
    by (cases "0 \<le> k") (simp_all add: cbor_int_def skip_values_cons [OF readHeader_head] nat_less_iff skipValue_def)
next
  case (4 vs)
  then have "skip_values (length vs + 0) (concat (map cbor_encode vs) @ rest) = Inr rest" for rest
    by (subst skip_concat) (auto simp: list_all_iff)
  with 4 show ?case by (simp add: skip_values_cons [OF readHeader_head] skipValue_def)
next
  case (5 kvs)
  define vs where "vs = concat (map (\<lambda>(k, v). [k, v]) kvs)"
  have e: "concat (map (\<lambda>(k, v). cbor_encode k @ cbor_encode v) kvs) = concat (map cbor_encode vs)" "length vs = 2 * length kvs"
    unfolding vs_def by (induction kvs) auto
  have "skip_values (length vs + 0) (concat (map cbor_encode vs) @ rest) = Inr rest" for rest
    using 5 by (subst skip_concat) (fastforce simp: vs_def list_all_iff)+
  with 5(3) e show ?case by (simp add: skip_values_cons [OF readHeader_head] skipValue_def)
qed (simp_all add: skip_values_cons [OF readHeader_head] skipValue_def)

lemma skipValue_encoded:
  assumes "cbor_small v"
  shows "bind_result (readHeader (cbor_encode v @ rest)) (\<lambda>(m, w, bs). bind_result (skipValue m w bs) f) = f rest"
proof -
  have "skip_values (Suc 0) (cbor_encode v @ rest) = Inr rest" using skip_encoded [OF assms, of 0] by simp
  then have "bind_result (readHeader (cbor_encode v @ rest)) (\<lambda>(m, w, bs). skipValue m w bs) = Inr rest"
    by (subst (asm) skip_values.simps) (auto simp: skipValue_def split: prod.splits)
  then show ?thesis by (auto split: prod.splits)
qed

section \<open>Keys in COSE form\<close>

text \<open>A key as a COSE map: integer labels; label -1 is the curve, -2 and -3 are byte strings; other labels (key type,
  algorithm, key id, anything newer) hold any value.\<close>

definition cose_field_ok :: "int \<times> cbor \<Rightarrow> bool" where
  "cose_field_ok kv \<longleftrightarrow> - (2 ^ 32) \<le> fst kv \<and> fst kv < 2 ^ 32 \<and> cbor_small (snd kv)
     \<and> (fst kv = - 1 \<longrightarrow> snd kv = CInt P256_CRV)
     \<and> (fst kv = KEY_X \<or> fst kv = KEY_Y \<longrightarrow> (case snd kv of CBytes _ \<Rightarrow> True | _ \<Rightarrow> False))"

definition cose_encode :: "(int \<times> cbor) list \<Rightarrow> bytes" where
  "cose_encode kvs = cbor_encode (CMap (map (\<lambda>(k, v). (CInt k, v)) kvs))"

definition field_bytes :: "cbor option \<Rightarrow> bytes option" where
  "field_bytes v = (case v of Some (CBytes b) \<Rightarrow> Some b | _ \<Rightarrow> None)"

lemma cose_entry_encoded:
  assumes "cose_field_ok (k, v)"
  shows "cose_entry xy (cbor_int k @ cbor_encode v @ rest) =
    Inr ((if k = KEY_X then field_bytes (Some v) else fst xy, if k = KEY_Y then field_bytes (Some v) else snd xy), rest)"
proof -
  from assms have r: "- (2 ^ 32) \<le> k" "k < 2 ^ 32" and s: "cbor_small v" by (simp_all add: cose_field_ok_def)
  have c: "readInt (cbor_int P256_CRV @ rest) = Inr (P256_CRV, rest)" by (simp add: P256_CRV_def)
  consider "k = - 1" "v = CInt P256_CRV" | b where "k = KEY_X" "v = CBytes b" | b where "k = KEY_Y" "v = CBytes b"
    | "k \<noteq> - 1" "k \<noteq> KEY_X" "k \<noteq> KEY_Y"
    using assms by (auto simp: cose_field_ok_def split: cbor.splits)
  then show ?thesis
  proof cases
    case 1
    then show ?thesis using r c by (simp add: cose_entry_def KEY_X_def KEY_Y_def)
  next
    case 4
    then show ?thesis using r by (simp add: cose_entry_def skipValue_encoded [OF s])
  qed (use r s in \<open>simp_all add: cose_entry_def KEY_X_def KEY_Y_def field_bytes_def\<close>)
qed

lemma cose_entries_encoded:
  assumes "list_all cose_field_ok kvs" "distinct (map fst kvs)"
  shows "cose_entries (length kvs) xy (concat (map (\<lambda>(k, v). cbor_int k @ cbor_encode v) kvs) @ rest) =
    Inr (if KEY_X \<in> fst ` set kvs then field_bytes (map_of kvs KEY_X) else fst xy,
         if KEY_Y \<in> fst ` set kvs then field_bytes (map_of kvs KEY_Y) else snd xy)"
  using assms
proof (induction kvs arbitrary: xy)
  case (Cons kv kvs)
  obtain k v where kv: "kv = (k, v)" by fastforce
  with Cons show ?case
    by (auto simp: cose_entry_encoded KEY_X_def KEY_Y_def)
qed simp

lemma cose_key_read:
  "list_all cose_field_ok kvs \<Longrightarrow> distinct (map fst kvs) \<Longrightarrow> length kvs < 2 ^ 32 \<Longrightarrow>
   map_of kvs KEY_X = Some (CBytes x) \<Longrightarrow> map_of kvs KEY_Y = Some (CBytes y) \<Longrightarrow> length x = 32 \<Longrightarrow> length y = 32 \<Longrightarrow>
     coseToRawXy (cose_encode kvs) = Inr (x, y) \<and>
     coseToCompressedSecp256r1 (cose_encode kvs) = Inr ((if odd (unat (last y)) then 3 else 2) # x)"
proof -
  assume ok: "list_all cose_field_ok kvs" "distinct (map fst kvs)" "length kvs < 2 ^ 32"
    and xy: "map_of kvs KEY_X = Some (CBytes x)" "map_of kvs KEY_Y = Some (CBytes y)" and l: "length x = 32" "length y = 32"
  have e: "cose_encode kvs = cbor_head 5 (length kvs) @ concat (map (\<lambda>(k, v). cbor_int k @ cbor_encode v) kvs) @ []"
    unfolding cose_encode_def by (induction kvs) (auto simp: cbor_head_def)
  have m: "readMapLength (cose_encode kvs) = Inr (length kvs, concat (map (\<lambda>(k, v). cbor_int k @ cbor_encode v) kvs) @ [])"
    using ok(3) by (simp only: e readMapLength_def readHeader_head) simp
  have k: "KEY_X \<in> fst ` set kvs" "KEY_Y \<in> fst ` set kvs"
    using xy by (auto dest!: map_of_SomeD simp: image_iff) force+
  have p: "(y ! 31 AND 1 = 1) = odd (unat (last y))"
    using l(2) odd_unat [of "y ! 31"] by (cases y rule: rev_cases) (auto simp: and_one_eq nth_append odd_iff_mod_2_eq_one)
  have en: "cose_entries (length kvs) (None, None) (concat (map (\<lambda>(k, v). cbor_int k @ cbor_encode v) kvs) @ []) = Inr (Some x, Some y)"
    by (subst cose_entries_encoded [OF ok(1,2)]) (simp add: k xy field_bytes_def)
  show ?thesis
    unfolding coseToRawXy_def coseToCompressedSecp256r1_def m using en l p by simp
qed



text \<open>What the reader accepts is a compressed point: 33 bytes that start with 2 or 3.\<close>

lemma compressed_is_point:
  "coseToCompressedSecp256r1 bs = Inr key \<Longrightarrow> length key = 33 \<and> hd key \<in> {2, 3}"
proof -
  assume k: "coseToCompressedSecp256r1 bs = Inr key"
  then obtain n bs1 where m: "readMapLength bs = Inr (n, bs1)"
    unfolding coseToCompressedSecp256r1_def by (cases "readMapLength bs") auto
  then obtain x y where "cose_entries n (None, None) bs1 = Inr (x, y)"
    using k unfolding coseToCompressedSecp256r1_def by (cases "cose_entries n (None, None) bs1") auto
  with k m show ?thesis
    unfolding coseToCompressedSecp256r1_def by (cases x; cases y) (auto simp: Let_def split: if_splits)
qed

end
