(* ===== verification/Core_Codec.thy ===== *)
theory Core_Codec
  imports Core_Bytes
begin

unbundle bit_operations_syntax

text \<open>
  The text and signature codecs of \<^verbatim>\<open>packages/core/src/bytes.ts\<close>: hexadecimal, base64url (with the platform's
  \<^verbatim>\<open>btoa\<close> and \<^verbatim>\<open>atob\<close>), DER signatures and low-S normalization.
\<close>

section \<open>Alphabets\<close>

fun index_of :: "'a list \<Rightarrow> 'a \<Rightarrow> nat option" where
  "index_of [] x = None"
| "index_of (y # ys) x = (if x = y then Some 0 else map_option Suc (index_of ys x))"

lemma index_of_nth: "distinct xs \<Longrightarrow> i < length xs \<Longrightarrow> index_of xs (xs ! i) = Some i"
proof (induction xs arbitrary: i)
  case (Cons y ys)
  then show ?case by (cases i) auto
qed simp

lemma index_of_less: "index_of xs x = Some i \<Longrightarrow> i < length xs \<and> xs ! i = x"
  by (induction xs arbitrary: i) (auto split: if_splits)

section \<open>Hexadecimal\<close>

definition hex_alphabet :: string where "hex_alphabet = ''0123456789abcdef''"

definition toHex :: "bytes \<Rightarrow> string" where
  "toHex data = concat (map (\<lambda>b. [hex_alphabet ! (unat b div 16), hex_alphabet ! (unat b mod 16)]) data)"

definition hex_val :: "char \<Rightarrow> nat option" where
  "hex_val c = index_of hex_alphabet (to_lower_char c)"

text \<open>\<^verbatim>\<open>parseInt(cd, 16)\<close> stored into a byte: \<^verbatim>\<open>NaN\<close> becomes 0, a sign is read, the longest prefix of digits counts.\<close>

definition parse_byte :: "char \<Rightarrow> char \<Rightarrow> byte" where
  "parse_byte c d =
     (if c = CHR ''-'' then (case hex_val d of None \<Rightarrow> 0 | Some v \<Rightarrow> - word_of_nat v)
      else if c = CHR ''+'' then (case hex_val d of None \<Rightarrow> 0 | Some v \<Rightarrow> word_of_nat v)
      else if c = CHR ''0'' \<and> (d = CHR ''x'' \<or> d = CHR ''X'') then 0
      else case hex_val c of
        None \<Rightarrow> 0
      | Some a \<Rightarrow> (case hex_val d of None \<Rightarrow> word_of_nat a | Some b \<Rightarrow> word_of_nat (16 * a + b)))"

fun hex_pairs :: "string \<Rightarrow> bytes" where
  "hex_pairs (c # d # cs) = parse_byte c d # hex_pairs cs"
| "hex_pairs _ = []"

definition fromHex :: "string \<Rightarrow> bytes result" where
  "fromHex hex =
     (let clean = filter (\<lambda>c. \<not> is_space c) hex
      in if length clean mod 2 \<noteq> 0 then Inl (JsError ''odd hex length'') else Inr (hex_pairs clean))"

lemma hex_digits: "i < 16 \<Longrightarrow> hex_val (hex_alphabet ! i) = Some i \<and> \<not> is_space (hex_alphabet ! i)
    \<and> hex_alphabet ! i \<noteq> CHR ''-'' \<and> hex_alphabet ! i \<noteq> CHR ''+'' \<and> hex_alphabet ! i \<noteq> CHR ''x'' \<and> hex_alphabet ! i \<noteq> CHR ''X''"
proof -
  assume i: "i < 16"
  have d: "distinct hex_alphabet" and len: "length hex_alphabet = 16" by (simp_all add: hex_alphabet_def)
  have "list_all (\<lambda>c. to_lower_char c = c \<and> \<not> is_space c \<and> c \<noteq> CHR ''-'' \<and> c \<noteq> CHR ''+'' \<and> c \<noteq> CHR ''x'' \<and> c \<noteq> CHR ''X'') hex_alphabet"
    by (simp add: hex_alphabet_def to_lower_char_def is_space_def)
  then have "to_lower_char (hex_alphabet ! i) = hex_alphabet ! i \<and> \<not> is_space (hex_alphabet ! i)
    \<and> hex_alphabet ! i \<noteq> CHR ''-'' \<and> hex_alphabet ! i \<noteq> CHR ''+'' \<and> hex_alphabet ! i \<noteq> CHR ''x'' \<and> hex_alphabet ! i \<noteq> CHR ''X''"
    using i len by (simp add: list_all_length)
  then show ?thesis using index_of_nth [OF d] i len by (simp add: hex_val_def)
qed

lemma unat_byte: "unat b < 256" for b :: byte
  using unsigned_less [of b, where ?'a = nat] by simp

lemma parse_byte_digits: "parse_byte (hex_alphabet ! (unat b div 16)) (hex_alphabet ! (unat b mod 16)) = b"
proof -
  have i: "unat b div 16 < 16" "unat b mod 16 < 16" using unat_byte [of b] by auto
  have "16 * (unat b div 16) + unat b mod 16 = unat b" by simp
  then show ?thesis
    using hex_digits [OF i(1)] hex_digits [OF i(2)] by (simp add: parse_byte_def)
qed

text \<open>Hexadecimal round trip: every byte string is read back from its hexadecimal form, whatever white space is
  inserted, and a string with an odd number of digits is refused.\<close>

lemma hex_round_trip:
  assumes "filter (\<lambda>c. \<not> is_space c) s = toHex data"
  shows "fromHex s = Inr data"
proof -
  have "hex_pairs (toHex data) = data \<and> even (length (toHex data))"
    by (induction data) (simp_all add: toHex_def parse_byte_digits)
  then show ?thesis using assms by (simp add: fromHex_def even_iff_mod_2_eq_zero)
qed

section \<open>Base64url\<close>

definition b64_alphabet :: string where
  "b64_alphabet = ''ABCDEFGHIJKLMNOPQRSTUVWXYZabcdefghijklmnopqrstuvwxyz0123456789+/''"

definition b64_char :: "nat \<Rightarrow> char" where "b64_char i = b64_alphabet ! i"

fun btoa :: "bytes \<Rightarrow> string" where
  "btoa [] = []"
| "btoa [a] = [b64_char (unat a div 4), b64_char (unat a mod 4 * 16), CHR ''='', CHR ''='']"
| "btoa [a, b] = [b64_char (unat a div 4), b64_char (unat a mod 4 * 16 + unat b div 16), b64_char (unat b mod 16 * 4), CHR ''='']"
| "btoa (a # b # c # rest) =
     [b64_char (unat a div 4), b64_char (unat a mod 4 * 16 + unat b div 16),
      b64_char (unat b mod 16 * 4 + unat c div 64), b64_char (unat c mod 64)] @ btoa rest"

definition url_char :: "char \<Rightarrow> char" where
  "url_char c = (if c = CHR ''+'' then CHR ''-'' else if c = CHR ''/'' then CHR ''_'' else c)"

definition std_char :: "char \<Rightarrow> char" where
  "std_char c = (if c = CHR ''-'' then CHR ''+'' else if c = CHR ''_'' then CHR ''/'' else c)"

definition strip_end :: "char \<Rightarrow> string \<Rightarrow> string" where
  "strip_end c s = rev (dropWhile (\<lambda>x. x = c) (rev s))"

definition b64url :: "bytes \<Rightarrow> string" where
  "b64url data = strip_end CHR ''='' (map url_char (btoa data))"

text \<open>The forgiving decoder of the platform.\<close>

fun b64_groups :: "nat list \<Rightarrow> bytes" where
  "b64_groups (x # y # z # w # rest) = [word_of_nat (x * 4 + y div 16), word_of_nat (y mod 16 * 16 + z div 4), word_of_nat (z mod 4 * 64 + w)] @ b64_groups rest"
| "b64_groups [x, y, z] = [word_of_nat (x * 4 + y div 16), word_of_nat (y mod 16 * 16 + z div 4)]"
| "b64_groups [x, y] = [word_of_nat (x * 4 + y div 16)]"
| "b64_groups _ = []"

definition ascii_space :: "char \<Rightarrow> bool" where
  "ascii_space c \<longleftrightarrow> (of_char c :: nat) \<in> {9, 10, 12, 13, 32}"

fun drop_pad :: "nat \<Rightarrow> string \<Rightarrow> string" where
  "drop_pad (Suc n) (c # s) = (if c = CHR ''='' then drop_pad n s else c # s)"
| "drop_pad _ s = s"

definition atob :: "string \<Rightarrow> bytes result" where
  "atob s =
     (let t = filter (\<lambda>c. \<not> ascii_space c) s;
          u = (if length t mod 4 = 0 then rev (drop_pad 2 (rev t)) else t);
          vs = map (index_of b64_alphabet) u
      in if length u mod 4 = 1 \<or> None \<in> set vs then Inl (JsError ''InvalidCharacterError'') else Inr (b64_groups (map the vs)))"

definition b64urlToBytes :: "string \<Rightarrow> bytes result" where
  "b64urlToBytes s = atob (map std_char s @ replicate ((4 - length s mod 4) mod 4) (CHR ''=''))"
subsection \<open>Round trip\<close>

fun b64_digits :: "bytes \<Rightarrow> nat list" where
  "b64_digits [] = []"
| "b64_digits [a] = [unat a div 4, unat a mod 4 * 16]"
| "b64_digits [a, b] = [unat a div 4, unat a mod 4 * 16 + unat b div 16, unat b mod 16 * 4]"
| "b64_digits (a # b # c # rest) =
     [unat a div 4, unat a mod 4 * 16 + unat b div 16, unat b mod 16 * 4 + unat c div 64, unat c mod 64] @ b64_digits rest"

definition b64_pad :: "bytes \<Rightarrow> nat" where "b64_pad d = (4 - length (b64_digits d) mod 4) mod 4"

lemma btoa_digits: "btoa d = map b64_char (b64_digits d) @ replicate (b64_pad d) (CHR ''='')"
proof -
  have pad: "b64_pad [] = 0" "b64_pad [a] = 2" "b64_pad [a, b] = 1" "b64_pad (a # b # c # r) = b64_pad r" for a b c r
    by (simp_all add: b64_pad_def)
  have "replicate 2 (CHR ''='') = [CHR ''='', CHR ''='']" by (simp add: numeral_2_eq_2)
  then show ?thesis by (induction d rule: btoa.induct) (simp_all add: pad)
qed

lemma digits_length: "b64_pad d \<le> 2 \<and> (length (b64_digits d) + b64_pad d) mod 4 = 0 \<and> length (b64_digits d) mod 4 \<noteq> 1"
  by (induction d rule: b64_digits.induct) (auto simp: b64_pad_def)

lemma digits_small: "i \<in> set (b64_digits d) \<Longrightarrow> i < 64"
proof (induction d rule: b64_digits.induct)
  case (2 a)
  then show ?case using unat_byte [of a] by auto
next
  case (3 a b)
  then show ?case using unat_byte [of a] unat_byte [of b] by auto
next
  case (4 a b c rest)
  have "unat a div 4 < 64" "unat b div 16 < 16" "unat c div 64 < 4"
    using unat_byte [of a] unat_byte [of b] unat_byte [of c] by auto
  moreover have "unat a mod 4 < 4" "unat b mod 16 < 16" "unat c mod 64 < 64" by simp_all
  ultimately show ?case using 4 by auto
qed simp

lemma word_back: "word_of_nat (unat b) = b" for b :: byte
  by simp

lemma groups_digits: "b64_groups (b64_digits d) = d"
proof (induction d rule: b64_digits.induct)
  case (4 a b c rest)
  have "unat a div 4 * 4 + (unat a mod 4 * 16 + unat b div 16) div 16 = unat a"
    "(unat a mod 4 * 16 + unat b div 16) mod 16 * 16 + (unat b mod 16 * 4 + unat c div 64) div 4 = unat b"
    "(unat b mod 16 * 4 + unat c div 64) mod 4 * 64 + unat c mod 64 = unat c"
    using unat_byte [of b] unat_byte [of c] by (simp_all add: div_mult_mod_eq less_mult_imp_div_less)
  with 4 show ?case by (simp add: word_back)
next
  case (2 a)
  have "unat a div 4 * 4 + unat a mod 4 * 16 div 16 = unat a" by simp
  then show ?case by (simp add: word_back)
next
  case (3 a b)
  have "unat a div 4 * 4 + (unat a mod 4 * 16 + unat b div 16) div 16 = unat a"
    "(unat a mod 4 * 16 + unat b div 16) mod 16 * 16 + unat b mod 16 * 4 div 4 = unat b"
    using unat_byte [of b] by (simp_all add: less_mult_imp_div_less)
  then show ?case by (simp add: word_back)
qed simp

lemma b64_chars: "i < 64 \<Longrightarrow> index_of b64_alphabet (b64_char i) = Some i \<and> std_char (url_char (b64_char i)) = b64_char i
    \<and> \<not> ascii_space (b64_char i) \<and> b64_char i \<noteq> CHR ''='' \<and> url_char (b64_char i) \<noteq> CHR ''=''"
proof -
  assume i: "i < 64"
  have d: "distinct b64_alphabet" and len: "length b64_alphabet = 64" by (simp_all add: b64_alphabet_def)
  have "list_all (\<lambda>c. std_char (url_char c) = c \<and> \<not> ascii_space c \<and> c \<noteq> CHR ''='' \<and> url_char c \<noteq> CHR ''='') b64_alphabet"
    by (simp add: b64_alphabet_def std_char_def url_char_def ascii_space_def)
  then show ?thesis using index_of_nth [OF d] i len by (simp add: list_all_length b64_char_def)
qed

lemma strip_end_append: "(\<And>x. x \<in> set xs \<Longrightarrow> x \<noteq> c) \<Longrightarrow> strip_end c (xs @ replicate n c) = xs"
proof -
  assume a: "\<And>x. x \<in> set xs \<Longrightarrow> x \<noteq> c"
  have "dropWhile (\<lambda>x. x = c) (rev xs) = rev xs"
    using a by (cases xs rule: rev_cases) auto
  then have "dropWhile (\<lambda>x. x = c) (replicate n c @ rev xs) = rev xs" by (induction n) auto
  then show ?thesis by (simp add: strip_end_def)
qed

lemma drop_pad_replicate: "n \<le> k \<Longrightarrow> (xs = [] \<or> hd xs \<noteq> CHR ''='') \<Longrightarrow> drop_pad k (replicate n (CHR ''='') @ xs) = xs"
proof (induction n arbitrary: k)
  case 0
  then show ?case by (cases k; cases xs) auto
next
  case (Suc n)
  then show ?case by (cases k) auto
qed

text \<open>Base64url round trip. The decoder reads back every byte string the encoder writes, and the text the encoder writes is
  made of the URL-safe alphabet, without padding.\<close>

lemma b64url_round_trip:
  "b64urlToBytes (b64url data) = Inr data \<and> list_all (\<lambda>c. c \<noteq> CHR ''+'' \<and> c \<noteq> CHR ''/'' \<and> c \<noteq> CHR ''='') (b64url data)"
proof -
  let ?ds = "b64_digits data" and ?n = "b64_pad data"
  have small: "\<And>i. i \<in> set ?ds \<Longrightarrow> i < 64" by (rule digits_small)
  have url: "b64url data = map (url_char \<circ> b64_char) ?ds"
  proof -
    have "url_char (CHR ''='') = CHR ''=''" by (simp add: url_char_def)
    moreover have "x \<noteq> CHR ''=''" if "x \<in> set (map (url_char \<circ> b64_char) ?ds)" for x
      using that b64_chars [OF small] by auto
    ultimately show ?thesis
      unfolding b64url_def btoa_digits map_append map_map map_replicate by (metis strip_end_append)
  qed
  have std: "map std_char (b64url data) = map b64_char ?ds"
    unfolding url using b64_chars [OF small] by simp
  have whole: "map std_char (b64url data) @ replicate ((4 - length (b64url data) mod 4) mod 4) (CHR ''='')
      = map b64_char ?ds @ replicate ?n (CHR ''='')"
    unfolding std by (simp add: url b64_pad_def)
  have noblank: "filter (\<lambda>c. \<not> ascii_space c) (map b64_char ?ds @ replicate ?n (CHR ''='')) = map b64_char ?ds @ replicate ?n (CHR ''='')"
    using b64_chars [OF small] by (auto simp: filter_id_conv ascii_space_def)
  have tail: "rev (drop_pad 2 (rev (map b64_char ?ds @ replicate ?n (CHR ''='')))) = map b64_char ?ds"
  proof -
    have "rev (map b64_char ?ds) = [] \<or> hd (rev (map b64_char ?ds)) \<noteq> CHR ''=''"
      using b64_chars [OF small] by (cases ?ds rule: rev_cases) auto
    then show ?thesis using digits_length [of data] drop_pad_replicate [of ?n 2 "rev (map b64_char ?ds)"] by simp
  qed
  have vals: "map (index_of b64_alphabet) (map b64_char ?ds) = map Some ?ds"
    using b64_chars [OF small] by simp
  have "b64urlToBytes (b64url data) = Inr data"
  proof -
    have full: "length (map b64_char ?ds @ replicate ?n (CHR ''='')) mod 4 = 0" and ok: "length (map b64_char ?ds) mod 4 \<noteq> 1"
      using digits_length [of data] by simp_all
    have "atob (map b64_char ?ds @ replicate ?n (CHR ''=''))
        = (if length (map b64_char ?ds) mod 4 = 1 \<or> None \<in> set (map Some ?ds) then Inl (JsError ''InvalidCharacterError'')
           else Inr (b64_groups (map the (map Some ?ds))))"
      unfolding atob_def Let_def noblank if_P [OF full] tail vals ..
    also have "\<dots> = Inr data" using ok by (auto simp: comp_def groups_digits)
    finally show ?thesis by (simp only: b64urlToBytes_def whole)
  qed
  moreover have "list_all (\<lambda>c. c \<noteq> CHR ''+'' \<and> c \<noteq> CHR ''/'' \<and> c \<noteq> CHR ''='') (b64url data)"
    unfolding url using b64_chars [OF small] by (auto simp: list_all_iff url_char_def)
  ultimately show ?thesis ..
qed

section \<open>DER signatures\<close>

text \<open>Reading past the end yields \<^verbatim>\<open>undefined\<close>: it is 0 in a bitwise operation, unequal to every tag, and makes
  \<^verbatim>\<open>BigInt\<close> throw. The rest of the input stands for the index \<^verbatim>\<open>i\<close>.\<close>

fun der_length :: "nat \<Rightarrow> word32 \<Rightarrow> bytes \<Rightarrow> word32 \<times> bytes" where
  "der_length 0 len bs = (len, bs)"
| "der_length (Suc n) len [] = der_length n (push_bit 8 len) []"
| "der_length (Suc n) len (b # bs) = der_length n (push_bit 8 len OR ucast b) bs"

fun der_value :: "nat \<Rightarrow> int \<Rightarrow> bytes \<Rightarrow> (int \<times> bytes) result" where
  "der_value 0 v bs = Inr (v, bs)"
| "der_value (Suc n) v [] = Inl (JsError ''Cannot convert undefined to a BigInt'')"
| "der_value (Suc n) v (b # bs) = der_value n (v * 256 + uint b) bs"

text \<open>The length octets of an INTEGER; its number of octets is a signed 32-bit loop bound.\<close>

definition der_header :: "bytes \<Rightarrow> nat \<times> bytes" where
  "der_header bs =
     (case bs of
        [] \<Rightarrow> (0, [])
      | l # rest \<Rightarrow>
          if l AND 0x80 \<noteq> 0 then (case der_length (unat (l AND 0x7f)) 0 rest of (len, r) \<Rightarrow> (nat (sint len), r))
          else (unat l, rest))"

lemma der_length_shorter: "length (snd (der_length n len bs)) \<le> length bs"
  by (induction n len bs rule: der_length.induct) auto

lemma der_header_shorter: "length (snd (der_header bs)) \<le> length bs"
  using der_length_shorter by (auto simp: der_header_def split: list.splits prod.splits) (metis le_SucI snd_conv)

lemma der_value_shorter: "der_value n v bs = Inr (w, r) \<Longrightarrow> length r \<le> length bs"
  by (induction n v bs rule: der_value.induct) auto

function der_ints :: "bytes \<Rightarrow> int list result" where
  "der_ints [] = Inr []"
| "der_ints (t # bs) =
     (if t \<noteq> 0x02 then Inl (JsError ''not an INTEGER'')
      else case der_value (fst (der_header bs)) 0 (snd (der_header bs)) of
        Inl e \<Rightarrow> Inl e
      | Inr vr \<Rightarrow> bind_result (der_ints (snd vr)) (\<lambda>vs. Inr (fst vr # vs)))"
  by pat_completeness auto

termination
proof (relation "measure length")
  fix t :: byte and bs vr
  assume "der_value (fst (der_header bs)) 0 (snd (der_header bs)) = Inr vr"
  then have "length (snd vr) \<le> length bs"
    using der_value_shorter [of _ _ _ "fst vr" "snd vr"] der_header_shorter [of bs] by (metis order_trans prod.collapse)
  then show "(snd vr, t # bs) \<in> measure length" by simp
qed simp

definition derToRawEcdsa :: "bytes \<Rightarrow> bytes result" where
  "derToRawEcdsa der =
     (case der of
        [] \<Rightarrow> Inl (JsError ''not a DER signature'')
      | tag # rest \<Rightarrow>
          if tag \<noteq> 0x30 then Inl (JsError ''not a DER signature'')
          else let body = (case rest of
                 [] \<Rightarrow> []
               | seqLen # r \<Rightarrow> if seqLen AND 0x80 \<noteq> 0 then drop (unat (seqLen AND 0x7f)) r else r)
            in bind_result (der_ints body) (\<lambda>ints.
                 case ints of
                   [r, s] \<Rightarrow> Inr (bigintToPadded32 r @ bigintToPadded32 s)
                 | _ \<Rightarrow> Inl (JsError ''expected 2 integers'')))"

text \<open>The canonical encoding of a signature.\<close>

definition der_integer :: "int \<Rightarrow> bytes" where
  "der_integer v =
     (let b = dropWhile (\<lambda>x. x = 0) (bigintToPadded32 v); c = (if b = [] \<or> bit (hd b) 7 then 0 # b else b)
      in 0x02 # word_of_nat (length c) # c)"

definition der_signature :: "int \<Rightarrow> int \<Rightarrow> bytes" where
  "der_signature r s =
     (let body = der_integer r @ der_integer s in 0x30 # word_of_nat (length body) # body)"

lemma der_value_bytes: "der_value (length c) v (c @ rest) = Inr (v * 256 ^ length c + bytesToBigint c, rest)"
proof -
  have "der_value (length c) v (c @ rest) = Inr (foldl (\<lambda>v x. v * 256 + uint x) v c, rest)" for v
    by (induction c arbitrary: v) auto
  moreover have "foldl (\<lambda>v x. v * 256 + uint x) a c = a * 256 ^ length c + bytesToBigint c" for a
  proof (induction c arbitrary: a)
    case (Cons x c)
    show ?case using Cons [of "a * 256 + uint x"] Cons [of "uint x"] by (simp add: bytesToBigint_def algebra_simps)
  qed (simp add: bytesToBigint_def)
  ultimately show ?thesis by simp
qed

lemma short_length: "n < 128 \<Longrightarrow> (word_of_nat n :: byte) AND 0x80 = 0 \<and> unat (word_of_nat n :: byte) = n"
proof -
  assume n: "n < 128"
  have "\<not> bit n k" if "k \<ge> 7" for k
  proof -
    have "n < 2 ^ k" using n power_increasing [OF that, of "2 :: nat"] by simp
    then show ?thesis by (simp add: bit_iff_odd)
  qed
  moreover have "bit (0x80 :: byte) k \<Longrightarrow> k = 7" for k
    using bit_exp_iff [of 7 k, where ?'a = byte] by simp
  ultimately have "(word_of_nat n :: byte) AND 0x80 = 0"
    by (intro bit_word_eqI) (auto simp: bit_simps)
  with n show ?thesis by (simp add: unsigned_of_nat take_bit_nat_eq_self)
qed

lemma be_leading_zeros: "bytesToBigint (dropWhile (\<lambda>x. x = 0) b) = bytesToBigint b"
  by (induction b) (auto simp: bytesToBigint_def)

lemma padded_value: "0 \<le> v \<Longrightarrow> v < 2 ^ 256 \<Longrightarrow> bytesToBigint (bigintToPadded32 v) = v"
  by (simp add: be_value bigintToPadded32_def le_value_bytes)

lemma padded_length [simp]: "length (bigintToPadded32 v) = 32"
  by (simp add: bigintToPadded32_def)

lemma der_integer_read:
  assumes "0 \<le> v" "v < 2 ^ 256"
  shows "der_ints (der_integer v @ rest) = bind_result (der_ints rest) (\<lambda>vs. Inr (v # vs))
    \<and> length (der_integer v) \<le> 35"
proof -
  define b where "b = dropWhile (\<lambda>x. x = 0) (bigintToPadded32 v)"
  define c where "c = (if b = [] \<or> bit (hd b) 7 then 0 # b else b)"
  have int: "der_integer v = 0x02 # word_of_nat (length c) # c"
    by (simp add: der_integer_def Let_def b_def c_def)
  have "length b \<le> 32"
    unfolding b_def using length_dropWhile_le [of "\<lambda>x. x = 0" "bigintToPadded32 v"] by simp
  then have len: "length c \<le> 33" by (simp add: c_def)
  have val: "bytesToBigint c = v"
  proof -
    have "bytesToBigint b = v" using assms be_leading_zeros [of "bigintToPadded32 v"] by (simp add: padded_value b_def)
    moreover have "bytesToBigint (0 # b) = bytesToBigint b" by (simp add: bytesToBigint_def)
    ultimately show ?thesis by (simp add: c_def)
  qed
  have "der_header (word_of_nat (length c) # c @ rest) = (length c, c @ rest)"
    using len short_length [of "length c"] by (simp add: der_header_def)
  then show ?thesis using len by (simp add: int der_value_bytes val)
qed

text \<open>Decoding the DER form of an ECDSA signature is exact: the canonical encoding of any pair \<open>r\<close>, \<open>s\<close> of 256-bit
  values, with the sign octet and the shortest lengths, is turned into the 64-byte string whose halves are the big-endian
  \<open>r\<close> and \<open>s\<close>, so the signature that is verified is the one that the authenticator made.\<close>

lemma der_signature_decodes:
  assumes "0 \<le> r" "r < 2 ^ 256" "0 \<le> s" "s < 2 ^ 256"
  shows "\<exists>raw. derToRawEcdsa (der_signature r s) = Inr raw \<and> length raw = 64
    \<and> bytesToBigint (take 32 raw) = r \<and> bytesToBigint (drop 32 raw) = s"
proof -
  let ?body = "der_integer r @ der_integer s"
  have "length ?body < 128" using der_integer_read [of r "[]"] der_integer_read [of s "[]"] assms by simp
  note short = short_length [OF this]
  have "der_ints ?body = Inr [r, s]"
    using der_integer_read [of r "der_integer s"] der_integer_read [of s "[]"] assms by simp
  then have "derToRawEcdsa (der_signature r s) = Inr (bigintToPadded32 r @ bigintToPadded32 s)"
    using short by (simp add: derToRawEcdsa_def der_signature_def Let_def)
  with assms show ?thesis by (simp add: padded_value)
qed

definition SECP256R1_ORDER :: int where
  "SECP256R1_ORDER = 0xFFFFFFFF00000000FFFFFFFFFFFFFFFFBCE6FAADA7179E84F3B9CAC2FC632551"

definition normalizeLowS :: "bytes \<Rightarrow> bytes result" where
  "normalizeLowS signature =
     (if length signature \<noteq> 64 then Inl (JsError ''secp256r1 signature must be 64 bytes'')
      else let r = bytesToBigint (take 32 signature); s = bytesToBigint (drop 32 signature);
               s' = (if s > bigdiv SECP256R1_ORDER 2 then SECP256R1_ORDER - s else s)
        in Inr (bigintToPadded32 r @ bigintToPadded32 s'))"

lemma be_range: "0 \<le> bytesToBigint b" "bytesToBigint b < 256 ^ length b"
  using le_value_range [of "rev b"] by (simp_all add: be_value)

text \<open>Low-S normalization of a 64-byte signature whose \<open>s\<close> is at most the group order returns the same \<open>r\<close> and either \<open>s\<close>
  or its negation modulo the order, never more than half the order, and normalizing again changes nothing. A string of
  another length is refused.\<close>

lemma normalizeLowS_correct:
  assumes len: "length sig = 64" and small: "bytesToBigint (drop 32 sig) \<le> SECP256R1_ORDER"
  shows "\<exists>out. normalizeLowS sig = Inr out \<and> length out = 64
    \<and> bytesToBigint (take 32 out) = bytesToBigint (take 32 sig)
    \<and> bytesToBigint (drop 32 out) \<in> {bytesToBigint (drop 32 sig), SECP256R1_ORDER - bytesToBigint (drop 32 sig)}
    \<and> 2 * bytesToBigint (drop 32 out) \<le> SECP256R1_ORDER
    \<and> normalizeLowS out = Inr out
    \<and> (\<forall>bad. length bad \<noteq> 64 \<longrightarrow> normalizeLowS bad = Inl (JsError ''secp256r1 signature must be 64 bytes''))"
proof -
  define r where "r = bytesToBigint (take 32 sig)"
  define s where "s = bytesToBigint (drop 32 sig)"
  define s' where "s' = (if s > SECP256R1_ORDER div 2 then SECP256R1_ORDER - s else s)"
  define out where "out = bigintToPadded32 r @ bigintToPadded32 s'"
  have half: "bigdiv SECP256R1_ORDER 2 = SECP256R1_ORDER div 2"
    by (simp add: bigdiv_nonneg SECP256R1_ORDER_def)
  have r: "0 \<le> r" "r < 2 ^ 256" using be_range [of "take 32 sig"] len by (simp_all add: r_def)
  have s: "0 \<le> s" "s < 2 ^ 256" using be_range [of "drop 32 sig"] len by (simp_all add: s_def)
  have low: "s' \<le> SECP256R1_ORDER div 2" by (simp add: s'_def SECP256R1_ORDER_def)
  have pos: "0 \<le> s'" using s small by (simp add: s'_def s_def)
  have "SECP256R1_ORDER < 2 ^ 256" by (simp add: SECP256R1_ORDER_def)
  with low pos have s': "s' < 2 ^ 256" by simp
  have norm: "normalizeLowS sig = Inr out"
    using len by (simp add: normalizeLowS_def Let_def half r_def s_def s'_def out_def)
  have parts: "length out = 64" "bytesToBigint (take 32 out) = r" "bytesToBigint (drop 32 out) = s'"
    using r pos s' by (simp_all add: out_def padded_value)
  have "normalizeLowS out = Inr out"
    using parts low by (simp add: normalizeLowS_def Let_def half out_def)
  moreover have "s' = s \<or> s' = SECP256R1_ORDER - s" by (simp add: s'_def)
  moreover have "2 * s' \<le> SECP256R1_ORDER" using low by simp
  ultimately show ?thesis
    using norm parts by (auto simp: r_def s_def normalizeLowS_def)
qed

end
