(* ===== verification/Wallet_Rotate.thy ===== *)
theory Wallet_Rotate
  imports Relayer_Slots Cose Core_Codec Batch_Intent
begin

text \<open>
  Rotation of the on-chain authority, \<^verbatim>\<open>apps/api/src/wallet/rotate.service.ts\<close>: the checks of a request, the claim of its slot, the guard
  against a second rotation, the broadcast with resolve-then-act, the confirmation by polling and the revocation of the old
  credential. The state adds the credentials and the chain accounts of the database to the relayer's.

  The Solana adapter talks to the chain; its methods, the registry lookups that build it, the relayer's key pair and the hexadecimal
  SHA-256 of \<^verbatim>\<open>createHash\<close> are the fields of \<open>rotate_ports\<close>. \<^verbatim>\<open>findFirst\<close> without an order returns any matching row.
\<close>

section \<open>Data\<close>

record credential =
  cr_id :: string
  cr_pid :: string
  cr_credentialId :: string
  cr_publicKey :: bytes
  cr_status :: string
  cr_createdAt :: int

record chain_account =
  ca_pid :: string
  ca_accountType :: string
  ca_namespace :: string
  ca_address :: string
  ca_claimAuthority :: "bytes option"
  ca_createdAt :: int

record 'w wallet = "'w relayer" +
  wl_authorities :: "credential list"
  wl_accounts :: "chain_account list"

record assertion =
  as_id :: string
  as_signature :: string
  as_authenticatorData :: string
  as_clientDataJSON :: string

record rotate_dto =
  rd_oldCredentialId :: string
  rd_newCredentialId :: string
  rd_nonce :: string
  rd_expiry :: int
  rd_assertion :: assertion

record PasskeyAssertion =
  pa_credentialId :: string
  pa_signature :: bytes
  pa_authenticatorData :: bytes
  pa_clientDataJSON :: bytes

record rotate_tx =
  rx_pid :: string
  rx_currentKey :: bytes
  rx_newKey :: bytes
  rx_nonce :: int
  rx_expiry :: int
  rx_assertion :: PasskeyAssertion
  rx_relayer :: string
  rx_derivation :: bytes

record RotateAuthorityResult =
  rt_signature :: string
  rt_status :: string

record 'w rotate_ports =
  rp_adapter :: "'w \<Rightarrow> unit result \<times> 'w"
  rp_isActivated :: "string \<Rightarrow> 'w \<Rightarrow> bool result \<times> 'w"
  rp_getNonce :: "string \<Rightarrow> bytes \<Rightarrow> 'w \<Rightarrow> int result \<times> 'w"
  rp_chainTime :: "'w \<Rightarrow> int result \<times> 'w"
  rp_submitRotateAuthorityTx :: "rotate_tx \<Rightarrow> 'w \<Rightarrow> string result \<times> 'w"
  rp_getAuthorityOf :: "string \<Rightarrow> 'w \<Rightarrow> bytes result \<times> 'w"
  rp_getNonceOf :: "string \<Rightarrow> 'w \<Rightarrow> int result \<times> 'w"
  rp_parseTransaction :: "string \<Rightarrow> 'w \<Rightarrow> int option option result \<times> 'w"
  rp_relayer :: "string result"
  rp_sha256 :: "string \<Rightarrow> string"
  rp_pickAccount :: "chain_account list \<Rightarrow> nat"
  rp_pickCredential :: "credential list \<Rightarrow> nat"

definition MAX_TTL_SECS :: int where "MAX_TTL_SECS = 600"
definition ACCOUNT_TYPE_SMART :: string where "ACCOUNT_TYPE_SMART = ''smart_account''"
definition SOLANA_NAMESPACE :: string where "SOLANA_NAMESPACE = ''solana''"

text \<open>A call of a port.\<close>

definition port :: "('w \<Rightarrow> 'a result \<times> 'w) \<Rightarrow> (('w, 'z) relayer_scheme, 'a) eff" where
  "port f s = (case f (rl_world s) of (r, w) \<Rightarrow> (r, s\<lparr>rl_world := w\<rparr>))"

text \<open>\<^verbatim>\<open>orderBy: { createdAt: "asc" }\<close> with \<^verbatim>\<open>findFirst\<close>.\<close>

definition oldest :: "('a \<Rightarrow> int) \<Rightarrow> 'a list \<Rightarrow> 'a option" where
  "oldest created rows = (case sort_key created rows of [] \<Rightarrow> None | r # _ \<Rightarrow> Some r)"

section \<open>Lookups\<close>

definition smart_account :: "'w env \<Rightarrow> 'w rotate_ports \<Rightarrow> string \<Rightarrow> (('w, 'z) wallet_scheme, chain_account option) eff" where
  "smart_account ev p pid = bind_eff (statement ev get_state) (\<lambda>st. ret (pick_row (rp_pickAccount p)
     (filter (\<lambda>a. ca_pid a = pid \<and> ca_accountType a = ACCOUNT_TYPE_SMART) (wl_accounts st))))"

definition active_credential :: "'w env \<Rightarrow> 'w rotate_ports \<Rightarrow> string \<Rightarrow> string \<Rightarrow> (('w, 'z) wallet_scheme, credential option) eff" where
  "active_credential ev p pid credentialId = bind_eff (statement ev get_state) (\<lambda>st. ret (pick_row (rp_pickCredential p)
     (filter (\<lambda>c. cr_pid c = pid \<and> cr_credentialId c = credentialId \<and> cr_status c = ''active'') (wl_authorities st))))"

definition derivationAuthority :: "'w env \<Rightarrow> string \<Rightarrow> (('w, 'z) wallet_scheme, bytes) eff" where
  "derivationAuthority ev pid =
     bind_eff (statement ev get_state) (\<lambda>st.
       case Option.bind (oldest ca_createdAt (filter (\<lambda>a. ca_pid a = pid \<and> ca_accountType a = ACCOUNT_TYPE_SMART
              \<and> ca_namespace a = SOLANA_NAMESPACE) (wl_accounts st))) ca_claimAuthority of
         Some claimKey \<Rightarrow> ret claimKey
       | None \<Rightarrow>
           bind_eff (statement ev get_state) (\<lambda>st1.
             case oldest cr_createdAt (filter (\<lambda>c. cr_pid c = pid \<and> cr_status c = ''active'') (wl_authorities st1)) of
               None \<Rightarrow> throw (BadRequest ''No passkey registered - register one first'')
             | Some c \<Rightarrow> lift_result (coseToCompressedSecp256r1 (cr_publicKey c))))"

definition reject :: "'w env \<Rightarrow> string \<Rightarrow> string \<Rightarrow> string \<Rightarrow> http_error \<Rightarrow> (('w, 'z) wallet_scheme, 'a) eff" where
  "reject ev pid nonce cause err =
     bind_eff (log_security ev pid ''intent.rejected''
       [(''chain'', JStr ''solana''), (''entryPoint'', JStr ''rotate''), (''cause'', JStr cause), (''nonce'', JStr nonce)]) (\<lambda>_.
     throw err)"

section \<open>Confirmation\<close>

text \<open>\<open>n\<close> polls are left; each waits a second when it does not see the new key.\<close>

fun confirm_loop :: "'w env \<Rightarrow> 'w rotate_ports \<Rightarrow> string \<Rightarrow> string \<Rightarrow> nat \<Rightarrow> (('w, 'z) wallet_scheme, bool) eff" where
  "confirm_loop ev p address newKeyHex 0 s = (Inr False, s)"
| "confirm_loop ev p address newKeyHex (Suc n) s =
     (case port (rp_getAuthorityOf p address) s of
        (Inr key, s1) \<Rightarrow> if toHex key = newKeyHex then (Inr True, s1) else confirm_loop ev p address newKeyHex n (wait ev 1000 s1)
      | (Inl _, s1) \<Rightarrow> confirm_loop ev p address newKeyHex n (wait ev 1000 s1))"

definition confirmRotation :: "'w env \<Rightarrow> 'w rotate_ports \<Rightarrow> string \<Rightarrow> string \<Rightarrow> (('w, 'z) wallet_scheme, bool) eff" where
  "confirmRotation ev p address newKeyHex = confirm_loop ev p address newKeyHex 15"

definition revoke_row :: "string \<Rightarrow> credential list \<Rightarrow> credential list" where
  "revoke_row credId rows = map (\<lambda>c. if cr_id c = credId then c\<lparr>cr_status := ''revoked''\<rparr> else c) rows"

definition revoke :: "'w env \<Rightarrow> string \<Rightarrow> (('w, 'z) wallet_scheme, unit) eff" where
  "revoke ev credId = statement ev (\<lambda>s.
     if find (\<lambda>c. cr_id c = credId) (wl_authorities s) = None then (Inl (JsError ''P2025''), s)
     else (Inr (), s\<lparr>wl_authorities := revoke_row credId (wl_authorities s)\<rparr>))"

text \<open>\<^verbatim>\<open>revocations.recordRevocation(...)\<close> cannot fail; it reads the clock.\<close>

definition count_revocation :: "'w env \<Rightarrow> (('w, 'z) wallet_scheme, RevocationSnapshot) eff" where
  "count_revocation ev s = recordRevocation BROADCAST_CHAIN_SOLANA (ev_now ev (rl_world s)) s"

definition reconcileRotationCost :: "'w env \<Rightarrow> 'w rotate_ports \<Rightarrow> string \<Rightarrow> string \<Rightarrow> (('w, 'z) wallet_scheme, unit) eff" where
  "reconcileRotationCost ev p pid signature =
     bind_eff (catch_default (port (rp_parseTransaction p signature)) None) (\<lambda>parsed.
     let actual = (case parsed of Some (Some fee) \<Rightarrow> fee | _ \<Rightarrow> 0);
         absorbed = absorbedLoss 0 (Some actual)
     in bind_eff (log_security ev pid ''relayer.pnl''
          [(''chain'', JStr BROADCAST_CHAIN_SOLANA), (''entryPoint'', JStr ''rotate''), (''signature'', JStr signature),
           (''absorbed'', JStr (show_int absorbed)), (''attested'', JStr ''0''), (''actual'', JStr (show_int actual))]) (\<lambda>_.
        bind_eff (try_eff (recordAbsorbed ev pid BROADCAST_CHAIN_SOLANA absorbed)) (\<lambda>_. ret ())))"

text \<open>The completion of a request whose rotation the chain already shows.\<close>

definition replay_completion ::
  "'w env \<Rightarrow> string \<Rightarrow> string \<Rightarrow> rotate_dto \<Rightarrow> string option \<Rightarrow> (('w, 'z) wallet_scheme, RotateAuthorityResult) eff" where
  "replay_completion ev pid oldCredId dto signature =
     bind_eff (revoke ev oldCredId) (\<lambda>_.
     bind_eff (count_revocation ev) (\<lambda>_.
     bind_eff (case signature of
         Some sig \<Rightarrow> if sig \<noteq> [] then recordOutcome ev (pid, rd_nonce dto, BROADCAST_CHAIN_SOLANA, ERotate) BConfirmed (Some sig) else ret ()
       | None \<Rightarrow> ret ()) (\<lambda>_.
     bind_eff (log_security ev pid ''credential.rotated''
       [(''chain'', JStr ''solana''), (''signature'', json_opt_string signature), (''from'', JStr (rd_oldCredentialId dto)),
        (''to'', JStr (rd_newCredentialId dto)), (''idempotentReplay'', JBool True)]) (\<lambda>_.
     ret \<lparr>rt_signature = nullish signature ''unknown'', rt_status = ''confirmed''\<rparr>))))"

definition finishRotationIfConfirmed ::
  "'w env \<Rightarrow> 'w rotate_ports \<Rightarrow> string \<Rightarrow> string \<Rightarrow> rotate_dto \<Rightarrow> bytes \<Rightarrow> string option
    \<Rightarrow> (('w, 'z) wallet_scheme, RotateAuthorityResult option) eff" where
  "finishRotationIfConfirmed ev p pid oldCredId dto newKey signature =
     bind_eff (smart_account ev p pid) (\<lambda>row.
     bind_eff (case row of
         Some r \<Rightarrow> catch_default (confirmRotation ev p (ca_address r) (toHex newKey)) False
       | None \<Rightarrow> ret False) (\<lambda>confirmed.
     if \<not> confirmed then ret None
     else
bind_eff (replay_completion ev pid oldCredId dto signature) (\<lambda>res. ret (Some res))))"

section \<open>Broadcast and confirm\<close>

definition rotation_broadcast ::
  "'w env \<Rightarrow> 'w rotate_ports \<Rightarrow> string \<Rightarrow> rotate_dto \<Rightarrow> int \<Rightarrow> bytes \<Rightarrow> bytes \<Rightarrow> PasskeyAssertion
    \<Rightarrow> (('w, 'z) wallet_scheme, string \<times> unit) eff" where
  "rotation_broadcast ev p pid dto chainNonce currentKey newKey asserted =
     bind_eff (lift_result (rp_relayer p)) (\<lambda>relayer.
     bind_eff (derivationAuthority ev pid) (\<lambda>derivation.
     bind_eff (port (rp_submitRotateAuthorityTx p \<lparr>rx_pid = pid, rx_currentKey = currentKey, rx_newKey = newKey, rx_nonce = chainNonce,
         rx_expiry = rd_expiry dto, rx_assertion = asserted, rx_relayer = relayer, rx_derivation = derivation\<rparr>)) (\<lambda>sig.
     ret (sig, ()))))"

definition rotation_state ::
  "'w rotate_ports \<Rightarrow> string option \<Rightarrow> int \<Rightarrow> bytes \<Rightarrow> string option \<Rightarrow> (('w, 'z) wallet_scheme, ChainStateResolution) eff" where
  "rotation_state p rowAddress chainNonce newKey slotSignature =
     (case rowAddress of
        None \<Rightarrow> ret UnreadableState
      | Some address \<Rightarrow>
          if address = [] then ret UnreadableState
          else bind_eff (try_eff (port (rp_getAuthorityOf p address))) (\<lambda>onChain.
            if (case onChain of Inr key \<Rightarrow> toHex key = toHex newKey | Inl _ \<Rightarrow> False) then ret (LandedWith slotSignature)
            else bind_eff (try_eff (port (rp_getNonceOf p address))) (\<lambda>nonceNow. case nonceNow of
                Inl _ \<Rightarrow> ret UnreadableState
              | Inr n \<Rightarrow> if n \<noteq> chainNonce then ret (LandedWith slotSignature) else ret NotLandedState)))"

definition UNCONFIRMED :: http_error where
  "UNCONFIRMED = ServiceUnavailable ''Rotation was submitted but not confirmed on-chain yet. Your current credential still works - please try again in a moment.''"

text \<open>What follows a confirmation.\<close>

definition complete_rotation ::
  "'w env \<Rightarrow> 'w rotate_ports \<Rightarrow> string \<Rightarrow> rotate_dto \<Rightarrow> string \<Rightarrow> string \<Rightarrow> (('w, 'z) wallet_scheme, RotateAuthorityResult) eff" where
  "complete_rotation ev p pid dto oldCredId signature =
     bind_eff (recordOutcome ev (pid, rd_nonce dto, BROADCAST_CHAIN_SOLANA, ERotate) BConfirmed (Some signature)) (\<lambda>_.
     bind_eff (revoke ev oldCredId) (\<lambda>_.
     bind_eff (count_revocation ev) (\<lambda>_.
     bind_eff (log_security ev pid ''credential.rotated''
       [(''chain'', JStr ''solana''), (''signature'', JStr signature), (''from'', JStr (rd_oldCredentialId dto)),
        (''to'', JStr (rd_newCredentialId dto))]) (\<lambda>_.
     bind_eff (reconcileRotationCost ev p pid signature) (\<lambda>_.
     ret \<lparr>rt_signature = signature, rt_status = ''confirmed''\<rparr>)))))"

definition submitAndConfirm ::
  "'w env \<Rightarrow> 'w rotate_ports \<Rightarrow> string \<Rightarrow> rotate_dto \<Rightarrow> int \<Rightarrow> bytes \<Rightarrow> bytes \<Rightarrow> PasskeyAssertion \<Rightarrow> string \<Rightarrow> string option
    \<Rightarrow> (('w, 'z) wallet_scheme, RotateAuthorityResult) eff" where
  "submitAndConfirm ev p pid dto chainNonce currentKey newKey asserted oldCredId slotSignature =
     (let k = (pid, rd_nonce dto, BROADCAST_CHAIN_SOLANA, ERotate);
          base = [(''chain'', JStr BROADCAST_CHAIN_SOLANA), (''entryPoint'', JStr ''rotate'')] in
     bind_eff (smart_account ev p pid) (\<lambda>row.
     let rowAddress = map_option ca_address row in
     bind_eff (broadcastWithResolveThenAct ev k (rotation_broadcast ev p pid dto chainNonce currentKey newKey asserted)
                 (rotation_state p rowAddress chainNonce newKey slotSignature)) (\<lambda>out.
     case rr_signature out of
       None \<Rightarrow>
         bind_eff (log_security ev pid ''credential.rotation.unconfirmed''
           (base @ [(''nonce'', JStr (rd_nonce dto)), (''unattributed'', JBool True)])) (\<lambda>_. throw UNCONFIRMED)
     | Some signature \<Rightarrow>
         if signature = [] then
           bind_eff (log_security ev pid ''credential.rotation.unconfirmed''
             (base @ [(''nonce'', JStr (rd_nonce dto)), (''unattributed'', JBool True)])) (\<lambda>_. throw UNCONFIRMED)
         else
           bind_eff (log_security ev pid ''relay.resolve_landed'' (base @ [(''nonce'', JStr (rd_nonce dto)), (''signature'', JStr signature)])) (\<lambda>_.
           bind_eff get_state (\<lambda>st0.
           bind_eff (confirmRotation ev p (nullish rowAddress []) (toHex newKey)) (\<lambda>confirmed.
           bind_eff get_state (\<lambda>st1.
           bind_eff (log_security ev pid ''rotation.confirmed'' (base @ [(''signature'', JStr signature), (''nonce'', JStr (rd_nonce dto)),
             (''latencyMs'', JStr (show_int (ev_now ev (rl_world st1) - ev_now ev (rl_world st0))))])) (\<lambda>_.
           if \<not> confirmed then
             bind_eff (log_security ev pid ''credential.rotation.unconfirmed''
               (base @ [(''nonce'', JStr (rd_nonce dto)), (''signature'', JStr signature)])) (\<lambda>_. throw UNCONFIRMED)
           else
             complete_rotation ev p pid dto oldCredId signature))))))))"

section \<open>The request\<close>

definition decode_assertion :: "assertion \<Rightarrow> PasskeyAssertion result" where
  "decode_assertion a =
     bind_result (b64urlToBytes (as_signature a)) (\<lambda>sig.
     bind_result (b64urlToBytes (as_authenticatorData a)) (\<lambda>auth.
     bind_result (b64urlToBytes (as_clientDataJSON a)) (\<lambda>client.
     Inr \<lparr>pa_credentialId = as_id a, pa_signature = sig, pa_authenticatorData = auth, pa_clientDataJSON = client\<rparr>)))"

definition slot_hash_of :: "'w rotate_ports \<Rightarrow> rotate_dto \<Rightarrow> string" where
  "slot_hash_of p dto = rp_sha256 p (json_stringify (JArr [JStr ''rotate'', JStr (rd_oldCredentialId dto), JStr (rd_newCredentialId dto),
     JStr (rd_nonce dto), JNum (rd_expiry dto)]) @ as_signature (rd_assertion dto))"

text \<open>From the claim of the slot on.\<close>

definition rotate_claimed ::
  "'w env \<Rightarrow> 'w rotate_ports \<Rightarrow> string \<Rightarrow> rotate_dto \<Rightarrow> int \<Rightarrow> credential \<Rightarrow> credential \<Rightarrow> (('w, 'z) wallet_scheme, RotateAuthorityResult) eff" where
  "rotate_claimed ev p pid dto chainNonce oldCred newCred =
     bind_eff (lift_result (coseToCompressedSecp256r1 (cr_publicKey oldCred))) (\<lambda>currentKey.
     bind_eff (lift_result (coseToCompressedSecp256r1 (cr_publicKey newCred))) (\<lambda>newKey.
     bind_eff (lift_result (decode_assertion (rd_assertion dto))) (\<lambda>asserted.
     bind_eff (claimSlot ev (pid, rd_nonce dto, BROADCAST_CHAIN_SOLANA, ERotate) (slot_hash_of p dto)) (\<lambda>claim.
     if cl_decision claim = Duplicate then
       bind_eff (finishRotationIfConfirmed ev p pid (cr_id oldCred) dto newKey (cl_signature claim)) (\<lambda>fin. case fin of
           Some res \<Rightarrow> ret res
         | None \<Rightarrow> submitAndConfirm ev p pid dto chainNonce currentKey newKey asserted (cr_id oldCred) (cl_signature claim))
     else
       bind_eff (assertNoInflightRotation ev pid BROADCAST_CHAIN_SOLANA chainNonce) (\<lambda>_.
       submitAndConfirm ev p pid dto chainNonce currentKey newKey asserted (cr_id oldCred) (cl_signature claim))))))"

definition rotate_authority :: "'w env \<Rightarrow> 'w rotate_ports \<Rightarrow> string \<Rightarrow> rotate_dto \<Rightarrow> (('w, 'z) wallet_scheme, RotateAuthorityResult) eff" where
  "rotate_authority ev p pid dto =
     (let fail = \<lambda>cause err. reject ev pid (rd_nonce dto) cause err in
     if rd_oldCredentialId dto = rd_newCredentialId dto then fail ''policy-unknown'' (BadRequest ''Replacement credential must differ from the current one'')
     else if as_id (rd_assertion dto) \<noteq> rd_oldCredentialId dto then
       fail ''unauthorized'' (BadRequest ''Assertion must come from the current authority credential'')
     else
       bind_eff (port (rp_adapter p)) (\<lambda>_.
       bind_eff (smart_account ev p pid) (\<lambda>smart. case smart of
           None \<Rightarrow> throw (NotFound ''Account not found'')
         | Some account \<Rightarrow>
       bind_eff (catch_default (port (rp_isActivated p (ca_address account))) False) (\<lambda>activated.
       if \<not> activated then throw (Conflict ''Wallet must be activated before rotating authority'')
       else
       bind_eff (requireClosed BROADCAST_CHAIN_SOLANA) (\<lambda>_.
       bind_eff (active_credential ev p pid (rd_oldCredentialId dto)) (\<lambda>oldRow.
       bind_eff (active_credential ev p pid (rd_newCredentialId dto)) (\<lambda>newRow.
       case oldRow of
         None \<Rightarrow> fail ''unauthorized'' (BadRequest ''Unknown or inactive current credential'')
       | Some oldCred \<Rightarrow> (case newRow of
         None \<Rightarrow> fail ''unauthorized'' (BadRequest ''Replacement credential is not registered and active'')
       | Some newCred \<Rightarrow>
       bind_eff (derivationAuthority ev pid) (\<lambda>derivation.
       bind_eff (port (rp_getNonce p pid derivation)) (\<lambda>chainNonce.
       case parse_BigInt (rd_nonce dto) of
         None \<Rightarrow> throw (JsError ''SyntaxError'')
       | Some nonce \<Rightarrow>
       if nonce \<noteq> chainNonce then
         fail ''stale-nonce'' (Conflict ''Authorization is stale - please try again (a newer nonce is active)'')
       else
       bind_eff (catch_default (port (rp_chainTime p)) 0) (\<lambda>chainTime.
       if rd_expiry dto \<le> chainTime then fail ''expired'' (BadRequest ''Authorization expired - please try again'')
       else if rd_expiry dto - chainTime > MAX_TTL_SECS then
         fail ''expired'' (BadRequest ''Authorization lifetime exceeds 600 seconds - please try again'')
       else rotate_claimed ev p pid dto chainNonce oldCred newCred)))))))))))"

section \<open>What the parts leave alone\<close>

lemma toHex_inject [simp]: "toHex a = toHex b \<longleftrightarrow> a = b"
proof
  have hex: "hex_pairs (toHex d) = d" for d by (induction d) (simp_all add: toHex_def parse_byte_digits)
  show "toHex a = toHex b \<Longrightarrow> a = b" using hex by metis
qed simp

context relay_frame
begin

lemma keeps_port [keeps_intros]: "preserves R (port f)"
  by (simp add: preserves_def port_def world split: prod.split)

end

locale wallet_frame = relay_frame R for R :: "('w, 'z) wallet_scheme \<Rightarrow> ('w, 'z) wallet_scheme \<Rightarrow> bool"
begin

lemma keeps_lookups [keeps_intros]:
  "preserves R (smart_account ev p pid)" "preserves R (active_credential ev p pid c)" "preserves R (derivationAuthority ev pid)"
  unfolding smart_account_def active_credential_def derivationAuthority_def
  by (auto intro!: keeps_bind keeps_statement keeps_pure split: option.split)

lemma keeps_reject [keeps_intros]: "preserves R (reject ev pid nonce cause err)"
  unfolding reject_def by (intro keeps_bind keeps_log keeps_pure)

lemma confirm_loop_keeps: "R s (snd (confirm_loop ev p address hex n s))"
proof (induction n arbitrary: s)
  case (Suc n)
  obtain r s1 where g: "port (rp_getAuthorityOf p address) s = (r, s1)" by fastforce
  have "R s s1" using keepsD [OF keeps_port g] .
  moreover have "R s1 (snd (confirm_loop ev p address hex n (wait ev 1000 s1)))"
    using Suc.IH [of "wait ev 1000 s1"] sleep_keeps(2) trans by blast
  ultimately show ?case using trans by (auto simp: g split: sum.split)
qed (simp add: refl)

lemma keeps_confirm [keeps_intros]: "preserves R (confirmRotation ev p address hex)"
  by (simp add: preserves_def confirmRotation_def confirm_loop_keeps)

lemma keeps_rotation_ports [keeps_intros]:
  "preserves R (rotation_broadcast ev p pid dto n ck nk a)" "preserves R (rotation_state p addr n nk sig)"
  unfolding rotation_broadcast_def rotation_state_def
  by (auto intro!: keeps_bind keeps_pure keeps_port keeps_lookups keeps_try split: option.split sum.split)

end

text \<open>Before the claim neither the slots nor the trace of broadcasts change.\<close>

definition same_relay :: "('w, 'z) wallet_scheme \<Rightarrow> ('w, 'z) wallet_scheme \<Rightarrow> bool" where
  "same_relay s t \<longleftrightarrow> rl_slots t = rl_slots s \<and> rl_trace t = rl_trace s"

interpretation prefix: wallet_frame same_relay
  by unfold_locales (simp_all add: same_relay_def)

lemma confirm_loop_reads: "confirm_loop ev p address hex n s = (Inr True, t) \<Longrightarrow> \<exists>key w w'. rp_getAuthorityOf p address w = (Inr key, w') \<and> toHex key = hex"
proof (induction n arbitrary: s)
  case (Suc n)
  then show ?case by (auto simp: port_def split: prod.splits sum.splits if_splits)
qed simp

section \<open>The first request for a rotation\<close>

lemma guard_blocks_own_slot:
  assumes c: "claimSlot ev (pid, nonce, BROADCAST_CHAIN_SOLANA, ERotate) h s = (Inr \<lparr>cl_decision = Proceed, cl_signature = sg\<rparr>, s1)"
    and none: "inflight_rotations pid BROADCAST_CHAIN_SOLANA (rl_slots s) = []" and n: "parse_BigInt nonce = Some chainNonce"
    and clock: "\<And>w. ev_now ev (snd (ev_db ev w)) - ev_now ev w \<le> ROTATION_SLOT_TTL_MS"
  shows "\<exists>e s2. assertNoInflightRotation ev pid BROADCAST_CHAIN_SOLANA chainNonce s1 = (Inl e, s2) \<and> rl_trace s2 = rl_trace s"
proof -
  define row where "row = new_slot (pid, nonce, BROADCAST_CHAIN_SOLANA, ERotate) h (ev_now ev (rl_world s1))"
  have s1: "rl_slots s1 = rl_slots s @ [row]" "rl_trace s1 = rl_trace s"
    using c by (auto simp: claimSlot_def bind_eff_def statement_def Let_def claim_existing_def row_def split: prod.splits if_splits option.splits)
  have inflight: "inflight_rotations pid BROADCAST_CHAIN_SOLANA (rl_slots s1) = [row]"
    using none by (simp add: s1 inflight_rotations_def row_def new_slot_def)
  obtain ok w where db: "ev_db ev (rl_world s1) = (ok, w)" by fastforce
  show ?thesis
  proof (cases ok)
    case False
    then show ?thesis
      by (auto simp: assertNoInflightRotation_def bind_eff_def statement_def db s1)
  next
    case True
    have age: "ev_now ev w - rb_updatedAt row \<le> ROTATION_SLOT_TTL_MS"
      using clock [of "rl_world s1"] by (simp add: db row_def new_slot_def)
    have row: "rb_nonce row = nonce" by (simp add: row_def new_slot_def)
    define s2 where "s2 = s1\<lparr>rl_world := w\<rparr>"
    have read: "statement ev get_state s1 = (Inr s2, s2)" by (simp add: statement_def db True s2_def Let_def)
    have s2: "rl_slots s2 = rl_slots s1" "rl_world s2 = w" "rl_trace s2 = rl_trace s1" by (simp_all add: s2_def)
    have "assertNoInflightRotation ev pid BROADCAST_CHAIN_SOLANA chainNonce s1 =
        bind_eff (log_unconfirmed ev pid BROADCAST_CHAIN_SOLANA row ''double-rotation'') (\<lambda>_. throw (ServiceUnavailable
          ''A rotation may still be confirming - check ceremony state before retrying (double-rotation guard)'')) s2"
      using age inflight s2
      by (simp add: assertNoInflightRotation_def bind_eff_eval(1) [of "statement ev get_state" s1, OF read] pick_row_def row n)
    moreover have "\<exists>e' t. bind_eff (log_unconfirmed ev pid BROADCAST_CHAIN_SOLANA row g) (\<lambda>_. throw e) s2 = (Inl e', t) \<and> rl_trace t = rl_trace s2" for g e
    proof -
      obtain r t where l: "log_unconfirmed ev pid BROADCAST_CHAIN_SOLANA row g s2 = (r, t)" by fastforce
      then have "rl_trace t = rl_trace s2" unfolding log_unconfirmed_def using statement_fields(4) by (metis snd_conv)
      with l show ?thesis by (cases r) (auto simp: bind_eff_def)
    qed
    ultimately show ?thesis using s1 s2 by (metis (no_types))
  qed
qed

text \<open>\<open>refuses P m\<close>: from slots with \<open>P\<close>, \<open>m\<close> throws and broadcasts nothing.\<close>

definition refuses :: "(RelayerBroadcast list \<Rightarrow> bool) \<Rightarrow> (('w, 'z) wallet_scheme, 'a) eff \<Rightarrow> bool" where
  "refuses P m \<longleftrightarrow> (\<forall>s. P (rl_slots s) \<longrightarrow> \<not> is_ok (fst (m s)) \<and> rl_trace (snd (m s)) = rl_trace s)"

lemma refuses_bind:
  fixes m :: "(('w, 'z) wallet_scheme, 'a) eff"
  assumes m: "preserves same_relay m" and f: "\<And>a. refuses P (f a)"
  shows "refuses P (bind_eff m f)"
  unfolding refuses_def
proof (intro allI impI)
  fix s :: "('w, 'z) wallet_scheme" assume P: "P (rl_slots s)"
  obtain r s1 where r: "m s = (r, s1)" by fastforce
  then have "same_relay s s1" using m keepsD by metis
  then show "\<not> is_ok (fst (bind_eff m f s)) \<and> rl_trace (snd (bind_eff m f s)) = rl_trace s"
    using P f r by (cases r) (auto simp: bind_eff_def refuses_def same_relay_def)
qed

lemma refuses_throw: "refuses P (throw e)"
  by (simp add: refuses_def)

lemma refuses_reject: "refuses P (reject ev pid nonce cause err)"
  unfolding reject_def by (intro refuses_bind prefix.keeps_log refuses_throw)

definition first_request :: "string \<Rightarrow> rotate_dto \<Rightarrow> RelayerBroadcast list \<Rightarrow> bool" where
  "first_request pid dto rows \<longleftrightarrow> find_slot (pid, rd_nonce dto, BROADCAST_CHAIN_SOLANA, ERotate) rows = None
     \<and> inflight_rotations pid BROADCAST_CHAIN_SOLANA rows = []"

lemma claim_then_guard_refuses:
  fixes f :: "ClaimResult \<Rightarrow> (('w, 'z) wallet_scheme, 'a) eff"
  assumes n: "parse_BigInt (rd_nonce dto) = Some chainNonce"
    and clock: "\<And>w. ev_now ev (snd (ev_db ev w)) - ev_now ev w \<le> ROTATION_SLOT_TTL_MS"
  shows "refuses (first_request pid dto) (bind_eff (claimSlot ev (pid, rd_nonce dto, BROADCAST_CHAIN_SOLANA, ERotate) h) (\<lambda>claim.
     if cl_decision claim = Duplicate then f claim
     else bind_eff (assertNoInflightRotation ev pid BROADCAST_CHAIN_SOLANA chainNonce) (\<lambda>_. g claim)))"
  unfolding refuses_def
proof (intro allI impI, goal_cases)
  case (1 s)
  obtain r s1 where c: "claimSlot ev (pid, rd_nonce dto, BROADCAST_CHAIN_SOLANA, ERotate) h s = (r, s1)" by fastforce
  then have tr: "rl_trace s1 = rl_trace s" using keepsD [OF trace.keeps_claimSlot] by (metis same_trace_def)
  have "r = Inr \<lparr>cl_decision = Proceed, cl_signature = None\<rparr> \<or> (\<exists>e. r = Inl e)"
    using c 1 by (auto simp: claimSlot_def first_request_def bind_eff_def statement_def Let_def split: prod.splits if_splits)
  then show ?case
  proof
    assume r: "r = Inr \<lparr>cl_decision = Proceed, cl_signature = None\<rparr>"
    from guard_blocks_own_slot [OF c [unfolded r] _ n clock] 1
    obtain e s2 where "assertNoInflightRotation ev pid BROADCAST_CHAIN_SOLANA chainNonce s1 = (Inl e, s2)" "rl_trace s2 = rl_trace s"
      by (auto simp: first_request_def)
    then show ?thesis using c r by (simp add: bind_eff_def)
  next
    assume "\<exists>e. r = Inl e"
    then show ?thesis using c tr by (auto simp: bind_eff_def)
  qed
qed

lemma rotate_claimed_refuses:
  assumes "parse_BigInt (rd_nonce dto) = Some chainNonce" "\<And>w. ev_now ev (snd (ev_db ev w)) - ev_now ev w \<le> ROTATION_SLOT_TTL_MS"
  shows "refuses (first_request pid dto) (rotate_claimed ev p pid dto chainNonce oldCred newCred)"
  unfolding rotate_claimed_def by (intro refuses_bind prefix.keeps_pure claim_then_guard_refuses assms)

text \<open>C39: the first request for a rotation is refused whatever it asks: when the account has no slot for the nonce and no
  rotation in flight, the request claims its slot and the guard against a second rotation then finds that very slot, on the current
  nonce and fresh, and throws; nothing is sent to the network. The only thing assumed is that a statement of the database takes
  less than fifteen minutes. (A repetition of the same request goes through the duplicate path.)\<close>

theorem first_rotation_refused:
  fixes s :: "('w, 'z) wallet_scheme"
  assumes "first_request pid dto (rl_slots s)" and clock: "\<And>w. ev_now ev (snd (ev_db ev w)) - ev_now ev w \<le> ROTATION_SLOT_TTL_MS"
  shows "\<not> is_ok (fst (rotate_authority ev p pid dto s)) \<and> rl_trace (snd (rotate_authority ev p pid dto s)) = rl_trace s"
proof -
  note keep = prefix.keeps_port prefix.keeps_lookups prefix.keeps_catch
  have "preserves same_relay (requireClosed c)" for c by (simp add: preserves_def requireClosed_def same_relay_def)
  then have "refuses (first_request pid dto) (rotate_authority ev p pid dto :: (('w, 'z) wallet_scheme, RotateAuthorityResult) eff)"
    unfolding rotate_authority_def Let_def
    by (auto intro!: refuses_bind keep refuses_throw refuses_reject rotate_claimed_refuses clock split: option.split)
  with assms(1) show ?thesis by (simp add: refuses_def)
qed


section \<open>Revocation follows the chain\<close>

definition chain_shows :: "'w rotate_ports \<Rightarrow> bytes \<Rightarrow> bool" where
  "chain_shows p key \<longleftrightarrow> (\<exists>address w w'. rp_getAuthorityOf p address w = (Inr key, w'))"

text \<open>The credentials stay, or the chain was seen with the new key and the old credential is revoked.\<close>

definition creds_step :: "'w rotate_ports \<Rightarrow> bytes \<Rightarrow> string \<Rightarrow> ('w, 'z) wallet_scheme \<Rightarrow> ('w, 'z) wallet_scheme \<Rightarrow> bool" where
  "creds_step p key old s t \<longleftrightarrow> wl_authorities t = wl_authorities s
     \<or> chain_shows p key \<and> wl_authorities t = revoke_row old (wl_authorities s)"

lemma revoke_row_idem [simp]: "revoke_row i (revoke_row i rows) = revoke_row i rows"
  by (induction rows) (auto simp: revoke_row_def)

interpretation creds: wallet_frame "creds_step p key old" for p key old
  by unfold_locales (auto simp: creds_step_def)

interpretation creds: outer_frame "creds_step p key old" for p key old
  by unfold_locales (auto simp: creds_step_def)

lemma keeps_revoke [keeps_intros]: "chain_shows p key \<Longrightarrow> preserves (creds_step p key old) (revoke ev old)"
  unfolding revoke_def by (rule creds.keeps_statement) (simp add: preserves_def creds_step_def)

lemma keeps_count [keeps_intros]: "preserves (creds_step p key old) (count_revocation ev)"
  using creds.keeps_recordRevocation unfolding count_revocation_def preserves_def by blast

lemma keeps_reconcile [keeps_intros]: "preserves (creds_step p key old) (reconcileRotationCost ev q pid sig)"
  unfolding reconcileRotationCost_def Let_def
  by (intro creds.keeps_bind creds.keeps_catch creds.keeps_port creds.keeps_log creds.keeps_try creds.keeps_recordAbsorbed creds.keeps_pure)

lemma confirmed_shows: "confirmRotation ev p address (toHex key) s = (Inr True, t) \<Longrightarrow> chain_shows p key"
  unfolding confirmRotation_def chain_shows_def by (drule confirm_loop_reads) (metis toHex_inject)

lemmas creds_keeps = creds.keeps_lookups creds.keeps_log creds.keeps_pure creds.keeps_broadcast creds.keeps_rotation_ports
  creds.keeps_confirm creds.keeps_records creds.keeps_guard creds.keeps_claimSlot creds.keeps_reject creds.keeps_port
  keeps_count keeps_reconcile keeps_revoke

lemma keeps_complete: "chain_shows p key \<Longrightarrow> preserves (creds_step p key old) (complete_rotation ev p pid dto old sig)"
  unfolding complete_rotation_def by (intro creds.keeps_bind creds_keeps)

lemma keeps_submit: "preserves (creds_step p newKey old) (submitAndConfirm ev p pid dto n currentKey newKey a old sig)"
  unfolding submitAndConfirm_def Let_def
  by (auto intro!: creds.keeps_bind_when creds_keeps keeps_complete confirmed_shows split: option.split)


definition all_revoked :: "string \<Rightarrow> credential list \<Rightarrow> bool" where
  "all_revoked i rows \<longleftrightarrow> list_all (\<lambda>c. cr_id c = i \<longrightarrow> cr_status c = ''revoked'') rows"

lemma all_revoked_row [simp]: "all_revoked i (revoke_row i rows)"
  by (induction rows) (auto simp: all_revoked_def revoke_row_def)

lemma creds_step_revoked: "creds_step p key old s t \<Longrightarrow> all_revoked old (wl_authorities s) \<Longrightarrow> all_revoked old (wl_authorities t)"
  by (auto simp: creds_step_def)

lemma revoke_ensures: "ensures (\<lambda>s. all_revoked i (wl_authorities s)) (revoke ev i)"
  by (auto simp: ensures_def revoke_def statement_def Let_def split: prod.splits if_splits)

lemma complete_ensures: "ensures (\<lambda>s. all_revoked i (wl_authorities s)) (complete_rotation ev p pid dto i sig)"
  unfolding complete_rotation_def
  by (rule ensures_bind, rule ensures_then [where R = "creds_step p key i" for key, OF revoke_ensures])
    (auto intro!: creds.keeps_bind creds_keeps intro: creds_step_revoked)

lemma submit_ensures: "ensures (\<lambda>s. all_revoked i (wl_authorities s)) (submitAndConfirm ev p pid dto n ck nk a i sig)"
  unfolding submitAndConfirm_def Let_def
  by (auto intro!: ensures_bind ensures_throw complete_ensures split: option.split)

lemma replay_ensures: "ensures (\<lambda>s. all_revoked i (wl_authorities s)) (replay_completion ev pid i dto sig)"
  unfolding replay_completion_def
  by (rule ensures_then [where R = "creds_step p key i" for p key, OF revoke_ensures])
    (auto intro!: creds.keeps_bind creds_keeps intro: creds_step_revoked split: option.split)

lemma keeps_finish: "preserves (creds_step p newKey old) (finishRotationIfConfirmed ev p pid old dto newKey sig)"
proof -
  have rep: "preserves (creds_step p newKey old) (replay_completion ev pid old dto sig)" if "chain_shows p newKey"
    unfolding replay_completion_def using that by (auto intro!: creds.keeps_bind creds_keeps split: option.split)
  have seen: "chain_shows p newKey" if "catch_default (confirmRotation ev p addr (toHex newKey)) False s = (Inr True, t)" for addr s t
    using that by (auto simp: catch_default_def intro: confirmed_shows split: prod.splits sum.splits)
  show ?thesis
    unfolding finishRotationIfConfirmed_def
    by (auto intro!: creds.keeps_bind_when creds_keeps creds.keeps_catch rep seen split: option.splits)
qed

lemma finish_revoked:
  assumes "finishRotationIfConfirmed ev p pid old dto newKey sig s = (Inr (Some x), t)"
  shows "all_revoked old (wl_authorities t)"
  using assms replay_ensures [of old ev pid dto sig] by (auto simp: finishRotationIfConfirmed_def bind_eff_Inr ensures_def split: if_splits)

lemma keeps_rotate_claimed:
  assumes "coseToCompressedSecp256r1 (cr_publicKey newCred) = Inr newKey"
  shows "preserves (creds_step p newKey (cr_id oldCred)) (rotate_claimed ev p pid dto n oldCred newCred)"
  unfolding rotate_claimed_def assms
  by (auto intro!: creds.keeps_bind_when creds_keeps keeps_submit keeps_finish split: option.splits)

lemma rotate_claimed_revoked:
  assumes "rotate_claimed ev p pid dto n oldCred newCred s = (Inr x, t)"
  shows "all_revoked (cr_id oldCred) (wl_authorities t)"
proof -
  have sub: "submitAndConfirm ev p pid dto n ck nk a (cr_id oldCred) sig s1 = (Inr x, t) \<Longrightarrow> all_revoked (cr_id oldCred) (wl_authorities t)" for ck nk a sig s1
    using submit_ensures unfolding ensures_def by blast
  show ?thesis
    using assms by (auto simp: rotate_claimed_def bind_eff_Inr split: if_splits option.splits intro: sub finish_revoked)
qed

text \<open>\<open>leads A Q m\<close>: with the credentials \<open>A\<close>, \<open>m\<close> throws and leaves them, or ends with \<open>Q\<close>.\<close>

definition same_creds :: "('w, 'z) wallet_scheme \<Rightarrow> ('w, 'z) wallet_scheme \<Rightarrow> bool" where
  "same_creds s t \<longleftrightarrow> wl_authorities t = wl_authorities s"

interpretation idle: wallet_frame same_creds
  by unfold_locales (simp_all add: same_creds_def)

interpretation idle: outer_frame same_creds
  by unfold_locales (simp_all add: same_creds_def)

definition leads :: "credential list \<Rightarrow> ('a result \<Rightarrow> ('w, 'z) wallet_scheme \<Rightarrow> bool) \<Rightarrow> (('w, 'z) wallet_scheme, 'a) eff \<Rightarrow> bool" where
  "leads A Q m \<longleftrightarrow> (\<forall>s r t. wl_authorities s = A \<longrightarrow> m s = (r, t) \<longrightarrow> wl_authorities t = A \<and> \<not> is_ok r \<or> Q r t)"

lemma leads_bind:
  assumes m: "preserves same_creds m" and f: "\<And>a s t. wl_authorities s = A \<Longrightarrow> m s = (Inr a, t) \<Longrightarrow> leads A Q (f a)"
  shows "leads A Q (bind_eff m f)"
  unfolding leads_def
proof (intro allI impI, goal_cases)
  case (1 s r t)
  from 1(2) show ?case
  proof (cases rule: bind_eff_cases)
    case (err e)
    then show ?thesis using keepsD [OF m err(1)] 1(1) by (simp add: same_creds_def)
  next
    case (ok a s1)
    then have "wl_authorities s1 = A" using keepsD [OF m ok(1)] 1(1) by (simp add: same_creds_def)
    with f [OF 1(1) ok(1)] ok(2) show ?thesis unfolding leads_def by blast
  qed
qed

lemma leads_throw: "leads A Q (throw e)"
  by (simp add: leads_def)

lemma leads_reject: "leads A Q (reject ev pid nonce cause err)"
  unfolding reject_def by (intro leads_bind idle.keeps_log leads_throw)

definition active_row :: "credential list \<Rightarrow> string \<Rightarrow> string \<Rightarrow> credential \<Rightarrow> bool" where
  "active_row rows pid credentialId c \<longleftrightarrow> c \<in> set rows \<and> cr_pid c = pid \<and> cr_credentialId c = credentialId \<and> cr_status c = ''active''"

lemma active_credential_found: "active_credential ev p pid c s = (Inr (Some x), t) \<Longrightarrow> active_row (wl_authorities s) pid c x"
proof -
  assume a: "active_credential ev p pid c s = (Inr (Some x), t)"
  have "pick_row f xs = Some x \<Longrightarrow> x \<in> set xs" for f and xs :: "credential list" and x
    by (auto simp: pick_row_def split: if_splits)
  with a show ?thesis
    by (fastforce simp: active_row_def active_credential_def bind_eff_Inr statement_def Let_def split: prod.splits if_splits)
qed

text \<open>C12: the database never gets ahead of the chain in a rotation. Whatever the request, the answers of the chain and the failures of
  the database: the credentials are left as they are, or the request named two active credentials of its owner, the chain was read with the
  key of the new one as its authority, and the rows of the old one are revoked and nothing else changed; a request that
  succeeds is of the second kind.\<close>

theorem rotation_revokes_after_chain:
  fixes s :: "('w, 'z) wallet_scheme"
  shows "wl_authorities (snd (rotate_authority ev p pid dto s)) = wl_authorities s \<and> \<not> is_ok (fst (rotate_authority ev p pid dto s))
    \<or> (\<exists>old new key. active_row (wl_authorities s) pid (rd_oldCredentialId dto) old \<and> active_row (wl_authorities s) pid (rd_newCredentialId dto) new
         \<and> coseToCompressedSecp256r1 (cr_publicKey new) = Inr key \<and> chain_shows p key
         \<and> wl_authorities (snd (rotate_authority ev p pid dto s)) = revoke_row (cr_id old) (wl_authorities s))"
proof -
  obtain r t where run: "rotate_authority ev p pid dto s = (r, t)" by fastforce
  define Q :: "RotateAuthorityResult result \<Rightarrow> ('w, 'z) wallet_scheme \<Rightarrow> bool" where "Q r t \<longleftrightarrow> (\<exists>old new key. active_row (wl_authorities s) pid (rd_oldCredentialId dto) old
         \<and> active_row (wl_authorities s) pid (rd_newCredentialId dto) new
         \<and> coseToCompressedSecp256r1 (cr_publicKey new) = Inr key \<and> chain_shows p key
         \<and> wl_authorities t = revoke_row (cr_id old) (wl_authorities s))" for r t
  have tail: "leads (wl_authorities s) Q (rotate_claimed ev p pid dto n old new)"
    if old: "active_row (wl_authorities s) pid (rd_oldCredentialId dto) old" and new: "active_row (wl_authorities s) pid (rd_newCredentialId dto) new" for old new n
    unfolding leads_def
  proof (intro allI impI, goal_cases)
    case (1 s1 r1 t1)
    note s1 = 1(1) and c = 1(2)
    show ?case
    proof (cases "coseToCompressedSecp256r1 (cr_publicKey new)")
      case (Inl e)
      with c have "t1 = s1 \<and> \<not> is_ok r1"
        by (cases "coseToCompressedSecp256r1 (cr_publicKey old)") (auto simp: rotate_claimed_def bind_eff_def)
      with s1 show ?thesis by simp
    next
      case (Inr key)
      have "creds_step p key (cr_id old) s1 t1" by (rule keepsD [OF keeps_rotate_claimed [OF Inr] c])
      moreover have "all_revoked (cr_id old) (wl_authorities t1)" if "is_ok r1"
        using rotate_claimed_revoked c that by (cases r1) auto
      moreover have "\<not> all_revoked (cr_id old) (wl_authorities s)"
        using old by (auto simp: all_revoked_def list_all_iff active_row_def)
      ultimately show ?thesis using s1 old new Inr unfolding Q_def creds_step_def by metis
    qed
  qed
  note keep = idle.keeps_port idle.keeps_lookups idle.keeps_catch idle.keeps_requireClosed
  have found: "active_row (wl_authorities s) pid c x" if "wl_authorities s1 = wl_authorities s" "active_credential ev p pid c s1 = (Inr (Some x), t1)"
    for c x and s1 t1 :: "('w, 'z) wallet_scheme"
    using active_credential_found [OF that(2)] that(1) by simp
  have "leads (wl_authorities s) Q (rotate_authority ev p pid dto)"
    unfolding rotate_authority_def Let_def
    by (auto intro!: leads_bind keep leads_throw leads_reject tail found split: option.splits)
  then have "wl_authorities t = wl_authorities s \<and> \<not> is_ok r \<or> Q r t" using run unfolding leads_def by blast
  then show ?thesis unfolding run Q_def by simp
qed

section \<open>An account with two passkeys\<close>

definition demo_key :: "byte \<Rightarrow> bytes" where
  "demo_key b = cose_encode [(KEY_X, CBytes (replicate 32 b)), (KEY_Y, CBytes (replicate 32 b))]"

definition demo_credential :: "string \<Rightarrow> byte \<Rightarrow> credential" where
  "demo_credential c b = \<lparr>cr_id = c, cr_pid = ''alice'', cr_credentialId = c, cr_publicKey = demo_key b, cr_status = ''active'', cr_createdAt = int (unat b)\<rparr>"

definition demo_wallet :: "int wallet" where
  "demo_wallet = \<lparr>rl_slots = [], rl_ledger = [], rl_open = [], rl_revocations = [], rl_events = [], rl_trace = [], rl_world = 0,
     wl_authorities = [demo_credential ''old'' 2, demo_credential ''new'' 4],
     wl_accounts = [\<lparr>ca_pid = ''alice'', ca_accountType = ''smart_account'', ca_namespace = ''solana'', ca_address = ''vault'',
       ca_claimAuthority = Some [2], ca_createdAt = 0\<rparr>]\<rparr>"

definition demo_rotate_ports :: "int rotate_ports" where
  "demo_rotate_ports = \<lparr>rp_adapter = \<lambda>w. (Inr (), w), rp_isActivated = \<lambda>a w. (Inr True, w), rp_getNonce = \<lambda>_ _ w. (Inr 4, w),
     rp_chainTime = \<lambda>w. (Inr 1000, w), rp_submitRotateAuthorityTx = \<lambda>_ w. (Inr ''sig'', w),
     rp_getAuthorityOf = \<lambda>_ w. (Inr (2 # replicate 32 4), w), rp_getNonceOf = \<lambda>_ w. (Inr 4, w), rp_parseTransaction = \<lambda>_ w. (Inr None, w),
     rp_relayer = Inr ''relayer'', rp_sha256 = \<lambda>x. x, rp_pickAccount = \<lambda>_. 0, rp_pickCredential = \<lambda>_. 0\<rparr>"

definition demo_rotation :: rotate_dto where
  "demo_rotation = \<lparr>rd_oldCredentialId = ''old'', rd_newCredentialId = ''new'', rd_nonce = ''4'', rd_expiry = 1300,
     rd_assertion = \<lparr>as_id = ''old'', as_signature = [], as_authenticatorData = [], as_clientDataJSON = []\<rparr>\<rparr>"

lemma demo_key_read: "coseToCompressedSecp256r1 (demo_key 2) = Inr (2 # replicate 32 2)" "coseToCompressedSecp256r1 (demo_key 4) = Inr (2 # replicate 32 4)"
proof -
  have r: "list_all cose_field_ok [(KEY_X, CBytes (replicate 32 b)), (KEY_Y, CBytes (replicate 32 b))]" for b
    by (simp add: cose_field_ok_def KEY_X_def KEY_Y_def)
  show "coseToCompressedSecp256r1 (demo_key 2) = Inr (2 # replicate 32 2)" "coseToCompressedSecp256r1 (demo_key 4) = Inr (2 # replicate 32 4)"
    unfolding demo_key_def using cose_key_read [OF r [of 2], of "replicate 32 2" "replicate 32 2"] cose_key_read [OF r [of 4], of "replicate 32 4" "replicate 32 4"]
    by (simp_all add: KEY_X_def KEY_Y_def)
qed

lemma demo_nonce: "parse_BigInt ''4'' = Some 4"
  by (simp add: parse_BigInt_def Let_def trim_def is_space_def digits_value_def digit_of_def to_lower_def to_lower_char_def)

lemma atob_Nil: "atob [] = Inr []"
  by (simp add: atob_def Let_def)

text \<open>With every check passed the error is the guard's.\<close>

theorem first_rotation_refused_witness:
  "fst (rotate_authority relayer_demo_env demo_rotate_ports ''alice'' demo_rotation demo_wallet) =
     Inl (ServiceUnavailable ''A rotation may still be confirming - check ceremony state before retrying (double-rotation guard)'')
   \<and> rl_trace (snd (rotate_authority relayer_demo_env demo_rotate_ports ''alice'' demo_rotation demo_wallet)) = []"
proof -
  have "rl_trace (snd (rotate_authority relayer_demo_env demo_rotate_ports ''alice'' demo_rotation demo_wallet)) = rl_trace demo_wallet"
    by (rule first_rotation_refused [THEN conjunct2])
      (simp_all add: first_request_def demo_wallet_def find_slot_def inflight_rotations_def relayer_demo_env_def ROTATION_SLOT_TTL_MS_def)
  moreover have "fst (rotate_authority relayer_demo_env demo_rotate_ports ''alice'' demo_rotation demo_wallet) =
     Inl (ServiceUnavailable ''A rotation may still be confirming - check ceremony state before retrying (double-rotation guard)'')"
    by (simp add: rotate_authority_def demo_rotation_def demo_rotate_ports_def demo_wallet_def demo_credential_def relayer_demo_env_def
        port_def smart_account_def active_credential_def derivationAuthority_def statement_def bind_eff_def pick_row_def catch_default_def
        requireClosed_def oldest_def rotate_claimed_def demo_key_read demo_nonce decode_assertion_def claimSlot_def find_slot_def
        assertNoInflightRotation_def inflight_rotations_def new_slot_def ROTATION_SLOT_TTL_MS_def log_unconfirmed_def log_security_def
        MAX_TTL_SECS_def ACCOUNT_TYPE_SMART_def SOLANA_NAMESPACE_def BROADCAST_CHAIN_SOLANA_def b64urlToBytes_def atob_Nil Let_def)
  ultimately show ?thesis by (simp add: demo_wallet_def)
qed

end
