(* ===== verification/Wallet_Withdraw.thy ===== *)
theory Wallet_Withdraw
  imports Wallet_Rotate Fee_Policy
begin

text \<open>
  Sponsored withdrawals, \<^verbatim>\<open>apps/api/src/wallet/sponsored-withdraw.service.ts\<close>: the quote, the withdrawal of an active account, the first
  action that activates and withdraws, the resolution of a duplicate slot and the reconciliation. The state adds the fee service of
  \<^verbatim>\<open>Fee_Policy\<close> and the lists of the transactions handed to the adapter, spends and separate activations.

  The adapter's methods are the fields of \<open>withdraw_ports\<close>; the four submissions of a spend are one port with the kind of the
  transaction. A public key is its base58 string, a date its milliseconds, \<^verbatim>\<open>GoneException\<close> is \<open>ProviderError 410\<close>.
\<close>

section \<open>Data\<close>

record activate_leg =
  al_version :: int
  al_networkFee :: int
  al_maxTotalFee :: int
  al_expiry :: int
  al_assertion :: PasskeyAssertion

datatype spend_kind = SpendSol | SpendToken string | CompositeSol activate_leg | CompositeToken string activate_leg

record withdraw_tx =
  wt_kind :: spend_kind
  wt_pid :: string
  wt_authority :: bytes
  wt_destination :: string
  wt_amount :: int
  wt_version :: int
  wt_networkFee :: int
  wt_maxTotalFee :: int
  wt_nonce :: int
  wt_expiry :: int
  wt_assertion :: PasskeyAssertion
  wt_relayer :: string
  wt_derivation :: "bytes option"

record account_meta =
  am_address :: string
  am_writable :: bool
  am_signer :: bool

record execute_call =
  ec_target :: string
  ec_metas :: "account_meta list"
  ec_data :: bytes

record execute_tx =
  et_leg :: "activate_leg option"
  et_call :: execute_call
  et_pid :: string
  et_authority :: bytes
  et_version :: int
  et_networkFee :: int
  et_maxTotalFee :: int
  et_nonce :: int
  et_expiry :: int
  et_assertion :: PasskeyAssertion
  et_relayer :: string
  et_derivation :: "bytes option"

datatype relayed_tx = RWithdraw withdraw_tx | RExecute execute_tx

record activation_tx =
  at_pid :: string
  at_authority :: bytes
  at_leg :: activate_leg
  at_relayer :: string

record 'w withdraw_ports =
  wp_base :: "'w rotate_ports"
  wp_hasFees :: bool
  wp_estimateWithdrawFee :: "'w \<Rightarrow> int result \<times> 'w"
  wp_estimateCompositeWithdrawFee :: "'w \<Rightarrow> int result \<times> 'w"
  wp_rentExemption :: "'w \<Rightarrow> int result \<times> 'w"
  wp_getBalanceOf :: "string \<Rightarrow> 'w \<Rightarrow> int result \<times> 'w"
  wp_pubkey :: "string \<Rightarrow> string option"
  wp_tokenAta :: "string \<Rightarrow> bytes \<Rightarrow> string \<Rightarrow> 'w \<Rightarrow> string result \<times> 'w"
  wp_getTokenBalancesOf :: "string \<Rightarrow> 'w \<Rightarrow> (string \<times> int) list result \<times> 'w"
  wp_hasAccount :: "string \<Rightarrow> 'w \<Rightarrow> bool result \<times> 'w"
  wp_getHistory :: "string \<Rightarrow> 'w \<Rightarrow> (string \<times> bool) list result \<times> 'w"
  wp_submit :: "withdraw_tx \<Rightarrow> 'w \<Rightarrow> string result \<times> 'w"
  wp_activateV4 :: "activation_tx \<Rightarrow> 'w \<Rightarrow> unit result \<times> 'w"
  wp_waitForConfirmation :: "string \<Rightarrow> 'w \<Rightarrow> string result \<times> 'w"
  wp_solanaChain :: "'w \<Rightarrow> string result \<times> 'w"
  wp_treasury :: string

record 'w sponsored = "'w wallet" +
  sd_fees :: fee_state
  sd_sent :: "relayed_tx list"
  sd_activated :: "activation_tx list"

record FirstActionAuth =
  fa_expiry :: int
  fa_feePolicyVersion :: int
  fa_quotedActivationLamports :: string
  fa_maxTotalFeeLamports :: string
  fa_assertion :: assertion

record withdraw_dto =
  wd_asset :: string
  wd_to :: string
  wd_amount :: string
  wd_nonce :: string
  wd_expiry :: int
  wd_feePolicyVersion :: int
  wd_quotedNetworkFeeLamports :: string
  wd_maxTotalFeeLamports :: string
  wd_assertion :: assertion
  wd_activation :: "FirstActionAuth option"

record SponsoredWithdrawResult =
  sw_signature :: string
  sw_networkFeeLamports :: string
  sw_protocolFeeLamports :: string
  sw_status :: string
  sw_feePolicyWarning :: "string option"
  sw_activation :: "string option"

record ActivationQuote =
  aq_required :: bool
  aq_includedInTotal :: bool
  aq_estimate :: string
  aq_estimateBasis :: string
  aq_mode :: string

record WithdrawQuote =
  wq_networkFee :: string
  wq_protocolFeeBps :: int
  wq_feePolicyVersion :: int
  wq_platformFee :: string
  wq_totalFee :: string
  wq_maxTotalFee :: string
  wq_chainMinBaseUnits :: string
  wq_chainTime :: int
  wq_treasury :: string
  wq_quoteId :: string
  wq_quotedAt :: int
  wq_expiresAt :: int
  wq_activation :: ActivationQuote
  wq_chain :: "string option"

record fee_leg =
  fl_version :: int
  fl_bps :: int
  fl_chainMin :: int

definition QUOTE_TTL_SECS :: int where "QUOTE_TTL_SECS = 300"

section \<open>Helpers\<close>

definition intentHash :: "'w withdraw_ports \<Rightarrow> SponsoredEntryPoint \<Rightarrow> string \<Rightarrow> json list \<Rightarrow> string" where
  "intentHash p entryPoint signatureB64 parts =
     rp_sha256 (wp_base p) (json_stringify (JArr (JStr (entry_name entryPoint) # parts)) @ signatureB64)"

definition resolveSvmState :: "'w withdraw_ports \<Rightarrow> string \<Rightarrow> int \<Rightarrow> (('w, 'z) relayer_scheme, ChainStateResolution) eff" where
  "resolveSvmState p accountAddress expectedNonce =
     bind_eff (port (rp_getNonceOf (wp_base p) accountAddress)) (\<lambda>nonceNow.
     if nonceNow \<noteq> expectedNonce then
       bind_eff (port (wp_getHistory p accountAddress)) (\<lambda>history.
       ret (LandedWith (map_option fst (find (\<lambda>tx. \<not> snd tx) history))))
     else ret NotLandedState)"

definition withdraw_result :: "string \<Rightarrow> int \<Rightarrow> int \<Rightarrow> string \<Rightarrow> string option \<Rightarrow> string option \<Rightarrow> SponsoredWithdrawResult" where
  "withdraw_result signature networkFee protocolFee status warning mode =
     \<lparr>sw_signature = signature, sw_networkFeeLamports = show_int networkFee, sw_protocolFeeLamports = show_int protocolFee,
      sw_status = status, sw_feePolicyWarning = warning, sw_activation = mode\<rparr>"

definition resolveDuplicateSlot ::
  "'w env \<Rightarrow> 'w withdraw_ports \<Rightarrow> string \<Rightarrow> string \<Rightarrow> SponsoredEntryPoint \<Rightarrow> string \<Rightarrow> int \<Rightarrow> int \<Rightarrow> int
    \<Rightarrow> (('w, 'z) sponsored_scheme, SponsoredWithdrawResult option) eff" where
  "resolveDuplicateSlot ev p pid accountAddress entryPoint nonce chainNonce networkFee protocolFee =
     bind_eff (catch_default (resolveSvmState p accountAddress chainNonce) UnreadableState) (\<lambda>state. case state of
         UnreadableState \<Rightarrow> throw (ServiceUnavailable
           ''The network outcome is unclear and the request was parked for operator review - no funds moved twice'')
       | NotLandedState \<Rightarrow> ret None
       | LandedWith None \<Rightarrow>
           bind_eff (log_security ev pid ''relay.resolve_landed'' [(''entryPoint'', JStr (entry_name entryPoint)),
             (''chain'', JStr BROADCAST_CHAIN_SOLANA), (''nonce'', JStr nonce), (''unattributed'', JBool True)]) (\<lambda>_.
           throw (ServiceUnavailable
             ''The transaction landed but its receipt is unreadable - support has been alerted, please check state before retrying''))
       | LandedWith (Some signature) \<Rightarrow>
           if signature = [] then
             bind_eff (log_security ev pid ''relay.resolve_landed'' [(''entryPoint'', JStr (entry_name entryPoint)),
               (''chain'', JStr BROADCAST_CHAIN_SOLANA), (''nonce'', JStr nonce), (''unattributed'', JBool True)]) (\<lambda>_.
             throw (ServiceUnavailable
               ''The transaction landed but its receipt is unreadable - support has been alerted, please check state before retrying''))
           else
             bind_eff (recordOutcome ev (pid, nonce, BROADCAST_CHAIN_SOLANA, entryPoint) BResolvedLanded (Some signature)) (\<lambda>_.
             ret (Some (withdraw_result signature networkFee protocolFee ''confirmed'' None None))))"

text \<open>\<^verbatim>\<open>requireActiveAuthority\<close> throws a conflict where the rotation service answers a bad request.\<close>

definition requireActiveAuthority :: "'w env \<Rightarrow> string \<Rightarrow> (('w, 'z) wallet_scheme, credential) eff" where
  "requireActiveAuthority ev pid =
     bind_eff (statement ev get_state) (\<lambda>st.
       case oldest cr_createdAt (filter (\<lambda>c. cr_pid c = pid \<and> cr_status c = ''active'') (wl_authorities st)) of
         None \<Rightarrow> throw (Conflict ''No passkey registered - register one first'')
       | Some c \<Rightarrow> ret c)"

definition claiming_key :: "'w env \<Rightarrow> string \<Rightarrow> (('w, 'z) wallet_scheme, bytes) eff" where
  "claiming_key ev pid =
     bind_eff (statement ev get_state) (\<lambda>st.
       case Option.bind (oldest ca_createdAt (filter (\<lambda>a. ca_pid a = pid \<and> ca_accountType a = ACCOUNT_TYPE_SMART
              \<and> ca_namespace a = SOLANA_NAMESPACE) (wl_accounts st))) ca_claimAuthority of
         Some claimKey \<Rightarrow> ret claimKey
       | None \<Rightarrow> bind_eff (requireActiveAuthority ev pid) (\<lambda>c. lift_result (coseToCompressedSecp256r1 (cr_publicKey c))))"

definition amountOr400 :: "string \<Rightarrow> string \<Rightarrow> int result" where
  "amountOr400 v what = (if all_digits v then Inr (int (nat_of_digits v)) else Inl (BadRequest (what @ '' must be a positive integer'')))"

definition pubkeyOr400 :: "'w withdraw_ports \<Rightarrow> string \<Rightarrow> string \<Rightarrow> string result" where
  "pubkeyOr400 p v what = (case wp_pubkey p v of Some k \<Rightarrow> Inr k | None \<Rightarrow> Inl (BadRequest (what @ '' is not a valid Solana address'')))"

text \<open>\<^verbatim>\<open>BigInt\<close> of a field of the request throws on garbage.\<close>

definition big_field :: "string \<Rightarrow> int result" where
  "big_field v = (case parse_BigInt v of Some n \<Rightarrow> Inr n | None \<Rightarrow> Inl (JsError ''SyntaxError''))"

text \<open>\<^verbatim>\<open>Promise.all\<close> of two reads: both are started, the first rejection is the error.\<close>

definition promise_all :: "('s, 'a) eff \<Rightarrow> ('s, 'b) eff \<Rightarrow> ('s, 'a \<times> 'b) eff" where
  "promise_all m n =
     bind_eff (try_eff m) (\<lambda>a. bind_eff (try_eff n) (\<lambda>b. bind_eff (lift_result a) (\<lambda>x. bind_eff (lift_result b) (\<lambda>y. ret (x, y)))))"

text \<open>A call of the fee service: whether its read of the database succeeds is the answer of a statement.\<close>

definition fee_call :: "'w env \<Rightarrow> (bool \<Rightarrow> int \<Rightarrow> fee_state \<Rightarrow> 'a \<times> fee_state) \<Rightarrow> (('w, 'z) sponsored_scheme, 'a) eff" where
  "fee_call ev f s =
     (let (ok, w) = ev_db ev (rl_world s); (r, st) = f ok (ev_now ev w) (sd_fees s) in (Inr r, s\<lparr>rl_world := w, sd_fees := st\<rparr>))"

definition code_leg :: "int \<Rightarrow> fee_leg result" where
  "code_leg v = bind_result (feePolicyRow v) (\<lambda>bps. Inr \<lparr>fl_version = v, fl_bps = bps, fl_chainMin = 0\<rparr>)"

definition solanaFeeLeg :: "'w env \<Rightarrow> 'w withdraw_ports \<Rightarrow> int option \<Rightarrow> (('w, 'z) sponsored_scheme, fee_leg) eff" where
  "solanaFeeLeg ev p version =
     (if wp_hasFees p then (case version of
         None \<Rightarrow> bind_eff (fee_call ev minFeeFor) (\<lambda>m. bind_eff (lift_result m) (\<lambda>(_, v, bps).
                   ret \<lparr>fl_version = v, fl_bps = bps, fl_chainMin = 0\<rparr>))
       | Some v \<Rightarrow> bind_eff (fee_call ev (\<lambda>ok now. minFeeForVersion ok now v)) (\<lambda>leg. case leg of
           Inr (_, bps) \<Rightarrow> ret \<lparr>fl_version = v, fl_bps = bps, fl_chainMin = 0\<rparr>
         | Inl _ \<Rightarrow> lift_result (code_leg v)))
      else lift_result (code_leg (nullish version feePolicyVersion)))"

definition withdraw_reject :: "'w env \<Rightarrow> string \<Rightarrow> SponsoredEntryPoint \<Rightarrow> string \<Rightarrow> string \<Rightarrow> http_error \<Rightarrow> (('w, 'z) relayer_scheme, 'a) eff" where
  "withdraw_reject ev pid entryPoint nonce cause err =
     bind_eff (log_security ev pid ''intent.rejected'' [(''chain'', JStr ''solana''), (''entryPoint'', JStr (entry_name entryPoint)),
       (''cause'', JStr cause), (''nonce'', JStr nonce)]) (\<lambda>_. throw err)"

definition gateSubmitVersion :: "'w env \<Rightarrow> 'w withdraw_ports \<Rightarrow> string \<Rightarrow> SponsoredEntryPoint \<Rightarrow> string \<Rightarrow> int
    \<Rightarrow> (('w, 'z) sponsored_scheme, string option) eff" where
  "gateSubmitVersion ev p pid entryPoint nonce submitted =
     (if \<not> wp_hasFees p then
        if submitted \<noteq> feePolicyVersion then
          withdraw_reject ev pid entryPoint nonce ''policy-unknown'' (BadRequest ''UnknownFeePolicy: Unsupported fee policy - re-quote and try again'')
        else ret None
      else bind_eff (fee_call ev (\<lambda>ok now. checkSubmitVersion ok now submitted)) (\<lambda>gate. case gate of
          VersionOk warning \<Rightarrow> ret warning
        | VersionRefused code status message \<Rightarrow>
            withdraw_reject ev pid entryPoint nonce ''policy-unknown''
              (if status = 410 then ProviderError 410 (code @ '': '' @ message) else BadRequest (code @ '': '' @ message))))"

definition driftRejected :: "'w env \<Rightarrow> string \<Rightarrow> SponsoredEntryPoint \<Rightarrow> int \<Rightarrow> int \<Rightarrow> (('w, 'z) relayer_scheme, unit) eff" where
  "driftRejected ev pid entryPoint quoted attested =
     log_security ev pid ''quote.drift_rejected'' [(''chain'', JStr ''solana''), (''entryPoint'', JStr (entry_name entryPoint)),
       (''quoted'', JStr (fmtBaseUnits quoted)), (''attested'', JStr (fmtBaseUnits attested))]"

definition resolveSmart :: "'w env \<Rightarrow> 'w withdraw_ports \<Rightarrow> string \<Rightarrow> (('w, 'z) wallet_scheme, chain_account) eff" where
  "resolveSmart ev p pid = bind_eff (smart_account ev (wp_base p) pid) (\<lambda>row.
     case row of None \<Rightarrow> throw (NotFound ''Account not found'') | Some a \<Rightarrow> ret a)"

definition isActivated :: "'w withdraw_ports \<Rightarrow> string \<Rightarrow> (('w, 'z) relayer_scheme, bool) eff" where
  "isActivated p address = catch_default (port (rp_isActivated (wp_base p) address)) False"

section \<open>Quote\<close>

definition noActivation :: ActivationQuote where
  "noActivation = \<lparr>aq_required = False, aq_includedInTotal = False, aq_estimate = ''0'', aq_estimateBasis = ''account-active'', aq_mode = ''none''\<rparr>"

definition quoteEnvelope :: "int \<Rightarrow> fee_leg \<Rightarrow> int \<Rightarrow> string \<Rightarrow> ActivationQuote \<Rightarrow> string option \<Rightarrow> WithdrawQuote" where
  "quoteEnvelope networkFee leg chainTime treasury activation chain =
     (let platformFee = protocolFeeOf networkFee (fl_bps leg);
          totalFee = networkFee + platformFee
      in \<lparr>wq_networkFee = show_int networkFee, wq_protocolFeeBps = fl_bps leg, wq_feePolicyVersion = fl_version leg,
          wq_platformFee = show_int platformFee, wq_totalFee = show_int totalFee, wq_maxTotalFee = show_int totalFee,
          wq_chainMinBaseUnits = show_int (fl_chainMin leg), wq_chainTime = chainTime, wq_treasury = treasury,
          wq_quoteId = ''q_sol_'' @ show_int chainTime @ ''_'' @ show_radix 36 networkFee,
          wq_quotedAt = chainTime * 1000, wq_expiresAt = chainTime * 1000 + QUOTE_TTL_SECS * 1000,
          wq_activation = activation, wq_chain = chain\<rparr>)"

definition withdraw_quote :: "'w env \<Rightarrow> 'w withdraw_ports \<Rightarrow> string \<Rightarrow> (('w, 'z) sponsored_scheme, WithdrawQuote) eff" where
  "withdraw_quote ev p pid =
     bind_eff (port (rp_adapter (wp_base p))) (\<lambda>_.
     bind_eff (resolveSmart ev p pid) (\<lambda>chain.
     bind_eff (solanaFeeLeg ev p None) (\<lambda>leg.
     bind_eff (port (rp_chainTime (wp_base p))) (\<lambda>chainTime.
     bind_eff (try_eff (port (wp_solanaChain p))) (\<lambda>solChain.
     let chainEcho = (case solChain of Inr reference \<Rightarrow> Some reference | Inl _ \<Rightarrow> None) in
     bind_eff (isActivated p (ca_address chain)) (\<lambda>activated.
     if activated then
       bind_eff (port (wp_estimateWithdrawFee p)) (\<lambda>networkFee.
       ret (quoteEnvelope networkFee leg chainTime (wp_treasury p) noActivation chainEcho))
     else
       bind_eff (promise_all (port (wp_estimateCompositeWithdrawFee p)) (port (wp_rentExemption p))) (\<lambda>(compositeFee, rent).
       let networkFee = compositeFee + rent in
       ret (quoteEnvelope networkFee leg chainTime (wp_treasury p)
         \<lparr>aq_required = True, aq_includedInTotal = True, aq_estimate = show_int networkFee,
          aq_estimateBasis = ''rent(80B,'' @ show_int rent @ '')+getFeeForMessage(composite-activate_v4+withdraw_sol_v4,'' @ show_int compositeFee @ '')'',
          aq_mode = ''svm-composite''\<rparr> chainEcho))))))))"

section \<open>Reconciliation\<close>

definition reconcile_fees :: "'w env \<Rightarrow> 'w withdraw_ports \<Rightarrow> string \<Rightarrow> string \<Rightarrow> int \<Rightarrow> int \<Rightarrow> fee_leg \<Rightarrow> SponsoredEntryPoint
    \<Rightarrow> (('w, 'z) relayer_scheme, unit) eff" where
  "reconcile_fees ev p pid signature networkFee protocolFee leg kind =
     (let expectedProtocol = protocolFeeOf networkFee (fl_bps leg) in
     bind_eff (catch_default (port (rp_parseTransaction (wp_base p) signature)) None) (\<lambda>parsed.
     let actual = Option.bind parsed id;
         absorbed = absorbedLoss networkFee actual;
         overAttested = (case actual of None \<Rightarrow> False | Some a \<Rightarrow> exceedsDriftBound networkFee a);
         formulaDiverged = (protocolFee \<noteq> expectedProtocol);
         actualStr = (case actual of None \<Rightarrow> fmtBaseUnits networkFee | Some a \<Rightarrow> show_int a);
         actualOrUnknown = (case actual of None \<Rightarrow> ''unknown'' | Some a \<Rightarrow> show_int a);
         scope = [(''chain'', JStr BROADCAST_CHAIN_SOLANA), (''entryPoint'', JStr (entry_name kind)), (''signature'', JStr signature)]
     in bind_eff (log_security ev pid (entry_name kind @ ''.reconciled'')
          [(''signature'', JStr signature), (''networkFee'', JStr (show_int networkFee)), (''protocolFee'', JStr (show_int protocolFee)),
           (''protocolFeeExpected'', JStr (show_int expectedProtocol)), (''actualNetworkFee'', JStr actualOrUnknown),
           (''relayerAbsorbed'', JStr (fmtBaseUnits absorbed)), (''overAttested'', JBool overAttested), (''formulaDiverged'', JBool formulaDiverged)]) (\<lambda>_.
        bind_eff (log_security ev pid ''relayer.pnl'' (scope @
          [(''absorbed'', JStr (fmtBaseUnits absorbed)), (''attested'', JStr (fmtBaseUnits networkFee)), (''actual'', JStr actualStr)])) (\<lambda>_.
        bind_eff (try_eff (recordAbsorbed ev pid BROADCAST_CHAIN_SOLANA absorbed)) (\<lambda>_.
        bind_eff (if formulaDiverged then
            bind_eff (log_security ev pid ''reconcile.formula_mismatch'' (scope @
              [(''attested'', JStr (fmtBaseUnits networkFee)), (''actual'', JStr actualStr), (''expected'', JStr (fmtBaseUnits expectedProtocol)),
               (''absorbed'', JStr (fmtBaseUnits absorbed))])) (\<lambda>_.
            log_security ev pid (entry_name kind @ ''.fee_divergence'')
              [(''signature'', JStr signature), (''protocolFee'', JStr (show_int protocolFee)), (''protocolFeeExpected'', JStr (show_int expectedProtocol)),
               (''networkFee'', JStr (show_int networkFee)), (''feePolicyVersion'', JNum (fl_version leg))])
          else ret ()) (\<lambda>_.
        if overAttested then
          bind_eff (log_security ev pid ''reconcile.over_attested'' (scope @
            [(''attested'', JStr (fmtBaseUnits networkFee)), (''actual'', JStr actualStr), (''expected'', JStr actualStr),
             (''absorbed'', JStr (fmtBaseUnits absorbed))])) (\<lambda>_.
          log_security ev pid (entry_name kind @ ''.fee_divergence'')
            [(''signature'', JStr signature), (''attestedNetworkFee'', JStr (show_int networkFee)), (''actualNetworkFee'', JStr actualOrUnknown),
             (''feePolicyVersion'', JNum (fl_version leg))])
        else ret ()))))))"

section \<open>Spends\<close>

text \<open>What the checks of a request establish before its slot is claimed.\<close>

record fee_terms =
  st_authority :: bytes
  st_assertion :: PasskeyAssertion
  st_version :: int
  st_leg :: fee_leg
  st_chainNonce :: int
  st_networkFee :: int
  st_protocolFee :: int
  st_maxTotalFee :: int
  st_warning :: "string option"

record spend_terms = fee_terms +
  st_amount :: int

definition submit_spend :: "'w withdraw_ports \<Rightarrow> withdraw_tx \<Rightarrow> (('w, 'z) sponsored_scheme, string \<times> unit) eff" where
  "submit_spend p tx s =
     (case wp_submit p tx (rl_world s) of
        (r, w) \<Rightarrow> (bind_result r (\<lambda>sig. Inr (sig, ())), s\<lparr>rl_world := w, sd_sent := sd_sent s @ [RWithdraw tx]\<rparr>))"

definition spend_tx :: "spend_kind \<Rightarrow> string \<Rightarrow> withdraw_dto \<Rightarrow> spend_terms \<Rightarrow> string \<Rightarrow> string \<Rightarrow> bytes option \<Rightarrow> withdraw_tx" where
  "spend_tx kind pid dto t destination relayer derivation =
     \<lparr>wt_kind = kind, wt_pid = pid, wt_authority = st_authority t, wt_destination = destination, wt_amount = st_amount t,
      wt_version = st_version t, wt_networkFee = st_networkFee t, wt_maxTotalFee = st_maxTotalFee t, wt_nonce = st_chainNonce t,
      wt_expiry = wd_expiry dto, wt_assertion = st_assertion t, wt_relayer = relayer, wt_derivation = derivation\<rparr>"

definition spend_sol :: "'w env \<Rightarrow> 'w withdraw_ports \<Rightarrow> string \<Rightarrow> withdraw_dto \<Rightarrow> spend_terms \<Rightarrow> string result
    \<Rightarrow> (('w, 'z) sponsored_scheme, string \<times> unit) eff" where
  "spend_sol ev p pid dto t keypair =
     bind_eff (lift_result (pubkeyOr400 p (wd_to dto) ''Destination'')) (\<lambda>destination.
     bind_eff (lift_result keypair) (\<lambda>relayer.
     bind_eff (claiming_key ev pid) (\<lambda>derivation.
     submit_spend p (spend_tx SpendSol pid dto t destination relayer (Some derivation)))))"

definition spend_token :: "'w withdraw_ports \<Rightarrow> string \<Rightarrow> withdraw_dto \<Rightarrow> spend_terms \<Rightarrow> string result \<Rightarrow> string result
    \<Rightarrow> (('w, 'z) sponsored_scheme, string \<times> unit) eff" where
  "spend_token p pid dto t mintKey keypair =
     bind_eff (lift_result mintKey) (\<lambda>mint.
     bind_eff (lift_result (pubkeyOr400 p (wd_to dto) ''Destination'')) (\<lambda>destination.
     bind_eff (lift_result keypair) (\<lambda>relayer.
     submit_spend p (spend_tx (SpendToken mint) pid dto t destination relayer None))))"

definition broadcastComposite :: "'w withdraw_ports \<Rightarrow> string \<Rightarrow> withdraw_dto \<Rightarrow> spend_terms \<Rightarrow> activate_leg
    \<Rightarrow> (('w, 'z) sponsored_scheme, string \<times> unit) eff" where
  "broadcastComposite p pid dto t leg =
     (if wd_asset dto = ''SOL'' then
        bind_eff (lift_result (pubkeyOr400 p (wd_to dto) ''Destination'')) (\<lambda>destination.
        bind_eff (lift_result (rp_relayer (wp_base p))) (\<lambda>relayer.
        submit_spend p (spend_tx (CompositeSol leg) pid dto t destination relayer None)))
      else
        bind_eff (lift_result (pubkeyOr400 p (wd_asset dto) ''Asset mint'')) (\<lambda>mint.
        bind_eff (port (wp_tokenAta p pid (st_authority t) mint)) (\<lambda>_.
        bind_eff (lift_result (pubkeyOr400 p (wd_to dto) ''Destination'')) (\<lambda>destination.
        bind_eff (lift_result (rp_relayer (wp_base p))) (\<lambda>relayer.
        submit_spend p (spend_tx (CompositeToken mint leg) pid dto t destination relayer None))))))"

definition activate_first :: "'w withdraw_ports \<Rightarrow> activation_tx \<Rightarrow> (('w, 'z) sponsored_scheme, unit) eff" where
  "activate_first p tx s =
     (case wp_activateV4 p tx (rl_world s) of (r, w) \<Rightarrow> (r, s\<lparr>rl_world := w, sd_activated := sd_activated s @ [tx]\<rparr>))"

definition withdraw_slot :: "string \<Rightarrow> withdraw_dto \<Rightarrow> slot_key" where
  "withdraw_slot pid dto = (pid, wd_nonce dto, BROADCAST_CHAIN_SOLANA, EWithdraw)"

text \<open>The composite transaction, and the two steps when it does not fit into a packet.\<close>

definition first_action_broadcast :: "'w env \<Rightarrow> 'w withdraw_ports \<Rightarrow> string \<Rightarrow> string \<Rightarrow> withdraw_dto \<Rightarrow> spend_terms \<Rightarrow> activate_leg
    \<Rightarrow> (('w, 'z) sponsored_scheme, string option \<times> string) eff" where
  "first_action_broadcast ev p pid accountAddress dto t leg =
     (let resolve = resolveSvmState p accountAddress (st_chainNonce t) in
     bind_eff (try_eff (broadcastWithResolveThenAct ev (withdraw_slot pid dto) (broadcastComposite p pid dto t leg) resolve)) (\<lambda>r. case r of
         Inr out \<Rightarrow> ret (rr_signature out, ''svm-composite'')
       | Inl err \<Rightarrow>
           if \<not> str_contains ''TxTooLarge'' (thrown_message err) then throw err
           else
             bind_eff (log_security ev pid ''withdraw.first_action_fallback''
               [(''reason'', JStr ''tx-too-large''), (''mode'', JStr ''svm-fallback-2step'')]) (\<lambda>_.
             bind_eff (lift_result (rp_relayer (wp_base p))) (\<lambda>relayer.
             bind_eff (activate_first p \<lparr>at_pid = pid, at_authority = st_authority t, at_leg = leg, at_relayer = relayer\<rparr>) (\<lambda>_.
             bind_eff (broadcastWithResolveThenAct ev (withdraw_slot pid dto)
                 (if wd_asset dto = ''SOL'' then spend_sol ev p pid dto t (Inr relayer)
                  else spend_token p pid dto t (pubkeyOr400 p (wd_asset dto) ''Asset mint'') (Inr relayer)) resolve) (\<lambda>out.
             ret (rr_signature out, ''svm-fallback-2step'')))))))"

text \<open>From the signature on: the confirmation, its record in the slot, the log and the reconciliation.\<close>

definition settle_spend :: "'w env \<Rightarrow> 'w withdraw_ports \<Rightarrow> string \<Rightarrow> withdraw_dto \<Rightarrow> spend_terms \<Rightarrow> string option \<Rightarrow> string option
    \<Rightarrow> (('w, 'z) sponsored_scheme, SponsoredWithdrawResult) eff" where
  "settle_spend ev p pid dto t mode found =
     (let scope = [(''entryPoint'', JStr ''withdraw''), (''chain'', JStr BROADCAST_CHAIN_SOLANA)];
          first = (case mode of None \<Rightarrow> [] | Some m \<Rightarrow> [(''firstAction'', JBool True), (''mode'', JStr m)]) in
     if nullish found [] = [] then
       bind_eff (log_security ev pid ''relay.resolve_landed'' (scope @ [(''nonce'', JStr (wd_nonce dto)), (''unattributed'', JBool True)])) (\<lambda>_.
       throw (ServiceUnavailable
         ''The withdrawal landed but its receipt is unreadable - support has been alerted, please check your balance before retrying''))
     else
       let signature = nullish found [] in
       bind_eff (port (wp_waitForConfirmation p signature)) (\<lambda>confirmation.
       bind_eff (if confirmation = ''failed'' then
           bind_eff (recordOutcome ev (withdraw_slot pid dto) BFailed (Some signature)) (\<lambda>_.
           log_security ev pid ''withdraw.confirm_failed'' (scope @ [(''signature'', JStr signature)] @ first))
         else ret ()) (\<lambda>_.
       let status = (if confirmation = ''confirmed'' then ''confirmed'' else ''pending'') in
       bind_eff (log_security ev pid ''withdraw.submitted''
         ([(''signature'', JStr signature), (''amount'', JStr (show_int (st_amount t))), (''asset'', JStr (wd_asset dto)),
           (''networkFee'', JStr (show_int (st_networkFee t))), (''protocolFee'', JStr (show_int (st_protocolFee t))),
           (''feePolicyVersion'', JNum (st_version t))] @
          (if mode \<noteq> None then first else case st_warning t of None \<Rightarrow> [] | Some warning \<Rightarrow> [(''feePolicyWarning'', JStr warning)]))) (\<lambda>_.
       bind_eff (if status = ''confirmed'' then
           bind_eff (recordOutcome ev (withdraw_slot pid dto) BConfirmed (Some signature)) (\<lambda>_.
           log_security ev pid ''relay.resolve_landed''
             [(''chain'', JStr BROADCAST_CHAIN_SOLANA), (''entryPoint'', JStr ''withdraw''), (''nonce'', JStr (wd_nonce dto)),
              (''signature'', JStr signature)])
         else ret ()) (\<lambda>_.
       bind_eff (try_eff (reconcile_fees ev p pid signature (st_networkFee t) (st_protocolFee t) (st_leg t) EWithdraw)) (\<lambda>_.
       ret (withdraw_result signature (st_networkFee t) (st_protocolFee t) status (st_warning t) mode)))))))"

section \<open>Requests\<close>

definition check_expiry :: "'w env \<Rightarrow> string \<Rightarrow> SponsoredEntryPoint \<Rightarrow> string \<Rightarrow> int \<Rightarrow> int \<Rightarrow> (('w, 'z) relayer_scheme, unit) eff" where
  "check_expiry ev pid entryPoint nonce chainTime expiry =
     (if expiry \<le> chainTime then withdraw_reject ev pid entryPoint nonce ''expired'' (BadRequest ''Authorization expired - please try again'')
      else if expiry - chainTime > MAX_TTL_SECS then
        withdraw_reject ev pid entryPoint nonce ''expired'' (BadRequest ''Authorization lifetime exceeds 600 seconds - re-quote and try again'')
      else ret ())"

definition check_nonce :: "'w env \<Rightarrow> string \<Rightarrow> SponsoredEntryPoint \<Rightarrow> string \<Rightarrow> int \<Rightarrow> (('w, 'z) relayer_scheme, unit) eff" where
  "check_nonce ev pid entryPoint nonce chainNonce =
     bind_eff (lift_result (big_field nonce)) (\<lambda>signed.
     if signed \<noteq> chainNonce then
       withdraw_reject ev pid entryPoint nonce ''stale-nonce''
         (Conflict ''Authorization is stale - please try again (a newer nonce is active)'')
     else ret ())"

definition check_drift :: "'w env \<Rightarrow> string \<Rightarrow> SponsoredEntryPoint \<Rightarrow> string \<Rightarrow> int \<Rightarrow> int \<Rightarrow> (('w, 'z) relayer_scheme, unit) eff" where
  "check_drift ev pid entryPoint nonce networkFee quoted =
     (if exceedsDriftBound networkFee quoted then
        bind_eff (driftRejected ev pid entryPoint quoted networkFee) (\<lambda>_.
        withdraw_reject ev pid entryPoint nonce ''drift'' (Conflict ''Network fee moved - re-quote and try again''))
      else ret ())"

text \<open>The bound of the user on the fees; \<open>extra\<close> is what the caller adds to the log.\<close>

definition check_max_total :: "'w env \<Rightarrow> string \<Rightarrow> string \<Rightarrow> (string \<times> json) list \<Rightarrow> int \<Rightarrow> int \<Rightarrow> int \<Rightarrow> string \<Rightarrow> (('w, 'z) relayer_scheme, int) eff" where
  "check_max_total ev pid event extra networkFee protocolFee version maxField =
     bind_eff (lift_result (amountOr400 maxField ''Max total fee'')) (\<lambda>maxTotalFee.
     if exceedsMaxTotalFee (networkFee + protocolFee) maxTotalFee then
       bind_eff (log_security ev pid event (extra @
         [(''totalFee'', JStr (show_int (networkFee + protocolFee))), (''maxTotalFee'', JStr (show_int maxTotalFee)),
          (''networkFee'', JStr (show_int networkFee)), (''protocolFee'', JStr (show_int protocolFee)), (''feePolicyVersion'', JNum version)])) (\<lambda>_.
       throw (Conflict ''Total fee exceeds your authorized maximum - re-quote and try again''))
     else ret maxTotalFee)"

definition check_sol_fee :: "'w env \<Rightarrow> 'w withdraw_ports \<Rightarrow> string \<Rightarrow> SponsoredEntryPoint \<Rightarrow> string \<Rightarrow> string \<Rightarrow> int \<Rightarrow> (('w, 'z) relayer_scheme, unit) eff" where
  "check_sol_fee ev p pid entryPoint nonce address totalFee =
     bind_eff (port (wp_getBalanceOf p address)) (\<lambda>smartSol.
     if smartSol < totalFee then
       withdraw_reject ev pid entryPoint nonce ''insufficient-funds''
         (BadRequest (''Insufficient SOL for fee - need '' @ show_int totalFee @ '' lamports, have '' @ show_int smartSol))
     else ret ())"

definition check_sol_balance :: "'w env \<Rightarrow> 'w withdraw_ports \<Rightarrow> string \<Rightarrow> withdraw_dto \<Rightarrow> string \<Rightarrow> int \<Rightarrow> int \<Rightarrow> (('w, 'z) relayer_scheme, unit) eff" where
  "check_sol_balance ev p pid dto address amount totalFee =
     bind_eff (port (wp_getBalanceOf p address)) (\<lambda>smart.
     if smart < amount + totalFee then
       withdraw_reject ev pid EWithdraw (wd_nonce dto) ''insufficient-funds''
         (BadRequest (''Insufficient balance - need '' @ show_int (amount + totalFee) @ '' lamports, have '' @ show_int smart))
     else ret ())"

definition check_destination :: "'w env \<Rightarrow> string \<Rightarrow> withdraw_dto \<Rightarrow> string \<Rightarrow> (('w, 'z) relayer_scheme, unit) eff" where
  "check_destination ev pid dto address =
     (if wd_to dto = address then
        withdraw_reject ev pid EWithdraw (wd_nonce dto) ''policy-unknown'' (BadRequest ''Destination cannot be the smart account'')
      else ret ())"

definition RELAYER_UNFUNDED :: http_error where
  "RELAYER_UNFUNDED = ServiceUnavailable
     ''Peridot's fee service is briefly unavailable. No SOL was deducted from your wallet - please try again in a moment.''"

text \<open>The duplicate answers of a claim, or \<open>None\<close> when the caller may broadcast.\<close>

definition answer_duplicate :: "'w env \<Rightarrow> 'w withdraw_ports \<Rightarrow> string \<Rightarrow> string \<Rightarrow> SponsoredEntryPoint \<Rightarrow> string \<Rightarrow> 'f fee_terms_scheme \<Rightarrow> string option \<Rightarrow> ClaimResult
    \<Rightarrow> (('w, 'z) sponsored_scheme, SponsoredWithdrawResult option) eff" where
  "answer_duplicate ev p pid address entryPoint nonce t warning claim =
     (if cl_decision claim = Duplicate then
        if nullish (cl_signature claim) [] \<noteq> [] then
          ret (Some (withdraw_result (nullish (cl_signature claim) []) (st_networkFee t) (st_protocolFee t) ''confirmed'' warning None))
        else resolveDuplicateSlot ev p pid address entryPoint nonce (st_chainNonce t) (st_networkFee t) (st_protocolFee t)
      else ret None)"

definition first_action_claimed :: "'w env \<Rightarrow> 'w withdraw_ports \<Rightarrow> string \<Rightarrow> string \<Rightarrow> withdraw_dto \<Rightarrow> FirstActionAuth \<Rightarrow> spend_terms \<Rightarrow> activate_leg
    \<Rightarrow> (('w, 'z) sponsored_scheme, SponsoredWithdrawResult) eff" where
  "first_action_claimed ev p pid address dto first t leg =
     bind_eff (claimSlot ev (withdraw_slot pid dto) (intentHash p EWithdraw (as_signature (wd_assertion dto))
         [JStr (wd_asset dto), JStr (wd_to dto), JStr (wd_amount dto), JStr (wd_nonce dto), JNum (wd_expiry dto), JNum (st_version t),
          JStr ''first-action'', JStr (as_signature (fa_assertion first))])) (\<lambda>claim.
     bind_eff (answer_duplicate ev p pid address EWithdraw (wd_nonce dto) t (st_warning t) claim) (\<lambda>answer. case answer of
         Some res \<Rightarrow> ret res
       | None \<Rightarrow>
           bind_eff (first_action_broadcast ev p pid address dto t leg) (\<lambda>(found, mode).
           settle_spend ev p pid dto t (Some mode) found)))"

definition withdraw_broadcast :: "'w env \<Rightarrow> 'w withdraw_ports \<Rightarrow> string \<Rightarrow> string \<Rightarrow> withdraw_dto \<Rightarrow> spend_terms
    \<Rightarrow> (('w, 'z) sponsored_scheme, string option) eff" where
  "withdraw_broadcast ev p pid address dto t =
     (let resolve = resolveSvmState p address (st_chainNonce t) in
     if wd_asset dto = ''SOL'' then
       bind_eff (broadcastWithResolveThenAct ev (withdraw_slot pid dto) (spend_sol ev p pid dto t (rp_relayer (wp_base p))) resolve) (\<lambda>out.
       ret (rr_signature out))
     else
       bind_eff (lift_result (pubkeyOr400 p (wd_asset dto) ''Asset mint'')) (\<lambda>mint.
       bind_eff (claiming_key ev pid) (\<lambda>derivation.
       bind_eff (port (wp_tokenAta p pid derivation mint)) (\<lambda>sourceAta.
       bind_eff (port (wp_hasAccount p sourceAta)) (\<lambda>registered.
       if \<not> registered then
         withdraw_reject ev pid EWithdraw (wd_nonce dto) ''policy-unknown'' (BadRequest ''Token account is not registered on this wallet yet'')
       else
         bind_eff (broadcastWithResolveThenAct ev (withdraw_slot pid dto)
             (spend_token p pid dto t (Inr mint) (rp_relayer (wp_base p))) resolve) (\<lambda>out.
         ret (rr_signature out)))))))"

definition withdraw_hash :: "'w withdraw_ports \<Rightarrow> withdraw_dto \<Rightarrow> spend_terms \<Rightarrow> string" where
  "withdraw_hash p dto t = intentHash p EWithdraw (as_signature (wd_assertion dto))
     [JStr (wd_asset dto), JStr (wd_to dto), JStr (wd_amount dto), JStr (wd_nonce dto), JNum (wd_expiry dto), JNum (st_version t)]"

definition withdraw_claimed :: "'w env \<Rightarrow> 'w withdraw_ports \<Rightarrow> string \<Rightarrow> string \<Rightarrow> withdraw_dto \<Rightarrow> spend_terms
    \<Rightarrow> (('w, 'z) sponsored_scheme, SponsoredWithdrawResult) eff" where
  "withdraw_claimed ev p pid address dto t =
     bind_eff (claimSlot ev (withdraw_slot pid dto) (withdraw_hash p dto t)) (\<lambda>claim.
     bind_eff (answer_duplicate ev p pid address EWithdraw (wd_nonce dto) t None claim) (\<lambda>answer. case answer of
         Some res \<Rightarrow> ret res
       | None \<Rightarrow>
           bind_eff (withdraw_broadcast ev p pid address dto t) (\<lambda>found.
           settle_spend ev p pid dto t None found)))"

definition withdraw_funds :: "'w env \<Rightarrow> 'w withdraw_ports \<Rightarrow> string \<Rightarrow> string \<Rightarrow> withdraw_dto \<Rightarrow> int \<Rightarrow> int \<Rightarrow> (('w, 'z) sponsored_scheme, unit) eff" where
  "withdraw_funds ev p pid address dto amount totalFee =
     (if wd_asset dto = ''SOL'' then check_sol_balance ev p pid dto address amount totalFee
      else
        bind_eff (lift_result (pubkeyOr400 p (wd_asset dto) ''Asset mint'')) (\<lambda>mint.
        bind_eff (claiming_key ev pid) (\<lambda>derivation.
        bind_eff (port (wp_tokenAta p pid derivation mint)) (\<lambda>sourceAta.
        bind_eff (catch_default (port (wp_getTokenBalancesOf p sourceAta)) []) (\<lambda>balances.
        if (case find (\<lambda>b. fst b = mint) balances of None \<Rightarrow> True | Some row \<Rightarrow> snd row < amount) then
          withdraw_reject ev pid EWithdraw (wd_nonce dto) ''insufficient-funds'' (BadRequest ''Insufficient token balance'')
        else check_sol_fee ev p pid EWithdraw (wd_nonce dto) address totalFee)))))"

definition withdrawFirstAction :: "'w env \<Rightarrow> 'w withdraw_ports \<Rightarrow> string \<Rightarrow> string \<Rightarrow> withdraw_dto
    \<Rightarrow> (('w, 'z) sponsored_scheme, SponsoredWithdrawResult) eff" where
  "withdrawFirstAction ev p pid address dto =
     (case wd_activation dto of
        None \<Rightarrow> throw (Conflict ''Account is not active yet - re-quote for first action and sign the activation segment'')
      | Some first \<Rightarrow>
     let fail = withdraw_reject ev pid EWithdraw (wd_nonce dto); version = wd_feePolicyVersion dto in
     bind_eff (requireClosed BROADCAST_CHAIN_SOLANA) (\<lambda>_.
     bind_eff (active_credential ev (wp_base p) pid (as_id (wd_assertion dto))) (\<lambda>row. case row of
         None \<Rightarrow> fail ''unauthorized'' (BadRequest ''Unknown or inactive passkey'')
       | Some authority \<Rightarrow>
     if as_id (fa_assertion first) \<noteq> as_id (wd_assertion dto) then
       fail ''unauthorized'' (BadRequest ''Activation and spend must be signed by the same passkey'')
     else
     bind_eff (lift_result (amountOr400 (wd_amount dto) ''Amount'')) (\<lambda>amount.
     if amount \<le> 0 then throw (BadRequest ''Amount must be greater than 0'')
     else
     bind_eff (gateSubmitVersion ev p pid EWithdraw (wd_nonce dto) version) (\<lambda>feePolicyWarning.
     if fa_feePolicyVersion first \<noteq> version then
       fail ''policy-unknown'' (BadRequest ''Activation and spend must be quoted under the same fee policy version'')
     else
     bind_eff (solanaFeeLeg ev p (Some version)) (\<lambda>leg.
     bind_eff (claiming_key ev pid) (\<lambda>derivation.
     bind_eff (catch_default (port (rp_getNonce (wp_base p) pid derivation)) 0) (\<lambda>chainNonce.
     bind_eff (check_nonce ev pid EWithdraw (wd_nonce dto) chainNonce) (\<lambda>_.
     bind_eff (port (rp_chainTime (wp_base p))) (\<lambda>chainTime.
     bind_eff (check_expiry ev pid EWithdraw (wd_nonce dto) chainTime (wd_expiry dto)) (\<lambda>_.
     bind_eff (check_expiry ev pid EWithdraw (wd_nonce dto) chainTime (fa_expiry first)) (\<lambda>_.
     bind_eff (promise_all (port (wp_estimateCompositeWithdrawFee p)) (port (wp_rentExemption p))) (\<lambda>(compositeFee, rent).
     let networkFee = compositeFee + rent in
     bind_eff (lift_result (big_field (wd_quotedNetworkFeeLamports dto))) (\<lambda>quoted.
     bind_eff (check_drift ev pid EWithdraw (wd_nonce dto) networkFee quoted) (\<lambda>_.
     let protocolFee = protocolFeeOf networkFee (fl_bps leg); totalFee = networkFee + protocolFee in
     bind_eff (check_max_total ev pid ''withdraw.max_total_exceeded'' [(''firstAction'', JBool True)] networkFee protocolFee version
         (wd_maxTotalFeeLamports dto)) (\<lambda>maxTotalFee.
     bind_eff (check_destination ev pid dto address) (\<lambda>_.
     bind_eff (if wd_asset dto = ''SOL'' then check_sol_balance ev p pid dto address amount totalFee
               else check_sol_fee ev p pid EWithdraw (wd_nonce dto) address totalFee) (\<lambda>_.
     bind_eff (lift_result (rp_relayer (wp_base p))) (\<lambda>relayer.
     bind_eff (port (wp_getBalanceOf p relayer)) (\<lambda>relayerBal.
     if relayerBal < compositeFee then
       bind_eff (log_security ev pid ''withdraw.relayer_unfunded'' [(''firstAction'', JBool True)]) (\<lambda>_. throw RELAYER_UNFUNDED)
     else
     bind_eff (lift_result (coseToCompressedSecp256r1 (cr_publicKey authority))) (\<lambda>authorityCompressed.
     bind_eff (lift_result (decode_assertion (wd_assertion dto))) (\<lambda>spendAssertion.
     bind_eff (lift_result (decode_assertion (fa_assertion first))) (\<lambda>activateAssertion.
     bind_eff (lift_result (amountOr400 (fa_maxTotalFeeLamports first) ''Activation max total fee'')) (\<lambda>activateMax.
     if exceedsMaxTotalFee totalFee activateMax then
       throw (Conflict ''Total fee exceeds your authorized activation maximum - re-quote and try again'')
     else
       first_action_claimed ev p pid address dto first
         \<lparr>st_authority = authorityCompressed, st_assertion = spendAssertion, st_version = version, st_leg = leg,
          st_chainNonce = chainNonce, st_networkFee = networkFee, st_protocolFee = protocolFee, st_maxTotalFee = maxTotalFee,
          st_warning = feePolicyWarning, st_amount = amount\<rparr>
         \<lparr>al_version = version, al_networkFee = networkFee, al_maxTotalFee = activateMax, al_expiry = fa_expiry first,
          al_assertion = activateAssertion\<rparr>))))))))))))))))))))))))"

definition sponsored_withdraw :: "'w env \<Rightarrow> 'w withdraw_ports \<Rightarrow> string \<Rightarrow> withdraw_dto \<Rightarrow> (('w, 'z) sponsored_scheme, SponsoredWithdrawResult) eff" where
  "sponsored_withdraw ev p pid dto =
     (let fail = withdraw_reject ev pid EWithdraw (wd_nonce dto); version = wd_feePolicyVersion dto in
     bind_eff (port (rp_adapter (wp_base p))) (\<lambda>_.
     bind_eff (resolveSmart ev p pid) (\<lambda>chain.
     bind_eff (isActivated p (ca_address chain)) (\<lambda>activated.
     if \<not> activated then withdrawFirstAction ev p pid (ca_address chain) dto
     else
     bind_eff (requireClosed BROADCAST_CHAIN_SOLANA) (\<lambda>_.
     bind_eff (active_credential ev (wp_base p) pid (as_id (wd_assertion dto))) (\<lambda>row. case row of
         None \<Rightarrow> fail ''unauthorized'' (BadRequest ''Unknown or inactive passkey'')
       | Some authority \<Rightarrow>
     bind_eff (lift_result (big_field (wd_amount dto))) (\<lambda>amount.
     if amount \<le> 0 then throw (BadRequest ''Amount must be greater than 0'')
     else
     bind_eff (gateSubmitVersion ev p pid EWithdraw (wd_nonce dto) version) (\<lambda>feePolicyWarning.
     bind_eff (solanaFeeLeg ev p (Some version)) (\<lambda>leg.
     bind_eff (claiming_key ev pid) (\<lambda>derivation.
     bind_eff (port (rp_getNonce (wp_base p) pid derivation)) (\<lambda>chainNonce.
     bind_eff (check_nonce ev pid EWithdraw (wd_nonce dto) chainNonce) (\<lambda>_.
     bind_eff (port (rp_chainTime (wp_base p))) (\<lambda>chainTime.
     bind_eff (check_expiry ev pid EWithdraw (wd_nonce dto) chainTime (wd_expiry dto)) (\<lambda>_.
     bind_eff (lift_result (big_field (wd_quotedNetworkFeeLamports dto))) (\<lambda>quoted.
     bind_eff (port (wp_estimateWithdrawFee p)) (\<lambda>networkFee.
     bind_eff (check_drift ev pid EWithdraw (wd_nonce dto) networkFee quoted) (\<lambda>_.
     let protocolFee = protocolFeeOf networkFee (fl_bps leg); totalFee = networkFee + protocolFee in
     bind_eff (check_max_total ev pid ''withdraw.max_total_exceeded'' [] networkFee protocolFee version (wd_maxTotalFeeLamports dto)) (\<lambda>maxTotalFee.
     bind_eff (check_destination ev pid dto (ca_address chain)) (\<lambda>_.
     bind_eff (withdraw_funds ev p pid (ca_address chain) dto amount totalFee) (\<lambda>_.
     bind_eff (lift_result (rp_relayer (wp_base p))) (\<lambda>relayer.
     bind_eff (port (wp_getBalanceOf p relayer)) (\<lambda>relayerBal.
     bind_eff (catch_default (port (wp_estimateWithdrawFee p)) 5000) (\<lambda>feeForTx.
     if relayerBal < feeForTx then
       bind_eff (log_security ev pid ''withdraw.relayer_unfunded'' []) (\<lambda>_. throw RELAYER_UNFUNDED)
     else
     bind_eff (lift_result (coseToCompressedSecp256r1 (cr_publicKey authority))) (\<lambda>authorityCompressed.
     bind_eff (lift_result (decode_assertion (wd_assertion dto))) (\<lambda>asserted.
     withdraw_claimed ev p pid (ca_address chain) dto
       \<lparr>st_authority = authorityCompressed, st_assertion = asserted, st_version = version, st_leg = leg,
        st_chainNonce = chainNonce, st_networkFee = networkFee, st_protocolFee = protocolFee, st_maxTotalFee = maxTotalFee,
        st_warning = feePolicyWarning, st_amount = amount\<rparr>)))))))))))))))))))))))))"

end
