(* ===== verification/Withdraw_Safety.thy ===== *)
theory Withdraw_Safety
  imports Wallet_Withdraw
begin

text \<open>
  What sponsored withdrawals promise. The locale \<open>sponsored_frame\<close> carries a preorder of states along the whole of a request, except for the
  submission itself; it is interpreted on the relation that lets the submitted transactions grow only by authorised ones and on the relation
  of a first action whose composite transaction is too large.
\<close>

section \<open>Numbers of a request\<close>

lemma digit_facts:
  assumes "is_digit c"
  shows "digit_of 10 c = Some (digit_val c)" "to_lower_char c = c"
  using assms by (auto simp: is_digit_def digit_of_def to_lower_char_def digit_val_def Let_def)

lemma digits_value_digits: "all_digits s \<Longrightarrow> digits_value 10 s = Some (int (nat_of_digits s))"
proof -
  assume d: "all_digits s"
  have "foldl (\<lambda>a c. a * 10 + int (the (digit_of 10 c))) (int n) s = int (foldl (\<lambda>acc c. acc * 10 + digit_val c) n s)" if "list_all is_digit s" for n s
    using that
  proof (induction s arbitrary: n)
    case (Cons c s)
    then show ?case using Cons.IH [of "n * 10 + digit_val c"] by (simp add: digit_facts)
  qed simp
  from this [of s 0] d show ?thesis
    by (auto simp: digits_value_def all_digits_def nat_of_digits_def list_ex_iff list_all_iff digit_facts)
qed

lemma parse_digits:
  assumes "all_digits s"
  shows "parse_BigInt s = Some (int (nat_of_digits s))"
proof -
  have d: "s \<noteq> []" "\<And>c. c \<in> set s \<Longrightarrow> is_digit c" using assms by (auto simp: all_digits_def list_all_iff)
  then have t: "trim s = s" by (intro trim_no_space) (simp_all add: is_digit_not_space)
  have l: "c \<in> set (to_lower (take 2 s)) \<Longrightarrow> is_digit c" for c
    using d(2) by (auto simp: to_lower_def digit_facts dest: in_set_takeD)
  have "to_lower (take 2 s) \<noteq> [a, b]" if "\<not> is_digit b" for a b using l [of b] that by auto
  moreover have "hd s \<noteq> CHR ''-''" "hd s \<noteq> CHR ''+''" using d(2) [OF hd_in_set [OF d(1)]] by (auto simp: is_digit_def)
  ultimately show ?thesis using d(1) digits_value_digits [OF assms]
    by (simp add: parse_BigInt_def t Let_def is_digit_def)
qed

section \<open>A frame for requests\<close>

fun leg_of :: "spend_kind \<Rightarrow> activate_leg option" where
  "leg_of SpendSol = None"
| "leg_of (SpendToken mint) = None"
| "leg_of (CompositeSol leg) = Some leg"
| "leg_of (CompositeToken mint leg) = Some leg"

context ledger_frame
begin

lemma keeps_reconciliation [keeps_intros]: "preserves R (reconcile_fees ev p pid sg f pf leg kind)"
  unfolding reconcile_fees_def Let_def
  by (intro keeps_bind keeps_catch keeps_port keeps_log keeps_try keeps_recordAbsorbed keeps_if keeps_pure)

end

locale sponsored_frame = wallet_frame R + outer_frame R for R :: "('w, 'z) sponsored_scheme \<Rightarrow> ('w, 'z) sponsored_scheme \<Rightarrow> bool" +
  assumes fees: "(\<And>st. fee_ok st \<Longrightarrow> fee_ok (g st)) \<Longrightarrow> R s (s\<lparr>sd_fees := g (sd_fees s)\<rparr>)"
begin

lemma keeps_claiming [keeps_intros]: "preserves R (requireActiveAuthority ev pid)" "preserves R (claiming_key ev pid)"
  unfolding claiming_key_def requireActiveAuthority_def
  by (auto intro!: keeps_bind keeps_statement keeps_pure split: option.split)

lemma keeps_fee_call [keeps_intros]:
  assumes "\<And>ok now st. fee_ok st \<Longrightarrow> fee_ok (snd (f ok now st))"
  shows "preserves R (fee_call ev f)"
  unfolding preserves_def
proof
  fix s :: "('w, 'z) sponsored_scheme"
  obtain ok w where w: "ev_db ev (rl_world s) = (ok, w)" by fastforce
  have "R (s\<lparr>rl_world := w\<rparr>) (s\<lparr>rl_world := w, sd_fees := snd (f ok (ev_now ev w) (sd_fees s))\<rparr>)"
    using fees [of "\<lambda>st. snd (f ok (ev_now ev w) st)" "s\<lparr>rl_world := w\<rparr>"] assms by simp
  with trans [OF world] show "R s (snd (fee_call ev f s))"
    by (cases "f ok (ev_now ev w) (sd_fees s)") (simp add: fee_call_def w)
qed

lemma keeps_reject_log [keeps_intros]: "preserves R (withdraw_reject ev pid ep nonce cause err)" "preserves R (driftRejected ev pid ep a b)"
  unfolding withdraw_reject_def driftRejected_def by (intro keeps_bind keeps_log keeps_pure)+

lemma keeps_gate [keeps_intros]: "preserves R (gateSubmitVersion ev p pid ep nonce v)"
proof -
  have "fee_ok st \<Longrightarrow> fee_ok (snd (checkSubmitVersion ok now v st))" for ok now st
    using policies_keep(1) [of st ok now] by (cases "policies ok now st") (auto simp: checkSubmitVersion_def split: prod.splits)
  then show ?thesis unfolding gateSubmitVersion_def
    by (auto intro!: keeps_bind keeps_fee_call keeps_reject_log keeps_pure split: SubmitVersionCheck.split)
qed

lemma fee_leg_reads:
  "fee_ok st \<Longrightarrow> fee_ok (snd (minFeeFor ok now st))" "fee_ok st \<Longrightarrow> fee_ok (snd (minFeeForVersion ok now v st))"
  using policies_keep(1) [of st ok now]
  by (auto simp: minFeeFor_def activePolicy_def minFeeForVersion_def policyByVersion_def split: prod.splits option.splits)

lemma keeps_leg [keeps_intros]: "preserves R (solanaFeeLeg ev p version)"
  unfolding solanaFeeLeg_def
  by (auto intro!: keeps_bind keeps_fee_call fee_leg_reads keeps_pure split: option.split sum.split)

lemma keeps_promise_all [keeps_intros]: "preserves R m \<Longrightarrow> preserves R n \<Longrightarrow> preserves R (promise_all m n)"
  unfolding promise_all_def by (intro keeps_bind keeps_try keeps_pure)

lemma keeps_checks [keeps_intros]:
  "preserves R (check_expiry ev pid ep nonce ct e)" "preserves R (check_nonce ev pid ep nonce n)" "preserves R (check_drift ev pid ep nonce f q)"
  "preserves R (check_max_total ev pid event extra f pf v m)" "preserves R (check_sol_fee ev p pid ep nonce a total_fee)"
  "preserves R (check_sol_balance ev p pid dto a amount total_fee)" "preserves R (check_destination ev pid dto a)"
  unfolding check_expiry_def check_nonce_def check_drift_def check_max_total_def check_sol_fee_def check_sol_balance_def check_destination_def
  by (auto intro!: keeps_bind keeps_reject_log keeps_pure keeps_log keeps_port)

lemma keeps_resolve [keeps_intros]: "preserves R (resolveSvmState p address n)"
  unfolding resolveSvmState_def by (auto intro!: keeps_bind keeps_port keeps_pure)

lemma keeps_duplicate [keeps_intros]:
  "preserves R (resolveDuplicateSlot ev p pid a ep nonce n f pf)" "preserves R (answer_duplicate ev p pid a ep nonce t w claim)"
  unfolding answer_duplicate_def resolveDuplicateSlot_def
  by (auto intro!: keeps_bind keeps_catch keeps_resolve keeps_pure keeps_log keeps_records split: ChainStateResolution.split option.split)

lemma keeps_reads [keeps_intros]: "preserves R (resolveSmart ev p pid)" "preserves R (isActivated p a)"
  unfolding resolveSmart_def isActivated_def by (auto intro!: keeps_bind keeps_lookups keeps_catch keeps_port keeps_pure split: option.split)

lemma keeps_settle [keeps_intros]: "preserves R (settle_spend ev p pid dto t mode found)"
  unfolding settle_spend_def Let_def
  by (intro keeps_bind keeps_port keeps_log keeps_try keeps_reconciliation keeps_records keeps_if keeps_pure)

lemma keeps_funds [keeps_intros]: "preserves R (withdraw_funds ev p pid a dto amount total_fee)"
  unfolding withdraw_funds_def
  by (intro keeps_bind keeps_catch keeps_port keeps_claiming keeps_checks keeps_reject_log keeps_if keeps_pure)

text \<open>The spends, when the submission of their transaction is kept.\<close>

lemma keeps_spends:
  assumes "\<And>kind d r der. leg_of kind = None \<Longrightarrow> wp_pubkey p (wd_to dto) = Some d \<Longrightarrow> preserves R (submit_spend p (spend_tx kind pid dto t d r der))"
  shows "preserves R (spend_sol ev p pid dto t kp)" "preserves R (spend_token p pid dto t mk kp)"
  unfolding spend_sol_def spend_token_def pubkeyOr400_def
  by (auto intro!: keeps_bind keeps_bind_when keeps_claiming keeps_pure assms split: option.splits)

lemma keeps_composite:
  assumes "\<And>kind d r der. leg_of kind = Some leg \<Longrightarrow> wp_pubkey p (wd_to dto) = Some d \<Longrightarrow> preserves R (submit_spend p (spend_tx kind pid dto t d r der))"
  shows "preserves R (broadcastComposite p pid dto t leg)"
  unfolding broadcastComposite_def pubkeyOr400_def
  by (auto intro!: keeps_bind_when keeps_port keeps_pure assms split: option.splits)

lemma keeps_first_action:
  assumes "preserves R (broadcastComposite p pid dto t leg)" "\<And>r. preserves R (activate_first p \<lparr>at_pid = pid, at_authority = st_authority t, at_leg = leg, at_relayer = r\<rparr>)"
    "\<And>kp. preserves R (spend_sol ev p pid dto t kp)" "\<And>mk kp. preserves R (spend_token p pid dto t mk kp)"
  shows "preserves R (first_action_claimed ev p pid a dto first t leg)"
  unfolding first_action_claimed_def first_action_broadcast_def Let_def
  by (auto intro!: keeps_bind keeps_try keeps_broadcast keeps_claimSlot keeps_duplicate keeps_log keeps_settle keeps_resolve keeps_pure assms
      split: option.split sum.split)

lemma keeps_claimed:
  assumes "\<And>kp. preserves R (spend_sol ev p pid dto t kp)" "\<And>mk kp. preserves R (spend_token p pid dto t mk kp)"
  shows "preserves R (withdraw_claimed ev p pid a dto t)"
  unfolding withdraw_claimed_def withdraw_broadcast_def Let_def
  by (auto intro!: keeps_bind keeps_broadcast keeps_claimSlot keeps_duplicate keeps_settle keeps_resolve keeps_pure keeps_claiming keeps_port
      keeps_reject_log assms split: option.split)

end

section \<open>Authorised transactions\<close>

text \<open>From a database with the credentials \<open>A\<close> and a sound fee policy: these stay, and what is submitted satisfies \<open>G\<close>, what is
  activated on its own satisfies \<open>H\<close>.\<close>

definition sends_state :: "credential list \<Rightarrow> ('w, 'z) sponsored_scheme \<Rightarrow> bool" where
  "sends_state A s \<longleftrightarrow> wl_authorities s = A \<and> fee_ok (sd_fees s)"

definition sends :: "credential list \<Rightarrow> (relayed_tx \<Rightarrow> bool) \<Rightarrow> (activation_tx \<Rightarrow> bool) \<Rightarrow> ('w, 'z) sponsored_scheme \<Rightarrow> ('w, 'z) sponsored_scheme \<Rightarrow> bool" where
  "sends A G H s t \<longleftrightarrow> (sends_state A s \<longrightarrow> sends_state A t \<and> (\<exists>new. sd_sent t = sd_sent s @ new \<and> list_all G new)
     \<and> (\<exists>new. sd_activated t = sd_activated s @ new \<and> list_all H new))"

lemma sends_trans: "sends A G H s t \<Longrightarrow> sends A G H t u \<Longrightarrow> sends A G H s u"
  unfolding sends_def by (auto simp: list_all_append)

interpretation sent: sponsored_frame "sends A G H" for A G H
  by unfold_locales (auto simp: sends_def sends_state_def intro: sends_trans [unfolded sends_def sends_state_def])

text \<open>What a returned value is known to satisfy.\<close>

definition returns :: "credential list \<Rightarrow> ('a \<Rightarrow> bool) \<Rightarrow> (('w, 'z) sponsored_scheme, 'a) eff \<Rightarrow> bool" where
  "returns A Q m \<longleftrightarrow> (\<forall>s a t. sends_state A s \<longrightarrow> m s = (Inr a, t) \<longrightarrow> Q a)"

lemma sends_bind:
  fixes m :: "(('w, 'z) sponsored_scheme, 'a) eff"
  assumes m: "preserves (sends A G H) m" and q: "returns A Q m" and f: "\<And>a. Q a \<Longrightarrow> preserves (sends A G H) (f a)"
  shows "preserves (sends A G H) (bind_eff m f)"
  unfolding preserves_def
proof
  fix s :: "('w, 'z) sponsored_scheme"
  obtain r t where r: "m s = (r, t)" by fastforce
  have st: "sends A G H s t" by (rule keepsD [OF m r])
  show "sends A G H s (snd (bind_eff m f s))"
  proof (cases "sends_state A s")
    case True
    show ?thesis
    proof (cases r)
      case (Inr a)
      then have "preserves (sends A G H) (f a)" using True q r f by (auto simp: returns_def)
      then have "sends A G H t (snd (f a t))" by (simp add: preserves_def)
      with st Inr r sends_trans show ?thesis by (auto simp: bind_eff_def)
    qed (use st r in \<open>simp add: bind_eff_def\<close>)
  qed (simp add: sends_def)
qed

lemma bind_value:
  fixes f :: "'a \<Rightarrow> (('w, 'z) sponsored_scheme, 'b) eff"
  assumes "\<And>a. r = Inr a \<Longrightarrow> preserves (sends A G H) (f a)"
  shows "preserves (sends A G H) (bind_eff (lift_result r) f)"
  by (rule sends_bind [where Q = "\<lambda>a. r = Inr a"]) (auto simp: returns_def intro: sent.keeps_pure assms)

lemma bind_credential:
  fixes f :: "credential option \<Rightarrow> (('w, 'z) sponsored_scheme, 'b) eff"
  assumes "\<And>c. c \<in> set A \<Longrightarrow> cr_pid c = pid \<Longrightarrow> cr_credentialId c = i \<Longrightarrow> cr_status c = ''active'' \<Longrightarrow> preserves (sends A G H) (f (Some c))"
    and "preserves (sends A G H) (f None)"
  shows "preserves (sends A G H) (bind_eff (active_credential ev q pid i) f)"
proof (rule sends_bind [where Q = "\<lambda>row. case row of None \<Rightarrow> True | Some c \<Rightarrow> c \<in> set A \<and> cr_pid c = pid \<and> cr_credentialId c = i \<and> cr_status c = ''active''",
      OF sent.keeps_lookups(2)])
  have pick: "x \<in> set rows" if "pick_row g rows = Some x" for g :: "credential list \<Rightarrow> nat" and rows x
    using that by (auto simp: pick_row_def split: if_splits)
  have read: "wl_authorities a = wl_authorities s" if "statement ev get_state s = (Inr a, t)" for s a t :: "('w, 'z) sponsored_scheme"
    using that by (auto simp: statement_def Let_def split: prod.splits if_splits)
  show "returns A (\<lambda>row. case row of None \<Rightarrow> True | Some c \<Rightarrow> c \<in> set A \<and> cr_pid c = pid \<and> cr_credentialId c = i \<and> cr_status c = ''active'')
      (active_credential ev q pid i :: (('w, 'z) sponsored_scheme, credential option) eff)"
    unfolding returns_def active_credential_def bind_eff_Inr sends_state_def
    by (auto dest!: read pick split: option.split)
qed (use assms in \<open>auto split: option.splits\<close>)

lemma bind_leg:
  fixes f :: "fee_leg \<Rightarrow> (('w, 'z) sponsored_scheme, 'b) eff"
  assumes "\<And>leg. 0 \<le> fl_bps leg \<Longrightarrow> fl_bps leg \<le> MAX_PROTOCOL_FEE_BPS \<Longrightarrow> preserves (sends A G H) (f leg)"
  shows "preserves (sends A G H) (bind_eff (solanaFeeLeg ev p (Some v)) f)"
proof (rule sends_bind [where Q = "\<lambda>leg. 0 \<le> fl_bps leg \<and> fl_bps leg \<le> MAX_PROTOCOL_FEE_BPS", OF sent.keeps_leg])
  have row: "0 \<le> bps \<and> bps \<le> MAX_PROTOCOL_FEE_BPS" if "feePolicyRow n = Inr bps" for n bps
    using that by (auto simp: feePolicyRow_def FEE_POLICY_TABLE_def split: if_splits)
  have code: "code_leg n = Inr leg \<Longrightarrow> 0 \<le> fl_bps leg \<and> fl_bps leg \<le> MAX_PROTOCOL_FEE_BPS" for n leg
    using row [of n] by (cases "feePolicyRow n") (auto simp: code_leg_def)
  have db: "0 \<le> bps \<and> bps \<le> MAX_PROTOCOL_FEE_BPS" if "fee_ok st" "minFeeForVersion ok now v st = (Inr (z, bps), st')" for st ok now z bps st'
  proof -
    obtain l st1 where l: "policies ok now st = (l, st1)" by fastforce
    then show ?thesis using policies_ok [OF that(1) l] that(2)
      by (auto simp: minFeeForVersion_def policyByVersion_def loaded_ok_def bps_ok_def split: option.splits dest!: map_of_SomeD)
  qed
  show "returns A (\<lambda>leg. 0 \<le> fl_bps leg \<and> fl_bps leg \<le> MAX_PROTOCOL_FEE_BPS)
      (solanaFeeLeg ev p (Some v) :: (('w, 'z) sponsored_scheme, fee_leg) eff)"
    unfolding returns_def solanaFeeLeg_def
    by (auto simp: bind_eff_Inr fee_call_def sends_state_def split: prod.splits sum.splits if_splits dest: code db)
qed (use assms in auto)

lemma bind_port:
  fixes f :: "'a \<Rightarrow> (('w, 'z) sponsored_scheme, 'b) eff"
  assumes "\<And>a w w'. g w = (Inr a, w') \<Longrightarrow> preserves (sends A G H) (f a)"
  shows "preserves (sends A G H) (bind_eff (port g) f)"
  by (rule sends_bind [where Q = "\<lambda>a. \<exists>w w'. g w = (Inr a, w')", OF sent.keeps_port])
    (auto simp: returns_def port_def intro: assms split: prod.splits)

lemma bind_checks:
  fixes f :: "unit \<Rightarrow> (('w, 'z) sponsored_scheme, 'b) eff" and g :: "int \<Rightarrow> (('w, 'z) sponsored_scheme, 'b) eff"
  shows "(ct < e \<Longrightarrow> e \<le> ct + MAX_TTL_SECS \<Longrightarrow> preserves (sends A G H) (f ())) \<Longrightarrow> preserves (sends A G H) (bind_eff (check_expiry ev pid ep nonce ct e) f)"
    and "(big_field nonce = Inr n \<Longrightarrow> preserves (sends A G H) (f ())) \<Longrightarrow> preserves (sends A G H) (bind_eff (check_nonce ev pid ep nonce n) f)"
    and "(\<not> exceedsDriftBound nf q \<Longrightarrow> preserves (sends A G H) (f ())) \<Longrightarrow> preserves (sends A G H) (bind_eff (check_drift ev pid ep nonce nf q) f)"
    and "(wd_to dto \<noteq> a \<Longrightarrow> preserves (sends A G H) (f ())) \<Longrightarrow> preserves (sends A G H) (bind_eff (check_destination ev pid dto a) f)"
    and "(\<And>m. amountOr400 mf ''Max total fee'' = Inr m \<Longrightarrow> nf + pf \<le> m \<Longrightarrow> preserves (sends A G H) (g m)) \<Longrightarrow>
      preserves (sends A G H) (bind_eff (check_max_total ev pid event extra nf pf v mf) g)"
  subgoal by (rule sends_bind [where Q = "\<lambda>_. ct < e \<and> e \<le> ct + MAX_TTL_SECS", OF sent.keeps_checks(1)])
      (auto simp: returns_def check_expiry_def withdraw_reject_def bind_eff_Inr split: if_splits)
  subgoal by (rule sends_bind [where Q = "\<lambda>_. big_field nonce = Inr n", OF sent.keeps_checks(2)])
      (auto simp: returns_def check_nonce_def withdraw_reject_def bind_eff_Inr split: if_splits)
  subgoal by (rule sends_bind [where Q = "\<lambda>_. \<not> exceedsDriftBound nf q", OF sent.keeps_checks(3)])
      (auto simp: returns_def check_drift_def withdraw_reject_def bind_eff_Inr split: if_splits)
  subgoal by (rule sends_bind [where Q = "\<lambda>_. wd_to dto \<noteq> a", OF sent.keeps_checks(7)])
      (auto simp: returns_def check_destination_def withdraw_reject_def bind_eff_Inr split: if_splits)
  subgoal by (rule sends_bind [where Q = "\<lambda>m. amountOr400 mf ''Max total fee'' = Inr m \<and> nf + pf \<le> m", OF sent.keeps_checks(4)])
      (auto simp: returns_def check_max_total_def exceedsMaxTotalFee_def bind_eff_Inr split: if_splits)
  done

section \<open>What a transaction must satisfy\<close>

definition credential_signs :: "credential list \<Rightarrow> string \<Rightarrow> withdraw_dto \<Rightarrow> bytes \<Rightarrow> bool" where
  "credential_signs A pid dto key \<longleftrightarrow> list_ex (\<lambda>c. cr_pid c = pid \<and> cr_credentialId c = as_id (wd_assertion dto) \<and> cr_status c = ''active''
     \<and> coseToCompressedSecp256r1 (cr_publicKey c) = Inr key) A"

definition fees_within :: "withdraw_dto \<Rightarrow> int \<Rightarrow> int \<Rightarrow> bool" where
  "fees_within dto networkFee limit \<longleftrightarrow> (\<exists>quoted bps. parse_BigInt (wd_quotedNetworkFeeLamports dto) = Some quoted
     \<and> 100 * networkFee \<le> 120 * quoted \<and> 0 \<le> bps \<and> bps \<le> 5000 \<and> networkFee + protocolFeeOf networkFee bps \<le> limit)"

definition live :: "'w withdraw_ports \<Rightarrow> int \<Rightarrow> bool" where
  "live p expiry \<longleftrightarrow> (\<exists>now w w'. rp_chainTime (wp_base p) w = (Inr now, w') \<and> now < expiry \<and> expiry \<le> now + 600)"

definition leg_authorised :: "'w withdraw_ports \<Rightarrow> withdraw_dto \<Rightarrow> activate_leg \<Rightarrow> bool" where
  "leg_authorised p dto leg \<longleftrightarrow> (\<exists>first. wd_activation dto = Some first \<and> as_id (fa_assertion first) = as_id (wd_assertion dto)
     \<and> decode_assertion (fa_assertion first) = Inr (al_assertion leg) \<and> fa_feePolicyVersion first = wd_feePolicyVersion dto
     \<and> al_version leg = wd_feePolicyVersion dto \<and> al_expiry leg = fa_expiry first \<and> live p (fa_expiry first)
     \<and> amountOr400 (fa_maxTotalFeeLamports first) ''Activation max total fee'' = Inr (al_maxTotalFee leg)
     \<and> fees_within dto (al_networkFee leg) (al_maxTotalFee leg))"

definition spend_authorised :: "'w withdraw_ports \<Rightarrow> credential list \<Rightarrow> string \<Rightarrow> withdraw_dto \<Rightarrow> withdraw_tx \<Rightarrow> bool" where
  "spend_authorised p A pid dto tx \<longleftrightarrow> wt_pid tx = pid \<and> credential_signs A pid dto (wt_authority tx)
     \<and> decode_assertion (wd_assertion dto) = Inr (wt_assertion tx)
     \<and> wp_pubkey p (wd_to dto) = Some (wt_destination tx)
     \<and> parse_BigInt (wd_amount dto) = Some (wt_amount tx) \<and> 0 < wt_amount tx
     \<and> parse_BigInt (wd_nonce dto) = Some (wt_nonce tx)
     \<and> wt_version tx = wd_feePolicyVersion dto \<and> wt_expiry tx = wd_expiry dto \<and> live p (wd_expiry dto)
     \<and> amountOr400 (wd_maxTotalFeeLamports dto) ''Max total fee'' = Inr (wt_maxTotalFee tx)
     \<and> fees_within dto (wt_networkFee tx) (wt_maxTotalFee tx)
     \<and> (case leg_of (wt_kind tx) of None \<Rightarrow> True | Some leg \<Rightarrow> leg_authorised p dto leg \<and> al_networkFee leg = wt_networkFee tx)"

definition relayed_authorised :: "'w withdraw_ports \<Rightarrow> credential list \<Rightarrow> string \<Rightarrow> withdraw_dto \<Rightarrow> relayed_tx \<Rightarrow> bool" where
  "relayed_authorised p A pid dto x = (case x of RWithdraw tx \<Rightarrow> spend_authorised p A pid dto tx | RExecute tx \<Rightarrow> False)"

definition activation_authorised :: "'w withdraw_ports \<Rightarrow> credential list \<Rightarrow> string \<Rightarrow> withdraw_dto \<Rightarrow> activation_tx \<Rightarrow> bool" where
  "activation_authorised p A pid dto tx \<longleftrightarrow> at_pid tx = pid \<and> credential_signs A pid dto (at_authority tx) \<and> leg_authorised p dto (at_leg tx)"

lemma submit_sends: "G (RWithdraw tx) \<Longrightarrow> preserves (sends A G H) (submit_spend p tx)"
  by (auto simp: preserves_def submit_spend_def sends_def sends_state_def split: prod.split)

lemma activate_sends: "H tx \<Longrightarrow> preserves (sends A G H) (activate_first p tx)"
  by (auto simp: preserves_def activate_first_def sends_def sends_state_def split: prod.split)

lemma big_field_Inr: "big_field v = Inr n \<longleftrightarrow> parse_BigInt v = Some n"
  by (auto simp: big_field_def split: option.split)

lemma amount_parses: "amountOr400 v what = Inr n \<Longrightarrow> parse_BigInt v = Some n"
  by (auto simp: amountOr400_def parse_digits split: if_splits)

lemma fees_withinI:
  "big_field (wd_quotedNetworkFeeLamports dto) = Inr q \<Longrightarrow> \<not> exceedsDriftBound nf q \<Longrightarrow> 0 \<le> bps \<Longrightarrow> bps \<le> MAX_PROTOCOL_FEE_BPS
     \<Longrightarrow> nf + protocolFeeOf nf bps \<le> limit \<Longrightarrow> fees_within dto nf limit"
  by (auto simp: fees_within_def big_field_Inr exceedsDriftBound_def QUOTE_DRIFT_NUMERATOR_def QUOTE_DRIFT_DENOMINATOR_def MAX_PROTOCOL_FEE_BPS_def mult.commute)

lemma liveI: "rp_chainTime (wp_base p) w = (Inr now, w') \<Longrightarrow> now < e \<Longrightarrow> e \<le> now + MAX_TTL_SECS \<Longrightarrow> live p e"
  by (auto simp: live_def MAX_TTL_SECS_def)

lemma credential_signsI:
  "c \<in> set A \<Longrightarrow> cr_pid c = pid \<Longrightarrow> cr_credentialId c = as_id (wd_assertion dto) \<Longrightarrow> cr_status c = ''active''
     \<Longrightarrow> coseToCompressedSecp256r1 (cr_publicKey c) = Inr key \<Longrightarrow> credential_signs A pid dto key"
  by (auto simp: credential_signs_def list_ex_iff)

section \<open>Authorisation\<close>

lemma keeps_known: "preserves R (n a) \<Longrightarrow> preserves R (case Some a of None \<Rightarrow> m | Some b \<Rightarrow> n b)" "preserves R m \<Longrightarrow> preserves R (case None of None \<Rightarrow> m | Some b \<Rightarrow> n b)"
  by simp_all

lemmas request_steps = bind_value bind_credential bind_leg bind_checks bind_port sent.keeps_pure sent.keeps_reject_log keeps_branch keeps_known keeps_option
  keeps_pair sent.keeps_bind sent.keeps_log sent.keeps_requireClosed sent.keeps_gate sent.keeps_claiming sent.keeps_catch sent.keeps_port
  sent.keeps_promise_all sent.keeps_checks sent.keeps_funds sent.keeps_reads

lemmas terms_select = fee_terms.select_convs spend_terms.select_convs activate_leg.select_convs

lemma claimed_sends:
  assumes "\<And>kind d r der. leg_of kind = None \<Longrightarrow> wp_pubkey p (wd_to dto) = Some d \<Longrightarrow> G (RWithdraw (spend_tx kind pid dto t d r der))"
  shows "preserves (sends A G H) (withdraw_claimed ev p pid a dto t)"
  by (intro sent.keeps_claimed sent.keeps_spends submit_sends assms)

lemma first_action_sends:
  assumes "\<And>kind d r der. leg_of kind = None \<or> leg_of kind = Some leg \<Longrightarrow> wp_pubkey p (wd_to dto) = Some d \<Longrightarrow> G (RWithdraw (spend_tx kind pid dto t d r der))"
    and "\<And>r. H \<lparr>at_pid = pid, at_authority = st_authority t, at_leg = leg, at_relayer = r\<rparr>"
  shows "preserves (sends A G H) (first_action_claimed ev p pid a dto first t leg)"
  by (intro sent.keeps_first_action sent.keeps_spends sent.keeps_composite submit_sends activate_sends assms) auto

text \<open>What the checks have established when the slot is claimed.\<close>

lemma leg_ok:
  assumes "wd_activation dto = Some first" "\<not> as_id (fa_assertion first) \<noteq> as_id (wd_assertion dto)" "\<not> fa_feePolicyVersion first \<noteq> wd_feePolicyVersion dto"
    "decode_assertion (fa_assertion first) = Inr (al_assertion leg)" "al_version leg = wd_feePolicyVersion dto" "al_expiry leg = fa_expiry first"
    "rp_chainTime (wp_base p) w = (Inr now, w')" "now < fa_expiry first" "fa_expiry first \<le> now + MAX_TTL_SECS"
    "amountOr400 (fa_maxTotalFeeLamports first) ''Activation max total fee'' = Inr (al_maxTotalFee leg)"
    "big_field (wd_quotedNetworkFeeLamports dto) = Inr q" "\<not> exceedsDriftBound (al_networkFee leg) q" "0 \<le> fl_bps l" "fl_bps l \<le> MAX_PROTOCOL_FEE_BPS"
    "\<not> exceedsMaxTotalFee (al_networkFee leg + protocolFeeOf (al_networkFee leg) (fl_bps l)) (al_maxTotalFee leg)"
  shows "leg_authorised p dto leg"
  unfolding leg_authorised_def using assms liveI [OF assms(7-9)] fees_withinI [OF assms(11-14)]
  by (intro exI [of _ first]) (simp add: exceedsMaxTotalFee_def)

lemma spend_ok:
  assumes "c \<in> set A" "cr_pid c = pid" "cr_credentialId c = as_id (wd_assertion dto)" "cr_status c = ''active''"
    "coseToCompressedSecp256r1 (cr_publicKey c) = Inr (st_authority t)" "decode_assertion (wd_assertion dto) = Inr (st_assertion t)"
    "wp_pubkey p (wd_to dto) = Some d" "parse_BigInt (wd_amount dto) = Some (st_amount t)" "\<not> st_amount t \<le> 0"
    "big_field (wd_nonce dto) = Inr (st_chainNonce t)" "st_version t = wd_feePolicyVersion dto"
    "rp_chainTime (wp_base p) w = (Inr now, w')" "now < wd_expiry dto" "wd_expiry dto \<le> now + MAX_TTL_SECS"
    "amountOr400 (wd_maxTotalFeeLamports dto) ''Max total fee'' = Inr (st_maxTotalFee t)"
    "big_field (wd_quotedNetworkFeeLamports dto) = Inr q" "\<not> exceedsDriftBound (st_networkFee t) q" "0 \<le> fl_bps l" "fl_bps l \<le> MAX_PROTOCOL_FEE_BPS"
    "st_networkFee t + protocolFeeOf (st_networkFee t) (fl_bps l) \<le> st_maxTotalFee t"
    "leg_of kind = None \<or> leg_of kind = Some leg \<and> leg_authorised p dto leg \<and> al_networkFee leg = st_networkFee t"
  shows "relayed_authorised p A pid dto (RWithdraw (spend_tx kind pid dto t d r der))"
  using assms credential_signsI [OF assms(1-5)] liveI [OF assms(12-14)] fees_withinI [OF assms(16-20)]
  by (auto simp: relayed_authorised_def spend_authorised_def spend_tx_def big_field_Inr)

lemma activation_ok:
  assumes "c \<in> set A" "cr_pid c = pid" "cr_credentialId c = as_id (wd_assertion dto)" "cr_status c = ''active''"
    "coseToCompressedSecp256r1 (cr_publicKey c) = Inr key" "leg_authorised p dto leg"
  shows "activation_authorised p A pid dto \<lparr>at_pid = pid, at_authority = key, at_leg = leg, at_relayer = r\<rparr>"
  using assms(6) credential_signsI [OF assms(1-5)] by (simp add: activation_authorised_def)

lemma kind_ok:
  "leg_of kind = None \<or> leg_of kind = Some leg \<Longrightarrow> leg_authorised p dto leg \<Longrightarrow> al_networkFee leg = f
     \<Longrightarrow> leg_of kind = None \<or> leg_of kind = Some leg \<and> leg_authorised p dto leg \<and> al_networkFee leg = f"
  by blast

lemma first_action_authorised:
  fixes A :: "credential list"
  shows "preserves (sends A (relayed_authorised p A pid dto) (activation_authorised p A pid dto))
    (withdrawFirstAction ev p pid address dto :: (('w, 'z) sponsored_scheme, SponsoredWithdrawResult) eff)"
  unfolding withdrawFirstAction_def Let_def
  apply ((rule request_steps)+)
   apply (rule first_action_sends)
  subgoal premises checks
    apply (rule spend_ok; (simp only: terms_select)?; (rule checks refl)?)
     apply (rule amount_parses, rule checks)
    apply (rule kind_ok, rule checks)
    by (rule leg_ok; (simp only: terms_select)?; (rule checks refl)?) simp
  subgoal premises checks
    apply (rule activation_ok; (simp only: terms_select)?; (rule checks refl)?)
    by (rule leg_ok; (simp only: terms_select)?; (rule checks refl)?)
  by (rule request_steps)+

lemma sponsored_withdraw_authorised:
  fixes A :: "credential list"
  shows "preserves (sends A (relayed_authorised p A pid dto) (activation_authorised p A pid dto))
    (sponsored_withdraw ev p pid dto :: (('w, 'z) sponsored_scheme, SponsoredWithdrawResult) eff)"
  unfolding sponsored_withdraw_def Let_def
  apply ((rule first_action_authorised request_steps)+, rule claimed_sends)
  subgoal premises checks
    by (rule spend_ok; (simp only: terms_select)?; (rule checks refl big_field_Inr [THEN iffD1] disjI1)?) (rule checks)+
  by (rule request_steps)+

text \<open>While the breaker is open.\<close>

definition unsent :: "('w, 'z) sponsored_scheme \<Rightarrow> ('w, 'z) sponsored_scheme \<Rightarrow> bool" where
  "unsent s t \<longleftrightarrow> rl_open t = rl_open s \<and> sd_sent t = sd_sent s \<and> sd_activated t = sd_activated s"

interpretation unsent: wallet_frame unsent
  by unfold_locales (simp_all add: unsent_def)

definition stopped :: "(('w, 'z) sponsored_scheme, 'a) eff \<Rightarrow> bool" where
  "stopped m \<longleftrightarrow> (\<forall>s. isOpen BROADCAST_CHAIN_SOLANA s \<longrightarrow> \<not> is_ok (fst (m s)) \<and> sd_sent (snd (m s)) = sd_sent s \<and> sd_activated (snd (m s)) = sd_activated s)"

lemma stopped_throw: "stopped (throw e)"
  by (simp add: stopped_def)

lemma stopped_closed: "stopped (bind_eff (requireClosed BROADCAST_CHAIN_SOLANA) f)"
  by (simp add: stopped_def requireClosed_def isOpen_def bind_eff_def)

lemma stopped_bind:
  fixes m :: "(('w, 'z) sponsored_scheme, 'a) eff"
  assumes "preserves unsent m" "\<And>a. stopped (f a)"
  shows "stopped (bind_eff m f)"
  unfolding stopped_def
proof (intro allI impI)
  fix s :: "('w, 'z) sponsored_scheme" assume o: "isOpen BROADCAST_CHAIN_SOLANA s"
  obtain r t where r: "m s = (r, t)" by fastforce
  have u: "unsent s t" by (rule keepsD [OF assms(1) r])
  then have "isOpen BROADCAST_CHAIN_SOLANA t" using o by (simp add: isOpen_def unsent_def)
  with assms(2) u r show "\<not> is_ok (fst (bind_eff m f s)) \<and> sd_sent (snd (bind_eff m f s)) = sd_sent s \<and> sd_activated (snd (bind_eff m f s)) = sd_activated s"
    by (cases r) (auto simp: bind_eff_def stopped_def unsent_def)
qed

lemma withdraw_stopped: "stopped (sponsored_withdraw ev p pid dto)"
  unfolding sponsored_withdraw_def withdrawFirstAction_def Let_def resolveSmart_def isActivated_def
  by (auto intro!: stopped_bind stopped_closed stopped_throw unsent.keeps_port unsent.keeps_bind unsent.keeps_lookups unsent.keeps_catch
      unsent.keeps_pure split: option.split)

text \<open>C9: whatever a withdrawal returns and whenever it stops, each transaction it handed to the network is authorised by the request: it is signed
  with an active passkey of the account, carries the decoded assertion, destination, amount (positive), nonce, fee policy version and expiry of the
  request, which was alive for at most ten minutes; the attested network fee is at most 120 percent of the quoted one, and with the protocol fee
  of at most 5000 basis points it stays within the total that the user signed. The same holds of the activation of a first action, combined
  with the spend or sent before it. While the breaker of the chain is open nothing is sent and the request fails.\<close>

theorem withdrawals_authorised:
  fixes s :: "('w, 'z) sponsored_scheme"
  assumes "fee_ok (sd_fees s)" "sponsored_withdraw ev p pid dto s = (r, t)"
  shows "\<exists>spends acts. sd_sent t = sd_sent s @ spends \<and> sd_activated t = sd_activated s @ acts
    \<and> list_all (relayed_authorised p (wl_authorities s) pid dto) spends
    \<and> list_all (activation_authorised p (wl_authorities s) pid dto) acts
    \<and> (isOpen BROADCAST_CHAIN_SOLANA s \<longrightarrow> spends = [] \<and> acts = [] \<and> \<not> is_ok r)"
proof -
  have "sends_state (wl_authorities s) s" using assms(1) by (simp add: sends_state_def)
  with keepsD [OF sponsored_withdraw_authorised [of "wl_authorities s" p pid dto ev] assms(2)]
  obtain spends acts where "sd_sent t = sd_sent s @ spends" "sd_activated t = sd_activated s @ acts"
    "list_all (relayed_authorised p (wl_authorities s) pid dto) spends" "list_all (activation_authorised p (wl_authorities s) pid dto) acts"
    by (auto simp: sends_def)
  moreover have "isOpen BROADCAST_CHAIN_SOLANA s \<Longrightarrow> spends = [] \<and> acts = [] \<and> \<not> is_ok r"
    using withdraw_stopped [of ev p pid dto] assms(2) calculation(1,2) unfolding stopped_def
    by (metis append_self_conv fst_conv snd_conv)
  ultimately show ?thesis by blast
qed

section \<open>A withdrawal that is sent\<close>

definition demo_withdraw_ports :: "int withdraw_ports" where
  "demo_withdraw_ports = \<lparr>wp_base = demo_rotate_ports\<lparr>rp_sha256 := \<lambda>_. ''h''\<rparr>, wp_hasFees = False, wp_estimateWithdrawFee = \<lambda>w. (Inr 5, w),
     wp_estimateCompositeWithdrawFee = \<lambda>w. (Inr 5, w), wp_rentExemption = \<lambda>w. (Inr 0, w), wp_getBalanceOf = \<lambda>_ w. (Inr 100, w),
     wp_pubkey = \<lambda>k. Some k, wp_tokenAta = \<lambda>_ _ _ w. (Inr ''ata'', w), wp_getTokenBalancesOf = \<lambda>_ w. (Inr [], w),
     wp_hasAccount = \<lambda>_ w. (Inr True, w), wp_getHistory = \<lambda>_ w. (Inr [], w), wp_submit = \<lambda>_ w. (Inr ''sig'', w),
     wp_activateV4 = \<lambda>_ w. (Inr (), w), wp_waitForConfirmation = \<lambda>_ w. (Inl (JsError ''timeout''), w),
     wp_solanaChain = \<lambda>w. (Inr ''devnet'', w), wp_treasury = ''treasury''\<rparr>"

definition demo_sponsored :: "int sponsored" where
  "demo_sponsored = wallet.extend demo_wallet \<lparr>sd_fees = no_policies, sd_sent = [], sd_activated = []\<rparr>"

definition demo_request :: withdraw_dto where
  "demo_request = \<lparr>wd_asset = ''SOL'', wd_to = ''dest'', wd_amount = ''7'', wd_nonce = ''4'', wd_expiry = 1300, wd_feePolicyVersion = 2,
     wd_quotedNetworkFeeLamports = ''5'', wd_maxTotalFeeLamports = ''9'',
     wd_assertion = \<lparr>as_id = ''old'', as_signature = [], as_authenticatorData = [], as_clientDataJSON = []\<rparr>, wd_activation = None\<rparr>"

lemma demo_fields: "parse_BigInt ''7'' = Some 7" "parse_BigInt ''5'' = Some 5" "amountOr400 ''9'' w = Inr 9"
  using parse_digits [of "''7''"] parse_digits [of "''5''"]
  by (simp_all add: amountOr400_def all_digits_def is_digit_def nat_of_digits_def digit_val_def)

text \<open>What the evaluation of a request of the demonstration needs.\<close>

lemmas demo_eval = demo_withdraw_ports_def demo_rotate_ports_def demo_sponsored_def wallet.extend_def
  demo_wallet_def demo_credential_def relayer_demo_env_def resolveSmart_def isActivated_def port_def smart_account_def active_credential_def
  claiming_key_def statement_def bind_eff_def pick_row_def catch_default_def requireClosed_def oldest_def demo_key_read demo_nonce demo_fields
  big_field_def gateSubmitVersion_def feePolicyVersion_def PID_FEE_POLICY_VERSION_def solanaFeeLeg_def code_leg_def feePolicyRow_def
  FEE_POLICY_TABLE_def MAX_PROTOCOL_FEE_BPS_def check_nonce_def check_expiry_def MAX_TTL_SECS_def check_drift_def exceedsDriftBound_def
  QUOTE_DRIFT_DENOMINATOR_def QUOTE_DRIFT_NUMERATOR_def check_max_total_def exceedsMaxTotalFee_def protocolFeeOf_def bigdiv_nonneg
  decode_assertion_def b64urlToBytes_def atob_Nil claimSlot_def find_slot_def intentHash_def answer_duplicate_def
  broadcastWithResolveThenAct_def call_broadcast_def trace_call_def pubkeyOr400_def recordSubmission_def update_slot_def
  new_slot_def key_of_slot_def ACCOUNT_TYPE_SMART_def SOLANA_NAMESPACE_def BROADCAST_CHAIN_SOLANA_def Let_def

lemma demo_sends:
  "map (case_relayed_tx wt_amount (\<lambda>_. 0)) (sd_sent (snd (sponsored_withdraw relayer_demo_env demo_withdraw_ports ''alice'' demo_request demo_sponsored))) = [7]"
  by (simp add: demo_eval sponsored_withdraw_def demo_request_def check_destination_def withdraw_funds_def check_sol_balance_def
      withdraw_claimed_def withdraw_slot_def withdraw_hash_def withdraw_broadcast_def spend_sol_def submit_spend_def spend_tx_def settle_spend_def)

theorem withdrawals_authorised_witness:
  "\<exists>tx. sd_sent (snd (sponsored_withdraw relayer_demo_env demo_withdraw_ports ''alice'' demo_request demo_sponsored)) = [tx]
    \<and> relayed_authorised demo_withdraw_ports (wl_authorities demo_sponsored) ''alice'' demo_request tx"
proof -
  have "fee_ok (sd_fees demo_sponsored)"
    by (simp add: demo_sponsored_def wallet.extend_def no_policies_def fee_ok_def)
  from withdrawals_authorised [OF this prod.collapse [symmetric], of relayer_demo_env demo_withdraw_ports "''alice''" demo_request] demo_sends
  show ?thesis by (auto simp: demo_sponsored_def wallet.extend_def)
qed

section \<open>A first action that does not fit\<close>

text \<open>\<^verbatim>\<open>getNonceOf\<close> of the Solana adapter, \<^verbatim>\<open>packages/solana/src/adapter.ts\<close>, on the data of the account (\<open>None\<close> when there is none).\<close>

definition nonce_of_account :: "bytes option \<Rightarrow> int result" where
  "nonce_of_account info =
     (case info of
        None \<Rightarrow> Inr 0
      | Some data \<Rightarrow>
          if length data < 12 then Inl (JsError ''smart account not initialized'')
          else Inr (foldr (\<lambda>b acc. int (unat b) + 256 * acc) (take 8 (drop 4 data)) 0))"

definition TX_TOO_LARGE :: http_error where
  "TX_TOO_LARGE = JsError ''TxTooLarge: composite exceeds packet ceiling, use 2-step fallback''"

lemma resolve_loop_fails:
  assumes "\<And>s. \<not> is_ok (fst (rs s))"
  shows "fst (resolve_loop ev rs started n k s) = Inr UnreadableState"
  using assms
proof (induction ev rs started n k s rule: resolve_loop.induct)
  case (2 ev rs started n k s)
  obtain r s1 where rs: "rs s = (r, s1)" by fastforce
  with 2(2) [of s] obtain e where "r = Inl e" by (cases r) auto
  with 2 rs show ?case by (auto split: prod.split)
qed simp

lemma not_too_large [simp]:
  "\<not> str_contains ''TxTooLarge'' ''database unavailable''" "\<not> str_contains ''TxTooLarge'' ''P2025''"
  "\<not> str_contains ''TxTooLarge'' ''The network outcome is unclear and the request was parked for operator review - no funds moved twice''"
  by (simp_all add: str_contains_def)

text \<open>The errors of the statements of a parked request.\<close>

definition other_error :: "http_error \<Rightarrow> bool" where
  "other_error e \<longleftrightarrow> \<not> str_contains ''TxTooLarge'' (thrown_message e)"

definition fits :: "('s, 'a) eff \<Rightarrow> bool" where
  "fits m \<longleftrightarrow> (\<forall>s e t. m s = (Inl e, t) \<longrightarrow> other_error e)"

definition parks :: "('s, 'a) eff \<Rightarrow> bool" where
  "parks m \<longleftrightarrow> (\<forall>s. \<exists>e t. m s = (Inl e, t) \<and> other_error e)"

lemma parks_bind:
  assumes "fits m" "\<And>a. parks (f a)"
  shows "parks (bind_eff m f)"
  unfolding parks_def
proof
  fix s
  obtain r t where "m s = (r, t)" by fastforce
  then show "\<exists>e t. bind_eff m f s = (Inl e, t) \<and> other_error e"
    using assms by (cases r) (auto simp: bind_eff_def fits_def parks_def)
qed

lemma fits_statement: "fits m \<Longrightarrow> fits (statement ev m)"
  by (auto simp: fits_def statement_def Let_def other_error_def split: prod.splits if_splits)

lemma fits_modify: "fits (modify f)"
  by (simp add: fits_def)

lemma fits_record: "fits (recordOutcome ev k st sg)"
  unfolding recordOutcome_def update_slot_def by (rule fits_statement) (simp add: fits_def other_error_def)

lemma parked_errors:
  fixes b :: "(('w, 'z) relayer_scheme, string \<times> 'r) eff"
  assumes "\<And>s. \<not> is_ok (fst (rs s))"
  shows "parks (resolveThenAct ev k b rs)"
  unfolding parks_def
proof
  fix s
  have "\<not> is_ok (fst (rs x))" for x by (rule assms)
  then obtain s1 where w: "resolveWithBound ev rs s = (Inr UnreadableState, s1)"
    using resolve_loop_fails [of rs ev "ev_now ev (rl_world s)" RESOLVE_MAX_ATTEMPTS 0 s]
    unfolding resolveWithBound_def by (metis prod.collapse)
  have "parks (bind_eff (trace_call (Unreadable k)) (\<lambda>_. bind_eff (recordOutcome ev k BParkedUnreadable None) (\<lambda>_.
      bind_eff (log_security ev (fst k) ''relay.parked_unreadable'' m) (\<lambda>_. throw (ServiceUnavailable
        ''The network outcome is unclear and the request was parked for operator review - no funds moved twice'')))) :: (('w, 'z) relayer_scheme, 'r relay_result) eff)" for m
    unfolding trace_call_def log_security_def
    by (intro parks_bind fits_modify fits_record fits_statement) (simp add: parks_def other_error_def)
  then show "\<exists>e t. resolveThenAct ev k b rs s = (Inl e, t) \<and> other_error e"
    by (simp add: resolveThenAct_def bind_eff_eval(1) [of "resolveWithBound ev rs" s, OF w] parks_def)
qed

lemma composite_parks:
  fixes s :: "('w, 'z) sponsored_scheme"
  assumes big: "\<And>tx w. leg_of (wt_kind tx) \<noteq> None \<Longrightarrow> fst (wp_submit p tx w) = Inl TX_TOO_LARGE"
    and empty: "\<And>w. \<not> is_ok (fst (rp_getNonceOf (wp_base p) address w))"
    and sol: "wd_asset dto = ''SOL''" "rp_relayer (wp_base p) = Inr relayer"
  shows "\<exists>e u. broadcastWithResolveThenAct ev k (broadcastComposite p pid dto t leg) (resolveSvmState p address n) s = (Inl e, u) \<and> other_error e"
proof -
  let ?bad = "BadRequest ''Destination is not a valid Solana address''"
  obtain e s1 where b: "broadcastComposite p pid dto t leg (s\<lparr>rl_trace := rl_trace s @ [Sent k]\<rparr>) = (Inl e, s1)" and e: "e = TX_TOO_LARGE \<or> e = ?bad"
  proof (cases "wp_pubkey p (wd_to dto)")
    case None
    then show ?thesis using that sol by (simp add: broadcastComposite_def pubkeyOr400_def bind_eff_def)
  next
    case (Some d)
    obtain r w where "wp_submit p (spend_tx (CompositeSol leg) pid dto t d relayer None) (rl_world s) = (r, w)" by fastforce
    then show ?thesis using that sol big [of "spend_tx (CompositeSol leg) pid dto t d relayer None" "rl_world s"] Some
      by (simp add: broadcastComposite_def pubkeyOr400_def bind_eff_def submit_spend_def spend_tx_def)
  qed
  have amb: "\<not> isDeterministicBroadcastError e"
    using e by (auto simp: TX_TOO_LARGE_def isDeterministicBroadcastError_def str_contains_def to_lower_def to_lower_char_def)
  have "\<not> is_ok (fst (resolveSvmState p address n x))" for x :: "('w, 'z) sponsored_scheme"
    using empty [of "rl_world x"] by (cases "rp_getNonceOf (wp_base p) address (rl_world x)") (auto simp: resolveSvmState_def bind_eff_def port_def is_ok_def split: sum.splits)
  from parked_errors [OF this, of ev k "broadcastComposite p pid dto t leg"] b amb show ?thesis
    by (simp add: broadcastWithResolveThenAct_def call_broadcast_def trace_call_def parks_def)
qed

definition is_composite :: "relayed_tx \<Rightarrow> bool" where
  "is_composite x = (case x of RWithdraw tx \<Rightarrow> leg_of (wt_kind tx) \<noteq> None | RExecute tx \<Rightarrow> et_leg tx \<noteq> None)"

lemma first_action_parks:
  fixes s :: "('w, 'z) sponsored_scheme"
  assumes big: "\<And>tx w. leg_of (wt_kind tx) \<noteq> None \<Longrightarrow> fst (wp_submit p tx w) = Inl TX_TOO_LARGE"
    and empty: "\<And>w. \<not> is_ok (fst (rp_getNonceOf (wp_base p) address w))"
    and sol: "wd_asset dto = ''SOL''" "rp_relayer (wp_base p) = Inr relayer"
  shows "\<exists>e. first_action_broadcast ev p pid address dto t leg s = (Inl e, snd (broadcastWithResolveThenAct ev (withdraw_slot pid dto)
    (broadcastComposite p pid dto t leg) (resolveSvmState p address (st_chainNonce t)) s))"
proof -
  obtain e u where "broadcastWithResolveThenAct ev (withdraw_slot pid dto)
    (broadcastComposite p pid dto t leg) (resolveSvmState p address (st_chainNonce t)) s = (Inl e, u)" "other_error e"
    using composite_parks [OF big empty sol] by blast
  then show ?thesis by (simp add: first_action_broadcast_def Let_def other_error_def)
qed

lemma first_action_no_fallback:
  assumes big: "\<And>tx w. leg_of (wt_kind tx) \<noteq> None \<Longrightarrow> fst (wp_submit p tx w) = Inl TX_TOO_LARGE"
    and empty: "\<And>w. \<not> is_ok (fst (rp_getNonceOf (wp_base p) address w))"
    and sol: "wd_asset dto = ''SOL''" "rp_relayer (wp_base p) = Inr relayer"
  shows "preserves (sends A is_composite (\<lambda>_. False)) (withdrawFirstAction ev p pid address dto :: (('w, 'z) sponsored_scheme, SponsoredWithdrawResult) eff)"
proof -
  let ?R = "sends A is_composite (\<lambda>_. False) :: ('w, 'z) sponsored_scheme \<Rightarrow> ('w, 'z) sponsored_scheme \<Rightarrow> bool"
  have sub: "preserves ?R (broadcastComposite p pid dto t leg)" for t leg
    by (intro sent.keeps_composite submit_sends) (simp add: spend_tx_def is_composite_def)
  have b: "preserves ?R (first_action_broadcast ev p pid address dto t leg)" for t leg
    unfolding preserves_def
  proof
    fix x :: "('w, 'z) sponsored_scheme"
    obtain e where "first_action_broadcast ev p pid address dto t leg x = (Inl e, snd (broadcastWithResolveThenAct ev (withdraw_slot pid dto)
        (broadcastComposite p pid dto t leg) (resolveSvmState p address (st_chainNonce t)) x))"
      using first_action_parks [OF big empty sol] by blast
    then show "?R x (snd (first_action_broadcast ev p pid address dto t leg x))"
      using sent.keeps_broadcast [OF sub sent.keeps_resolve] by (simp add: preserves_def)
  qed
  have c: "preserves ?R (first_action_claimed ev p pid address dto first t leg)" for first t leg
    unfolding first_action_claimed_def
    by (intro sent.keeps_bind sent.keeps_claimSlot sent.keeps_duplicate keeps_option sent.keeps_pure keeps_pair sent.keeps_settle b)
  show ?thesis
    unfolding withdrawFirstAction_def Let_def by (rule c request_steps)+
qed

text \<open>C36: the two-step fallback of a first action is unreachable in the case it is written for. A first action pays from SOL that already
  lies at the address of the account, which therefore exists on the chain without data; the adapter then throws when it reads the nonce. When the
  composite transaction does not fit into a packet, the error is not one that decides the broadcast's fate, so the chain is read, the reads fail
  until the bound, and the request is parked with an error of the network: no separate activation and no separate spend is
  ever sent.\<close>

theorem too_large_never_falls_back:
  fixes s :: "('w, 'z) sponsored_scheme"
  assumes state: "fee_ok (sd_fees s)" and big: "\<And>tx w. leg_of (wt_kind tx) \<noteq> None \<Longrightarrow> fst (wp_submit p tx w) = Inl TX_TOO_LARGE"
    and prefunded: "\<And>w. fst (rp_getNonceOf (wp_base p) address w) = nonce_of_account (Some [])"
    and sol: "wd_asset dto = ''SOL''" "rp_relayer (wp_base p) = Inr relayer"
  shows "\<not> is_ok (fst (first_action_broadcast ev p pid address dto t leg s))
    \<and> sd_activated (snd (withdrawFirstAction ev p pid address dto s)) = sd_activated s
    \<and> (\<exists>spends. sd_sent (snd (withdrawFirstAction ev p pid address dto s)) = sd_sent s @ spends \<and> list_all is_composite spends)"
proof -
  have none: "\<not> is_ok (fst (rp_getNonceOf (wp_base p) address w))" for w by (simp add: prefunded nonce_of_account_def)
  obtain e u where "first_action_broadcast ev p pid address dto t leg s = (Inl e, u)" using first_action_parks [OF big none sol] by blast
  moreover have "sends_state (wl_authorities s) s" using state by (simp add: sends_state_def)
  moreover have "list_all (\<lambda>_. False) xs \<longleftrightarrow> xs = []" for xs :: "activation_tx list" by (cases xs) simp_all
  ultimately show ?thesis
    using first_action_no_fallback [OF big none sol, of "wl_authorities s" ev pid] by (auto simp: preserves_def sends_def)
qed

definition demo_stuck_ports :: "int withdraw_ports" where
  "demo_stuck_ports = demo_withdraw_ports
     \<lparr>wp_submit := \<lambda>tx w. (if leg_of (wt_kind tx) \<noteq> None then Inl TX_TOO_LARGE else Inr ''sig'', w),
      wp_base := demo_rotate_ports\<lparr>rp_isActivated := \<lambda>_ w. (Inr False, w), rp_getNonceOf := \<lambda>_ w. (nonce_of_account (Some []), w)\<rparr>\<rparr>"

theorem too_large_never_falls_back_witness:
  "sd_activated (snd (withdrawFirstAction relayer_demo_env demo_stuck_ports ''alice'' ''vault'' demo_request demo_sponsored)) = []"
  using too_large_never_falls_back [of demo_sponsored demo_stuck_ports "''vault''" demo_request "''relayer''" relayer_demo_env "''alice''"]
  by (simp add: demo_stuck_ports_def demo_withdraw_ports_def demo_rotate_ports_def demo_request_def demo_sponsored_def wallet.extend_def
      no_policies_def fee_ok_def)

section \<open>A withdrawal that failed on the chain\<close>

definition same_slots :: "('w, 'z) relayer_scheme \<Rightarrow> ('w, 'z) relayer_scheme \<Rightarrow> bool" where
  "same_slots s t \<longleftrightarrow> rl_slots t = rl_slots s"

interpretation slots: ledger_frame same_slots
  by unfold_locales (simp_all add: same_slots_def)

lemma log_runs:
  fixes s :: "('w, 'z) relayer_scheme"
  assumes "\<And>w. fst (ev_db ev w)"
  shows "\<exists>t. log_security ev pid e m s = (Inr (), t) \<and> rl_slots t = rl_slots s"
proof -
  obtain w where "ev_db ev (rl_world s) = (True, w)" using assms [of "rl_world s"] by (metis prod.collapse)
  then show ?thesis by (simp add: log_security_def statement_def Let_def)
qed

lemma outcome_runs:
  fixes s :: "('w, 'z) relayer_scheme"
  assumes "\<And>w. fst (ev_db ev w)" "find_slot k (rl_slots s) = Some row" "sig \<noteq> []"
  shows "\<exists>t row'. recordOutcome ev k st (Some sig) s = (Inr (), t) \<and> find_slot k (rl_slots t) = Some row'
    \<and> rb_txBytesHash row' = rb_txBytesHash row \<and> rb_status row' = st \<and> rb_signature row' = Some sig"
proof -
  obtain w where w: "ev_db ev (rl_world s) = (True, w)" using assms(1) [of "rl_world s"] by (metis prod.collapse)
  define f where "f r = (if key_of_slot r = k then r\<lparr>rb_status := st, rb_signature := Some sig, rb_updatedAt := ev_now ev w\<rparr> else r)" for r
  have key: "key_of_slot (f r) = key_of_slot r" for r by (simp add: f_def key_of_slot_def)
  have "find_slot k (map f rows) = map_option f (find_slot k rows)" for rows
    by (induction rows) (auto simp: find_slot_def key)
  moreover have "key_of_slot row = k" using assms(2) by (auto simp: find_slot_def find_Some_iff)
  ultimately show ?thesis
    using assms(2,3) by (simp add: recordOutcome_def update_slot_def statement_def w Let_def f_def [symmetric] cong: if_cong)
      (simp add: f_def)
qed

lemma duplicate_answer:
  fixes s :: "('w, 'z) sponsored_scheme"
  assumes "\<And>w. fst (ev_db ev w)" "find_slot (withdraw_slot pid dto) (rl_slots s) = Some row" "rb_txBytesHash row = withdraw_hash p dto t"
    "rb_signature row = Some sig" "sig \<noteq> []"
  shows "\<exists>u. withdraw_claimed ev p pid a dto t s = (Inr (withdraw_result sig (st_networkFee t) (st_protocolFee t) ''confirmed'' None None), u)"
proof -
  obtain w where "ev_db ev (rl_world s) = (True, w)" using assms(1) [of "rl_world s"] by (metis prod.collapse)
  then show ?thesis using assms
    by (simp add: withdraw_claimed_def claimSlot_def statement_def bind_eff_def claim_existing_def answer_duplicate_def Let_def)
qed

text \<open>C37: a withdrawal that failed on the chain is reported as confirmed when the same signed request is sent again. The first answer is
  \<^verbatim>\<open>pending\<close> and the slot is marked failed with the signature of the failed transaction; the repetition finds the slot, sees the
  signature, does not look at the status, and answers \<^verbatim>\<open>confirmed\<close>.\<close>

theorem failed_withdrawal_replays_as_confirmed:
  fixes s :: "('w, 'z) sponsored_scheme"
  assumes db: "\<And>w. fst (ev_db ev w)" and slot: "slot_hash (withdraw_slot pid dto) (rl_slots s) = Some (withdraw_hash p dto t)"
    and failed: "\<And>w. fst (wp_waitForConfirmation p sig w) = Inr ''failed''" and sig: "sig \<noteq> []"
  shows "\<exists>first s1 again s2. settle_spend ev p pid dto t None (Some sig) s = (Inr first, s1) \<and> sw_status first = ''pending''
    \<and> map_option rb_status (find_slot (withdraw_slot pid dto) (rl_slots s1)) = Some BFailed
    \<and> withdraw_claimed ev p pid a dto t s1 = (Inr again, s2) \<and> sw_status again = ''confirmed'' \<and> sw_signature again = sig"
proof -
  obtain row where row: "find_slot (withdraw_slot pid dto) (rl_slots s) = Some row" "rb_txBytesHash row = withdraw_hash p dto t"
    using slot by (auto simp: slot_hash_def)
  define x0 where "x0 = snd (port (wp_waitForConfirmation p sig) s)"
  have x0: "port (wp_waitForConfirmation p sig) s = (Inr ''failed'', x0)" "rl_slots x0 = rl_slots s"
    using failed [of "rl_world s"] by (auto simp: x0_def port_def split: prod.splits)
  obtain x1 row1 where x1: "recordOutcome ev (withdraw_slot pid dto) BFailed (Some sig) x0 = (Inr (), x1)"
    "find_slot (withdraw_slot pid dto) (rl_slots x1) = Some row1" "rb_txBytesHash row1 = rb_txBytesHash row" "rb_status row1 = BFailed" "rb_signature row1 = Some sig"
    using outcome_runs [where s = x0 and k = "withdraw_slot pid dto" and st = BFailed, OF db _ sig] row x0(2) by metis
  obtain x2 where x2: "log_security ev pid ''withdraw.confirm_failed'' [(''entryPoint'', JStr ''withdraw''), (''chain'', JStr BROADCAST_CHAIN_SOLANA), (''signature'', JStr sig)] x1 = (Inr (), x2)"
    "rl_slots x2 = rl_slots x1" using log_runs [OF db] by blast
  define meta where "meta = [(''signature'', JStr sig), (''amount'', JStr (show_int (st_amount t))), (''asset'', JStr (wd_asset dto)),
           (''networkFee'', JStr (show_int (st_networkFee t))), (''protocolFee'', JStr (show_int (st_protocolFee t))),
           (''feePolicyVersion'', JNum (st_version t))] @ (case st_warning t of None \<Rightarrow> [] | Some warning \<Rightarrow> [(''feePolicyWarning'', JStr warning)])"
  obtain x3 where x3: "log_security ev pid ''withdraw.submitted'' meta x2 = (Inr (), x3)" "rl_slots x3 = rl_slots x2"
    using log_runs [OF db] by blast
  define s1 where "s1 = snd (reconcile_fees ev p pid sig (st_networkFee t) (st_protocolFee t) (st_leg t) EWithdraw x3)"
  have "same_slots x3 s1" unfolding s1_def by (rule keepsD [OF slots.keeps_reconciliation prod.collapse [symmetric]])
  then have s1: "rl_slots s1 = rl_slots x3" by (simp add: same_slots_def)
  have "settle_spend ev p pid dto t None (Some sig) s = (Inr (withdraw_result sig (st_networkFee t) (st_protocolFee t) ''pending'' (st_warning t) None), s1)"
    using x0(1) x1(1) x2(1) x3(1) sig by (simp add: settle_spend_def bind_eff_def s1_def meta_def)
  moreover obtain u where "withdraw_claimed ev p pid a dto t s1 = (Inr (withdraw_result sig (st_networkFee t) (st_protocolFee t) ''confirmed'' None None), u)"
    using duplicate_answer [OF db, of pid dto s1 row1 p t sig a] x1 row sig by (auto simp: s1 x3 x2)
  ultimately show ?thesis using x1 by (simp add: s1 x3 x2 withdraw_result_def)
qed

definition demo_terms :: spend_terms where
  "demo_terms = \<lparr>st_authority = 2 # replicate 32 2, st_assertion = \<lparr>pa_credentialId = ''old'', pa_signature = [], pa_authenticatorData = [], pa_clientDataJSON = []\<rparr>,
     st_version = 2, st_leg = \<lparr>fl_version = 2, fl_bps = 5000, fl_chainMin = 0\<rparr>, st_chainNonce = 4, st_networkFee = 5, st_protocolFee = 2,
     st_maxTotalFee = 9, st_warning = None, st_amount = 7\<rparr>"

definition demo_failing_ports :: "int withdraw_ports" where
  "demo_failing_ports = demo_withdraw_ports\<lparr>wp_waitForConfirmation := \<lambda>_ w. (Inr ''failed'', w)\<rparr>"

definition demo_submitted :: "int sponsored" where
  "demo_submitted = demo_sponsored\<lparr>rl_slots := [new_slot (withdraw_slot ''alice'' demo_request) (withdraw_hash demo_failing_ports demo_request demo_terms) 0]\<rparr>"

theorem failed_withdrawal_replays_as_confirmed_witness:
  "\<exists>first s1 again s2. settle_spend relayer_demo_env demo_failing_ports ''alice'' demo_request demo_terms None (Some ''sig'') demo_submitted = (Inr first, s1)
    \<and> sw_status first = ''pending''
    \<and> withdraw_claimed relayer_demo_env demo_failing_ports ''alice'' ''vault'' demo_request demo_terms s1 = (Inr again, s2) \<and> sw_status again = ''confirmed''"
proof -
  have "slot_hash (withdraw_slot ''alice'' demo_request) (rl_slots demo_submitted) = Some (withdraw_hash demo_failing_ports demo_request demo_terms)"
    by (simp add: demo_submitted_def slot_hash_def find_slot_def new_slot_def key_of_slot_def withdraw_slot_def)
  from failed_withdrawal_replays_as_confirmed [OF _ this, of relayer_demo_env "''sig''" "''vault''"] show ?thesis
    by (auto simp: relayer_demo_env_def demo_failing_ports_def)
qed

end
