(* ===== verification/Wallet_Execute.thy ===== *)
theory Wallet_Execute
  imports Withdraw_Safety
begin

text \<open>
  Sponsored generic calls, the second half of \<^verbatim>\<open>apps/api/src/wallet/sponsored-withdraw.service.ts\<close>: the decoding of a call, its quote,
  the execution for an active account and the first action that activates and executes. The checks, the duplicate resolution and the
  reconciliation are those of \<^verbatim>\<open>Wallet_Withdraw\<close>; the frame and the authorisation argument are those of \<^verbatim>\<open>Withdraw_Safety\<close>.
\<close>

section \<open>Calls\<close>

record 'w execute_ports =
  ep_base :: "'w withdraw_ports"
  ep_programId :: "'w \<Rightarrow> string result \<times> 'w"
  ep_estimateExecuteFee :: "string \<Rightarrow> account_meta list \<Rightarrow> nat \<Rightarrow> 'w \<Rightarrow> int result \<times> 'w"
  ep_estimateCompositeExecuteFee :: "string \<Rightarrow> account_meta list \<Rightarrow> nat \<Rightarrow> 'w \<Rightarrow> int result \<times> 'w"
  ep_submit :: "execute_tx \<Rightarrow> 'w \<Rightarrow> string result \<times> 'w"

record call_dto =
  cd_target :: string
  cd_metas :: "account_meta list"
  cd_data :: string

record execute_dto = call_dto +
  xd_nonce :: string
  xd_expiry :: int
  xd_feePolicyVersion :: int
  xd_quotedNetworkFeeLamports :: string
  xd_maxTotalFeeLamports :: string
  xd_assertion :: assertion
  xd_activation :: "FirstActionAuth option"

fun decode_metas :: "'w withdraw_ports \<Rightarrow> account_meta list \<Rightarrow> account_meta list result" where
  "decode_metas p [] = Inr []"
| "decode_metas p (m # ms) =
     bind_result (pubkeyOr400 p (am_address m) ''Execute meta'') (\<lambda>a. bind_result (decode_metas p ms) (\<lambda>rest. Inr (m\<lparr>am_address := a\<rparr> # rest)))"

definition decode_call :: "'w withdraw_ports \<Rightarrow> string \<Rightarrow> string \<Rightarrow> 'z call_dto_scheme \<Rightarrow> execute_call result" where
  "decode_call p chainAddress programId call =
     bind_result (pubkeyOr400 p (cd_target call) ''Target'') (\<lambda>target.
     case wp_pubkey p programId of
       None \<Rightarrow> Inl (JsError ''Invalid public key input'')
     | Some program \<Rightarrow>
         if target = program then Inl (BadRequest ''Target cannot be the smart-account program'')
         else if cd_metas call = [] \<or> length (cd_metas call) > 64 then Inl (BadRequest ''Execute metas must number 1..64'')
         else bind_result (b64urlToBytes (cd_data call)) (\<lambda>data.
           if length data > 10240 then Inl (BadRequest ''Execute data exceeds 10_240 bytes'')
           else bind_result (decode_metas p (cd_metas call)) (\<lambda>metas.
             if \<not> list_ex (\<lambda>m. am_signer m \<and> am_address m = chainAddress) metas then
               Inl (BadRequest ''Execute must delegate the smart account as a signer'')
             else Inr \<lparr>ec_target = target, ec_metas = metas, ec_data = data\<rparr>)))"

definition decodeExecuteCall :: "'w execute_ports \<Rightarrow> string \<Rightarrow> 'z call_dto_scheme \<Rightarrow> (('w, 'y) relayer_scheme, execute_call) eff" where
  "decodeExecuteCall q chainAddress call =
     bind_eff (port (ep_programId q)) (\<lambda>programId. lift_result (decode_call (ep_base q) chainAddress programId call))"

definition quoteExecute :: "'w env \<Rightarrow> 'w execute_ports \<Rightarrow> string \<Rightarrow> 'y call_dto_scheme \<Rightarrow> (('w, 'z) sponsored_scheme, WithdrawQuote) eff" where
  "quoteExecute ev q pid call =
     (let p = ep_base q in
     bind_eff (port (rp_adapter (wp_base p))) (\<lambda>_.
     bind_eff (resolveSmart ev p pid) (\<lambda>chain.
     bind_eff (solanaFeeLeg ev p None) (\<lambda>leg.
     bind_eff (port (rp_chainTime (wp_base p))) (\<lambda>chainTime.
     bind_eff (try_eff (port (wp_solanaChain p))) (\<lambda>solChain.
     let chainEcho = (case solChain of Inr reference \<Rightarrow> Some reference | Inl _ \<Rightarrow> None) in
     bind_eff (decodeExecuteCall q (ca_address chain) call) (\<lambda>decoded.
     bind_eff (isActivated p (ca_address chain)) (\<lambda>activated.
     if activated then
       bind_eff (port (ep_estimateExecuteFee q (ec_target decoded) (ec_metas decoded) (length (ec_data decoded)))) (\<lambda>networkFee.
       ret (quoteEnvelope networkFee leg chainTime (wp_treasury p) noActivation chainEcho))
     else
       bind_eff (promise_all (port (ep_estimateCompositeExecuteFee q (ec_target decoded) (ec_metas decoded) (length (ec_data decoded))))
                   (port (wp_rentExemption p))) (\<lambda>(compositeFee, rent).
       let networkFee = compositeFee + rent in
       ret (quoteEnvelope networkFee leg chainTime (wp_treasury p)
         \<lparr>aq_required = True, aq_includedInTotal = True, aq_estimate = show_int networkFee,
          aq_estimateBasis = ''rent(80B,'' @ show_int rent @ '')+getFeeForMessage(composite-activate_v4+execute_v4,'' @ show_int compositeFee @ '')'',
          aq_mode = ''svm-composite''\<rparr> chainEcho))))))))))"

section \<open>Transactions\<close>

definition submit_execute :: "'w execute_ports \<Rightarrow> execute_tx \<Rightarrow> (('w, 'z) sponsored_scheme, string \<times> unit) eff" where
  "submit_execute q tx s =
     (case ep_submit q tx (rl_world s) of
        (r, w) \<Rightarrow> (bind_result r (\<lambda>sig. Inr (sig, ())), s\<lparr>rl_world := w, sd_sent := sd_sent s @ [RExecute tx]\<rparr>))"

definition exec_tx :: "activate_leg option \<Rightarrow> execute_call \<Rightarrow> string \<Rightarrow> execute_dto \<Rightarrow> fee_terms \<Rightarrow> string \<Rightarrow> bytes option \<Rightarrow> execute_tx" where
  "exec_tx leg call pid dto t relayer derivation =
     \<lparr>et_leg = leg, et_call = call, et_pid = pid, et_authority = st_authority t, et_version = st_version t, et_networkFee = st_networkFee t,
      et_maxTotalFee = st_maxTotalFee t, et_nonce = st_chainNonce t, et_expiry = xd_expiry dto, et_assertion = st_assertion t,
      et_relayer = relayer, et_derivation = derivation\<rparr>"

definition spend_execute :: "'w env \<Rightarrow> 'w execute_ports \<Rightarrow> string \<Rightarrow> execute_dto \<Rightarrow> execute_call \<Rightarrow> fee_terms \<Rightarrow> string result
    \<Rightarrow> (('w, 'z) sponsored_scheme, string \<times> unit) eff" where
  "spend_execute ev q pid dto call t keypair =
     bind_eff (lift_result keypair) (\<lambda>relayer.
     bind_eff (claiming_key ev pid) (\<lambda>derivation.
     submit_execute q (exec_tx None call pid dto t relayer (Some derivation))))"

definition composite_execute :: "'w execute_ports \<Rightarrow> string \<Rightarrow> execute_dto \<Rightarrow> execute_call \<Rightarrow> fee_terms \<Rightarrow> activate_leg
    \<Rightarrow> (('w, 'z) sponsored_scheme, string \<times> unit) eff" where
  "composite_execute q pid dto call t leg =
     bind_eff (lift_result (rp_relayer (wp_base (ep_base q)))) (\<lambda>relayer.
     submit_execute q (exec_tx (Some leg) call pid dto t relayer None))"

definition execute_slot :: "string \<Rightarrow> execute_dto \<Rightarrow> slot_key" where
  "execute_slot pid dto = (pid, xd_nonce dto, BROADCAST_CHAIN_SOLANA, EExecute)"

definition first_execute_broadcast :: "'w env \<Rightarrow> 'w execute_ports \<Rightarrow> string \<Rightarrow> string \<Rightarrow> execute_dto \<Rightarrow> execute_call \<Rightarrow> fee_terms \<Rightarrow> activate_leg
    \<Rightarrow> (('w, 'z) sponsored_scheme, string option \<times> string) eff" where
  "first_execute_broadcast ev q pid accountAddress dto call t leg =
     (let p = ep_base q; resolve = resolveSvmState p accountAddress (st_chainNonce t) in
     bind_eff (try_eff (broadcastWithResolveThenAct ev (execute_slot pid dto) (composite_execute q pid dto call t leg) resolve)) (\<lambda>r. case r of
         Inr out \<Rightarrow> ret (rr_signature out, ''svm-composite'')
       | Inl err \<Rightarrow>
           if \<not> str_contains ''TxTooLarge'' (thrown_message err) then throw err
           else
             bind_eff (log_security ev pid ''execute.first_action_fallback''
               [(''reason'', JStr ''tx-too-large''), (''mode'', JStr ''svm-fallback-2step'')]) (\<lambda>_.
             bind_eff (lift_result (rp_relayer (wp_base p))) (\<lambda>relayer.
             bind_eff (activate_first p \<lparr>at_pid = pid, at_authority = st_authority t, at_leg = leg, at_relayer = relayer\<rparr>) (\<lambda>_.
             bind_eff (broadcastWithResolveThenAct ev (execute_slot pid dto) (spend_execute ev q pid dto call t (Inr relayer)) resolve) (\<lambda>out.
             ret (rr_signature out, ''svm-fallback-2step'')))))))"

section \<open>After the broadcast\<close>

definition execute_scope :: "(string \<times> json) list" where
  "execute_scope = [(''entryPoint'', JStr ''execute''), (''chain'', JStr BROADCAST_CHAIN_SOLANA)]"

definition unattributed :: "'w env \<Rightarrow> string \<Rightarrow> execute_dto \<Rightarrow> string \<Rightarrow> (('w, 'z) relayer_scheme, 'a) eff" where
  "unattributed ev pid dto message =
     bind_eff (log_security ev pid ''relay.resolve_landed'' (execute_scope @ [(''nonce'', JStr (xd_nonce dto)), (''unattributed'', JBool True)])) (\<lambda>_.
     throw (ServiceUnavailable message))"

definition log_landed :: "'w env \<Rightarrow> string \<Rightarrow> execute_dto \<Rightarrow> string \<Rightarrow> (('w, 'z) relayer_scheme, unit) eff" where
  "log_landed ev pid dto signature = log_security ev pid ''relay.resolve_landed''
     [(''chain'', JStr BROADCAST_CHAIN_SOLANA), (''entryPoint'', JStr ''execute''), (''nonce'', JStr (xd_nonce dto)), (''signature'', JStr signature)]"

definition confirm_execute :: "'w env \<Rightarrow> 'w execute_ports \<Rightarrow> string \<Rightarrow> execute_dto \<Rightarrow> string \<Rightarrow> (string \<times> json) list
    \<Rightarrow> (('w, 'z) relayer_scheme, string) eff" where
  "confirm_execute ev q pid dto signature extra =
     bind_eff (port (wp_waitForConfirmation (ep_base q) signature)) (\<lambda>confirmation.
     bind_eff (if confirmation = ''failed'' then
         bind_eff (recordOutcome ev (execute_slot pid dto) BFailed (Some signature)) (\<lambda>_.
         log_security ev pid ''execute.confirm_failed'' (execute_scope @ [(''signature'', JStr signature)] @ extra))
       else ret ()) (\<lambda>_.
     ret (if confirmation = ''confirmed'' then ''confirmed'' else ''pending'')))"

definition fee_metadata :: "string \<Rightarrow> (string \<times> json) list \<Rightarrow> fee_terms \<Rightarrow> (string \<times> json) list" where
  "fee_metadata signature target t = [(''signature'', JStr signature)] @ target @ [(''networkFee'', JStr (show_int (st_networkFee t))),
     (''protocolFee'', JStr (show_int (st_protocolFee t))), (''feePolicyVersion'', JNum (st_version t))]"

definition settle_first_execute :: "'w env \<Rightarrow> 'w execute_ports \<Rightarrow> string \<Rightarrow> execute_dto \<Rightarrow> fee_terms \<Rightarrow> string \<Rightarrow> string option
    \<Rightarrow> (('w, 'z) sponsored_scheme, SponsoredWithdrawResult) eff" where
  "settle_first_execute ev q pid dto t mode found =
     (let first = [(''firstAction'', JBool True), (''mode'', JStr mode)]; signature = nullish found [] in
     if signature = [] then
       unattributed ev pid dto
         ''The transaction landed but its receipt is unreadable - support has been alerted, please check your balance before retrying''
     else
       bind_eff (confirm_execute ev q pid dto signature first) (\<lambda>status.
       bind_eff (log_security ev pid ''execute.submitted'' (fee_metadata signature [] t @ first)) (\<lambda>_.
       bind_eff (if status = ''confirmed'' then
           bind_eff (recordOutcome ev (execute_slot pid dto) BConfirmed (Some signature)) (\<lambda>_. log_landed ev pid dto signature)
         else ret ()) (\<lambda>_.
       bind_eff (try_eff (reconcile_fees ev (ep_base q) pid signature (st_networkFee t) (st_protocolFee t) (st_leg t) EExecute)) (\<lambda>_.
       ret (withdraw_result signature (st_networkFee t) (st_protocolFee t) status (st_warning t) (Some mode)))))))"

definition settle_execute :: "'w env \<Rightarrow> 'w execute_ports \<Rightarrow> string \<Rightarrow> execute_dto \<Rightarrow> execute_call \<Rightarrow> fee_terms \<Rightarrow> string option
    \<Rightarrow> (('w, 'z) sponsored_scheme, SponsoredWithdrawResult) eff" where
  "settle_execute ev q pid dto call t found =
     (let signature = nullish found [] in
     if signature = [] then
       unattributed ev pid dto
         ''The transaction landed but its receipt is unreadable - support has been alerted, please check state before retrying''
     else
       bind_eff (confirm_execute ev q pid dto signature []) (\<lambda>status.
       bind_eff (log_security ev pid ''execute.submitted'' (fee_metadata signature [(''target'', JStr (ec_target call))] t @
         [(''dataLen'', JNum (int (length (ec_data call)))), (''metaCount'', JNum (int (length (ec_metas call))))] @
         (case st_warning t of None \<Rightarrow> [] | Some warning \<Rightarrow> [(''feePolicyWarning'', JStr warning)]))) (\<lambda>_.
       bind_eff (if status = ''confirmed'' then log_landed ev pid dto signature else ret ()) (\<lambda>_.
       bind_eff (try_eff (reconcile_fees ev (ep_base q) pid signature (st_networkFee t) (st_protocolFee t) (st_leg t) EExecute)) (\<lambda>_.
       bind_eff (if status = ''confirmed'' then recordOutcome ev (execute_slot pid dto) BConfirmed (Some signature) else ret ()) (\<lambda>_.
       ret (withdraw_result signature (st_networkFee t) (st_protocolFee t) status (st_warning t) None)))))))"

section \<open>Requests\<close>

definition first_execute_claimed :: "'w env \<Rightarrow> 'w execute_ports \<Rightarrow> string \<Rightarrow> string \<Rightarrow> execute_dto \<Rightarrow> execute_call \<Rightarrow> FirstActionAuth \<Rightarrow> fee_terms \<Rightarrow> activate_leg
    \<Rightarrow> (('w, 'z) sponsored_scheme, SponsoredWithdrawResult) eff" where
  "first_execute_claimed ev q pid address dto call first t leg =
     bind_eff (claimSlot ev (execute_slot pid dto) (intentHash (ep_base q) EExecute (as_signature (xd_assertion dto))
         [JStr (ec_target call), JNum (int (length (ec_data call))), JStr (xd_nonce dto), JNum (xd_expiry dto), JNum (st_version t),
          JStr ''first-action'', JStr (as_signature (fa_assertion first))])) (\<lambda>claim.
     bind_eff (answer_duplicate ev (ep_base q) pid address EExecute (xd_nonce dto) t (st_warning t) claim) (\<lambda>answer. case answer of
         Some res \<Rightarrow> ret res
       | None \<Rightarrow>
           bind_eff (first_execute_broadcast ev q pid address dto call t leg) (\<lambda>(found, mode).
           settle_first_execute ev q pid dto t mode found)))"

definition execute_claimed :: "'w env \<Rightarrow> 'w execute_ports \<Rightarrow> string \<Rightarrow> string \<Rightarrow> execute_dto \<Rightarrow> execute_call \<Rightarrow> fee_terms
    \<Rightarrow> (('w, 'z) sponsored_scheme, SponsoredWithdrawResult) eff" where
  "execute_claimed ev q pid address dto call t =
     bind_eff (claimSlot ev (execute_slot pid dto) (intentHash (ep_base q) EExecute (as_signature (xd_assertion dto))
         [JStr (cd_target dto), JStr (cd_data dto), JStr (xd_nonce dto), JNum (xd_expiry dto), JNum (st_version t)])) (\<lambda>claim.
     bind_eff (answer_duplicate ev (ep_base q) pid address EExecute (xd_nonce dto) t None claim) (\<lambda>answer. case answer of
         Some res \<Rightarrow> ret res
       | None \<Rightarrow>
           bind_eff (broadcastWithResolveThenAct ev (execute_slot pid dto)
               (spend_execute ev q pid dto call t (rp_relayer (wp_base (ep_base q)))) (resolveSvmState (ep_base q) address (st_chainNonce t))) (\<lambda>out.
           settle_execute ev q pid dto call t (rr_signature out))))"

definition executeFirstAction :: "'w env \<Rightarrow> 'w execute_ports \<Rightarrow> string \<Rightarrow> string \<Rightarrow> execute_call \<Rightarrow> execute_dto
    \<Rightarrow> (('w, 'z) sponsored_scheme, SponsoredWithdrawResult) eff" where
  "executeFirstAction ev q pid address call dto =
     (case xd_activation dto of
        None \<Rightarrow> throw (Conflict ''Account is not active yet - re-quote for first action and sign the activation segment'')
      | Some first \<Rightarrow>
     let p = ep_base q; fail = withdraw_reject ev pid EExecute (xd_nonce dto); version = xd_feePolicyVersion dto in
     bind_eff (requireClosed BROADCAST_CHAIN_SOLANA) (\<lambda>_.
     bind_eff (active_credential ev (wp_base p) pid (as_id (xd_assertion dto))) (\<lambda>row. case row of
         None \<Rightarrow> fail ''unauthorized'' (BadRequest ''Unknown or inactive passkey'')
       | Some authority \<Rightarrow>
     if as_id (fa_assertion first) \<noteq> as_id (xd_assertion dto) then
       fail ''unauthorized'' (BadRequest ''Activation and spend must be signed by the same passkey'')
     else
     bind_eff (gateSubmitVersion ev p pid EExecute (xd_nonce dto) version) (\<lambda>feePolicyWarning.
     if fa_feePolicyVersion first \<noteq> version then
       fail ''policy-unknown'' (BadRequest ''Activation and spend must be quoted under the same fee policy version'')
     else
     bind_eff (solanaFeeLeg ev p (Some version)) (\<lambda>leg.
     bind_eff (claiming_key ev pid) (\<lambda>derivation.
     bind_eff (catch_default (port (rp_getNonce (wp_base p) pid derivation)) 0) (\<lambda>chainNonce.
     bind_eff (check_nonce ev pid EExecute (xd_nonce dto) chainNonce) (\<lambda>_.
     bind_eff (port (rp_chainTime (wp_base p))) (\<lambda>chainTime.
     bind_eff (check_expiry ev pid EExecute (xd_nonce dto) chainTime (xd_expiry dto)) (\<lambda>_.
     bind_eff (check_expiry ev pid EExecute (xd_nonce dto) chainTime (fa_expiry first)) (\<lambda>_.
     bind_eff (promise_all (port (ep_estimateCompositeExecuteFee q (ec_target call) (ec_metas call) (length (ec_data call))))
                 (port (wp_rentExemption p))) (\<lambda>(compositeFee, rent).
     let networkFee = compositeFee + rent in
     bind_eff (lift_result (big_field (xd_quotedNetworkFeeLamports dto))) (\<lambda>quoted.
     bind_eff (check_drift ev pid EExecute (xd_nonce dto) networkFee quoted) (\<lambda>_.
     let protocolFee = protocolFeeOf networkFee (fl_bps leg); totalFee = networkFee + protocolFee in
     bind_eff (check_max_total ev pid ''execute.max_total_exceeded'' [(''firstAction'', JBool True)] networkFee protocolFee version
         (xd_maxTotalFeeLamports dto)) (\<lambda>maxTotalFee.
     bind_eff (check_sol_fee ev p pid EExecute (xd_nonce dto) address totalFee) (\<lambda>_.
     bind_eff (lift_result (rp_relayer (wp_base p))) (\<lambda>relayer.
     bind_eff (port (wp_getBalanceOf p relayer)) (\<lambda>relayerBal.
     if relayerBal < compositeFee then
       bind_eff (log_security ev pid ''execute.relayer_unfunded'' [(''firstAction'', JBool True)]) (\<lambda>_. throw RELAYER_UNFUNDED)
     else
     bind_eff (lift_result (coseToCompressedSecp256r1 (cr_publicKey authority))) (\<lambda>authorityCompressed.
     bind_eff (lift_result (decode_assertion (xd_assertion dto))) (\<lambda>spendAssertion.
     bind_eff (lift_result (decode_assertion (fa_assertion first))) (\<lambda>activateAssertion.
     bind_eff (lift_result (amountOr400 (fa_maxTotalFeeLamports first) ''Activation max total fee'')) (\<lambda>activateMax.
     if exceedsMaxTotalFee totalFee activateMax then
       throw (Conflict ''Total fee exceeds your authorized activation maximum - re-quote and try again'')
     else
       first_execute_claimed ev q pid address dto call first
         \<lparr>st_authority = authorityCompressed, st_assertion = spendAssertion, st_version = version, st_leg = leg,
          st_chainNonce = chainNonce, st_networkFee = networkFee, st_protocolFee = protocolFee, st_maxTotalFee = maxTotalFee,
          st_warning = feePolicyWarning\<rparr>
         \<lparr>al_version = version, al_networkFee = networkFee, al_maxTotalFee = activateMax, al_expiry = fa_expiry first,
          al_assertion = activateAssertion\<rparr>))))))))))))))))))))))"

definition sponsored_execute :: "'w env \<Rightarrow> 'w execute_ports \<Rightarrow> string \<Rightarrow> execute_dto \<Rightarrow> (('w, 'z) sponsored_scheme, SponsoredWithdrawResult) eff" where
  "sponsored_execute ev q pid dto =
     (let p = ep_base q; fail = withdraw_reject ev pid EExecute (xd_nonce dto); version = xd_feePolicyVersion dto in
     bind_eff (port (rp_adapter (wp_base p))) (\<lambda>_.
     bind_eff (resolveSmart ev p pid) (\<lambda>chain.
     bind_eff (decodeExecuteCall q (ca_address chain) dto) (\<lambda>call.
     bind_eff (isActivated p (ca_address chain)) (\<lambda>activated.
     if \<not> activated then executeFirstAction ev q pid (ca_address chain) call dto
     else
     bind_eff (requireClosed BROADCAST_CHAIN_SOLANA) (\<lambda>_.
     bind_eff (active_credential ev (wp_base p) pid (as_id (xd_assertion dto))) (\<lambda>row. case row of
         None \<Rightarrow> fail ''unauthorized'' (BadRequest ''Unknown or inactive passkey'')
       | Some authority \<Rightarrow>
     bind_eff (gateSubmitVersion ev p pid EExecute (xd_nonce dto) version) (\<lambda>feePolicyWarning.
     bind_eff (solanaFeeLeg ev p (Some version)) (\<lambda>leg.
     bind_eff (claiming_key ev pid) (\<lambda>derivation.
     bind_eff (port (rp_getNonce (wp_base p) pid derivation)) (\<lambda>chainNonce.
     bind_eff (check_nonce ev pid EExecute (xd_nonce dto) chainNonce) (\<lambda>_.
     bind_eff (port (rp_chainTime (wp_base p))) (\<lambda>chainTime.
     bind_eff (check_expiry ev pid EExecute (xd_nonce dto) chainTime (xd_expiry dto)) (\<lambda>_.
     bind_eff (lift_result (big_field (xd_quotedNetworkFeeLamports dto))) (\<lambda>quoted.
     bind_eff (port (ep_estimateExecuteFee q (ec_target call) (ec_metas call) (length (ec_data call)))) (\<lambda>networkFee.
     bind_eff (check_drift ev pid EExecute (xd_nonce dto) networkFee quoted) (\<lambda>_.
     let protocolFee = protocolFeeOf networkFee (fl_bps leg); totalFee = networkFee + protocolFee in
     bind_eff (check_max_total ev pid ''execute.max_total_exceeded'' [] networkFee protocolFee version (xd_maxTotalFeeLamports dto)) (\<lambda>maxTotalFee.
     bind_eff (check_sol_fee ev p pid EExecute (xd_nonce dto) (ca_address chain) totalFee) (\<lambda>_.
     bind_eff (lift_result (rp_relayer (wp_base p))) (\<lambda>relayer.
     bind_eff (port (wp_getBalanceOf p relayer)) (\<lambda>relayerBal.
     bind_eff (catch_default (port (ep_estimateExecuteFee q (ec_target call) (ec_metas call) (length (ec_data call)))) 5000) (\<lambda>feeForTx.
     if relayerBal < feeForTx then
       bind_eff (log_security ev pid ''execute.relayer_unfunded'' []) (\<lambda>_. throw RELAYER_UNFUNDED)
     else
     bind_eff (lift_result (coseToCompressedSecp256r1 (cr_publicKey authority))) (\<lambda>authorityCompressed.
     bind_eff (lift_result (decode_assertion (xd_assertion dto))) (\<lambda>asserted.
     execute_claimed ev q pid (ca_address chain) dto call
       \<lparr>st_authority = authorityCompressed, st_assertion = asserted, st_version = version, st_leg = leg,
        st_chainNonce = chainNonce, st_networkFee = networkFee, st_protocolFee = protocolFee, st_maxTotalFee = maxTotalFee,
        st_warning = feePolicyWarning\<rparr>))))))))))))))))))))))))"

section \<open>Authorised executions\<close>

text \<open>A withdrawal and an execution give the same fields of their requests to the checks of the fees and of the credential.\<close>

definition fee_request :: "execute_dto \<Rightarrow> withdraw_dto" where
  "fee_request dto = \<lparr>wd_asset = [], wd_to = [], wd_amount = [], wd_nonce = xd_nonce dto, wd_expiry = xd_expiry dto,
     wd_feePolicyVersion = xd_feePolicyVersion dto, wd_quotedNetworkFeeLamports = xd_quotedNetworkFeeLamports dto,
     wd_maxTotalFeeLamports = xd_maxTotalFeeLamports dto, wd_assertion = xd_assertion dto, wd_activation = xd_activation dto\<rparr>"

definition execute_authorised :: "'w execute_ports \<Rightarrow> credential list \<Rightarrow> string \<Rightarrow> execute_dto \<Rightarrow> relayed_tx \<Rightarrow> bool" where
  "execute_authorised q A pid dto x = (case x of RWithdraw tx \<Rightarrow> False | RExecute tx \<Rightarrow>
     (let r = fee_request dto; p = ep_base q in
        et_pid tx = pid \<and> credential_signs A pid r (et_authority tx) \<and> decode_assertion (xd_assertion dto) = Inr (et_assertion tx)
        \<and> (\<exists>vault program. decode_call p vault program dto = Inr (et_call tx))
        \<and> ec_metas (et_call tx) \<noteq> [] \<and> length (ec_metas (et_call tx)) \<le> 64 \<and> length (ec_data (et_call tx)) \<le> 10240
        \<and> parse_BigInt (xd_nonce dto) = Some (et_nonce tx) \<and> et_version tx = xd_feePolicyVersion dto
        \<and> et_expiry tx = xd_expiry dto \<and> live p (xd_expiry dto)
        \<and> amountOr400 (xd_maxTotalFeeLamports dto) ''Max total fee'' = Inr (et_maxTotalFee tx)
        \<and> fees_within r (et_networkFee tx) (et_maxTotalFee tx)
        \<and> (case et_leg tx of None \<Rightarrow> True | Some leg \<Rightarrow> leg_authorised p r leg \<and> al_networkFee leg = et_networkFee tx)))"

lemma decode_metas_length: "decode_metas p ms = Inr xs \<Longrightarrow> length xs = length ms"
proof (induction ms arbitrary: xs)
  case (Cons m ms)
  from Cons.prems obtain a rest where "decode_metas p ms = Inr rest" "xs = m\<lparr>am_address := a\<rparr> # rest"
    by auto
  with Cons.IH show ?case by simp
qed simp

lemma decode_call_bounds:
  assumes "decode_call p vault program dto = Inr call"
  shows "ec_metas call \<noteq> [] \<and> length (ec_metas call) \<le> 64 \<and> length (ec_data call) \<le> 10240"
  using assms by (auto simp: decode_call_def split: option.splits if_splits dest!: decode_metas_length)

context sponsored_frame
begin

lemma keeps_execute_reads [keeps_intros]: "preserves R (decodeExecuteCall q vault call)"
  unfolding decodeExecuteCall_def by (intro keeps_bind keeps_port keeps_pure)

lemma keeps_execute_settle [keeps_intros]:
  "preserves R (settle_first_execute ev q pid dto t mode found)" "preserves R (settle_execute ev q pid dto call t found)"
  unfolding settle_first_execute_def settle_execute_def unattributed_def confirm_execute_def log_landed_def Let_def
  by (intro keeps_bind keeps_port keeps_log keeps_try keeps_reconciliation keeps_records keeps_if keeps_pure)+

lemma keeps_executes:
  assumes "\<And>leg r der. leg \<in> legs \<Longrightarrow> preserves R (submit_execute q (exec_tx leg call pid dto t r der))"
  shows "None \<in> legs \<Longrightarrow> preserves R (spend_execute ev q pid dto call t kp)" "Some leg \<in> legs \<Longrightarrow> preserves R (composite_execute q pid dto call t leg)"
  unfolding spend_execute_def composite_execute_def
  by (intro keeps_bind keeps_claiming keeps_pure assms, assumption)+

lemma keeps_execute_claimed:
  assumes "\<And>kp. preserves R (spend_execute ev q pid dto call t kp)"
  shows "preserves R (execute_claimed ev q pid a dto call t)"
  unfolding execute_claimed_def
  by (auto intro!: keeps_bind keeps_broadcast keeps_claimSlot keeps_duplicate keeps_execute_settle keeps_resolve keeps_pure assms split: option.split)

lemma keeps_first_execute:
  assumes "preserves R (composite_execute q pid dto call t leg)"
    "\<And>r. preserves R (activate_first (ep_base q) \<lparr>at_pid = pid, at_authority = st_authority t, at_leg = leg, at_relayer = r\<rparr>)"
    "\<And>kp. preserves R (spend_execute ev q pid dto call t kp)"
  shows "preserves R (first_execute_claimed ev q pid a dto call first t leg)"
  unfolding first_execute_claimed_def first_execute_broadcast_def Let_def
  by (auto intro!: keeps_bind keeps_try keeps_broadcast keeps_claimSlot keeps_duplicate keeps_log keeps_execute_settle keeps_resolve keeps_pure assms
      split: option.split sum.split)

end

lemma submit_execute_sends: "G (RExecute tx) \<Longrightarrow> preserves (sends A G H) (submit_execute q tx)"
  by (auto simp: preserves_def submit_execute_def sends_def sends_state_def split: prod.split)

lemma execute_ok:
  assumes "\<exists>vault program. decode_call (ep_base q) vault program dto = Inr call"
    "c \<in> set A" "cr_pid c = pid" "cr_credentialId c = as_id (xd_assertion dto)" "cr_status c = ''active''"
    "coseToCompressedSecp256r1 (cr_publicKey c) = Inr (st_authority t)" "decode_assertion (xd_assertion dto) = Inr (st_assertion t)"
    "big_field (xd_nonce dto) = Inr (st_chainNonce t)" "st_version t = xd_feePolicyVersion dto"
    "rp_chainTime (wp_base (ep_base q)) w = (Inr now, w')" "now < xd_expiry dto" "xd_expiry dto \<le> now + MAX_TTL_SECS"
    "amountOr400 (xd_maxTotalFeeLamports dto) ''Max total fee'' = Inr (st_maxTotalFee t)"
    "big_field (xd_quotedNetworkFeeLamports dto) = Inr n" "\<not> exceedsDriftBound (st_networkFee t) n" "0 \<le> fl_bps l" "fl_bps l \<le> MAX_PROTOCOL_FEE_BPS"
    "st_networkFee t + protocolFeeOf (st_networkFee t) (fl_bps l) \<le> st_maxTotalFee t"
    "leg = None \<or> leg = Some al \<and> leg_authorised (ep_base q) (fee_request dto) al \<and> al_networkFee al = st_networkFee t"
  shows "execute_authorised q A pid dto (RExecute (exec_tx leg call pid dto t r der))"
  using assms(1,6-9,13,19) decode_call_bounds [of "ep_base q" _ _ dto call] liveI [OF assms(10-12)]
    credential_signsI [of c A pid "fee_request dto" "st_authority t"] assms(2-5)
    fees_withinI [of "fee_request dto" n "st_networkFee t" "fl_bps l" "st_maxTotalFee t"] assms(14-18)
  by (auto simp: execute_authorised_def exec_tx_def big_field_Inr fee_request_def Let_def)

lemma bind_decoded:
  fixes f :: "execute_call \<Rightarrow> (('w, 'z) sponsored_scheme, 'b) eff"
  assumes "\<And>call. \<exists>vault program. decode_call (ep_base q) vault program dto = Inr call \<Longrightarrow> preserves (sends A G H) (f call)"
  shows "preserves (sends A G H) (bind_eff (decodeExecuteCall q vault dto) f)"
  by (rule sends_bind [where Q = "\<lambda>call. \<exists>vault program. decode_call (ep_base q) vault program dto = Inr call", OF sent.keeps_execute_reads])
    (auto simp: returns_def decodeExecuteCall_def bind_eff_Inr intro: assms)

lemma execute_sends:
  assumes "\<And>r der. G (RExecute (exec_tx None call pid dto t r der))"
  shows "preserves (sends A G H) (execute_claimed ev q pid a dto call t)"
  by (intro sent.keeps_execute_claimed sent.keeps_executes [where legs = "{None}"] submit_execute_sends) (auto intro: assms)

lemma first_execute_sends:
  assumes "\<And>leg' r der. leg' = None \<or> leg' = Some leg \<Longrightarrow> G (RExecute (exec_tx leg' call pid dto t r der))"
    and "\<And>r. H \<lparr>at_pid = pid, at_authority = st_authority t, at_leg = leg, at_relayer = r\<rparr>"
  shows "preserves (sends A G H) (first_execute_claimed ev q pid a dto call first t leg)"
  by (intro sent.keeps_first_execute sent.keeps_executes [where legs = "{None, Some leg}"] submit_execute_sends activate_sends) (auto intro: assms)

lemma fee_request_simps [simp]:
  "wd_nonce (fee_request dto) = xd_nonce dto" "wd_expiry (fee_request dto) = xd_expiry dto" "wd_feePolicyVersion (fee_request dto) = xd_feePolicyVersion dto"
  "wd_quotedNetworkFeeLamports (fee_request dto) = xd_quotedNetworkFeeLamports dto" "wd_maxTotalFeeLamports (fee_request dto) = xd_maxTotalFeeLamports dto"
  "wd_assertion (fee_request dto) = xd_assertion dto" "wd_activation (fee_request dto) = xd_activation dto"
  by (simp_all add: fee_request_def)

lemma leg_choice:
  "k = None \<or> k = Some leg \<Longrightarrow> leg_authorised p r leg \<Longrightarrow> al_networkFee leg = f
     \<Longrightarrow> k = None \<or> k = Some leg \<and> leg_authorised p r leg \<and> al_networkFee leg = f"
  by blast

lemma first_execute_authorised:
  fixes A :: "credential list"
  assumes "\<exists>vault program. decode_call (ep_base q) vault program dto = Inr call"
  shows "preserves (sends A (execute_authorised q A pid dto) (activation_authorised (ep_base q) A pid (fee_request dto)))
    (executeFirstAction ev q pid address call dto :: (('w, 'z) sponsored_scheme, SponsoredWithdrawResult) eff)"
  unfolding executeFirstAction_def Let_def
  apply ((rule request_steps)+)
   apply (rule first_execute_sends)
  subgoal premises checks
    apply (rule execute_ok; (simp only: terms_select)?; (rule assms checks refl)?)
    apply (rule leg_choice, rule checks)
    by (rule leg_ok; (simp only: terms_select fee_request_simps)?; (rule checks refl)?) simp
  subgoal premises checks
    apply (rule activation_ok; (simp only: terms_select fee_request_simps)?; (rule checks refl)?)
    by (rule leg_ok; (simp only: terms_select fee_request_simps)?; (rule checks refl)?)
  by (rule request_steps)+

lemma sponsored_execute_authorised:
  fixes A :: "credential list"
  shows "preserves (sends A (execute_authorised q A pid dto) (activation_authorised (ep_base q) A pid (fee_request dto)))
    (sponsored_execute ev q pid dto :: (('w, 'z) sponsored_scheme, SponsoredWithdrawResult) eff)"
  unfolding sponsored_execute_def Let_def
  apply ((rule bind_decoded first_execute_authorised request_steps | assumption)+, rule execute_sends)
  subgoal premises checks
    by (rule execute_ok; (simp only: terms_select)?; (rule checks refl disjI1)?) (rule refl)
  by (rule request_steps)+

lemma execute_stopped: "stopped (sponsored_execute ev q pid dto)"
  unfolding sponsored_execute_def executeFirstAction_def Let_def resolveSmart_def isActivated_def decodeExecuteCall_def
  by (auto intro!: stopped_bind stopped_closed stopped_throw unsent.keeps_port unsent.keeps_bind unsent.keeps_lookups unsent.keeps_catch
      unsent.keeps_pure split: option.split)

text \<open>C10: whatever an execution returns and whenever it stops, each transaction it handed to the network carries the call that the request decodes to
  (not to the program itself, 1 to 64 accounts, at most 10240 bytes of data), is signed with an active passkey of the account, and has the
  nonce, fee policy version and expiry of the request, which was alive for at most ten minutes; the attested network fee is at most 120 percent of the quoted
  one, and with the protocol fee it stays within the total that the user signed. The same holds of the activation of a first action. While the
  breaker of the chain is open nothing is sent and the request fails.\<close>

theorem executions_authorised:
  fixes s :: "('w, 'z) sponsored_scheme"
  assumes "fee_ok (sd_fees s)" "sponsored_execute ev q pid dto s = (r, t)"
  shows "\<exists>txs acts. sd_sent t = sd_sent s @ txs \<and> sd_activated t = sd_activated s @ acts
    \<and> list_all (execute_authorised q (wl_authorities s) pid dto) txs
    \<and> list_all (activation_authorised (ep_base q) (wl_authorities s) pid (fee_request dto)) acts
    \<and> (isOpen BROADCAST_CHAIN_SOLANA s \<longrightarrow> txs = [] \<and> acts = [] \<and> \<not> is_ok r)"
proof -
  have "sends_state (wl_authorities s) s" using assms(1) by (simp add: sends_state_def)
  with keepsD [OF sponsored_execute_authorised [of "wl_authorities s" q pid dto ev] assms(2)]
  obtain txs acts where "sd_sent t = sd_sent s @ txs" "sd_activated t = sd_activated s @ acts"
    "list_all (execute_authorised q (wl_authorities s) pid dto) txs"
    "list_all (activation_authorised (ep_base q) (wl_authorities s) pid (fee_request dto)) acts"
    by (auto simp: sends_def)
  moreover have "isOpen BROADCAST_CHAIN_SOLANA s \<Longrightarrow> txs = [] \<and> acts = [] \<and> \<not> is_ok r"
    using execute_stopped [of ev q pid dto] assms(2) calculation(1,2) unfolding stopped_def
    by (metis append_self_conv fst_conv snd_conv)
  ultimately show ?thesis by blast
qed

section \<open>An execution that is sent\<close>

definition demo_execute_ports :: "int execute_ports" where
  "demo_execute_ports = \<lparr>ep_base = demo_withdraw_ports, ep_programId = \<lambda>w. (Inr ''program'', w), ep_estimateExecuteFee = \<lambda>_ _ _ w. (Inr 5, w),
     ep_estimateCompositeExecuteFee = \<lambda>_ _ _ w. (Inr 5, w), ep_submit = \<lambda>_ w. (Inr ''sig'', w)\<rparr>"

definition demo_execute :: execute_dto where
  "demo_execute = \<lparr>cd_target = ''swap'', cd_metas = [\<lparr>am_address = ''vault'', am_writable = True, am_signer = True\<rparr>], cd_data = [],
     xd_nonce = ''4'', xd_expiry = 1300, xd_feePolicyVersion = 2, xd_quotedNetworkFeeLamports = ''5'', xd_maxTotalFeeLamports = ''9'',
     xd_assertion = \<lparr>as_id = ''old'', as_signature = [], as_authenticatorData = [], as_clientDataJSON = []\<rparr>, xd_activation = None\<rparr>"

lemma demo_executes:
  "length (sd_sent (snd (sponsored_execute relayer_demo_env demo_execute_ports ''alice'' demo_execute demo_sponsored))) = 1"
  by (simp add: demo_eval sponsored_execute_def demo_execute_def demo_execute_ports_def check_sol_fee_def decodeExecuteCall_def decode_call_def
      execute_claimed_def execute_slot_def spend_execute_def submit_execute_def exec_tx_def settle_execute_def confirm_execute_def)

theorem executions_authorised_witness:
  "\<exists>tx. sd_sent (snd (sponsored_execute relayer_demo_env demo_execute_ports ''alice'' demo_execute demo_sponsored)) = [tx]
    \<and> execute_authorised demo_execute_ports (wl_authorities demo_sponsored) ''alice'' demo_execute tx"
proof -
  have "fee_ok (sd_fees demo_sponsored)"
    by (simp add: demo_sponsored_def wallet.extend_def no_policies_def fee_ok_def)
  from executions_authorised [OF this prod.collapse [symmetric], of relayer_demo_env demo_execute_ports "''alice''" demo_execute] demo_executes
  show ?thesis by (auto simp: demo_sponsored_def wallet.extend_def length_Suc_conv)
qed

end
