(* ===== verification/Point_Replay.thy ===== *)
theory Point_Replay
  imports Ledger_Replay
begin

text \<open>
  The replay of the point journal, \<^verbatim>\<open>apps/api/src/fiat/ledger-replay.ts\<close>: rows of the provider transactions folded in
  \<^verbatim>\<open>replaySeq\<close> order into the points each owner holds. The specification is the sum of the effects of the settled rows.
\<close>

section \<open>Rows and state\<close>

record journal_row =
  jr_kind :: string
  jr_pid :: string
  jr_providerRef :: string
  jr_providerStatus :: string
  jr_amountIdr :: int
  jr_direction :: "string option"
  jr_entryGroup :: "string option"
  jr_extinguished :: bool
  jr_counterparty :: "json option"
  jr_replaySeq :: "int option"

record journal_state =
  js_balances :: "(string, int) jsmap"
  js_treasury :: int
  js_inFlight :: "string list"
  js_skippedFiat :: nat
  js_errors :: "string list"
  js_groups :: "(string, int \<times> int) jsmap"

definition POINTS_IN :: "string list" where
  "POINTS_IN = [''points_issue'', ''points_fee'', ''points_credit'']"

definition POINTS_OUT :: "string list" where
  "POINTS_OUT = [''points_clawback'', ''points_redeem'', ''transfer_internal'']"

definition FIAT_INTENT :: "string list" where
  "FIAT_INTENT = [''deposit'', ''debit'', ''debit_cancel'', ''fee'', ''payout_bank'', ''payout_wallet'', ''transfer_fee'',
     ''redemption'', ''fiat_payout'', ''fiat_consolidation'']"

definition journal_seqOf :: "journal_row \<Rightarrow> int" where
  "journal_seqOf r = nullish (jr_replaySeq r) (2 ^ 62)"

definition init_journal :: journal_state where
  "init_journal = \<lparr>js_balances = [], js_treasury = 0, js_inFlight = [], js_skippedFiat = 0, js_errors = [], js_groups = []\<rparr>"

section \<open>One row\<close>

definition journal_credit :: "string \<Rightarrow> int \<Rightarrow> journal_state \<Rightarrow> journal_state" where
  "journal_credit owner amount s =
     s\<lparr>js_balances := jsmap_set owner (nullish (jsmap_get (js_balances s) owner) 0 + amount) (js_balances s)\<rparr>"

definition journal_error :: "string \<Rightarrow> journal_state \<Rightarrow> journal_state" where
  "journal_error e s = s\<lparr>js_errors := js_errors s @ [e]\<rparr>"

definition journal_skip :: "journal_state \<Rightarrow> journal_state" where
  "journal_skip s = s\<lparr>js_skippedFiat := js_skippedFiat s + 1\<rparr>"

text \<open>\<^verbatim>\<open>bump\<close>: \<open>outwards\<close> selects the side of the group.\<close>

definition journal_bump :: "bool \<Rightarrow> journal_row \<Rightarrow> journal_state \<Rightarrow> journal_state" where
  "journal_bump outwards r s =
     (case jr_entryGroup r of None \<Rightarrow> s
      | Some gr \<Rightarrow> if gr = [] then s
          else let (o', i') = nullish (jsmap_get (js_groups s) gr) (0, 0)
               in s\<lparr>js_groups := jsmap_set gr (if outwards then (o' + jr_amountIdr r, i') else (o', i' + jr_amountIdr r)) (js_groups s)\<rparr>)"

definition journal_direction :: "string \<Rightarrow> journal_row \<Rightarrow> journal_state \<Rightarrow> journal_state" where
  "journal_direction expected r s =
     (case jr_direction r of None \<Rightarrow> s
      | Some d \<Rightarrow> if d \<noteq> expected
          then journal_error (jr_providerRef r @ '': direction '' @ d @ '' != '' @ expected @ '' for kind '' @ jr_kind r) s
          else s)"

definition journal_step :: "journal_row \<Rightarrow> journal_state \<Rightarrow> journal_state" where
  "journal_step r s =
     (if jr_providerStatus r \<noteq> ''settled'' then
        (if List.member POINTS_IN (jr_kind r) \<or> List.member POINTS_OUT (jr_kind r)
         then s\<lparr>js_inFlight := js_inFlight s @ [jr_providerRef r]\<rparr> else s)
      else if List.member FIAT_INTENT (jr_kind r) then journal_skip s
      else if jr_extinguished r \<and> jr_kind r \<noteq> ''points_redeem'' then
        journal_error (jr_providerRef r @ '': extinguished flag on non-redeem kind '' @ jr_kind r) s
      else if jr_kind r = ''points_issue'' then
        journal_bump False r (journal_credit (jr_pid r) (jr_amountIdr r) (journal_direction ''in'' r s))
      else if jr_kind r = ''points_fee'' then
        journal_bump False r ((journal_direction ''out'' r s)\<lparr>js_treasury := js_treasury s + jr_amountIdr r\<rparr>)
      else if jr_kind r = ''points_credit'' then
        journal_bump False r (journal_credit (jr_pid r) (jr_amountIdr r) (journal_direction ''in'' r s))
      else if jr_kind r = ''transfer_internal'' then
        (if json_get (jr_counterparty r) ''currency'' \<noteq> Some (JStr ''POINT'') then journal_skip s
         else journal_bump True r (journal_credit (jr_pid r) (- jr_amountIdr r) (journal_direction ''out'' r s)))
      else if jr_kind r = ''points_clawback'' then
        journal_credit (jr_pid r) (- jr_amountIdr r) (journal_direction ''out'' r s)
      else if jr_kind r = ''points_redeem'' then
        (if \<not> jr_extinguished r then
           journal_error (jr_providerRef r @ '': redeem without extinguished=true -- burned units must be marked'') s
         else journal_credit (jr_pid r) (- jr_amountIdr r) (journal_direction ''out'' r s))
      else journal_error (jr_providerRef r @ '': unknown journal kind '' @ jr_kind r) s)"

section \<open>The whole replay\<close>

text \<open>The final checks are those of the internal ledger (\<^verbatim>\<open>Ledger_Replay\<close>), without a tax bucket.\<close>

definition finish_journal :: "journal_state \<Rightarrow> journal_state" where
  "finish_journal s =
     s\<lparr>js_errors := js_errors s @ group_errors (js_groups s) @ owner_errors (js_balances s)
        @ (if js_treasury s < 0 then [''treasury negative outstanding '' @ show_int (js_treasury s)] else [])\<rparr>"

definition journal_order :: "journal_row list \<Rightarrow> journal_row list" where
  "journal_order rows = sort_key (\<lambda>r. (journal_seqOf r, jr_providerRef r)) rows"

definition replayJournal :: "journal_row list \<Rightarrow> journal_state" where
  "replayJournal rows = finish_journal (fold journal_step (journal_order rows) init_journal)"

definition totalOutstanding :: "journal_state \<Rightarrow> int" where
  "totalOutstanding s = js_treasury s + sum_list (map (\<lambda>(_, bal). bal) (js_balances s))"

definition points_of :: "journal_state \<Rightarrow> string \<Rightarrow> int" where
  "points_of s p = nullish (jsmap_get (js_balances s) p) 0"

section \<open>The specification: sums of effects\<close>

definition settled_kind :: "string \<Rightarrow> journal_row \<Rightarrow> bool" where
  "settled_kind k r \<longleftrightarrow> jr_providerStatus r = ''settled'' \<and> jr_kind r = k \<and> \<not> jr_extinguished r"

definition points_in :: "journal_row \<Rightarrow> bool" where
  "points_in r \<longleftrightarrow> settled_kind ''points_issue'' r \<or> settled_kind ''points_credit'' r"

definition points_out :: "journal_row \<Rightarrow> bool" where
  "points_out r \<longleftrightarrow> settled_kind ''points_clawback'' r
     \<or> settled_kind ''transfer_internal'' r \<and> json_get (jr_counterparty r) ''currency'' = Some (JStr ''POINT'')
     \<or> jr_providerStatus r = ''settled'' \<and> jr_kind r = ''points_redeem'' \<and> jr_extinguished r"

definition fee_in :: "journal_row \<Rightarrow> bool" where
  "fee_in r \<longleftrightarrow> settled_kind ''points_fee'' r"

definition point_effect :: "journal_row \<Rightarrow> int" where
  "point_effect r = (if points_in r then jr_amountIdr r else if points_out r then - jr_amountIdr r else 0)"

definition points_total :: "string \<Rightarrow> journal_row list \<Rightarrow> int" where
  "points_total p rows = sum_list (map point_effect (filter (\<lambda>r. jr_pid r = p) rows))"

definition fee_effect :: "journal_row \<Rightarrow> int" where
  "fee_effect r = (if fee_in r then jr_amountIdr r else 0)"

section \<open>The helpers, field by field\<close>

named_theorems journal_simps

lemma points_of_credit [journal_simps]:
  "points_of (journal_credit w a s) p = points_of s p + (if p = w then a else 0)"
  by (simp add: points_of_def journal_credit_def jsmap_get_set)

lemma journal_sel [journal_simps]:
  "js_treasury (journal_credit w a s) = js_treasury s" "js_treasury (journal_error e s) = js_treasury s"
  "js_treasury (journal_skip s) = js_treasury s" "js_balances (journal_error e s) = js_balances s"
  "js_balances (journal_skip s) = js_balances s" "js_treasury (journal_bump d r s) = js_treasury s"
  "js_balances (journal_bump d r s) = js_balances s"
  by (auto simp: journal_credit_def journal_error_def journal_skip_def journal_bump_def Let_def split: option.splits prod.splits)

lemma journal_direction_sel [journal_simps]:
  "js_treasury (journal_direction d r s) = js_treasury s" "js_balances (journal_direction d r s) = js_balances s"
  by (auto simp: journal_direction_def journal_simps split: option.splits)

lemma points_of_cong [journal_simps]:
  "points_of (journal_bump d r s) p = points_of s p" "points_of (journal_error e s) p = points_of s p"
  "points_of (journal_skip s) p = points_of s p" "points_of (journal_direction x r s) p = points_of s p"
  "points_of (s\<lparr>js_treasury := t\<rparr>) p = points_of s p" "points_of (s\<lparr>js_inFlight := l\<rparr>) p = points_of s p"
  by (simp_all add: points_of_def journal_simps)

lemmas journal_effects = point_effect_def points_in_def points_out_def fee_effect_def fee_in_def settled_kind_def

text \<open>No fiat kind moves points.\<close>

lemma intent_kinds [journal_simps]:
  "k \<in> {''points_issue'', ''points_fee'', ''points_credit'', ''transfer_internal'', ''points_clawback'', ''points_redeem''} \<Longrightarrow> k \<notin> set FIAT_INTENT"
  by (auto simp: FIAT_INTENT_def)

lemma intent_effects:
  "jr_kind r \<in> set FIAT_INTENT \<Longrightarrow> point_effect r = 0" "jr_kind r \<in> set FIAT_INTENT \<Longrightarrow> fee_effect r = 0"
  using intent_kinds [of "jr_kind r"] by (auto simp: journal_effects)

definition journal_wf :: "journal_state \<Rightarrow> bool" where
  "journal_wf s \<longleftrightarrow> distinct (map fst (js_balances s))"

lemma journal_wf_helpers:
  "journal_wf s \<Longrightarrow> journal_wf (journal_credit w a s)" "journal_wf (journal_error e s) = journal_wf s"
  "journal_wf (journal_skip s) = journal_wf s" "journal_wf (journal_bump d r s) = journal_wf s"
  "journal_wf (journal_direction x r s) = journal_wf s" "journal_wf (s\<lparr>js_treasury := t\<rparr>) = journal_wf s"
  "journal_wf (s\<lparr>js_inFlight := l\<rparr>) = journal_wf s"
  by (simp_all add: journal_wf_def journal_simps journal_credit_def distinct_jsmap_set)

lemma journal_wf_step: "journal_wf s \<Longrightarrow> journal_wf (journal_step r s)"
  by (auto simp: journal_step_def journal_wf_helpers)

interpretation journal_rows: service_machine journal_step journal_wf
  by unfold_locales (rule journal_wf_step)

lemma total_journal_credit: "journal_wf s \<Longrightarrow> totalOutstanding (journal_credit w a s) = totalOutstanding s + a"
  using sum_list_jsmap_set [of "js_balances s" "\<lambda>x. x" w "nullish (jsmap_get (js_balances s) w) 0 + a"]
  by (simp add: totalOutstanding_def journal_credit_def journal_wf_def split: option.splits)

lemma total_journal [journal_simps]:
  "totalOutstanding (journal_bump d r s) = totalOutstanding s" "totalOutstanding (journal_error e s) = totalOutstanding s"
  "totalOutstanding (journal_skip s) = totalOutstanding s" "totalOutstanding (journal_direction x r s) = totalOutstanding s"
  "totalOutstanding (s\<lparr>js_treasury := t\<rparr>) = totalOutstanding s - js_treasury s + t"
  "totalOutstanding (s\<lparr>js_inFlight := l\<rparr>) = totalOutstanding s"
  by (simp_all add: totalOutstanding_def journal_simps)

text \<open>The three effects of a row, kind by kind.\<close>

lemma journal_step_effect:
  assumes "journal_wf s"
  shows "points_of (journal_step r s) p = points_of s p + (if jr_pid r = p then point_effect r else 0)
    \<and> js_treasury (journal_step r s) = js_treasury s + fee_effect r
    \<and> totalOutstanding (journal_step r s) = totalOutstanding s + point_effect r + fee_effect r"
proof -
  consider "jr_providerStatus r \<noteq> ''settled''" | "jr_providerStatus r = ''settled''" "jr_kind r \<in> set FIAT_INTENT"
    | "jr_providerStatus r = ''settled''" "jr_kind r \<notin> set FIAT_INTENT" by blast
  then show ?thesis
  proof cases
    case 3
    then show ?thesis using assms
      by (simp add: journal_step_def journal_simps total_journal_credit journal_wf_helpers)
        (simp add: journal_effects)
  next
    case 2
    then show ?thesis by (simp add: journal_step_def journal_simps intent_effects)
  qed (simp add: journal_step_def journal_simps journal_effects)
qed

lemmas journal_step_parts = journal_step_effect [THEN conjunct1] journal_step_effect [THEN conjunct2, THEN conjunct1]
  journal_step_effect [THEN conjunct2, THEN conjunct2]

section \<open>Folds\<close>

lemma fold_journal:
  "journal_wf s \<Longrightarrow> points_of (fold journal_step rows s) p = points_of s p + points_total p rows
     \<and> js_treasury (fold journal_step rows s) = js_treasury s + sum_list (map fee_effect rows)
     \<and> totalOutstanding (fold journal_step rows s) = totalOutstanding s + sum_list (map point_effect rows) + sum_list (map fee_effect rows)"
  by (induction rows arbitrary: s) (auto simp: journal_step_parts journal_wf_step points_total_def)

lemma mset_journal_order [simp]: "mset (journal_order rows) = mset rows"
  by (simp add: journal_order_def)

lemma sum_list_mset:
  fixes f :: "'a \<Rightarrow> int"
  shows "mset xs = mset ys \<Longrightarrow> sum_list (map f xs) = sum_list (map f ys)"
  using sum_list_filter_mset [of xs ys f "\<lambda>_. True"] by simp

lemma points_total_mset: "mset xs = mset ys \<Longrightarrow> points_total p xs = points_total p ys"
  unfolding points_total_def by (rule sum_list_filter_mset)

lemma finish_journal_sel [simp]:
  "js_balances (finish_journal s) = js_balances s" "js_treasury (finish_journal s) = js_treasury s"
  "points_of (finish_journal s) p = points_of s p" "totalOutstanding (finish_journal s) = totalOutstanding s"
  by (simp_all add: finish_journal_def points_of_def totalOutstanding_def)

lemma init_journal_sel [simp]:
  "points_of init_journal p = 0" "js_treasury init_journal = 0" "totalOutstanding init_journal = 0" "journal_wf init_journal"
  by (simp_all add: init_journal_def points_of_def totalOutstanding_def journal_wf_def)

lemma replay_points: "points_of (replayJournal rows) p = points_total p rows"
  using fold_journal [of init_journal "journal_order rows" p] by (simp add: replayJournal_def points_total_mset [OF mset_journal_order])

text \<open>A row that is not settled, or that is a fiat leg, changes nobody's points.\<close>

lemma point_effect_unsettled: "jr_providerStatus r \<noteq> ''settled'' \<Longrightarrow> point_effect r = 0"
  by (simp add: journal_effects)

text \<open>C28: the replay of the point journal is order independent and conserves points: an owner holds the sum of the settled rows, the treasury
  the settled fees, and all outstanding points together are what was issued and credited less what left.\<close>

theorem point_journal_sums:
  "points_of (replayJournal rows) p = points_total p rows
   \<and> js_treasury (replayJournal rows) = sum_list (map fee_effect rows)
   \<and> totalOutstanding (replayJournal rows) = sum_list (map point_effect rows) + sum_list (map fee_effect rows)"
  using fold_journal [of init_journal "journal_order rows" p] replay_points [of rows p]
  by (simp add: replayJournal_def sum_list_mset [OF mset_journal_order])

end
