(* ===== verification/Point_Store.thy ===== *)
theory Point_Store
  imports Fiat_Payments Point_Replay Effects
begin

text \<open>
  The ground of the sub-account service, \<^verbatim>\<open>apps/api/src/fiat/fiat-subaccount.service.ts\<close>: the provider tables it keeps beside the internal
  ledger, the payment provider as a record of ports, the retries and error mapping around its calls, and the accounts points move between.

  Every statement of the database may fail. The requests handed to the provider are recorded in \<open>po_calls\<close>, in the order of the calls; the
  free texts of a request (remark, description) are left out. A provider error without an HTTP status has the status 0. Calls made with
  \<^verbatim>\<open>void\<close> run later: they are entries of \<open>po_background\<close>. HMAC-SHA256 (as lower-case hexadecimal digits)
  and \<^verbatim>\<open>JSON.parse\<close> are ports. \<^verbatim>\<open>withPidLocks\<close> runs the operations of one identity one after another, which is how
  they are composed here.
\<close>

section \<open>Tables\<close>

text \<open>The columns of \<^verbatim>\<open>FiatProviderTransaction\<close> beside those that the ledger services read.\<close>

record point_tx = provider_tx +
  px_accountId :: "string option"
  px_response :: "json option"
  px_ledgerRef :: "string option"
  px_settlement :: "string option"
  px_direction :: "string option"
  px_source :: "string option"
  px_dest :: "string option"
  px_group :: "string option"
  px_seq :: int
  px_extinguished :: bool
  px_createdAt :: int

record provider_account =
  sa_pid :: string
  sa_status :: string
  sa_profileId :: "string option"
  sa_accountNo :: "string option"
  sa_point :: "string option"
  sa_va :: "string option"
  sa_accounts :: "json option"
  sa_phone :: "string option"
  sa_email :: "string option"
  sa_registerRef :: "string option"
  sa_lastBalance :: "string option"
  sa_lastBalanceAt :: "int option"
  sa_response :: "json option"

record webhook_event =
  we_externalId :: string
  we_eventType :: string
  we_payload :: json
  we_status :: string

section \<open>The provider\<close>

record transfer_request =
  tq_ref :: string
  tq_type :: string
  tq_amount :: int
  tq_currency :: string
  tq_from :: string
  tq_to :: string
  tq_bank :: "string option"
  tq_channel :: "string option"

record debit_request =
  de_ref :: string
  de_from :: string
  de_amount :: int
  de_currency :: string

text \<open>A payment carries the reference of its inquiry and the name of the beneficiary.\<close>

datatype provider_call =
    CallInquiry transfer_request
  | CallPayment transfer_request string string
  | CallDebit debit_request

record sac_status =
  ss_code :: "string option"
  ss_amount :: "raw_amount option"
  ss_raw :: json

record sac_inquiry =
  si_reference :: string
  si_name :: "string option"
  si_raw :: json

record sac_payment =
  sp_reference :: "string option"
  sp_raw :: json

record sac_debited =
  sd_code :: "string option"
  sd_raw :: json

record sac_account =
  sc_type :: string
  sc_accountNo :: "string option"
  sc_available :: "raw_amount option"
  sc_reserved :: "raw_amount option"

record sac_balance =
  sl_accounts :: "sac_account list"
  sl_raw :: json

record register_request =
  rg_ref :: string
  rg_type :: string
  rg_name :: string
  rg_email :: string
  rg_country :: string
  rg_parent :: "string option"

record sac_registered =
  sr_profileId :: string
  sr_accounts :: "sac_account list"
  sr_va :: "string option"
  sr_raw :: json

record checkout_order =
  ck_paid :: bool
  ck_paidAmount :: "int option"
  ck_expired :: bool
  ck_txStatus :: "string option"
  ck_raw :: json

record sac_item =
  sh_transactionType :: "string option"
  sh_status :: "string option"
  sh_amountIdr :: "string option"

record 'w sac_ports =
  pv_txStatus :: "string \<Rightarrow> 'w \<Rightarrow> sac_status result \<times> 'w"
  pv_transferInquiry :: "transfer_request \<Rightarrow> 'w \<Rightarrow> sac_inquiry result \<times> 'w"
  pv_transferPayment :: "transfer_request \<Rightarrow> string \<Rightarrow> string \<Rightarrow> 'w \<Rightarrow> sac_payment result \<times> 'w"
  pv_debit :: "debit_request \<Rightarrow> 'w \<Rightarrow> sac_debited result \<times> 'w"
  pv_balance :: "string \<Rightarrow> 'w \<Rightarrow> sac_balance result \<times> 'w"
  pv_history :: "string \<Rightarrow> string \<Rightarrow> string \<Rightarrow> nat \<Rightarrow> 'w \<Rightarrow> sac_item list result \<times> 'w"
  pv_register :: "register_request \<Rightarrow> 'w \<Rightarrow> sac_registered result \<times> 'w"
  pv_orderStatus :: "string \<Rightarrow> 'w \<Rightarrow> checkout_order result \<times> 'w"
  pv_now :: "'w \<Rightarrow> int"
  pv_sleep :: "nat \<Rightarrow> 'w \<Rightarrow> 'w"
  pv_random :: "'w \<Rightarrow> nat \<times> 'w"
  pv_db :: "'w \<Rightarrow> bool \<times> 'w"
  pv_invoice :: "string \<Rightarrow> 'w \<Rightarrow> string \<times> 'w"
  pv_env :: fiat_env
  pv_hmac :: "string \<Rightarrow> string \<Rightarrow> string"
  pv_json :: "string \<Rightarrow> json option"

record 'w points =
  po_rows :: "point_tx list"
  po_accounts :: "provider_account list"
  po_webhooks :: "webhook_event list"
  po_fiat :: fiat_db
  po_next :: nat
  po_halted :: bool
  po_registering :: "string list"
  po_treasuryPoint :: "(string \<times> int) option"
  po_treasuryIdr :: "(string \<times> int) option"
  po_calls :: "provider_call list"
  po_background :: "(string \<times> string \<times> bool) list"
  po_world :: 'w

definition IDR_ACCOUNT :: string where "IDR_ACCOUNT = ''DOKU_MERCHANT_IDR''"

definition PENDING_ACCOUNT :: string where "PENDING_ACCOUNT = ''DOKU_MERCHANT_PENDING_IDR''"

definition POINT_ACCOUNT :: string where "POINT_ACCOUNT = ''DOKU_MERCHANT_POINT''"

section \<open>Statements and calls\<close>

definition ask :: "('w \<Rightarrow> 'a result \<times> 'w) \<Rightarrow> ('w points, 'a) eff" where
  "ask f s = (case f (po_world s) of (r, w) \<Rightarrow> (r, s\<lparr>po_world := w\<rparr>))"

text \<open>A request that the trace records.\<close>

definition call :: "provider_call \<Rightarrow> ('w \<Rightarrow> 'a result \<times> 'w) \<Rightarrow> ('w points, 'a) eff" where
  "call c f = bind_eff (modify (\<lambda>s. s\<lparr>po_calls := po_calls s @ [c]\<rparr>)) (\<lambda>_. ask f)"

definition sac_inquire :: "'w sac_ports \<Rightarrow> transfer_request \<Rightarrow> ('w points, sac_inquiry) eff" where
  "sac_inquire p q = call (CallInquiry q) (pv_transferInquiry p q)"

definition sac_pay :: "'w sac_ports \<Rightarrow> transfer_request \<Rightarrow> string \<Rightarrow> string \<Rightarrow> ('w points, sac_payment) eff" where
  "sac_pay p q reference name = call (CallPayment q reference name) (pv_transferPayment p q reference name)"

definition sac_debit :: "'w sac_ports \<Rightarrow> debit_request \<Rightarrow> ('w points, sac_debited) eff" where
  "sac_debit p q = call (CallDebit q) (pv_debit p q)"

definition clock :: "'w sac_ports \<Rightarrow> ('w points, int) eff" where
  "clock p s = (Inr (pv_now p (po_world s)), s)"

definition stmt :: "'w sac_ports \<Rightarrow> ('w points, 'a) eff \<Rightarrow> ('w points, 'a) eff" where
  "stmt p m s =
     (case pv_db p (po_world s) of (ok, w) \<Rightarrow>
        if ok then m (s\<lparr>po_world := w\<rparr>) else (Inl (JsError ''database unavailable''), s\<lparr>po_world := w\<rparr>))"

definition config :: "'w sac_ports \<Rightarrow> string \<Rightarrow> string \<Rightarrow> string" where
  "config p key dflt = config_get (pv_env p) key dflt"

definition find_rows :: "'w sac_ports \<Rightarrow> (point_tx \<Rightarrow> bool) \<Rightarrow> ('w points, point_tx list) eff" where
  "find_rows p P = stmt p (\<lambda>s. (Inr (filter P (po_rows s)), s))"

definition get_row :: "'w sac_ports \<Rightarrow> (point_tx \<Rightarrow> bool) \<Rightarrow> ('w points, point_tx option) eff" where
  "get_row p P = stmt p (\<lambda>s. (Inr (find P (po_rows s)), s))"

definition with_id :: "string \<Rightarrow> point_tx \<Rightarrow> bool" where
  "with_id i r \<longleftrightarrow> pt_id r = i"

definition with_ref :: "string \<Rightarrow> point_tx \<Rightarrow> bool" where
  "with_ref ref r \<longleftrightarrow> pt_providerRef r = ref"

text \<open>The defaults of a new row; the id and the sequence number come from the table.\<close>

definition blank_tx :: "string \<Rightarrow> string \<Rightarrow> string \<Rightarrow> int \<Rightarrow> point_tx" where
  "blank_tx pid kind ref amount =
     \<lparr>pt_id = [], pt_pid = pid, pt_kind = kind, pt_providerRef = ref, pt_providerStatus = ''created'', pt_providerPaymentStatus = None,
      pt_amountIdr = amount, pt_feeIdr = None, pt_netIdr = None, pt_feePolicyVersion = None, pt_counterparty = None, pt_ledgerStatus = None,
      px_accountId = None, px_response = None, px_ledgerRef = None, px_settlement = None, px_direction = None, px_source = None,
      px_dest = None, px_group = None, px_seq = 0, px_extinguished = False, px_createdAt = 0\<rparr>"

text \<open>The unique columns: \<^verbatim>\<open>providerRef\<close>, and \<^verbatim>\<open>ledgerRef\<close> where it is set.\<close>

definition ref_taken :: "(point_tx \<Rightarrow> bool) \<Rightarrow> point_tx \<Rightarrow> point_tx list \<Rightarrow> bool" where
  "ref_taken other d rows \<longleftrightarrow> list_ex (\<lambda>r. other r \<and> (pt_providerRef r = pt_providerRef d \<or> (px_ledgerRef d \<noteq> None \<and> px_ledgerRef r = px_ledgerRef d))) rows"

definition create_tx :: "'w sac_ports \<Rightarrow> point_tx \<Rightarrow> ('w points, point_tx) eff" where
  "create_tx p d = stmt p (\<lambda>s.
     let row = d\<lparr>pt_id := env_uuid (pv_env p) (po_next s), px_seq := int (po_next s), px_createdAt := pv_now p (po_world s)\<rparr>
     in if ref_taken (\<lambda>_. True) d (po_rows s) then (Inl UniqueViolation, s)
        else if \<not> List.member (db_identities (po_fiat s)) (pt_pid d) then (Inl (JsError ''P2003''), s)
        else (Inr row, s\<lparr>po_rows := po_rows s @ [row], po_next := Suc (po_next s)\<rparr>))"

definition update_tx :: "'w sac_ports \<Rightarrow> string \<Rightarrow> (point_tx \<Rightarrow> point_tx) \<Rightarrow> ('w points, point_tx) eff" where
  "update_tx p i f = stmt p (\<lambda>s.
     case find (with_id i) (po_rows s) of
       None \<Rightarrow> (Inl (JsError ''P2025''), s)
     | Some r \<Rightarrow>
         if ref_taken (\<lambda>x. pt_id x \<noteq> i) (f r) (po_rows s) then (Inl UniqueViolation, s)
         else (Inr (f r), s\<lparr>po_rows := map (\<lambda>x. if pt_id x = i then f x else x) (po_rows s)\<rparr>))"

text \<open>An update with \<^verbatim>\<open>.catch(() => undefined)\<close>.\<close>

definition try_update :: "'w sac_ports \<Rightarrow> string \<Rightarrow> (point_tx \<Rightarrow> point_tx) \<Rightarrow> ('w points, unit) eff" where
  "try_update p i f = bind_eff (try_eff (update_tx p i f)) (\<lambda>_. ret ())"

text \<open>\<^verbatim>\<open>updateMany\<close> with a status guard: the number of rows that were claimed.\<close>

definition claim_tx :: "'w sac_ports \<Rightarrow> string \<Rightarrow> (point_tx \<Rightarrow> bool) \<Rightarrow> (point_tx \<Rightarrow> point_tx) \<Rightarrow> ('w points, nat) eff" where
  "claim_tx p i P f = stmt p (\<lambda>s.
     (Inr (length (filter (\<lambda>r. pt_id r = i \<and> P r) (po_rows s))),
      s\<lparr>po_rows := map (\<lambda>r. if pt_id r = i \<and> P r then f r else r) (po_rows s)\<rparr>))"

text \<open>What is stored of an error is its status and message, without the raw body of the gateway.\<close>

definition error_json :: "http_error \<Rightarrow> json" where
  "error_json e = (case e of
       ProviderError n m \<Rightarrow> JObj [(''httpStatus'', if n = 0 then JNull else JNum (int n)), (''gatewayMessage'', JStr m), (''name'', JStr ''ProviderError'')]
     | _ \<Rightarrow> JObj [])"

definition mark_tx :: "'w sac_ports \<Rightarrow> string \<Rightarrow> string \<Rightarrow> json \<Rightarrow> ('w points, point_tx) eff" where
  "mark_tx p i status raw = update_tx p i (\<lambda>r. r\<lparr>pt_providerStatus := status, px_response := Some raw\<rparr>)"

definition markPayment :: "'w sac_ports \<Rightarrow> string \<Rightarrow> string \<Rightarrow> json \<Rightarrow> ('w points, point_tx) eff" where
  "markPayment p i payment raw =
     (let legacy = (if payment = ''success'' then ''success'' else if payment = ''expired'' then ''cancelled''
           else if payment = ''failed'' then ''failed'' else if payment = ''refunded'' then ''refunded'' else ''processing'')
      in update_tx p i (\<lambda>r. r\<lparr>pt_providerStatus := legacy, pt_providerPaymentStatus := Some payment, px_response := Some raw\<rparr>))"

definition audit :: "'w sac_ports \<Rightarrow> string \<Rightarrow> string \<Rightarrow> (string \<times> json) list \<Rightarrow> ('w points, unit) eff" where
  "audit p pid event detail =
     catch_default (stmt p (modify (\<lambda>s. s\<lparr>po_fiat := log_audit pid event detail (po_fiat s)\<rparr>))) ()"

definition buildInvoiceNumber :: "'w sac_ports \<Rightarrow> string \<Rightarrow> ('w points, string) eff" where
  "buildInvoiceNumber p prefix s = (case pv_invoice p prefix (po_world s) of (ref, w) \<Rightarrow> (Inr ref, s\<lparr>po_world := w\<rparr>))"

section \<open>Retries and errors\<close>

definition retryable :: "http_error \<Rightarrow> bool" where
  "retryable e = (case e of ProviderError n _ \<Rightarrow> n = 0 \<or> n \<ge> 500 \<or> n = 429 | _ \<Rightarrow> False)"

definition backoff_wait :: "'w sac_ports \<Rightarrow> nat \<Rightarrow> ('w points, unit) eff" where
  "backoff_wait p i s =
     (case pv_random p (po_world s) of (x, w) \<Rightarrow>
        (Inr (), s\<lparr>po_world := pv_sleep p (min 5000 (200 * 2 ^ i) + x * 200 div 2 ^ 53) w\<rparr>))"

text \<open>Attempt \<open>i\<close>, with \<open>left\<close> attempts after it.\<close>

fun retry_from :: "'w sac_ports \<Rightarrow> nat \<Rightarrow> nat \<Rightarrow> ('w points, 'a) eff \<Rightarrow> ('w points, 'a) eff" where
  "retry_from p i 0 fn = fn"
| "retry_from p i (Suc left) fn =
     bind_eff (try_eff fn) (\<lambda>r. case r of
         Inr a \<Rightarrow> ret a
       | Inl e \<Rightarrow> if \<not> retryable e then throw e else bind_eff (backoff_wait p i) (\<lambda>_. retry_from p (Suc i) left fn))"

definition withRetry :: "'w sac_ports \<Rightarrow> ('w points, 'a) eff \<Rightarrow> ('w points, 'a) eff" where
  "withRetry p fn = retry_from p 0 2 fn"

definition mapError :: "string \<Rightarrow> http_error \<Rightarrow> http_error" where
  "mapError what e = (case e of
       ProviderError n m \<Rightarrow>
         if n = 429 then ServiceUnavailable (''DOKU '' @ what @ '' rate-limited -- retry shortly'')
         else if n = 409 then Conflict (''DOKU '' @ what @ '': duplicate reference -- sync transaction status'')
         else if 400 \<le> n \<and> n < 500 then BadRequest (take 300 (''DOKU '' @ what @ '': '' @ m))
         else ServiceUnavailable (''DOKU '' @ what @ '' unavailable -- try again'')
     | _ \<Rightarrow> ServiceUnavailable ''Payment gateway unreachable -- try again'')"

text \<open>\<^verbatim>\<open>try { m } catch (err) { throw this.mapError(err, what) }\<close>.\<close>

definition mapped :: "string \<Rightarrow> ('w points, 'a) eff \<Rightarrow> ('w points, 'a) eff" where
  "mapped what m = bind_eff (try_eff m) (\<lambda>r. case r of Inr a \<Rightarrow> ret a | Inl e \<Rightarrow> throw (mapError what e))"

section \<open>Accounts\<close>

definition find_account :: "'w sac_ports \<Rightarrow> (provider_account \<Rightarrow> bool) \<Rightarrow> ('w points, provider_account option) eff" where
  "find_account p P = stmt p (\<lambda>s. (Inr (find P (po_accounts s)), s))"

definition update_account :: "'w sac_ports \<Rightarrow> string \<Rightarrow> (provider_account \<Rightarrow> provider_account) \<Rightarrow> ('w points, provider_account) eff" where
  "update_account p pid f = stmt p (\<lambda>s.
     case find (\<lambda>a. sa_pid a = pid) (po_accounts s) of
       None \<Rightarrow> (Inl (JsError ''P2025''), s)
     | Some a \<Rightarrow> (Inr (f a), s\<lparr>po_accounts := map (\<lambda>x. if sa_pid x = pid then f x else x) (po_accounts s)\<rparr>))"

definition requireAccount :: "'w sac_ports \<Rightarrow> string \<Rightarrow> ('w points, provider_account) eff" where
  "requireAccount p pid =
     bind_eff (find_account p (\<lambda>a. sa_pid a = pid)) (\<lambda>row. case row of
         None \<Rightarrow> throw (NotFound ''Sub-account not registered -- POST /v1/fiat/sub-accounts/accounts first'')
       | Some a \<Rightarrow> ret a)"

definition requireActive :: "'w sac_ports \<Rightarrow> string \<Rightarrow> ('w points, provider_account) eff" where
  "requireActive p pid =
     bind_eff (requireAccount p pid) (\<lambda>a.
       if sa_status a \<noteq> ''active'' then throw (BadRequest (''Sub-account is '' @ sa_status a)) else ret a)"

definition account_json :: "sac_account \<Rightarrow> json" where
  "account_json a = JObj [(''type'', JStr (sc_type a)), (''accountNo'', json_opt_string (sc_accountNo a))]"

definition of_type :: "string \<Rightarrow> sac_account list \<Rightarrow> sac_account option" where
  "of_type t accounts = find (\<lambda>a. sc_type a = t) accounts"

text \<open>\<^verbatim>\<open>parseIdrStrict(a?.available ?? "0", what)\<close>.\<close>

definition parse_field :: "raw_amount option \<Rightarrow> string \<Rightarrow> int result" where
  "parse_field v what = parseIdrStrict (nullish v (RStr ''0'')) what"

record live_view =
  bv_pointsAvailable :: string
  bv_pointsReserved :: string
  bv_available :: string
  bv_reserved :: string
  bv_pending :: string
  bv_cachedAt :: int

definition parse_balance :: "sac_account list \<Rightarrow> (int \<times> int \<times> int \<times> int \<times> int) result" where
  "parse_balance accounts =
     (let idr = of_type IDR_ACCOUNT accounts; pending = of_type PENDING_ACCOUNT accounts; point = of_type POINT_ACCOUNT accounts
      in bind_result (parse_field (Option.bind idr sc_available) ''balance.available'') (\<lambda>available.
         bind_result (parse_field (Option.bind idr sc_reserved) ''balance.reserved'') (\<lambda>reserved.
         bind_result (parse_field (Option.bind pending sc_available) ''balance.pending'') (\<lambda>pendingBal.
         bind_result (parse_field (Option.bind point sc_available) ''balance.points'') (\<lambda>pointAvail.
         bind_result (parse_field (Option.bind point sc_reserved) ''balance.pointsReserved'') (\<lambda>pointReserved.
         Inr (available, reserved, pendingBal, pointAvail, pointReserved)))))))"

definition live_balance :: "'w sac_ports \<Rightarrow> string \<Rightarrow> ('w points, live_view) eff" where
  "live_balance p pid =
     bind_eff (requireActive p pid) (\<lambda>account.
     if nullish (sa_profileId account) [] = [] then throw (ServiceUnavailable ''Sub-account not registered'')
     else
       bind_eff (mapped ''balance'' (withRetry p (ask (pv_balance p (nullish (sa_profileId account) []))))) (\<lambda>res.
       bind_eff (mapped ''balance'' (lift_result (parse_balance (sl_accounts res)))) (\<lambda>(available, reserved, pendingBal, pointAvail, pointReserved).
       bind_eff (clock p) (\<lambda>stamp.
       let pointAccountId = or_else (Option.bind (of_type POINT_ACCOUNT (sl_accounts res)) sc_accountNo) (sa_point account) in
       bind_eff (try_eff (update_account p pid (\<lambda>a. a\<lparr>sa_lastBalance := Some (show_int available), sa_lastBalanceAt := Some stamp,
           sa_accounts := Some (JArr (map account_json (sl_accounts res))),
           sa_point := (if nullish pointAccountId [] \<noteq> [] \<and> nullish (sa_point account) [] = [] then pointAccountId else sa_point a)\<rparr>))) (\<lambda>_.
       ret \<lparr>bv_pointsAvailable = show_int pointAvail, bv_pointsReserved = show_int pointReserved, bv_available = show_int available,
         bv_reserved = show_int reserved, bv_pending = show_int pendingBal, bv_cachedAt = stamp\<rparr>)))))"

text \<open>The column first, then the list of accounts.\<close>

definition pointAccountOf :: "provider_account \<Rightarrow> string option" where
  "pointAccountOf a =
     (if nullish (sa_point a) [] \<noteq> [] then sa_point a
      else case sa_accounts a of
          Some (JArr l) \<Rightarrow> Option.bind (find (\<lambda>x. json_get (Some x) ''type'' = Some (JStr POINT_ACCOUNT)) l) (\<lambda>x. json_string (json_get (Some x) ''accountNo''))
        | _ \<Rightarrow> None)"

definition pointAccountFor :: "'w sac_ports \<Rightarrow> string \<Rightarrow> string \<Rightarrow> ('w points, string) eff" where
  "pointAccountFor p pid what =
     bind_eff (find_account p (\<lambda>a. sa_pid a = pid)) (\<lambda>row. case row of
         None \<Rightarrow> throw (NotFound (what @ '' has no IDR wallet yet''))
       | Some account \<Rightarrow>
           if sa_status account \<noteq> ''active'' then throw (BadRequest (what @ '' wallet is '' @ sa_status account))
           else if nullish (pointAccountOf account) [] \<noteq> [] then ret (nullish (pointAccountOf account) [])
           else
             bind_eff (mapped (what @ '' balance'') (live_balance p pid)) (\<lambda>_.
             bind_eff (find_account p (\<lambda>a. sa_pid a = pid)) (\<lambda>fresh.
             let healed = nullish (Option.bind fresh pointAccountOf) [] in
             if healed = [] then throw (ServiceUnavailable (what @ '' POINT account unknown -- re-register or contact ops''))
             else ret healed)))"

definition systemPointAccount :: "'w sac_ports \<Rightarrow> string result" where
  "systemPointAccount p =
     (let env = config p ''DOKU_SYSTEM_POINT_ACCOUNT_NO'' []
      in if env = [] then Inl (ServiceUnavailable ''DOKU_SYSTEM_POINT_ACCOUNT_NO not configured'') else Inr env)"

definition systemPointConfigured :: "'w sac_ports \<Rightarrow> bool" where
  "systemPointConfigured p \<longleftrightarrow> config p ''DOKU_SYSTEM_POINT_ACCOUNT_NO'' [] \<noteq> []"

text \<open>Both treasury accounts: the environment, the cache of five minutes, or the profile of the treasury.\<close>

definition cached_account :: "'w sac_ports \<Rightarrow> string \<Rightarrow> ('w points \<Rightarrow> (string \<times> int) option) \<Rightarrow> ((string \<times> int) \<Rightarrow> 'w points \<Rightarrow> 'w points)
    \<Rightarrow> string \<Rightarrow> string \<Rightarrow> string \<Rightarrow> string \<Rightarrow> ('w points, string) eff" where
  "cached_account p key cache store atype what missing absent =
     (if config p key [] \<noteq> [] then ret (config p key [])
      else bind_eff get_state (\<lambda>s. bind_eff (clock p) (\<lambda>now.
        if (case cache s of None \<Rightarrow> False | Some (_, expiry) \<Rightarrow> now < expiry) then ret (nullish (map_option fst (cache s)) [])
        else if config p ''DOKU_TREASURY_PROFILE_ID'' [] = [] then throw (ServiceUnavailable missing)
        else
          bind_eff (mapped what (withRetry p (ask (pv_balance p (config p ''DOKU_TREASURY_PROFILE_ID'' []))))) (\<lambda>bal.
          case Option.bind (of_type atype (sl_accounts bal)) sc_accountNo of
            None \<Rightarrow> throw (ServiceUnavailable absent)
          | Some no \<Rightarrow>
              if no = [] then throw (ServiceUnavailable absent)
              else bind_eff (clock p) (\<lambda>later. bind_eff (modify (store (no, later + 5 * 60000))) (\<lambda>_. ret no))))))"

definition treasuryPointAccount :: "'w sac_ports \<Rightarrow> ('w points, string) eff" where
  "treasuryPointAccount p = cached_account p ''DOKU_TREASURY_POINT_ACCOUNT_NO'' po_treasuryPoint (\<lambda>c s. s\<lparr>po_treasuryPoint := Some c\<rparr>)
     POINT_ACCOUNT ''treasury balance'' ''Treasury POINT account not configured -- set DOKU_TREASURY_POINT_ACCOUNT_NO (or DOKU_TREASURY_PROFILE_ID)''
     ''Treasury POINT account not found on its profile''"

definition treasuryIdrAccount :: "'w sac_ports \<Rightarrow> ('w points, string) eff" where
  "treasuryIdrAccount p = cached_account p ''DOKU_TREASURY_ACCOUNT_NO'' po_treasuryIdr (\<lambda>c s. s\<lparr>po_treasuryIdr := Some c\<rparr>)
     IDR_ACCOUNT ''treasury idr balance'' ''Treasury IDR pool not configured -- set DOKU_TREASURY_ACCOUNT_NO'' ''Treasury IDR account not found on its profile''"

end
