(* ===== verification/Point_Issue.thy ===== *)
theory Point_Issue
  imports Point_Store
begin

text \<open>
  Issuing points for a paid deposit: the two top-ups of \<^verbatim>\<open>executePointTopup\<close>, the corroboration of the payment with the provider, and
  \<^verbatim>\<open>issuePointsForDeposit\<close>; the views of a transaction.
\<close>

section \<open>Views\<close>

record point_view =
  sv_id :: string
  sv_kind :: string
  sv_providerRef :: string
  sv_providerStatus :: string
  sv_grossIdr :: string
  sv_feeIdr :: "string option"
  sv_netIdr :: "string option"
  sv_paymentUrl :: "string option"
  sv_feeStatus :: "string option"
  sv_createdAt :: int

definition toPointView :: "point_tx \<Rightarrow> point_view" where
  "toPointView r =
     (let url = json_string (json_get (json_get (json_get (px_response r) ''response'') ''payment'') ''url'')
      in \<lparr>sv_id = pt_id r, sv_kind = pt_kind r, sv_providerRef = pt_providerRef r, sv_providerStatus = pt_providerStatus r,
          sv_grossIdr = show_int (pt_amountIdr r), sv_feeIdr = map_option show_int (pt_feeIdr r),
          sv_netIdr = or_else (map_option show_int (pt_netIdr r)) (map_option (\<lambda>fee. show_int (pt_amountIdr r - fee)) (pt_feeIdr r)),
          sv_paymentUrl = (if nullish url [] = [] then None else url), sv_feeStatus = None, sv_createdAt = px_createdAt r\<rparr>)"

definition attachFeeStatus :: "'w sac_ports \<Rightarrow> point_view \<Rightarrow> ('w points, point_view) eff" where
  "attachFeeStatus p v =
     (if sv_kind v \<noteq> ''deposit'' \<and> sv_kind v \<noteq> ''transfer_internal'' then ret v
      else bind_eff (try_eff (find_rows p (\<lambda>r. pt_kind r = ''fee'' \<and> pt_providerRef r = sv_providerRef v @ ''-FEE''))) (\<lambda>legs. case legs of
          Inl _ \<Rightarrow> ret v
        | Inr rows \<Rightarrow> ret (v\<lparr>sv_feeStatus := (case rev rows of [] \<Rightarrow> None | r # _ \<Rightarrow> Some (pt_providerStatus r))\<rparr>)))"

section \<open>What a row says of its payment\<close>

definition point_confirmedStatus :: "string \<Rightarrow> bool" where
  "point_confirmedStatus status \<longleftrightarrow> status = ''success'' \<or> status = ''settled''"

definition point_paymentConfirmed :: "point_tx \<Rightarrow> bool" where
  "point_paymentConfirmed r \<longleftrightarrow> (case pt_providerPaymentStatus r of
       Some payment \<Rightarrow> payment = ''success'' | None \<Rightarrow> point_confirmedStatus (pt_providerStatus r))"

definition mapSacToPayment :: "string \<Rightarrow> string" where
  "mapSacToPayment status =
     (if status = ''settled'' then ''success'' else if status = ''failed'' then ''failed'' else if status = ''refunded'' then ''refunded''
      else if status = ''cancelled'' then ''failed'' else ''pending'')"

definition unifiedLedgerActive :: "'w sac_ports \<Rightarrow> bool" where
  "unifiedLedgerActive p \<longleftrightarrow> config p ''PID_UNIFIED_LEDGER_ACTIVE'' ''false'' = ''true''"

definition vaIssuanceEnabled :: "'w sac_ports \<Rightarrow> bool" where
  "vaIssuanceEnabled p \<longleftrightarrow> config p ''PID_VA_ISSUANCE_ENABLED'' ''false'' = ''true''"

definition isCheckoutRow :: "json option \<Rightarrow> bool" where
  "isCheckoutRow cp \<longleftrightarrow> json_get cp ''channel'' = Some (JStr ''checkout'')"

definition corroboratedAmount :: "raw_amount option \<Rightarrow> int option" where
  "corroboratedAmount v = (case v of None \<Rightarrow> None | Some raw \<Rightarrow>
     (case parseIdrStrict raw ''corroborated amount'' of Inl _ \<Rightarrow> None | Inr n \<Rightarrow> Some n))"

text \<open>A quote of the counterparty if it is a string of digits, else the column.\<close>

definition quoted :: "json option \<Rightarrow> string \<Rightarrow> int \<Rightarrow> int" where
  "quoted cp key column = (case json_get cp key of Some (JStr x) \<Rightarrow> if all_digits x then bigint_of x else column | _ \<Rightarrow> column)"

definition net_of :: "point_tx \<Rightarrow> int" where
  "net_of r = quoted (pt_counterparty r) ''netQuote'' (nullish (pt_netIdr r) (pt_amountIdr r))"

definition fee_of :: "point_tx \<Rightarrow> int" where
  "fee_of r = quoted (pt_counterparty r) ''feeQuote'' (nullish (pt_feeIdr r) 0)"

section \<open>Corroboration\<close>

definition order_outcome :: "checkout_order \<Rightarrow> string" where
  "order_outcome st =
     (if ck_paid st then ''paid'' else if ck_expired st then ''expired''
      else if ck_txStatus st = Some ''FAILED'' \<or> ck_txStatus st = Some ''REFUNDED'' then ''failed'' else ''pending'')"

definition corroborateCheckoutPayment :: "'w sac_ports \<Rightarrow> string \<Rightarrow> ('w points, string \<times> int option \<times> json) eff" where
  "corroborateCheckoutPayment p invoice =
     bind_eff (ask (pv_orderStatus p invoice)) (\<lambda>st. ret (order_outcome st, ck_paidAmount st, ck_raw st))"

definition counterpartyWith :: "'w sac_ports \<Rightarrow> string \<Rightarrow> string \<Rightarrow> json \<Rightarrow> ('w points, json) eff" where
  "counterpartyWith p rowId key v =
     bind_eff (catch_default (get_row p (with_id rowId)) None) (\<lambda>row. ret (json_with (Option.bind row pt_counterparty) key v))"

definition assertInvoiceAmountMatch :: "'w sac_ports \<Rightarrow> string \<Rightarrow> int \<Rightarrow> int option \<Rightarrow> ('w points, bool) eff" where
  "assertInvoiceAmountMatch p rowId invoicedGross paidAmount = (case paidAmount of
       None \<Rightarrow> ret False
     | Some paid \<Rightarrow>
         if paid \<noteq> invoicedGross then
           bind_eff (counterpartyWith p rowId ''amountMismatch'' (JStr (show_int paid))) (\<lambda>cp.
           bind_eff (try_update p rowId (\<lambda>r. r\<lparr>pt_ledgerStatus := Some ''blocked'', pt_counterparty := Some cp\<rparr>)) (\<lambda>_. ret False))
         else ret True)"

section \<open>A top-up\<close>

record topup =
  tu_pid :: string
  tu_ref :: string
  tu_to :: string
  tu_amount :: int
  tu_kind :: string
  tu_parent :: string
  tu_source :: string

definition open_leg :: "string \<Rightarrow> bool" where
  "open_leg status \<longleftrightarrow> status = ''settled'' \<or> status = ''processing''"

definition topup_row :: "topup \<Rightarrow> string \<Rightarrow> point_tx" where
  "topup_row t systemPoint =
     (blank_tx (tu_pid t) (tu_kind t) (tu_ref t) (tu_amount t))
       \<lparr>px_accountId := Some (tu_to t), pt_netIdr := Some (tu_amount t),
        px_direction := Some (if tu_kind t = ''points_fee'' then ''out'' else ''in''),
        px_source := Some systemPoint, px_dest := Some (tu_to t), px_group := Some (tu_parent t),
        px_ledgerRef := Some (tu_ref t), pt_ledgerStatus := Some ''pending'',
        pt_counterparty := Some (JObj [(''parentRef'', JStr (tu_parent t)), (''currency'', JStr ''POINT''), (''source'', JStr (tu_source t))])\<rparr>"

definition topup_request :: "topup \<Rightarrow> string \<Rightarrow> transfer_request" where
  "topup_request t systemPoint =
     \<lparr>tq_ref = tu_ref t, tq_type = ''DOKU_NON_FIAT'', tq_amount = tu_amount t, tq_currency = ''POINT'', tq_from = systemPoint, tq_to = tu_to t,
      tq_bank = None, tq_channel = None\<rparr>"

definition settle_leg :: "'w sac_ports \<Rightarrow> string \<Rightarrow> string \<Rightarrow> json \<Rightarrow> ('w points, string) eff" where
  "settle_leg p legId status raw =
     bind_eff (mark_tx p legId status raw) (\<lambda>_.
     bind_eff (try_update p legId (\<lambda>r. r\<lparr>pt_ledgerStatus := Some (if status = ''settled'' then ''issued'' else status)\<rparr>)) (\<lambda>_.
     ret status))"

definition adopt_status :: "'w sac_ports \<Rightarrow> string \<Rightarrow> sac_status \<Rightarrow> ('w points, string) eff" where
  "adopt_status p legId st =
     (let status = mapSacStatus (ss_code st) in settle_leg p legId (if open_leg status then status else ''failed'') (ss_raw st))"

text \<open>The awaited calls of the \<^verbatim>\<open>try\<close> block; its \<^verbatim>\<open>return settleAs(...)\<close> is not awaited, so what settling throws is not caught.\<close>

definition topup_attempt :: "'w sac_ports \<Rightarrow> topup \<Rightarrow> string \<Rightarrow> ('w points, sac_status) eff" where
  "topup_attempt p t systemPoint =
     (let q = topup_request t systemPoint in
      bind_eff (withRetry p (sac_inquire p q)) (\<lambda>inquiry.
      bind_eff (withRetry p (sac_pay p q (si_reference inquiry) (nullish (si_name inquiry) (tu_to t)))) (\<lambda>_.
      withRetry p (ask (pv_txStatus p (tu_ref t))))))"

definition executePointTopup :: "'w sac_ports \<Rightarrow> topup \<Rightarrow> ('w points, string) eff" where
  "executePointTopup p t =
     bind_eff (lift_result (systemPointAccount p)) (\<lambda>systemPoint.
     bind_eff (get_row p (\<lambda>r. pt_kind r = tu_kind t \<and> with_ref (tu_ref t) r)) (\<lambda>existing.
     if (case existing of None \<Rightarrow> False | Some r \<Rightarrow> open_leg (pt_providerStatus r))
     then ret (nullish (map_option pt_providerStatus existing) [])
     else
       bind_eff (case existing of Some r \<Rightarrow> ret r | None \<Rightarrow> create_tx p (topup_row t systemPoint)) (\<lambda>leg.
       bind_eff (try_eff (topup_attempt p t systemPoint)) (\<lambda>r. case r of
           Inr st \<Rightarrow> adopt_status p (pt_id leg) st
         | Inl e \<Rightarrow>
             if (case e of ProviderError n _ \<Rightarrow> n = 409 | _ \<Rightarrow> False) then
               bind_eff (withRetry p (ask (pv_txStatus p (tu_ref t)))) (\<lambda>st. adopt_status p (pt_id leg) st)
             else bind_eff (try_eff (settle_leg p (pt_id leg) ''failed'' (error_json e))) (\<lambda>_. ret ''failed'')))))"

section \<open>Issuing\<close>

text \<open>Whether the payment of a confirmed deposit is corroborated, amount included.\<close>

definition checkout_corroborated :: "'w sac_ports \<Rightarrow> point_tx \<Rightarrow> ('w points, bool) eff" where
  "checkout_corroborated p row =
     bind_eff (try_eff (withRetry p (corroborateCheckoutPayment p (pt_providerRef row)))) (\<lambda>corr. case corr of
         Inl _ \<Rightarrow> ret False
       | Inr (outcome, paidAmount, _) \<Rightarrow>
           if outcome \<noteq> ''paid'' then ret False
           else assertInvoiceAmountMatch p (pt_id row) (pt_amountIdr row) paidAmount)"

definition va_corroborated :: "'w sac_ports \<Rightarrow> point_tx \<Rightarrow> ('w points, bool) eff" where
  "va_corroborated p row =
     (if json_get (pt_counterparty row) ''notifyTxStatus'' \<noteq> Some (JStr ''SUCCESS'') then ret False
      else if \<not> vaIssuanceEnabled p then ret False
      else bind_eff (try_eff (withRetry p (ask (pv_txStatus p (pt_providerRef row))))) (\<lambda>res. case res of
          Inl _ \<Rightarrow> ret False
        | Inr st \<Rightarrow>
            if mapSacStatus (ss_code st) \<noteq> ''settled'' then ret False
            else case ss_amount st of
                None \<Rightarrow> ret True
              | Some paidRaw \<Rightarrow> (case parseIdrStrict paidRaw ''corroborated amount'' of
                    Inl _ \<Rightarrow> ret False
                  | Inr paid \<Rightarrow>
                      if paid \<noteq> pt_amountIdr row then
                        bind_eff (try_update p (pt_id row) (\<lambda>r. r\<lparr>pt_ledgerStatus := Some ''blocked'',
                            pt_counterparty := Some (json_with (pt_counterparty row) ''amountMismatch'' (JStr (show_int paid)))\<rparr>)) (\<lambda>_. ret False)
                      else ret True)))"

definition user_leg :: "point_tx \<Rightarrow> string \<Rightarrow> string \<Rightarrow> topup" where
  "user_leg row userPoint source =
     \<lparr>tu_pid = pt_pid row, tu_ref = pt_providerRef row @ ''-PTS'', tu_to = userPoint, tu_amount = net_of row, tu_kind = ''points_issue'',
      tu_parent = pt_providerRef row, tu_source = source\<rparr>"

definition treasury_leg :: "point_tx \<Rightarrow> string \<Rightarrow> string \<Rightarrow> topup" where
  "treasury_leg row treasuryPoint source =
     \<lparr>tu_pid = pt_pid row, tu_ref = pt_providerRef row @ ''-PTS-FEE'', tu_to = treasuryPoint, tu_amount = fee_of row, tu_kind = ''points_fee'',
      tu_parent = pt_providerRef row, tu_source = source\<rparr>"

definition issue_fee :: "'w sac_ports \<Rightarrow> point_tx \<Rightarrow> string \<Rightarrow> ('w points, string) eff" where
  "issue_fee p row source =
     (if fee_of row \<le> 0 then ret ''settled''
      else bind_eff (try_eff (treasuryPointAccount p)) (\<lambda>treasury. case treasury of
          Inl _ \<Rightarrow> ret ''failed''
        | Inr treasuryPoint \<Rightarrow> executePointTopup p (treasury_leg row treasuryPoint source)))"

definition issued_update :: "point_tx \<Rightarrow> string \<Rightarrow> point_tx \<Rightarrow> point_tx" where
  "issued_update row feeLeg r =
     r\<lparr>pt_ledgerStatus := Some (if feeLeg = ''settled'' then ''issued'' else ''partial''), px_ledgerRef := Some (pt_providerRef row @ ''-PTS''),
       px_settlement := Some (nullish (px_settlement row) ''pending'')\<rparr>"

definition issue_point_legs :: "'w sac_ports \<Rightarrow> point_tx \<Rightarrow> string \<Rightarrow> ('w points, unit) eff" where
  "issue_point_legs p row source =
     bind_eff (try_eff (pointAccountFor p (pt_pid row) ''Depositor'')) (\<lambda>account. case account of
         Inl _ \<Rightarrow> ret ()
       | Inr userPoint \<Rightarrow>
           bind_eff (executePointTopup p (user_leg row userPoint source)) (\<lambda>userLeg.
           if userLeg \<noteq> ''settled'' then
             try_update p (pt_id row) (\<lambda>r. r\<lparr>pt_ledgerStatus := Some ''failed'', px_ledgerRef := Some (pt_providerRef row @ ''-PTS'')\<rparr>)
           else
             bind_eff (issue_fee p row source) (\<lambda>feeLeg.
             bind_eff (try_update p (pt_id row) (issued_update row feeLeg)) (\<lambda>_.
             audit p (pt_pid row) ''fiat.points.issued'' [(''providerRef'', JStr (pt_providerRef row)), (''net'', JStr (show_int (net_of row))),
               (''fee'', JStr (show_int (fee_of row)))]))))"

definition issue_body :: "'w sac_ports \<Rightarrow> string \<Rightarrow> string \<Rightarrow> ('w points, unit) eff" where
  "issue_body p rowId source =
     bind_eff (get_row p (with_id rowId)) (\<lambda>x. case x of None \<Rightarrow> ret () | Some row \<Rightarrow>
       if pt_kind row \<noteq> ''deposit'' \<or> \<not> point_paymentConfirmed row then ret ()
       else if pt_ledgerStatus row = Some ''issued'' then ret ()
       else if \<not> unifiedLedgerActive p \<or> \<not> systemPointConfigured p then ret ()
       else
         bind_eff (if isCheckoutRow (pt_counterparty row) then checkout_corroborated p row else va_corroborated p row) (\<lambda>paid.
         if \<not> paid then ret () else issue_point_legs p row source))"

definition issuePointsForDepositInner :: "'w sac_ports \<Rightarrow> string \<Rightarrow> string \<Rightarrow> ('w points, unit) eff" where
  "issuePointsForDepositInner p rowId source = bind_eff (try_eff (issue_body p rowId source)) (\<lambda>_. ret ())"

definition issuePointsForDeposit :: "'w sac_ports \<Rightarrow> string \<Rightarrow> string \<Rightarrow> ('w points, unit) eff" where
  "issuePointsForDeposit p rowId source =
     bind_eff (catch_default (get_row p (with_id rowId)) None) (\<lambda>pre. case pre of
         None \<Rightarrow> ret ()
       | Some r \<Rightarrow> if pt_kind r \<noteq> ''deposit'' then ret () else issuePointsForDepositInner p rowId source)"

section \<open>The internal ledger\<close>

text \<open>\<^verbatim>\<open>this.ledger.issueForDeposit\<close> of \<^verbatim>\<open>Fiat_Ledger\<close> runs on the same rows; it asks the provider only when its own gate is open.\<close>

definition fiat_view :: "'w points \<Rightarrow> fiat_db" where
  "fiat_view s = (po_fiat s)\<lparr>db_deposits := map provider_tx.truncate (po_rows s)\<rparr>"

definition put_view :: "fiat_db \<Rightarrow> 'w points \<Rightarrow> 'w points" where
  "put_view db s = s\<lparr>po_fiat := db, po_rows := map2 (\<lambda>d r. provider_tx.extend d (provider_tx.more r)) (db_deposits db) (po_rows s)\<rparr>"

definition ledger_issue :: "'w sac_ports \<Rightarrow> string \<Rightarrow> string \<Rightarrow> ('w points, unit) eff" where
  "ledger_issue p rowId source s =
     (let db = fiat_view s in
      case find (\<lambda>d. pt_id d = rowId) (db_deposits db) of
        None \<Rightarrow> (Inr (), s)
      | Some row \<Rightarrow>
          if \<not> issue_gate (pv_env p) db row then (Inr (), s)
          else
            let (r, w) = pv_orderStatus p (pt_providerRef row) (po_world s);
                order = (case r of Inl _ \<Rightarrow> None | Inr st \<Rightarrow> Some (ck_paid st, ck_paidAmount st))
            in (Inr (), (put_view (issueForDeposit (pv_env p) (pv_now p w) (\<lambda>_. order) rowId source db db) s)\<lparr>po_world := w\<rparr>))"

text \<open>A later run of what was started with \<^verbatim>\<open>void\<close>: the points (\<open>False\<close>) or the internal ledger (\<open>True\<close>).\<close>

definition later :: "string \<Rightarrow> string \<Rightarrow> bool \<Rightarrow> ('w points, unit) eff" where
  "later rowId source internal = modify (\<lambda>s. s\<lparr>po_background := po_background s @ [(rowId, source, internal)]\<rparr>)"

definition run_background :: "'w sac_ports \<Rightarrow> nat \<Rightarrow> ('w points, unit) eff" where
  "run_background p n =
     bind_eff get_state (\<lambda>s.
       if n < length (po_background s) then
         let (rowId, source, internal) = po_background s ! n in
         bind_eff (modify (\<lambda>t. t\<lparr>po_background := take n (po_background t) @ drop (Suc n) (po_background t)\<rparr>)) (\<lambda>_.
         if internal then ledger_issue p rowId source else issuePointsForDeposit p rowId source)
       else ret ())"

end
