(* ===== verification/Point_Clawback.thy ===== *)
theory Point_Clawback
  imports Point_Issue
begin

text \<open>
  Claw-backs of issued points: a reversal signal only proposes a candidate (\<^verbatim>\<open>proposeClawback\<close>), an administrator approves it or claws back
  directly, and both debit through \<^verbatim>\<open>executeClawbackRow\<close>.
\<close>

definition issued_or_partial :: "point_tx \<Rightarrow> bool" where
  "issued_or_partial r \<longleftrightarrow> pt_ledgerStatus r = Some ''issued'' \<or> pt_ledgerStatus r = Some ''partial''"

definition clawback_of :: "string \<Rightarrow> point_tx \<Rightarrow> bool" where
  "clawback_of parentRef r \<longleftrightarrow> pt_kind r = ''points_clawback'' \<and> starts_with (parentRef @ ''-CLAWBACK'') (pt_providerRef r)"

definition cp_parentRef :: "json option \<Rightarrow> string" where
  "cp_parentRef cp = nullish (json_string (json_get cp ''parentRef'')) []"

definition clawback_row :: "string \<Rightarrow> string \<Rightarrow> int \<Rightarrow> (string \<times> json) list \<Rightarrow> point_tx" where
  "clawback_row pid providerRef amount cp =
     (blank_tx pid ''points_clawback'' providerRef amount)
       \<lparr>pt_netIdr := Some amount, px_direction := Some ''out'', px_group := Some providerRef, px_ledgerRef := Some providerRef,
        pt_counterparty := Some (JObj cp)\<rparr>"

definition prior_clawbacks :: "'w sac_ports \<Rightarrow> string \<Rightarrow> ('w points, point_tx list) eff" where
  "prior_clawbacks p parentRef = catch_default (find_rows p (clawback_of parentRef)) []"

definition clawback_debit :: "point_tx \<Rightarrow> string \<Rightarrow> debit_request" where
  "clawback_debit claw userPoint =
     \<lparr>de_ref = pt_providerRef claw, de_from = userPoint, de_amount = pt_amountIdr claw, de_currency = ''POINT''\<rparr>"

text \<open>What the parent records: all that was recovered, this leg included.\<close>

definition record_recovered :: "'w sac_ports \<Rightarrow> point_tx \<Rightarrow> point_tx \<Rightarrow> ('w points, unit) eff" where
  "record_recovered p claw parent =
     bind_eff (prior_clawbacks p (pt_providerRef parent)) (\<lambda>prior.
     let recovered = foldl (\<lambda>acc r. acc + pt_amountIdr r) 0
           (filter (\<lambda>r. pt_providerRef r \<noteq> pt_providerRef claw \<and> pt_providerStatus r \<noteq> ''failed'') prior) + pt_amountIdr claw;
         net = nullish (pt_netIdr parent) (pt_amountIdr parent)
     in try_update p (pt_id parent) (\<lambda>r. r\<lparr>pt_ledgerStatus := Some (if recovered \<ge> net then ''clawed_back'' else ''partial'')\<rparr>))"

definition clawback_attempt :: "'w sac_ports \<Rightarrow> point_tx \<Rightarrow> point_tx option \<Rightarrow> string \<Rightarrow> ('w points, point_view) eff" where
  "clawback_attempt p claw parent userPoint =
     bind_eff (withRetry p (sac_debit p (clawback_debit claw userPoint))) (\<lambda>res.
     let status = mapSacStatus (Some (nullish (sd_code res) ''03'')) in
     bind_eff (mark_tx p (pt_id claw) status (sd_raw res)) (\<lambda>settled.
     bind_eff (try_update p (pt_id claw) (\<lambda>r. r\<lparr>pt_ledgerStatus := Some (if status = ''settled'' then ''issued'' else status)\<rparr>)) (\<lambda>_.
     bind_eff (case parent of None \<Rightarrow> ret () | Some d \<Rightarrow> if status = ''failed'' then ret () else record_recovered p claw d) (\<lambda>_.
     bind_eff (audit p (pt_pid claw) ''fiat.points.clawback'' [(''providerRef'', JStr (pt_providerRef claw)), (''amount'', JStr (show_int (pt_amountIdr claw)))]) (\<lambda>_.
     ret (toPointView (settled\<lparr>pt_feeIdr := None, pt_netIdr := Some (pt_amountIdr claw)\<rparr>)))))))"

definition executeClawbackRow :: "'w sac_ports \<Rightarrow> point_tx \<Rightarrow> ('w points, point_view) eff" where
  "executeClawbackRow p claw =
     bind_eff (catch_default (claim_tx p (pt_id claw) (\<lambda>r. pt_kind r = ''points_clawback'' \<and> pt_providerStatus r = ''created'')
         (\<lambda>r. r\<lparr>pt_providerStatus := ''processing''\<rparr>)) 0) (\<lambda>claimed.
     if claimed = 0 then
       bind_eff (catch_default (get_row p (with_id (pt_id claw))) None) (\<lambda>cur. case cur of
           None \<Rightarrow> throw (NotFound ''Clawback candidate not found'')
         | Some r \<Rightarrow> ret (toPointView (r\<lparr>pt_feeIdr := None, pt_netIdr := Some (pt_amountIdr r)\<rparr>)))
     else
       bind_eff (get_row p (\<lambda>r. pt_kind r = ''deposit'' \<and> with_ref (cp_parentRef (pt_counterparty claw)) r)) (\<lambda>parent.
       bind_eff (pointAccountFor p (pt_pid claw) ''Depositor'') (\<lambda>userPoint.
       bind_eff (try_eff (clawback_attempt p claw parent userPoint)) (\<lambda>r. case r of
           Inr v \<Rightarrow> ret v
         | Inl e \<Rightarrow> bind_eff (mark_tx p (pt_id claw) ''failed'' (error_json e)) (\<lambda>_. throw (mapError ''clawback'' e))))))"

definition clawbackPointsDirect :: "'w sac_ports \<Rightarrow> point_tx \<Rightarrow> int \<Rightarrow> string option \<Rightarrow> ('w points, point_view) eff" where
  "clawbackPointsDirect p parent amount reason =
     bind_eff (pointAccountFor p (pt_pid parent) ''Depositor'') (\<lambda>userPoint.
     bind_eff (prior_clawbacks p (pt_providerRef parent)) (\<lambda>prior.
     bind_eff (lift_result (systemPointAccount p)) (\<lambda>systemPoint.
     bind_eff (create_tx p ((clawback_row (pt_pid parent) (pt_providerRef parent @ ''-CLAWBACK-'' @ show_nat (length prior + 1)) amount
         [(''parentRef'', JStr (pt_providerRef parent)), (''currency'', JStr ''POINT''), (''reason'', json_opt_string reason), (''source'', JStr ''admin'')])
         \<lparr>px_accountId := Some userPoint, px_source := Some userPoint, px_dest := Some systemPoint, pt_ledgerStatus := Some ''pending''\<rparr>)) (\<lambda>claw.
     executeClawbackRow p claw))))"

definition clawbackPoints :: "'w sac_ports \<Rightarrow> string \<Rightarrow> string \<Rightarrow> string option \<Rightarrow> ('w points, point_view) eff" where
  "clawbackPoints p transactionId amountIdr reason =
     bind_eff (lift_result (parseGross amountIdr)) (\<lambda>amount.
     bind_eff (get_row p (with_id transactionId)) (\<lambda>row. case row of
         None \<Rightarrow> throw (NotFound ''Deposit not found'')
       | Some parent \<Rightarrow>
           if pt_kind parent \<noteq> ''deposit'' then throw (NotFound ''Deposit not found'')
           else if \<not> issued_or_partial parent then
             throw (BadRequest (''Nothing issued to claw back -- ledgerStatus is '' @ nullish (pt_ledgerStatus parent) ''unset''))
           else clawbackPointsDirect p parent amount reason))"

definition propose_candidate :: "'w sac_ports \<Rightarrow> point_tx \<Rightarrow> string \<Rightarrow> string \<Rightarrow> int option \<Rightarrow> int \<Rightarrow> ('w points, (string \<times> string) option) eff" where
  "propose_candidate p parent reason signal reversal exactNet =
     bind_eff (prior_clawbacks p (pt_providerRef parent)) (\<lambda>prior.
     let providerRef = pt_providerRef parent @ ''-CLAWBACK-'' @ show_nat (length prior + 1) in
     bind_eff (try_eff (pointAccountFor p (pt_pid parent) ''Depositor'')) (\<lambda>account.
     let userPoint = (case account of Inl _ \<Rightarrow> None | Inr a \<Rightarrow> Some a) in
     bind_eff (create_tx p ((clawback_row (pt_pid parent) providerRef exactNet
         ([(''parentRef'', JStr (pt_providerRef parent)), (''currency'', JStr ''POINT''), (''signal'', JStr signal), (''reason'', JStr reason),
           (''exactNet'', JStr (show_int exactNet)), (''status'', JStr ''awaiting-review'')]
          @ (case reversal of None \<Rightarrow> [] | Some n \<Rightarrow> [(''reversalAmountIdr'', JStr (show_int n))])))
         \<lparr>px_accountId := userPoint, px_source := userPoint, pt_ledgerStatus := Some ''review''\<rparr>)) (\<lambda>row.
     bind_eff (audit p (pt_pid parent) ''fiat.points.clawback_proposed''
         [(''providerRef'', JStr providerRef), (''signal'', JStr signal), (''reason'', JStr (take 160 reason))]) (\<lambda>_.
     ret (Some (pt_id row, providerRef))))))"

definition proposeClawback :: "'w sac_ports \<Rightarrow> string \<Rightarrow> string \<Rightarrow> string \<Rightarrow> int option \<Rightarrow> ('w points, (string \<times> string) option) eff" where
  "proposeClawback p parentRef reason signal reversal =
     bind_eff (catch_default (get_row p (with_ref parentRef)) None) (\<lambda>row. case row of None \<Rightarrow> ret None | Some parent \<Rightarrow>
       if pt_kind parent \<noteq> ''deposit'' \<or> \<not> issued_or_partial parent then ret None
       else
         bind_eff (catch_default (get_row p (\<lambda>r. pt_kind r = ''points_clawback'' \<and> json_get (pt_counterparty r) ''parentRef'' = Some (JStr parentRef))) None) (\<lambda>existing.
         if (case existing of None \<Rightarrow> False | Some r \<Rightarrow> json_get (pt_counterparty r) ''signal'' = Some (JStr signal) \<or> pt_ledgerStatus r = Some ''review'')
         then ret (map_option (\<lambda>r. (pt_id r, pt_providerRef r)) existing)
         else
           let exactNet = net_of parent in
           if (case reversal of None \<Rightarrow> False | Some n \<Rightarrow> n \<noteq> exactNet) then
             bind_eff (audit p (pt_pid parent) ''fiat.points.clawback_blocked''
                 [(''providerRef'', JStr parentRef), (''signal'', JStr signal), (''reversal'', JStr (show_int (nullish reversal 0))),
                  (''exactNet'', JStr (show_int exactNet))]) (\<lambda>_. ret None)
           else propose_candidate p parent reason signal reversal exactNet))"

definition approveClawback :: "'w sac_ports \<Rightarrow> string \<Rightarrow> ('w points, point_view) eff" where
  "approveClawback p i =
     bind_eff (get_row p (with_id i)) (\<lambda>x. case x of None \<Rightarrow> throw (NotFound ''Clawback candidate not found'') | Some row \<Rightarrow>
       if pt_kind row \<noteq> ''points_clawback'' then throw (NotFound ''Clawback candidate not found'')
       else if pt_ledgerStatus row \<noteq> Some ''review'' \<or> pt_providerStatus row \<noteq> ''created''
       then throw (BadRequest ''Clawback candidate is no longer awaiting review'')
       else
         bind_eff (get_row p (\<lambda>r. pt_kind r = ''deposit'' \<and> with_ref (cp_parentRef (pt_counterparty row)) r)) (\<lambda>parent. case parent of
             None \<Rightarrow> throw (NotFound ''Parent deposit not found'')
           | Some d \<Rightarrow>
               if pt_pid row \<noteq> pt_pid d then throw (Conflict ''Clawback candidate pid does not match parent deposit'')
               else executeClawbackRow p row))"

end
