(* ===== verification/Point_Deposit.thy ===== *)
theory Point_Deposit
  imports Point_Clawback
begin

text \<open>
  How a deposit learns that it was paid: the user's sync (\<^verbatim>\<open>syncTx\<close>), the webhook inbox and the inbound deposits it records, and the administrator's
  backfill. No body of a notification is trusted: the provider is asked before a row changes.
\<close>

section \<open>JavaScript values\<close>

text \<open>\<^verbatim>\<open>v?.key\<close>, with null read as undefined where \<open>??\<close> follows.\<close>

definition jval :: "json option \<Rightarrow> string \<Rightarrow> json option" where
  "jval v key = (case json_get v key of Some JNull \<Rightarrow> None | x \<Rightarrow> x)"

fun js_truthy :: "json \<Rightarrow> bool" where
  "js_truthy JNull = False"
| "js_truthy (JBool b) = b"
| "js_truthy (JNum n) = (n \<noteq> 0)"
| "js_truthy (JStr x) = (x \<noteq> [])"
| "js_truthy _ = True"

text \<open>\<^verbatim>\<open>String(v)\<close>; inside an array null is empty.\<close>

fun js_string :: "json \<Rightarrow> string" where
  "js_string JNull = ''null''"
| "js_string (JBool b) = (if b then ''true'' else ''false'')"
| "js_string (JNum n) = show_int n"
| "js_string (JStr x) = x"
| "js_string (JArr l) = join '','' (map (\<lambda>v. if v = JNull then [] else js_string v) l)"
| "js_string (JObj kvs) = ''[object Object]''"

definition truthy_string :: "json option \<Rightarrow> string option" where
  "truthy_string v = (case v of Some x \<Rightarrow> if js_truthy x then Some (js_string x) else None | None \<Rightarrow> None)"

fun raw_of :: "json \<Rightarrow> raw_amount" where
  "raw_of (JNum n) = RNum (JFin (of_int n))"
| "raw_of (JStr x) = RStr x"
| "raw_of _ = ROther"

text \<open>\<^verbatim>\<open>parseCheckoutNotify\<close> of \<^verbatim>\<open>packages/payments/src/checkout.ts\<close>: the status of a body of the Checkout shape.\<close>

definition parseCheckoutNotify :: "json option \<Rightarrow> string option option" where
  "parseCheckoutNotify body =
     (case json_string (json_get (json_get body ''order'') ''invoice_number'') of
        None \<Rightarrow> None
      | Some invoice \<Rightarrow> if invoice = [] then None else Some (json_string (json_get (json_get body ''transaction'') ''status'')))"

section \<open>Sync\<close>

definition unpaid_yet :: http_error where
  "unpaid_yet = BadRequest ''Not paid yet -- open the DOKU payment page to pay, then check again''"

definition not_found_error :: "http_error \<Rightarrow> bool" where
  "not_found_error e \<longleftrightarrow> (case e of ProviderError n _ \<Rightarrow> n = 404 | _ \<Rightarrow> False)"

definition fresh_view :: "'w sac_ports \<Rightarrow> string \<Rightarrow> point_tx \<Rightarrow> ('w points, point_view) eff" where
  "fresh_view p pid updated =
     bind_eff (get_row p (\<lambda>r. pt_id r = pt_id updated \<and> pt_pid r = pid)) (\<lambda>row. attachFeeStatus p (toPointView (nullish row updated)))"

definition syncLegacyDeposit :: "'w sac_ports \<Rightarrow> point_tx \<Rightarrow> ('w points, point_view) eff" where
  "syncLegacyDeposit p row =
     bind_eff (try_eff (withRetry p (ask (pv_txStatus p (pt_providerRef row))))) (\<lambda>res. case res of
         Inl e \<Rightarrow> if pt_kind row = ''deposit'' \<and> pt_providerStatus row = ''created'' \<and> not_found_error e then throw unpaid_yet
             else throw (mapError ''transaction status'' e)
       | Inr st \<Rightarrow>
           let status = mapSacStatus (ss_code st) in
           bind_eff (mark_tx p (pt_id row) (if status = ''settled'' then ''processing'' else status) (ss_raw st)) (\<lambda>updated.
           fresh_view p (pt_pid row) updated))"

definition paid_json :: "string \<Rightarrow> json" where
  "paid_json key = JObj [(key, JBool True)]"

definition syncCheckoutDeposit :: "'w sac_ports \<Rightarrow> point_tx \<Rightarrow> ('w points, point_view) eff" where
  "syncCheckoutDeposit p row =
     bind_eff (try_eff (withRetry p (corroborateCheckoutPayment p (pt_providerRef row)))) (\<lambda>corr. case corr of
         Inl e \<Rightarrow>
           if not_found_error e \<and> pt_providerStatus row = ''created'' then throw unpaid_yet
           else bind_eff (try_update p (pt_id row) (\<lambda>r. r\<lparr>pt_counterparty := Some (json_with (pt_counterparty row) ''orderStatusUnavailable'' (JBool True))\<rparr>)) (\<lambda>_.
             syncLegacyDeposit p row)
       | Inr (outcome, paidAmount, _) \<Rightarrow>
           if outcome = ''pending'' then attachFeeStatus p (toPointView row)
           else if outcome = ''expired'' then
             bind_eff (markPayment p (pt_id row) ''expired'' (paid_json ''checkoutExpired'')) (\<lambda>updated. attachFeeStatus p (toPointView updated))
           else if outcome = ''failed'' then
             bind_eff (markPayment p (pt_id row) ''failed'' (paid_json ''checkoutFailed'')) (\<lambda>updated. attachFeeStatus p (toPointView updated))
           else
             bind_eff (assertInvoiceAmountMatch p (pt_id row) (pt_amountIdr row) paidAmount) (\<lambda>matches.
             if \<not> matches then throw (BadRequest ''Paid amount does not match the invoice -- held for review'')
             else
               bind_eff (markPayment p (pt_id row) ''success'' (paid_json ''checkoutPaid'')) (\<lambda>updated.
               bind_eff (issuePointsForDeposit p (pt_id row) ''sync'') (\<lambda>_.
               bind_eff (ledger_issue p (pt_id row) ''sync'') (\<lambda>_.
               fresh_view p (pt_pid row) updated)))))"

definition syncTx :: "'w sac_ports \<Rightarrow> string \<Rightarrow> string \<Rightarrow> ('w points, point_view) eff" where
  "syncTx p pid i =
     bind_eff (get_row p (\<lambda>r. pt_id r = i \<and> pt_pid r = pid)) (\<lambda>x. case x of None \<Rightarrow> throw (NotFound ''Transaction not found'') | Some row \<Rightarrow>
       if pt_providerStatus row \<noteq> ''created'' \<and> pt_providerStatus row \<noteq> ''processing'' then attachFeeStatus p (toPointView row)
       else if pt_kind row = ''deposit'' \<and> isCheckoutRow (pt_counterparty row) then syncCheckoutDeposit p row
       else
         bind_eff (try_eff (withRetry p (ask (pv_txStatus p (pt_providerRef row))))) (\<lambda>res. case res of
             Inl e \<Rightarrow> if pt_kind row = ''deposit'' \<and> pt_providerStatus row = ''created'' \<and> not_found_error e then throw unpaid_yet
                 else throw (mapError ''transaction status'' e)
           | Inr st \<Rightarrow>
               let status = mapSacStatus (ss_code st) in
               bind_eff (if pt_kind row = ''deposit'' then markPayment p (pt_id row) (mapSacToPayment status) (ss_raw st)
                   else mark_tx p (pt_id row) status (ss_raw st)) (\<lambda>updated.
               bind_eff (if status = ''settled'' \<and> pt_kind row = ''deposit'' then
                     bind_eff (issuePointsForDeposit p (pt_id row) ''sync'') (\<lambda>_. ledger_issue p (pt_id row) ''sync'')
                   else ret ()) (\<lambda>_.
               fresh_view p pid updated))))"

definition cancelTx :: "'w sac_ports \<Rightarrow> string \<Rightarrow> string \<Rightarrow> ('w points, point_view) eff" where
  "cancelTx p pid i =
     bind_eff (get_row p (\<lambda>r. pt_id r = i \<and> pt_pid r = pid)) (\<lambda>x. case x of None \<Rightarrow> throw (NotFound ''Transaction not found'') | Some row \<Rightarrow>
       if pt_providerStatus row \<noteq> ''created'' then ret (toPointView row)
       else bind_eff (mark_tx p (pt_id row) ''cancelled'' (JObj [(''cancelledBy'', JStr pid)])) (\<lambda>updated. ret (toPointView updated)))"

section \<open>Inbound deposits\<close>

definition ownedAccountNos :: "provider_account \<Rightarrow> string list" where
  "ownedAccountNos a =
     filter (\<lambda>x. x \<noteq> []) (map (\<lambda>v. nullish v []) [sa_accountNo a, sa_point a, sa_va a])
     @ (case sa_accounts a of
          Some (JArr l) \<Rightarrow> filter (\<lambda>x. x \<noteq> []) (map (\<lambda>e. nullish (json_string (json_get (Some e) ''accountNo'')) []) l)
        | _ \<Rightarrow> [])"

definition findAccountByAnyNumber :: "'w sac_ports \<Rightarrow> string \<Rightarrow> ('w points, provider_account option) eff" where
  "findAccountByAnyNumber p number = find_account p (\<lambda>a. List.member (ownedAccountNos a) number \<or> sa_va a = Some number)"

definition inbound_to :: "json option \<Rightarrow> string option" where
  "inbound_to body =
     or_else (truthy_string (json_get body ''toAccount'')) (or_else (truthy_string (json_get body ''beneficiaryAccountNumber''))
       (or_else (truthy_string (json_get body ''virtualAccountNo'')) (truthy_string (json_get body ''accountNo''))))"

definition inbound_amount :: "json option \<Rightarrow> json option" where
  "inbound_amount body =
     or_else (jval (json_get body ''amount'') ''value'') (or_else (jval (json_get body ''paidAmount'') ''value'') (jval body ''amount''))"

definition inbound_row :: "string \<Rightarrow> string \<Rightarrow> string \<Rightarrow> int \<Rightarrow> fee_policy option \<Rightarrow> json option \<Rightarrow> point_tx" where
  "inbound_row pid toAccount providerRef gross policy body =
     (let fee = (case policy of None \<Rightarrow> 0 | Some pol \<Rightarrow> calcServiceFee gross pol); net = gross - fee;
          notifyTxStatus = json_string (json_get (json_get body ''transaction'') ''status'')
      in (blank_tx pid ''deposit'' providerRef gross)
         \<lparr>px_accountId := Some toAccount, pt_feeIdr := Some fee, pt_netIdr := Some net, pt_feePolicyVersion := map_option fp_version policy,
          pt_providerStatus := ''processing'', pt_ledgerStatus := Some ''pending'', px_settlement := Some ''pending'',
          pt_counterparty := Some (JObj ([(''source'', JStr ''webhook''), (''feeQuote'', JStr (show_int fee)), (''netQuote'', JStr (show_int net))]
            @ (case policy of None \<Rightarrow> [] | Some pol \<Rightarrow> [(''feePolicyVersion'', JNum (fp_version pol))])
            @ (if net < MIN_CHECKOUT_NET_IDR then [(''belowMinimumNet'', JBool True)] else [])
            @ (if nullish notifyTxStatus [] \<noteq> [] then [(''notifyTxStatus'', JStr (nullish notifyTxStatus []))] else [])
            @ (if parseCheckoutNotify body \<noteq> None then [(''channel'', JStr ''checkout'')] else []))),
          px_response := body\<rparr>)"

text \<open>\<^verbatim>\<open>upsert\<close> with an empty update: the row of the reference, created if it is new.\<close>

definition upsert_tx :: "'w sac_ports \<Rightarrow> point_tx \<Rightarrow> (point_tx \<Rightarrow> point_tx) \<Rightarrow> ('w points, point_tx) eff" where
  "upsert_tx p d f =
     bind_eff get_state (\<lambda>s. case find (with_ref (pt_providerRef d)) (po_rows s) of
         None \<Rightarrow> create_tx p d
       | Some r \<Rightarrow> update_tx p (pt_id r) f)"

definition inbound_checkout :: "'w sac_ports \<Rightarrow> point_tx \<Rightarrow> string \<Rightarrow> int \<Rightarrow> ('w points, unit) eff" where
  "inbound_checkout p row providerRef gross =
     bind_eff (withRetry p (corroborateCheckoutPayment p providerRef)) (\<lambda>(outcome, paidAmount, raw).
     bind_eff (if outcome = ''paid'' then assertInvoiceAmountMatch p (pt_id row) gross paidAmount else ret False) (\<lambda>matches.
     if outcome = ''paid'' \<and> matches then
       bind_eff (markPayment p (pt_id row) ''success'' raw) (\<lambda>_.
       bind_eff (later (pt_id row) ''webhook'' False) (\<lambda>_. later (pt_id row) ''webhook'' True))
     else if outcome = ''expired'' then bind_eff (markPayment p (pt_id row) ''expired'' (paid_json ''checkoutExpired'')) (\<lambda>_. ret ())
     else if outcome = ''failed'' then bind_eff (markPayment p (pt_id row) ''failed'' (paid_json ''checkoutFailed'')) (\<lambda>_. ret ())
     else ret ()))"

definition inbound_va :: "'w sac_ports \<Rightarrow> point_tx \<Rightarrow> string \<Rightarrow> string option \<Rightarrow> ('w points, unit) eff" where
  "inbound_va p row providerRef notifyTxStatus =
     bind_eff (withRetry p (ask (pv_txStatus p providerRef))) (\<lambda>st.
     let status = mapSacStatus (ss_code st) in
     if status = ''settled'' \<and> notifyTxStatus \<noteq> None \<and> notifyTxStatus \<noteq> Some ''SUCCESS'' then ret ()
     else if status = ''settled'' then
       bind_eff (markPayment p (pt_id row) ''success'' (ss_raw st)) (\<lambda>_. later (pt_id row) ''webhook'' False)
     else if status = ''failed'' \<or> status = ''refunded'' then
       bind_eff (markPayment p (pt_id row) (mapSacToPayment status) (ss_raw st)) (\<lambda>_. ret ())
     else ret ())"

definition recordInboundDeposit :: "'w sac_ports \<Rightarrow> string \<Rightarrow> json option \<Rightarrow> ('w points, bool) eff" where
  "recordInboundDeposit p providerRef body = (case (inbound_to body, inbound_amount body) of
       (Some toAccount, Some amountRaw) \<Rightarrow>
         bind_eff (find_account p (\<lambda>a. sa_accountNo a = Some toAccount)) (\<lambda>account.
         bind_eff (case account of Some a \<Rightarrow> ret (Some a) | None \<Rightarrow> findAccountByAnyNumber p toAccount) (\<lambda>owner. case owner of
             None \<Rightarrow> ret False
           | Some a \<Rightarrow> (case parseIdrStrict (raw_of amountRaw) ''webhook amount'' of
                 Inl _ \<Rightarrow> ret False
               | Inr gross \<Rightarrow>
                   if gross \<le> 0 then ret False
                   else
                     bind_eff (try_eff (stmt p (\<lambda>s. (Inr (activeFeePolicy (po_fiat s)), s)))) (\<lambda>pol.
                     let policy = (case pol of Inl _ \<Rightarrow> None | Inr x \<Rightarrow> Some x) in
                     bind_eff (upsert_tx p (inbound_row (sa_pid a) toAccount providerRef gross policy body) id) (\<lambda>row.
                     bind_eff (try_eff (if parseCheckoutNotify body \<noteq> None then inbound_checkout p row providerRef gross
                         else inbound_va p row providerRef (json_string (json_get (json_get body ''transaction'') ''status'')))) (\<lambda>_.
                     ret True))))))
     | _ \<Rightarrow> ret False)"

section \<open>The webhook inbox\<close>

definition MAX_WEBHOOK_BODY_BYTES :: nat where "MAX_WEBHOOK_BODY_BYTES = 32 * 1024"

definition is_hex_char :: "char \<Rightarrow> bool" where
  "is_hex_char c \<longleftrightarrow> is_digit c \<or> (97 \<le> (of_char (to_lower_char c) :: nat) \<and> (of_char (to_lower_char c) :: nat) \<le> 102)"

definition verifyWebhookSignature :: "'w sac_ports \<Rightarrow> string \<Rightarrow> string \<Rightarrow> string \<Rightarrow> bool" where
  "verifyWebhookSignature p rawBody signature secret \<longleftrightarrow>
     signature \<noteq> [] \<and> secret \<noteq> [] \<and>
     (let hex = (if starts_with ''sha256='' signature then drop 7 signature else signature)
      in length hex = 64 \<and> list_all is_hex_char hex \<and> to_lower hex = pv_hmac p secret rawBody)"

definition utf8_length :: "string \<Rightarrow> nat" where
  "utf8_length x = sum_list (map (\<lambda>c. if (of_char c :: nat) < 128 then 1 else 2) x)"

definition event_applied :: "'w sac_ports \<Rightarrow> string \<Rightarrow> ('w points, unit) eff" where
  "event_applied p externalId =
     catch_default (stmt p (modify (\<lambda>s. s\<lparr>po_webhooks := map (\<lambda>e. if we_externalId e = externalId then e\<lparr>we_status := ''applied''\<rparr> else e) (po_webhooks s)\<rparr>))) ()"

definition store_event :: "'w sac_ports \<Rightarrow> webhook_event \<Rightarrow> ('w points, unit) eff" where
  "store_event p e = stmt p (\<lambda>s.
     if list_ex (\<lambda>x. we_externalId x = we_externalId e) (po_webhooks s) then (Inl UniqueViolation, s)
     else (Inr (), s\<lparr>po_webhooks := po_webhooks s @ [e]\<rparr>))"

definition body_ref :: "json option \<Rightarrow> string option" where
  "body_ref body =
     truthy_string (or_else (jval body ''partnerReferenceNo'') (or_else (jval body ''originalPartnerReferenceNo'')
       (or_else (jval body ''trxId'') (jval (json_get body ''order'') ''invoice_number''))))"

text \<open>The notification of a registration refreshes the accounts of the profile; the answer says whether to mark the event applied.\<close>

definition webhook_register :: "'w sac_ports \<Rightarrow> string \<Rightarrow> ('w points, bool) eff" where
  "webhook_register p profileId =
     bind_eff (catch_default (find_account p (\<lambda>a. sa_profileId a = Some profileId)) None) (\<lambda>account. case account of
         None \<Rightarrow> ret True
       | Some a \<Rightarrow>
           bind_eff (try_eff (
             bind_eff (withRetry p (ask (pv_balance p profileId))) (\<lambda>bal.
             update_account p (sa_pid a) (\<lambda>x. x\<lparr>sa_accounts := Some (JArr (map account_json (sl_accounts bal))), sa_status := ''active''\<rparr>)))) (\<lambda>r.
           ret (is_ok r)))"

definition reversal_of :: "string \<Rightarrow> string" where
  "reversal_of status = ''provider '' @ status @ '' after issuance''"

definition propose_quietly :: "'w sac_ports \<Rightarrow> string \<Rightarrow> string \<Rightarrow> string \<Rightarrow> int option \<Rightarrow> ('w points, unit) eff" where
  "propose_quietly p parentRef reason signal reversal =
     bind_eff (try_eff (proposeClawback p parentRef reason signal reversal)) (\<lambda>_. ret ())"

text \<open>A closed row still hears of a reversal, which is corroborated before a claw-back is proposed.\<close>

definition webhook_closed :: "'w sac_ports \<Rightarrow> point_tx \<Rightarrow> json option \<Rightarrow> ('w points, unit) eff" where
  "webhook_closed p row body =
     (let declared = or_else (nullish (parseCheckoutNotify body) None) (json_string (json_get (json_get body ''transaction'') ''status'')) in
      if pt_kind row = ''deposit'' \<and> issued_or_partial row \<and> List.member [''FAILED'', ''REFUNDED'', ''EXPIRED''] (nullish declared []) then
        (if isCheckoutRow (pt_counterparty row) then
           bind_eff (try_eff (withRetry p (corroborateCheckoutPayment p (pt_providerRef row)))) (\<lambda>corr. case corr of
               Inl _ \<Rightarrow> ret ()
             | Inr (outcome, paidAmount, _) \<Rightarrow>
                 if outcome = ''failed'' \<or> outcome = ''expired'' then
                   propose_quietly p (pt_providerRef row) (''checkout '' @ outcome @ '' after issuance'') outcome paidAmount
                 else ret ())
         else
           bind_eff (try_eff (withRetry p (ask (pv_txStatus p (pt_providerRef row))))) (\<lambda>res. case res of
               Inl _ \<Rightarrow> ret ()
             | Inr st \<Rightarrow>
                 let status = mapSacStatus (ss_code st) in
                 if status = ''failed'' \<or> status = ''refunded'' then
                   propose_quietly p (pt_providerRef row) (reversal_of status) status (corroboratedAmount (ss_amount st))
                 else ret ()))
      else ret ())"

definition webhook_checkout :: "'w sac_ports \<Rightarrow> point_tx \<Rightarrow> ('w points, bool) eff" where
  "webhook_checkout p row =
     bind_eff (try_eff (withRetry p (corroborateCheckoutPayment p (pt_providerRef row)))) (\<lambda>corr. case corr of
         Inl _ \<Rightarrow> ret False
       | Inr (outcome, paidAmount, raw) \<Rightarrow>
           bind_eff (if (outcome = ''failed'' \<or> outcome = ''expired'') \<and> issued_or_partial row then
               propose_quietly p (pt_providerRef row) (''checkout '' @ outcome @ '' after issuance'') outcome paidAmount else ret ()) (\<lambda>_.
           bind_eff (if outcome = ''paid'' then
               bind_eff (markPayment p (pt_id row) ''success'' raw) (\<lambda>_.
               bind_eff (later (pt_id row) ''webhook'' False) (\<lambda>_. later (pt_id row) ''webhook'' True))
             else if outcome = ''expired'' then bind_eff (markPayment p (pt_id row) ''expired'' (paid_json ''checkoutExpired'')) (\<lambda>_. ret ())
             else if outcome = ''failed'' then bind_eff (markPayment p (pt_id row) ''failed'' (paid_json ''checkoutFailed'')) (\<lambda>_. ret ())
             else ret ()) (\<lambda>_. ret True)))"

definition webhook_movement :: "'w sac_ports \<Rightarrow> point_tx \<Rightarrow> ('w points, bool) eff" where
  "webhook_movement p row =
     bind_eff (withRetry p (ask (pv_txStatus p (pt_providerRef row)))) (\<lambda>st.
     let status = mapSacStatus (ss_code st) in
     bind_eff (if pt_kind row = ''deposit'' then markPayment p (pt_id row) (mapSacToPayment status) (ss_raw st)
         else mark_tx p (pt_id row) status (ss_raw st)) (\<lambda>_.
     bind_eff (if (status = ''failed'' \<or> status = ''refunded'') \<and> pt_kind row = ''deposit'' \<and> issued_or_partial row then
         propose_quietly p (pt_providerRef row) (reversal_of status) status (corroboratedAmount (ss_amount st)) else ret ()) (\<lambda>_.
     bind_eff (if status = ''settled'' \<and> pt_kind row = ''deposit'' then
         bind_eff (later (pt_id row) ''webhook'' False) (\<lambda>_. later (pt_id row) ''webhook'' True) else ret ()) (\<lambda>_. ret True))))"

definition webhook_row :: "'w sac_ports \<Rightarrow> string \<Rightarrow> point_tx \<Rightarrow> json option \<Rightarrow> ('w points, unit) eff" where
  "webhook_row p externalId row body =
     (if pt_providerStatus row \<noteq> ''created'' \<and> pt_providerStatus row \<noteq> ''processing'' then
        bind_eff (webhook_closed p row body) (\<lambda>_. event_applied p externalId)
      else
        bind_eff (catch_default (if pt_kind row = ''deposit'' \<and> isCheckoutRow (pt_counterparty row) then webhook_checkout p row
            else webhook_movement p row) False) (\<lambda>applied.
        if \<not> applied then ret ()
        else bind_eff (event_applied p externalId) (\<lambda>_.
          audit p (pt_pid row) ''fiat.subaccount.webhook_applied'' [(''providerRef'', JStr (pt_providerRef row))])))"

definition webhook_event_body :: "'w sac_ports \<Rightarrow> string \<Rightarrow> json option \<Rightarrow> ('w points, unit) eff" where
  "webhook_event_body p externalId body = (case body_ref body of
       None \<Rightarrow> (case truthy_string (json_get body ''profileId'') of
           None \<Rightarrow> ret ()
         | Some profileId \<Rightarrow> bind_eff (webhook_register p profileId) (\<lambda>applied. if applied then event_applied p externalId else ret ()))
     | Some providerRef \<Rightarrow>
         bind_eff (catch_default (get_row p (with_ref providerRef)) None) (\<lambda>row. case row of
             None \<Rightarrow>
               bind_eff (catch_default (recordInboundDeposit p providerRef body) False) (\<lambda>recorded.
               if recorded then event_applied p externalId else ret ())
           | Some r \<Rightarrow> webhook_row p externalId r body))"

definition webhook :: "'w sac_ports \<Rightarrow> string option \<Rightarrow> string \<Rightarrow> string option \<Rightarrow> ('w points, bool) eff" where
  "webhook p externalId rawBody signature =
     (let secret = config p ''DOKU_WEBHOOK_SECRET'' [] in
      if secret \<noteq> [] \<and> \<not> verifyWebhookSignature p rawBody (nullish signature []) secret then throw (JsError ''UnauthorizedException: Invalid webhook signature'')
      else if nullish externalId [] = [] then ret False
      else if utf8_length rawBody > MAX_WEBHOOK_BODY_BYTES then ret False
      else case pv_json p rawBody of
          None \<Rightarrow> ret False
        | Some body \<Rightarrow>
            bind_eff (try_eff (store_event p \<lparr>we_externalId = nullish externalId [],
                we_eventType = js_string (nullish (or_else (jval (Some body) ''eventType'') (jval (Some body) ''transactionType'')) (JStr ''notification'')),
                we_payload = body, we_status = ''received''\<rparr>)) (\<lambda>created.
            if \<not> is_ok created then ret True
            else bind_eff (webhook_event_body p (nullish externalId []) (Some body)) (\<lambda>_. ret True)))"

section \<open>Backfill\<close>

fun backfill_each :: "'w sac_ports \<Rightarrow> point_tx list \<Rightarrow> ('w points, unit) eff" where
  "backfill_each p [] = ret ()"
| "backfill_each p (r # rows) =
     bind_eff (try_update p (pt_id r) (\<lambda>x. x\<lparr>pt_counterparty := Some (json_with (pt_counterparty r) ''source'' (JStr ''backfill''))\<rparr>)) (\<lambda>_.
     bind_eff (issuePointsForDeposit p (pt_id r) ''backfill'') (\<lambda>_.
     bind_eff (ledger_issue p (pt_id r) ''backfill'') (\<lambda>_. backfill_each p rows)))"

record backfill_view =
  bf_processed :: nat
  bf_issued :: nat
  bf_outstanding :: "(string \<times> string option) list"

definition clamp :: "int \<Rightarrow> int \<Rightarrow> int \<Rightarrow> int" where
  "clamp lo hi n = min (max n lo) hi"

definition paid_deposit :: "point_tx \<Rightarrow> bool" where
  "paid_deposit r \<longleftrightarrow> pt_kind r = ''deposit''
     \<and> (pt_providerStatus r = ''settled'' \<or> pt_providerStatus r = ''success'' \<or> pt_providerPaymentStatus r = Some ''success'')"

definition adminBackfill :: "'w sac_ports \<Rightarrow> string option \<Rightarrow> int option \<Rightarrow> ('w points, backfill_view) eff" where
  "adminBackfill p pid limit =
     (let n = nat (clamp 1 500 (nullish limit 100)) in
      bind_eff (find_rows p (\<lambda>r. paid_deposit r \<and> (case pid of None \<Rightarrow> True | Some i \<Rightarrow> i = [] \<or> pt_pid r = i))) (\<lambda>rows.
      let todo = take n (filter (\<lambda>r. pt_ledgerStatus r \<noteq> Some ''issued'') (take (n * 2) (sort_key px_createdAt rows))) in
      bind_eff (backfill_each p todo) (\<lambda>_.
      bind_eff (find_rows p (\<lambda>r. list_ex (\<lambda>x. pt_id x = pt_id r) todo)) (\<lambda>rows'.
      ret \<lparr>bf_processed = length todo, bf_issued = length (filter (\<lambda>r. pt_ledgerStatus r = Some ''issued'') rows'),
        bf_outstanding = map (\<lambda>r. (pt_providerRef r, pt_ledgerStatus r)) (filter (\<lambda>r. pt_ledgerStatus r \<noteq> Some ''issued'') rows')\<rparr>))))"

end
