(* ===== verification/Point_Transfer.thy ===== *)
theory Point_Transfer
  imports Point_Deposit
begin

text \<open>
  Point transfers between identities: inquiry, confirmation under a database claim, the treasury fee leg, the recipient's mirror row and its
  reconstruction, and the retry of a failed transfer.
\<close>

section \<open>Inquiry\<close>

record transfer_inquiry_view =
  ti_id :: string
  ti_providerRef :: string
  ti_accountNumber :: string
  ti_accountName :: "string option"
  ti_referenceNo :: string
  ti_grossIdr :: string
  ti_feeIdr :: string
  ti_netIdr :: string
  ti_version :: int

definition point_transfer :: "string \<Rightarrow> int \<Rightarrow> string \<Rightarrow> string \<Rightarrow> transfer_request" where
  "point_transfer ref amount from to =
     \<lparr>tq_ref = ref, tq_type = ''DOKU_SUB_ACCOUNT'', tq_amount = amount, tq_currency = ''POINT'', tq_from = from, tq_to = to,
      tq_bank = None, tq_channel = None\<rparr>"

definition transfer_tx :: "string \<Rightarrow> string \<Rightarrow> string \<Rightarrow> string \<Rightarrow> string \<Rightarrow> int \<Rightarrow> fee_policy \<Rightarrow> point_tx" where
  "transfer_tx pid beneficiaryPid fromAccount toAccount providerRef gross policy =
     (let fee = calcServiceFee gross policy in
      (blank_tx pid ''transfer_internal'' providerRef gross)
        \<lparr>px_accountId := Some fromAccount, pt_feeIdr := Some fee, pt_netIdr := Some (gross - fee), pt_feePolicyVersion := Some (fp_version policy),
         pt_counterparty := Some (JObj [(''type'', JStr ''DOKU_SUB_ACCOUNT''), (''beneficiaryPid'', JStr beneficiaryPid),
           (''beneficiaryAccountNumber'', JStr toAccount), (''feeQuote'', JStr (show_int fee)), (''netQuote'', JStr (show_int (gross - fee))),
           (''feePolicyVersion'', JNum (fp_version policy)), (''currency'', JStr ''POINT'')])\<rparr>)"

definition active_fee_policy :: "'w sac_ports \<Rightarrow> ('w points, fee_policy) eff" where
  "active_fee_policy p = stmt p (\<lambda>s. (Inr (activeFeePolicy (po_fiat s)), s))"

definition point_transferInquiry :: "'w sac_ports \<Rightarrow> string \<Rightarrow> string \<Rightarrow> string \<Rightarrow> ('w points, transfer_inquiry_view) eff" where
  "point_transferInquiry p pid amountIdr beneficiaryPid =
     bind_eff (lift_result (parseGross amountIdr)) (\<lambda>gross.
     bind_eff (pointAccountFor p pid ''Sender'') (\<lambda>fromAccount.
     bind_eff (pointAccountFor p beneficiaryPid ''Recipient'') (\<lambda>toAccount.
     if beneficiaryPid = pid then throw (BadRequest ''Cannot transfer to yourself'')
     else
       bind_eff (active_fee_policy p) (\<lambda>policy.
       let fee = calcServiceFee gross policy in
       bind_eff (buildInvoiceNumber p ''ST'') (\<lambda>providerRef.
       bind_eff (create_tx p (transfer_tx pid beneficiaryPid fromAccount toAccount providerRef gross policy)) (\<lambda>row.
       bind_eff (try_eff (sac_inquire p (point_transfer providerRef gross fromAccount toAccount))) (\<lambda>r. case r of
           Inl e \<Rightarrow> bind_eff (mark_tx p (pt_id row) ''failed'' (error_json e)) (\<lambda>_. throw (mapError ''transfer inquiry'' e))
         | Inr inquiry \<Rightarrow>
             bind_eff (mark_tx p (pt_id row) ''created'' (si_raw inquiry)) (\<lambda>_.
             ret \<lparr>ti_id = pt_id row, ti_providerRef = providerRef, ti_accountNumber = toAccount, ti_accountName = si_name inquiry,
               ti_referenceNo = si_reference inquiry, ti_grossIdr = show_int gross, ti_feeIdr = show_int fee,
               ti_netIdr = show_int (gross - fee), ti_version = fp_version policy\<rparr>))))))))"

section \<open>The fee leg\<close>

definition fee_row :: "string \<Rightarrow> string \<Rightarrow> string \<Rightarrow> string \<Rightarrow> int \<Rightarrow> string \<Rightarrow> point_tx" where
  "fee_row pid fromPoint toPoint providerRef fee parentRef =
     (blank_tx pid ''points_fee'' providerRef fee)
       \<lparr>px_accountId := Some fromPoint, pt_feeIdr := Some fee, pt_netIdr := Some fee, px_direction := Some ''out'', px_source := Some fromPoint,
        px_dest := Some toPoint, px_group := Some parentRef,
        pt_counterparty := Some (JObj [(''parentRef'', JStr parentRef), (''currency'', JStr ''POINT''), (''destination'', JStr ''treasury'')])\<rparr>"

definition fee_attempt :: "'w sac_ports \<Rightarrow> string \<Rightarrow> transfer_request \<Rightarrow> ('w points, point_tx) eff" where
  "fee_attempt p legId q =
     bind_eff (withRetry p (sac_inquire p q)) (\<lambda>inquiry.
     bind_eff (withRetry p (sac_pay p q (si_reference inquiry) (nullish (si_name inquiry) (tq_to q)))) (\<lambda>paid.
     bind_eff (try_eff (withRetry p (ask (pv_txStatus p (tq_ref q))))) (\<lambda>st.
     mark_tx p legId (case st of Inl _ \<Rightarrow> ''processing'' | Inr x \<Rightarrow> mapSacStatus (ss_code x)) (sp_raw paid))))"

definition executePointFeeLeg :: "'w sac_ports \<Rightarrow> string \<Rightarrow> string \<Rightarrow> string \<Rightarrow> int \<Rightarrow> string \<Rightarrow> ('w points, point_tx) eff" where
  "executePointFeeLeg p pid fromPoint providerRef fee parentRef =
     bind_eff (get_row p (\<lambda>r. pt_kind r = ''points_fee'' \<and> with_ref providerRef r)) (\<lambda>existing.
     case (case existing of None \<Rightarrow> None | Some r \<Rightarrow> if open_leg (pt_providerStatus r) then Some r else None) of
       Some r \<Rightarrow> ret r
     | None \<Rightarrow>
         bind_eff (treasuryPointAccount p) (\<lambda>toPoint.
         bind_eff (case existing of Some r \<Rightarrow> ret r | None \<Rightarrow> create_tx p (fee_row pid fromPoint toPoint providerRef fee parentRef)) (\<lambda>leg.
         bind_eff (try_eff (fee_attempt p (pt_id leg) (point_transfer providerRef fee fromPoint toPoint))) (\<lambda>r. case r of
             Inr row \<Rightarrow> ret row
           | Inl e \<Rightarrow>
               if (case e of ProviderError n _ \<Rightarrow> n = 409 | _ \<Rightarrow> False) then
                 bind_eff (withRetry p (ask (pv_txStatus p providerRef))) (\<lambda>st. mark_tx p (pt_id leg) (mapSacStatus (ss_code st)) (ss_raw st))
               else bind_eff (mark_tx p (pt_id leg) ''failed'' (error_json e)) (\<lambda>_. throw e)))))"

section \<open>Confirmation\<close>

definition transfer_closed :: http_error where
  "transfer_closed = BadRequest ''Transfer is closed -- start a new inquiry''"

definition parseFeeVersion :: "json option \<Rightarrow> int" where
  "parseFeeVersion raw = (case raw of
       Some (JNum n) \<Rightarrow> if n > 0 \<and> n \<le> max_safe_integer then n else 0
     | Some (JStr x) \<Rightarrow> if all_digits x \<and> 0 < bigint_of x \<and> bigint_of x \<le> max_safe_integer then bigint_of x else 0
     | _ \<Rightarrow> 0)"

definition policy_of_version :: "'w sac_ports \<Rightarrow> int \<Rightarrow> ('w points, fee_policy) eff" where
  "policy_of_version p v =
     bind_eff (if v > 0 then catch_default (stmt p (\<lambda>s. (Inr (map_option pol_params (find (\<lambda>x. fp_version (pol_params x) = v) (db_policies (po_fiat s)))), s))) None
         else ret None) (\<lambda>row. case row of Some pol \<Rightarrow> ret pol | None \<Rightarrow> active_fee_policy p)"

record confirm_terms =
  ct_from :: string
  ct_to :: string
  ct_recipient :: string
  ct_reference :: string
  ct_name :: string
  ct_fee :: int
  ct_version :: int

definition mirror_row :: "point_tx \<Rightarrow> confirm_terms \<Rightarrow> string \<Rightarrow> string \<Rightarrow> json \<Rightarrow> point_tx" where
  "mirror_row row t mirrorRef status raw =
     (let net = pt_amountIdr row - ct_fee t in
      (blank_tx (ct_recipient t) ''points_credit'' mirrorRef net)
        \<lparr>px_accountId := Some (ct_to t), pt_netIdr := Some net, pt_providerStatus := status, px_direction := Some ''in'', px_source := Some (ct_from t),
         px_dest := Some (ct_to t), px_group := Some (pt_providerRef row), px_ledgerRef := Some mirrorRef,
         pt_ledgerStatus := Some (if status = ''settled'' then ''issued'' else ''pending''),
         pt_counterparty := Some (JObj [(''parentRef'', JStr (pt_providerRef row)), (''linkedRef'', JStr (pt_providerRef row)),
           (''currency'', JStr ''POINT''), (''source'', JStr ''transfer'')]),
         px_response := Some raw\<rparr>)"

definition confirmed_update :: "point_tx \<Rightarrow> confirm_terms \<Rightarrow> point_tx \<Rightarrow> point_tx" where
  "confirmed_update row t r =
     r\<lparr>pt_feeIdr := Some (ct_fee t), pt_netIdr := Some (pt_amountIdr row - ct_fee t), pt_feePolicyVersion := Some (ct_version t),
       px_direction := Some ''out'', px_source := Some (ct_from t), px_dest := Some (ct_to t), px_group := Some (pt_providerRef row)\<rparr>"

text \<open>What follows the payment: the status, the mirror, the fee leg.\<close>

definition transfer_paid :: "'w sac_ports \<Rightarrow> string \<Rightarrow> point_tx \<Rightarrow> confirm_terms \<Rightarrow> sac_payment \<Rightarrow> ('w points, point_view) eff" where
  "transfer_paid p pid row t paid =
     bind_eff (mark_tx p (pt_id row) ''processing'' (sp_raw paid)) (\<lambda>_.
     bind_eff (try_update p (pt_id row) (confirmed_update row t)) (\<lambda>_.
     bind_eff (audit p pid ''fiat.subaccount.transfer'' [(''providerRef'', JStr (pt_providerRef row)), (''gross'', JStr (show_int (pt_amountIdr row))),
       (''fee'', JStr (show_int (ct_fee t)))]) (\<lambda>_.
     bind_eff (try_eff (withRetry p (ask (pv_txStatus p (pt_providerRef row))))) (\<lambda>corroborated.
     let status = (case corroborated of Inl _ \<Rightarrow> ''processing'' | Inr st \<Rightarrow> mapSacStatus (ss_code st));
         raw = (case corroborated of Inl _ \<Rightarrow> sp_raw paid | Inr st \<Rightarrow> ss_raw st);
         mirrorRef = nullish (sp_reference paid) (pt_providerRef row @ ''-IN'')
     in
     bind_eff (if status \<noteq> ''processing'' then bind_eff (mark_tx p (pt_id row) status raw) (\<lambda>_. ret ()) else ret ()) (\<lambda>_.
     bind_eff (if ct_recipient t \<noteq> [] then
         bind_eff (try_eff (upsert_tx p (mirror_row row t mirrorRef status (sp_raw paid))
           (\<lambda>r. if status = ''settled'' then r\<lparr>pt_providerStatus := ''settled'', pt_ledgerStatus := Some ''issued''\<rparr> else r))) (\<lambda>_. ret ())
       else ret ()) (\<lambda>_.
     bind_eff (if ct_fee t > 0 then
         bind_eff (try_eff (executePointFeeLeg p pid (ct_from t) (pt_providerRef row @ ''-PTFEE'') (ct_fee t) (pt_providerRef row))) (\<lambda>_. ret ())
       else ret ()) (\<lambda>_.
     bind_eff (if status = ''settled'' then get_row p (\<lambda>r. pt_id r = pt_id row \<and> pt_pid r = pid) else ret None) (\<lambda>settled. case settled of
         Some r \<Rightarrow> attachFeeStatus p (toPointView r)
       | None \<Rightarrow> bind_eff (mark_tx p (pt_id row) ''processing'' (sp_raw paid)) (\<lambda>r. ret (toPointView r))))))))))"

definition transfer_attempt :: "'w sac_ports \<Rightarrow> string \<Rightarrow> point_tx \<Rightarrow> confirm_terms \<Rightarrow> ('w points, point_view) eff" where
  "transfer_attempt p pid row t =
     bind_eff (withRetry p (sac_pay p (point_transfer (pt_providerRef row) (pt_amountIdr row - ct_fee t) (ct_from t) (ct_to t)) (ct_reference t) (ct_name t)))
       (transfer_paid p pid row t)"

definition transfer_claimed :: "'w sac_ports \<Rightarrow> string \<Rightarrow> string \<Rightarrow> string option \<Rightarrow> point_tx \<Rightarrow> ('w points, point_view) eff" where
  "transfer_claimed p pid name expectedName row =
     bind_eff (pointAccountFor p pid ''Sender'') (\<lambda>fromAccount.
     let cp = pt_counterparty row; reference = nullish (json_string (json_get (px_response row) ''referenceNo'')) [];
         toAccount = truthy_string (json_get cp ''beneficiaryAccountNumber''); holder = truthy_string (json_get (px_response row) ''beneficiaryAccountName'')
     in
     if reference = [] \<or> toAccount = None then throw (ServiceUnavailable ''Inquiry handshake incomplete -- start a new inquiry'')
     else if nullish expectedName [] \<noteq> [] \<and> holder \<noteq> None \<and> expectedName \<noteq> holder
     then throw (BadRequest ''Holder name changed since inquiry -- start a new inquiry'')
     else
       bind_eff (policy_of_version p (parseFeeVersion (json_get cp ''feePolicyVersion''))) (\<lambda>policy.
       let t = \<lparr>ct_from = fromAccount, ct_to = nullish toAccount [], ct_recipient = (case jval cp ''beneficiaryPid'' of None \<Rightarrow> [] | Some v \<Rightarrow> js_string v),
                ct_reference = reference, ct_name = name, ct_fee = calcServiceFee (pt_amountIdr row) policy, ct_version = fp_version policy\<rparr>
       in bind_eff (try_eff (transfer_attempt p pid row t)) (\<lambda>r. case r of
            Inr v \<Rightarrow> ret v
          | Inl e \<Rightarrow> bind_eff (mark_tx p (pt_id row) ''failed'' (error_json e)) (\<lambda>_. throw (mapError ''transfer'' e)))))"

definition point_transferConfirm :: "'w sac_ports \<Rightarrow> string \<Rightarrow> string \<Rightarrow> string \<Rightarrow> string option \<Rightarrow> ('w points, point_view) eff" where
  "point_transferConfirm p pid i name expectedName =
     bind_eff (get_row p (\<lambda>r. pt_id r = i \<and> pt_pid r = pid)) (\<lambda>x. case x of None \<Rightarrow> throw (NotFound ''Transfer not found'') | Some row \<Rightarrow>
       if pt_kind row \<noteq> ''transfer_internal'' then throw (BadRequest ''Not a transfer row'')
       else if open_leg (pt_providerStatus row) then ret (toPointView row)
       else if pt_providerStatus row \<noteq> ''created'' then throw transfer_closed
       else
         bind_eff (clock p) (\<lambda>now.
         bind_eff (catch_default (claim_tx p i (\<lambda>r. pt_providerStatus r = ''created'')
             (\<lambda>r. r\<lparr>pt_providerStatus := ''processing'',
                    px_response := Some (json_with (px_response row) ''confirmClaim'' (JStr (env_iso (pv_env p) now)))\<rparr>)) 0) (\<lambda>claimed.
         if claimed = 0 then
           bind_eff (catch_default (get_row p (\<lambda>r. pt_id r = i \<and> pt_pid r = pid)) None) (\<lambda>cur.
           case cur of
             Some r \<Rightarrow> if open_leg (pt_providerStatus r) then ret (toPointView r) else throw transfer_closed
           | None \<Rightarrow> throw transfer_closed)
         else transfer_claimed p pid name expectedName row)))"

section \<open>The mirror of a settled transfer\<close>

definition mirror_of :: "string \<Rightarrow> point_tx \<Rightarrow> bool" where
  "mirror_of parentRef r \<longleftrightarrow> pt_kind r = ''points_credit'' \<and> json_get (pt_counterparty r) ''parentRef'' = Some (JStr parentRef)"

definition backfill_mirror :: "'w sac_ports \<Rightarrow> point_tx \<Rightarrow> string \<Rightarrow> string \<Rightarrow> sac_status \<Rightarrow> int \<Rightarrow> ('w points, string) eff" where
  "backfill_mirror p row recipientPid toAccount st net =
     (let dokuRef = nullish (truthy_string (json_get (Some (ss_raw st)) ''referenceNo'')) (pt_providerRef row @ ''-IN'') in
      bind_eff (try_eff (pointAccountFor p (pt_pid row) ''Sender'')) (\<lambda>fromPoint.
      bind_eff (try_eff (upsert_tx p ((blank_tx recipientPid ''points_credit'' dokuRef net)
          \<lparr>px_accountId := Some toAccount, pt_netIdr := Some net, pt_providerStatus := ''settled'', px_direction := Some ''in'',
           px_source := Some (case fromPoint of Inl _ \<Rightarrow> ''unknown'' | Inr a \<Rightarrow> a), px_dest := Some toAccount, px_group := Some (pt_providerRef row),
           px_ledgerRef := Some dokuRef, pt_ledgerStatus := Some ''issued'',
           pt_counterparty := Some (JObj [(''parentRef'', JStr (pt_providerRef row)), (''linkedRef'', JStr (pt_providerRef row)),
             (''currency'', JStr ''POINT''), (''source'', JStr ''mirror-backfill'')]),
           px_response := Some (ss_raw st)\<rparr>) id)) (\<lambda>_.
      bind_eff (try_update p (pt_id row) (\<lambda>r. r\<lparr>px_response := Some (json_with (px_response row) ''mirrorRef'' (JStr dokuRef))\<rparr>)) (\<lambda>_.
      ret ''mirrored''))))"

text \<open>\<^verbatim>\<open>BigInt(String(v ?? "0"))\<close>; the quote is written by the service itself, a whole number.\<close>

definition net_quote :: "json option \<Rightarrow> int result" where
  "net_quote cp =
     (let x = (case jval cp ''netQuote'' of None \<Rightarrow> ''0'' | Some v \<Rightarrow> js_string v)
      in if x = [] then Inr 0 else if all_digits x then Inr (bigint_of x)
         else if hd x = CHR ''-'' \<and> all_digits (tl x) then Inr (- bigint_of (tl x)) else Inl (JsError ''SyntaxError''))"

definition ensureTransferMirror :: "'w sac_ports \<Rightarrow> point_tx \<Rightarrow> ('w points, string) eff" where
  "ensureTransferMirror p row =
     (let cp = pt_counterparty row in
      case (json_string (json_get cp ''beneficiaryPid''), truthy_string (json_get cp ''beneficiaryAccountNumber'')) of
        (Some recipientPid, Some toAccount) \<Rightarrow>
          if recipientPid = [] then ret ''review''
          else
            let mirrorRef = nullish (map_option js_string (or_else (jval (px_response row) ''mirrorRef'') (jval (px_response row) ''dokuReferenceNo''))) [] in
            bind_eff (if mirrorRef \<noteq> [] then catch_default (get_row p (with_ref mirrorRef)) None else ret None) (\<lambda>hit.
            if hit \<noteq> None then ret ''exists''
            else
              bind_eff (catch_default (get_row p (mirror_of (pt_providerRef row))) None) (\<lambda>linked.
              if linked \<noteq> None then ret ''exists''
              else
                bind_eff (try_eff (withRetry p (ask (pv_txStatus p (pt_providerRef row))))) (\<lambda>res. case res of
                    Inl _ \<Rightarrow> ret ''review''
                  | Inr st \<Rightarrow>
                      if mapSacStatus (ss_code st) \<noteq> ''settled'' then ret ''review''
                      else bind_eff (lift_result (net_quote cp)) (\<lambda>net.
                        if net \<le> 0 then ret ''review'' else backfill_mirror p row recipientPid toAccount st net))))
      | _ \<Rightarrow> ret ''review'')"

fun mirror_each :: "'w sac_ports \<Rightarrow> point_tx list \<Rightarrow> string list \<times> string list \<Rightarrow> ('w points, string list \<times> string list) eff" where
  "mirror_each p [] acc = ret acc"
| "mirror_each p (row # rows) (mirrored, review) =
     bind_eff (catch_default (get_row p (mirror_of (pt_providerRef row))) None) (\<lambda>linked.
     if linked \<noteq> None then mirror_each p rows (mirrored, review)
     else bind_eff (catch_default (ensureTransferMirror p row) ''review'') (\<lambda>outcome.
       mirror_each p rows (if outcome = ''mirrored'' then mirrored @ [pt_providerRef row] else mirrored,
         if outcome = ''review'' then review @ [pt_providerRef row] else review)))"

definition adminBackfillMirrors :: "'w sac_ports \<Rightarrow> int option \<Rightarrow> ('w points, nat \<times> string list \<times> string list) eff" where
  "adminBackfillMirrors p limit =
     bind_eff (find_rows p (\<lambda>r. pt_kind r = ''transfer_internal'' \<and> open_leg (pt_providerStatus r))) (\<lambda>found.
     let rows = take (nat (clamp 1 500 (nullish limit 100))) (sort_key px_createdAt found) in
     bind_eff (mirror_each p rows ([], [])) (\<lambda>(mirrored, review). ret (length rows, mirrored, review)))"

section \<open>Retry\<close>

text \<open>\<^verbatim>\<open>{ confirmClaim, ...rest }\<close>.\<close>

definition without_claim :: "json option \<Rightarrow> json" where
  "without_claim v = (case v of Some (JObj kvs) \<Rightarrow> JObj (jsmap_delete ''confirmClaim'' kvs) | _ \<Rightarrow> JObj [])"

definition crashed_claim :: "point_tx \<Rightarrow> bool" where
  "crashed_claim row \<longleftrightarrow> pt_providerStatus row = ''processing'' \<and> truthy_string (json_get (px_response row) ''confirmClaim'') \<noteq> None
     \<and> json_get (px_response row) ''referenceNo'' = None"

definition retryTransfer :: "'w sac_ports \<Rightarrow> string \<Rightarrow> string \<Rightarrow> ('w points, point_view) eff" where
  "retryTransfer p pid i =
     bind_eff (get_row p (\<lambda>r. pt_id r = i \<and> pt_pid r = pid)) (\<lambda>x. case x of None \<Rightarrow> throw (NotFound ''Transfer not found'') | Some found \<Rightarrow>
       if pt_kind found \<noteq> ''transfer_internal'' then ret (toPointView found)
       else
         bind_eff (if crashed_claim found then mark_tx p (pt_id found) ''created'' (without_claim (px_response found)) else ret found) (\<lambda>row.
         if pt_providerStatus row \<noteq> ''failed'' \<and> \<not> (json_get (px_response row) ''referenceNo'' = None \<and> pt_providerStatus row = ''created'')
         then ret (toPointView row)
         else
           bind_eff (requireActive p pid) (\<lambda>account. case pointAccountOf account of
               None \<Rightarrow> throw (ServiceUnavailable ''POINT account unknown'')
             | Some fromAccount \<Rightarrow>
                 if fromAccount = [] then throw (ServiceUnavailable ''POINT account unknown'')
                 else
                   mapped ''transfer inquiry''
                     (bind_eff (sac_inquire p (point_transfer (pt_providerRef row) (pt_amountIdr row) fromAccount
                         (case json_get (pt_counterparty row) ''beneficiaryAccountNumber'' of None \<Rightarrow> ''undefined'' | Some v \<Rightarrow> js_string v))) (\<lambda>inquiry.
                      bind_eff (mark_tx p (pt_id row) ''created'' (si_raw inquiry)) (\<lambda>r. ret (toPointView r)))))))"

end
