(* ===== verification/Point_Redeem.thy ===== *)
theory Point_Redeem
  imports Point_Transfer
begin

text \<open>
  The redemption saga: the claimant check by replay, the burn of the points, the liquidity of the pool, the bank payout, the recovery of
  unfinished redemptions, and the administrator's sweep with the report of the backing and the kill switch.
\<close>

section \<open>Claimants\<close>

definition to_journal :: "point_tx \<Rightarrow> journal_row" where
  "to_journal r =
     \<lparr>jr_kind = pt_kind r, jr_pid = pt_pid r, jr_providerRef = pt_providerRef r, jr_providerStatus = pt_providerStatus r,
      jr_amountIdr = pt_amountIdr r, jr_direction = px_direction r, jr_entryGroup = px_group r, jr_extinguished = px_extinguished r,
      jr_counterparty = pt_counterparty r, jr_replaySeq = Some (px_seq r)\<rparr>"

definition replay_of :: "'w sac_ports \<Rightarrow> string \<Rightarrow> ('w points, journal_state) eff" where
  "replay_of p pid =
     bind_eff (find_rows p (\<lambda>r. pt_pid r = pid)) (\<lambda>rows. ret (replayJournal (map to_journal (take 5000 (sort_key px_seq rows)))))"

definition replayedBalance :: "'w sac_ports \<Rightarrow> string \<Rightarrow> ('w points, int) eff" where
  "replayedBalance p pid = bind_eff (replay_of p pid) (\<lambda>replayed. ret (points_of replayed pid))"

section \<open>Liquidity\<close>

definition pool_live :: "'w sac_ports \<Rightarrow> string \<Rightarrow> ('w points, int) eff" where
  "pool_live p pool =
     (let poolProfile = config p ''DOKU_TREASURY_PROFILE_ID'' []; unavailable = ServiceUnavailable ''Pool live balance unavailable -- set DOKU_TREASURY_PROFILE_ID'' in
      if poolProfile = [] then
        bind_eff (catch_default (find_account p (\<lambda>a. sa_accountNo a = Some pool)) None) (\<lambda>row.
        case Option.bind row sa_lastBalance of
          None \<Rightarrow> throw unavailable
        | Some cached \<Rightarrow> (case parseIdrStrict (RStr cached) ''pool cache'' of Inr n \<Rightarrow> ret n | Inl _ \<Rightarrow> throw unavailable))
      else
        bind_eff (withRetry p (ask (pv_balance p poolProfile))) (\<lambda>bal.
        lift_result (parse_field (Option.bind (of_type IDR_ACCOUNT (sl_accounts bal)) sc_available) ''pool balance'')))"

definition pool_transfer :: "string \<Rightarrow> int \<Rightarrow> string \<Rightarrow> string \<Rightarrow> transfer_request" where
  "pool_transfer ref amount from pool =
     \<lparr>tq_ref = ref, tq_type = ''DOKU_SUB_ACCOUNT'', tq_amount = amount, tq_currency = ''IDR'', tq_from = from, tq_to = pool, tq_bank = None, tq_channel = None\<rparr>"

definition consolidation_row :: "string \<Rightarrow> string \<Rightarrow> string \<Rightarrow> string \<Rightarrow> int \<Rightarrow> json \<Rightarrow> point_tx" where
  "consolidation_row pid from pool ref need raw =
     (blank_tx pid ''fiat_consolidation'' ref need)
       \<lparr>px_accountId := Some from, pt_netIdr := Some need, pt_providerStatus := ''processing'', px_direction := Some ''out'', px_source := Some from,
        px_dest := Some pool, px_group := Some ref, px_ledgerRef := Some ref, pt_ledgerStatus := Some ''issued'',
        pt_counterparty := Some (JObj [(''source'', JStr ''consolidation''), (''destination'', JStr ''treasury-pool'')]), px_response := Some raw\<rparr>"

definition consolidate_one :: "'w sac_ports \<Rightarrow> string \<Rightarrow> int \<Rightarrow> provider_account \<Rightarrow> string \<Rightarrow> ('w points, unit) eff" where
  "consolidate_one p pool need c from =
     bind_eff (buildInvoiceNumber p ''CN'') (\<lambda>ref.
     let q = pool_transfer ref need from pool in
     bind_eff (withRetry p (sac_inquire p q)) (\<lambda>inquiry.
     bind_eff (withRetry p (sac_pay p q (si_reference inquiry) (nullish (si_name inquiry) pool))) (\<lambda>paid.
     bind_eff (try_eff (create_tx p (consolidation_row (sa_pid c) from pool ref need (sp_raw paid)))) (\<lambda>_. ret ()))))"

fun consolidate :: "'w sac_ports \<Rightarrow> string \<Rightarrow> int \<Rightarrow> int \<Rightarrow> provider_account list \<Rightarrow> ('w points, unit) eff" where
  "consolidate p pool amount covered [] = ret ()"
| "consolidate p pool amount covered (c # cs) =
     (if covered \<ge> amount then ret ()
      else case sa_accountNo c of
          None \<Rightarrow> consolidate p pool amount covered cs
        | Some from \<Rightarrow>
            if from = [] then consolidate p pool amount covered cs
            else
              bind_eff (try_eff (consolidate_one p pool (amount - covered) c from)) (\<lambda>r.
              consolidate p pool amount (if is_ok r then covered + (amount - covered) else covered) cs))"

text \<open>\<^verbatim>\<open>orderBy lastBalanceAt desc\<close>: rows without a date come first.\<close>

definition pool_candidates :: "string \<Rightarrow> provider_account list \<Rightarrow> provider_account list" where
  "pool_candidates pool accounts =
     take 10 (sort_key (\<lambda>a. case sa_lastBalanceAt a of None \<Rightarrow> (False, 0) | Some stamp \<Rightarrow> (True, - stamp))
       (filter (\<lambda>a. sa_status a = ''active'' \<and> sa_accountNo a \<noteq> None \<and> sa_accountNo a \<noteq> Some pool) accounts))"

definition ensurePoolLiquidity :: "'w sac_ports \<Rightarrow> int \<Rightarrow> ('w points, unit) eff" where
  "ensurePoolLiquidity p amount =
     bind_eff (treasuryIdrAccount p) (\<lambda>pool.
     bind_eff (catch_default (pool_live p pool) 0) (\<lambda>live.
     if live \<ge> amount then ret ()
     else
       bind_eff (stmt p get_state) (\<lambda>s.
       bind_eff (consolidate p pool amount 0 (pool_candidates pool (po_accounts s))) (\<lambda>_.
       bind_eff (catch_default (pool_live p pool) 0) (\<lambda>now.
       if now < amount then throw (ServiceUnavailable ''Insufficient pool liquidity -- consolidation could not cover the payout'') else ret ())))))"

section \<open>The payout\<close>

text \<open>\<^verbatim>\<open>String(cp.key)\<close>.\<close>

definition js_field :: "json option \<Rightarrow> string \<Rightarrow> string" where
  "js_field cp key = (case json_get cp key of None \<Rightarrow> ''undefined'' | Some v \<Rightarrow> js_string v)"

definition payout_channel :: "json option \<Rightarrow> string" where
  "payout_channel cp = (case jval cp ''channel'' of None \<Rightarrow> ''BI_FAST'' | Some v \<Rightarrow> js_string v)"

definition payout_ref :: "point_tx \<Rightarrow> string" where
  "payout_ref parent = pt_providerRef parent @ ''-PAY''"

definition payout_request :: "point_tx \<Rightarrow> string \<Rightarrow> transfer_request" where
  "payout_request parent pool =
     (let cp = pt_counterparty parent in
      \<lparr>tq_ref = payout_ref parent, tq_type = ''BANK_ACCOUNT'', tq_amount = pt_amountIdr parent, tq_currency = ''IDR'', tq_from = pool,
       tq_to = js_field cp ''bankAccountNumber'', tq_bank = Some (js_field cp ''bankCode''), tq_channel = Some (payout_channel cp)\<rparr>)"

definition payout_row :: "point_tx \<Rightarrow> string \<Rightarrow> point_tx" where
  "payout_row parent pool =
     (let cp = pt_counterparty parent; field = (\<lambda>key. case json_get cp key of None \<Rightarrow> [] | Some v \<Rightarrow> [(key, v)]) in
      (blank_tx (pt_pid parent) ''fiat_payout'' (payout_ref parent) (pt_amountIdr parent))
        \<lparr>px_accountId := Some pool, pt_netIdr := Some (pt_amountIdr parent), px_direction := Some ''out'', px_source := Some pool,
         px_dest := Some (''BANK:'' @ js_field cp ''bankCode'' @ '':'' @ js_field cp ''bankAccountNumber''),
         px_group := Some (pt_providerRef parent), px_ledgerRef := Some (payout_ref parent), pt_ledgerStatus := Some ''pending'',
         pt_counterparty := Some (JObj ([(''parentRef'', JStr (pt_providerRef parent))] @ field ''bankCode'' @ field ''bankAccountNumber''
           @ field ''bankAccountName'' @ [(''channel'', JStr (payout_channel cp))]))\<rparr>)"

definition payout_attempt :: "'w sac_ports \<Rightarrow> point_tx \<Rightarrow> string \<Rightarrow> string \<Rightarrow> ('w points, unit) eff" where
  "payout_attempt p parent pool legId =
     (let q = payout_request parent pool; cp = pt_counterparty parent in
      bind_eff (withRetry p (sac_inquire p q)) (\<lambda>inquiry.
      bind_eff (withRetry p (sac_pay p q (si_reference inquiry)
          (case jval cp ''bankAccountName'' of Some v \<Rightarrow> js_string v | None \<Rightarrow> nullish (si_name inquiry) (js_field cp ''bankAccountNumber'')))) (\<lambda>paid.
      bind_eff (try_eff (withRetry p (ask (pv_txStatus p (payout_ref parent))))) (\<lambda>st.
      let status = (case st of Inl _ \<Rightarrow> ''processing'' | Inr x \<Rightarrow> mapSacStatus (ss_code x)) in
      bind_eff (mark_tx p legId status (sp_raw paid)) (\<lambda>_.
      bind_eff (try_update p (pt_id parent) (\<lambda>r. r\<lparr>pt_providerStatus := status,
          pt_ledgerStatus := Some (if status = ''settled'' then ''completed'' else if status = ''failed'' then ''payout_failed'' else ''burned'')\<rparr>)) (\<lambda>_.
      audit p (pt_pid parent) ''fiat.redemption.payout'' [(''providerRef'', JStr (payout_ref parent)), (''status'', JStr status)]))))))"

definition payout_failed :: "'w sac_ports \<Rightarrow> point_tx \<Rightarrow> string \<Rightarrow> http_error \<Rightarrow> ('w points, unit) eff" where
  "payout_failed p parent legId e =
     (if (case e of ProviderError n _ \<Rightarrow> n = 409 | _ \<Rightarrow> False) then
        bind_eff (withRetry p (ask (pv_txStatus p (payout_ref parent)))) (\<lambda>st.
        let status = mapSacStatus (ss_code st) in
        bind_eff (mark_tx p legId status (ss_raw st)) (\<lambda>_.
        try_update p (pt_id parent) (\<lambda>r. r\<lparr>pt_providerStatus := status,
          pt_ledgerStatus := Some (if status = ''settled'' then ''completed'' else ''payout_failed'')\<rparr>)))
      else
        bind_eff (mark_tx p legId ''failed'' (error_json e)) (\<lambda>_.
        bind_eff (try_update p (pt_id parent) (\<lambda>r. r\<lparr>pt_providerStatus := ''failed'', pt_ledgerStatus := Some ''payout_failed''\<rparr>)) (\<lambda>_. throw e)))"

definition executeRedemptionPayout :: "'w sac_ports \<Rightarrow> string \<Rightarrow> ('w points, unit) eff" where
  "executeRedemptionPayout p parentId =
     bind_eff (get_row p (with_id parentId)) (\<lambda>x. case x of None \<Rightarrow> ret () | Some parent \<Rightarrow>
       if pt_kind parent \<noteq> ''redemption'' then ret ()
       else
         bind_eff (get_row p (\<lambda>r. pt_kind r = ''fiat_payout'' \<and> with_ref (payout_ref parent) r)) (\<lambda>existing.
         case (case existing of None \<Rightarrow> None | Some r \<Rightarrow> if open_leg (pt_providerStatus r) then Some r else None) of
           Some paidLeg \<Rightarrow> try_update p (pt_id parent) (\<lambda>r. r\<lparr>pt_ledgerStatus := Some ''completed'', pt_providerStatus := pt_providerStatus paidLeg\<rparr>)
         | None \<Rightarrow>
             bind_eff (ensurePoolLiquidity p (pt_amountIdr parent)) (\<lambda>_.
             bind_eff (treasuryIdrAccount p) (\<lambda>pool.
             bind_eff (case existing of Some r \<Rightarrow> ret r | None \<Rightarrow> create_tx p (payout_row parent pool)) (\<lambda>leg.
             bind_eff (try_eff (payout_attempt p parent pool (pt_id leg))) (\<lambda>r. case r of
                 Inr _ \<Rightarrow> ret ()
               | Inl e \<Rightarrow> payout_failed p parent (pt_id leg) e))))))"

section \<open>The request\<close>

record redeem_input =
  rd_amountIdr :: string
  rd_bankCode :: string
  rd_number :: string
  rd_name :: string
  rd_channel :: "string option"
  rd_clientId :: "string option"

definition redemptionEnabled :: "'w sac_ports \<Rightarrow> bool" where
  "redemptionEnabled p \<longleftrightarrow> config p ''PID_REDEMPTION_ENABLED'' ''false'' = ''true''"

definition setRedemptionHalt :: "bool \<Rightarrow> ('w points, unit) eff" where
  "setRedemptionHalt halt = modify (\<lambda>s. s\<lparr>po_halted := halt\<rparr>)"

definition redemption_row :: "string \<Rightarrow> int \<Rightarrow> string \<Rightarrow> fee_breakdown \<Rightarrow> redeem_input \<Rightarrow> point_tx" where
  "redemption_row pid amount providerRef q input =
     (let fee = fb_globalFee q + fb_appFee q in
      (blank_tx pid ''redemption'' providerRef amount)
        \<lparr>pt_feeIdr := Some fee, pt_netIdr := Some (amount - fee), pt_ledgerStatus := Some ''requested'',
         pt_counterparty := Some (JObj ([(''bankCode'', JStr (rd_bankCode input)), (''bankAccountNumber'', JStr (rd_number input)),
           (''bankAccountName'', JStr (rd_name input)), (''channel'', JStr (nullish (rd_channel input) ''BI_FAST'')),
           (''feeQuote'', JStr (show_int (fb_globalFee q)))]
           @ (if nullish (fb_appId q) [] \<noteq> [] \<and> nullish (fb_appOwnerPid q) [] \<noteq> []
              then [(''appId'', JStr (nullish (fb_appId q) [])), (''appOwnerPid'', JStr (nullish (fb_appOwnerPid q) [])),
                (''appFeeQuote'', JStr (show_int (fb_appFee q)))] else [])))\<rparr>)"

definition burn_row :: "string \<Rightarrow> int \<Rightarrow> string \<Rightarrow> string \<Rightarrow> string \<Rightarrow> point_tx" where
  "burn_row pid amount providerRef userPoint systemPoint =
     (let burnRef = providerRef @ ''-BURN'' in
      (blank_tx pid ''points_redeem'' burnRef amount)
        \<lparr>px_accountId := Some userPoint, pt_netIdr := Some amount, px_direction := Some ''out'', px_source := Some userPoint,
         px_dest := Some systemPoint, px_group := Some providerRef, px_ledgerRef := Some burnRef, pt_ledgerStatus := Some ''pending'',
         pt_counterparty := Some (JObj [(''parentRef'', JStr providerRef), (''currency'', JStr ''POINT'')])\<rparr>)"

definition burn_request :: "point_tx \<Rightarrow> string \<Rightarrow> debit_request" where
  "burn_request parent userPoint =
     \<lparr>de_ref = pt_providerRef parent @ ''-BURN'', de_from = userPoint, de_amount = pt_amountIdr parent, de_currency = ''POINT''\<rparr>"

definition burn_points :: "'w sac_ports \<Rightarrow> point_tx \<Rightarrow> string \<Rightarrow> string \<Rightarrow> ('w points, string) eff" where
  "burn_points p parent burnId userPoint =
     bind_eff (try_eff (withRetry p (sac_debit p (burn_request parent userPoint)))) (\<lambda>r. case r of
         Inr burn \<Rightarrow> ret (mapSacStatus (Some (nullish (sd_code burn) ''03'')))
       | Inl e \<Rightarrow>
           if (case e of ProviderError n _ \<Rightarrow> n = 409 | _ \<Rightarrow> False) then
             bind_eff (withRetry p (ask (pv_txStatus p (pt_providerRef parent @ ''-BURN'')))) (\<lambda>st.
             bind_eff (mark_tx p burnId (mapSacStatus (ss_code st)) (ss_raw st)) (\<lambda>_. ret (mapSacStatus (ss_code st))))
           else
             bind_eff (mark_tx p burnId ''failed'' (error_json e)) (\<lambda>_.
             bind_eff (mark_tx p (pt_id parent) ''failed'' (error_json e)) (\<lambda>_.
             bind_eff (try_update p (pt_id parent) (\<lambda>r. r\<lparr>pt_ledgerStatus := Some ''failed''\<rparr>)) (\<lambda>_.
             throw (mapError ''redemption burn'' e)))))"

text \<open>A burn that is not settled: failed releases the request, anything else leaves it as burned for the sweep.\<close>

definition burn_open :: "'w sac_ports \<Rightarrow> point_tx \<Rightarrow> string \<Rightarrow> ('w points, point_view) eff" where
  "burn_open p parent status =
     bind_eff (mark_tx p (pt_id parent) (if status = ''failed'' then ''failed'' else ''processing'')
         (JObj [(''burnRef'', JStr (pt_providerRef parent @ ''-BURN''))])) (\<lambda>_.
     bind_eff (try_update p (pt_id parent) (\<lambda>r. r\<lparr>pt_ledgerStatus := Some (if status = ''failed'' then ''failed'' else ''burned'')\<rparr>)) (\<lambda>_.
     if status = ''failed'' then throw (ServiceUnavailable ''Redemption burn failed -- request released, balance untouched'')
     else bind_eff (get_row p (with_id (pt_id parent))) (\<lambda>row. case row of None \<Rightarrow> throw (JsError ''TypeError'') | Some r \<Rightarrow> ret (toPointView r))))"

definition burn_settled :: "'w sac_ports \<Rightarrow> point_tx \<Rightarrow> string \<Rightarrow> ('w points, point_view) eff" where
  "burn_settled p parent burnId =
     bind_eff (mark_tx p burnId ''settled'' (JObj [(''extinguished'', JBool True)])) (\<lambda>_.
     bind_eff (try_update p burnId (\<lambda>r. r\<lparr>px_extinguished := True, pt_ledgerStatus := Some ''issued''\<rparr>)) (\<lambda>_.
     bind_eff (try_update p (pt_id parent) (\<lambda>r. r\<lparr>pt_ledgerStatus := Some ''burned''\<rparr>)) (\<lambda>_.
     bind_eff (executeRedemptionPayout p (pt_id parent)) (\<lambda>_.
     bind_eff (get_row p (with_id (pt_id parent))) (\<lambda>fresh. ret (toPointView (nullish fresh parent)))))))"

definition redemption_attempt :: "'w sac_ports \<Rightarrow> point_tx \<Rightarrow> ('w points, point_view) eff" where
  "redemption_attempt p parent =
     bind_eff (pointAccountFor p (pt_pid parent) ''Claimant'') (\<lambda>userPoint.
     bind_eff (lift_result (systemPointAccount p)) (\<lambda>systemPoint.
     bind_eff (create_tx p (burn_row (pt_pid parent) (pt_amountIdr parent) (pt_providerRef parent) userPoint systemPoint)) (\<lambda>burn.
     bind_eff (burn_points p parent (pt_id burn) userPoint) (\<lambda>status.
     if status \<noteq> ''settled'' then burn_open p parent status else burn_settled p parent (pt_id burn)))))"

definition passes_through :: "http_error \<Rightarrow> bool" where
  "passes_through e = (case e of BadRequest _ \<Rightarrow> True | ServiceUnavailable _ \<Rightarrow> True | Forbidden _ \<Rightarrow> True | _ \<Rightarrow> False)"

definition redemptionInner :: "'w sac_ports \<Rightarrow> string \<Rightarrow> int \<Rightarrow> redeem_input \<Rightarrow> ('w points, point_view) eff" where
  "redemptionInner p pid amount input =
     bind_eff (replayedBalance p pid) (\<lambda>own.
     if own < amount then
       throw (BadRequest (''Insufficient redeemable balance (owns '' @ show_int own @ '', requested '' @ show_int amount @ '')''))
     else
       bind_eff (clock p) (\<lambda>now.
       bind_eff (stmt p (\<lambda>s. (Inr (quoteFees now (po_fiat s) (rd_clientId input) ''withdraw'' amount), s))) (\<lambda>q.
       bind_eff (buildInvoiceNumber p ''RD'') (\<lambda>providerRef.
       bind_eff (create_tx p (redemption_row pid amount providerRef q input)) (\<lambda>parent.
       bind_eff (try_eff (redemption_attempt p parent)) (\<lambda>r. case r of
           Inr v \<Rightarrow> ret v
         | Inl e \<Rightarrow>
             if passes_through e then throw e
             else bind_eff (mark_tx p (pt_id parent) ''failed'' (error_json e)) (\<lambda>_. throw (mapError ''redemption'' e))))))))"

definition requestRedemption :: "'w sac_ports \<Rightarrow> string \<Rightarrow> redeem_input \<Rightarrow> ('w points, point_view) eff" where
  "requestRedemption p pid input =
     (if \<not> redemptionEnabled p then throw (Forbidden ''Withdrawals are disabled'')
      else bind_eff get_state (\<lambda>s.
        if po_halted s then throw (ServiceUnavailable ''Withdrawals halted pending ops review of a backing discrepancy -- try again later'')
        else bind_eff (lift_result (parseGross (rd_amountIdr input))) (\<lambda>amount. redemptionInner p pid amount input)))"

section \<open>Recovery\<close>

definition recover_one :: "'w sac_ports \<Rightarrow> point_tx \<Rightarrow> ('w points, nat \<times> nat) eff" where
  "recover_one p r =
     (if pt_ledgerStatus r = Some ''burned'' \<or> pt_ledgerStatus r = Some ''payout_failed'' then
        bind_eff (try_eff (executeRedemptionPayout p (pt_id r))) (\<lambda>x. ret (if is_ok x then 1 else 0, 0))
      else bind_eff (clock p) (\<lambda>now.
        if now - px_createdAt r > 15 * 60000 then
          bind_eff (try_eff (mark_tx p (pt_id r) ''cancelled'' (JObj [(''expired'', JBool True)]))) (\<lambda>_.
          bind_eff (try_update p (pt_id r) (\<lambda>x. x\<lparr>pt_ledgerStatus := Some ''expired''\<rparr>)) (\<lambda>_. ret (0, 1)))
        else ret (0, 0)))"

fun recover_each :: "'w sac_ports \<Rightarrow> nat \<times> nat \<Rightarrow> point_tx list \<Rightarrow> ('w points, nat \<times> nat) eff" where
  "recover_each p acc [] = ret acc"
| "recover_each p (resumed, expired) (r # rows) =
     bind_eff (recover_one p r) (\<lambda>(a, b). recover_each p (resumed + a, expired + b) rows)"

definition recoverRedemptions :: "'w sac_ports \<Rightarrow> ('w points, nat \<times> nat) eff" where
  "recoverRedemptions p =
     bind_eff (find_rows p (\<lambda>r. pt_kind r = ''redemption'' \<and> (pt_providerStatus r = ''created'' \<or> pt_providerStatus r = ''processing''))) (\<lambda>found.
     recover_each p (0, 0) (take 50 found))"

end
