(* ===== verification/Point_Sweep.thy ===== *)
theory Point_Sweep
  imports Point_Redeem
begin

text \<open>
  The administrator's sweep: it completes what is outstanding of every active account, reports the backing of the points, halts redemptions when a
  difference is not explained, and recovers unfinished redemptions. Accounts are stored in the order of their creation.
\<close>

section \<open>The backing of one account\<close>

record backing =
  bk_live :: int
  bk_replayed :: int
  bk_treasury :: int
  bk_fiat :: int
  bk_inFlight :: "string list"
  bk_alerts :: "string list"

definition backing_num :: "sac_account list \<Rightarrow> string \<Rightarrow> (sac_account \<Rightarrow> raw_amount option) \<Rightarrow> int" where
  "backing_num accounts atype field = (case parse_field (Option.bind (of_type atype accounts) field) ''backing'' of Inl _ \<Rightarrow> 0 | Inr n \<Rightarrow> n)"

definition backingReport :: "'w sac_ports \<Rightarrow> string \<Rightarrow> ('w points, backing) eff" where
  "backingReport p pid =
     bind_eff (requireActive p pid) (\<lambda>account.
     if nullish (sa_profileId account) [] = [] then throw (ServiceUnavailable ''Sub-account not registered'')
     else
       bind_eff (withRetry p (ask (pv_balance p (nullish (sa_profileId account) [])))) (\<lambda>bal.
       let accounts = sl_accounts bal;
           livePoints = backing_num accounts POINT_ACCOUNT sc_available + backing_num accounts POINT_ACCOUNT sc_reserved;
           fiatBacking = backing_num accounts IDR_ACCOUNT sc_available + backing_num accounts IDR_ACCOUNT sc_reserved
             + backing_num accounts PENDING_ACCOUNT sc_available
       in bind_eff (replay_of p pid) (\<lambda>replayed.
          let own = points_of replayed pid in
          ret \<lparr>bk_live = livePoints, bk_replayed = own, bk_treasury = js_treasury replayed, bk_fiat = fiatBacking,
               bk_inFlight = js_inFlight replayed,
               bk_alerts = (if own \<noteq> livePoints
                   then [''INVARIANT-1 journal replay '' @ show_int own @ '' != live DOKU '' @ show_int livePoints] else [])
                 @ map (\<lambda>e. ''INVARIANT-1 replay error: '' @ e) (js_errors replayed)\<rparr>)))"

section \<open>What is outstanding\<close>

fun sweep_deposits :: "'w sac_ports \<Rightarrow> nat \<Rightarrow> point_tx list \<Rightarrow> ('w points, nat) eff" where
  "sweep_deposits p n [] = ret n"
| "sweep_deposits p n (r # rows) =
     (if pt_ledgerStatus r = Some ''issued'' then sweep_deposits p n rows
      else
        bind_eff (issuePointsForDeposit p (pt_id r) ''sweep'') (\<lambda>_.
        bind_eff (ledger_issue p (pt_id r) ''sweep'') (\<lambda>_. sweep_deposits p (n + 1) rows)))"

definition sweep_fee :: "'w sac_ports \<Rightarrow> string \<Rightarrow> point_tx \<Rightarrow> ('w points, nat) eff" where
  "sweep_fee p pid t =
     (let feeRef = pt_providerRef t @ ''-PTFEE''; fee = quoted (pt_counterparty t) ''feeQuote'' 0 in
      bind_eff (catch_default (get_row p (\<lambda>r. pt_kind r = ''points_fee'' \<and> with_ref feeRef r)) None) (\<lambda>feeLeg.
      if (case feeLeg of None \<Rightarrow> False | Some r \<Rightarrow> open_leg (pt_providerStatus r)) \<or> fee \<le> 0 then ret 0
      else bind_eff (try_eff (pointAccountFor p pid ''Sender'')) (\<lambda>account. case account of
          Inl _ \<Rightarrow> ret 0
        | Inr fromPoint \<Rightarrow> bind_eff (try_eff (executePointFeeLeg p pid fromPoint feeRef fee (pt_providerRef t))) (\<lambda>_. ret 1))))"

definition corroborate_transfer :: "'w sac_ports \<Rightarrow> point_tx \<Rightarrow> ('w points, nat) eff" where
  "corroborate_transfer p t =
     bind_eff (withRetry p (ask (pv_txStatus p (pt_providerRef t)))) (\<lambda>st.
     let status = mapSacStatus (ss_code st) in
     if status = ''processing'' then ret 0
     else
       bind_eff (mark_tx p (pt_id t) status (ss_raw st)) (\<lambda>_.
       bind_eff (catch_default (get_row p (mirror_of (pt_providerRef t))) None) (\<lambda>mirror.
       bind_eff (case mirror of
           None \<Rightarrow> ret ()
         | Some m \<Rightarrow>
             if status \<noteq> ''settled'' then ret ()
             else bind_eff (mark_tx p (pt_id m) ''settled'' (ss_raw st)) (\<lambda>_.
               try_update p (pt_id m) (\<lambda>r. r\<lparr>pt_ledgerStatus := Some ''issued''\<rparr>))) (\<lambda>_. ret 1))))"

definition sweep_transfer :: "'w sac_ports \<Rightarrow> string \<Rightarrow> point_tx \<Rightarrow> ('w points, nat) eff" where
  "sweep_transfer p pid t =
     bind_eff (sweep_fee p pid t) (\<lambda>a.
     bind_eff (if pt_providerStatus t = ''processing'' then catch_default (corroborate_transfer p t) 0 else ret 0) (\<lambda>b.
     bind_eff (catch_default (ensureTransferMirror p t) ''review'') (\<lambda>outcome.
     ret (a + b + (if outcome = ''mirrored'' then 1 else 0)))))"

fun sweep_transfers :: "'w sac_ports \<Rightarrow> string \<Rightarrow> nat \<Rightarrow> point_tx list \<Rightarrow> ('w points, nat) eff" where
  "sweep_transfers p pid n [] = ret n"
| "sweep_transfers p pid n (t # ts) = bind_eff (sweep_transfer p pid t) (\<lambda>k. sweep_transfers p pid (n + k) ts)"

record swept =
  sq_pid :: string
  sq_checked :: nat
  sq_transfers :: nat
  sq_completed :: nat
  sq_backing :: backing

definition sweep_account :: "'w sac_ports \<Rightarrow> string \<Rightarrow> ('w points, swept) eff" where
  "sweep_account p pid =
     bind_eff (find_rows p (\<lambda>r. pt_pid r = pid \<and> pt_kind r = ''deposit'' \<and> (pt_providerStatus r = ''settled'' \<or> pt_providerStatus r = ''success''))) (\<lambda>deposits.
     let settled = take 100 (sort_key px_createdAt deposits) in
     bind_eff (sweep_deposits p 0 settled) (\<lambda>n.
     bind_eff (find_rows p (\<lambda>r. pt_pid r = pid \<and> pt_kind r = ''transfer_internal'' \<and> open_leg (pt_providerStatus r))) (\<lambda>found.
     let transfers = take 50 (sort_key px_createdAt found) in
     bind_eff (sweep_transfers p pid n transfers) (\<lambda>completed.
     bind_eff (backingReport p pid) (\<lambda>report.
     ret \<lparr>sq_pid = pid, sq_checked = length settled, sq_transfers = length transfers, sq_completed = completed, sq_backing = report\<rparr>)))))"

fun sweep_accounts :: "'w sac_ports \<Rightarrow> (string \<times> swept result) list \<Rightarrow> string list \<Rightarrow> ('w points, (string \<times> swept result) list) eff" where
  "sweep_accounts p acc [] = ret acc"
| "sweep_accounts p acc (pid # pids) = bind_eff (try_eff (sweep_account p pid)) (\<lambda>r. sweep_accounts p (acc @ [(pid, r)]) pids)"

section \<open>Adjustments\<close>

definition pg_item :: "sac_item \<Rightarrow> int" where
  "pg_item it =
     (if sh_transactionType it = Some ''SETTLEMENT_FEE'' \<and> sh_status it = Some ''SUCCESS'' then
        (case sh_amountIdr it of None \<Rightarrow> 0 | Some x \<Rightarrow> (case parseIdrStrict (RStr x) ''pg amount'' of Inl _ \<Rightarrow> 0 | Inr n \<Rightarrow> n))
      else 0)"

text \<open>At most two pages of the history; a failed page ends the scan.\<close>

fun pg_pages :: "'w sac_ports \<Rightarrow> string \<Rightarrow> string \<Rightarrow> string \<Rightarrow> nat list \<Rightarrow> int \<Rightarrow> ('w points, int) eff" where
  "pg_pages p accountNo since until [] acc = ret acc"
| "pg_pages p accountNo since until (page # pages) acc =
     bind_eff (try_eff (ask (pv_history p accountNo since until page))) (\<lambda>r. case r of
         Inl _ \<Rightarrow> ret acc
       | Inr items \<Rightarrow>
           let acc' = acc + sum_list (map pg_item items) in
           if length items < 100 then ret acc' else pg_pages p accountNo since until pages acc')"

definition pgObservedForIdrAccount :: "'w sac_ports \<Rightarrow> string \<Rightarrow> string \<Rightarrow> string \<Rightarrow> ('w points, int) eff" where
  "pgObservedForIdrAccount p accountNo since until = pg_pages p accountNo since until [0, 1] 0"

fun pg_accounts :: "'w sac_ports \<Rightarrow> string \<Rightarrow> string \<Rightarrow> int \<Rightarrow> string list \<Rightarrow> ('w points, int) eff" where
  "pg_accounts p since until acc [] = ret acc"
| "pg_accounts p since until acc (pid # pids) =
     bind_eff (catch_default (find_account p (\<lambda>a. sa_pid a = pid)) None) (\<lambda>row.
     let idrNo = nullish (Option.bind row sa_accountNo) [] in
     if idrNo = [] then pg_accounts p since until acc pids
     else bind_eff (pgObservedForIdrAccount p idrNo since until) (\<lambda>pg. pg_accounts p since until (acc + pg) pids))"

definition redemptionReserveIdr :: "'w sac_ports \<Rightarrow> int" where
  "redemptionReserveIdr p =
     (let raw = config p ''PID_REDEMPTION_RESERVE_IDR'' ''0''
      in case parseIdrStrict (RStr (if raw = [] then ''0'' else raw)) ''reserve'' of Inl _ \<Rightarrow> 0 | Inr n \<Rightarrow> n)"

definition treasuryLiveFromHistory :: "'w sac_ports \<Rightarrow> ('w points, int) eff" where
  "treasuryLiveFromHistory p =
     bind_eff (find_rows p (\<lambda>r. pt_kind r = ''points_fee'' \<and> pt_providerStatus r = ''settled'')) (\<lambda>legs.
     ret (foldl (\<lambda>acc r. acc + pt_amountIdr r) 0 (take 5000 legs)))"

definition treasury_live :: "'w sac_ports \<Rightarrow> ('w points, int \<times> string) eff" where
  "treasury_live p =
     (let profile = config p ''DOKU_TREASURY_PROFILE_ID'' []; projection = bind_eff (treasuryLiveFromHistory p) (\<lambda>n. ret (n, ''projection'')) in
      catch_default
        (if profile = [] then projection
         else bind_eff (withRetry p (ask (pv_balance p profile))) (\<lambda>tb.
           case of_type POINT_ACCOUNT (sl_accounts tb) of
             None \<Rightarrow> projection
           | Some tp \<Rightarrow> (case bind_result (parse_field (sc_available tp) ''treasury'') (\<lambda>a. bind_result (parse_field (sc_reserved tp) ''treasury'') (\<lambda>b. Inr (a + b))) of
                 Inl _ \<Rightarrow> projection
               | Inr n \<Rightarrow> ret (n, ''live''))))
        (0, ''projection''))"

section \<open>The sweep\<close>

definition points_kind :: "string \<Rightarrow> bool" where
  "points_kind k \<longleftrightarrow> List.member [''points_issue'', ''points_fee'', ''points_credit'', ''points_clawback'', ''points_redeem''] k"

record sweep_view =
  sx_total :: nat
  sx_results :: "(string \<times> swept result) list"
  sx_live :: int
  sx_outstanding :: int
  sx_backing :: int
  sx_gap :: int
  sx_pgObserved :: int
  sx_reserve :: int
  sx_allowance :: int
  sx_unexplained :: int
  sx_explained :: bool
  sx_recovery :: "(nat \<times> nat) option"
  sx_halted :: bool

definition sum_backing :: "(backing \<Rightarrow> int) \<Rightarrow> (string \<times> swept result) list \<Rightarrow> int" where
  "sum_backing f results = sum_list (map (\<lambda>(_, r). case r of Inl _ \<Rightarrow> 0 | Inr x \<Rightarrow> f (sq_backing x)) results)"

definition backing_explained :: "int \<Rightarrow> int \<Rightarrow> bool" where
  "backing_explained unexplained allowance \<longleftrightarrow> (if unexplained < 0 then - unexplained \<le> allowance else unexplained \<le> allowance)"

text \<open>A day of the window: \<^verbatim>\<open>toISOString().slice(0, 10)\<close>.\<close>

definition iso_day :: "'w sac_ports \<Rightarrow> int \<Rightarrow> string" where
  "iso_day p now = take 10 (env_iso (pv_env p) now)"

definition adminSweep :: "'w sac_ports \<Rightarrow> int option \<Rightarrow> int option \<Rightarrow> ('w points, sweep_view) eff" where
  "adminSweep p limit offset =
     bind_eff (stmt p (\<lambda>s. (Inr (length (filter (\<lambda>a. sa_status a = ''active'') (po_accounts s))), s))) (\<lambda>n.
     bind_eff (stmt p (\<lambda>s. (Inr (map sa_pid (take (nat (clamp 1 100 (nullish limit 20)))
         (drop (nat (nullish offset 0)) (filter (\<lambda>a. sa_status a = ''active'') (po_accounts s))))), s))) (\<lambda>pids.
     bind_eff (sweep_accounts p [] pids) (\<lambda>results.
     bind_eff (treasury_live p) (\<lambda>(treasuryLive, _).
     let outstanding = sum_backing bk_replayed results + sum_backing bk_treasury results; fiat = sum_backing bk_fiat results; gap = outstanding - fiat in
     bind_eff (clock p) (\<lambda>now.
     bind_eff (pg_accounts p (iso_day p (now - 30 * 24 * 3600000)) (iso_day p now) 0 pids) (\<lambda>pgObserved.
     bind_eff (catch_default (bind_eff (find_rows p (\<lambda>r. List.member pids (pt_pid r) \<and> points_kind (pt_kind r) \<and> pt_providerStatus r = ''settled''))
         (\<lambda>rows. ret (int (length rows)))) 0) (\<lambda>allowance.
     let reserve = redemptionReserveIdr p; unexplained = gap - pgObserved - reserve; explained = backing_explained unexplained allowance in
     bind_eff (if explained then ret () else setRedemptionHalt True) (\<lambda>_.
     bind_eff (if redemptionEnabled p then bind_eff (catch_default (recoverRedemptions p) (0, 0)) (\<lambda>r. ret (Some r)) else ret None) (\<lambda>recovery.
     bind_eff get_state (\<lambda>s.
     ret \<lparr>sx_total = n, sx_results = results, sx_live = sum_backing bk_live results + treasuryLive, sx_outstanding = outstanding, sx_backing = fiat,
       sx_gap = gap, sx_pgObserved = pgObserved, sx_reserve = reserve, sx_allowance = allowance, sx_unexplained = unexplained,
       sx_explained = explained, sx_recovery = recovery, sx_halted = po_halted s\<rparr>))))))))))"

end
