(* ===== verification/Point_Frame.thy ===== *)
theory Point_Frame
  imports Point_Sweep
begin

text \<open>
  What the methods of the sub-account service do to the trace of provider requests. The locale \<open>points_frame\<close> carries a preorder along
  every helper, as long as the requests are of an allowed form and the writes of rows keep the preorder; it is interpreted on \<open>requests G\<close>, which
  lets the trace grow by requests with \<open>G\<close>.
\<close>

locale points_frame = frame R for R :: "'w points \<Rightarrow> 'w points \<Rightarrow> bool" +
  fixes allowed :: "provider_call \<Rightarrow> bool"
  assumes quiet: "po_rows t = po_rows s \<Longrightarrow> po_calls t = po_calls s \<Longrightarrow> po_next t = po_next s \<Longrightarrow> R s t"
    and called: "allowed c \<Longrightarrow> R s (s\<lparr>po_calls := po_calls s @ [c]\<rparr>)"
begin

lemma keeps_ask [keeps_intros]: "preserves R (ask f)"
  by (auto simp: preserves_def ask_def quiet split: prod.split)

lemma keeps_call: "allowed c \<Longrightarrow> preserves R (call c f)"
  unfolding call_def by (intro keeps_bind keeps_modify keeps_ask called)

lemma keeps_requests:
  "allowed (CallInquiry q) \<Longrightarrow> preserves R (sac_inquire p q)" "allowed (CallPayment q reference name) \<Longrightarrow> preserves R (sac_pay p q reference name)"
  "allowed (CallDebit d) \<Longrightarrow> preserves R (sac_debit p d)"
  by (simp_all add: sac_inquire_def sac_pay_def sac_debit_def keeps_call)

lemma keeps_clock [keeps_intros]: "preserves R (clock p)"
  by (auto simp: preserves_def clock_def refl)

lemma keeps_stmt [keeps_intros]: "preserves R m \<Longrightarrow> preserves R (stmt p m)"
proof -
  assume m: "preserves R m"
  have w: "R s (s\<lparr>po_world := w\<rparr>)" for s w by (simp add: quiet)
  show ?thesis using m trans [OF w] by (auto simp: preserves_def stmt_def w split: prod.split)
qed

lemma keeps_quietly [keeps_intros]:
  "(\<And>s. po_rows (snd (m s)) = po_rows s \<and> po_calls (snd (m s)) = po_calls s \<and> po_next (snd (m s)) = po_next s) \<Longrightarrow> preserves R m"
  by (simp add: preserves_def quiet)

lemma keeps_reads [keeps_intros]:
  "preserves R (find_rows p P)" "preserves R (get_row p P)" "preserves R (find_account p Q)" "preserves R (stmt p get_state)"
  "preserves R (stmt p (\<lambda>s. (h s, s)))" "preserves R (active_fee_policy p)"
  unfolding find_rows_def get_row_def find_account_def active_fee_policy_def
  by (intro keeps_stmt keeps_pure; simp add: preserves_def refl)+

lemma keeps_audit [keeps_intros]: "preserves R (audit p pid event detail)"
  unfolding audit_def by (intro keeps_catch keeps_stmt keeps_modify quiet) simp_all

lemma keeps_invoice [keeps_intros]: "preserves R (buildInvoiceNumber p prefix)"
  by (rule keeps_quietly) (simp add: buildInvoiceNumber_def split: prod.split)

lemma keeps_wait [keeps_intros]: "preserves R (backoff_wait p i)"
  by (rule keeps_quietly) (simp add: backoff_wait_def split: prod.split)

lemma keeps_retry_from: "preserves R fn \<Longrightarrow> preserves R (retry_from p i n fn)"
  by (induction n arbitrary: i) (auto intro!: keeps_bind keeps_try keeps_pure keeps_wait split: sum.split)

lemma keeps_withRetry [keeps_intros]: "preserves R fn \<Longrightarrow> preserves R (withRetry p fn)"
  by (simp add: withRetry_def keeps_retry_from)

lemma keeps_mapped [keeps_intros]: "preserves R m \<Longrightarrow> preserves R (mapped what m)"
  unfolding mapped_def by (auto intro!: keeps_bind keeps_try keeps_pure split: sum.split)

lemma keeps_update_account [keeps_intros]: "preserves R (update_account p pid f)"
  unfolding update_account_def
  by (intro keeps_stmt keeps_quietly) (simp split: option.split)

lemma keeps_accounts [keeps_intros]:
  "preserves R (requireAccount p pid)" "preserves R (requireActive p pid)" "preserves R (live_balance p pid)" "preserves R (pointAccountFor p pid what)"
proof -
  show a: "preserves R (requireAccount p pid)" for pid
    unfolding requireAccount_def by (auto intro!: keeps_bind keeps_reads keeps_pure split: option.split)
  show b: "preserves R (requireActive p pid)" for pid
    unfolding requireActive_def by (auto intro!: keeps_bind a keeps_pure)
  show c: "preserves R (live_balance p pid)" for pid
    unfolding live_balance_def Let_def
    by (auto intro!: keeps_bind b keeps_mapped keeps_withRetry keeps_ask keeps_clock keeps_try keeps_update_account keeps_pure)
  show "preserves R (pointAccountFor p pid what)"
    unfolding pointAccountFor_def Let_def
    by (auto intro!: keeps_bind keeps_reads keeps_mapped c keeps_pure split: option.split)
qed

lemma keeps_cached:
  assumes "\<And>c s. po_rows (store c s) = po_rows s \<and> po_calls (store c s) = po_calls s \<and> po_next (store c s) = po_next s"
  shows "preserves R (cached_account p key cache store atype what missing absent)"
  unfolding cached_account_def Let_def using assms
  by (auto intro!: keeps_bind keeps_mapped keeps_withRetry keeps_ask keeps_clock keeps_pure keeps_modify quiet split: option.split)

lemma keeps_treasury [keeps_intros]: "preserves R (treasuryPointAccount p)" "preserves R (treasuryIdrAccount p)"
  unfolding treasuryPointAccount_def treasuryIdrAccount_def by (rule keeps_cached, simp)+

lemma keeps_later [keeps_intros]: "preserves R (later i source internal)"
  unfolding later_def by (intro keeps_modify quiet) simp_all

end

section \<open>Writes of rows\<close>

text \<open>\<open>writes f\<close>: updating rows with \<open>f\<close> keeps the preorder; \<open>inserts d\<close>: creating \<open>d\<close> does.\<close>

locale row_frame = points_frame R allowed for R :: "'w points \<Rightarrow> 'w points \<Rightarrow> bool" and allowed +
  fixes p :: "'w sac_ports" and writes :: "(point_tx \<Rightarrow> point_tx) \<Rightarrow> bool" and inserts :: "point_tx \<Rightarrow> bool"
  assumes wrote: "writes f \<Longrightarrow> R s (s\<lparr>po_rows := map (\<lambda>x. if P x then f x else x) (po_rows s)\<rparr>)"
    and inserted: "inserts d \<Longrightarrow> R s (s\<lparr>po_rows := po_rows s @ [d\<lparr>pt_id := env_uuid (pv_env p) (po_next s), px_seq := n, px_createdAt := now\<rparr>],
        po_next := Suc (po_next s)\<rparr>)"
begin

lemma keeps_create: "inserts d \<Longrightarrow> preserves R (create_tx p d)"
  unfolding create_tx_def Let_def by (intro keeps_stmt) (simp add: preserves_def refl inserted)

lemma keeps_update: "writes f \<Longrightarrow> preserves R (update_tx p i f)"
  unfolding update_tx_def by (intro keeps_stmt) (simp add: preserves_def refl wrote split: option.split)

lemma keeps_try_update: "writes f \<Longrightarrow> preserves R (try_update p i f)"
  unfolding try_update_def by (intro keeps_bind keeps_try keeps_update keeps_pure)

lemma keeps_claim: "writes f \<Longrightarrow> preserves R (claim_tx p i P f)"
  unfolding claim_tx_def by (intro keeps_stmt) (simp add: preserves_def wrote)

lemma keeps_mark: "writes (\<lambda>r. r\<lparr>pt_providerStatus := status, px_response := Some raw\<rparr>) \<Longrightarrow> preserves R (mark_tx p i status raw)"
  unfolding mark_tx_def by (rule keeps_update)

lemma keeps_upsert: "inserts d \<Longrightarrow> writes f \<Longrightarrow> preserves R (upsert_tx p d f)"
  unfolding upsert_tx_def by (intro keeps_bind keeps_cases keeps_pure keeps_create keeps_update)

lemma keeps_match: "(\<And>cp. writes (\<lambda>r. r\<lparr>pt_ledgerStatus := Some ''blocked'', pt_counterparty := Some cp\<rparr>)) \<Longrightarrow> preserves R (assertInvoiceAmountMatch p i gross paid)"
  unfolding assertInvoiceAmountMatch_def counterpartyWith_def
  by (intro keeps_bind keeps_cases keeps_catch keeps_reads keeps_try_update keeps_pure)

lemma keeps_corroborate:
  assumes "\<And>cp. writes (\<lambda>r. r\<lparr>pt_ledgerStatus := Some ''blocked'', pt_counterparty := Some cp\<rparr>)"
  shows "preserves R (corroborateCheckoutPayment p ref)" "preserves R (checkout_corroborated p row)" "preserves R (va_corroborated p row)"
  unfolding checkout_corroborated_def va_corroborated_def corroborateCheckoutPayment_def Let_def
  by (intro keeps_bind keeps_cases keeps_try keeps_withRetry keeps_ask keeps_match keeps_try_update keeps_pure assms)+

lemma keeps_settle_leg:
  assumes "\<And>status raw. writes (\<lambda>r. r\<lparr>pt_providerStatus := status, px_response := Some raw\<rparr>)" "\<And>x. writes (\<lambda>r. r\<lparr>pt_ledgerStatus := Some x\<rparr>)"
  shows "preserves R (settle_leg p i status raw)" "preserves R (adopt_status p i st)"
  unfolding adopt_status_def settle_leg_def Let_def by (intro keeps_bind keeps_mark keeps_try_update keeps_pure assms)+

lemma keeps_propose:
  assumes "\<And>pid ref n cp u. inserts ((clawback_row pid ref n cp)\<lparr>px_accountId := u, px_source := u, pt_ledgerStatus := Some ''review''\<rparr>)"
  shows "preserves R (propose_quietly p ref reason signal reversal)"
proof -
  have a: "preserves R (prior_clawbacks p ref)" for ref unfolding prior_clawbacks_def by (intro keeps_catch keeps_reads)
  have b: "preserves R (propose_candidate p parent reason signal reversal n)" for parent reversal n
    unfolding propose_candidate_def Let_def by (intro keeps_bind a keeps_try keeps_accounts keeps_create keeps_audit keeps_pure assms)
  show ?thesis unfolding propose_quietly_def proposeClawback_def Let_def
    by (intro keeps_bind keeps_try keeps_cases keeps_catch keeps_reads keeps_audit keeps_pure b)
qed

end

section \<open>Frames that ignore the rows\<close>

locale request_frame = row_frame R allowed p "\<lambda>_. True" "\<lambda>_. True" for R :: "'w points \<Rightarrow> 'w points \<Rightarrow> bool" and allowed p
begin

lemmas keeps_rows [keeps_intros] = keeps_create [OF TrueI] keeps_update [OF TrueI] keeps_claim [OF TrueI] keeps_mark [OF TrueI]
  keeps_try_update [OF TrueI] keeps_upsert [OF TrueI TrueI] keeps_match [OF TrueI] keeps_corroborate [OF TrueI] keeps_settle_leg [OF TrueI TrueI]
  keeps_propose [OF TrueI]

lemma keeps_markPayment [keeps_intros]: "preserves R (markPayment p i payment raw)"
  unfolding markPayment_def Let_def by (rule keeps_rows)

lemma keeps_views [keeps_intros]: "preserves R (attachFeeStatus p v)" "preserves R (fresh_view p pid r)"
  unfolding fresh_view_def attachFeeStatus_def
  by (auto intro!: keeps_bind keeps_reads keeps_try keeps_pure split: sum.split)

lemma keeps_topup:
  assumes "\<And>sys. systemPointAccount p = Inr sys \<Longrightarrow> allowed (CallInquiry (topup_request t sys))"
    "\<And>sys reference name. systemPointAccount p = Inr sys \<Longrightarrow> allowed (CallPayment (topup_request t sys) reference name)"
  shows "preserves R (executePointTopup p t)"
proof (cases "systemPointAccount p")
  case (Inl e)
  then show ?thesis by (simp add: executePointTopup_def bind_eff_def preserves_def refl)
next
  case (Inr sys)
  have "preserves R (topup_attempt p t sys)"
    unfolding topup_attempt_def Let_def
    by (intro keeps_bind keeps_withRetry keeps_requests keeps_ask assms Inr)
  moreover have "bind_eff (lift_result (Inr sys)) f = f sys" for f :: "string \<Rightarrow> ('w points, string) eff"
    by (simp add: fun_eq_iff bind_eff_def)
  ultimately show ?thesis
    unfolding executePointTopup_def Inr
    by (simp only:) (intro keeps_bind keeps_cases keeps_reads keeps_rows keeps_pure keeps_try keeps_withRetry keeps_ask)
qed

end

section \<open>The trace of requests\<close>

definition requests :: "(provider_call \<Rightarrow> bool) \<Rightarrow> 'w points \<Rightarrow> 'w points \<Rightarrow> bool" where
  "requests G s t \<longleftrightarrow> (\<exists>new. po_calls t = po_calls s @ new \<and> list_all G new)"

interpretation requested: request_frame "requests G" G p for G p
  by unfold_locales (auto simp: requests_def list_all_append)

definition new_calls :: "'w points \<Rightarrow> 'w points \<Rightarrow> provider_call list" where
  "new_calls s t = drop (length (po_calls s)) (po_calls t)"

lemma requests_new: "requests G s t \<Longrightarrow> list_all G (new_calls s t)"
  by (auto simp: requests_def new_calls_def)

text \<open>What a call answered, through its retries.\<close>

lemma retry_answer:
  "retry_from p i n fn s = (Inr a, t) \<Longrightarrow> \<exists>u v. fn u = (Inr a, v)"
proof (induction n arbitrary: i s)
  case (Suc n)
  then show ?case
    by (cases "fn s") (auto simp: bind_eff_Inr throw_def ret_def split: sum.splits if_splits)
qed auto

lemma withRetry_answer: "withRetry p fn s = (Inr a, t) \<Longrightarrow> \<exists>u v. fn u = (Inr a, v)"
  unfolding withRetry_def by (rule retry_answer)

lemma ask_answer: "ask f s = (Inr a, t) \<Longrightarrow> \<exists>w w'. f w = (Inr a, w')"
  by (auto simp: ask_def split: prod.splits)

lemma asked_answer: "withRetry p (ask f) s = (Inr a, t) \<Longrightarrow> \<exists>w w'. f w = (Inr a, w')"
  using withRetry_answer [of p "ask f" s a t] ask_answer [of f] by blast

lemma get_row_answer: "get_row p P s = (Inr (Some r), t) \<Longrightarrow> r \<in> set (po_rows s) \<and> P r"
  by (auto simp: get_row_def stmt_def split: prod.splits if_splits dest: find_SomeD)

end
