(* ===== verification/Point_Safety.thy ===== *)
theory Point_Safety
  imports Point_Frame
begin

text \<open>
  What the sub-account service promises about the requests that issuing sends to the provider.
\<close>

section \<open>Points are issued for corroborated payments only\<close>

definition payment_corroborated :: "'w sac_ports \<Rightarrow> point_tx \<Rightarrow> bool" where
  "payment_corroborated p row \<longleftrightarrow>
     (if isCheckoutRow (pt_counterparty row)
      then \<exists>w w' st. pv_orderStatus p (pt_providerRef row) w = (Inr st, w') \<and> ck_paid st \<and> ck_paidAmount st = Some (pt_amountIdr row)
      else json_get (pt_counterparty row) ''notifyTxStatus'' = Some (JStr ''SUCCESS'') \<and> vaIssuanceEnabled p
        \<and> (\<exists>w w' st. pv_txStatus p (pt_providerRef row) w = (Inr st, w') \<and> mapSacStatus (ss_code st) = ''settled''
           \<and> (\<forall>raw. ss_amount st = Some raw \<longrightarrow> parseIdrStrict raw ''corroborated amount'' = Inr (pt_amountIdr row))))"

definition issue_request :: "'w sac_ports \<Rightarrow> point_tx \<Rightarrow> transfer_request \<Rightarrow> bool" where
  "issue_request p row q \<longleftrightarrow> (\<exists>sys to source. systemPointAccount p = Inr sys
     \<and> (q = topup_request (user_leg row to source) sys \<or> 0 < fee_of row \<and> q = topup_request (treasury_leg row to source) sys))"

fun issue_call :: "'w sac_ports \<Rightarrow> point_tx \<Rightarrow> provider_call \<Rightarrow> bool" where
  "issue_call p row (CallInquiry q) = issue_request p row q"
| "issue_call p row (CallPayment q reference name) = issue_request p row q"
| "issue_call p row (CallDebit d) = False"

definition may_issue :: "'w sac_ports \<Rightarrow> string \<Rightarrow> point_tx \<Rightarrow> bool" where
  "may_issue p rowId row \<longleftrightarrow> pt_id row = rowId \<and> pt_kind row = ''deposit'' \<and> point_paymentConfirmed row \<and> pt_ledgerStatus row \<noteq> Some ''issued''
     \<and> unifiedLedgerActive p \<and> systemPointConfigured p \<and> payment_corroborated p row"

lemma match_answer: "assertInvoiceAmountMatch p i gross paid s = (Inr True, t) \<Longrightarrow> paid = Some gross"
  by (auto simp: assertInvoiceAmountMatch_def bind_eff_Inr ret_def split: option.splits if_splits)

lemma outcome_paid: "order_outcome st = ''paid'' \<longleftrightarrow> ck_paid st"
  by (simp add: order_outcome_def)

lemma checkout_answer:
  assumes "checkout_corroborated p row s = (Inr True, t)"
  shows "\<exists>w w' st. pv_orderStatus p (pt_providerRef row) w = (Inr st, w') \<and> ck_paid st \<and> ck_paidAmount st = Some (pt_amountIdr row)"
proof -
  obtain o' a' j u where a: "fst (withRetry p (corroborateCheckoutPayment p (pt_providerRef row)) s) = Inr (o', a', j)"
    and o': "o' = ''paid''" "assertInvoiceAmountMatch p (pt_id row) (pt_amountIdr row) a' u = (Inr True, t)"
    using assms by (auto simp: checkout_corroborated_def split: sum.splits if_splits)
  obtain v w where "corroborateCheckoutPayment p (pt_providerRef row) v = (Inr (o', a', j), w)"
    using a withRetry_answer [of p _ s "(o', a', j)"] by (metis prod.collapse)
  then show ?thesis using o' match_answer [OF o'(2)]
    by (auto simp: corroborateCheckoutPayment_def bind_eff_Inr ret_def outcome_paid dest!: ask_answer)
qed

lemma va_answer:
  assumes "va_corroborated p row s = (Inr True, t)"
  shows "json_get (pt_counterparty row) ''notifyTxStatus'' = Some (JStr ''SUCCESS'') \<and> vaIssuanceEnabled p
    \<and> (\<exists>w w' st. pv_txStatus p (pt_providerRef row) w = (Inr st, w') \<and> mapSacStatus (ss_code st) = ''settled''
       \<and> (\<forall>raw. ss_amount st = Some raw \<longrightarrow> parseIdrStrict raw ''corroborated amount'' = Inr (pt_amountIdr row)))"
proof -
  obtain st where a: "fst (withRetry p (ask (pv_txStatus p (pt_providerRef row))) s) = Inr st"
    and b: "mapSacStatus (ss_code st) = ''settled''" "\<forall>raw. ss_amount st = Some raw \<longrightarrow> parseIdrStrict raw ''corroborated amount'' = Inr (pt_amountIdr row)"
    and c: "json_get (pt_counterparty row) ''notifyTxStatus'' = Some (JStr ''SUCCESS'')" "vaIssuanceEnabled p"
    using assms by (auto simp: va_corroborated_def bind_eff_Inr split: sum.splits if_splits option.splits)
  obtain w w' where "pv_txStatus p (pt_providerRef row) w = (Inr st, w')"
    using a asked_answer [of p _ s st] by (metis prod.collapse)
  with b c show ?thesis by blast
qed

lemma corroborated:
  "(if isCheckoutRow (pt_counterparty row) then checkout_corroborated p row else va_corroborated p row) s = (Inr True, t) \<Longrightarrow> payment_corroborated p row"
  using checkout_answer [of p row s t] va_answer [of p row s t] by (cases "isCheckoutRow (pt_counterparty row)") (simp_all add: payment_corroborated_def)

lemma issue_legs_requests: "preserves (requests (issue_call p row)) (issue_point_legs p row source)"
  unfolding issue_point_legs_def issue_fee_def
  by (intro requested.keeps_bind keeps_cases requested.keeps_try requested.keeps_accounts requested.keeps_pure requested.keeps_rows requested.keeps_audit
      requested.keeps_treasury requested.keeps_topup) (auto simp: issue_request_def)

lemma issue_body_requests:
  fixes s :: "'w points"
  shows "requests (\<lambda>c. list_ex (\<lambda>row. may_issue p rowId row \<and> issue_call p row c) (po_rows s)) s (snd (issue_body p rowId source s))"
proof -
  let ?G = "\<lambda>c. list_ex (\<lambda>row. may_issue p rowId row \<and> issue_call p row c) (po_rows s)"
  obtain x t where x: "get_row p (with_id rowId) s = (x, t)" by fastforce
  have st: "requests ?G s t" by (rule keepsD [OF requested.keeps_reads(2) x])
  note more = requested.trans [OF st]
  consider (none) "snd (issue_body p rowId source s) = t"
    | (row) row where "x = Inr (Some row)" "pt_kind row = ''deposit''" "point_paymentConfirmed row" "pt_ledgerStatus row \<noteq> Some ''issued''"
      "unifiedLedgerActive p" "systemPointConfigured p"
  proof (cases "\<exists>row. x = Inr (Some row) \<and> pt_kind row = ''deposit'' \<and> point_paymentConfirmed row \<and> pt_ledgerStatus row \<noteq> Some ''issued''
      \<and> unifiedLedgerActive p \<and> systemPointConfigured p")
    case False
    then have "snd (issue_body p rowId source s) = t"
      using x by (cases x; cases "projr x") (auto simp: issue_body_def bind_eff_def)
    then show ?thesis by (rule none)
  qed (use row in blast)
  then show ?thesis
  proof cases
    case row
    define m where "m = (if isCheckoutRow (pt_counterparty row) then checkout_corroborated p row else va_corroborated p row)"
    have body: "issue_body p rowId source s = bind_eff m (\<lambda>paid. if \<not> paid then ret () else issue_point_legs p row source) t"
      using x row by (simp add: issue_body_def bind_eff_def m_def)
    have inrows: "row \<in> set (po_rows s)" "pt_id row = rowId" using get_row_answer x row(1) by (fastforce simp: with_id_def)+
    obtain b u where b: "m t = (b, u)" by fastforce
    have "preserves (requests ?G) m" unfolding m_def by (intro keeps_cases requested.keeps_rows)
    then have tu: "requests ?G t u" using b by (rule keepsD)
    show ?thesis
    proof (cases "b = Inr True")
      case True
      have "may_issue p rowId row"
        using row inrows corroborated [of row p t u] b True by (simp add: may_issue_def m_def)
      moreover have "requests (issue_call p row) u (snd (issue_point_legs p row source u))"
        using issue_legs_requests [of p row source] by (simp add: preserves_def)
      ultimately have "requests ?G u (snd (issue_point_legs p row source u))"
        using inrows by (fastforce simp: requests_def list_ex_iff list_all_iff)
      with tu b True show ?thesis by (auto simp: body bind_eff_def intro: more requested.trans)
    next
      case False
      then have "snd (issue_body p rowId source s) = u" using b by (cases b) (auto simp: body bind_eff_def)
      with tu show ?thesis by (simp add: more)
    qed
  qed (simp add: st)
qed

text \<open>A demonstration: one checkout deposit of 10000 with a fee of 500, paid in full at a provider that answers every call.\<close>

definition demo_sac :: "unit sac_ports" where
  "demo_sac = \<lparr>pv_txStatus = \<lambda>_ w. (Inr \<lparr>ss_code = Some ''00'', ss_amount = None, ss_raw = JNull\<rparr>, w),
     pv_transferInquiry = \<lambda>_ w. (Inr \<lparr>si_reference = ''i1'', si_name = None, si_raw = JNull\<rparr>, w),
     pv_transferPayment = \<lambda>_ _ _ w. (Inr \<lparr>sp_reference = None, sp_raw = JNull\<rparr>, w),
     pv_debit = \<lambda>_ w. (Inl (ProviderError 503 ''down''), w), pv_balance = \<lambda>_ w. (Inl (ProviderError 503 ''down''), w),
     pv_history = \<lambda>_ _ _ _ w. (Inr [], w), pv_register = \<lambda>_ w. (Inl (ProviderError 503 ''down''), w),
     pv_orderStatus = \<lambda>_ w. (Inr \<lparr>ck_paid = True, ck_paidAmount = Some 10000, ck_expired = False, ck_txStatus = Some ''SUCCESS'', ck_raw = JNull\<rparr>, w),
     pv_now = \<lambda>_. 0, pv_sleep = \<lambda>_ w. w, pv_random = \<lambda>w. (0, w), pv_db = \<lambda>w. (True, w), pv_invoice = \<lambda>x w. (x, w),
     pv_env = demo_env\<lparr>env_config := [(''PID_UNIFIED_LEDGER_ACTIVE'', ''true''), (''DOKU_SYSTEM_POINT_ACCOUNT_NO'', ''sys''),
       (''DOKU_TREASURY_POINT_ACCOUNT_NO'', ''vault'')]\<rparr>,
     pv_hmac = \<lambda>_ _. [], pv_json = \<lambda>_. None\<rparr>"

definition demo_deposit :: point_tx where
  "demo_deposit = (blank_tx ''ana@pid'' ''deposit'' ''DP1'' 10000)\<lparr>pt_id := ''u'', pt_providerStatus := ''success'',
     pt_providerPaymentStatus := Some ''success'', pt_feeIdr := Some 500, pt_netIdr := Some 9500,
     pt_counterparty := Some (JObj [(''channel'', JStr ''checkout'')])\<rparr>"

definition demo_wallet_account :: provider_account where
  "demo_wallet_account = \<lparr>sa_pid = ''ana@pid'', sa_status = ''active'', sa_profileId = Some ''m1'', sa_accountNo = None, sa_point = Some ''ana-points'',
     sa_va = None, sa_accounts = None, sa_phone = None, sa_email = None, sa_registerRef = None, sa_lastBalance = None, sa_lastBalanceAt = None,
     sa_response = None\<rparr>"

definition demo_points :: "unit points" where
  "demo_points = \<lparr>po_rows = [demo_deposit], po_accounts = [demo_wallet_account], po_webhooks = [], po_fiat = empty_db, po_next = 2,
     po_halted = False, po_registering = [], po_treasuryPoint = None, po_treasuryIdr = None, po_calls = [], po_background = [], po_world = ()\<rparr>"

fun request_of :: "provider_call \<Rightarrow> string \<times> int" where
  "request_of (CallInquiry q) = (tq_to q, tq_amount q)"
| "request_of (CallPayment q reference name) = (tq_to q, tq_amount q)"
| "request_of (CallDebit d) = (de_from d, de_amount d)"

lemmas demo_points_eval = demo_points_def demo_sac_def demo_deposit_def demo_wallet_account_def demo_env_def empty_db_def blank_tx_def
  new_calls_def bind_eff_def catch_default_def get_row_def stmt_def with_id_def with_ref_def config_def config_get_def
  issuePointsForDeposit_def issuePointsForDepositInner_def issue_body_def point_paymentConfirmed_def unifiedLedgerActive_def
  systemPointConfigured_def isCheckoutRow_def checkout_corroborated_def corroborateCheckoutPayment_def withRetry_def numeral_2_eq_2
  ask_def order_outcome_def assertInvoiceAmountMatch_def issue_point_legs_def issue_fee_def pointAccountFor_def find_account_def pointAccountOf_def
  executePointTopup_def systemPointAccount_def user_leg_def treasury_leg_def net_of_def fee_of_def quoted_def topup_row_def create_tx_def
  ref_taken_def open_leg_def topup_attempt_def topup_request_def sac_inquire_def sac_pay_def call_def adopt_status_def mapSacStatus_def trim_def
  settle_leg_def mark_tx_def update_tx_def try_update_def treasuryPointAccount_def cached_account_def audit_def log_audit_def issued_update_def

lemma demo_requests:
  "map request_of (new_calls demo_points (snd (issuePointsForDeposit demo_sac ''u'' ''webhook'' demo_points)))
     = [(''ana-points'', 9500), (''ana-points'', 9500), (''vault'', 500), (''vault'', 500)]"
  by (simp add: demo_points_eval Let_def is_space_def)



end
