(* ===== verification/Point_Record.thy ===== *)
theory Point_Record
  imports Point_Safety
begin

text \<open>
  Recording an issue: the update of \<^verbatim>\<open>issuePointsForDepositInner\<close> that marks a deposit as issued writes the ledger reference of its own top-up,
  which the unique column refuses, so no run records it. \<open>tidy\<close> is what the service keeps of its rows: ids come from the generator, and a top-up
  of points carries its own reference as ledger reference.
\<close>

section \<open>An issued deposit is never recorded as issued\<close>

text \<open>A row keeps its identity, a top-up its ledger reference, a deposit its ledger status unless it is blocked.\<close>

definition same_row :: "point_tx \<Rightarrow> point_tx \<Rightarrow> bool" where
  "same_row r r' \<longleftrightarrow> pt_id r' = pt_id r \<and> pt_kind r' = pt_kind r \<and> pt_providerRef r' = pt_providerRef r
     \<and> (pt_kind r = ''points_issue'' \<longrightarrow> px_ledgerRef r' = px_ledgerRef r)
     \<and> (pt_kind r = ''deposit'' \<longrightarrow> pt_ledgerStatus r' = pt_ledgerStatus r \<or> pt_ledgerStatus r' = Some ''blocked'')"

definition tidy_row :: "'w sac_ports \<Rightarrow> string set \<Rightarrow> nat \<Rightarrow> point_tx \<Rightarrow> bool" where
  "tidy_row p legs n r \<longleftrightarrow> (\<exists>k < n. pt_id r = env_uuid (pv_env p) k) \<and> (pt_kind r = ''points_issue'' \<longrightarrow> px_ledgerRef r = Some (pt_providerRef r))
     \<and> (pt_id r \<in> legs \<longrightarrow> pt_kind r \<noteq> ''deposit'')"

definition tidy :: "'w sac_ports \<Rightarrow> string set \<Rightarrow> 'w points \<Rightarrow> bool" where
  "tidy p legs s \<longleftrightarrow> inj (env_uuid (pv_env p)) \<and> distinct (map pt_id (po_rows s)) \<and> (\<forall>r \<in> set (po_rows s). tidy_row p legs (po_next s) r)"

definition kept :: "'w sac_ports \<Rightarrow> string set \<Rightarrow> 'w points \<Rightarrow> 'w points \<Rightarrow> bool" where
  "kept p legs s t \<longleftrightarrow> (tidy p legs s \<longrightarrow> tidy p legs t \<and> (\<forall>r \<in> set (po_rows s). \<exists>r' \<in> set (po_rows t). same_row r r'))"

lemma same_row_refl: "same_row r r"
  by (simp add: same_row_def)

lemma tidy_row_same: "same_row r r' \<Longrightarrow> tidy_row p legs n r \<Longrightarrow> tidy_row p legs n r'"
  by (auto simp: same_row_def tidy_row_def)

lemma same_row_trans: "same_row a b \<Longrightarrow> same_row b c \<Longrightarrow> same_row a c"
  by (auto simp: same_row_def)

lemma tidy_rows:
  "tidy p legs (s\<lparr>po_rows := rows\<rparr>) \<longleftrightarrow> inj (env_uuid (pv_env p)) \<and> distinct (map pt_id rows) \<and> (\<forall>r \<in> set rows. tidy_row p legs (po_next s) r)"
  by (simp add: tidy_def)

lemma tidy_any: "tidy p legs s \<Longrightarrow> tidy p {} s"
  by (simp add: tidy_def tidy_row_def)

lemma kept_write:
  assumes "\<And>r. r \<in> set (po_rows s) \<Longrightarrow> tidy p legs s \<Longrightarrow> P r \<Longrightarrow> same_row r (f r)"
  shows "kept p legs s (s\<lparr>po_rows := map (\<lambda>x. if P x then f x else x) (po_rows s)\<rparr>)"
  unfolding kept_def
proof (intro impI conjI ballI)
  let ?g = "\<lambda>x. if P x then f x else x"
  assume T: "tidy p legs s"
  have g: "same_row r (?g r)" if "r \<in> set (po_rows s)" for r
    using assms [OF that T] by (simp add: same_row_refl)
  have ids: "map pt_id (map ?g (po_rows s)) = map pt_id (po_rows s)"
    using g by (simp add: same_row_def)
  have rows: "\<forall>r' \<in> set (map ?g (po_rows s)). tidy_row p legs (po_next s) r'"
  proof -
    have "tidy_row p legs (po_next s) (?g r)" if "r \<in> set (po_rows s)" for r
    proof -
      have "tidy_row p legs (po_next s) r" using T that unfolding tidy_def by blast
      then show ?thesis by (rule tidy_row_same [OF g [OF that]])
    qed
    then show ?thesis unfolding set_map by blast
  qed
  have "distinct (map pt_id (map ?g (po_rows s)))" using T by (simp only: ids tidy_def)
  then show "tidy p legs (s\<lparr>po_rows := map ?g (po_rows s)\<rparr>)"
    using T rows unfolding tidy_rows by (simp only: tidy_def simp_thms)
  show "\<exists>r' \<in> set (po_rows (s\<lparr>po_rows := map ?g (po_rows s)\<rparr>)). same_row r r'" if "r \<in> set (po_rows s)" for r
    using g [OF that] that by (intro bexI [of _ "?g r"]) simp_all
qed

lemma kept_insert:
  assumes "pt_kind d \<noteq> ''deposit''" "pt_kind d = ''points_issue'' \<longrightarrow> px_ledgerRef d = Some (pt_providerRef d)"
  shows "kept p legs s (s\<lparr>po_rows := po_rows s @ [d\<lparr>pt_id := env_uuid (pv_env p) (po_next s), px_seq := n, px_createdAt := now\<rparr>], po_next := Suc (po_next s)\<rparr>)"
  unfolding kept_def
proof (intro impI conjI ballI)
  let ?d = "d\<lparr>pt_id := env_uuid (pv_env p) (po_next s), px_seq := n, px_createdAt := now\<rparr>"
  assume T: "tidy p legs s"
  have fresh: "pt_id r \<noteq> env_uuid (pv_env p) (po_next s)" if "r \<in> set (po_rows s)" for r
  proof -
    obtain k where k: "k < po_next s" "pt_id r = env_uuid (pv_env p) k" using T \<open>r \<in> _\<close> by (auto simp: tidy_def tidy_row_def)
    have "inj (env_uuid (pv_env p))" using T by (simp add: tidy_def)
    with k show ?thesis by (auto dest: injD)
  qed
  have old: "tidy_row p legs (Suc (po_next s)) r" if "r \<in> set (po_rows s)" for r
    using T that by (auto simp: tidy_def tidy_row_def intro: less_SucI)
  have "tidy_row p legs (Suc (po_next s)) ?d" using assms by (auto simp: tidy_row_def)
  moreover have "distinct (map pt_id (po_rows s @ [?d]))" using T fresh [symmetric] by (auto simp: tidy_def)
  ultimately show "tidy p legs (s\<lparr>po_rows := po_rows s @ [?d], po_next := Suc (po_next s)\<rparr>)"
    using T old by (simp add: tidy_def)
  show "\<exists>r' \<in> set (po_rows (s\<lparr>po_rows := po_rows s @ [?d], po_next := Suc (po_next s)\<rparr>)). same_row r r'" if "r \<in> set (po_rows s)" for r
    using that by (intro bexI [of _ r]) (simp_all add: same_row_refl)
qed

interpretation kept: row_frame "kept p legs" "\<lambda>_. True" p "\<lambda>f. \<forall>r. same_row r (f r)"
    "\<lambda>d. pt_kind d \<noteq> ''deposit'' \<and> (pt_kind d = ''points_issue'' \<longrightarrow> px_ledgerRef d = Some (pt_providerRef d))" for p legs
proof unfold_locales
  show "kept p legs s u" if "kept p legs s t" "kept p legs t u" for s t u :: "'a points"
    using that unfolding kept_def by (meson same_row_trans)
  show "kept p legs s s" for s :: "'a points" by (auto simp: kept_def same_row_def)
  show "kept p legs s t" if "po_rows t = po_rows s" "po_calls t = po_calls s" "po_next t = po_next s" for s t :: "'a points"
    using that by (auto simp: kept_def tidy_def same_row_def)
  show "kept p legs s (s\<lparr>po_calls := po_calls s @ [c]\<rparr>)" for s :: "'a points" and c by (auto simp: kept_def tidy_def same_row_def)
  show "kept p legs s (s\<lparr>po_rows := map (\<lambda>x. if P x then f x else x) (po_rows s)\<rparr>)" if "\<forall>r. same_row r (f r)"
    for s :: "'a points" and f and P :: "point_tx \<Rightarrow> bool"
    using that by (intro kept_write) simp
qed (intro kept_insert; simp)

lemma kept_leg_update:
  assumes "i \<in> legs" "\<And>r. pt_kind r \<noteq> ''deposit'' \<Longrightarrow> same_row r (f r)"
  shows "preserves (kept p legs) (update_tx p i f)" "preserves (kept p legs) (try_update p i f)"
proof -
  have w: "kept p legs s (s\<lparr>po_rows := map (\<lambda>x. if pt_id x = i then f x else x) (po_rows s)\<rparr>)" for s
    by (rule kept_write) (use assms in \<open>auto simp: tidy_def tidy_row_def\<close>)
  then show u: "preserves (kept p legs) (update_tx p i f)"
    unfolding update_tx_def by (intro kept.keeps_stmt) (simp add: preserves_def kept.refl split: option.split)
  show "preserves (kept p legs) (try_update p i f)"
    unfolding try_update_def by (intro kept.keeps_bind kept.keeps_try u kept.keeps_pure)
qed

lemma kept_settle:
  assumes "i \<in> legs"
  shows "preserves (kept p legs) (settle_leg p i status raw)" "preserves (kept p legs) (adopt_status p i st)"
  unfolding adopt_status_def settle_leg_def Let_def mark_tx_def
  by (intro kept.keeps_bind kept_leg_update assms kept.keeps_pure; simp add: same_row_def)+

lemma get_row_rows: "get_row p P s = (x, t) \<Longrightarrow> po_rows t = po_rows s"
  by (auto simp: get_row_def stmt_def split: prod.splits if_splits)

lemma create_answer: "create_tx p d s = (Inr r, t) \<Longrightarrow> r \<in> set (po_rows t) \<and> pt_kind r = pt_kind d \<and> pt_providerRef r = pt_providerRef d"
  by (auto simp: create_tx_def stmt_def Let_def split: prod.splits if_splits)

text \<open>A top-up keeps the rows, and when it answers its row is there.\<close>

definition topup_rest :: "'w sac_ports \<Rightarrow> topup \<Rightarrow> string \<Rightarrow> string \<Rightarrow> ('w points, string) eff" where
  "topup_rest p t sys i =
     bind_eff (try_eff (topup_attempt p t sys)) (\<lambda>r. case r of
         Inr st \<Rightarrow> adopt_status p i st
       | Inl e \<Rightarrow>
           if (case e of ProviderError n _ \<Rightarrow> n = 409 | _ \<Rightarrow> False) then
             bind_eff (withRetry p (ask (pv_txStatus p (tu_ref t)))) (\<lambda>st. adopt_status p i st)
           else bind_eff (try_eff (settle_leg p i ''failed'' (error_json e))) (\<lambda>_. ret ''failed''))"

lemma kept_topup_rest: "preserves (kept p {i}) (topup_rest p t sys i)"
  unfolding topup_rest_def topup_attempt_def Let_def
  by (intro kept.keeps_bind keeps_cases kept.keeps_try kept.keeps_withRetry kept.keeps_requests kept.keeps_ask kept_settle kept.keeps_pure TrueI insertI1)

lemma kept_topup:
  assumes "executePointTopup p t s = (r, u)" "tu_kind t \<noteq> ''deposit''" "tidy p {} s"
  shows "kept p {} s u \<and> (\<forall>x. r = Inr x \<longrightarrow> (\<exists>lg \<in> set (po_rows u). pt_kind lg = tu_kind t \<and> pt_providerRef lg = tu_ref t))"
proof (cases "systemPointAccount p")
  case (Inl e)
  with assms(1) show ?thesis by (auto simp: executePointTopup_def bind_eff_def kept.refl)
next
  case (Inr sys)
  define start where "start = (\<lambda>existing. case existing of Some r \<Rightarrow> ret r | None \<Rightarrow> create_tx p (topup_row t sys))"
  obtain x s1 where x: "get_row p (\<lambda>r. pt_kind r = tu_kind t \<and> with_ref (tu_ref t) r) s = (x, s1)" by fastforce
  have s1: "kept p {} s s1" by (rule keepsD [OF kept.keeps_reads(2) x])
  note rows1 = get_row_rows [OF x]
  have run: "executePointTopup p t s = (case x of Inl e \<Rightarrow> (Inl e, s1) | Inr existing \<Rightarrow>
      if (case existing of None \<Rightarrow> False | Some r \<Rightarrow> open_leg (pt_providerStatus r)) then (Inr (nullish (map_option pt_providerStatus existing) []), s1)
      else bind_eff (start existing) (\<lambda>lg. topup_rest p t sys (pt_id lg)) s1)"
    using Inr x by (simp add: executePointTopup_def bind_eff_def start_def topup_rest_def split: sum.split)
  show ?thesis
  proof (cases x)
    case (Inl e)
    with run assms(1) s1 show ?thesis by simp
  next
    case (Inr existing)
    show ?thesis
    proof (cases "\<exists>r. existing = Some r \<and> open_leg (pt_providerStatus r)")
      case True
      then obtain r0 where r0: "existing = Some r0" "open_leg (pt_providerStatus r0)" by blast
      then have "u = s1" "r0 \<in> set (po_rows s1) \<and> pt_kind r0 = tu_kind t \<and> pt_providerRef r0 = tu_ref t"
        using run assms(1) Inr get_row_answer [of p _ s r0 s1] x rows1 by (auto simp: with_ref_def)
      with s1 show ?thesis by blast
    next
      case False
      obtain y s2 where y: "start existing s1 = (y, s2)" by fastforce
      have "preserves (kept p {}) (start existing)"
        unfolding start_def by (intro keeps_cases kept.keeps_pure kept.keeps_create) (use assms(2) in \<open>simp_all add: topup_row_def blank_tx_def\<close>)
      then have s2: "kept p {} s s2" using y kept.trans [OF s1] by (auto dest: keepsD)
      have u: "executePointTopup p t s = bind_eff (start existing) (\<lambda>lg. topup_rest p t sys (pt_id lg)) s1"
        using run Inr False by (cases existing) auto
      show ?thesis
      proof (cases y)
        case (Inl e)
        with u y assms(1) s2 show ?thesis by (auto simp: bind_eff_def)
      next
        case (Inr lg)
        have lg: "lg \<in> set (po_rows s2)" "pt_kind lg = tu_kind t" "pt_providerRef lg = tu_ref t"
          using y Inr \<open>x = Inr existing\<close> get_row_answer [of p _ s lg s1] x rows1 create_answer [of p "topup_row t sys" s1 lg s2]
          by (auto simp: start_def with_ref_def topup_row_def blank_tx_def ret_def split: option.splits)
        have t2: "tidy p {} s2" using s2 assms(3) by (simp add: kept_def)
        with lg assms(2) have t2': "tidy p {pt_id lg} s2"
          by (auto simp: tidy_def tidy_row_def distinct_map dest: inj_onD)
        have r: "topup_rest p t sys (pt_id lg) s2 = (r, u)" using assms(1) u y Inr by (simp add: bind_eff_def)
        have k: "kept p {pt_id lg} s2 u" by (rule keepsD [OF kept_topup_rest r])
        with t2' have "tidy p {} u" "\<forall>r \<in> set (po_rows s2). \<exists>r' \<in> set (po_rows u). same_row r r'"
          using tidy_any by (simp_all add: kept_def) blast
        then have "kept p {} s2 u" by (simp add: kept_def)
        moreover obtain l where "l \<in> set (po_rows u)" "same_row lg l" using k t2' lg(1) unfolding kept_def by blast
        ultimately show ?thesis using kept.trans [OF s2] lg(2,3) unfolding same_row_def by metis
      qed
    qed
  qed
qed

text \<open>The update that would record the issue collides with the ledger reference of the top-up.\<close>

definition has_leg :: "string \<Rightarrow> 'w points \<Rightarrow> bool" where
  "has_leg ref s \<longleftrightarrow> (\<exists>lg \<in> set (po_rows s). pt_kind lg = ''points_issue'' \<and> pt_providerRef lg = ref)"

definition has_deposit :: "string \<Rightarrow> 'w points \<Rightarrow> bool" where
  "has_deposit i s \<longleftrightarrow> (\<exists>d \<in> set (po_rows s). pt_kind d = ''deposit'' \<and> pt_id d = i)"

lemma kept_carries:
  assumes "kept p {} s t" "tidy p {} s"
  shows "tidy p {} t" "has_leg ref s \<Longrightarrow> has_leg ref t" "has_deposit i s \<Longrightarrow> has_deposit i t"
  using assms unfolding kept_def has_leg_def has_deposit_def same_row_def by metis+

lemma recording_collides:
  assumes "tidy p {} s" "has_leg ref s" "has_deposit i s" "\<And>r. px_ledgerRef (f r) = Some ref"
  shows "kept p {} s (snd (try_update p i f s))"
proof -
  obtain lg d where lg: "lg \<in> set (po_rows s)" "pt_kind lg = ''points_issue''" "pt_providerRef lg = ref"
    and d: "d \<in> set (po_rows s)" "pt_kind d = ''deposit''" "pt_id d = i"
    using assms(2,3) by (auto simp: has_leg_def has_deposit_def)
  have "pt_id lg \<noteq> i" using lg d assms(1) by (auto simp: tidy_def distinct_map dest: inj_onD)
  moreover have "px_ledgerRef lg = Some ref" using lg assms(1) by (auto simp: tidy_def tidy_row_def)
  ultimately have "ref_taken (\<lambda>x. pt_id x \<noteq> i) (f r) (po_rows s)" for r
    using lg(1) assms(4) by (auto simp: ref_taken_def list_ex_iff intro!: bexI [of _ lg])
  then have "po_rows (snd (try_update p i f s)) = po_rows s \<and> po_calls (snd (try_update p i f s)) = po_calls s
      \<and> po_next (snd (try_update p i f s)) = po_next s"
    by (auto simp: try_update_def update_tx_def stmt_def split: prod.split option.split)
  then show ?thesis by (intro kept.quiet) simp_all
qed

lemma kept_issue_fee:
  assumes "tidy p {} s"
  shows "kept p {} s (snd (issue_fee p row source s))"
proof (cases "fee_of row \<le> 0")
  case False
  obtain x s1 where x: "treasuryPointAccount p s = (x, s1)" by fastforce
  have s1: "kept p {} s s1" by (rule keepsD [OF kept.keeps_treasury(1) x])
  then have "tidy p {} s1" using assms by (rule kept_carries)
  then have "kept p {} s1 (snd (executePointTopup p (treasury_leg row to source) s1))" for to
    using kept_topup [OF prod.collapse [symmetric], of "treasury_leg row to source" p s1] by (simp add: treasury_leg_def)
  with s1 x False show ?thesis
    by (cases x) (auto simp: issue_fee_def intro: kept.trans)
qed (simp add: issue_fee_def kept.refl)

text \<open>What follows the user's top-up.\<close>

definition after_topup :: "'w sac_ports \<Rightarrow> point_tx \<Rightarrow> string \<Rightarrow> string \<Rightarrow> ('w points, unit) eff" where
  "after_topup p row source userLeg =
     (if userLeg \<noteq> ''settled'' then
        try_update p (pt_id row) (\<lambda>r. r\<lparr>pt_ledgerStatus := Some ''failed'', px_ledgerRef := Some (pt_providerRef row @ ''-PTS'')\<rparr>)
      else
        bind_eff (issue_fee p row source) (\<lambda>feeLeg.
        bind_eff (try_update p (pt_id row) (issued_update row feeLeg)) (\<lambda>_.
        audit p (pt_pid row) ''fiat.points.issued'' [(''providerRef'', JStr (pt_providerRef row)), (''net'', JStr (show_int (net_of row))),
          (''fee'', JStr (show_int (fee_of row)))])))"

lemma kept_after_topup:
  assumes "tidy p {} s" "has_leg (pt_providerRef row @ ''-PTS'') s" "has_deposit (pt_id row) s"
  shows "kept p {} s (snd (after_topup p row source userLeg s))"
proof (cases "userLeg = ''settled''")
  case False
  with recording_collides [OF assms] show ?thesis by (simp add: after_topup_def)
next
  case True
  obtain y s1 where y: "issue_fee p row source s = (y, s1)" by fastforce
  have s1: "kept p {} s s1" using kept_issue_fee [OF assms(1), of row source] y by simp
  show ?thesis
  proof (cases y)
    case (Inl e)
    with True y s1 show ?thesis by (simp add: after_topup_def bind_eff_def)
  next
    case (Inr feeLeg)
    obtain z s2 where z: "try_update p (pt_id row) (issued_update row feeLeg) s1 = (z, s2)" by fastforce
    have k: "kept p {} s1 s2"
      using recording_collides [of p s1 "pt_providerRef row @ ''-PTS''" "pt_id row" "issued_update row feeLeg"] z
        kept_carries [OF s1 assms(1)] assms(2,3) by (simp add: issued_update_def)
    have au: "kept p {} s2 (snd (audit p pid event detail s2))" for pid event detail
    proof -
      have "preserves (kept p {}) (audit p pid event detail)" by (rule kept.keeps_audit)
      then show ?thesis by (simp add: preserves_def)
    qed
    from True y z Inr kept.trans [OF s1 k] kept.trans [OF kept.trans [OF s1 k] au] show ?thesis
      by (auto simp: after_topup_def bind_eff_def split: sum.split)
  qed
qed

lemma kept_legs:
  assumes "tidy p {} s" "has_deposit (pt_id row) s"
  shows "kept p {} s (snd (issue_point_legs p row source s))"
proof -
  obtain account s1 where a: "pointAccountFor p (pt_pid row) ''Depositor'' s = (account, s1)" by fastforce
  have s1: "kept p {} s s1" by (rule keepsD [OF kept.keeps_accounts(4) a])
  show ?thesis
  proof (cases account)
    case (Inl e)
    with a s1 show ?thesis by (simp add: issue_point_legs_def)
  next
    case (Inr userPoint)
    obtain x s2 where x: "executePointTopup p (user_leg row userPoint source) s1 = (x, s2)" by fastforce
    have up: "kept p {} s1 s2" "x = Inr y \<Longrightarrow> has_leg (pt_providerRef row @ ''-PTS'') s2" for y
      using kept_topup [OF x _ kept_carries(1) [OF s1 assms(1)]] by (auto simp: user_leg_def has_leg_def)
    note s2 = kept.trans [OF s1 up(1)]
    have "issue_point_legs p row source s = (case x of Inl e \<Rightarrow> (Inl e, s2) | Inr userLeg \<Rightarrow> after_topup p row source userLeg s2)"
      using a x Inr by (simp add: issue_point_legs_def after_topup_def bind_eff_eval split: sum.split)
    then show ?thesis
      using s2 kept.trans [OF s2 kept_after_topup [OF kept_carries(1) [OF s2 assms(1)] up(2) kept_carries(3) [OF s2 assms]]]
      by (cases x) auto
  qed
qed

lemma kept_body:
  assumes "tidy p {} s"
  shows "kept p {} s (snd (issue_body p rowId source s))"
proof -
  obtain x t where x: "get_row p (with_id rowId) s = (x, t)" by fastforce
  have t: "kept p {} s t" by (rule keepsD [OF kept.keeps_reads(2) x])
  show ?thesis
  proof (cases "\<exists>row. x = Inr (Some row) \<and> pt_kind row = ''deposit'' \<and> point_paymentConfirmed row \<and> pt_ledgerStatus row \<noteq> Some ''issued''
      \<and> unifiedLedgerActive p \<and> systemPointConfigured p")
    case False
    then have "snd (issue_body p rowId source s) = t"
      using x by (cases x; cases "projr x") (auto simp: issue_body_def bind_eff_def)
    with t show ?thesis by simp
  next
    case True
    then obtain row where row: "x = Inr (Some row)" "pt_kind row = ''deposit''" "point_paymentConfirmed row" "pt_ledgerStatus row \<noteq> Some ''issued''"
      "unifiedLedgerActive p" "systemPointConfigured p" by blast
    have dep: "has_deposit (pt_id row) s" using get_row_answer x row(1,2) unfolding has_deposit_def by blast
    define m where "m = (if isCheckoutRow (pt_counterparty row) then checkout_corroborated p row else va_corroborated p row)"
    obtain b u where b: "m t = (b, u)" by fastforce
    have "preserves (kept p {}) m"
      unfolding m_def by (intro keeps_cases kept.keeps_corroborate) (simp_all add: same_row_def)
    then have u: "kept p {} s u" using b kept.trans [OF t] by (auto dest: keepsD)
    have "issue_body p rowId source s = bind_eff m (\<lambda>paid. if \<not> paid then ret () else issue_point_legs p row source) t"
      using x row by (simp add: issue_body_def bind_eff_def m_def)
    then have "snd (issue_body p rowId source s) = u \<or> snd (issue_body p rowId source s) = snd (issue_point_legs p row source u)"
      using b by (cases b) (auto simp: bind_eff_def)
    moreover have "kept p {} u (snd (issue_point_legs p row source u))"
      using kept_legs [OF kept_carries(1) [OF u assms] kept_carries(3) [OF u assms dep]] .
    ultimately show ?thesis using u kept.trans [OF u] by auto
  qed
qed

text \<open>C38: Issuing points for a deposit never records it: whatever the provider and the database answer, the ledger status of every deposit is afterwards
  what it was before, or blocked. The database holds ids of its generator, and its top-up rows carry their own reference as ledger reference.\<close>

theorem issued_deposit_never_recorded:
  assumes "issuePointsForDeposit p rowId source s = (r, t)" "tidy p {} s" "d \<in> set (po_rows s)" "pt_kind d = ''deposit''"
  shows "\<exists>d' \<in> set (po_rows t). pt_id d' = pt_id d \<and> (pt_ledgerStatus d' = pt_ledgerStatus d \<or> pt_ledgerStatus d' = Some ''blocked'')"
proof -
  obtain x u where x: "catch_default (get_row p (with_id rowId)) None s = (x, u)" by fastforce
  have u: "kept p {} s u" by (rule keepsD [OF kept.keeps_catch [OF kept.keeps_reads(2)] x])
  have "t = u \<or> t = snd (issue_body p rowId source u)"
    using assms(1) x by (auto simp: issuePointsForDeposit_def issuePointsForDepositInner_def bind_eff_def ret_def split: sum.splits option.splits if_splits)
  then have "kept p {} s t" using u kept.trans [OF u kept_body [OF kept_carries(1) [OF u assms(2)]]] by blast
  then show ?thesis using assms(2-4) unfolding kept_def same_row_def by blast
qed

lemma inj_replicate: "inj (\<lambda>n. replicate n c)"
  by (metis injI length_replicate)

lemma issued_deposit_never_recorded_witness:
  "map request_of (new_calls demo_points (snd (issuePointsForDeposit demo_sac ''u'' ''webhook'' demo_points)))
     = [(''ana-points'', 9500), (''ana-points'', 9500), (''vault'', 500), (''vault'', 500)]
   \<and> list_ex (\<lambda>d. pt_id d = ''u'' \<and> (pt_ledgerStatus d = None \<or> pt_ledgerStatus d = Some ''blocked''))
       (po_rows (snd (issuePointsForDeposit demo_sac ''u'' ''webhook'' demo_points)))"
proof
  show "map request_of (new_calls demo_points (snd (issuePointsForDeposit demo_sac ''u'' ''webhook'' demo_points)))
     = [(''ana-points'', 9500), (''ana-points'', 9500), (''vault'', 500), (''vault'', 500)]"
    by (rule demo_requests)
  have "tidy_row demo_sac {} 2 demo_deposit"
    unfolding tidy_row_def by (intro conjI exI [of _ 1]) (simp_all add: demo_deposit_def demo_sac_def demo_env_def blank_tx_def)
  then have "tidy demo_sac {} demo_points"
    by (simp add: tidy_def demo_points_def demo_sac_def demo_env_def inj_replicate)
  from issued_deposit_never_recorded [OF prod.collapse [symmetric] this, of demo_deposit "''u''" "''webhook''"]
  show "list_ex (\<lambda>d. pt_id d = ''u'' \<and> (pt_ledgerStatus d = None \<or> pt_ledgerStatus d = Some ''blocked''))
       (po_rows (snd (issuePointsForDeposit demo_sac ''u'' ''webhook'' demo_points)))"
    by (auto simp: list_ex_iff demo_points_def demo_deposit_def blank_tx_def)
qed

end
