(* ===== verification/Spec2Isabelle.thy ===== *)
theory Spec2Isabelle
  imports Fiat_Behaviour Xp_System Core_Intent Batch_Safety Wallet_Execute Point_Record
begin

text \<open>
  A verification development for the core of PeridotID: the services of \<^verbatim>\<open>apps/api\<close> that keep money, experience points, settings,
  queued intents and relayed transactions, and the byte formats of \<^verbatim>\<open>packages/core\<close> that passkeys sign.

  \<^bold>\<open>The program.\<close> PeridotID is an identity with a smart account. A user signs intents with a passkey; the API checks them, pays
  the network fee through a relayer and is reimbursed by the account within the limits the user signed. Beside this the API keeps a fiat
  ledger of internal credit (deposits, transfers, app payments, refunds) and a ledger of experience points that apps award. The services share one
  PostgreSQL database through Prisma; the chain, the payment provider, the clock and the timers are outside.

  \<^bold>\<open>How code becomes definitions.\<close> Each service has a record for the tables and memory it keeps, and one definition per method, helper or
  transaction, named as in the source. Errors are values of \<open>http_error\<close> (\<^verbatim>\<open>Prelude\<close>), one constructor for each exception class the services throw.
  Three forms of state are used, as the code needs them:
  \<^item> a transaction that runs under row locks is a function from the database to a result and a database; an operation whose reads precede its
    locks takes the snapshot that it read as a separate argument, and the system theories let it be any earlier database;
  \<^item> a method that awaits many calls, each of which may fail and none of which is rolled back, is an operation of \<open>('s, 'a) eff\<close>
    (\<^verbatim>\<open>Effects\<close>), which returns the state also with an error;
  \<^item> concurrency is a step relation or a list of operations: settlements and crashes in \<^verbatim>\<open>Batch_Safety\<close>, the claims of
    \<^verbatim>\<open>Relayer_Slots\<close>, the histories of databases of \<^verbatim>\<open>Fiat_System\<close> and \<^verbatim>\<open>Xp_System\<close>.
  JavaScript's \<^verbatim>\<open>BigInt\<close> and integral numbers are \<open>int\<close>, with the safe-integer checks written where the code has them; the words of
  SHA-256 and every byte are of type \<open>word\<close>; a \<^verbatim>\<open>Map\<close> is an association list in insertion order; dates are their milliseconds.

  \<^bold>\<open>The theories.\<close>
  \<^item> \<^verbatim>\<open>Prelude\<close>: errors, digits, strings, JSON values, and the locales of stateful machines (\<open>monotone_machine\<close> and others) that the component
    theories interpret. \<^verbatim>\<open>Effects\<close>: the operations that throw, and the locale \<open>frame\<close>, which carries a preorder of states along a method.
  \<^item> Money in \<^verbatim>\<open>packages/payments\<close> and \<^verbatim>\<open>fiat/payment-fee.service.ts\<close>: \<^verbatim>\<open>Payments\<close> (parsing, service fee, tax, gateway fee, rates).
  \<^item> The fiat ledger, \<^verbatim>\<open>apps/api/src/fiat\<close>: \<^verbatim>\<open>Ledger_Hash\<close> and \<^verbatim>\<open>Ledger_Replay\<close> (the two pure modules), \<^verbatim>\<open>Fiat_Store\<close> (tables, the one writer of posted
    rows, the chain service), \<^verbatim>\<open>Fiat_Ledger\<close> (switches, quotes, issue, transfer inquiry, confirm and cancel, adjustment), \<^verbatim>\<open>Fiat_Payments\<close> (deposit quote and
    Checkout deposit, app payments). \<^verbatim>\<open>Fiat_Safety\<close> proves the invariant operation by operation, \<^verbatim>\<open>Fiat_System\<close> lifts it to all interleavings,
    \<^verbatim>\<open>Fiat_Behaviour\<close> states what single operations do.
  \<^item> The points of the payment provider, \<^verbatim>\<open>fiat/ledger-replay.ts\<close> and \<^verbatim>\<open>fiat/fiat-subaccount.service.ts\<close>: \<^verbatim>\<open>Point_Replay\<close> (the journal), \<^verbatim>\<open>Point_Store\<close> (tables, provider
    calls, retries, accounts), \<^verbatim>\<open>Point_Issue\<close> (issuing for a paid deposit), \<^verbatim>\<open>Point_Clawback\<close>, \<^verbatim>\<open>Point_Deposit\<close> (sync, the notification inbox, backfill), \<^verbatim>\<open>Point_Transfer\<close>,
    \<^verbatim>\<open>Point_Redeem\<close>, \<^verbatim>\<open>Point_Sweep\<close>. \<^verbatim>\<open>Point_Frame\<close> carries a preorder of states along their helpers, \<^verbatim>\<open>Point_Safety\<close> uses it for the requests that
    reach the provider, \<^verbatim>\<open>Point_Record\<close> for what issuing writes.
  \<^item> Experience, \<^verbatim>\<open>apps/api/src/experience\<close>: \<^verbatim>\<open>Xp_Curve\<close>, \<^verbatim>\<open>Xp_Ledger\<close> (levels and ledger services), \<^verbatim>\<open>Xp_Admin\<close> (guards, permissions, quotas), \<^verbatim>\<open>Xp_Policy\<close>
    (policies, tasks, backfill), \<^verbatim>\<open>Xp_Intake\<close> (the event pipeline), \<^verbatim>\<open>Xp_System\<close> (all of them interleaved). \<^verbatim>\<open>Settings\<close>: \<^verbatim>\<open>apps/api/src/settings\<close>.
  \<^item> Signed bytes, \<^verbatim>\<open>packages/core\<close>: \<^verbatim>\<open>Core_Bytes\<close> (SHA-256 against FIPS 180-4, integers), \<^verbatim>\<open>Core_Codec\<close> (hex, base64url, DER), \<^verbatim>\<open>Core_Payload\<close> (every payload
    builder), \<^verbatim>\<open>Core_Intent\<close> (what a signature commits to). \<^verbatim>\<open>Cose\<close>: \<^verbatim>\<open>credentials/cose.ts\<close>.
  \<^item> The intent queue, \<^verbatim>\<open>apps/api/src/batch-queue\<close>: \<^verbatim>\<open>Batch_Quote\<close>, \<^verbatim>\<open>Batch_Intent\<close>, \<^verbatim>\<open>Batch_Queue\<close>, \<^verbatim>\<open>Batch_Safety\<close>. \<^verbatim>\<open>Fee_Policy\<close>:
    \<^verbatim>\<open>common/solana-relay.ts\<close> and \<^verbatim>\<open>fee/fee-policy.service.ts\<close>.
  \<^item> The relayer and its flows: \<^verbatim>\<open>Relayer_Guard\<close> (\<^verbatim>\<open>relayer-events.ts\<close>, \<^verbatim>\<open>circuit-breaker.service.ts\<close>, \<^verbatim>\<open>revocation-monitor.service.ts\<close>), \<^verbatim>\<open>Relayer_Slots\<close>
    (\<^verbatim>\<open>relayer-idempotency.service.ts\<close>), \<^verbatim>\<open>Wallet_Rotate\<close> (\<^verbatim>\<open>wallet/rotate.service.ts\<close>), \<^verbatim>\<open>Wallet_Withdraw\<close>, \<^verbatim>\<open>Withdraw_Safety\<close> and \<^verbatim>\<open>Wallet_Execute\<close>
    (\<^verbatim>\<open>wallet/sponsored-withdraw.service.ts\<close>).

  \<^bold>\<open>What the properties show.\<close> For the fiat ledger: under every interleaving the chain verifies, nobody is overdrawn, transfers conserve money, closed
  rows never change, and a broken row is the one the verifier reports. For points: the replay
  of the journal is the sum of its settled rows, and points are requested for a paid deposit only, in the amounts it quotes. For experience: every award is within every cap, the journal and the
  totals agree, and raises need a second person. For the queue: an op is forwarded at most once per reservation, a user pays at most the quote, due
  batches settle; where two processes flush, they can forward twice, and this is proved as well. For signed bytes: SHA-256 is the standard's, and
  equal payloads are equal intents. For the relayer: the breaker implements the specification that keeps all losses; a slot is claimed by one caller; a transaction is
  handed over at most twice, the second time after proof that the first did not land; a rotation revokes the old credential only after
  the chain shows the new one; every withdrawal and execution that leaves the server is authorised by the signed request and within its
  fees. Several theorems state defects of the code: the manifest lists them as findings, with the theorem that proves each.

  \<^bold>\<open>Bounds and fuel.\<close> Loops are structural or have a measure. Counters that the code bounds are natural numbers counted down: five resolve
  attempts within 30 s, fifteen polls of a confirmation, the attempts of \<^verbatim>\<open>withBoundedRetries\<close>, the retries of the intake pipeline, the pages of a
  backfill. The CBOR reader decreases on its input. A claim takes at most three statements. \<^verbatim>\<open>Math.random\<close> is a numerator over \<open>2 ^ 53\<close>. No fuel is
  assumed by a property: termination of the settlement, of the backfill run and of the claim is part of theirs.

  \<^bold>\<open>Not modelled.\<close> The adapters of \<^verbatim>\<open>packages/solana\<close> and \<^verbatim>\<open>packages/evm\<close> are calls of third-party chain libraries and RPC servers: their results are ports,
  and of their code only the read of the nonce is a definition. EVM activation and execution (\<^verbatim>\<open>account/evm-activation.service.ts\<close>), the
  registration, debits and account reconciliation of \<^verbatim>\<open>fiat-subaccount.service.ts\<close>, login and WebAuthn ceremonies, mail, HTTP controllers and guards (except
  the queue's flush), the SDK clients and the web applications are not modelled: they are I/O, third-party protocols or user interface, and the
  state they share with the modelled services is reached through the modelled operations. Listings and dashboards read the tables and
  are left out where no decision depends on them. Console logging is not modelled; security events are, as rows. Row locks and serialisable
  transactions are assumed to serialise as PostgreSQL documents; SHA-256 of WebCrypto and \<^verbatim>\<open>createHash\<close> are parameters, and where a property needs it
  its hypothesis names collision freedom on the values compared.
\<close>

end
